(* ===== verification/Prelude.thy ===== *)
theory Prelude
  imports Main "HOL-Library.Word" "HOL-Library.Multiset" "HOL-Library.List_Lexorder"
    "HOL-Library.Char_ord"
begin

text \<open>
  Shared ground of the development: the Go operations on strings, slices and integers that
  the operator's sources call, as executable functions, with the generic lemmas the component
  theories rest on. A Go string is a \<open>string\<close> of bytes; a slice is a list; a pointer that
  may be nil is an \<open>option\<close>; an error return is the left side of a sum.
\<close>

named_theorems go_simps \<open>equations that evaluate the modelled Go library calls\<close>

section \<open>Integers\<close>

text \<open>Two's complement wrap-around of Go's \<open>int32\<close> and of the conversion \<open>uint16(x)\<close>.\<close>

definition wrap32 :: "int \<Rightarrow> int" where
  "wrap32 x = (x + 2147483648) mod 4294967296 - 2147483648"

definition to_uint16 :: "int \<Rightarrow> int" where
  "to_uint16 x = x mod 65536"

lemma wrap32_id [go_simps]: "- 2147483648 \<le> x \<Longrightarrow> x < 2147483648 \<Longrightarrow> wrap32 x = x"
  by (simp add: wrap32_def)

lemma wrap32_range: "- 2147483648 \<le> wrap32 x \<and> wrap32 x < 2147483648"
  by (simp add: wrap32_def)

lemma to_uint16_id [go_simps]: "0 \<le> x \<Longrightarrow> x < 65536 \<Longrightarrow> to_uint16 x = x"
  by (simp add: to_uint16_def)

lemma to_uint16_range: "0 \<le> to_uint16 x \<and> to_uint16 x < 65536"
  by (simp add: to_uint16_def)

section \<open>Decimal conversions: strconv.Itoa and strconv.ParseUint\<close>

definition digit_char :: "nat \<Rightarrow> char" where
  "digit_char d = char_of (48 + d)"

definition digit_val :: "char \<Rightarrow> nat option" where
  "digit_val c = (let n = of_char c :: nat in if 48 \<le> n \<and> n \<le> 57 then Some (n - 48) else None)"

fun show_nat :: "nat \<Rightarrow> string" where
  "show_nat n = (if n < 10 then [digit_char n] else show_nat (n div 10) @ [digit_char (n mod 10)])"

declare show_nat.simps [simp del]

definition itoa :: "int \<Rightarrow> string" where
  "itoa i = (if i < 0 then ''-'' @ show_nat (nat (- i)) else show_nat (nat i))"

datatype num_error = ErrSyntax | ErrRange

text \<open>
  \<open>strconv.ParseUint(s, 10, bits)\<close> with \<open>max\<close> the largest value of the width: the loop
  stops at the first byte that is no digit (syntax error) or that takes the value over
  \<open>max\<close> (range error), whichever comes first.
\<close>

fun parse_uint_loop :: "nat \<Rightarrow> nat \<Rightarrow> string \<Rightarrow> num_error + nat" where
  "parse_uint_loop mx acc [] = Inr acc"
| "parse_uint_loop mx acc (c # cs) =
     (case digit_val c of
        None \<Rightarrow> Inl ErrSyntax
      | Some d \<Rightarrow> if mx < acc * 10 + d then Inl ErrRange else parse_uint_loop mx (acc * 10 + d) cs)"

definition parse_uint :: "nat \<Rightarrow> string \<Rightarrow> num_error + nat" where
  "parse_uint mx s = (if s = [] then Inl ErrSyntax else parse_uint_loop mx 0 s)"

lemma digit_val_char [simp]: "d < 10 \<Longrightarrow> digit_val (digit_char d) = Some d"
  by (simp add: digit_val_def digit_char_def)

lemma digit_val_bound: "digit_val c = Some d \<Longrightarrow> d < 10"
  by (auto simp: digit_val_def Let_def split: if_splits)

lemma parse_uint_loop_le: "acc \<le> mx \<Longrightarrow> parse_uint_loop mx acc s = Inr n \<Longrightarrow> n \<le> mx"
  by (induction s arbitrary: acc) (fastforce simp: not_less split: option.splits if_splits)+

lemma parse_uint_le: "parse_uint mx s = Inr n \<Longrightarrow> n \<le> mx"
  by (auto simp: parse_uint_def intro: parse_uint_loop_le[of 0] split: if_splits)

lemma parse_uint_digits:
  "parse_uint_loop mx acc s = Inr n \<Longrightarrow> c \<in> set s \<Longrightarrow> digit_val c \<noteq> None"
  by (induction s arbitrary: acc) (auto split: option.splits if_splits)

lemma parse_uint_loop_append:
  "parse_uint_loop mx acc (xs @ ys) =
     (case parse_uint_loop mx acc xs of Inl e \<Rightarrow> Inl e | Inr m \<Rightarrow> parse_uint_loop mx m ys)"
  by (induction xs arbitrary: acc) (auto split: option.splits)

lemma show_nat_ne [simp]: "show_nat n \<noteq> []"
  by (subst show_nat.simps) simp

lemma parse_show_loop: "n \<le> mx \<Longrightarrow> parse_uint_loop mx 0 (show_nat n) = Inr n"
proof (induction n rule: show_nat.induct)
  case (1 n)
  show ?case
  proof (cases "n < 10")
    case True
    with 1 show ?thesis by (subst show_nat.simps) simp
  next
    case False
    with 1 have "parse_uint_loop mx 0 (show_nat (n div 10)) = Inr (n div 10)" by simp
    with 1 False show ?thesis by (subst show_nat.simps) (simp add: parse_uint_loop_append)
  qed
qed

lemma parse_uint_show [simp]: "n \<le> mx \<Longrightarrow> parse_uint mx (show_nat n) = Inr n"
  by (simp add: parse_uint_def parse_show_loop)

lemma show_nat_digits: "c \<in> set (show_nat n) \<Longrightarrow> digit_val c \<noteq> None"
  using parse_uint_digits[OF parse_show_loop[of n n]] by blast

section \<open>Strings: the functions of Go's package strings\<close>

definition has_prefix :: "string \<Rightarrow> string \<Rightarrow> bool" where
  "has_prefix s p \<longleftrightarrow> take (length p) s = p"

definition has_suffix :: "string \<Rightarrow> string \<Rightarrow> bool" where
  "has_suffix s p \<longleftrightarrow> has_prefix (rev s) (rev p)"

definition trim_prefix :: "string \<Rightarrow> string \<Rightarrow> string" where
  "trim_prefix s p = (if has_prefix s p then drop (length p) s else s)"

definition trim_suffix :: "string \<Rightarrow> string \<Rightarrow> string" where
  "trim_suffix s p = (if has_suffix s p then take (length s - length p) s else s)"

fun str_contains :: "string \<Rightarrow> string \<Rightarrow> bool" where
  "str_contains [] p = (p = [])"
| "str_contains (c # cs) p = (has_prefix (c # cs) p \<or> str_contains cs p)"

text \<open>\<open>strings.Split\<close> and \<open>strings.SplitN(s, sep, 2)\<close> for a separator of one byte.\<close>

fun split_on :: "char \<Rightarrow> string \<Rightarrow> string list" where
  "split_on sep [] = [[]]"
| "split_on sep (c # cs) =
     (if c = sep then [] # split_on sep cs
      else case split_on sep cs of [] \<Rightarrow> [[c]] | p # ps \<Rightarrow> (c # p) # ps)"

definition split2 :: "char \<Rightarrow> string \<Rightarrow> string list" where
  "split2 sep s =
     (if sep \<in> set s then [takeWhile (\<lambda>c. c \<noteq> sep) s, tl (dropWhile (\<lambda>c. c \<noteq> sep) s)] else [s])"

fun str_join :: "string \<Rightarrow> string list \<Rightarrow> string" where
  "str_join sep [] = []"
| "str_join sep [x] = x"
| "str_join sep (x # y # ys) = x @ sep @ str_join sep (y # ys)"

definition to_lower :: "string \<Rightarrow> string" where
  "to_lower s = map (\<lambda>c. let n = of_char c :: nat in if 65 \<le> n \<and> n \<le> 90 then char_of (n + 32) else c) s"

text \<open>\<open>strings.Replace(s, old, new, 1)\<close> and \<open>strings.ReplaceAll\<close>, for an \<open>old\<close> that is not empty.\<close>

fun str_replace_first :: "string \<Rightarrow> string \<Rightarrow> string \<Rightarrow> string" where
  "str_replace_first old n [] = []"
| "str_replace_first old n (c # cs) =
     (if has_prefix (c # cs) old then n @ drop (length old) (c # cs) else c # str_replace_first old n cs)"

function str_replace_all :: "string \<Rightarrow> string \<Rightarrow> string \<Rightarrow> string" where
  "str_replace_all old n s =
     (if s = [] \<or> old = [] then s
      else if has_prefix s old then n @ str_replace_all old n (drop (length old) s)
      else hd s # str_replace_all old n (tl s))"
  by pat_completeness auto
termination
  by (relation "measure (\<lambda>(old, n, s). length s)") auto

declare str_replace_all.simps [simp del]

lemma has_prefix_append [simp]: "has_prefix (p @ s) p"
  by (simp add: has_prefix_def)

lemma str_contains_append_left: "str_contains t p \<Longrightarrow> str_contains (s @ t) p"
  by (induction s) auto

lemma has_prefix_mono: "has_prefix s p \<Longrightarrow> has_prefix (s @ t) p"
proof -
  assume "has_prefix s p"
  then have e: "take (length p) s = p" by (simp add: has_prefix_def)
  then have "length p \<le> length s" by (metis length_take min_def nat_le_linear)
  with e show ?thesis by (simp add: has_prefix_def)
qed

lemma str_contains_char: "str_contains s [c] \<longleftrightarrow> c \<in> set s"
  by (induction s) (auto simp: has_prefix_def)

lemma split_on_ne [simp]: "split_on sep s \<noteq> []"
  by (induction s) (auto split: list.splits)

lemma split_on_no_sep: "sep \<notin> set s \<Longrightarrow> split_on sep s = [s]"
  by (induction s) auto

lemma split_on_app: "sep \<notin> set a \<Longrightarrow> split_on sep (a @ sep # b) = a # split_on sep b"
  by (induction a) auto

lemma join_split_on: "str_join [sep] (split_on sep s) = s"
proof (induction s)
  case (Cons c cs)
  show ?case
  proof (cases "split_on sep cs")
    case Nil
    then show ?thesis by simp
  next
    case (Cons p ps)
    with \<open>str_join [sep] (split_on sep cs) = cs\<close> show ?thesis by (cases ps) auto
  qed
qed simp

lemma split2_app: "sep \<notin> set a \<Longrightarrow> split2 sep (a @ sep # b) = [a, b]"
  by (simp add: split2_def takeWhile_append2 dropWhile_append)

section \<open>Slices\<close>

text \<open>\<open>slices.Index\<close>: the first position of an element, \<open>None\<close> for Go's -1.\<close>

fun slice_index :: "'a list \<Rightarrow> 'a \<Rightarrow> nat option" where
  "slice_index [] x = None"
| "slice_index (y # ys) x = (if y = x then Some 0 else map_option Suc (slice_index ys x))"

lemma slice_index_None [simp]: "slice_index xs x = None \<longleftrightarrow> x \<notin> set xs"
  by (induction xs) auto

section \<open>Options and maps\<close>

text \<open>Reading a nil-able pointer with a default, as \<open>if p != nil { v = *p }\<close> does.\<close>

definition ptr_or :: "'a option \<Rightarrow> 'a \<Rightarrow> 'a" where
  "ptr_or p d = (case p of None \<Rightarrow> d | Some v \<Rightarrow> v)"

lemma ptr_or_simps [simp]: "ptr_or None d = d" "ptr_or (Some v) d = v"
  by (simp_all add: ptr_or_def)

text \<open>A map ranged over in an unspecified order: the keys, each exactly once.\<close>

definition enumerates :: "'k list \<Rightarrow> ('k \<rightharpoonup> 'v) \<Rightarrow> bool" where
  "enumerates ks m \<longleftrightarrow> distinct ks \<and> set ks = dom m"

lemma enumerates_perm:
  "enumerates ks m \<Longrightarrow> enumerates ks' m \<Longrightarrow> mset ks = mset ks'"
  by (metis enumerates_def set_eq_iff_mset_eq_distinct)

lemma enumerates_in: "enumerates ks m \<Longrightarrow> k \<in> set ks \<Longrightarrow> \<exists>v. m k = Some v"
  by (auto simp: enumerates_def)

end
