(* ===== verification/FC_Types.thy ===== *)
theory FC_Types
  imports Prelude
begin

text \<open>
  The FlowCollector custom resource, as declared in
  \<open>api/flowcollector/v1beta2/flowcollector_types.go\<close> and
  \<open>flowcollector_alert_types.go\<close>: one record per Go struct, with every field, and one datatype
  per Go string enumeration. An enumeration has the values its CRD schema admits and, where the
  field is not a pointer, a constructor for Go's zero value. A pointer field is an \<open>option\<close>;
  a map is a partial function; \<open>metav1.Duration\<close> is its count of nanoseconds.
  Kubernetes values that the operator only carries along or compares for equality
  (resource requirements, affinity, autoscaler metric specs) are opaque tokens.
\<close>

section \<open>Kubernetes values\<close>

datatype opaque = Opaque nat

type_synonym duration = int
type_synonym string_map = "string \<rightharpoonup> string"

datatype intstr_kind = IntKind | StringKind

text \<open>\<open>intstr.IntOrString\<close> of apimachinery: a tag and both fields.\<close>

record IntOrString =
  ios_Type :: intstr_kind
  ios_IntVal :: int
  ios_StrVal :: string

definition intstr_String :: "IntOrString \<Rightarrow> string" where
  "intstr_String v = (if ios_Type v = StringKind then ios_StrVal v else itoa (ios_IntVal v))"

record Toleration =
  tol_Key :: string
  tol_Operator :: string
  tol_Value :: string
  tol_Effect :: string
  tol_TolerationSeconds :: "int option"

section \<open>Enumerations\<close>

datatype FlowCollectorDeploymentModel =
  DeploymentModelUnset | DeploymentModelDirect | DeploymentModelKafka | DeploymentModelService

datatype FlowCollectorAgentType = AgentTypeUnset | AgentIPFIX | AgentEBPF

datatype AgentFeature =
  DNSTracking | EbpfManager | FlowRTT | IPSec | NetworkEvents | PacketDrop
| PacketTranslation | SecondaryNetworks | TLSTracking | UDNMapping

datatype EBPFAgentAlert = AlertDroppedFlows

datatype TLSConfigType = TLSTypeUnset | TLSDisabled | TLSProvided | TLSAuto | TLSAutoMTLS

datatype FLPLogTypes = LogTypeFlows | LogTypeConversations | LogTypeEndedConversations | LogTypeAll

datatype FLPDeduperMode = FLPDeduperModeUnset | FLPDeduperDisabled | FLPDeduperDrop | FLPDeduperSample

datatype FLPFilterTarget =
  FLPFilterTargetAll | FLPFilterTargetLoki | FLPFilterTargetMetrics | FLPFilterTargetExporters

datatype HPAStatus = HPAStatusUnset | HPAStatusDisabled | HPAStatusEnabled

datatype SliceCollectionMode = CollectionModeUnset | CollectionAlwaysCollect | CollectionAllowList

datatype LokiAuthToken =
  LokiAuthUnset | LokiAuthDisabled | LokiAuthUseHostToken | LokiAuthForwardUserToken

datatype LokiMode =
  LokiModeUnset | LokiModeManual | LokiModeLokiStack | LokiModeMonolithic | LokiModeMicroservices

datatype PrometheusMode = PromModeUnset | PromModeAuto | PromModeManual

datatype MountableType = RefTypeUnset | RefTypeSecret | RefTypeConfigMap

datatype SASLType = SASLTypeUnset | SASLDisabled | SASLPlain | SASLScramSHA512

datatype SecondaryNetworkIndex =
  SecondaryNetworkIndexByMAC | SecondaryNetworkIndexByIP | SecondaryNetworkIndexByInterface

datatype ExporterType = ExporterTypeUnset | KafkaExporter | IpfixExporter | OpenTelemetryExporter

datatype ExecutionMode = ExecutionModeUnset | Running | OnHold

datatype HealthRuleTemplate =
  AlertNoFlows | AlertLokiError
| HealthRulePacketDropsByKernel | HealthRulePacketDropsByDevice | HealthRuleIPsecErrors
| HealthRuleNetpolDenied | HealthRuleLatencyHighTrend | HealthRuleDNSErrors
| HealthRuleDNSNxDomain | HealthRuleExternalEgressHighTrend | HealthRuleExternalIngressHighTrend
| HealthRuleIngress5xxErrors | HealthRuleIngressHTTPLatencyTrend | HealthRuleTLSInsecureVersion

datatype HealthRuleGroupBy = GroupByNone | GroupByNode | GroupByNamespace | GroupByWorkload

datatype HealthRuleMode = HealthRuleModeUnset | ModeAlert | ModeRecording

section \<open>Health rules\<close>

record HealthRuleThresholds =
  thr_Info :: string
  thr_Warning :: string
  thr_Critical :: string

record HealthRuleVariant =
  var_LowVolumeThreshold :: string
  var_Thresholds :: HealthRuleThresholds
  var_GroupBy :: HealthRuleGroupBy
  var_TrendOffset :: "duration option"
  var_TrendDuration :: "duration option"
  var_Mode :: "HealthRuleMode option"

record FLPHealthRule =
  hr_Template :: HealthRuleTemplate
  hr_Mode :: HealthRuleMode
  hr_Variants :: "HealthRuleVariant list"

section \<open>References, TLS, scheduling\<close>

record FileReference =
  fref_Type :: MountableType
  fref_Name :: string
  fref_Namespace :: string
  fref_File :: string

record CertificateReference =
  cref_Type :: MountableType
  cref_Name :: string
  cref_Namespace :: string
  cref_CertFile :: string
  cref_CertKey :: string

record ClientTLS =
  ctls_Enable :: bool
  ctls_InsecureSkipVerify :: bool
  ctls_CACert :: CertificateReference
  ctls_UserCert :: CertificateReference

record ServerTLS =
  stls_Type :: TLSConfigType
  stls_Provided :: "CertificateReference option"
  stls_InsecureSkipVerify :: bool
  stls_ProvidedCAFile :: "FileReference option"

record ClientServerTLS =
  cstls_ClientCert :: "CertificateReference option"
  cstls_ServerCert :: "CertificateReference option"
  cstls_CAFile :: "FileReference option"

record ProcessorServiceConfig =
  svc_TLSType :: TLSConfigType
  svc_ProvidedCertificates :: "ClientServerTLS option"

record InformerCacheProxyTLSConfig =
  icptls_Type :: TLSConfigType
  icptls_ProvidedCertificates :: "ClientServerTLS option"

record SASLConfig =
  sasl_Type :: SASLType
  sasl_ClientIDReference :: FileReference
  sasl_ClientSecretReference :: FileReference

record SchedulingConfig =
  sched_Tolerations :: "Toleration list option"
  sched_NodeSelector :: "string_map option"
  sched_Affinity :: "opaque option"
  sched_PriorityClassName :: string

record FlowCollectorHPA =
  hpa_Status :: HPAStatus
  hpa_MinReplicas :: "int option"
  hpa_MaxReplicas :: int
  hpa_Metrics :: "opaque list"

section \<open>Agent\<close>

record MetricsServerConfig =
  msc_Port :: "int option"
  msc_TLS :: ServerTLS
  msc_ScrapeInterval :: "duration option"

record ClusterNetworkOperatorConfig =
  cno_Namespace :: string

record OVNKubernetesConfig =
  ovnk_Namespace :: string
  ovnk_DaemonSetName :: string
  ovnk_ContainerName :: string

record FlowCollectorIPFIX =
  ipfix_CacheActiveTimeout :: string
  ipfix_CacheMaxFlows :: int
  ipfix_Sampling :: int
  ipfix_ForceSampleAll :: bool
  ipfix_ClusterNetworkOperator :: ClusterNetworkOperatorConfig
  ipfix_OVNKubernetes :: OVNKubernetesConfig

record EBPFMetrics =
  em_Server :: MetricsServerConfig
  em_Enable :: "bool option"
  em_DisableAlerts :: "EBPFAgentAlert list"

record EBPFFlowFilterRule =
  rule_CIDR :: string
  rule_Action :: string
  rule_Protocol :: string
  rule_Direction :: string
  rule_TCPFlags :: string
  rule_SourcePorts :: IntOrString
  rule_DestPorts :: IntOrString
  rule_Ports :: IntOrString
  rule_PeerIP :: string
  rule_PeerCIDR :: string
  rule_ICMPCode :: "int option"
  rule_ICMPType :: "int option"
  rule_PktDrops :: "bool option"
  rule_Sampling :: "int option"

record EBPFFlowFilter =
  ff_Enable :: "bool option"
  ff_Inline :: EBPFFlowFilterRule
  ff_Rules :: "EBPFFlowFilterRule list"

record AdvancedAgentConfig =
  aac_Env :: string_map
  aac_Scheduling :: "SchedulingConfig option"
  aac_CapOverride :: "string list"

record FlowCollectorEBPF =
  ebpf_ImagePullPolicy :: string
  ebpf_Resources :: opaque
  ebpf_Sampling :: "int option"
  ebpf_CacheActiveTimeout :: string
  ebpf_CacheMaxFlows :: int
  ebpf_Interfaces :: "string list"
  ebpf_ExcludeInterfaces :: "string list"
  ebpf_LogLevel :: string
  ebpf_Privileged :: bool
  ebpf_KafkaBatchSize :: int
  ebpf_Advanced :: "AdvancedAgentConfig option"
  ebpf_Features :: "AgentFeature list"
  ebpf_Metrics :: EBPFMetrics
  ebpf_FlowFilter :: "EBPFFlowFilter option"
  ebpf_DNSTrackingPorts :: "int list"

record FlowCollectorAgent =
  agent_Type :: FlowCollectorAgentType
  agent_IPFIX :: FlowCollectorIPFIX
  agent_EBPF :: FlowCollectorEBPF

section \<open>Processor (flowlogs-pipeline)\<close>

record FLPMetrics =
  fm_Server :: MetricsServerConfig
  fm_IncludeList :: "string list option"
  fm_AdditionalIncludeList :: "string list option"
  fm_DisableAlerts :: "HealthRuleTemplate list"
  fm_HealthRules :: "FLPHealthRule list option"

record SubnetLabel =
  sl_CIDRs :: "string list"
  sl_Name :: string

record SubnetLabels =
  sls_OpenShiftAutoDetect :: "bool option"
  sls_AutoDetect :: "bool option"
  sls_CustomLabels :: "SubnetLabel list"

record FLPDeduper =
  dedup_Mode :: FLPDeduperMode
  dedup_Sampling :: int

record FLPFilterSet =
  fs_Query :: string
  fs_OutputTarget :: FLPFilterTarget
  fs_Sampling :: int

record SlicesConfig =
  slices_Enable :: bool
  slices_CollectionMode :: SliceCollectionMode
  slices_NamespacesAllowList :: "string list"

record AdvancedInformerCacheProxyConfig =
  aicp_ResyncInterval :: "int option"
  aicp_BatchSize :: "int option"
  aicp_SendTimeout :: "int option"
  aicp_UpdateBufferSize :: "int option"
  aicp_ProcessorPort :: "int option"

record FlowCollectorInformerCacheProxy =
  icp_Enabled :: "bool option"
  icp_Replicas :: "int option"
  icp_Resources :: opaque
  icp_Advanced :: "AdvancedInformerCacheProxyConfig option"
  icp_TLS :: "InformerCacheProxyTLSConfig option"

record SecondaryNetwork =
  sn_Name :: string
  sn_Index :: "SecondaryNetworkIndex list"

record AdvancedProcessorConfig =
  apc_Env :: string_map
  apc_Port :: "int option"
  apc_HealthPort :: "int option"
  apc_ProfilePort :: "int option"
  apc_EnableKubeProbes :: "bool option"
  apc_DropUnusedFields :: "bool option"
  apc_ConversationHeartbeatInterval :: "duration option"
  apc_ConversationEndTimeout :: "duration option"
  apc_ConversationTerminatingTimeout :: "duration option"
  apc_Scheduling :: "SchedulingConfig option"
  apc_SecondaryNetworks :: "SecondaryNetwork list"

record FlowCollectorFLP =
  flp_ImagePullPolicy :: string
  flp_Metrics :: FLPMetrics
  flp_LogLevel :: string
  flp_Resources :: opaque
  flp_KafkaConsumerReplicas :: "int option"
  flp_KafkaConsumerAutoscaler :: FlowCollectorHPA
  flp_ConsumerReplicas :: "int option"
  flp_UnmanagedReplicas :: bool
  flp_KafkaConsumerQueueCapacity :: int
  flp_KafkaConsumerBatchSize :: int
  flp_LogTypes :: "FLPLogTypes option"
  flp_ClusterName :: string
  flp_MultiClusterDeployment :: "bool option"
  flp_AddZone :: "bool option"
  flp_SubnetLabels :: SubnetLabels
  flp_BgpEnrichment :: "bool option"
  flp_Deduper :: "FLPDeduper option"
  flp_Filters :: "FLPFilterSet list"
  flp_SlicesConfig :: "SlicesConfig option"
  flp_Service :: "ProcessorServiceConfig option"
  flp_InformerCacheProxy :: "FlowCollectorInformerCacheProxy option"
  flp_Advanced :: "AdvancedProcessorConfig option"

section \<open>Kafka, exporters\<close>

record FlowCollectorKafka =
  kafka_Address :: string
  kafka_Topic :: string
  kafka_Compression :: string
  kafka_TLS :: ClientTLS
  kafka_SASL :: SASLConfig

record FlowCollectorIPFIXReceiver =
  ipfixr_TargetHost :: string
  ipfixr_TargetPort :: int
  ipfixr_Transport :: string
  ipfixr_EnterpriseID :: int

record FlowCollectorOpenTelemetryLogs =
  otl_Enable :: "bool option"

record FlowCollectorOpenTelemetryMetrics =
  otm_Enable :: "bool option"
  otm_PushTimeInterval :: "duration option"

record GenericTransformRule =
  gtr_Input :: string
  gtr_Output :: string
  gtr_Multiplier :: int

record FlowCollectorOpenTelemetry =
  ot_TargetHost :: string
  ot_TargetPort :: int
  ot_Protocol :: string
  ot_Headers :: string_map
  ot_TLS :: ClientTLS
  ot_FieldsMapping :: "GenericTransformRule list option"
  ot_Logs :: FlowCollectorOpenTelemetryLogs
  ot_Metrics :: FlowCollectorOpenTelemetryMetrics

record FlowCollectorExporter =
  exp_Type :: ExporterType
  exp_Kafka :: FlowCollectorKafka
  exp_IPFIX :: FlowCollectorIPFIXReceiver
  exp_OpenTelemetry :: FlowCollectorOpenTelemetry

section \<open>Loki, Prometheus, console plugin\<close>

record LokiManualParams =
  lman_IngesterURL :: string
  lman_QuerierURL :: string
  lman_StatusURL :: string
  lman_TenantID :: string
  lman_AuthToken :: LokiAuthToken
  lman_TLS :: ClientTLS
  lman_StatusTLS :: ClientTLS

record LokiMicroservicesParams =
  lmic_IngesterURL :: string
  lmic_QuerierURL :: string
  lmic_TenantID :: string
  lmic_TLS :: ClientTLS

record LokiMonolithParams =
  lmon_InstallDemoLoki :: "bool option"
  lmon_URL :: string
  lmon_TenantID :: string
  lmon_TLS :: ClientTLS

record LokiStackRef =
  lstk_Name :: string
  lstk_Namespace :: string

record AdvancedLokiConfig =
  alc_WriteMinBackoff :: "duration option"
  alc_WriteMaxBackoff :: "duration option"
  alc_WriteMaxRetries :: "int option"
  alc_StaticLabels :: "string_map option"
  alc_ExcludeLabels :: "string list"

record FlowCollectorLoki =
  loki_Enable :: "bool option"
  loki_Mode :: LokiMode
  loki_Manual :: LokiManualParams
  loki_Microservices :: LokiMicroservicesParams
  loki_Monolithic :: LokiMonolithParams
  loki_LokiStack :: LokiStackRef
  loki_ReadTimeout :: "duration option"
  loki_WriteTimeout :: "duration option"
  loki_WriteBatchWait :: "duration option"
  loki_WriteBatchSize :: int
  loki_Advanced :: "AdvancedLokiConfig option"

record AlertManagerQuerierManual =
  amq_URL :: string
  amq_TLS :: ClientTLS

record PrometheusQuerierManual =
  pqm_URL :: string
  pqm_TLS :: ClientTLS
  pqm_ForwardUserToken :: bool
  pqm_AlertManager :: "AlertManagerQuerierManual option"

record PrometheusQuerier =
  pq_Enable :: "bool option"
  pq_Mode :: PrometheusMode
  pq_Manual :: PrometheusQuerierManual
  pq_Timeout :: "duration option"

record FlowCollectorPrometheus =
  prom_Querier :: PrometheusQuerier

record ConsolePluginPortConfig =
  cpp_Enable :: "bool option"
  cpp_PortNames :: string_map

record QuickFilter =
  qf_Name :: string
  qf_Filter :: string_map
  qf_Default :: bool

record AdvancedPluginConfig =
  aplug_Env :: string_map
  aplug_Args :: "string list"
  aplug_Register :: "bool option"
  aplug_Port :: "int option"
  aplug_Scheduling :: "SchedulingConfig option"

record FlowCollectorConsolePlugin =
  cons_Enable :: "bool option"
  cons_Standalone :: "bool option"
  cons_Replicas :: "int option"
  cons_UnmanagedReplicas :: bool
  cons_ImagePullPolicy :: string
  cons_Resources :: opaque
  cons_LogLevel :: string
  cons_Autoscaler :: FlowCollectorHPA
  cons_PortNaming :: ConsolePluginPortConfig
  cons_QuickFilters :: "QuickFilter list"
  cons_Advanced :: "AdvancedPluginConfig option"

section \<open>The whole specification\<close>

record NetworkPolicy =
  np_Enable :: "bool option"
  np_AdditionalNamespaces :: "string list"

record FlowCollectorExecution =
  exec_Mode :: ExecutionMode

record FlowCollectorSpec =
  spec_Namespace :: string
  spec_Agent :: FlowCollectorAgent
  spec_Processor :: FlowCollectorFLP
  spec_Loki :: FlowCollectorLoki
  spec_Prometheus :: FlowCollectorPrometheus
  spec_ConsolePlugin :: FlowCollectorConsolePlugin
  spec_DeploymentModel :: FlowCollectorDeploymentModel
  spec_Kafka :: FlowCollectorKafka
  spec_Exporters :: "FlowCollectorExporter list"
  spec_NetworkPolicy :: NetworkPolicy
  spec_Execution :: FlowCollectorExecution

end
