(* ===== verification/FC_Helper.thy ===== *)
theory FC_Helper
  imports FC_Types
begin

text \<open>
  The accessors of \<open>api/flowcollector/v1beta2/helper.go\<close>: how every optional field of a
  FlowCollector is read, with its in-code default, and the derived decisions the controllers
  take from a specification. The receiver of each Go method is the first argument.
\<close>

section \<open>Deployment-level accessors\<close>

datatype NetworkType = UnknownCNI | OpenShiftSDN | OVNKubernetes | Kindnet | OtherCNI string

datatype Vendor = VendorOther | VendorOpenShift | VendorOpenShiftDownstream

abbreviation ebpf_of :: "FlowCollectorSpec \<Rightarrow> FlowCollectorEBPF" where
  "ebpf_of s \<equiv> agent_EBPF (spec_Agent s)"

definition OnHold_spec :: "FlowCollectorSpec \<Rightarrow> bool" where
  "OnHold_spec s \<longleftrightarrow> exec_Mode (spec_Execution s) = OnHold"

definition GetSampling :: "FlowCollectorSpec \<Rightarrow> int" where
  "GetSampling s = ptr_or (ebpf_Sampling (ebpf_of s)) 50"

definition UseKafka :: "FlowCollectorSpec \<Rightarrow> bool" where
  "UseKafka s \<longleftrightarrow> spec_DeploymentModel s = DeploymentModelKafka"

fun has_kafka_exporter :: "FlowCollectorExporter list \<Rightarrow> bool" where
  "has_kafka_exporter [] = False"
| "has_kafka_exporter (ex # exs) = (if exp_Type ex = KafkaExporter then True else has_kafka_exporter exs)"

definition HasKafkaExporter :: "FlowCollectorSpec \<Rightarrow> bool" where
  "HasKafkaExporter s = has_kafka_exporter (spec_Exporters s)"

definition UseSASL :: "SASLConfig \<Rightarrow> bool" where
  "UseSASL cfg \<longleftrightarrow> sasl_Type cfg = SASLPlain \<or> sasl_Type cfg = SASLScramSHA512"

definition UseLoki :: "FlowCollectorSpec \<Rightarrow> bool" where
  "UseLoki s = ptr_or (loki_Enable (spec_Loki s)) True"

definition UseLokiDev :: "FlowCollectorSpec \<Rightarrow> bool" where
  "UseLokiDev s \<longleftrightarrow> UseLoki s \<and> loki_Mode (spec_Loki s) = LokiModeMonolithic
     \<and> lmon_InstallDemoLoki (loki_Monolithic (spec_Loki s)) = Some True"

definition UsePrometheus :: "FlowCollectorSpec \<Rightarrow> bool" where
  "UsePrometheus s = ptr_or (pq_Enable (prom_Querier (spec_Prometheus s))) True"

definition UseWebConsole :: "FlowCollectorSpec \<Rightarrow> bool" where
  "UseWebConsole s \<longleftrightarrow> (UseLoki s \<or> UsePrometheus s) \<and> ptr_or (cons_Enable (spec_ConsolePlugin s)) True"

definition UseStandaloneConsole :: "FlowCollectorSpec \<Rightarrow> bool \<Rightarrow> bool" where
  "UseStandaloneConsole s hasPluginAPI \<longleftrightarrow>
     cons_Standalone (spec_ConsolePlugin s) = Some True
     \<or> cons_Standalone (spec_ConsolePlugin s) = None \<and> \<not> hasPluginAPI"

definition NeedsConsolePluginDeployment :: "FlowCollectorSpec \<Rightarrow> bool \<Rightarrow> bool" where
  "NeedsConsolePluginDeployment s hasPluginAPI \<longleftrightarrow>
     UseWebConsole s \<and> (hasPluginAPI \<or> UseStandaloneConsole s hasPluginAPI) \<and> \<not> OnHold_spec s"

definition UseHostNetwork :: "FlowCollectorSpec \<Rightarrow> bool" where
  "UseHostNetwork s \<longleftrightarrow> spec_DeploymentModel s = DeploymentModelDirect"

section \<open>Agent features\<close>

fun feature_in :: "AgentFeature list \<Rightarrow> AgentFeature \<Rightarrow> bool" where
  "feature_in [] feature = False"
| "feature_in (f # fs) feature = (if f = feature then True else feature_in fs feature)"

definition IsAgentFeatureEnabled :: "FlowCollectorEBPF \<Rightarrow> AgentFeature \<Rightarrow> bool" where
  "IsAgentFeatureEnabled e feature = feature_in (ebpf_Features e) feature"

lemma feature_in_set: "feature_in fs f \<longleftrightarrow> f \<in> set fs"
  by (induction fs) auto

lemma IsAgentFeatureEnabled_iff [go_simps]:
  "IsAgentFeatureEnabled e f \<longleftrightarrow> f \<in> set (ebpf_Features e)"
  by (simp add: IsAgentFeatureEnabled_def feature_in_set)

definition IsPktDropEnabled :: "FlowCollectorEBPF \<Rightarrow> bool" where
  "IsPktDropEnabled e = IsAgentFeatureEnabled e PacketDrop"

definition IsDNSTrackingEnabled :: "FlowCollectorEBPF \<Rightarrow> bool" where
  "IsDNSTrackingEnabled e = IsAgentFeatureEnabled e DNSTracking"

definition GetDNSTrackingPorts :: "FlowCollectorEBPF \<Rightarrow> Vendor \<Rightarrow> string" where
  "GetDNSTrackingPorts e vendor =
     (if ebpf_DNSTrackingPorts e = [] then
        (case vendor of
           VendorOpenShift \<Rightarrow> ''53,5353''
         | VendorOpenShiftDownstream \<Rightarrow> ''53,5353''
         | VendorOther \<Rightarrow> ''53'')
      else str_join '','' (map itoa (ebpf_DNSTrackingPorts e)))"

definition IsFlowRTTEnabled :: "FlowCollectorEBPF \<Rightarrow> bool" where
  "IsFlowRTTEnabled e = IsAgentFeatureEnabled e FlowRTT"

definition IsNetworkEventsEnabled :: "FlowCollectorEBPF \<Rightarrow> bool" where
  "IsNetworkEventsEnabled e = IsAgentFeatureEnabled e NetworkEvents"

definition IsPacketTranslationEnabled :: "FlowCollectorEBPF \<Rightarrow> bool" where
  "IsPacketTranslationEnabled e = IsAgentFeatureEnabled e PacketTranslation"

definition IsEbpfManagerEnabled :: "FlowCollectorEBPF \<Rightarrow> bool" where
  "IsEbpfManagerEnabled e = IsAgentFeatureEnabled e EbpfManager"

definition IsUDNMappingEnabled :: "FlowCollectorEBPF \<Rightarrow> bool" where
  "IsUDNMappingEnabled e = IsAgentFeatureEnabled e UDNMapping"

definition IsIPSecEnabled :: "FlowCollectorEBPF \<Rightarrow> bool" where
  "IsIPSecEnabled e = IsAgentFeatureEnabled e IPSec"

definition IsTLSTrackingEnabled :: "FlowCollectorEBPF \<Rightarrow> bool" where
  "IsTLSTrackingEnabled e = IsAgentFeatureEnabled e TLSTracking"

definition IsSecondaryNetworksEnabled :: "FlowCollectorEBPF \<Rightarrow> bool" where
  "IsSecondaryNetworksEnabled e \<longleftrightarrow> IsAgentFeatureEnabled e SecondaryNetworks \<or> ebpf_Privileged e"

definition IsEBPFMetricsEnabled :: "FlowCollectorEBPF \<Rightarrow> bool" where
  "IsEBPFMetricsEnabled e = ptr_or (em_Enable (ebpf_Metrics e)) True"

definition IsEBPFFlowFilterEnabled :: "FlowCollectorEBPF \<Rightarrow> bool" where
  "IsEBPFFlowFilterEnabled e =
     (case ebpf_FlowFilter e of None \<Rightarrow> False | Some ff \<Rightarrow> ff_Enable ff = Some True)"

lemmas feature_defs =
  IsPktDropEnabled_def IsDNSTrackingEnabled_def IsFlowRTTEnabled_def IsNetworkEventsEnabled_def
  IsPacketTranslationEnabled_def IsEbpfManagerEnabled_def IsUDNMappingEnabled_def
  IsIPSecEnabled_def IsTLSTrackingEnabled_def IsSecondaryNetworksEnabled_def

section \<open>Filters and processor options\<close>

fun rules_sampling :: "EBPFFlowFilterRule list \<Rightarrow> bool" where
  "rules_sampling [] = False"
| "rules_sampling (r # rs) =
     (if (case rule_Sampling r of None \<Rightarrow> False | Some n \<Rightarrow> n > 1) then True else rules_sampling rs)"

fun filters_sampling :: "FLPFilterSet list \<Rightarrow> bool" where
  "filters_sampling [] = False"
| "filters_sampling (f # fs) = (if fs_Sampling f > 1 then True else filters_sampling fs)"

definition HasFiltersSampling :: "FlowCollectorSpec \<Rightarrow> bool" where
  "HasFiltersSampling s \<longleftrightarrow>
     (case ebpf_FlowFilter (ebpf_of s) of None \<Rightarrow> False | Some ff \<Rightarrow> rules_sampling (ff_Rules ff))
     \<or> filters_sampling (flp_Filters (spec_Processor s))"

text \<open>
  The methods of \<open>*FlowCollectorFLP\<close> that test their receiver for nil are only called on the
  processor field of a specification, which is no pointer.
\<close>

definition HasConntrack :: "FlowCollectorFLP \<Rightarrow> bool" where
  "HasConntrack p = (case flp_LogTypes p of None \<Rightarrow> False | Some lt \<Rightarrow> lt \<noteq> LogTypeFlows)"

definition IsMultiClusterEnabled :: "FlowCollectorFLP \<Rightarrow> bool" where
  "IsMultiClusterEnabled p \<longleftrightarrow> flp_MultiClusterDeployment p = Some True"

definition IsZoneEnabled :: "FlowCollectorFLP \<Rightarrow> bool" where
  "IsZoneEnabled p \<longleftrightarrow> flp_AddZone p = Some True"

definition HasAutoDetectNetworks :: "FlowCollectorFLP \<Rightarrow> bool" where
  "HasAutoDetectNetworks p =
     (case sls_AutoDetect (flp_SubnetLabels p) of
        Some b \<Rightarrow> b
      | None \<Rightarrow> (case sls_OpenShiftAutoDetect (flp_SubnetLabels p) of Some b \<Rightarrow> b | None \<Rightarrow> True))"

definition IsSubnetLabelsEnabled :: "FlowCollectorFLP \<Rightarrow> bool" where
  "IsSubnetLabelsEnabled p \<longleftrightarrow>
     HasAutoDetectNetworks p \<or> 0 < length (sls_CustomLabels (flp_SubnetLabels p))"

definition IsBgpEnrichmentEnabled :: "FlowCollectorFLP \<Rightarrow> bool" where
  "IsBgpEnrichmentEnabled p \<longleftrightarrow> flp_BgpEnrichment p = Some True"

definition GetSecondaryIndexes :: "FlowCollectorSpec \<Rightarrow> SecondaryNetwork list" where
  "GetSecondaryIndexes s =
     (case flp_Advanced (spec_Processor s) of
        Some a \<Rightarrow> if apc_SecondaryNetworks a \<noteq> [] then apc_SecondaryNetworks a else
          (if IsSecondaryNetworksEnabled (ebpf_of s) then
             [\<lparr>sn_Name = [], sn_Index = [SecondaryNetworkIndexByInterface, SecondaryNetworkIndexByIP]\<rparr>,
              \<lparr>sn_Name = [], sn_Index = [SecondaryNetworkIndexByInterface, SecondaryNetworkIndexByMAC]\<rparr>]
           else [])
      | None \<Rightarrow>
          (if IsSecondaryNetworksEnabled (ebpf_of s) then
             [\<lparr>sn_Name = [], sn_Index = [SecondaryNetworkIndexByInterface, SecondaryNetworkIndexByIP]\<rparr>,
              \<lparr>sn_Name = [], sn_Index = [SecondaryNetworkIndexByInterface, SecondaryNetworkIndexByMAC]\<rparr>]
           else []))"

definition HasFLPDeduper :: "FlowCollectorFLP \<Rightarrow> bool" where
  "HasFLPDeduper p =
     (case flp_Deduper p of
        None \<Rightarrow> False
      | Some d \<Rightarrow> dedup_Mode d \<noteq> FLPDeduperModeUnset \<and> dedup_Mode d \<noteq> FLPDeduperDisabled)"

section \<open>Ports and replicas\<close>

definition EBPFMetricPort :: int where "EBPFMetricPort = 9400"
definition FLPMetricsPort :: int where "FLPMetricsPort = 9401"
definition DefaultK8sCachePort :: int where "DefaultK8sCachePort = 9402"

definition GetMetricsPort_ebpf :: "FlowCollectorEBPF \<Rightarrow> int" where
  "GetMetricsPort_ebpf e = ptr_or (msc_Port (em_Server (ebpf_Metrics e))) EBPFMetricPort"

definition GetMetricsPort_flp :: "FlowCollectorFLP \<Rightarrow> int" where
  "GetMetricsPort_flp p = ptr_or (msc_Port (fm_Server (flp_Metrics p))) FLPMetricsPort"

definition ShouldInstallNetworkPolicy :: "bool option \<Rightarrow> NetworkType \<Rightarrow> bool" where
  "ShouldInstallNetworkPolicy config cni =
     (if cni = OpenShiftSDN then False
      else case config of Some b \<Rightarrow> b | None \<Rightarrow> cni \<noteq> UnknownCNI)"

definition GetFLPReplicas :: "FlowCollectorFLP \<Rightarrow> int" where
  "GetFLPReplicas p =
     (case flp_ConsumerReplicas p of
        Some n \<Rightarrow> n
      | None \<Rightarrow> (case flp_KafkaConsumerReplicas p of Some n \<Rightarrow> n | None \<Rightarrow> 3))"

definition IsHPAEnabled :: "FlowCollectorHPA \<Rightarrow> bool" where
  "IsHPAEnabled h \<longleftrightarrow> hpa_Status h = HPAStatusEnabled"

definition IsUnmanagedFLPReplicas :: "FlowCollectorFLP \<Rightarrow> bool" where
  "IsUnmanagedFLPReplicas p = (if flp_UnmanagedReplicas p then True else IsHPAEnabled (flp_KafkaConsumerAutoscaler p))"

definition IsInformerCacheProxyEnabled :: "FlowCollectorFLP \<Rightarrow> bool" where
  "IsInformerCacheProxyEnabled p =
     (case flp_InformerCacheProxy p of None \<Rightarrow> False | Some i \<Rightarrow> icp_Enabled i = Some True)"

definition GetK8sCachePort :: "FlowCollectorFLP \<Rightarrow> int" where
  "GetK8sCachePort p =
     (case flp_InformerCacheProxy p of
        None \<Rightarrow> DefaultK8sCachePort
      | Some i \<Rightarrow> (case icp_Advanced i of
          None \<Rightarrow> DefaultK8sCachePort
        | Some a \<Rightarrow> ptr_or (aicp_ProcessorPort a) DefaultK8sCachePort))"

definition GetTLSType :: "FlowCollectorInformerCacheProxy option \<Rightarrow> TLSConfigType" where
  "GetTLSType i =
     (case i of None \<Rightarrow> TLSAuto | Some p \<Rightarrow> (case icp_TLS p of None \<Rightarrow> TLSAuto | Some t \<Rightarrow> icptls_Type t))"

definition UsesOpenShiftServiceCA :: "FlowCollectorInformerCacheProxy option \<Rightarrow> bool \<Rightarrow> bool" where
  "UsesOpenShiftServiceCA i isOpenShift = (if \<not> isOpenShift then False else GetTLSType i = TLSAuto)"

definition IsUnmanagedConsolePluginReplicas :: "FlowCollectorConsolePlugin \<Rightarrow> bool" where
  "IsUnmanagedConsolePluginReplicas c = (if cons_UnmanagedReplicas c then True else IsHPAEnabled (cons_Autoscaler c))"

definition IsSliceEnabled :: "FlowCollectorSpec \<Rightarrow> bool" where
  "IsSliceEnabled s =
     (case flp_SlicesConfig (spec_Processor s) of None \<Rightarrow> False | Some c \<Rightarrow> slices_Enable c)"

text \<open>\<open>strconv.ParseBool\<close>: \<open>None\<close> where Go returns an error.\<close>

definition parse_bool :: "string \<Rightarrow> bool option" where
  "parse_bool s =
     (if s \<in> set [''1'', ''t'', ''T'', ''true'', ''TRUE'', ''True''] then Some True
      else if s \<in> set [''0'', ''f'', ''F'', ''false'', ''FALSE'', ''False''] then Some False
      else None)"

definition IsEnvEnabled :: "string_map \<Rightarrow> string \<Rightarrow> bool" where
  "IsEnvEnabled vars key \<longleftrightarrow> parse_bool (ptr_or (vars key) []) = Some True"

section \<open>Lemmas\<close>

lemma itoa_nat: "0 \<le> i \<Longrightarrow> itoa i = show_nat (nat i)"
  by (simp add: itoa_def)

lemma comma_no_digit: "digit_val CHR '','' = None"
  by (simp add: digit_val_def)

lemma comma_notin_itoa: "0 \<le> i \<Longrightarrow> CHR '','' \<notin> set (itoa i)"
  using show_nat_digits comma_no_digit by (metis itoa_nat)

lemma split_join_ports:
  assumes "ps \<noteq> []" and "\<And>p. p \<in> set ps \<Longrightarrow> 0 \<le> p"
  shows "split_on CHR '','' (str_join '','' (map itoa ps)) = map itoa ps"
  using assms
proof (induction ps)
  case (Cons p ps)
  then have nc: "CHR '','' \<notin> set (itoa p)" by (intro comma_notin_itoa) simp
  show ?case
  proof (cases ps)
    case Nil
    with nc show ?thesis by (simp add: split_on_no_sep)
  next
    case (Cons q qs)
    with Cons.IH Cons.prems have
      "split_on CHR '','' (str_join '','' (map itoa ps)) = map itoa ps" by simp
    with Cons nc show ?thesis by (simp add: split_on_app)
  qed
qed simp

end
