(* ===== verification/Health_Rules.thy ===== *)
theory Health_Rules
  imports FC_Helper
begin

text \<open>
  Health rules and metric selection: \<open>flowcollector_alert_types.go\<close>,
  \<open>flowcollector_defaults.go\<close> and the metric requirements of
  \<open>flowcollector_validation_webhook.go\<close>. It holds the default metric lists and health rules,
  the computation of the effective metric list (\<open>GetIncludeList\<close>) and of the effective health
  rules (\<open>GetFLPHealthRules\<close>), and the durations printed into the generated queries.
\<close>

section \<open>Defaults\<close>

definition DefaultIncludeList :: "string list" where
  "DefaultIncludeList =
    [''node_ingress_bytes_total'',
     ''node_egress_bytes_total'',
     ''node_ingress_packets_total'',
     ''node_drop_packets_total'',
     ''workload_sampling'',
     ''workload_ingress_bytes_total'',
     ''workload_egress_bytes_total'',
     ''namespace_flows_total'',
     ''namespace_ingress_packets_total'',
     ''namespace_drop_packets_total'',
     ''namespace_rtt_seconds'',
     ''namespace_dns_latency_seconds'',
     ''namespace_dns_flows_total'',
     ''namespace_network_policy_events_total'',
     ''namespace_tls_flows_total'',
     ''node_ipsec_flows_total'',
     ''node_to_node_ingress_flows_total'']"

definition DefaultIncludeListLokiDisabled :: "string list" where
  "DefaultIncludeListLokiDisabled =
    [''node_ingress_bytes_total'',
     ''node_egress_bytes_total'',
     ''node_ingress_packets_total'',
     ''node_drop_packets_total'',
     ''workload_ingress_bytes_total'',
     ''workload_egress_bytes_total'',
     ''workload_sampling'',
     ''workload_ingress_packets_total'',
     ''workload_egress_packets_total'',
     ''workload_flows_total'',
     ''workload_drop_bytes_total'',
     ''workload_drop_packets_total'',
     ''workload_rtt_seconds'',
     ''workload_dns_latency_seconds'',
     ''workload_dns_flows_total'',
     ''workload_tls_flows_total'',
     ''namespace_network_policy_events_total'',
     ''node_ipsec_flows_total'',
     ''node_to_node_ingress_flows_total'']"

definition hour :: duration where
  "hour = 3600 * 10 ^ 9"

text \<open>A Go composite literal leaves unnamed fields at their zero value.\<close>

definition thresholds :: "string \<Rightarrow> string \<Rightarrow> HealthRuleThresholds" where
  "thresholds info warning = \<lparr>thr_Info = info, thr_Warning = warning, thr_Critical = []\<rparr>"

definition variant :: "HealthRuleThresholds \<Rightarrow> HealthRuleGroupBy \<Rightarrow> HealthRuleVariant" where
  "variant t g =
     \<lparr>var_LowVolumeThreshold = [], var_Thresholds = t, var_GroupBy = g,
      var_TrendOffset = None, var_TrendDuration = None, var_Mode = None\<rparr>"

definition trend_variant :: "HealthRuleThresholds \<Rightarrow> HealthRuleGroupBy \<Rightarrow> HealthRuleVariant" where
  "trend_variant t g = (variant t g)\<lparr>var_TrendOffset := Some (24 * hour), var_TrendDuration := Some hour\<rparr>"

definition DefaultHealthRules :: "FLPHealthRule list" where
  "DefaultHealthRules =
    [\<lparr>hr_Template = HealthRulePacketDropsByKernel, hr_Mode = ModeRecording, hr_Variants =
       [(variant (thresholds ''10'' ''20'') GroupByNamespace)\<lparr>var_LowVolumeThreshold := ''5''\<rparr>,
        (variant (thresholds ''5'' ''15'') GroupByNode)\<lparr>var_Mode := Some ModeRecording\<rparr>]\<rparr>,
     \<lparr>hr_Template = HealthRulePacketDropsByDevice, hr_Mode = HealthRuleModeUnset, hr_Variants =
       [variant (thresholds ''5'' ''10'') GroupByNode]\<rparr>,
     \<lparr>hr_Template = HealthRuleIPsecErrors, hr_Mode = HealthRuleModeUnset, hr_Variants =
       [variant (thresholds [] ''2'') GroupByNone,
        variant (thresholds [] ''2'') GroupByNode]\<rparr>,
     \<lparr>hr_Template = HealthRuleDNSErrors, hr_Mode = HealthRuleModeUnset, hr_Variants =
       [variant (thresholds [] ''5'') GroupByNone,
        variant (thresholds ''5'' ''10'') GroupByNamespace]\<rparr>,
     \<lparr>hr_Template = HealthRuleDNSNxDomain, hr_Mode = ModeRecording, hr_Variants =
       [variant (thresholds ''10'' ''80'') GroupByNamespace]\<rparr>,
     \<lparr>hr_Template = HealthRuleNetpolDenied, hr_Mode = ModeRecording, hr_Variants =
       [variant (thresholds ''5'' ''10'') GroupByNamespace]\<rparr>,
     \<lparr>hr_Template = HealthRuleLatencyHighTrend, hr_Mode = ModeRecording, hr_Variants =
       [trend_variant (thresholds ''100'' []) GroupByNamespace]\<rparr>,
     \<lparr>hr_Template = HealthRuleExternalEgressHighTrend, hr_Mode = ModeRecording, hr_Variants =
       [trend_variant (thresholds [] ''200'') GroupByNode,
        trend_variant (thresholds ''100'' ''500'') GroupByNamespace]\<rparr>,
     \<lparr>hr_Template = HealthRuleExternalIngressHighTrend, hr_Mode = ModeRecording, hr_Variants =
       [trend_variant (thresholds [] ''200'') GroupByNode,
        trend_variant (thresholds ''100'' ''500'') GroupByNamespace]\<rparr>,
     \<lparr>hr_Template = HealthRuleIngress5xxErrors, hr_Mode = ModeRecording, hr_Variants =
       [variant (thresholds ''5'' ''10'') GroupByNamespace]\<rparr>,
     \<lparr>hr_Template = HealthRuleIngressHTTPLatencyTrend, hr_Mode = ModeRecording, hr_Variants =
       [trend_variant (thresholds ''100'' ''200'') GroupByNamespace]\<rparr>,
     \<lparr>hr_Template = HealthRuleTLSInsecureVersion, hr_Mode = HealthRuleModeUnset, hr_Variants =
       [variant (thresholds [] ''5'') GroupByNamespace]\<rparr>]"

section \<open>The effective metric list\<close>

fun removeMetricsByPattern :: "string list \<Rightarrow> string \<Rightarrow> string list" where
  "removeMetricsByPattern [] search = []"
| "removeMetricsByPattern (m # ms) search =
     (if \<not> str_contains m search then m # removeMetricsByPattern ms search
      else removeMetricsByPattern ms search)"

fun append_missing :: "string list \<Rightarrow> string list \<Rightarrow> string list" where
  "append_missing lst [] = lst"
| "append_missing lst (m # ms) =
     (if m \<in> set lst then append_missing lst ms else append_missing (lst @ [m]) ms)"

definition include_base :: "FlowCollectorSpec \<Rightarrow> string list" where
  "include_base s =
     (case fm_IncludeList (flp_Metrics (spec_Processor s)) of
        None \<Rightarrow>
          (let defaults = (if UseLoki s then DefaultIncludeList else DefaultIncludeListLokiDisabled)
           in case fm_AdditionalIncludeList (flp_Metrics (spec_Processor s)) of
                None \<Rightarrow> defaults
              | Some extra \<Rightarrow> append_missing defaults extra)
      | Some l \<Rightarrow> l)"

definition GetIncludeList :: "FlowCollectorSpec \<Rightarrow> string list" where
  "GetIncludeList s =
     (let e = ebpf_of s;
          l0 = include_base s;
          l1 = (if \<not> IsPktDropEnabled e \<and> \<not> IsNetworkEventsEnabled e
                then removeMetricsByPattern l0 ''_drop_'' else l0);
          l2 = (if \<not> IsFlowRTTEnabled e then removeMetricsByPattern l1 ''_rtt_'' else l1);
          l3 = (if \<not> IsDNSTrackingEnabled e then removeMetricsByPattern l2 ''_dns_'' else l2);
          l4 = (if \<not> IsNetworkEventsEnabled e then removeMetricsByPattern l3 ''_network_policy_'' else l3);
          l5 = (if \<not> HasFiltersSampling s then removeMetricsByPattern l4 ''_sampling'' else l4);
          l6 = (if \<not> IsIPSecEnabled e then removeMetricsByPattern l5 ''_ipsec_'' else l5);
          l7 = (if \<not> IsTLSTrackingEnabled e then removeMetricsByPattern l6 ''_tls_'' else l6)
      in l7)"

section \<open>The effective health rules\<close>

text \<open>
  \<open>IsAllowed\<close>: the flag, and in place of the message text the template and the missing agent
  feature the message names (\<open>None\<close> for the empty message).
\<close>

definition IsAllowed :: "FLPHealthRule \<Rightarrow> FlowCollectorSpec \<Rightarrow> bool \<times> (HealthRuleTemplate \<times> AgentFeature) option" where
  "IsAllowed g s =
     (case hr_Template g of
        HealthRulePacketDropsByKernel \<Rightarrow>
          if \<not> IsPktDropEnabled (ebpf_of s) then (False, Some (hr_Template g, PacketDrop)) else (True, None)
      | HealthRuleIPsecErrors \<Rightarrow>
          if \<not> IsIPSecEnabled (ebpf_of s) then (False, Some (hr_Template g, IPSec)) else (True, None)
      | HealthRuleDNSErrors \<Rightarrow>
          if \<not> IsDNSTrackingEnabled (ebpf_of s) then (False, Some (hr_Template g, DNSTracking)) else (True, None)
      | HealthRuleDNSNxDomain \<Rightarrow>
          if \<not> IsDNSTrackingEnabled (ebpf_of s) then (False, Some (hr_Template g, DNSTracking)) else (True, None)
      | HealthRuleLatencyHighTrend \<Rightarrow>
          if \<not> IsFlowRTTEnabled (ebpf_of s) then (False, Some (hr_Template g, FlowRTT)) else (True, None)
      | HealthRuleNetpolDenied \<Rightarrow>
          if \<not> IsNetworkEventsEnabled (ebpf_of s) then (False, Some (hr_Template g, NetworkEvents)) else (True, None)
      | HealthRuleTLSInsecureVersion \<Rightarrow>
          if \<not> IsTLSTrackingEnabled (ebpf_of s) then (False, Some (hr_Template g, TLSTracking)) else (True, None)
      | _ \<Rightarrow> (True, None))"

text \<open>The two loops that fill \<open>tplMap\<close> and \<open>templates\<close>.\<close>

type_synonym rule_table = "(HealthRuleTemplate \<rightharpoonup> FLPHealthRule) \<times> HealthRuleTemplate list"

fun add_defaults :: "HealthRuleTemplate list \<Rightarrow> rule_table \<Rightarrow> FLPHealthRule list \<Rightarrow> rule_table" where
  "add_defaults disabled tbl [] = tbl"
| "add_defaults disabled (m, ts) (g # gs) =
     (if hr_Template g \<notin> set disabled
      then add_defaults disabled (m(hr_Template g \<mapsto> g), ts @ [hr_Template g]) gs
      else add_defaults disabled (m, ts) gs)"

fun add_overrides :: "HealthRuleTemplate list \<Rightarrow> rule_table \<Rightarrow> FLPHealthRule list \<Rightarrow> rule_table" where
  "add_overrides disabled tbl [] = tbl"
| "add_overrides disabled (m, ts) (g # gs) =
     (if hr_Template g \<notin> set disabled
      then add_overrides disabled
             (m(hr_Template g \<mapsto> g), if hr_Template g \<in> set ts then ts else ts @ [hr_Template g]) gs
      else add_overrides disabled (m, ts) gs)"

definition rule_tables :: "FlowCollectorSpec \<Rightarrow> rule_table" where
  "rule_tables s =
     (let disabled = fm_DisableAlerts (flp_Metrics (spec_Processor s));
          t0 = add_defaults disabled (Map.empty, []) DefaultHealthRules
      in case fm_HealthRules (flp_Metrics (spec_Processor s)) of
           None \<Rightarrow> t0
         | Some gs \<Rightarrow> add_overrides disabled t0 gs)"

definition GetFLPHealthRules :: "FlowCollectorSpec \<Rightarrow> FLPHealthRule list" where
  "GetFLPHealthRules s =
     (case rule_tables s of (m, ts) \<Rightarrow>
        filter (\<lambda>g. fst (IsAllowed g s)) (List.map_filter m ts))"

section \<open>Durations in queries\<close>

fun frac_rev :: "nat \<Rightarrow> nat \<Rightarrow> string" where
  "frac_rev 0 v = []"
| "frac_rev (Suc p) v = digit_char (v mod 10) # frac_rev p (v div 10)"

definition fmt_frac :: "nat \<Rightarrow> nat \<Rightarrow> string" where
  "fmt_frac prec v =
     (let ds = rev (dropWhile (\<lambda>c. c = CHR ''0'') (frac_rev prec v))
      in if ds = [] then [] else CHR ''.'' # ds)"

text \<open>\<open>time.Duration.String\<close> of the Go library (the micro sign is two UTF-8 bytes).\<close>

definition duration_string :: "duration \<Rightarrow> string" where
  "duration_string d =
     (let u = nat \<bar>d\<bar>; sign = (if d < 0 then ''-'' else []); secs = u div 10 ^ 9;
          mins = secs div 60; hours = mins div 60
      in if u = 0 then ''0s''
         else sign @
           (if u < 1000 then show_nat u @ ''ns''
            else if u < 10 ^ 6 then show_nat (u div 1000) @ fmt_frac 3 u @ [char_of (194::nat), char_of (181::nat)] @ ''s''
            else if u < 10 ^ 9 then show_nat (u div 10 ^ 6) @ fmt_frac 6 u @ ''ms''
            else (if 0 < hours then show_nat hours @ ''h'' else [])
                 @ (if 0 < mins then show_nat (mins mod 60) @ ''m'' else [])
                 @ show_nat (secs mod 60) @ fmt_frac 9 u @ ''s''))"

definition is_letter :: "char \<Rightarrow> bool" where
  "is_letter c = (let n = of_char c :: nat in 65 \<le> n \<and> n \<le> 90 \<or> 97 \<le> n \<and> n \<le> 122)"

text \<open>
  \<open>regTrim.ReplaceAllString(s, "$1")\<close> for the expression \<open>([a-zA-Z])(0[a-zA-Z])+\<close>: after a
  letter, every following pair of a zero and a letter is dropped.
\<close>

fun drop_zero_units :: "string \<Rightarrow> string" where
  "drop_zero_units (c # d # cs) =
     (if c = CHR ''0'' \<and> is_letter d then drop_zero_units cs else c # d # cs)"
| "drop_zero_units cs = cs"

lemma drop_zero_units_length: "length (drop_zero_units cs) \<le> length cs"
  by (induction cs rule: drop_zero_units.induct) auto

function trim_zero_units :: "string \<Rightarrow> string" where
  "trim_zero_units [] = []"
| "trim_zero_units (c # cs) =
     c # trim_zero_units (if is_letter c then drop_zero_units cs else cs)"
  by pat_completeness auto
termination
  by (relation "measure length") (auto simp: drop_zero_units_length le_imp_less_Suc)

definition durationToStringTrimmed :: "duration \<Rightarrow> string" where
  "durationToStringTrimmed d = trim_zero_units (duration_string d)"

definition GetTrendParams :: "HealthRuleVariant \<Rightarrow> string \<times> string" where
  "GetTrendParams v =
     (durationToStringTrimmed (ptr_or (var_TrendOffset v) (24 * hour)),
      durationToStringTrimmed (ptr_or (var_TrendDuration v) (2 * hour)))"

definition GetMode :: "HealthRuleVariant \<Rightarrow> HealthRuleMode \<Rightarrow> HealthRuleMode" where
  "GetMode v parentMode = ptr_or (var_Mode v) parentMode"

section \<open>Metrics required by a health rule\<close>

text \<open>\<open>fmt.Sprintf(p, g)\<close> for a pattern with one \<open>%s\<close>.\<close>

fun sprintf_s :: "string \<Rightarrow> string \<Rightarrow> string" where
  "sprintf_s [] g = []"
| "sprintf_s (c # cs) g =
     (if has_prefix (c # cs) ''%s'' then g @ drop 2 (c # cs) else c # sprintf_s cs g)"

fun GetFirstRequiredMetrics :: "string list \<Rightarrow> string list \<Rightarrow> string" where
  "GetFirstRequiredMetrics [] actual = []"
| "GetFirstRequiredMetrics (m # ms) actual =
     (if m \<in> set actual then m else GetFirstRequiredMetrics ms actual)"

datatype metric_requirement = NoMetrics | FixedMetrics "string list" "string list"
  | MetricPatterns "string list" "string list"

definition metric_requirement :: "HealthRuleTemplate \<Rightarrow> metric_requirement" where
  "metric_requirement t =
     (case t of
        HealthRulePacketDropsByKernel \<Rightarrow>
          MetricPatterns [''%s_drop_packets_total''] [''%s_ingress_packets_total'', ''%s_egress_packets_total'']
      | HealthRuleIPsecErrors \<Rightarrow>
          FixedMetrics [''node_ipsec_flows_total''] [''node_to_node_ingress_flows_total'']
      | HealthRuleDNSErrors \<Rightarrow> MetricPatterns [''%s_dns_flows_total''] [''%s_dns_flows_total'']
      | HealthRuleDNSNxDomain \<Rightarrow> MetricPatterns [''%s_dns_flows_total''] [''%s_dns_flows_total'']
      | HealthRuleExternalEgressHighTrend \<Rightarrow> MetricPatterns [''%s_egress_bytes_total''] [''%s_egress_bytes_total'']
      | HealthRuleExternalIngressHighTrend \<Rightarrow> MetricPatterns [''%s_ingress_bytes_total''] [''%s_ingress_bytes_total'']
      | HealthRuleLatencyHighTrend \<Rightarrow> MetricPatterns [''%s_rtt_seconds''] [''%s_rtt_seconds'']
      | HealthRuleNetpolDenied \<Rightarrow> MetricPatterns [''%s_network_policy_events_total''] [''%s_flows_total'']
      | HealthRuleTLSInsecureVersion \<Rightarrow> MetricPatterns [''%s_tls_flows_total''] [''%s_tls_flows_total'']
      | AlertNoFlows \<Rightarrow> NoMetrics
      | AlertLokiError \<Rightarrow> NoMetrics
      | HealthRulePacketDropsByDevice \<Rightarrow> NoMetrics
      | HealthRuleIngress5xxErrors \<Rightarrow> NoMetrics
      | HealthRuleIngressHTTPLatencyTrend \<Rightarrow> NoMetrics)"

definition group_prefixes :: "HealthRuleGroupBy \<Rightarrow> string list" where
  "group_prefixes g =
     (case g of
        GroupByNode \<Rightarrow> [''node'']
      | GroupByNamespace \<Rightarrow> [''namespace'', ''workload'']
      | GroupByWorkload \<Rightarrow> [''workload'']
      | GroupByNone \<Rightarrow> [''namespace'', ''workload'', ''node''])"

definition GetElligibleMetricsForAlert :: "HealthRuleTemplate \<Rightarrow> HealthRuleVariant \<Rightarrow> string list \<times> string list" where
  "GetElligibleMetricsForAlert t v =
     (case metric_requirement t of
        NoMetrics \<Rightarrow> ([], [])
      | FixedMetrics ms tms \<Rightarrow> (ms, tms)
      | MetricPatterns ps tps \<Rightarrow>
          (concat (map (\<lambda>p. map (sprintf_s p) (group_prefixes (var_GroupBy v))) ps),
           concat (map (\<lambda>p. map (sprintf_s p) (group_prefixes (var_GroupBy v))) tps)))"

section \<open>Lemmas: metric selection\<close>

text \<open>The single-pass reading of the metric list: which metrics the enabled features allow.\<close>

definition metric_enabled :: "FlowCollectorSpec \<Rightarrow> string \<Rightarrow> bool" where
  "metric_enabled s m \<longleftrightarrow>
     (str_contains m ''_drop_'' \<longrightarrow> PacketDrop \<in> set (ebpf_Features (ebpf_of s)) \<or> NetworkEvents \<in> set (ebpf_Features (ebpf_of s)))
     \<and> (str_contains m ''_rtt_'' \<longrightarrow> FlowRTT \<in> set (ebpf_Features (ebpf_of s)))
     \<and> (str_contains m ''_dns_'' \<longrightarrow> DNSTracking \<in> set (ebpf_Features (ebpf_of s)))
     \<and> (str_contains m ''_network_policy_'' \<longrightarrow> NetworkEvents \<in> set (ebpf_Features (ebpf_of s)))
     \<and> (str_contains m ''_sampling'' \<longrightarrow> HasFiltersSampling s)
     \<and> (str_contains m ''_ipsec_'' \<longrightarrow> IPSec \<in> set (ebpf_Features (ebpf_of s)))
     \<and> (str_contains m ''_tls_'' \<longrightarrow> TLSTracking \<in> set (ebpf_Features (ebpf_of s)))"

lemma removeMetricsByPattern_filter:
  "removeMetricsByPattern l p = filter (\<lambda>m. \<not> str_contains m p) l"
  by (induction l) auto

lemma remove_if: "(if \<not> b then removeMetricsByPattern l p else l) = filter (\<lambda>m. str_contains m p \<longrightarrow> b) l"
  by (simp add: removeMetricsByPattern_filter)

lemma remove_if2:
  "(if \<not> a \<and> \<not> b then removeMetricsByPattern l p else l) = filter (\<lambda>m. str_contains m p \<longrightarrow> a \<or> b) l"
  by (simp add: removeMetricsByPattern_filter)

lemma include_list_filter: "GetIncludeList s = filter (metric_enabled s) (include_base s)"
  unfolding GetIncludeList_def Let_def remove_if2 remove_if filter_filter
  by (rule filter_cong[OF refl]) (auto simp: metric_enabled_def feature_defs go_simps)

lemma append_missing_set: "set (append_missing l ms) = set l \<union> set ms"
  by (induction ms arbitrary: l) auto

lemma append_missing_distinct: "distinct l \<Longrightarrow> distinct (append_missing l ms)"
  by (induction ms arbitrary: l) auto

lemma append_missing_prefix: "\<exists>t. append_missing l ms = l @ t"
proof (induction ms arbitrary: l)
  case (Cons m ms)
  show ?case using Cons[of l] Cons[of "l @ [m]"] by auto
qed simp

lemma defaults_distinct: "distinct DefaultIncludeList" "distinct DefaultIncludeListLokiDisabled"
  by (simp_all add: DefaultIncludeList_def DefaultIncludeListLokiDisabled_def)

lemma include_base_default:
  assumes "fm_IncludeList (flp_Metrics (spec_Processor s)) = None"
  shows "set (if UseLoki s then DefaultIncludeList else DefaultIncludeListLokiDisabled) \<subseteq> set (include_base s)"
    and "distinct (include_base s)"
  using assms defaults_distinct
  by (auto simp: include_base_def append_missing_set append_missing_distinct Let_def split: option.splits)

section \<open>Lemmas: health rules\<close>

definition last_rule :: "FLPHealthRule list \<Rightarrow> HealthRuleTemplate \<Rightarrow> FLPHealthRule option" where
  "last_rule gs t = find (\<lambda>g. hr_Template g = t) (rev gs)"

text \<open>What the documentation promises: a group of the resource overrides the default group.\<close>

definition rule_for :: "FlowCollectorSpec \<Rightarrow> HealthRuleTemplate \<Rightarrow> FLPHealthRule option" where
  "rule_for s t =
     (if t \<in> set (fm_DisableAlerts (flp_Metrics (spec_Processor s))) then None
      else case last_rule (ptr_or (fm_HealthRules (flp_Metrics (spec_Processor s))) []) t of
             Some g \<Rightarrow> Some g
           | None \<Rightarrow> last_rule DefaultHealthRules t)"

lemma last_rule_Nil [simp]: "last_rule [] t = None"
  by (simp add: last_rule_def)

lemma find_append: "find P (xs @ ys) = (case find P xs of None \<Rightarrow> find P ys | Some x \<Rightarrow> Some x)"
  by (induction xs) auto

lemma last_rule_Cons:
  "last_rule (g # gs) t =
     (case last_rule gs t of Some x \<Rightarrow> Some x | None \<Rightarrow> if hr_Template g = t then Some g else None)"
  by (simp add: last_rule_def find_append split: option.split)

lemma last_rule_template: "last_rule gs t = Some g \<Longrightarrow> hr_Template g = t"
  by (auto simp: last_rule_def find_Some_iff)

lemma last_rule_None: "last_rule gs t = None \<longleftrightarrow> t \<notin> hr_Template ` set gs"
  by (auto simp: last_rule_def find_None_iff)

lemma add_overrides_map:
  "fst (add_overrides d (m, ts) gs) t =
     (if t \<in> set d then m t else case last_rule gs t of Some g \<Rightarrow> Some g | None \<Rightarrow> m t)"
  by (induction gs arbitrary: m ts) (auto simp: last_rule_Cons split: option.splits)

lemma add_defaults_map:
  "fst (add_defaults d (m, ts) gs) t =
     (if t \<in> set d then m t else case last_rule gs t of Some g \<Rightarrow> Some g | None \<Rightarrow> m t)"
  by (induction gs arbitrary: m ts) (auto simp: last_rule_Cons split: option.splits)

lemma add_defaults_templates:
  "snd (add_defaults d (m, ts) gs) = ts @ filter (\<lambda>t. t \<notin> set d) (map hr_Template gs)"
  by (induction gs arbitrary: m ts) auto

lemma add_overrides_set:
  "set (snd (add_overrides d (m, ts) gs)) = set ts \<union> (hr_Template ` set gs - set d)"
  by (induction gs arbitrary: m ts) auto

lemma add_overrides_distinct: "distinct ts \<Longrightarrow> distinct (snd (add_overrides d (m, ts) gs))"
  by (induction gs arbitrary: m ts) auto

lemma default_templates_distinct: "distinct (map hr_Template DefaultHealthRules)"
  by (simp add: DefaultHealthRules_def)

lemma rule_tables_map: "fst (rule_tables s) t = rule_for s t"
proof -
  let ?d = "fm_DisableAlerts (flp_Metrics (spec_Processor s))"
  obtain m ts where e: "add_defaults ?d (Map.empty, []) DefaultHealthRules = (m, ts)" by fastforce
  have m: "m t = (if t \<in> set ?d then None else last_rule DefaultHealthRules t)"
    using add_defaults_map[of ?d Map.empty "[]" DefaultHealthRules t] e by (auto split: option.splits)
  show ?thesis
    by (auto simp: rule_tables_def rule_for_def Let_def e add_overrides_map m split: option.splits)
qed

lemma rule_for_None:
  "rule_for s t \<noteq> None \<longleftrightarrow> t \<notin> set (fm_DisableAlerts (flp_Metrics (spec_Processor s)))
     \<and> \<not> (last_rule (ptr_or (fm_HealthRules (flp_Metrics (spec_Processor s))) []) t = None
          \<and> last_rule DefaultHealthRules t = None)"
  by (simp add: rule_for_def split: option.split)

lemma rule_tables_templates:
  "distinct (snd (rule_tables s)) \<and> set (snd (rule_tables s)) = dom (rule_for s)"
proof -
  let ?d = "fm_DisableAlerts (flp_Metrics (spec_Processor s))"
  obtain m ts where e: "add_defaults ?d (Map.empty, []) DefaultHealthRules = (m, ts)" by fastforce
  have ts: "ts = filter (\<lambda>t. t \<notin> set ?d) (map hr_Template DefaultHealthRules)"
    using add_defaults_templates[of ?d Map.empty "[]" DefaultHealthRules] e by simp
  then have "distinct ts" using default_templates_distinct by (simp add: distinct_filter)
  moreover have "set ts = hr_Template ` set DefaultHealthRules - set ?d" using ts by auto
  ultimately have d: "distinct (snd (rule_tables s))" and
    st: "set (snd (rule_tables s)) =
      hr_Template ` set (ptr_or (fm_HealthRules (flp_Metrics (spec_Processor s))) [] @ DefaultHealthRules) - set ?d"
    by (auto simp: rule_tables_def Let_def e add_overrides_distinct add_overrides_set split: option.splits)
  have "set (snd (rule_tables s)) = {t. rule_for s t \<noteq> None}"
    unfolding st rule_for_None last_rule_None by auto
  with d show ?thesis by (simp only: dom_def simp_thms)
qed

lemma health_rules_via_rule_for:
  "GetFLPHealthRules s =
     filter (\<lambda>g. fst (IsAllowed g s)) (map (\<lambda>t. the (rule_for s t)) (snd (rule_tables s)))"
proof -
  obtain m ts where e: "rule_tables s = (m, ts)" by fastforce
  have m: "m = rule_for s" using rule_tables_map[of s] e by (simp add: fun_eq_iff)
  have "filter (\<lambda>t. rule_for s t \<noteq> None) ts = ts"
    using rule_tables_templates[of s] e by (auto simp: filter_id_conv)
  then have "List.map_filter m ts = map (\<lambda>t. the (rule_for s t)) ts"
    by (simp add: List.map_filter_def m comp_def)
  then show ?thesis by (simp add: GetFLPHealthRules_def e)
qed

lemma rule_for_template: "rule_for s t = Some g \<Longrightarrow> hr_Template g = t"
  by (auto simp: rule_for_def last_rule_template split: if_splits option.splits)

lemma health_rules_set:
  "r \<in> set (GetFLPHealthRules s) \<longleftrightarrow> rule_for s (hr_Template r) = Some r \<and> fst (IsAllowed r s)"
proof
  assume "r \<in> set (GetFLPHealthRules s)"
  then obtain t where "t \<in> dom (rule_for s)" "r = the (rule_for s t)" "fst (IsAllowed r s)"
    using rule_tables_templates[of s] by (auto simp: health_rules_via_rule_for)
  then show "rule_for s (hr_Template r) = Some r \<and> fst (IsAllowed r s)"
    using rule_for_template by fastforce
next
  assume r: "rule_for s (hr_Template r) = Some r \<and> fst (IsAllowed r s)"
  then have "hr_Template r \<in> set (snd (rule_tables s))" using rule_tables_templates[of s] by auto
  with r show "r \<in> set (GetFLPHealthRules s)"
    by (auto simp: health_rules_via_rule_for intro!: image_eqI[of _ _ "hr_Template r"])
qed

lemma health_rules_distinct: "distinct (map hr_Template (GetFLPHealthRules s))"
proof -
  let ?ts = "snd (rule_tables s)"
  have "map hr_Template (map (\<lambda>t. the (rule_for s t)) ?ts) = ?ts"
    using rule_tables_templates[of s] rule_for_template by (fastforce simp: dom_def intro!: map_idI)
  then have "distinct (map hr_Template (map (\<lambda>t. the (rule_for s t)) ?ts))"
    using rule_tables_templates[of s] by metis
  then show ?thesis unfolding health_rules_via_rule_for by (rule distinct_map_filter)
qed

section \<open>Lemmas: durations\<close>

lemma digit_char_0: "digit_char 0 = CHR ''0''"
  by code_simp

lemma frac_rev_zero: "v mod 10 ^ p = 0 \<Longrightarrow> dropWhile (\<lambda>c. c = CHR ''0'') (frac_rev p v) = []"
proof (induction p arbitrary: v)
  case (Suc p)
  from Suc.prems have "10 ^ Suc p dvd v" by presburger
  then obtain k where k: "v = 10 ^ Suc p * k" by (rule dvdE)
  then have "v mod 10 = 0" and "v div 10 = 10 ^ p * k" by simp_all
  then show ?case using Suc.IH[of "v div 10"] by (simp add: digit_char_0)
qed simp

lemma fmt_frac_zero: "v mod 10 ^ p = 0 \<Longrightarrow> fmt_frac p v = []"
  by (simp add: fmt_frac_def frac_rev_zero)

end
