(* ===== verification/Samples.thy ===== *)
theory Samples
  imports FC_Types
begin

text \<open>
  The zero values of the Go structs (what \<open>FlowCollectorSpec{}\<close> is in Go), from which the
  witnesses of the other theories build their concrete inputs.
\<close>

definition zero_intstr :: IntOrString where
  "zero_intstr = \<lparr>ios_Type = IntKind, ios_IntVal = 0, ios_StrVal = []\<rparr>"

definition zero_cref :: CertificateReference where
  "zero_cref = \<lparr>cref_Type = RefTypeUnset, cref_Name = [], cref_Namespace = [], cref_CertFile = [], cref_CertKey = []\<rparr>"

definition zero_fref :: FileReference where
  "zero_fref = \<lparr>fref_Type = RefTypeUnset, fref_Name = [], fref_Namespace = [], fref_File = []\<rparr>"

definition zero_ctls :: ClientTLS where
  "zero_ctls = \<lparr>ctls_Enable = False, ctls_InsecureSkipVerify = False, ctls_CACert = zero_cref, ctls_UserCert = zero_cref\<rparr>"

definition zero_msc :: MetricsServerConfig where
  "zero_msc = \<lparr>msc_Port = None, msc_TLS = \<lparr>stls_Type = TLSTypeUnset, stls_Provided = None,
     stls_InsecureSkipVerify = False, stls_ProvidedCAFile = None\<rparr>, msc_ScrapeInterval = None\<rparr>"

definition zero_hpa :: FlowCollectorHPA where
  "zero_hpa = \<lparr>hpa_Status = HPAStatusUnset, hpa_MinReplicas = None, hpa_MaxReplicas = 0, hpa_Metrics = []\<rparr>"

definition zero_rule :: EBPFFlowFilterRule where
  "zero_rule = \<lparr>rule_CIDR = [], rule_Action = [], rule_Protocol = [], rule_Direction = [], rule_TCPFlags = [],
     rule_SourcePorts = zero_intstr, rule_DestPorts = zero_intstr, rule_Ports = zero_intstr,
     rule_PeerIP = [], rule_PeerCIDR = [], rule_ICMPCode = None, rule_ICMPType = None,
     rule_PktDrops = None, rule_Sampling = None\<rparr>"

definition zero_ebpf :: FlowCollectorEBPF where
  "zero_ebpf = \<lparr>ebpf_ImagePullPolicy = [], ebpf_Resources = Opaque 0, ebpf_Sampling = None,
     ebpf_CacheActiveTimeout = [], ebpf_CacheMaxFlows = 0, ebpf_Interfaces = [], ebpf_ExcludeInterfaces = [],
     ebpf_LogLevel = [], ebpf_Privileged = False, ebpf_KafkaBatchSize = 0, ebpf_Advanced = None,
     ebpf_Features = [], ebpf_Metrics = \<lparr>em_Server = zero_msc, em_Enable = None, em_DisableAlerts = []\<rparr>,
     ebpf_FlowFilter = None, ebpf_DNSTrackingPorts = []\<rparr>"

definition zero_agent :: FlowCollectorAgent where
  "zero_agent = \<lparr>agent_Type = AgentTypeUnset, agent_IPFIX =
     \<lparr>ipfix_CacheActiveTimeout = [], ipfix_CacheMaxFlows = 0, ipfix_Sampling = 0, ipfix_ForceSampleAll = False,
      ipfix_ClusterNetworkOperator = \<lparr>cno_Namespace = []\<rparr>,
      ipfix_OVNKubernetes = \<lparr>ovnk_Namespace = [], ovnk_DaemonSetName = [], ovnk_ContainerName = []\<rparr>\<rparr>,
     agent_EBPF = zero_ebpf\<rparr>"

definition zero_flp :: FlowCollectorFLP where
  "zero_flp = \<lparr>flp_ImagePullPolicy = [], flp_Metrics =
     \<lparr>fm_Server = zero_msc, fm_IncludeList = None, fm_AdditionalIncludeList = None, fm_DisableAlerts = [], fm_HealthRules = None\<rparr>,
     flp_LogLevel = [], flp_Resources = Opaque 0, flp_KafkaConsumerReplicas = None, flp_KafkaConsumerAutoscaler = zero_hpa,
     flp_ConsumerReplicas = None, flp_UnmanagedReplicas = False, flp_KafkaConsumerQueueCapacity = 0,
     flp_KafkaConsumerBatchSize = 0, flp_LogTypes = None, flp_ClusterName = [], flp_MultiClusterDeployment = None,
     flp_AddZone = None, flp_SubnetLabels = \<lparr>sls_OpenShiftAutoDetect = None, sls_AutoDetect = None, sls_CustomLabels = []\<rparr>,
     flp_BgpEnrichment = None, flp_Deduper = None, flp_Filters = [], flp_SlicesConfig = None, flp_Service = None,
     flp_InformerCacheProxy = None, flp_Advanced = None\<rparr>"

definition zero_kafka :: FlowCollectorKafka where
  "zero_kafka = \<lparr>kafka_Address = [], kafka_Topic = [], kafka_Compression = [], kafka_TLS = zero_ctls,
     kafka_SASL = \<lparr>sasl_Type = SASLTypeUnset, sasl_ClientIDReference = zero_fref, sasl_ClientSecretReference = zero_fref\<rparr>\<rparr>"

definition zero_loki :: FlowCollectorLoki where
  "zero_loki = \<lparr>loki_Enable = None, loki_Mode = LokiModeUnset,
     loki_Manual = \<lparr>lman_IngesterURL = [], lman_QuerierURL = [], lman_StatusURL = [], lman_TenantID = [],
       lman_AuthToken = LokiAuthUnset, lman_TLS = zero_ctls, lman_StatusTLS = zero_ctls\<rparr>,
     loki_Microservices = \<lparr>lmic_IngesterURL = [], lmic_QuerierURL = [], lmic_TenantID = [], lmic_TLS = zero_ctls\<rparr>,
     loki_Monolithic = \<lparr>lmon_InstallDemoLoki = None, lmon_URL = [], lmon_TenantID = [], lmon_TLS = zero_ctls\<rparr>,
     loki_LokiStack = \<lparr>lstk_Name = [], lstk_Namespace = []\<rparr>, loki_ReadTimeout = None, loki_WriteTimeout = None,
     loki_WriteBatchWait = None, loki_WriteBatchSize = 0, loki_Advanced = None\<rparr>"

definition zero_console :: FlowCollectorConsolePlugin where
  "zero_console = \<lparr>cons_Enable = None, cons_Standalone = None, cons_Replicas = None, cons_UnmanagedReplicas = False,
     cons_ImagePullPolicy = [], cons_Resources = Opaque 0, cons_LogLevel = [], cons_Autoscaler = zero_hpa,
     cons_PortNaming = \<lparr>cpp_Enable = None, cpp_PortNames = Map.empty\<rparr>, cons_QuickFilters = [], cons_Advanced = None\<rparr>"

definition zero_spec :: FlowCollectorSpec where
  "zero_spec = \<lparr>spec_Namespace = [], spec_Agent = zero_agent, spec_Processor = zero_flp, spec_Loki = zero_loki,
     spec_Prometheus = \<lparr>prom_Querier = \<lparr>pq_Enable = None, pq_Mode = PromModeUnset,
       pq_Manual = \<lparr>pqm_URL = [], pqm_TLS = zero_ctls, pqm_ForwardUserToken = False, pqm_AlertManager = None\<rparr>, pq_Timeout = None\<rparr>\<rparr>,
     spec_ConsolePlugin = zero_console, spec_DeploymentModel = DeploymentModelUnset, spec_Kafka = zero_kafka,
     spec_Exporters = [], spec_NetworkPolicy = \<lparr>np_Enable = None, np_AdditionalNamespaces = []\<rparr>,
     spec_Execution = \<lparr>exec_Mode = ExecutionModeUnset\<rparr>\<rparr>"

lemma zero_spec_sel [simp]:
  "spec_Agent zero_spec = zero_agent" "spec_Processor zero_spec = zero_flp" "spec_Loki zero_spec = zero_loki"
  "spec_DeploymentModel zero_spec = DeploymentModelUnset"
  by (simp_all add: zero_spec_def)

lemma zero_agent_sel [simp]: "agent_EBPF zero_agent = zero_ebpf"
  by (simp add: zero_agent_def)

lemma zero_flp_sel [simp]:
  "flp_Metrics zero_flp = \<lparr>fm_Server = zero_msc, fm_IncludeList = None, fm_AdditionalIncludeList = None, fm_DisableAlerts = [], fm_HealthRules = None\<rparr>"
  "flp_Filters zero_flp = []" "flp_LogTypes zero_flp = None" "flp_Service zero_flp = None"
  "flp_InformerCacheProxy zero_flp = None" "flp_Advanced zero_flp = None" "flp_SlicesConfig zero_flp = None"
  by (simp_all add: zero_flp_def)

lemma zero_ebpf_sel [simp]:
  "ebpf_Features zero_ebpf = []" "ebpf_FlowFilter zero_ebpf = None" "ebpf_Advanced zero_ebpf = None"
  "ebpf_DNSTrackingPorts zero_ebpf = []"
  by (simp_all add: zero_ebpf_def)

lemma zero_loki_sel [simp]: "loki_Enable zero_loki = None" "loki_Mode zero_loki = LokiModeUnset"
  by (simp_all add: zero_loki_def)

end
