(* ===== verification/Rules_Correct.thy ===== *)
theory Rules_Correct
  imports Health_Rules Samples
begin

text \<open>
  Properties of the metric and health rule selection of \<open>flowcollector_alert_types.go\<close>, of the
  durations it prints, and of the port list of \<open>helper.go\<close>.
\<close>

lemma trim_no_letter: "\<forall>c \<in> set xs. \<not> is_letter c \<Longrightarrow> trim_zero_units (xs @ ys) = xs @ trim_zero_units ys"
  by (induction xs) auto

lemma show_nat_no_letter: "c \<in> set (show_nat n) \<Longrightarrow> \<not> is_letter c"
  using show_nat_digits[of c n] by (auto simp: digit_val_def is_letter_def Let_def split: if_splits)

lemma trim_hours: "trim_zero_units ''h0m0s'' = ''h''"
  by (simp add: is_letter_def)

lemma duration_hours: "0 < n \<Longrightarrow> duration_string (int n * hour) = show_nat n @ ''h0m0s''"
proof -
  assume "0 < n"
  moreover have "nat \<bar>int n * hour\<bar> = n * 3600 * 10 ^ 9" by (simp add: hour_def abs_mult nat_mult_distrib)
  moreover have "fmt_frac 9 (n * 3600 * 10 ^ 9) = []" by (rule fmt_frac_zero) simp
  moreover have "n * 3600 * 10 ^ 9 div 10 ^ 9 = n * (3600::nat)" by simp
  moreover have "\<not> int n * hour < 0" by (simp add: hour_def)
  ultimately show ?thesis
    by (simp add: duration_string_def Let_def show_nat.simps[of 0] digit_char_0)
qed

text \<open>
  A trend window of a whole number of hours is written into the generated queries as that number
  and the unit \<open>h\<close>, without the zero minutes and seconds that Go prints.
\<close>

theorem whole_hours_trimmed:
  assumes "0 < n"
  shows "durationToStringTrimmed (int n * hour) = show_nat n @ ''h''"
  using duration_hours[OF assms] trim_no_letter[of "show_nat n" "''h0m0s''"] show_nat_no_letter trim_hours
  by (simp add: durationToStringTrimmed_def)

lemma show_24: "show_nat 24 = ''24''"
  by code_simp

theorem whole_hours_trimmed_witness:
  "durationToStringTrimmed (int 24 * hour) = ''24h'' \<and> (0::nat) < 24"
  using whole_hours_trimmed[of 24] show_24 by simp



text \<open>
  C22: the effective health rules. There is at most one per template; a rule is effective exactly when its
  template is not disabled, it is the last one the user gives for that template or, when the user gives
  none, the default one, and the agent features it needs are enabled.
\<close>

theorem GetFLPHealthRules_spec:
  "distinct (map hr_Template (GetFLPHealthRules s))
   \<and> set (GetFLPHealthRules s) = {r. rule_for s (hr_Template r) = Some r \<and> fst (IsAllowed r s)}"
  using health_rules_set[of _ s] health_rules_distinct[of s] by auto

section \<open>DNS ports\<close>

lemma parse_itoa: "0 \<le> p \<Longrightarrow> p \<le> 65535 \<Longrightarrow> parse_uint 65535 (itoa p) = Inr (nat p)"
  by (simp add: itoa_nat)

text \<open>
  The agent's list of DNS ports round-trips: the comma-separated text that the operator passes to
  the agent splits and parses back to the configured ports, in order.
\<close>

theorem dns_ports_roundtrip:
  assumes "ebpf_DNSTrackingPorts e \<noteq> []" and "\<forall>p \<in> set (ebpf_DNSTrackingPorts e). 0 \<le> p \<and> p \<le> 65535"
  shows "map (parse_uint 65535) (split_on CHR '','' (GetDNSTrackingPorts e vendor)) = map (\<lambda>p. Inr (nat p)) (ebpf_DNSTrackingPorts e)"
  using assms split_join_ports[of "ebpf_DNSTrackingPorts e"] by (simp add: GetDNSTrackingPorts_def parse_itoa)

theorem dns_ports_roundtrip_witness:
  "map (parse_uint 65535) (split_on CHR '','' (GetDNSTrackingPorts (zero_ebpf\<lparr>ebpf_DNSTrackingPorts := [53, 5353]\<rparr>) VendorOther)) = [Inr 53, Inr 5353]"
  using dns_ports_roundtrip[of "zero_ebpf\<lparr>ebpf_DNSTrackingPorts := [53, 5353]\<rparr>" VendorOther] by simp

end
