(* ===== verification/Go_Net.thy ===== *)
theory Go_Net
  imports Prelude
begin

text \<open>
  The part of Go's packages \<open>net\<close> and \<open>net/netip\<close> the operator calls on user-supplied strings:
  \<open>net.ParseIP\<close>, \<open>net.ParseCIDR\<close> and \<open>IPNet.Contains\<close>. An address is its list of bytes
  (4 or 16). Parsers return \<open>None\<close> where Go returns an error.
\<close>

section \<open>Addresses\<close>

text \<open>\<open>parseIPv4Fields\<close>: decimal octets without leading zeros, at most 255, four of them.\<close>

fun v4_loop :: "bool \<Rightarrow> bool \<Rightarrow> nat \<Rightarrow> nat \<Rightarrow> nat list \<Rightarrow> string \<Rightarrow> nat list option" where
  "v4_loop first prevdot val digLen fields [] =
     (if length fields < 3 then None else Some (fields @ [val]))"
| "v4_loop first prevdot val digLen fields (c # cs) =
     (case digit_val c of
        Some d \<Rightarrow>
          if digLen = 1 \<and> val = 0 then None
          else if val * 10 + d > 255 then None
          else v4_loop False False (val * 10 + d) (digLen + 1) fields cs
      | None \<Rightarrow>
          if c = CHR ''.'' then
            (if first \<or> cs = [] \<or> prevdot then None
             else if length fields = 3 then None
             else v4_loop False True 0 0 (fields @ [val]) cs)
          else None)"

definition parse_v4 :: "string \<Rightarrow> nat list option" where
  "parse_v4 s = v4_loop True False 0 0 [] s"

definition hex_val :: "char \<Rightarrow> nat option" where
  "hex_val c = (let n = of_char c :: nat in
     if 48 \<le> n \<and> n \<le> 57 then Some (n - 48)
     else if 97 \<le> n \<and> n \<le> 102 then Some (n - 87)
     else if 65 \<le> n \<and> n \<le> 70 then Some (n - 55)
     else None)"

fun hex_group :: "nat \<Rightarrow> nat \<Rightarrow> string \<Rightarrow> (nat \<times> nat \<times> string) option" where
  "hex_group off acc [] = Some (off, acc, [])"
| "hex_group off acc (c # cs) =
     (case hex_val c of
        None \<Rightarrow> Some (off, acc, c # cs)
      | Some d \<Rightarrow> if off > 3 then None else if acc * 16 + d > 65535 then None
                  else hex_group (off + 1) (acc * 16 + d) cs)"

text \<open>The loop of \<open>parseIPv6\<close>: the position of the ellipsis, the bytes so far, the rest.\<close>

function v6_loop :: "nat option \<Rightarrow> nat list \<Rightarrow> string \<Rightarrow> (nat option \<times> nat list \<times> string) option" where
  "v6_loop ell ip s =
     (if 16 \<le> length ip then Some (ell, ip, s)
      else case hex_group 0 0 s of
        None \<Rightarrow> None
      | Some (off, acc, rest) \<Rightarrow>
          if off = 0 then None
          else if has_prefix rest ''.'' then
            (if ell = None \<and> length ip \<noteq> 12 then None
             else if length ip + 4 > 16 then None
             else case parse_v4 s of None \<Rightarrow> None | Some f \<Rightarrow> Some (ell, ip @ f, []))
          else
            (let ip' = ip @ [acc div 256, acc mod 256]
             in case rest of
                  [] \<Rightarrow> Some (ell, ip', [])
                | c # r \<Rightarrow>
                    if c \<noteq> CHR '':'' then None
                    else if r = [] then None
                    else if hd r = CHR '':'' then
                      (if ell \<noteq> None then None
                       else if tl r = [] then Some (Some (length ip'), ip', [])
                       else v6_loop (Some (length ip')) ip' (tl r))
                    else v6_loop ell ip' r))"
  by pat_completeness auto
termination
  by (relation "measure (\<lambda>(ell, ip, s). 16 - length ip)") auto

definition v6_finish :: "nat option \<times> nat list \<times> string \<Rightarrow> nat list option" where
  "v6_finish r =
     (case r of (ell, ip, s) \<Rightarrow>
        if s \<noteq> [] then None
        else if length ip < 16 then
          (case ell of
             None \<Rightarrow> None
           | Some e \<Rightarrow> Some (take e ip @ replicate (16 - length ip) 0 @ drop e ip))
        else if ell \<noteq> None then None
        else Some ip)"

text \<open>\<open>parseIPv6\<close>: the bytes and the zone.\<close>

definition parse_v6 :: "string \<Rightarrow> (nat list \<times> string) option" where
  "parse_v6 in0 =
     (let hasZone = CHR ''%'' \<in> set in0;
          s = takeWhile (\<lambda>c. c \<noteq> CHR ''%'') in0;
          zone = tl (dropWhile (\<lambda>c. c \<noteq> CHR ''%'') in0)
      in if hasZone \<and> zone = [] then None
         else
           (let z = (if hasZone then zone else [])
            in if has_prefix s ''::'' then
                 (if drop 2 s = [] then Some (replicate 16 0, z)
                  else map_option (\<lambda>ip. (ip, z)) (Option.bind (v6_loop (Some 0) [] (drop 2 s)) v6_finish))
               else map_option (\<lambda>ip. (ip, z)) (Option.bind (v6_loop None [] s) v6_finish)))"

definition netip_ParseAddr :: "string \<Rightarrow> (nat list \<times> string) option" where
  "netip_ParseAddr s =
     (case find (\<lambda>c. c \<in> set ''.:%'') s of
        None \<Rightarrow> None
      | Some c \<Rightarrow>
          if c = CHR ''.'' then map_option (\<lambda>ip. (ip, [])) (parse_v4 s)
          else if c = CHR '':'' then parse_v6 s
          else None)"

text \<open>\<open>net.ParseIP\<close> refuses a zone. \<open>To4\<close> reads a 16-byte address that maps an IPv4 one.\<close>

definition ParseIP :: "string \<Rightarrow> nat list option" where
  "ParseIP s = (case netip_ParseAddr s of Some (ip, z) \<Rightarrow> if z = [] then Some ip else None | None \<Rightarrow> None)"

definition To4 :: "nat list \<Rightarrow> nat list option" where
  "To4 ip =
     (if length ip = 4 then Some ip
      else if length ip = 16 \<and> take 12 ip = replicate 10 0 @ [255, 255] then Some (drop 12 ip)
      else None)"

section \<open>CIDR blocks\<close>

text \<open>A network: its (masked) address bytes, the mask's leading ones and its total bits.\<close>

record IPNet =
  net_IP :: "nat list"
  net_Ones :: nat
  net_Bits :: nat

fun dtoi_loop :: "nat \<Rightarrow> string \<Rightarrow> nat option" where
  "dtoi_loop n [] = Some n"
| "dtoi_loop n (c # cs) =
     (case digit_val c of
        None \<Rightarrow> None
      | Some d \<Rightarrow> if n * 10 + d \<ge> 16777215 then None else dtoi_loop (n * 10 + d) cs)"

definition dtoi_all :: "string \<Rightarrow> nat option" where
  "dtoi_all s = (if s = [] then None else dtoi_loop 0 s)"

text \<open>The mask keeps the leading \<open>ones\<close> bits of the address.\<close>

fun mask_bytes :: "nat \<Rightarrow> nat list \<Rightarrow> nat list" where
  "mask_bytes ones [] = []"
| "mask_bytes ones (b # bs) =
     (if 8 \<le> ones then b # mask_bytes (ones - 8) bs
      else (b - b mod 2 ^ (8 - ones)) # mask_bytes 0 bs)"

definition ParseCIDR :: "string \<Rightarrow> IPNet option" where
  "ParseCIDR s =
     (if CHR ''/'' \<notin> set s then None
      else case netip_ParseAddr (takeWhile (\<lambda>c. c \<noteq> CHR ''/'') s) of
        None \<Rightarrow> None
      | Some (ip, zone) \<Rightarrow>
          if zone \<noteq> [] then None
          else case dtoi_all (tl (dropWhile (\<lambda>c. c \<noteq> CHR ''/'') s)) of
            None \<Rightarrow> None
          | Some n \<Rightarrow>
              if n > 8 * length ip then None
              else Some \<lparr>net_IP = mask_bytes n ip, net_Ones = n, net_Bits = 8 * length ip\<rparr>)"

text \<open>
  \<open>IPNet.Contains\<close>: both sides are read as IPv4 where they can be, a 16-byte mask of an IPv4
  network is cut to its last four bytes, and addresses of different lengths never match.
\<close>

definition network_number :: "IPNet \<Rightarrow> (nat list \<times> nat) option" where
  "network_number n =
     (case To4 (net_IP n) of
        Some ip4 \<Rightarrow> if net_Bits n = 32 then Some (ip4, net_Ones n)
                    else if net_Bits n = 128 then Some (ip4, net_Ones n - 96) else None
      | None \<Rightarrow> if length (net_IP n) = 16 \<and> net_Bits n = 128 then Some (net_IP n, net_Ones n) else None)"

definition net_Contains :: "IPNet \<Rightarrow> nat list \<Rightarrow> bool" where
  "net_Contains n ip0 =
     (let ip = (case To4 ip0 of Some x \<Rightarrow> x | None \<Rightarrow> ip0)
      in case network_number n of
           None \<Rightarrow> ip = []
         | Some (nn, ones) \<Rightarrow> length ip = length nn \<and> mask_bytes ones nn = mask_bytes ones ip)"

section \<open>Lemmas\<close>

declare v6_loop.simps [simp del]

lemma mask_bytes_length [simp]: "length (mask_bytes n bs) = length bs"
  by (induction n bs rule: mask_bytes.induct) auto

lemma mask_byte_idem: "k \<le> 8 \<Longrightarrow> (b - b mod 2 ^ k) - (b - b mod 2 ^ k) mod 2 ^ k = b - b mod (2::nat) ^ k"
  by (simp add: minus_mod_eq_mult_div)

lemma mask_bytes_idem [simp]: "mask_bytes n (mask_bytes n bs) = mask_bytes n bs"
  by (induction n bs rule: mask_bytes.induct) (auto simp: minus_mod_eq_mult_div)

lemma v4_loop_length: "v4_loop f p v d fs s = Some r \<Longrightarrow> length fs \<le> 3 \<Longrightarrow> length r = 4"
  by (induction s arbitrary: f p v d fs) (auto split: option.splits if_splits)

lemma parse_v4_length: "parse_v4 s = Some r \<Longrightarrow> length r = 4"
  by (auto simp: parse_v4_def dest: v4_loop_length)

lemma v4_loop_bytes:
  "v4_loop f p v d fs s = Some r \<Longrightarrow> v < 256 \<Longrightarrow> \<forall>b \<in> set fs. b < 256 \<Longrightarrow> b \<in> set r \<Longrightarrow> b < 256"
  by (induction s arbitrary: f p v d fs) (auto split: option.splits if_splits)

lemma v6_finish_length: "v6_finish (ell, ip, s) = Some r \<Longrightarrow> length ip \<le> 16 \<Longrightarrow> length r = 16"
  by (auto simp: v6_finish_def split: if_splits option.splits)

end
