(* ===== verification/FC_Validation.thy ===== *)
theory FC_Validation
  imports Complex_Main Health_Rules Go_Net
begin

text \<open>
  The validating webhook of \<open>flowcollector_validation_webhook.go\<close>. The validator accumulates
  warnings and errors; each of its methods is a definition here, in the order \<open>Validate\<close> calls
  them. Messages are values: one constructor per message of the source, with its arguments.
  What the webhook takes from outside is the record \<open>venv\<close>: the cluster information,
  the operator namespace, the order in which Go ranges over the map of required versions, the
  query parser of flowlogs-pipeline and the float parser.
\<close>

section \<open>Messages and state\<close>

datatype float64 = Fin rat | PosInf | NegInf | NaN

text \<open>IEEE comparison: every comparison with NaN is false.\<close>

fun f64_lt :: "float64 \<Rightarrow> float64 \<Rightarrow> bool" where
  "f64_lt (Fin a) (Fin b) = (a < b)"
| "f64_lt NegInf (Fin b) = True"
| "f64_lt NegInf PosInf = True"
| "f64_lt (Fin a) PosInf = True"
| "f64_lt _ _ = False"

datatype port_error =
  BadRange string
| StartPort port_error
| EndPort port_error
| EmptyRange
| BadCouple string
| FirstPort port_error
| SecondPort port_error
| InvalidPortNumber num_error
| InvalidPort0

datatype verror =
  EDuplicateFilterRule string
| EInvalidCIDR string
| EFilterPort port_error
| EPortsAndSourcePorts
| EPortsAndDestPorts
| EConntrackWithoutLoki
| EConntrackService
| EFilterQuery nat string
| EGroupByUnsupported HealthRuleTemplate HealthRuleGroupBy nat nat
| ENoThreshold nat nat
| EThresholdParse string nat nat string
| EThresholdNegative string nat nat string
| EThresholdOrder string float64 nat nat string
| ELowVolumeParse nat nat string
| EAlertOnlyRecording HealthRuleTemplate nat nat
| EMissingCertificates
| EMissingCAFile
| EMissingServerCert
| EPortConflict string int int

datatype warning =
  WAgentLogLevel string
| WProcessorLogLevel string
| WAgentProfiling
| WAgentProfilingAllInterfaces
| WProcessorProfiling
| WDemoLoki
| WNbNodesUnavailable string
| WTooManyNodesForDirect nat
| WUnknownEnvDeploymentModel
| WCNIUnavailable string
| WNetPolOpenShiftSDN
| WNetPolUnknownCNI
| WNetPolSameNamespace
| WUnknownEnvCNI
| WOpenShiftVersionUnavailable string
| WFeatureRequiresVersion AgentFeature string string
| WUnknownEnvFeature AgentFeature
| WDNSPortsWithoutTracking
| WSchedulingMismatch
| WAllLogTypes
| WHealthRuleNotAllowed HealthRuleTemplate AgentFeature
| WHealthRuleRequiresMetric HealthRuleTemplate HealthRuleGroupBy "string list"
| WMetricsIncludeLists

record clusterInfo =
  ci_IsOpenShift :: bool
  ci_IsOpenShiftVersionAtLeast :: "string \<Rightarrow> string + (bool \<times> string)"
  ci_GetNbNodes :: "string + nat"
  ci_GetCNI :: "NetworkType \<times> string option"

record venv =
  CurrentClusterInfo :: "clusterInfo option"
  OperatorNamespace :: string
  feature_order :: "AgentFeature list"
  dsl_Parse :: "string \<Rightarrow> string option"
  ParseFloat :: "string \<Rightarrow> float64 \<times> bool"

record validator =
  v_warnings :: "warning list"
  v_errors :: "verror list"

definition new_validator :: validator where
  "new_validator = \<lparr>v_warnings = [], v_errors = []\<rparr>"

definition warn :: "warning \<Rightarrow> validator \<Rightarrow> validator" where
  "warn w v = v\<lparr>v_warnings := v_warnings v @ [w]\<rparr>"

definition err :: "verror \<Rightarrow> validator \<Rightarrow> validator" where
  "err e v = v\<lparr>v_errors := v_errors v @ [e]\<rparr>"

text \<open>\<open>if c { ... }\<close> without else.\<close>

definition v_when :: "bool \<Rightarrow> (validator \<Rightarrow> validator) \<Rightarrow> validator \<Rightarrow> validator" where
  "v_when c f v = (if c then f v else v)"

section \<open>Warnings on debugging options\<close>

definition warnLogLevels :: "FlowCollectorSpec \<Rightarrow> validator \<Rightarrow> validator" where
  "warnLogLevels fc v =
     (let a = ebpf_LogLevel (ebpf_of fc); p = flp_LogLevel (spec_Processor fc);
          v = v_when (a = ''debug'' \<or> a = ''trace'') (warn (WAgentLogLevel a)) v
      in v_when (p = ''debug'' \<or> p = ''trace'') (warn (WProcessorLogLevel p)) v)"

definition warnProfiling :: "FlowCollectorSpec \<Rightarrow> validator \<Rightarrow> validator" where
  "warnProfiling fc v =
     (let v = (case ebpf_Advanced (ebpf_of fc) of
                 None \<Rightarrow> v
               | Some adv \<Rightarrow>
                   (case aac_Env adv ''PPROF_ADDR'' of
                      None \<Rightarrow> v
                    | Some env \<Rightarrow>
                        if env \<noteq> [] then
                          v_when (has_prefix env '':'' \<or> has_prefix env ''0.0.0.0:'') (warn WAgentProfilingAllInterfaces)
                            (warn WAgentProfiling v)
                        else v))
      in v_when (case flp_Advanced (spec_Processor fc) of
                 None \<Rightarrow> False
               | Some adv \<Rightarrow> (case apc_ProfilePort adv of None \<Rightarrow> False | Some p \<Rightarrow> p > 0))
           (warn WProcessorProfiling) v)"

definition warnLokiDemo :: "FlowCollectorSpec \<Rightarrow> validator \<Rightarrow> validator" where
  "warnLokiDemo fc =
     v_when (loki_Mode (spec_Loki fc) = LokiModeMonolithic
           \<and> lmon_InstallDemoLoki (loki_Monolithic (spec_Loki fc)) = Some True) (warn WDemoLoki)"

section \<open>Environment-dependent checks\<close>

definition validateDeploymentModel :: "venv \<Rightarrow> FlowCollectorSpec \<Rightarrow> validator \<Rightarrow> validator" where
  "validateDeploymentModel env fc v =
     (case CurrentClusterInfo env of
        None \<Rightarrow> warn WUnknownEnvDeploymentModel v
      | Some ci \<Rightarrow>
          (case ci_GetNbNodes ci of
             Inl e \<Rightarrow> warn (WNbNodesUnavailable e) v
           | Inr n \<Rightarrow> v_when (15 \<le> n \<and> spec_DeploymentModel fc = DeploymentModelDirect)
                        (warn (WTooManyNodesForDirect n)) v))"

definition validateNetPol :: "venv \<Rightarrow> FlowCollectorSpec \<Rightarrow> validator \<Rightarrow> validator" where
  "validateNetPol env fc v =
     (case CurrentClusterInfo env of
        None \<Rightarrow> warn WUnknownEnvCNI v
      | Some ci \<Rightarrow>
          (let (cni, e) = ci_GetCNI ci;
               v = (case e of None \<Rightarrow> v | Some m \<Rightarrow> warn (WCNIUnavailable m) v);
               enable = np_Enable (spec_NetworkPolicy fc);
               shouldInstall = ShouldInstallNetworkPolicy enable cni;
               v = (if cni = OpenShiftSDN \<and> enable = Some True then warn WNetPolOpenShiftSDN v
                    else if cni = UnknownCNI \<and> shouldInstall then warn WNetPolUnknownCNI v
                    else v)
           in v_when (spec_Namespace fc \<noteq> [] \<and> spec_Namespace fc = OperatorNamespace env \<and> enable \<noteq> None)
                (warn WNetPolSameNamespace) v))"

definition neededOpenShiftVersion :: "AgentFeature \<rightharpoonup> string" where
  "neededOpenShiftVersion =
     [PacketDrop \<mapsto> ''4.14.0'', UDNMapping \<mapsto> ''4.18.0'', NetworkEvents \<mapsto> ''4.19.0'', EbpfManager \<mapsto> ''4.19.0'']"

definition feature_version_check :: "venv \<Rightarrow> FlowCollectorSpec \<Rightarrow> AgentFeature \<Rightarrow> string \<Rightarrow> validator \<Rightarrow> validator" where
  "feature_version_check env fc feat minVersion v =
     (if feat \<in> set (ebpf_Features (ebpf_of fc)) then
        (case CurrentClusterInfo env of
           None \<Rightarrow> warn (WUnknownEnvFeature feat) v
         | Some ci \<Rightarrow>
             if ci_IsOpenShift ci then
               (case ci_IsOpenShiftVersionAtLeast ci minVersion of
                  Inl e \<Rightarrow> warn (WOpenShiftVersionUnavailable e) v
                | Inr (ok, actual) \<Rightarrow> v_when (\<not> ok) (warn (WFeatureRequiresVersion feat minVersion actual)) v)
             else warn (WUnknownEnvFeature feat) v)
      else v)"

fun feature_versions :: "venv \<Rightarrow> FlowCollectorSpec \<Rightarrow> AgentFeature list \<Rightarrow> validator \<Rightarrow> validator" where
  "feature_versions env fc [] v = v"
| "feature_versions env fc (f # fs) v =
     feature_versions env fc fs
       (case neededOpenShiftVersion f of None \<Rightarrow> v | Some mv \<Rightarrow> feature_version_check env fc f mv v)"

definition validateDNSTrackingPorts :: "FlowCollectorSpec \<Rightarrow> validator \<Rightarrow> validator" where
  "validateDNSTrackingPorts fc =
     v_when (0 < length (ebpf_DNSTrackingPorts (ebpf_of fc)) \<and> \<not> IsDNSTrackingEnabled (ebpf_of fc))
       (warn WDNSPortsWithoutTracking)"

section \<open>Agent filters\<close>

definition validatePortString :: "string \<Rightarrow> port_error + nat" where
  "validatePortString s =
     (case parse_uint 65535 s of
        Inl e \<Rightarrow> Inl (InvalidPortNumber e)
      | Inr p \<Rightarrow> if p = 0 then Inl InvalidPort0 else Inr p)"

definition validateFilterPortConfig :: "IntOrString \<Rightarrow> port_error option" where
  "validateFilterPortConfig value =
     (if ios_Type value = IntKind then None
      else (let sVal = intstr_String value in
        if str_contains sVal ''-'' then
          (case split2 CHR ''-'' sVal of
             [a, b] \<Rightarrow>
               (case validatePortString a of
                  Inl e \<Rightarrow> Some (StartPort e)
                | Inr start \<Rightarrow>
                    (case validatePortString b of
                       Inl e \<Rightarrow> Some (EndPort e)
                     | Inr end_ \<Rightarrow> if end_ \<le> start then Some EmptyRange else None))
           | _ \<Rightarrow> Some (BadRange sVal))
        else if str_contains sVal '','' then
          (case split_on CHR '','' sVal of
             [a, b] \<Rightarrow>
               (case validatePortString a of
                  Inl e \<Rightarrow> Some (FirstPort e)
                | Inr _ \<Rightarrow> (case validatePortString b of Inl e \<Rightarrow> Some (SecondPort e) | Inr _ \<Rightarrow> None))
           | _ \<Rightarrow> Some (BadCouple sVal))
        else (case validatePortString sVal of Inl e \<Rightarrow> Some e | Inr _ \<Rightarrow> None)))"

definition has_port :: "IntOrString \<Rightarrow> bool" where
  "has_port p \<longleftrightarrow> ios_IntVal p > 0 \<or> ios_StrVal p \<noteq> []"

definition check_ports :: "IntOrString \<Rightarrow> validator \<Rightarrow> validator" where
  "check_ports p v =
     (if has_port p then
        (case validateFilterPortConfig p of None \<Rightarrow> v | Some e \<Rightarrow> err (EFilterPort e) v)
      else v)"

definition validateAgentFilter :: "EBPFFlowFilterRule \<Rightarrow> validator \<Rightarrow> validator" where
  "validateAgentFilter f v =
     (let v = v_when (rule_CIDR f \<noteq> [] \<and> ParseCIDR (rule_CIDR f) = None) (err (EInvalidCIDR (rule_CIDR f))) v;
          v = check_ports (rule_Ports f) v;
          v = check_ports (rule_SourcePorts f) v;
          v = check_ports (rule_DestPorts f) v;
          v = v_when (has_port (rule_Ports f) \<and> has_port (rule_SourcePorts f)) (err EPortsAndSourcePorts) v
      in v_when (has_port (rule_Ports f) \<and> has_port (rule_DestPorts f)) (err EPortsAndDestPorts) v)"

definition filter_key :: "EBPFFlowFilterRule \<Rightarrow> string" where
  "filter_key r = rule_CIDR r @ ''-'' @ rule_PeerCIDR r"

fun filter_rules :: "string set \<Rightarrow> EBPFFlowFilterRule list \<Rightarrow> validator \<Rightarrow> validator" where
  "filter_rules seen [] v = v"
| "filter_rules seen (r # rs) v =
     (if filter_key r \<in> seen then err (EDuplicateFilterRule (filter_key r)) v
      else filter_rules (insert (filter_key r) seen) rs (validateAgentFilter r v))"

definition validateAgent :: "venv \<Rightarrow> FlowCollectorSpec \<Rightarrow> validator \<Rightarrow> validator" where
  "validateAgent env fc v =
     (let v = feature_versions env fc (feature_order env) v;
          v = validateDNSTrackingPorts fc v
      in case ebpf_FlowFilter (ebpf_of fc) of
           None \<Rightarrow> v
         | Some ff \<Rightarrow>
             if ff_Enable ff = Some True
             then validateAgentFilter (ff_Inline ff) (filter_rules {} (ff_Rules ff) v)
             else v)"

section \<open>Processor checks\<close>

definition validateScheduling :: "FlowCollectorSpec \<Rightarrow> validator \<Rightarrow> validator" where
  "validateScheduling fc =
     (let agent = Option.bind (ebpf_Advanced (ebpf_of fc)) aac_Scheduling;
          flp = Option.bind (flp_Advanced (spec_Processor fc)) apc_Scheduling
      in v_when (spec_DeploymentModel fc = DeploymentModelDirect \<and> agent \<noteq> flp) (warn WSchedulingMismatch))"

definition validateFLPLogTypes :: "FlowCollectorSpec \<Rightarrow> validator \<Rightarrow> validator" where
  "validateFLPLogTypes fc v =
     (if HasConntrack (spec_Processor fc) then
        (let v = v_when (flp_LogTypes (spec_Processor fc) = Some LogTypeAll) (warn WAllLogTypes) v;
             v = v_when (\<not> UseLoki fc) (err EConntrackWithoutLoki) v
         in v_when (spec_DeploymentModel fc = DeploymentModelService) (err EConntrackService) v)
      else v)"

fun filter_queries :: "venv \<Rightarrow> nat \<Rightarrow> FLPFilterSet list \<Rightarrow> validator \<Rightarrow> validator" where
  "filter_queries env i [] v = v"
| "filter_queries env i (f # fs) v =
     filter_queries env (i + 1) fs
       (case dsl_Parse env (fs_Query f) of None \<Rightarrow> v | Some e \<Rightarrow> err (EFilterQuery i e) v)"

definition validateFLPFilters :: "venv \<Rightarrow> FlowCollectorSpec \<Rightarrow> validator \<Rightarrow> validator" where
  "validateFLPFilters env fc = filter_queries env 0 (flp_Filters (spec_Processor fc))"

definition isFLPHealthRuleGroupBySupported :: "HealthRuleTemplate \<Rightarrow> HealthRuleVariant \<Rightarrow> bool" where
  "isFLPHealthRuleGroupBySupported t var =
     (case t of
        HealthRulePacketDropsByDevice \<Rightarrow> var_GroupBy var \<noteq> GroupByWorkload
      | HealthRuleIPsecErrors \<Rightarrow> var_GroupBy var \<noteq> GroupByWorkload \<and> var_GroupBy var \<noteq> GroupByNamespace
      | HealthRuleIngress5xxErrors \<Rightarrow> var_GroupBy var \<noteq> GroupByNode \<and> var_GroupBy var \<noteq> GroupByWorkload
      | HealthRuleIngressHTTPLatencyTrend \<Rightarrow> var_GroupBy var \<noteq> GroupByNode \<and> var_GroupBy var \<noteq> GroupByWorkload
      | AlertLokiError \<Rightarrow> False
      | AlertNoFlows \<Rightarrow> False
      | _ \<Rightarrow> True)"

text \<open>The loop over the three severities, with the last threshold seen (-1 at the start).\<close>

fun threshold_loop :: "venv \<Rightarrow> nat \<Rightarrow> nat \<Rightarrow> float64 \<Rightarrow> (string \<times> string) list \<Rightarrow> validator \<Rightarrow> validator" where
  "threshold_loop env i j lastT [] v = v"
| "threshold_loop env i j lastT ((sev, t) # sts) v =
     (if t \<noteq> [] then
        (let (val, failed) = ParseFloat env t;
             v = (if failed then err (EThresholdParse sev i j t) v
                  else if f64_lt val (Fin 0) then err (EThresholdNegative sev i j t) v
                  else if f64_lt (Fin 0) lastT \<and> f64_lt lastT val then err (EThresholdOrder sev lastT i j t) v
                  else v)
         in threshold_loop env i j val sts v)
      else threshold_loop env i j lastT sts v)"

definition severities :: "HealthRuleThresholds \<Rightarrow> (string \<times> string) list" where
  "severities t = [(''critical'', thr_Critical t), (''warning'', thr_Warning t), (''info'', thr_Info t)]"

definition validateVariantMode :: "HealthRuleTemplate \<Rightarrow> HealthRuleVariant \<Rightarrow> nat \<Rightarrow> nat \<Rightarrow> validator \<Rightarrow> validator" where
  "validateVariantMode t var i j =
     v_when (var_Mode var = Some ModeRecording \<and> (t = AlertNoFlows \<or> t = AlertLokiError))
       (err (EAlertOnlyRecording t i j))"

definition validate_variant :: "venv \<Rightarrow> HealthRuleTemplate \<Rightarrow> nat \<Rightarrow> nat \<Rightarrow> HealthRuleVariant \<Rightarrow> validator \<Rightarrow> validator" where
  "validate_variant env t i j var v =
     (let v = v_when (\<not> isFLPHealthRuleGroupBySupported t var) (err (EGroupByUnsupported t (var_GroupBy var) i j)) v;
          th = var_Thresholds var;
          v = v_when (thr_Critical th = [] \<and> thr_Warning th = [] \<and> thr_Info th = []) (err (ENoThreshold i j)) v;
          v = threshold_loop env i j (Fin (- 1)) (severities th) v;
          v = v_when (var_LowVolumeThreshold var \<noteq> [] \<and> snd (ParseFloat env (var_LowVolumeThreshold var)))
                (err (ELowVolumeParse i j (var_LowVolumeThreshold var))) v
      in validateVariantMode t var i j v)"

fun validate_variants :: "venv \<Rightarrow> HealthRuleTemplate \<Rightarrow> nat \<Rightarrow> nat \<Rightarrow> HealthRuleVariant list \<Rightarrow> validator \<Rightarrow> validator" where
  "validate_variants env t i j [] v = v"
| "validate_variants env t i j (var # vars) v =
     validate_variants env t i (j + 1) vars (validate_variant env t i j var v)"

fun validate_rules :: "venv \<Rightarrow> FlowCollectorSpec \<Rightarrow> nat \<Rightarrow> FLPHealthRule list \<Rightarrow> validator \<Rightarrow> validator" where
  "validate_rules env fc i [] v = v"
| "validate_rules env fc i (g # gs) v =
     validate_rules env fc (i + 1) gs
       (validate_variants env (hr_Template g) i 0 (hr_Variants g)
          (case snd (IsAllowed g fc) of None \<Rightarrow> v | Some (t, f) \<Rightarrow> warn (WHealthRuleNotAllowed t f) v))"

definition validateFLPAlerts :: "venv \<Rightarrow> FlowCollectorSpec \<Rightarrow> validator \<Rightarrow> validator" where
  "validateFLPAlerts env fc v =
     (case fm_HealthRules (flp_Metrics (spec_Processor fc)) of
        None \<Rightarrow> v
      | Some gs \<Rightarrow> validate_rules env fc 0 gs v)"

definition require_metric :: "HealthRuleTemplate \<Rightarrow> HealthRuleVariant \<Rightarrow> string list \<Rightarrow> string list \<Rightarrow> validator \<Rightarrow> validator" where
  "require_metric t a metrics req =
     v_when (0 < length req \<and> GetFirstRequiredMetrics req metrics = [])
       (warn (WHealthRuleRequiresMetric t (var_GroupBy a) req))"

fun metrics_for_variants :: "string list \<Rightarrow> HealthRuleTemplate \<Rightarrow> HealthRuleVariant list \<Rightarrow> validator \<Rightarrow> validator" where
  "metrics_for_variants metrics t [] v = v"
| "metrics_for_variants metrics t (a # as) v =
     metrics_for_variants metrics t as
       (case GetElligibleMetricsForAlert t a of
          (req1, req2) \<Rightarrow> require_metric t a metrics req2 (require_metric t a metrics req1 v))"

fun metrics_for_rules :: "string list \<Rightarrow> FLPHealthRule list \<Rightarrow> validator \<Rightarrow> validator" where
  "metrics_for_rules metrics [] v = v"
| "metrics_for_rules metrics (g # gs) v =
     metrics_for_rules metrics gs (metrics_for_variants metrics (hr_Template g) (hr_Variants g) v)"

definition validateFLPMetricsForAlerts :: "FlowCollectorSpec \<Rightarrow> validator \<Rightarrow> validator" where
  "validateFLPMetricsForAlerts fc = metrics_for_rules (GetIncludeList fc) (GetFLPHealthRules fc)"

definition validateFLPMetricsIncludeLists :: "FlowCollectorSpec \<Rightarrow> validator \<Rightarrow> validator" where
  "validateFLPMetricsIncludeLists fc =
     v_when (fm_IncludeList (flp_Metrics (spec_Processor fc)) \<noteq> None
           \<and> fm_AdditionalIncludeList (flp_Metrics (spec_Processor fc)) \<noteq> None) (warn WMetricsIncludeLists)"

definition validateFLPTLS :: "FlowCollectorSpec \<Rightarrow> validator \<Rightarrow> validator" where
  "validateFLPTLS fc v =
     (case flp_Service (spec_Processor fc) of
        None \<Rightarrow> v
      | Some svc \<Rightarrow>
          if spec_DeploymentModel fc = DeploymentModelService \<and> svc_TLSType svc = TLSProvided then
            (case svc_ProvidedCertificates svc of
               None \<Rightarrow> err EMissingCertificates v
             | Some certs \<Rightarrow>
                 if cstls_CAFile certs = None then err EMissingCAFile v
                 else if cstls_ServerCert certs = None then err EMissingServerCert v
                 else v)
          else v)"

definition port_conflict :: "string \<Rightarrow> int \<Rightarrow> int option \<Rightarrow> validator \<Rightarrow> validator" where
  "port_conflict field k8scachePort p v =
     (case p of None \<Rightarrow> v | Some n \<Rightarrow> v_when (n = k8scachePort) (err (EPortConflict field n k8scachePort)) v)"

definition validatePortConflicts :: "FlowCollectorSpec \<Rightarrow> validator \<Rightarrow> validator" where
  "validatePortConflicts fc v =
     (let p = spec_Processor fc in
      if \<not> IsInformerCacheProxyEnabled p then v
      else
        (let k8scachePort = GetK8sCachePort p;
             metricsPort = GetMetricsPort_flp p;
             port = Option.bind (flp_Advanced p) apc_Port;
             healthPort = Option.bind (flp_Advanced p) apc_HealthPort;
             profilePort = Option.bind (flp_Advanced p) apc_ProfilePort;
             v = port_conflict ''spec.processor.advanced.port'' k8scachePort port v;
             v = port_conflict ''spec.processor.advanced.healthPort'' k8scachePort healthPort v;
             v = port_conflict ''spec.processor.metrics.server.port'' k8scachePort (Some metricsPort) v
         in port_conflict ''spec.processor.advanced.profilePort'' k8scachePort profilePort v))"

definition validateFLP :: "venv \<Rightarrow> FlowCollectorSpec \<Rightarrow> validator \<Rightarrow> validator" where
  "validateFLP env fc v =
     (let v = validateScheduling fc v;
          v = validateFLPLogTypes fc v;
          v = validateFLPFilters env fc v;
          v = validateFLPAlerts env fc v;
          v = validateFLPMetricsForAlerts fc v;
          v = validateFLPMetricsIncludeLists fc v;
          v = validateFLPTLS fc v
      in validatePortConflicts fc v)"

definition Validate :: "venv \<Rightarrow> FlowCollectorSpec \<Rightarrow> validator" where
  "Validate env fc =
     (let v = new_validator;
          v = validateDeploymentModel env fc v;
          v = validateNetPol env fc v;
          v = validateAgent env fc v;
          v = validateFLP env fc v;
          v = warnLogLevels fc v;
          v = warnProfiling fc v
      in warnLokiDemo fc v)"

end
