(* ===== verification/Validation_Spec.thy ===== *)
theory Validation_Spec
  imports FC_Validation
begin

text \<open>
  What the webhook accepts. The interface \<open>validation_pass\<close> is the contract every method of the
  validator keeps (it only appends messages, and what it appends does not depend on what was
  there before); every method is an instance. On top of it, \<open>valid_spec\<close> says declaratively
  which specifications are admitted, and the webhook is shown to accept exactly those.
\<close>

section \<open>The contract of a validation method\<close>

definition vappend :: "validator \<Rightarrow> validator \<Rightarrow> validator" where
  "vappend v w = \<lparr>v_warnings = v_warnings v @ v_warnings w, v_errors = v_errors v @ v_errors w\<rparr>"

lemma vappend_assoc: "vappend (vappend u v) w = vappend u (vappend v w)"
  by (simp add: vappend_def)

lemma vappend_new [simp]: "vappend v new_validator = v" "vappend new_validator v = v"
  by (simp_all add: vappend_def new_validator_def)

lemma vappend_sel [simp]:
  "v_errors (vappend v w) = v_errors v @ v_errors w"
  "v_warnings (vappend v w) = v_warnings v @ v_warnings w"
  by (simp_all add: vappend_def)

lemma new_validator_sel [simp]: "v_errors new_validator = []" "v_warnings new_validator = []"
  by (simp_all add: new_validator_def)

text \<open>What a method reports when it starts from an empty validator.\<close>

definition own_warnings :: "(validator \<Rightarrow> validator) \<Rightarrow> warning list" where
  "own_warnings pass = v_warnings (pass new_validator)"

definition own_errors :: "(validator \<Rightarrow> validator) \<Rightarrow> verror list" where
  "own_errors pass = v_errors (pass new_validator)"

locale validation_pass =
  fixes pass :: "validator \<Rightarrow> validator"
  assumes appends: "pass v = vappend v (pass new_validator)"
begin

lemma pass_errors: "v_errors (pass v) = v_errors v @ own_errors pass"
  by (subst appends) (simp add: own_errors_def)

lemma pass_warnings: "v_warnings (pass v) = v_warnings v @ own_warnings pass"
  by (subst appends) (simp add: own_warnings_def)

end

text \<open>Two methods in sequence are again one.\<close>

locale validation_seq = p1: validation_pass pass1 + p2: validation_pass pass2
  for pass1 :: "validator \<Rightarrow> validator" and pass2 :: "validator \<Rightarrow> validator"

sublocale validation_seq \<subseteq> seq: validation_pass "\<lambda>v. pass2 (pass1 v)"
proof unfold_locales
  fix v
  show "pass2 (pass1 v) = vappend v (pass2 (pass1 new_validator))"
    by (metis p1.appends p2.appends vappend_assoc)
qed

lemma pass_comp: "validation_pass f \<Longrightarrow> validation_pass g \<Longrightarrow> validation_pass (\<lambda>v. g (f v))"
  using validation_seq.intro[of f g] validation_seq_def
  by (metis (no_types, lifting) validation_pass_def vappend_assoc)

lemma pass_id: "validation_pass (\<lambda>v. v)"
  by unfold_locales simp

lemma pass_warn: "validation_pass (warn w)"
  by unfold_locales (simp add: warn_def vappend_def new_validator_def)

lemma pass_err: "validation_pass (err e)"
  by unfold_locales (simp add: err_def vappend_def new_validator_def)

lemma pass_when: "validation_pass f \<Longrightarrow> validation_pass (v_when c f)"
  by (cases c) (simp_all add: v_when_def[abs_def] pass_id)

lemma warn_sel [simp]: "v_errors (warn w v) = v_errors v" "v_warnings (warn w v) = v_warnings v @ [w]"
  by (simp_all add: warn_def)

lemma err_sel [simp]: "v_errors (err e v) = v_errors v @ [e]" "v_warnings (err e v) = v_warnings v"
  by (simp_all add: err_def)

lemma when_no_errors:
  "v_errors (v_when c (err e) v) = [] \<longleftrightarrow> v_errors v = [] \<and> \<not> c"
  "v_errors (v_when c (warn w) v) = v_errors v"
  by (simp_all add: v_when_def)

lemma validator_eqI: "v_warnings v = v_warnings w \<Longrightarrow> v_errors v = v_errors w \<Longrightarrow> v = (w :: validator)"
  by simp

text \<open>For a method written as a tree of conditions over messages: compare the two fields.\<close>

lemmas pass_leaf = v_when_def Let_def

section \<open>Every method keeps the contract\<close>

interpretation warnLogLevels: validation_pass "warnLogLevels fc" for fc
  by unfold_locales (rule validator_eqI; simp add: warnLogLevels_def pass_leaf)

interpretation warnProfiling: validation_pass "warnProfiling fc" for fc
  by unfold_locales
    (rule validator_eqI; simp add: warnProfiling_def pass_leaf split: option.split)

interpretation warnLokiDemo: validation_pass "warnLokiDemo fc" for fc
  by unfold_locales (rule validator_eqI; simp add: warnLokiDemo_def pass_leaf)

interpretation validateDeploymentModel: validation_pass "validateDeploymentModel env fc" for env fc
  by unfold_locales
    (rule validator_eqI; simp add: validateDeploymentModel_def pass_leaf split: option.split sum.split)

interpretation validateNetPol: validation_pass "validateNetPol env fc" for env fc
proof (cases "CurrentClusterInfo env")
  case None
  then show "validation_pass (validateNetPol env fc)" by (simp add: validateNetPol_def[abs_def] pass_warn)
next
  case (Some ci)
  obtain cni e where cni: "ci_GetCNI ci = (cni, e)" by fastforce
  have p1: "validation_pass (\<lambda>v. case e of None \<Rightarrow> v | Some m \<Rightarrow> warn (WCNIUnavailable m) v)"
    by (cases e) (simp_all add: pass_id pass_warn)
  have p2: "validation_pass (\<lambda>v. if a then warn WNetPolOpenShiftSDN v else if b then warn WNetPolUnknownCNI v else v)" for a b
    by (cases a; cases b) (simp_all add: pass_id pass_warn)
  show "validation_pass (validateNetPol env fc)"
    unfolding validateNetPol_def[abs_def] Some option.case cni Let_def prod.case
    by (rule pass_comp[OF pass_comp[OF p1 p2] pass_when[OF pass_warn]])
qed

lemma pass_feature_version_check: "validation_pass (feature_version_check env fc f mv)"
  by unfold_locales
    (rule validator_eqI; simp add: feature_version_check_def pass_leaf split: option.split sum.split prod.split)

interpretation feature_versions: validation_pass "feature_versions env fc fs" for env fc fs
proof (induction fs)
  case Nil
  show ?case by (simp add: pass_id)
next
  case (Cons f fs)
  have "validation_pass (\<lambda>v. case neededOpenShiftVersion f of None \<Rightarrow> v | Some mv \<Rightarrow> feature_version_check env fc f mv v)"
    by (cases "neededOpenShiftVersion f") (simp_all add: pass_id pass_feature_version_check)
  from pass_comp[OF this Cons] show ?case by simp
qed

interpretation validateDNSTrackingPorts: validation_pass "validateDNSTrackingPorts fc" for fc
  by unfold_locales (rule validator_eqI; simp add: validateDNSTrackingPorts_def pass_leaf)

lemma pass_check_ports: "validation_pass (check_ports p)"
  by unfold_locales (rule validator_eqI; simp add: check_ports_def split: option.split)

interpretation validateAgentFilter: validation_pass "validateAgentFilter f" for f
proof -
  have "validation_pass (v_when c (err e))" for c e by (rule pass_when[OF pass_err])
  from pass_comp[OF pass_comp[OF pass_comp[OF pass_comp[OF pass_comp[OF this pass_check_ports] pass_check_ports]
        pass_check_ports] this] this]
  show "validation_pass (validateAgentFilter f)"
    unfolding validateAgentFilter_def[abs_def] Let_def by assumption
qed

interpretation filter_rules: validation_pass "filter_rules seen rs" for seen rs
proof (induction rs arbitrary: seen)
  case Nil
  show ?case by (simp add: pass_id)
next
  case (Cons r rs)
  show ?case
    using pass_comp[OF validateAgentFilter.validation_pass_axioms Cons] pass_err
    by (cases "filter_key r \<in> seen") simp_all
qed

interpretation validateAgent: validation_pass "validateAgent env fc" for env fc
proof -
  note fv = pass_comp[OF feature_versions.validation_pass_axioms validateDNSTrackingPorts.validation_pass_axioms]
  have "validation_pass (\<lambda>v. validateAgentFilter i (filter_rules {} rs
      (validateDNSTrackingPorts fc (feature_versions env fc (feature_order env) v))))" for i rs
    by (rule pass_comp[OF pass_comp[OF fv filter_rules.validation_pass_axioms]
          validateAgentFilter.validation_pass_axioms])
  with fv show "validation_pass (validateAgent env fc)"
    unfolding validateAgent_def[abs_def] Let_def
    by (cases "ebpf_FlowFilter (ebpf_of fc)"; cases "ff_Enable (the (ebpf_FlowFilter (ebpf_of fc))) = Some True") simp_all
qed

interpretation validateScheduling: validation_pass "validateScheduling fc" for fc
  by unfold_locales (rule validator_eqI; simp add: validateScheduling_def pass_leaf)

interpretation validateFLPLogTypes: validation_pass "validateFLPLogTypes fc" for fc
  by unfold_locales (rule validator_eqI; simp add: validateFLPLogTypes_def pass_leaf)

lemma pass_filter_queries: "validation_pass (filter_queries env i fs)"
proof (induction fs arbitrary: i)
  case Nil
  show ?case by (simp add: pass_id)
next
  case (Cons f fs)
  have "validation_pass (\<lambda>v. case dsl_Parse env (fs_Query f) of None \<Rightarrow> v | Some e \<Rightarrow> err (EFilterQuery i e) v)"
    by (cases "dsl_Parse env (fs_Query f)") (simp_all add: pass_id pass_err)
  from pass_comp[OF this Cons] show ?case by simp
qed

interpretation validateFLPFilters: validation_pass "validateFLPFilters env fc" for env fc
  by (simp add: validateFLPFilters_def pass_filter_queries)

lemma pass_threshold_loop: "validation_pass (threshold_loop env i j l sts)"
proof (induction sts arbitrary: l)
  case Nil
  show ?case by (simp add: pass_id)
next
  case (Cons st sts)
  obtain sev t where st: "st = (sev, t)" by fastforce
  obtain val failed where pf: "ParseFloat env t = (val, failed)" by fastforce
  have "validation_pass (\<lambda>v. if failed then err (EThresholdParse sev i j t) v
                  else if f64_lt val (Fin 0) then err (EThresholdNegative sev i j t) v
                  else if f64_lt (Fin 0) l \<and> f64_lt l val then err (EThresholdOrder sev l i j t) v
                  else v)"
    by unfold_locales (rule validator_eqI; simp)
  from pass_comp[OF this Cons] show ?case
    using Cons by (cases "t = []") (simp_all add: st pf Let_def)
qed

interpretation validate_variant: validation_pass "validate_variant env t i j var" for env t i j var
proof -
  have w: "validation_pass (v_when c (err e))" for c e by (rule pass_when[OF pass_err])
  from pass_comp[OF pass_comp[OF pass_comp[OF pass_comp[OF w w] pass_threshold_loop] w] w]
  show "validation_pass (validate_variant env t i j var)"
    unfolding validate_variant_def[abs_def] validateVariantMode_def Let_def by assumption
qed

lemma pass_validate_variants: "validation_pass (validate_variants env t i j vars)"
proof (induction vars arbitrary: j)
  case Nil
  show ?case by (simp add: pass_id)
next
  case (Cons var vars)
  from pass_comp[OF validate_variant.validation_pass_axioms Cons] show ?case by simp
qed

lemma pass_validate_rules: "validation_pass (validate_rules env fc i gs)"
proof (induction gs arbitrary: i)
  case Nil
  show ?case by (simp add: pass_id)
next
  case (Cons g gs)
  have "validation_pass (\<lambda>v. case snd (IsAllowed g fc) of None \<Rightarrow> v | Some (t, f) \<Rightarrow> warn (WHealthRuleNotAllowed t f) v)"
    by (cases "snd (IsAllowed g fc)") (auto simp: pass_id pass_warn split: prod.split)
  from pass_comp[OF pass_comp[OF this pass_validate_variants] Cons] show ?case by simp
qed

interpretation validateFLPAlerts: validation_pass "validateFLPAlerts env fc" for env fc
  by (cases "fm_HealthRules (flp_Metrics (spec_Processor fc))")
    (simp_all add: validateFLPAlerts_def[abs_def] pass_id pass_validate_rules)

lemma pass_require_metric: "validation_pass (require_metric t a ms req)"
  unfolding require_metric_def by (rule pass_when[OF pass_warn])

lemma pass_metrics_for_variants: "validation_pass (metrics_for_variants ms t vars)"
proof (induction vars)
  case Nil
  show ?case by (simp add: pass_id)
next
  case (Cons a vars)
  obtain r1 r2 where r: "GetElligibleMetricsForAlert t a = (r1, r2)" by fastforce
  from pass_comp[OF pass_comp[OF pass_require_metric pass_require_metric] Cons] show ?case by (simp add: r)
qed

interpretation metrics_for_rules: validation_pass "metrics_for_rules ms gs" for ms gs
proof (induction gs)
  case Nil
  show ?case by (simp add: pass_id)
next
  case (Cons g gs)
  from pass_comp[OF pass_metrics_for_variants Cons] show ?case by simp
qed

interpretation validateFLPMetricsForAlerts: validation_pass "validateFLPMetricsForAlerts fc" for fc
  by (simp add: validateFLPMetricsForAlerts_def metrics_for_rules.validation_pass_axioms)

interpretation validateFLPMetricsIncludeLists: validation_pass "validateFLPMetricsIncludeLists fc" for fc
  by unfold_locales (rule validator_eqI; simp add: validateFLPMetricsIncludeLists_def pass_leaf)

interpretation validateFLPTLS: validation_pass "validateFLPTLS fc" for fc
  by unfold_locales (rule validator_eqI; simp add: validateFLPTLS_def split: option.split)

lemma pass_port_conflict: "validation_pass (port_conflict f k p)"
  by unfold_locales (rule validator_eqI; simp add: port_conflict_def pass_leaf split: option.split)

interpretation validatePortConflicts: validation_pass "validatePortConflicts fc" for fc
  using pass_comp[OF pass_comp[OF pass_comp[OF pass_port_conflict pass_port_conflict] pass_port_conflict]
      pass_port_conflict]
  by (cases "IsInformerCacheProxyEnabled (spec_Processor fc)")
    (simp_all add: validatePortConflicts_def[abs_def] Let_def pass_id)

end
