(* ===== verification/Webhook_Correct.thy ===== *)
theory Webhook_Correct
  imports Validation_Spec Samples
begin

text \<open>
  The webhook against its declarative specification: which port strings, filter rules, health
  rules, TLS settings and ports are admitted (\<open>valid_spec\<close>), and that \<open>Validate\<close> reports no
  error exactly on those; that its verdict does not depend on Go's map order; that the built-in
  defaults never contradict each other.
\<close>

section \<open>Ports\<close>

definition valid_port :: "string \<Rightarrow> nat \<Rightarrow> bool" where
  "valid_port s n \<longleftrightarrow> parse_uint 65535 s = Inr n \<and> 1 \<le> n"

definition valid_port_config :: "IntOrString \<Rightarrow> bool" where
  "valid_port_config p \<longleftrightarrow> ios_Type p = IntKind
     \<or> (\<exists>n. valid_port (ios_StrVal p) n)
     \<or> (\<exists>a b m n. ios_StrVal p = a @ ''-'' @ b \<and> valid_port a m \<and> valid_port b n \<and> m < n)
     \<or> (\<exists>a b m n. ios_StrVal p = a @ '','' @ b \<and> valid_port a m \<and> valid_port b n)"

lemma validatePortString_valid: "validatePortString s = Inr n \<longleftrightarrow> valid_port s n"
  by (auto simp: validatePortString_def valid_port_def split: sum.splits if_splits)

lemma valid_port_digits: "valid_port s n \<Longrightarrow> c \<in> set s \<Longrightarrow> digit_val c \<noteq> None"
  by (auto simp: valid_port_def parse_uint_def dest: parse_uint_digits split: if_splits)

lemma valid_port_seps: "valid_port s n \<Longrightarrow> CHR ''-'' \<notin> set s \<and> CHR '','' \<notin> set s"
  using valid_port_digits[of s n "CHR ''-''"] valid_port_digits[of s n "CHR '',''"]
  by (auto simp: digit_val_def)

lemma first_sep_unique:
  "c \<notin> set x \<Longrightarrow> c \<notin> set a \<Longrightarrow> x @ c # y = a @ c # b \<Longrightarrow> x = a \<and> y = b"
proof (induction x arbitrary: a)
  case Nil
  then show ?case by (cases a) auto
next
  case (Cons z zs)
  then show ?case by (cases a) auto
qed

lemma split2_parts: "c \<in> set s \<Longrightarrow> \<exists>a b. split2 c s = [a, b] \<and> s = a @ c # b \<and> c \<notin> set a"
proof -
  assume "c \<in> set s"
  then obtain a b where "s = a @ c # b" "c \<notin> set a" by (metis split_list_first)
  then show ?thesis using split2_app[of c a b] by auto
qed

lemma split_on_two: "split_on c s = [a, b] \<longleftrightarrow> s = a @ c # b \<and> c \<notin> set a \<and> c \<notin> set b"
proof
  assume e: "split_on c s = [a, b]"
  then have s: "s = a @ c # b" using join_split_on[of c s] by simp
  have "c \<in> set s" using s by simp
  then obtain x y where xy: "s = x @ c # y" "c \<notin> set x" by (metis split_list_first)
  with e have "x = a" and y: "split_on c y = [b]" by (simp_all add: split_on_app)
  with s xy have "y = b" by simp
  have "c \<notin> set y"
  proof
    assume "c \<in> set y"
    then obtain u w where "y = u @ c # w" "c \<notin> set u" by (metis split_list_first)
    with y show False by (simp add: split_on_app)
  qed
  with s xy \<open>x = a\<close> \<open>y = b\<close> show "s = a @ c # b \<and> c \<notin> set a \<and> c \<notin> set b" by simp
qed (simp add: split_on_app split_on_no_sep)

lemma port_config_accepts_dash:
  assumes s: "ios_Type p = StringKind" and d: "CHR ''-'' \<in> set (ios_StrVal p)"
  shows "validateFilterPortConfig p = None \<longleftrightarrow>
    (\<exists>a b m n. ios_StrVal p = a @ ''-'' @ b \<and> valid_port a m \<and> valid_port b n \<and> m < n)"
proof -
  obtain a b where ab: "split2 CHR ''-'' (ios_StrVal p) = [a, b]" "ios_StrVal p = a @ CHR ''-'' # b" "CHR ''-'' \<notin> set a"
    using split2_parts[OF d] by blast
  have "validateFilterPortConfig p = None \<longleftrightarrow> (\<exists>m n. valid_port a m \<and> valid_port b n \<and> m < n)"
    using s d ab
    by (auto simp: validateFilterPortConfig_def intstr_String_def str_contains_char Let_def
        validatePortString_valid[symmetric] not_le split: sum.splits)
  moreover have u: "x = a \<and> y = b" if "ios_StrVal p = x @ CHR ''-'' # y" "valid_port x m" for x y m
    using that ab valid_port_seps[of x m] first_sep_unique[of "CHR ''-''" x a y b] by simp
  moreover have "(\<exists>x y m n. ios_StrVal p = x @ ''-'' @ y \<and> valid_port x m \<and> valid_port y n \<and> m < n)
      \<longleftrightarrow> (\<exists>m n. valid_port a m \<and> valid_port b n \<and> m < n)"
  proof
    assume "\<exists>x y m n. ios_StrVal p = x @ ''-'' @ y \<and> valid_port x m \<and> valid_port y n \<and> m < n"
    then obtain x y m n where "ios_StrVal p = x @ CHR ''-'' # y" "valid_port x m" "valid_port y n" "m < n" by auto
    with u[of x y m] show "\<exists>m n. valid_port a m \<and> valid_port b n \<and> m < n" by blast
  next
    assume "\<exists>m n. valid_port a m \<and> valid_port b n \<and> m < n"
    moreover have "ios_StrVal p = a @ ''-'' @ b" using ab by simp
    ultimately show "\<exists>x y m n. ios_StrVal p = x @ ''-'' @ y \<and> valid_port x m \<and> valid_port y n \<and> m < n" by blast
  qed
  ultimately show ?thesis by simp
qed

lemma port_config_accepts_comma:
  assumes s: "ios_Type p = StringKind" and nd: "CHR ''-'' \<notin> set (ios_StrVal p)"
    and d: "CHR '','' \<in> set (ios_StrVal p)"
  shows "validateFilterPortConfig p = None \<longleftrightarrow>
    (\<exists>a b m n. ios_StrVal p = a @ '','' @ b \<and> valid_port a m \<and> valid_port b n)"
proof -
  have e: "validateFilterPortConfig p = None \<longleftrightarrow>
    (\<exists>a b m n. split_on CHR '','' (ios_StrVal p) = [a, b] \<and> valid_port a m \<and> valid_port b n)"
    using s nd d
    by (auto simp: validateFilterPortConfig_def intstr_String_def str_contains_char Let_def
        validatePortString_valid[symmetric] split: sum.splits list.splits)
  show ?thesis unfolding e split_on_two using valid_port_seps by auto
qed

lemma port_config_accepts_single:
  assumes s: "ios_Type p = StringKind" and nd: "CHR ''-'' \<notin> set (ios_StrVal p)"
    and nc: "CHR '','' \<notin> set (ios_StrVal p)"
  shows "validateFilterPortConfig p = None \<longleftrightarrow> (\<exists>n. valid_port (ios_StrVal p) n)"
  using s nd nc
  by (auto simp: validateFilterPortConfig_def intstr_String_def str_contains_char Let_def
      validatePortString_valid[symmetric] split: sum.splits)

lemma port_config_iff: "validateFilterPortConfig p = None \<longleftrightarrow> valid_port_config p"
proof (cases "ios_Type p")
  case IntKind
  then show ?thesis by (simp add: validateFilterPortConfig_def valid_port_config_def)
next
  case StringKind
  let ?s = "ios_StrVal p"
  have single: "\<not> valid_port ?s n" if "CHR ''-'' \<in> set ?s \<or> CHR '','' \<in> set ?s" for n
    using that valid_port_seps by blast
  have comma: "\<not> (?s = a @ '','' @ b \<and> valid_port a m \<and> valid_port b n)" if "CHR ''-'' \<in> set ?s" for a b m n
    using that valid_port_seps[of a m] valid_port_seps[of b n] by auto
  consider (dash) "CHR ''-'' \<in> set ?s"
    | (comma) "CHR ''-'' \<notin> set ?s" "CHR '','' \<in> set ?s"
    | (plain) "CHR ''-'' \<notin> set ?s" "CHR '','' \<notin> set ?s" by blast
  then show ?thesis
  proof cases
    case dash
    with single comma port_config_accepts_dash[OF StringKind dash] show ?thesis
      by (simp add: valid_port_config_def StringKind) blast
  next
    case comma
    have "\<not> ?s = a @ ''-'' @ b" for a b using comma by auto
    with single comma port_config_accepts_comma[OF StringKind comma] show ?thesis
      by (simp add: valid_port_config_def StringKind)
  next
    case plain
    have "\<not> ?s = a @ ''-'' @ b" "\<not> ?s = a @ '','' @ b" for a b using plain by auto
    with port_config_accepts_single[OF StringKind plain] show ?thesis
      by (simp add: valid_port_config_def StringKind)
  qed
qed

section \<open>Filter rules\<close>

definition valid_ports_field :: "IntOrString \<Rightarrow> bool" where
  "valid_ports_field p \<longleftrightarrow> (has_port p \<longrightarrow> valid_port_config p)"

definition valid_rule :: "EBPFFlowFilterRule \<Rightarrow> bool" where
  "valid_rule r \<longleftrightarrow>
     (rule_CIDR r = [] \<or> ParseCIDR (rule_CIDR r) \<noteq> None)
     \<and> valid_ports_field (rule_Ports r) \<and> valid_ports_field (rule_SourcePorts r) \<and> valid_ports_field (rule_DestPorts r)
     \<and> (has_port (rule_Ports r) \<longrightarrow> \<not> has_port (rule_SourcePorts r) \<and> \<not> has_port (rule_DestPorts r))"

definition valid_filter :: "EBPFFlowFilter \<Rightarrow> bool" where
  "valid_filter ff \<longleftrightarrow> (ff_Enable ff = Some True \<longrightarrow>
     valid_rule (ff_Inline ff) \<and> (\<forall>r \<in> set (ff_Rules ff). valid_rule r) \<and> distinct (map filter_key (ff_Rules ff)))"

lemma check_ports_no_errors:
  "v_errors (check_ports p v) = [] \<longleftrightarrow> v_errors v = [] \<and> valid_ports_field p"
  by (auto simp: check_ports_def valid_ports_field_def port_config_iff[symmetric] split: option.split)

lemma agent_filter_no_errors:
  "v_errors (validateAgentFilter r v) = [] \<longleftrightarrow> v_errors v = [] \<and> valid_rule r"
  by (auto simp: validateAgentFilter_def Let_def when_no_errors check_ports_no_errors valid_rule_def)

lemma filter_rules_no_errors:
  "v_errors (filter_rules seen rs v) = [] \<longleftrightarrow>
     v_errors v = [] \<and> (\<forall>r \<in> set rs. valid_rule r) \<and> distinct (map filter_key rs) \<and> filter_key ` set rs \<inter> seen = {}"
  by (induction rs arbitrary: seen v) (auto simp: agent_filter_no_errors)

lemma feature_version_check_no_errors [simp]:
  "v_errors (feature_version_check env fc f mv v) = v_errors v"
  by (simp add: feature_version_check_def v_when_def split: option.split sum.split prod.split)

lemma feature_versions_no_errors [simp]: "v_errors (feature_versions env fc fs v) = v_errors v"
  by (induction fs arbitrary: v) (simp_all split: option.split)

lemma agent_no_errors:
  "v_errors (validateAgent env fc v) = [] \<longleftrightarrow>
     v_errors v = [] \<and> pred_option valid_filter (ebpf_FlowFilter (ebpf_of fc))"
  by (auto simp: validateAgent_def Let_def validateDNSTrackingPorts_def when_no_errors valid_filter_def
      agent_filter_no_errors filter_rules_no_errors split: option.split)

section \<open>Health rules\<close>

definition set_thresholds :: "(string \<times> string) list \<Rightarrow> string list" where
  "set_thresholds sts = filter (\<lambda>t. t \<noteq> []) (map snd sts)"

definition ordered_step :: "float64 \<Rightarrow> float64 \<Rightarrow> bool" where
  "ordered_step a b \<longleftrightarrow> \<not> (f64_lt (Fin 0) a \<and> f64_lt a b)"

definition valid_thresholds :: "venv \<Rightarrow> HealthRuleThresholds \<Rightarrow> bool" where
  "valid_thresholds env th \<longleftrightarrow>
     (let ts = set_thresholds (severities th)
      in ts \<noteq> [] \<and> (\<forall>t \<in> set ts. \<not> snd (ParseFloat env t) \<and> \<not> f64_lt (fst (ParseFloat env t)) (Fin 0))
         \<and> successively ordered_step (map (\<lambda>t. fst (ParseFloat env t)) ts))"

definition valid_variant :: "venv \<Rightarrow> HealthRuleTemplate \<Rightarrow> HealthRuleVariant \<Rightarrow> bool" where
  "valid_variant env t var \<longleftrightarrow>
     isFLPHealthRuleGroupBySupported t var
     \<and> valid_thresholds env (var_Thresholds var)
     \<and> (var_LowVolumeThreshold var = [] \<or> \<not> snd (ParseFloat env (var_LowVolumeThreshold var)))
     \<and> (var_Mode var = Some ModeRecording \<longrightarrow> t \<noteq> AlertNoFlows \<and> t \<noteq> AlertLokiError)"

definition valid_health_rule :: "venv \<Rightarrow> FLPHealthRule \<Rightarrow> bool" where
  "valid_health_rule env g \<longleftrightarrow> (\<forall>var \<in> set (hr_Variants g). valid_variant env (hr_Template g) var)"

lemma threshold_loop_no_errors:
  "v_errors (threshold_loop env i j l sts v) = [] \<longleftrightarrow>
     v_errors v = []
     \<and> (\<forall>t \<in> set (set_thresholds sts). \<not> snd (ParseFloat env t) \<and> \<not> f64_lt (fst (ParseFloat env t)) (Fin 0))
     \<and> successively ordered_step (l # map (\<lambda>t. fst (ParseFloat env t)) (set_thresholds sts))"
proof (induction sts arbitrary: l v)
  case Nil
  show ?case by (simp add: set_thresholds_def)
next
  case (Cons st sts)
  obtain sev t where st: "st = (sev, t)" by fastforce
  obtain val failed where "ParseFloat env t = (val, failed)" by fastforce
  then show ?case
    by (cases "t = []") (auto simp: st Cons set_thresholds_def Let_def ordered_step_def)
qed

lemma ordered_step_init [simp]: "ordered_step (Fin (- 1)) x"
  by (cases x) (simp_all add: ordered_step_def)

lemma no_threshold_iff:
  "set_thresholds (severities th) = [] \<longleftrightarrow> thr_Critical th = [] \<and> thr_Warning th = [] \<and> thr_Info th = []"
  by (simp add: set_thresholds_def severities_def)

lemma successively_Cons_init:
  "successively ordered_step (Fin (- 1) # xs) \<longleftrightarrow> successively ordered_step xs"
  by (cases xs) simp_all

lemma variant_no_errors:
  "v_errors (validate_variant env t i j var v) = [] \<longleftrightarrow> v_errors v = [] \<and> valid_variant env t var"
  by (auto simp: validate_variant_def Let_def validateVariantMode_def when_no_errors threshold_loop_no_errors
      valid_variant_def valid_thresholds_def no_threshold_iff successively_Cons_init)

lemma variants_no_errors:
  "v_errors (validate_variants env t i j vars v) = [] \<longleftrightarrow>
     v_errors v = [] \<and> (\<forall>var \<in> set vars. valid_variant env t var)"
  by (induction vars arbitrary: j v) (auto simp: variant_no_errors)

lemma rules_no_errors:
  "v_errors (validate_rules env fc i gs v) = [] \<longleftrightarrow>
     v_errors v = [] \<and> (\<forall>g \<in> set gs. valid_health_rule env g)"
  by (induction gs arbitrary: i v)
    (auto simp: variants_no_errors valid_health_rule_def split: option.split prod.split)

lemma alerts_no_errors:
  "v_errors (validateFLPAlerts env fc v) = [] \<longleftrightarrow>
     v_errors v = [] \<and> pred_option (\<lambda>gs. \<forall>g \<in> set gs. valid_health_rule env g) (fm_HealthRules (flp_Metrics (spec_Processor fc)))"
  by (simp add: validateFLPAlerts_def rules_no_errors split: option.split)

section \<open>The other processor checks\<close>

lemma filter_queries_no_errors:
  "v_errors (filter_queries env i fs v) = [] \<longleftrightarrow> v_errors v = [] \<and> (\<forall>f \<in> set fs. dsl_Parse env (fs_Query f) = None)"
  by (induction fs arbitrary: i v) (auto split: option.split)

lemma filter_queries_env:
  "filter_queries (env\<lparr>feature_order := fo\<rparr>) i fs v = filter_queries env i fs v"
  by (induction fs arbitrary: i v) simp_all

lemma validate_rules_env:
  "validate_rules (env\<lparr>feature_order := fo\<rparr>) fc i gs v = validate_rules env fc i gs v"
proof -
  have t: "threshold_loop (env\<lparr>feature_order := fo\<rparr>) i j l sts v = threshold_loop env i j l sts v" for i j l sts v
    by (induction sts arbitrary: l v) (auto simp: Let_def split: prod.split)
  have vs: "validate_variants (env\<lparr>feature_order := fo\<rparr>) t i j vars v = validate_variants env t i j vars v" for t i j vars v
    by (induction vars arbitrary: j v) (simp_all add: validate_variant_def t)
  show ?thesis by (induction gs arbitrary: i v) (simp_all add: vs)
qed

lemma metrics_for_rules_no_errors [simp]: "v_errors (metrics_for_rules ms gs v) = v_errors v"
proof -
  have r: "v_errors (require_metric t a ms req v) = v_errors v" for t a req v
    by (simp add: require_metric_def when_no_errors)
  have vs: "v_errors (metrics_for_variants ms t vars v) = v_errors v" for t vars v
    by (induction vars arbitrary: v) (simp_all add: r split: prod.split)
  show ?thesis by (induction gs arbitrary: v) (simp_all add: vs)
qed

definition valid_conntrack :: "FlowCollectorSpec \<Rightarrow> bool" where
  "valid_conntrack fc \<longleftrightarrow>
     (HasConntrack (spec_Processor fc) \<longrightarrow> UseLoki fc \<and> spec_DeploymentModel fc \<noteq> DeploymentModelService)"

definition valid_tls :: "FlowCollectorSpec \<Rightarrow> bool" where
  "valid_tls fc \<longleftrightarrow>
     (\<forall>svc. spec_DeploymentModel fc = DeploymentModelService \<and> flp_Service (spec_Processor fc) = Some svc
        \<and> svc_TLSType svc = TLSProvided \<longrightarrow>
        (\<exists>certs. svc_ProvidedCertificates svc = Some certs \<and> cstls_CAFile certs \<noteq> None \<and> cstls_ServerCert certs \<noteq> None))"

definition valid_cache_port :: "FlowCollectorSpec \<Rightarrow> bool" where
  "valid_cache_port fc \<longleftrightarrow>
     (let p = spec_Processor fc; k = GetK8sCachePort p
      in IsInformerCacheProxyEnabled p \<longrightarrow>
           GetMetricsPort_flp p \<noteq> k
           \<and> (\<forall>adv. flp_Advanced p = Some adv \<longrightarrow>
                apc_Port adv \<noteq> Some k \<and> apc_HealthPort adv \<noteq> Some k \<and> apc_ProfilePort adv \<noteq> Some k))"

lemma port_conflict_no_errors:
  "v_errors (port_conflict f k p v) = [] \<longleftrightarrow> v_errors v = [] \<and> p \<noteq> Some k"
  by (auto simp: port_conflict_def when_no_errors split: option.split)

lemma port_conflicts_no_errors:
  "v_errors (validatePortConflicts fc v) = [] \<longleftrightarrow> v_errors v = [] \<and> valid_cache_port fc"
  by (auto simp: validatePortConflicts_def Let_def port_conflict_no_errors valid_cache_port_def
      split: Option.bind_splits)

lemma tls_no_errors: "v_errors (validateFLPTLS fc v) = [] \<longleftrightarrow> v_errors v = [] \<and> valid_tls fc"
  by (auto simp: validateFLPTLS_def valid_tls_def split: option.splits)

lemma log_types_no_errors:
  "v_errors (validateFLPLogTypes fc v) = [] \<longleftrightarrow> v_errors v = [] \<and> valid_conntrack fc"
  by (auto simp: validateFLPLogTypes_def Let_def when_no_errors valid_conntrack_def)

section \<open>Admission\<close>

definition valid_spec :: "venv \<Rightarrow> FlowCollectorSpec \<Rightarrow> bool" where
  "valid_spec env fc \<longleftrightarrow>
     pred_option valid_filter (ebpf_FlowFilter (ebpf_of fc))
     \<and> valid_conntrack fc
     \<and> (\<forall>f \<in> set (flp_Filters (spec_Processor fc)). dsl_Parse env (fs_Query f) = None)
     \<and> pred_option (\<lambda>gs. \<forall>g \<in> set gs. valid_health_rule env g) (fm_HealthRules (flp_Metrics (spec_Processor fc)))
     \<and> valid_tls fc
     \<and> valid_cache_port fc"

lemma warnings_only [simp]:
  "v_errors (validateDeploymentModel env fc v) = v_errors v"
  "v_errors (validateNetPol env fc v) = v_errors v"
  "v_errors (validateScheduling fc v) = v_errors v"
  "v_errors (validateFLPMetricsForAlerts fc v) = v_errors v"
  "v_errors (validateFLPMetricsIncludeLists fc v) = v_errors v"
  "v_errors (warnLogLevels fc v) = v_errors v"
  "v_errors (warnProfiling fc v) = v_errors v"
  "v_errors (warnLokiDemo fc v) = v_errors v"
  by (simp_all add: validateDeploymentModel_def validateNetPol_def validateScheduling_def
      validateFLPMetricsForAlerts_def validateFLPMetricsIncludeLists_def warnLogLevels_def warnProfiling_def
      warnLokiDemo_def Let_def v_when_def split: option.split sum.split prod.split)

lemma accepts_iff_valid: "v_errors (Validate env fc) = [] \<longleftrightarrow> valid_spec env fc"
  by (auto simp: Validate_def Let_def validateFLP_def validateFLPFilters_def valid_spec_def
      agent_no_errors log_types_no_errors filter_queries_no_errors alerts_no_errors
      tls_no_errors port_conflicts_no_errors)

text \<open>
  C1: The webhook accepts a FlowCollector (it reports no error) exactly when the specification is
  valid in the declarative sense: enabled agent filters have parsable CIDRs, well-formed ports,
  no exclusive port fields and no duplicate rule; conversation tracking comes with Loki and not
  with the Service model; filter queries parse; health rules are well-formed; provided TLS
  certificates are present; no processor port collides with the k8s cache port.
\<close>

theorem Validate_accepts_iff: "v_errors (Validate env fc) = [] \<longleftrightarrow> valid_spec env fc"
  by (rule accepts_iff_valid)

text \<open>
  The port parser of agent filters accepts exactly: an integer; a port number from 1 to 65535;
  a range \<open>a-b\<close> of two ports with \<open>a < b\<close>; a couple \<open>a,b\<close> of two ports.
\<close>

theorem validateFilterPortConfig_iff: "validateFilterPortConfig p = None \<longleftrightarrow> valid_port_config p"
  by (rule port_config_iff)

text \<open>
  Printing a port range and validating it round-trips: every proper range of ports, written in
  decimal, is accepted, and reversed or one-point ranges are refused with the empty-range error.
\<close>

theorem port_range_roundtrip:
  assumes "1 \<le> a" "a \<le> 65535" "1 \<le> b" "b \<le> 65535"
  shows "validateFilterPortConfig \<lparr>ios_Type = StringKind, ios_IntVal = 0, ios_StrVal = show_nat a @ ''-'' @ show_nat b\<rparr>
    = (if a < b then None else Some EmptyRange)"
proof -
  have v: "validatePortString (show_nat n) = Inr n" if "1 \<le> n" "n \<le> 65535" for n
    using that by (simp add: validatePortString_def)
  have "CHR ''-'' \<notin> set (show_nat a)"
    using show_nat_digits[of "CHR ''-''" a] by (auto simp: digit_val_def)
  then have "split2 CHR ''-'' (show_nat a @ ''-'' @ show_nat b) = [show_nat a, show_nat b]"
    using split2_app[of "CHR ''-''" "show_nat a" "show_nat b"] by simp
  then show ?thesis
    using v assms by (simp add: validateFilterPortConfig_def intstr_String_def str_contains_char not_less)
qed

theorem port_range_roundtrip_witness:
  "validateFilterPortConfig \<lparr>ios_Type = StringKind, ios_IntVal = 0, ios_StrVal = show_nat 80 @ ''-'' @ show_nat 443\<rparr> = None
   \<and> validateFilterPortConfig \<lparr>ios_Type = StringKind, ios_IntVal = 0, ios_StrVal = show_nat 443 @ ''-'' @ show_nat 80\<rparr> = Some EmptyRange"
  using port_range_roundtrip[of 80 443] port_range_roundtrip[of 443 80] by simp

section \<open>The verdict does not depend on map order\<close>

definition feature_warnings :: "venv \<Rightarrow> FlowCollectorSpec \<Rightarrow> AgentFeature \<Rightarrow> warning list" where
  "feature_warnings env fc f =
     (case neededOpenShiftVersion f of
        None \<Rightarrow> []
      | Some mv \<Rightarrow> own_warnings (feature_version_check env fc f mv))"

lemma feature_versions_warnings:
  "v_warnings (feature_versions env fc fs v) = v_warnings v @ concat (map (feature_warnings env fc) fs)"
  by (induction fs arbitrary: v)
    (auto simp: feature_warnings_def validation_pass.pass_warnings[OF pass_feature_version_check] split: option.split)

lemma env_sel:
  "CurrentClusterInfo (env\<lparr>feature_order := fo\<rparr>) = CurrentClusterInfo env"
  "OperatorNamespace (env\<lparr>feature_order := fo\<rparr>) = OperatorNamespace env"
  "feature_order (env\<lparr>feature_order := fo\<rparr>) = fo"
  by simp_all

lemma order_irrelevant:
  "validateDeploymentModel (env\<lparr>feature_order := fo\<rparr>) fc v = validateDeploymentModel env fc v"
  "validateNetPol (env\<lparr>feature_order := fo\<rparr>) fc v = validateNetPol env fc v"
  "feature_warnings (env\<lparr>feature_order := fo\<rparr>) fc f = feature_warnings env fc f"
  "validateFLPFilters (env\<lparr>feature_order := fo\<rparr>) fc v = validateFLPFilters env fc v"
  "validateFLPAlerts (env\<lparr>feature_order := fo\<rparr>) fc v = validateFLPAlerts env fc v"
  unfolding validateDeploymentModel_def validateNetPol_def feature_warnings_def
      feature_version_check_def[abs_def] validateFLPFilters_def validateFLPAlerts_def env_sel
  by (simp_all only: filter_queries_env validate_rules_env)

text \<open>What follows the version checks in \<open>validateAgent\<close>.\<close>

definition agent_rest :: "FlowCollectorSpec \<Rightarrow> validator \<Rightarrow> validator" where
  "agent_rest fc v =
     (let v = validateDNSTrackingPorts fc v
      in case ebpf_FlowFilter (ebpf_of fc) of
           None \<Rightarrow> v
         | Some ff \<Rightarrow>
             if ff_Enable ff = Some True
             then validateAgentFilter (ff_Inline ff) (filter_rules {} (ff_Rules ff) v)
             else v)"

lemma pass_agent_rest: "validation_pass (agent_rest fc)"
proof -
  have "validation_pass (\<lambda>v. validateAgentFilter i (filter_rules {} rs (validateDNSTrackingPorts fc v)))" for i rs
    by (rule pass_comp[OF pass_comp[OF validateDNSTrackingPorts.validation_pass_axioms
            filter_rules.validation_pass_axioms] validateAgentFilter.validation_pass_axioms])
  then show ?thesis
    unfolding agent_rest_def[abs_def] Let_def
    using validateDNSTrackingPorts.validation_pass_axioms
    by (cases "ebpf_FlowFilter (ebpf_of fc)"; cases "ff_Enable (the (ebpf_FlowFilter (ebpf_of fc))) = Some True") simp_all
qed

lemmas pass_warnings_all =
  warnLogLevels.pass_warnings warnProfiling.pass_warnings warnLokiDemo.pass_warnings
  validateNetPol.pass_warnings validateScheduling.pass_warnings validateFLPLogTypes.pass_warnings
  validateFLPFilters.pass_warnings validateFLPAlerts.pass_warnings validateFLPMetricsForAlerts.pass_warnings
  validateFLPMetricsIncludeLists.pass_warnings validateFLPTLS.pass_warnings validatePortConflicts.pass_warnings
  validation_pass.pass_warnings[OF pass_agent_rest]

lemmas pass_errors_all =
  warnLogLevels.pass_errors warnProfiling.pass_errors warnLokiDemo.pass_errors
  validateNetPol.pass_errors validateScheduling.pass_errors validateFLPLogTypes.pass_errors
  validateFLPFilters.pass_errors validateFLPAlerts.pass_errors validateFLPMetricsForAlerts.pass_errors
  validateFLPMetricsIncludeLists.pass_errors validateFLPTLS.pass_errors validatePortConflicts.pass_errors
  validation_pass.pass_errors[OF pass_agent_rest]

lemma Validate_split:
  "Validate env fc =
     warnLokiDemo fc (warnProfiling fc (warnLogLevels fc (validatePortConflicts fc (validateFLPTLS fc
       (validateFLPMetricsIncludeLists fc (validateFLPMetricsForAlerts fc (validateFLPAlerts env fc
       (validateFLPFilters env fc (validateFLPLogTypes fc (validateScheduling fc (agent_rest fc
       (feature_versions env fc (feature_order env)
         (validateNetPol env fc (validateDeploymentModel env fc new_validator))))))))))))))"
  by (simp add: Validate_def validateFLP_def validateAgent_def agent_rest_def Let_def)

lemma Validate_warnings:
  "v_warnings (Validate (env\<lparr>feature_order := fo\<rparr>) fc) =
     (own_warnings (validateDeploymentModel env fc) @ own_warnings (validateNetPol env fc))
     @ concat (map (feature_warnings env fc) fo)
     @ (own_warnings (agent_rest fc) @ own_warnings (validateScheduling fc) @ own_warnings (validateFLPLogTypes fc)
        @ own_warnings (validateFLPFilters env fc) @ own_warnings (validateFLPAlerts env fc)
        @ own_warnings (validateFLPMetricsForAlerts fc) @ own_warnings (validateFLPMetricsIncludeLists fc)
        @ own_warnings (validateFLPTLS fc) @ own_warnings (validatePortConflicts fc) @ own_warnings (warnLogLevels fc)
        @ own_warnings (warnProfiling fc) @ own_warnings (warnLokiDemo fc))"
proof -
  have fw: "feature_warnings (env\<lparr>feature_order := fo\<rparr>) fc = feature_warnings env fc"
    by (rule ext) (rule order_irrelevant)
  show ?thesis
    unfolding Validate_split order_irrelevant env_sel pass_warnings_all feature_versions_warnings fw
    by (simp only: append_assoc new_validator_sel append_Nil validateDeploymentModel.pass_warnings)
qed

text \<open>
  Go ranges over the map of required OpenShift versions in an unspecified order. The verdict of
  the webhook does not depend on it: the same errors in the same order, the same warnings up to
  their order.
\<close>

theorem Validate_map_order:
  assumes "enumerates fo neededOpenShiftVersion" and "enumerates fo' neededOpenShiftVersion"
  shows "v_errors (Validate (env\<lparr>feature_order := fo\<rparr>) fc) = v_errors (Validate (env\<lparr>feature_order := fo'\<rparr>) fc)
    \<and> mset (v_warnings (Validate (env\<lparr>feature_order := fo\<rparr>) fc)) = mset (v_warnings (Validate (env\<lparr>feature_order := fo'\<rparr>) fc))"
proof
  show "v_errors (Validate (env\<lparr>feature_order := fo\<rparr>) fc) = v_errors (Validate (env\<lparr>feature_order := fo'\<rparr>) fc)"
    unfolding Validate_split order_irrelevant env_sel pass_errors_all feature_versions_no_errors by (rule refl)
next
  have "mset (map (feature_warnings env fc) fo) = mset (map (feature_warnings env fc) fo')"
    using enumerates_perm[OF assms] by simp
  then have "mset (concat (map (feature_warnings env fc) fo)) = mset (concat (map (feature_warnings env fc) fo'))"
    by (metis mset_concat mset_map sum_mset_sum_list)
  then show "mset (v_warnings (Validate (env\<lparr>feature_order := fo\<rparr>) fc)) = mset (v_warnings (Validate (env\<lparr>feature_order := fo'\<rparr>) fc))"
    by (simp add: Validate_warnings)
qed

lemma needed_enum:
  "enumerates [PacketDrop, UDNMapping, NetworkEvents, EbpfManager] neededOpenShiftVersion"
  "enumerates [EbpfManager, PacketDrop, UDNMapping, NetworkEvents] neededOpenShiftVersion"
  by (auto simp: enumerates_def neededOpenShiftVersion_def)

theorem Validate_map_order_witness:
  "\<forall>env fc. v_errors (Validate (env\<lparr>feature_order := [PacketDrop, UDNMapping, NetworkEvents, EbpfManager]\<rparr>) fc)
     = v_errors (Validate (env\<lparr>feature_order := [EbpfManager, PacketDrop, UDNMapping, NetworkEvents]\<rparr>) fc)
   \<and> mset (v_warnings (Validate (env\<lparr>feature_order := [PacketDrop, UDNMapping, NetworkEvents, EbpfManager]\<rparr>) fc))
     = mset (v_warnings (Validate (env\<lparr>feature_order := [EbpfManager, PacketDrop, UDNMapping, NetworkEvents]\<rparr>) fc))"
  using Validate_map_order[OF needed_enum] by blast

section \<open>The defaults agree with each other\<close>

definition metrics_covered :: "string list \<Rightarrow> HealthRuleTemplate \<Rightarrow> HealthRuleVariant \<Rightarrow> bool" where
  "metrics_covered ms t a =
     (case GetElligibleMetricsForAlert t a of
        (r1, r2) \<Rightarrow> (r1 = [] \<or> GetFirstRequiredMetrics r1 ms \<noteq> []) \<and> (r2 = [] \<or> GetFirstRequiredMetrics r2 ms \<noteq> []))"

lemma metrics_for_variants_covered:
  "\<forall>a \<in> set vars. metrics_covered ms t a \<Longrightarrow> metrics_for_variants ms t vars v = v"
  by (induction vars) (auto simp: metrics_covered_def require_metric_def v_when_def split: prod.splits)

lemma metrics_for_rules_covered:
  "\<forall>g \<in> set gs. \<forall>a \<in> set (hr_Variants g). metrics_covered ms (hr_Template g) a \<Longrightarrow> metrics_for_rules ms gs v = v"
  by (induction gs) (auto simp: metrics_for_variants_covered)

lemma first_required_empty:
  "[] \<notin> set req \<Longrightarrow> GetFirstRequiredMetrics req ms = [] \<longleftrightarrow> (\<forall>m \<in> set req. m \<notin> set ms)"
  by (induction req) auto

lemma metric_enabled_node:
  "metric_enabled s ''node_ingress_bytes_total''" "metric_enabled s ''node_egress_bytes_total''"
  "metric_enabled s ''node_ingress_packets_total''" "metric_enabled s ''workload_ingress_bytes_total''"
  "metric_enabled s ''workload_egress_bytes_total''" "metric_enabled s ''namespace_flows_total''"
  "metric_enabled s ''namespace_ingress_packets_total''" "metric_enabled s ''workload_ingress_packets_total''"
  "metric_enabled s ''workload_flows_total''" "metric_enabled s ''node_to_node_ingress_flows_total''"
  by (simp_all add: metric_enabled_def has_prefix_def)

lemma metric_enabled_feature:
  "PacketDrop \<in> set (ebpf_Features (ebpf_of s)) \<Longrightarrow> metric_enabled s ''node_drop_packets_total''"
  "PacketDrop \<in> set (ebpf_Features (ebpf_of s)) \<Longrightarrow> metric_enabled s ''namespace_drop_packets_total''"
  "PacketDrop \<in> set (ebpf_Features (ebpf_of s)) \<Longrightarrow> metric_enabled s ''workload_drop_packets_total''"
  "FlowRTT \<in> set (ebpf_Features (ebpf_of s)) \<Longrightarrow> metric_enabled s ''namespace_rtt_seconds''"
  "FlowRTT \<in> set (ebpf_Features (ebpf_of s)) \<Longrightarrow> metric_enabled s ''workload_rtt_seconds''"
  "DNSTracking \<in> set (ebpf_Features (ebpf_of s)) \<Longrightarrow> metric_enabled s ''namespace_dns_flows_total''"
  "DNSTracking \<in> set (ebpf_Features (ebpf_of s)) \<Longrightarrow> metric_enabled s ''workload_dns_flows_total''"
  "NetworkEvents \<in> set (ebpf_Features (ebpf_of s)) \<Longrightarrow> metric_enabled s ''namespace_network_policy_events_total''"
  "TLSTracking \<in> set (ebpf_Features (ebpf_of s)) \<Longrightarrow> metric_enabled s ''namespace_tls_flows_total''"
  "TLSTracking \<in> set (ebpf_Features (ebpf_of s)) \<Longrightarrow> metric_enabled s ''workload_tls_flows_total''"
  "IPSec \<in> set (ebpf_Features (ebpf_of s)) \<Longrightarrow> metric_enabled s ''node_ipsec_flows_total''"
  by (simp_all add: metric_enabled_def has_prefix_def)

lemma default_metrics_in:
  assumes "fm_IncludeList (flp_Metrics (spec_Processor s)) = None"
  shows "m \<in> set DefaultIncludeList \<Longrightarrow> metric_enabled s m \<Longrightarrow> UseLoki s \<Longrightarrow> m \<in> set (GetIncludeList s)"
    and "m \<in> set DefaultIncludeListLokiDisabled \<Longrightarrow> metric_enabled s m \<Longrightarrow> \<not> UseLoki s \<Longrightarrow> m \<in> set (GetIncludeList s)"
  using include_base_default(1)[OF assms] by (auto simp: include_list_filter)


text \<open>The template and grouping of a variant decide the metrics it needs; those of the defaults are these.\<close>

lemma default_rule_groups:
  "concat (map (\<lambda>r. map (\<lambda>a. (hr_Template r, var_GroupBy a)) (hr_Variants r)) DefaultHealthRules) =
     [(HealthRulePacketDropsByKernel, GroupByNamespace), (HealthRulePacketDropsByKernel, GroupByNode),
      (HealthRulePacketDropsByDevice, GroupByNode),
      (HealthRuleIPsecErrors, GroupByNone), (HealthRuleIPsecErrors, GroupByNode),
      (HealthRuleDNSErrors, GroupByNone), (HealthRuleDNSErrors, GroupByNamespace),
      (HealthRuleDNSNxDomain, GroupByNamespace), (HealthRuleNetpolDenied, GroupByNamespace),
      (HealthRuleLatencyHighTrend, GroupByNamespace),
      (HealthRuleExternalEgressHighTrend, GroupByNode), (HealthRuleExternalEgressHighTrend, GroupByNamespace),
      (HealthRuleExternalIngressHighTrend, GroupByNode), (HealthRuleExternalIngressHighTrend, GroupByNamespace),
      (HealthRuleIngress5xxErrors, GroupByNamespace), (HealthRuleIngressHTTPLatencyTrend, GroupByNamespace),
      (HealthRuleTLSInsecureVersion, GroupByNamespace)]"
  by (simp add: DefaultHealthRules_def variant_def trend_variant_def)

lemma default_rule_group_cases:
  assumes "r \<in> set DefaultHealthRules" and "a \<in> set (hr_Variants r)"
  shows "(hr_Template r, var_GroupBy a) \<in> set
     (concat (map (\<lambda>r. map (\<lambda>a. (hr_Template r, var_GroupBy a)) (hr_Variants r)) DefaultHealthRules))"
  using assms by auto

lemma eligible_lists:
  "var_GroupBy a = GroupByNamespace \<Longrightarrow> GetElligibleMetricsForAlert HealthRulePacketDropsByKernel a =
     ([''namespace_drop_packets_total'', ''workload_drop_packets_total''],
      [''namespace_ingress_packets_total'', ''workload_ingress_packets_total'', ''namespace_egress_packets_total'', ''workload_egress_packets_total''])"
  "var_GroupBy a = GroupByNode \<Longrightarrow> GetElligibleMetricsForAlert HealthRulePacketDropsByKernel a =
     ([''node_drop_packets_total''],
      [''node_ingress_packets_total'', ''node_egress_packets_total''])"
  "var_GroupBy a = GroupByNone \<Longrightarrow> GetElligibleMetricsForAlert HealthRuleDNSErrors a =
     ([''namespace_dns_flows_total'', ''workload_dns_flows_total'', ''node_dns_flows_total''],
      [''namespace_dns_flows_total'', ''workload_dns_flows_total'', ''node_dns_flows_total''])"
  "var_GroupBy a = GroupByNamespace \<Longrightarrow> GetElligibleMetricsForAlert HealthRuleDNSErrors a =
     ([''namespace_dns_flows_total'', ''workload_dns_flows_total''],
      [''namespace_dns_flows_total'', ''workload_dns_flows_total''])"
  "var_GroupBy a = GroupByNamespace \<Longrightarrow> GetElligibleMetricsForAlert HealthRuleDNSNxDomain a =
     ([''namespace_dns_flows_total'', ''workload_dns_flows_total''],
      [''namespace_dns_flows_total'', ''workload_dns_flows_total''])"
  "var_GroupBy a = GroupByNamespace \<Longrightarrow> GetElligibleMetricsForAlert HealthRuleNetpolDenied a =
     ([''namespace_network_policy_events_total'', ''workload_network_policy_events_total''],
      [''namespace_flows_total'', ''workload_flows_total''])"
  "var_GroupBy a = GroupByNamespace \<Longrightarrow> GetElligibleMetricsForAlert HealthRuleLatencyHighTrend a =
     ([''namespace_rtt_seconds'', ''workload_rtt_seconds''],
      [''namespace_rtt_seconds'', ''workload_rtt_seconds''])"
  "var_GroupBy a = GroupByNode \<Longrightarrow> GetElligibleMetricsForAlert HealthRuleExternalEgressHighTrend a =
     ([''node_egress_bytes_total''],
      [''node_egress_bytes_total''])"
  "var_GroupBy a = GroupByNamespace \<Longrightarrow> GetElligibleMetricsForAlert HealthRuleExternalEgressHighTrend a =
     ([''namespace_egress_bytes_total'', ''workload_egress_bytes_total''],
      [''namespace_egress_bytes_total'', ''workload_egress_bytes_total''])"
  "var_GroupBy a = GroupByNode \<Longrightarrow> GetElligibleMetricsForAlert HealthRuleExternalIngressHighTrend a =
     ([''node_ingress_bytes_total''],
      [''node_ingress_bytes_total''])"
  "var_GroupBy a = GroupByNamespace \<Longrightarrow> GetElligibleMetricsForAlert HealthRuleExternalIngressHighTrend a =
     ([''namespace_ingress_bytes_total'', ''workload_ingress_bytes_total''],
      [''namespace_ingress_bytes_total'', ''workload_ingress_bytes_total''])"
  "var_GroupBy a = GroupByNamespace \<Longrightarrow> GetElligibleMetricsForAlert HealthRuleTLSInsecureVersion a =
     ([''namespace_tls_flows_total'', ''workload_tls_flows_total''],
      [''namespace_tls_flows_total'', ''workload_tls_flows_total''])"
  "GetElligibleMetricsForAlert HealthRuleIPsecErrors a =
     ([''node_ipsec_flows_total''], [''node_to_node_ingress_flows_total''])"
  "GetElligibleMetricsForAlert HealthRulePacketDropsByDevice a = ([], [])"
  "GetElligibleMetricsForAlert HealthRuleIngress5xxErrors a = ([], [])"
  "GetElligibleMetricsForAlert HealthRuleIngressHTTPLatencyTrend a = ([], [])"
  by (simp_all add: GetElligibleMetricsForAlert_def metric_requirement_def group_prefixes_def has_prefix_def)

lemma allowed_feature:
  "fst (IsAllowed r s) \<Longrightarrow> hr_Template r = HealthRulePacketDropsByKernel \<Longrightarrow> PacketDrop \<in> set (ebpf_Features (ebpf_of s))"
  "fst (IsAllowed r s) \<Longrightarrow> hr_Template r = HealthRuleIPsecErrors \<Longrightarrow> IPSec \<in> set (ebpf_Features (ebpf_of s))"
  "fst (IsAllowed r s) \<Longrightarrow> hr_Template r = HealthRuleDNSErrors \<Longrightarrow> DNSTracking \<in> set (ebpf_Features (ebpf_of s))"
  "fst (IsAllowed r s) \<Longrightarrow> hr_Template r = HealthRuleDNSNxDomain \<Longrightarrow> DNSTracking \<in> set (ebpf_Features (ebpf_of s))"
  "fst (IsAllowed r s) \<Longrightarrow> hr_Template r = HealthRuleLatencyHighTrend \<Longrightarrow> FlowRTT \<in> set (ebpf_Features (ebpf_of s))"
  "fst (IsAllowed r s) \<Longrightarrow> hr_Template r = HealthRuleNetpolDenied \<Longrightarrow> NetworkEvents \<in> set (ebpf_Features (ebpf_of s))"
  "fst (IsAllowed r s) \<Longrightarrow> hr_Template r = HealthRuleTLSInsecureVersion \<Longrightarrow> TLSTracking \<in> set (ebpf_Features (ebpf_of s))"
  by (simp_all add: IsAllowed_def feature_defs IsAgentFeatureEnabled_iff split: if_splits)

text \<open>The metrics that both default lists hold, and those that only one of them holds.\<close>

lemma in_default_lists:
  assumes nil: "fm_IncludeList (flp_Metrics (spec_Processor s)) = None" and en: "metric_enabled s m"
  shows "m \<in> set DefaultIncludeList \<inter> set DefaultIncludeListLokiDisabled \<Longrightarrow> m \<in> set (GetIncludeList s)"
    and "m \<in> set DefaultIncludeList \<Longrightarrow> m' \<in> set DefaultIncludeListLokiDisabled \<Longrightarrow> metric_enabled s m' \<Longrightarrow>
         m \<in> set (GetIncludeList s) \<or> m' \<in> set (GetIncludeList s)"
  using default_metrics_in[OF nil] en by (cases "UseLoki s"; blast)+

lemma default_members:
  assumes nil: "fm_IncludeList (flp_Metrics (spec_Processor s)) = None"
  shows "''node_ingress_bytes_total'' \<in> set (GetIncludeList s)" "''node_egress_bytes_total'' \<in> set (GetIncludeList s)"
    "''node_ingress_packets_total'' \<in> set (GetIncludeList s)" "''workload_ingress_bytes_total'' \<in> set (GetIncludeList s)"
    "''workload_egress_bytes_total'' \<in> set (GetIncludeList s)" "''node_to_node_ingress_flows_total'' \<in> set (GetIncludeList s)"
    "PacketDrop \<in> set (ebpf_Features (ebpf_of s)) \<Longrightarrow> ''node_drop_packets_total'' \<in> set (GetIncludeList s)"
    "NetworkEvents \<in> set (ebpf_Features (ebpf_of s)) \<Longrightarrow> ''namespace_network_policy_events_total'' \<in> set (GetIncludeList s)"
    "IPSec \<in> set (ebpf_Features (ebpf_of s)) \<Longrightarrow> ''node_ipsec_flows_total'' \<in> set (GetIncludeList s)"
  by (rule in_default_lists(1)[OF nil];
      simp add: metric_enabled_node metric_enabled_feature DefaultIncludeList_def DefaultIncludeListLokiDisabled_def)+

lemma default_alternatives:
  assumes nil: "fm_IncludeList (flp_Metrics (spec_Processor s)) = None"
  shows "''namespace_ingress_packets_total'' \<in> set (GetIncludeList s) \<or> ''workload_ingress_packets_total'' \<in> set (GetIncludeList s)"
    "''namespace_flows_total'' \<in> set (GetIncludeList s) \<or> ''workload_flows_total'' \<in> set (GetIncludeList s)"
    "PacketDrop \<in> set (ebpf_Features (ebpf_of s)) \<Longrightarrow>
      ''namespace_drop_packets_total'' \<in> set (GetIncludeList s) \<or> ''workload_drop_packets_total'' \<in> set (GetIncludeList s)"
    "DNSTracking \<in> set (ebpf_Features (ebpf_of s)) \<Longrightarrow>
      ''namespace_dns_flows_total'' \<in> set (GetIncludeList s) \<or> ''workload_dns_flows_total'' \<in> set (GetIncludeList s)"
    "FlowRTT \<in> set (ebpf_Features (ebpf_of s)) \<Longrightarrow>
      ''namespace_rtt_seconds'' \<in> set (GetIncludeList s) \<or> ''workload_rtt_seconds'' \<in> set (GetIncludeList s)"
    "TLSTracking \<in> set (ebpf_Features (ebpf_of s)) \<Longrightarrow>
      ''namespace_tls_flows_total'' \<in> set (GetIncludeList s) \<or> ''workload_tls_flows_total'' \<in> set (GetIncludeList s)"
  by (rule in_default_lists(2)[OF nil];
      simp add: metric_enabled_node metric_enabled_feature DefaultIncludeList_def DefaultIncludeListLokiDisabled_def)+

lemma default_rule_covered:
  assumes nil: "fm_IncludeList (flp_Metrics (spec_Processor s)) = None"
    and r: "r \<in> set DefaultHealthRules" "fst (IsAllowed r s)" and a: "a \<in> set (hr_Variants r)"
  shows "metrics_covered (GetIncludeList s) (hr_Template r) a"
  using default_rule_group_cases[OF r(1) a, unfolded default_rule_groups]
  apply (simp only: list.set insert_iff empty_iff prod.inject simp_thms)
  apply (elim disjE conjE)
  using allowed_feature[OF r(2)] default_members[OF nil] default_alternatives[OF nil]
  by (simp_all add: metrics_covered_def eligible_lists first_required_empty del: GetFirstRequiredMetrics.simps) blast+

lemma last_rule_in: "last_rule gs t = Some g \<Longrightarrow> g \<in> set gs"
  unfolding last_rule_def by (metis find_Some_iff nth_mem set_rev)

lemma default_rules_only:
  assumes "fm_HealthRules (flp_Metrics (spec_Processor s)) = None" and "r \<in> set (GetFLPHealthRules s)"
  shows "r \<in> set DefaultHealthRules \<and> fst (IsAllowed r s)"
  using assms last_rule_in[of DefaultHealthRules] by (auto simp: health_rules_set rule_for_def split: if_splits)

text \<open>
  The default health rules and the default metric lists agree. When the user sets neither an
  include list nor health rules, whatever agent features, additional metrics and disabled alerts are
  chosen and whether Loki is used or not, every effective rule finds its metrics and the webhook adds
  no warning about missing ones.
\<close>

theorem default_rules_have_their_metrics:
  assumes "fm_IncludeList (flp_Metrics (spec_Processor fc)) = None"
    and "fm_HealthRules (flp_Metrics (spec_Processor fc)) = None"
  shows "validateFLPMetricsForAlerts fc v = v"
  unfolding validateFLPMetricsForAlerts_def
  using default_rule_covered[OF assms(1)] default_rules_only[OF assms(2)]
  by (auto intro!: metrics_for_rules_covered)

theorem default_rules_have_their_metrics_witness:
  "fm_IncludeList (flp_Metrics (spec_Processor zero_spec)) = None
   \<and> fm_HealthRules (flp_Metrics (spec_Processor zero_spec)) = None
   \<and> validateFLPMetricsForAlerts zero_spec new_validator = new_validator"
  using default_rules_have_their_metrics[of zero_spec new_validator] by simp

section \<open>Threshold order\<close>

lemma accepted_variant_steps:
  assumes "v_errors (validate_variant env t i j var v) = []"
  shows "successively ordered_step (map (\<lambda>t. fst (ParseFloat env t)) (set_thresholds (severities (var_Thresholds var))))"
  using assms by (simp add: variant_no_errors valid_variant_def valid_thresholds_def Let_def)

text \<open>
  When the webhook accepts a health rule variant whose three thresholds are set and not zero, the
  thresholds are ordered: info is at most warning and warning at most critical.
\<close>

theorem accepted_thresholds_ordered:
  assumes "v_errors (validate_variant env t i j var v) = []"
    and "thr_Critical (var_Thresholds var) \<noteq> []" "thr_Warning (var_Thresholds var) \<noteq> []" "thr_Info (var_Thresholds var) \<noteq> []"
    and "ParseFloat env (thr_Critical (var_Thresholds var)) = (Fin c, fc)"
    and "ParseFloat env (thr_Warning (var_Thresholds var)) = (Fin w, fw)"
    and "ParseFloat env (thr_Info (var_Thresholds var)) = (Fin k, fk)"
    and "c \<noteq> 0" "w \<noteq> 0"
  shows "0 \<le> k \<and> k \<le> w \<and> w \<le> c"
  using assms(2-) accepted_variant_steps[OF assms(1)] assms(1)[unfolded variant_no_errors valid_variant_def valid_thresholds_def]
  by (simp add: set_thresholds_def severities_def ordered_step_def Let_def)

definition sample_env :: venv where
  "sample_env = \<lparr>CurrentClusterInfo = None, OperatorNamespace = ''netobserv'', feature_order = [], dsl_Parse = (\<lambda>_. None),
     ParseFloat = (\<lambda>s. case parse_uint 1000 s of Inl e \<Rightarrow> (Fin 0, True) | Inr n \<Rightarrow> (Fin (of_nat n), False))\<rparr>"

definition sample_variant :: "string \<Rightarrow> string \<Rightarrow> string \<Rightarrow> HealthRuleVariant" where
  "sample_variant c w k = (variant (thresholds k w) GroupByNode)\<lparr>var_Thresholds := \<lparr>thr_Info = k, thr_Warning = w, thr_Critical = c\<rparr>\<rparr>"

lemma digit_vals: "digit_val CHR ''0'' = Some 0" "digit_val CHR ''2'' = Some 2" "digit_val CHR ''5'' = Some 5" "digit_val CHR ''9'' = Some 9"
  by code_simp+

lemma sample_accepts:
  "v_errors (validate_variant sample_env HealthRuleDNSErrors 0 0 (sample_variant ''9'' ''5'' ''2'') new_validator) = []"
  by (simp add: variant_no_errors valid_variant_def valid_thresholds_def set_thresholds_def severities_def sample_variant_def
      isFLPHealthRuleGroupBySupported_def sample_env_def parse_uint_def digit_vals ordered_step_def new_validator_def variant_def)

theorem accepted_thresholds_ordered_witness:
  "v_errors (validate_variant sample_env HealthRuleDNSErrors 0 0 (sample_variant ''9'' ''5'' ''2'') new_validator) = []
   \<and> (0::rat) \<le> 2 \<and> (2::rat) \<le> 5 \<and> (5::rat) \<le> 9"
  using accepted_thresholds_ordered[OF sample_accepts, of 9 False 5 False 2 False] sample_accepts
  by (simp add: sample_variant_def sample_env_def parse_uint_def digit_vals variant_def)

text \<open>
  A threshold of zero switches the order check off: the loop compares with the previous threshold
  only when that one is above zero, so a critical threshold of 0 is accepted below an info threshold of 5.
\<close>

theorem zero_threshold_skips_order:
  "v_errors (validate_variant sample_env HealthRuleDNSErrors 0 0 (sample_variant ''0'' ''2'' ''2'') new_validator) = []
   \<and> v_errors (validate_variant sample_env HealthRuleDNSErrors 0 0 (sample_variant ''9'' ''0'' ''5'') new_validator) = []
   \<and> v_errors (validate_variant sample_env HealthRuleDNSErrors 0 0 (sample_variant ''2'' ''5'' ''5'') new_validator) \<noteq> []"
  by (simp add: variant_no_errors valid_variant_def valid_thresholds_def set_thresholds_def severities_def sample_variant_def
      isFLPHealthRuleGroupBySupported_def sample_env_def parse_uint_def digit_vals ordered_step_def new_validator_def variant_def)

end
