(* ===== verification/TLS_Helper.thy ===== *)
theory TLS_Helper
  imports Webhook_Correct
begin

text \<open>
  \<open>internal/pkg/helper/tls.go\<close>: the certificates and CA files that the two ends of a TLS
  connection mount, computed from the service configuration, and what the validation webhook
  guarantees about them. A returned nil pointer is \<open>None\<close>.
\<close>

definition DefaultCertificateReference :: "string \<Rightarrow> string \<Rightarrow> CertificateReference" where
  "DefaultCertificateReference name ns =
     \<lparr>cref_Type = RefTypeSecret, cref_Name = name, cref_Namespace = ns, cref_CertFile = ''tls.crt'', cref_CertKey = ''tls.key''\<rparr>"

definition DefaultCAReference :: "string \<Rightarrow> string \<Rightarrow> FileReference" where
  "DefaultCAReference name ns =
     \<lparr>fref_Type = RefTypeConfigMap, fref_Name = name, fref_Namespace = ns, fref_File = ''service-ca.crt''\<rparr>"

definition InformerTLSAsServiceConfig :: "FlowCollectorInformerCacheProxy option \<Rightarrow> ProcessorServiceConfig" where
  "InformerTLSAsServiceConfig proxy =
     (case proxy of
        None \<Rightarrow> \<lparr>svc_TLSType = TLSAuto, svc_ProvidedCertificates = None\<rparr>
      | Some p \<Rightarrow> (case icp_TLS p of
          None \<Rightarrow> \<lparr>svc_TLSType = TLSAuto, svc_ProvidedCertificates = None\<rparr>
        | Some t \<Rightarrow> \<lparr>svc_TLSType = icptls_Type t, svc_ProvidedCertificates = icptls_ProvidedCertificates t\<rparr>))"

definition ca_config_map :: "bool \<Rightarrow> string" where
  "ca_config_map isOpenShift = (if isOpenShift then ''openshift-service-ca.crt'' else ''netobserv-ca'')"

text \<open>The test that opens both functions: a configuration that is neither Auto nor Auto-mTLS.\<close>

definition not_auto :: "ProcessorServiceConfig option \<Rightarrow> bool" where
  "not_auto desired = (case desired of None \<Rightarrow> False | Some d \<Rightarrow> svc_TLSType d \<noteq> TLSAuto \<and> svc_TLSType d \<noteq> TLSAutoMTLS)"

definition auto_mtls :: "ProcessorServiceConfig option \<Rightarrow> bool" where
  "auto_mtls desired = (case desired of None \<Rightarrow> False | Some d \<Rightarrow> svc_TLSType d = TLSAutoMTLS)"

definition GetServiceClientTLSConfig ::
  "ProcessorServiceConfig option \<Rightarrow> string \<Rightarrow> bool \<Rightarrow> FileReference option \<times> CertificateReference option" where
  "GetServiceClientTLSConfig desired defaultSecretName isOpenShift =
     (if not_auto desired then
        (if svc_TLSType (the desired) = TLSDisabled then (None, None)
         else case svc_ProvidedCertificates (the desired) of
           None \<Rightarrow> (None, None)
         | Some c \<Rightarrow> (cstls_CAFile c, cstls_ClientCert c))
      else
        (let ca = DefaultCAReference (ca_config_map isOpenShift) [] in
         if auto_mtls desired then (Some ca, Some (DefaultCertificateReference defaultSecretName []))
         else (Some ca, None)))"

definition GetServiceServerTLSConfig ::
  "ProcessorServiceConfig option \<Rightarrow> string \<Rightarrow> bool \<Rightarrow> CertificateReference option \<times> FileReference option" where
  "GetServiceServerTLSConfig desired defaultSecretName isOpenShift =
     (if not_auto desired then
        (if svc_TLSType (the desired) = TLSDisabled then (None, None)
         else case svc_ProvidedCertificates (the desired) of
           None \<Rightarrow> (None, None)
         | Some c \<Rightarrow>
             if cstls_ClientCert c \<noteq> None then (cstls_ServerCert c, cstls_CAFile c)
             else (cstls_ServerCert c, None))
      else
        (let serverCert = DefaultCertificateReference defaultSecretName [] in
         if auto_mtls desired then (Some serverCert, Some (DefaultCAReference (ca_config_map isOpenShift) []))
         else (Some serverCert, None)))"

section \<open>The two ends agree\<close>

text \<open>
  The contract between the two ends of the connection, as the two functions compute them: whoever
  authenticates the peer has the CA for it.
\<close>

definition tls_ends_agree :: "FileReference option \<times> CertificateReference option \<Rightarrow> CertificateReference option \<times> FileReference option \<Rightarrow> bool" where
  "tls_ends_agree client server \<longleftrightarrow>
     (fst server \<noteq> None \<longleftrightarrow> fst client \<noteq> None) \<and> (snd client \<noteq> None \<longleftrightarrow> snd server \<noteq> None)
     \<and> (snd server \<noteq> None \<longrightarrow> snd server = fst client)"

text \<open>Certificates are complete when a CA file and a server certificate are given.\<close>

definition complete_certs :: "ProcessorServiceConfig \<Rightarrow> bool" where
  "complete_certs d \<longleftrightarrow>
     (\<exists>c. svc_ProvidedCertificates d = Some c \<and> cstls_CAFile c \<noteq> None \<and> cstls_ServerCert c \<noteq> None)"

lemma ends_agree:
  assumes "\<And>d. desired = Some d \<Longrightarrow> svc_TLSType d = TLSProvided \<or> svc_TLSType d = TLSTypeUnset \<Longrightarrow> complete_certs d"
  shows "tls_ends_agree (GetServiceClientTLSConfig desired n os) (GetServiceServerTLSConfig desired n' os)"
proof (cases desired)
  case None
  then show ?thesis
    by (simp add: tls_ends_agree_def GetServiceClientTLSConfig_def GetServiceServerTLSConfig_def not_auto_def auto_mtls_def Let_def)
next
  case (Some d)
  then show ?thesis
    using assms[OF Some]
    by (cases "svc_TLSType d") (auto simp: tls_ends_agree_def GetServiceClientTLSConfig_def GetServiceServerTLSConfig_def
        not_auto_def auto_mtls_def complete_certs_def Let_def split: if_splits)
qed

lemma server_cert_present:
  assumes "\<And>d. desired = Some d \<Longrightarrow> svc_TLSType d = TLSProvided \<or> svc_TLSType d = TLSTypeUnset \<Longrightarrow> complete_certs d"
  shows "fst (GetServiceServerTLSConfig desired n os) = None \<longleftrightarrow> map_option svc_TLSType desired = Some TLSDisabled"
proof (cases desired)
  case None
  then show ?thesis by (simp add: GetServiceServerTLSConfig_def not_auto_def auto_mtls_def Let_def)
next
  case (Some d)
  then show ?thesis
    using assms[OF Some]
    by (cases "svc_TLSType d")
      (auto simp: GetServiceServerTLSConfig_def not_auto_def auto_mtls_def complete_certs_def Let_def)
qed

lemma webhook_complete_certs:
  assumes "v_errors (Validate env fc) = []" and "spec_DeploymentModel fc = DeploymentModelService"
    and "flp_Service (spec_Processor fc) = Some d" and "svc_TLSType d = TLSProvided"
  shows "complete_certs d"
  using assms by (auto simp: accepts_iff_valid valid_spec_def valid_tls_def complete_certs_def split: option.splits)

text \<open>
  In the Service deployment model, a FlowCollector that the webhook accepts and whose TLS type is
  set gives both ends of the agent-to-processor connection matching TLS settings: the server has a
  certificate exactly when the client has a CA, the client has a certificate exactly when the server
  has a CA (mutual TLS), the two CAs are then the same, and the server is without a certificate only
  when TLS is disabled.
\<close>

theorem accepted_tls_ends_agree:
  assumes "v_errors (Validate env fc) = []" and "spec_DeploymentModel fc = DeploymentModelService"
    and "map_option svc_TLSType (flp_Service (spec_Processor fc)) \<noteq> Some TLSTypeUnset"
  shows "tls_ends_agree (GetServiceClientTLSConfig (flp_Service (spec_Processor fc)) n os)
           (GetServiceServerTLSConfig (flp_Service (spec_Processor fc)) n' os)
    \<and> (fst (GetServiceServerTLSConfig (flp_Service (spec_Processor fc)) n' os) = None
         \<longleftrightarrow> map_option svc_TLSType (flp_Service (spec_Processor fc)) = Some TLSDisabled)"
proof -
  have "complete_certs d"
    if "flp_Service (spec_Processor fc) = Some d" "svc_TLSType d = TLSProvided \<or> svc_TLSType d = TLSTypeUnset" for d
    using that assms webhook_complete_certs[OF assms(1,2) that(1)] by auto
  then show ?thesis using ends_agree server_cert_present by blast
qed

definition sample_certs :: ClientServerTLS where
  "sample_certs = \<lparr>cstls_ClientCert = None, cstls_ServerCert = Some zero_cref, cstls_CAFile = Some zero_fref\<rparr>"

definition sample_tls_spec :: FlowCollectorSpec where
  "sample_tls_spec = zero_spec\<lparr>spec_DeploymentModel := DeploymentModelService,
     spec_Processor := zero_flp\<lparr>flp_Service := Some \<lparr>svc_TLSType = TLSProvided, svc_ProvidedCertificates = Some sample_certs\<rparr>\<rparr>\<rparr>"

lemma sample_tls_accepted:
  "v_errors (Validate sample_env sample_tls_spec) = []" "spec_DeploymentModel sample_tls_spec = DeploymentModelService"
  "map_option svc_TLSType (flp_Service (spec_Processor sample_tls_spec)) \<noteq> Some TLSTypeUnset"
  by (simp_all add: accepts_iff_valid valid_spec_def valid_tls_def valid_conntrack_def valid_cache_port_def
      sample_tls_spec_def sample_certs_def IsInformerCacheProxyEnabled_def HasConntrack_def)

theorem accepted_tls_ends_agree_witness:
  "v_errors (Validate sample_env sample_tls_spec) = []
   \<and> fst (GetServiceServerTLSConfig (flp_Service (spec_Processor sample_tls_spec)) ''s'' True) \<noteq> None"
  using accepted_tls_ends_agree[OF sample_tls_accepted, of "''c''" True "''s''"] sample_tls_accepted
  by (simp add: sample_tls_spec_def)

text \<open>
  The webhook does not look at the TLS settings of the informer cache proxy. A FlowCollector with
  the proxy enabled, TLS type Provided and no certificates is accepted, and both ends of that
  connection then get no certificate and no CA: the case the comments of the two functions call
  prevented by the validation webhook.
\<close>

definition proxy_without_certs :: FlowCollectorSpec where
  "proxy_without_certs = zero_spec\<lparr>spec_Processor := zero_flp\<lparr>flp_InformerCacheProxy :=
     Some \<lparr>icp_Enabled = Some True, icp_Replicas = None, icp_Resources = Opaque 0, icp_Advanced = None,
       icp_TLS = Some \<lparr>icptls_Type = TLSProvided, icptls_ProvidedCertificates = None\<rparr>\<rparr>\<rparr>\<rparr>"

theorem informer_proxy_tls_unchecked:
  "v_errors (Validate sample_env proxy_without_certs) = []
   \<and> IsInformerCacheProxyEnabled (spec_Processor proxy_without_certs)
   \<and> GetServiceServerTLSConfig (Some (InformerTLSAsServiceConfig (flp_InformerCacheProxy (spec_Processor proxy_without_certs)))) n os = (None, None)
   \<and> GetServiceClientTLSConfig (Some (InformerTLSAsServiceConfig (flp_InformerCacheProxy (spec_Processor proxy_without_certs)))) n os = (None, None)"
  by (simp add: accepts_iff_valid valid_spec_def valid_tls_def valid_conntrack_def valid_cache_port_def
      proxy_without_certs_def IsInformerCacheProxyEnabled_def HasConntrack_def GetMetricsPort_flp_def zero_msc_def
      GetK8sCachePort_def FLPMetricsPort_def DefaultK8sCachePort_def ptr_or_def InformerTLSAsServiceConfig_def
      GetServiceServerTLSConfig_def GetServiceClientTLSConfig_def not_auto_def)

end
