(* ===== verification/Component_Status.thy ===== *)
theory Component_Status
  imports FC_Types
begin

text \<open>
  Component statuses: the status structs of \<open>flowcollector_types.go\<close>,
  \<open>internal/pkg/manager/status/statuses.go\<close>, and the Kubernetes condition list
  (\<open>meta.SetStatusCondition\<close> and \<open>meta.RemoveStatusCondition\<close>). A Go \<open>Status\<close> is one
  of the package's six constants, the only values the package assigns, so the \<open>default\<close> branch of
  \<open>toCondition\<close> and an index of -1 do not arise.
\<close>

section \<open>Kubernetes conditions\<close>

datatype ConditionStatus = ConditionTrue | ConditionFalse | ConditionUnknown

text \<open>\<open>metav1.Condition\<close>; \<open>None\<close> is the zero time.\<close>

record Condition =
  cond_Type :: string
  cond_Status :: ConditionStatus
  cond_ObservedGeneration :: int
  cond_LastTransitionTime :: "int option"
  cond_Reason :: string
  cond_Message :: string

definition mk_condition :: "string \<Rightarrow> ConditionStatus \<Rightarrow> string \<Rightarrow> string \<Rightarrow> Condition" where
  "mk_condition t s r m =
     \<lparr>cond_Type = t, cond_Status = s, cond_ObservedGeneration = 0, cond_LastTransitionTime = None,
      cond_Reason = r, cond_Message = m\<rparr>"

lemma mk_condition_sel [simp]:
  "cond_Type (mk_condition t s r m) = t" "cond_Status (mk_condition t s r m) = s"
  "cond_Reason (mk_condition t s r m) = r" "cond_Message (mk_condition t s r m) = m"
  by (simp_all add: mk_condition_def)

fun FindStatusCondition :: "Condition list \<Rightarrow> string \<Rightarrow> Condition option" where
  "FindStatusCondition [] t = None"
| "FindStatusCondition (c # cs) t = (if cond_Type c = t then Some c else FindStatusCondition cs t)"

text \<open>The update of an existing condition in place, \<open>now\<close> the clock.\<close>

definition update_condition :: "int \<Rightarrow> Condition \<Rightarrow> Condition \<Rightarrow> Condition" where
  "update_condition now old new =
     (let c = (if cond_Status old \<noteq> cond_Status new
               then old\<lparr>cond_Status := cond_Status new,
                        cond_LastTransitionTime := (case cond_LastTransitionTime new of None \<Rightarrow> Some now | Some t \<Rightarrow> Some t)\<rparr>
               else old)
      in c\<lparr>cond_Reason := cond_Reason new, cond_Message := cond_Message new,
           cond_ObservedGeneration := cond_ObservedGeneration new\<rparr>)"

fun SetStatusCondition :: "int \<Rightarrow> Condition list \<Rightarrow> Condition \<Rightarrow> Condition list" where
  "SetStatusCondition now [] new =
     [if cond_LastTransitionTime new = None then new\<lparr>cond_LastTransitionTime := Some now\<rparr> else new]"
| "SetStatusCondition now (c # cs) new =
     (if cond_Type c = cond_Type new then update_condition now c new # cs
      else c # SetStatusCondition now cs new)"

definition RemoveStatusCondition :: "Condition list \<Rightarrow> string \<Rightarrow> Condition list" where
  "RemoveStatusCondition cs t = filter (\<lambda>c. cond_Type c \<noteq> t) cs"

definition IsStatusConditionTrue :: "Condition list \<Rightarrow> string \<Rightarrow> bool" where
  "IsStatusConditionTrue cs t = (case FindStatusCondition cs t of None \<Rightarrow> False | Some c \<Rightarrow> cond_Status c = ConditionTrue)"

lemma update_condition_sel [simp]:
  "cond_Type (update_condition now old new) = cond_Type old"
  "cond_Status (update_condition now old new) = cond_Status new"
  "cond_Reason (update_condition now old new) = cond_Reason new"
  "cond_Message (update_condition now old new) = cond_Message new"
  by (simp_all add: update_condition_def Let_def)

text \<open>What one condition of the list says, its time apart.\<close>

definition condition_view :: "Condition list \<Rightarrow> string \<Rightarrow> (ConditionStatus \<times> string \<times> string) option" where
  "condition_view cs t = map_option (\<lambda>c. (cond_Status c, cond_Reason c, cond_Message c)) (FindStatusCondition cs t)"

lemma condition_view_Nil [simp]: "condition_view [] t = None"
  by (simp add: condition_view_def)

lemma condition_view_Set:
  "condition_view (SetStatusCondition now cs new) t =
     (if t = cond_Type new then Some (cond_Status new, cond_Reason new, cond_Message new) else condition_view cs t)"
  by (induction cs) (auto simp: condition_view_def)

lemma condition_view_Remove:
  "condition_view (RemoveStatusCondition cs t') t = (if t = t' then None else condition_view cs t)"
  by (induction cs) (auto simp: condition_view_def RemoveStatusCondition_def)

lemma Set_types: "cond_Type ` set (SetStatusCondition now cs new) = insert (cond_Type new) (cond_Type ` set cs)"
  by (induction cs) auto

lemma Set_distinct: "distinct (map cond_Type cs) \<Longrightarrow> distinct (map cond_Type (SetStatusCondition now cs new))"
  by (induction cs) (auto simp: Set_types)

lemma Remove_distinct: "distinct (map cond_Type cs) \<Longrightarrow> distinct (map cond_Type (RemoveStatusCondition cs t))"
  by (simp add: RemoveStatusCondition_def distinct_map_filter)

section \<open>Status structs of the FlowCollector resource\<close>

record FlowCollectorComponentStatus =
  fccs_State :: string
  fccs_Reason :: string
  fccs_Message :: string
  fccs_DesiredReplicas :: "int option"
  fccs_ReadyReplicas :: "int option"
  fccs_UnhealthyPodCount :: int
  fccs_PodIssues :: string

record FlowCollectorExporterStatus =
  exps_Name :: string
  exps_Type :: string
  exps_State :: string
  exps_Reason :: string
  exps_Message :: string

record FlowCollectorComponentsStatus =
  cmps_Agent :: "FlowCollectorComponentStatus option"
  cmps_Processor :: "FlowCollectorComponentStatus option"
  cmps_Plugin :: "FlowCollectorComponentStatus option"

record FlowCollectorIntegrationsStatus =
  intg_Loki :: "FlowCollectorComponentStatus option"
  intg_Monitoring :: "FlowCollectorComponentStatus option"
  intg_Exporters :: "FlowCollectorExporterStatus list"

record FlowCollectorStatus =
  st_Conditions :: "Condition list"
  st_Components :: "FlowCollectorComponentsStatus option"
  st_Integrations :: "FlowCollectorIntegrationsStatus option"
  st_Namespace :: string

text \<open>The resource; of its metadata, the annotations (\<open>None\<close> for a nil map) are read and written.\<close>

record FlowCollector =
  fc_Annotations :: "string_map option"
  fc_Spec :: FlowCollectorSpec
  fc_Status :: FlowCollectorStatus

section \<open>Component statuses\<close>

datatype Status = StatusUnknown | StatusUnused | StatusInProgress | StatusReady | StatusFailure | StatusDegraded

fun status_string :: "Status \<Rightarrow> string" where
  "status_string StatusUnknown = ''Unknown''"
| "status_string StatusUnused = ''Unused''"
| "status_string StatusInProgress = ''InProgress''"
| "status_string StatusReady = ''Ready''"
| "status_string StatusFailure = ''Failure''"
| "status_string StatusDegraded = ''Degraded''"

definition statusPriority :: "Status list" where
  "statusPriority = [StatusFailure, StatusInProgress, StatusDegraded, StatusUnused, StatusReady, StatusUnknown]"

datatype ComponentName =
  FlowCollectorController | EBPFAgents | WebConsole | FLPParent | FLPInformers | FLPMonolith
| FLPTransformer | Monitoring | StaticController | NetworkPolicyCpnt | DemoLoki | LokiStack

fun component_string :: "ComponentName \<Rightarrow> string" where
  "component_string FlowCollectorController = ''FlowCollectorController''"
| "component_string EBPFAgents = ''EBPFAgents''"
| "component_string WebConsole = ''WebConsole''"
| "component_string FLPParent = ''FLPParent''"
| "component_string FLPInformers = ''FLPInformers''"
| "component_string FLPMonolith = ''FLPMonolith''"
| "component_string FLPTransformer = ''FLPTransformer''"
| "component_string Monitoring = ''Monitoring''"
| "component_string StaticController = ''StaticController''"
| "component_string NetworkPolicyCpnt = ''NetworkPolicy''"
| "component_string DemoLoki = ''DemoLoki''"
| "component_string LokiStack = ''LokiStack''"

record podHealthSummary =
  ph_unhealthyCount :: int
  ph_issues :: string

definition zero_health :: podHealthSummary where
  "zero_health = \<lparr>ph_unhealthyCount = 0, ph_issues = []\<rparr>"

record ComponentStatus =
  cs_Name :: ComponentName
  cs_Status :: Status
  cs_Reason :: string
  cs_Messages :: "string list"
  cs_DesiredReplicas :: "int option"
  cs_ReadyReplicas :: "int option"
  cs_podHealth :: podHealthSummary

text \<open>The literal \<open>ComponentStatus{Name, Status, Reason, Messages}\<close>, other fields zero.\<close>

definition mk_status :: "ComponentName \<Rightarrow> Status \<Rightarrow> string \<Rightarrow> string list \<Rightarrow> ComponentStatus" where
  "mk_status n s r ms =
     \<lparr>cs_Name = n, cs_Status = s, cs_Reason = r, cs_Messages = ms,
      cs_DesiredReplicas = None, cs_ReadyReplicas = None, cs_podHealth = zero_health\<rparr>"

definition Message :: "ComponentStatus \<Rightarrow> string" where
  "Message s = str_join ''; '' (cs_Messages s)"

definition status_index :: "Status \<Rightarrow> int" where
  "status_index s = (case slice_index statusPriority s of None \<Rightarrow> - 1 | Some n \<Rightarrow> int n)"

definition merge :: "ComponentStatus \<Rightarrow> ComponentStatus \<Rightarrow> ComponentStatus" where
  "merge s other =
     (let merged = s;
          merged = (if status_index (cs_Status other) \<le> status_index (cs_Status merged)
                    then merged\<lparr>cs_Status := cs_Status other, cs_Reason := cs_Reason other\<rparr> else merged);
          merged = merged\<lparr>cs_Messages := cs_Messages merged @ cs_Messages other\<rparr>;
          merged = (case cs_DesiredReplicas other of None \<Rightarrow> merged | Some r \<Rightarrow> merged\<lparr>cs_DesiredReplicas := Some r\<rparr>);
          merged = (case cs_ReadyReplicas other of None \<Rightarrow> merged | Some r \<Rightarrow> merged\<lparr>cs_ReadyReplicas := Some r\<rparr>)
      in if ph_unhealthyCount (cs_podHealth other) > 0 then
           (let merged = merged\<lparr>cs_podHealth := cs_podHealth other\<rparr>
            in if cs_Status s = StatusInProgress
               then merged\<lparr>cs_Status := cs_Status other, cs_Reason := cs_Reason other\<rparr> else merged)
         else merged)"

definition toCondition :: "ComponentStatus \<Rightarrow> Condition" where
  "toCondition s =
     (let (st, r) = (case cs_Status s of
            StatusUnknown \<Rightarrow> (ConditionUnknown, ''Unknown'')
          | StatusUnused \<Rightarrow> (ConditionUnknown, ''Unused'')
          | StatusFailure \<Rightarrow> (ConditionTrue, ''NotReady'')
          | StatusInProgress \<Rightarrow> (ConditionTrue, ''NotReady'')
          | StatusDegraded \<Rightarrow> (ConditionTrue, ''NotReady'')
          | StatusReady \<Rightarrow> (ConditionFalse, ''Ready''))
      in mk_condition (''Waiting'' @ component_string (cs_Name s)) st
           (if cs_Reason s \<noteq> [] then cs_Reason s else r) (Message s))"

definition toCRDStatus :: "ComponentStatus \<Rightarrow> FlowCollectorComponentStatus" where
  "toCRDStatus s =
     \<lparr>fccs_State = status_string (cs_Status s), fccs_Reason = cs_Reason s, fccs_Message = Message s,
      fccs_DesiredReplicas = cs_DesiredReplicas s, fccs_ReadyReplicas = cs_ReadyReplicas s,
      fccs_UnhealthyPodCount = ph_unhealthyCount (cs_podHealth s), fccs_PodIssues = ph_issues (cs_podHealth s)\<rparr>"

section \<open>Lemmas: severity\<close>

lemma status_index_simps [simp]:
  "status_index StatusFailure = 0" "status_index StatusInProgress = 1" "status_index StatusDegraded = 2"
  "status_index StatusUnused = 3" "status_index StatusReady = 4" "status_index StatusUnknown = 5"
  by (simp_all add: status_index_def statusPriority_def)

lemma status_index_inj [simp]: "status_index a = status_index b \<longleftrightarrow> a = b"
  by (cases a; cases b) simp_all

lemma status_string_inj [simp]: "status_string a = status_string b \<longleftrightarrow> a = b"
  by (cases a; cases b) simp_all

lemma component_string_inj [simp]: "component_string a = component_string b \<longleftrightarrow> a = b"
  by (cases a; cases b) simp_all

text \<open>The severity order: the one of two statuses that comes first in \<open>statusPriority\<close>.\<close>

definition worse :: "Status \<Rightarrow> Status \<Rightarrow> Status" where
  "worse a b = (if status_index b \<le> status_index a then b else a)"

text \<open>The six statuses form a semilattice, with Unknown, the value after a reset, as its neutral element.\<close>

interpretation worst: semilattice_neutr worse StatusUnknown
proof
  fix a b c
  show "worse (worse a b) c = worse a (worse b c)" by (simp add: worse_def)
  show "worse a b = worse b a" by (auto simp: worse_def)
  show "worse a a = a" by (simp add: worse_def)
  show "worse a StatusUnknown = a" by (cases a) (simp_all add: worse_def)
qed

lemma merge_Name [simp]: "cs_Name (merge s other) = cs_Name s"
  by (simp add: merge_def Let_def split: option.split)

lemma merge_Messages [simp]: "cs_Messages (merge s other) = cs_Messages s @ cs_Messages other"
  by (simp add: merge_def Let_def split: option.split)

lemma merge_Status:
  "cs_Status (merge s other) =
     (if ph_unhealthyCount (cs_podHealth other) > 0 \<and> cs_Status s = StatusInProgress then cs_Status other
      else worse (cs_Status s) (cs_Status other))"
  by (simp add: merge_def Let_def worse_def split: option.split)

lemma merge_podHealth:
  "cs_podHealth (merge s other) =
     (if ph_unhealthyCount (cs_podHealth other) > 0 then cs_podHealth other else cs_podHealth s)"
  by (simp add: merge_def Let_def split: option.split)

lemma merge_replicas:
  "cs_DesiredReplicas (merge s other) = (if cs_DesiredReplicas other = None then cs_DesiredReplicas s else cs_DesiredReplicas other)"
  "cs_ReadyReplicas (merge s other) = (if cs_ReadyReplicas other = None then cs_ReadyReplicas s else cs_ReadyReplicas other)"
  by (simp_all add: merge_def Let_def split: option.split)

lemma mk_status_sel [simp]:
  "cs_Name (mk_status n s r ms) = n" "cs_Status (mk_status n s r ms) = s" "cs_Reason (mk_status n s r ms) = r"
  "cs_Messages (mk_status n s r ms) = ms" "cs_podHealth (mk_status n s r ms) = zero_health"
  "ph_unhealthyCount zero_health = 0" "ph_issues zero_health = []"
  "cs_DesiredReplicas (mk_status n s r ms) = None" "cs_ReadyReplicas (mk_status n s r ms) = None"
  by (simp_all add: mk_status_def zero_health_def)

lemma toCondition_Type [simp]: "cond_Type (toCondition s) = ''Waiting'' @ component_string (cs_Name s)"
  by (simp add: toCondition_def split: Status.split)

lemma toCondition_Status:
  "cond_Status (toCondition s) = ConditionTrue \<longleftrightarrow> cs_Status s \<in> {StatusFailure, StatusInProgress, StatusDegraded}"
  "cond_Status (toCondition s) = ConditionFalse \<longleftrightarrow> cs_Status s = StatusReady"
  by (simp_all add: toCondition_def split: Status.split)

lemma toCRDStatus_sel [simp]:
  "fccs_State (toCRDStatus s) = status_string (cs_Status s)" "fccs_Reason (toCRDStatus s) = cs_Reason s"
  "fccs_Message (toCRDStatus s) = Message s" "fccs_DesiredReplicas (toCRDStatus s) = cs_DesiredReplicas s"
  by (simp_all add: toCRDStatus_def)

end
