(* ===== verification/Pod_Health.thy ===== *)
theory Pod_Health
  imports Component_Status
begin

text \<open>
  \<open>internal/pkg/manager/status/pod_health.go\<close>: the classification of the pods of a workload and
  the summary of their issues. The listing of the pods is the API client's; its result, \<open>None\<close> for
  an error, is an argument of \<open>checkPodHealth\<close>.
\<close>

section \<open>The parts of a pod that are read\<close>

record ContainerStateWaiting =
  wait_Reason :: string
  wait_Message :: string

record ContainerStateTerminated =
  term_Reason :: string
  term_Message :: string

record ContainerState =
  state_Waiting :: "ContainerStateWaiting option"
  state_Running :: bool
  state_Terminated :: "ContainerStateTerminated option"

record ContainerStatus =
  cst_State :: ContainerState
  cst_LastTerminationState :: ContainerState
  cst_RestartCount :: int

datatype PodPhase = PodPhaseUnset | PodPending | PodRunning | PodSucceeded | PodFailed | PodUnknown

record PodCondition =
  pc_Type :: string
  pc_Status :: ConditionStatus
  pc_Message :: string

record Pod =
  pod_Name :: string
  pod_Phase :: PodPhase
  pod_Conditions :: "PodCondition list"
  pod_Message :: string
  pod_ContainerStatuses :: "ContainerStatus list"

section \<open>Classification\<close>

definition extractTerminationMessage :: "ContainerStatus \<Rightarrow> string" where
  "extractTerminationMessage cs =
     (case state_Terminated (cst_LastTerminationState cs) of
        Some t \<Rightarrow> if term_Message t \<noteq> [] then term_Message t else term_Reason t
      | None \<Rightarrow> [])"

text \<open>The waiting switch: a return value, or \<open>None\<close> to go on with the container.\<close>

definition waiting_issue :: "ContainerStatus \<Rightarrow> (string \<times> string) option" where
  "waiting_issue cs =
     (case state_Waiting (cst_State cs) of
        None \<Rightarrow> None
      | Some w \<Rightarrow>
          if wait_Reason w = ''CrashLoopBackOff'' then Some (''CrashLoopBackOff'', extractTerminationMessage cs)
          else if wait_Reason w = ''ImagePullBackOff'' \<or> wait_Reason w = ''ErrImagePull'' then Some (''ImagePullError'', wait_Message w)
          else if wait_Reason w = ''ContainerCreating'' \<or> wait_Reason w = ''PodInitializing'' then None
          else if wait_Reason w = [] then None
          else Some (wait_Reason w, wait_Message w))"

definition container_issue :: "ContainerStatus \<Rightarrow> (string \<times> string) option" where
  "container_issue cs =
     (case waiting_issue cs of
        Some r \<Rightarrow> Some r
      | None \<Rightarrow>
          (case state_Terminated (cst_LastTerminationState cs) of
             Some t \<Rightarrow>
               if term_Reason t = ''OOMKilled'' then Some (''OOMKilled'', term_Message t)
               else if cst_RestartCount cs > 10 \<and> state_Running (cst_State cs)
               then Some (''FrequentRestarts'', extractTerminationMessage cs) else None
           | None \<Rightarrow>
               if cst_RestartCount cs > 10 \<and> state_Running (cst_State cs)
               then Some (''FrequentRestarts'', extractTerminationMessage cs) else None))"

fun containers_issue :: "ContainerStatus list \<Rightarrow> (string \<times> string) option" where
  "containers_issue [] = None"
| "containers_issue (cs # css) = (case container_issue cs of Some r \<Rightarrow> Some r | None \<Rightarrow> containers_issue css)"

fun unscheduled :: "PodCondition list \<Rightarrow> (string \<times> string) option" where
  "unscheduled [] = None"
| "unscheduled (c # cs) =
     (if pc_Type c = ''PodScheduled'' \<and> pc_Status c = ConditionFalse
      then Some (''PendingScheduling'', pc_Message c) else unscheduled cs)"

definition classifyPodIssue :: "Pod \<Rightarrow> string \<times> string" where
  "classifyPodIssue pod =
     (case containers_issue (pod_ContainerStatuses pod) of
        Some r \<Rightarrow> r
      | None \<Rightarrow>
          if pod_Phase pod = PodFailed then (''PodFailed'', pod_Message pod)
          else if pod_Phase pod = PodPending then
            (case unscheduled (pod_Conditions pod) of Some r \<Rightarrow> r | None \<Rightarrow> ([], []))
          else ([], []))"

definition truncateMessage :: "string \<Rightarrow> nat \<Rightarrow> string" where
  "truncateMessage msg maxLen = (if length msg \<le> maxLen then msg else take maxLen msg @ ''...'')"

section \<open>The summary\<close>

record issueGroup =
  ig_reason :: string
  ig_podNames :: "string list"
  ig_sample :: string

definition add_to_group :: "string \<Rightarrow> string \<Rightarrow> string \<Rightarrow> issueGroup option \<Rightarrow> issueGroup" where
  "add_to_group reason msg name old =
     (let g = (case old of Some g \<Rightarrow> g | None \<Rightarrow> \<lparr>ig_reason = reason, ig_podNames = [], ig_sample = []\<rparr>);
          g = g\<lparr>ig_podNames := ig_podNames g @ [name]\<rparr>
      in if ig_sample g = [] \<and> msg \<noteq> [] then g\<lparr>ig_sample := msg\<rparr> else g)"

text \<open>The loop over the pods: the groups by reason, the reasons met, the counter of type \<open>int32\<close>.\<close>

fun group_pods :: "(string \<rightharpoonup> issueGroup) \<times> string list \<times> int \<Rightarrow> Pod list \<Rightarrow> (string \<rightharpoonup> issueGroup) \<times> string list \<times> int" where
  "group_pods acc [] = acc"
| "group_pods (groups, reasons, n) (pod # pods) =
     (let (reason, msg) = classifyPodIssue pod in
      if reason = [] then group_pods (groups, reasons, n) pods
      else group_pods
        (groups(reason \<mapsto> add_to_group reason msg (pod_Name pod) (groups reason)),
         if groups reason = None then reasons @ [reason] else reasons,
         wrap32 (n + 1)) pods)"

definition maxPodNamesInSummary :: nat where
  "maxPodNamesInSummary = 5"

definition group_part :: "issueGroup \<Rightarrow> string" where
  "group_part g =
     (let count = length (ig_podNames g);
          names = (if count > maxPodNamesInSummary then take maxPodNamesInSummary (ig_podNames g) else ig_podNames g);
          part = show_nat count @ '' '' @ ig_reason g @ '' ('' @ str_join '', '' names @ '')'';
          part = (if count > maxPodNamesInSummary then part @ '' and '' @ show_nat (count - maxPodNamesInSummary) @ '' more'' else part)
      in if ig_sample g \<noteq> [] then part @ '': '' @ truncateMessage (ig_sample g) 200 else part)"

definition checkPodHealth :: "Pod list option \<Rightarrow> podHealthSummary" where
  "checkPodHealth listed =
     (case listed of
        None \<Rightarrow> zero_health
      | Some pods \<Rightarrow>
          (case group_pods (Map.empty, [], 0) pods of (groups, reasons, unhealthyCount) \<Rightarrow>
             if unhealthyCount = 0 then zero_health
             else \<lparr>ph_unhealthyCount = unhealthyCount,
                   ph_issues = str_join ''; '' (map (\<lambda>r. group_part (the (groups r))) (sort reasons))\<rparr>))"

section \<open>Lemmas\<close>

definition unhealthy :: "Pod \<Rightarrow> bool" where
  "unhealthy pod \<longleftrightarrow> fst (classifyPodIssue pod) \<noteq> []"

definition reason_of :: "Pod \<Rightarrow> string" where
  "reason_of pod = fst (classifyPodIssue pod)"

lemma wrap32_add: "wrap32 (b + wrap32 a) = wrap32 (b + a)"
proof -
  have "b + wrap32 a + 2147483648 = b + (a + 2147483648) mod 4294967296" by (simp add: wrap32_def)
  then have "(b + wrap32 a + 2147483648) mod 4294967296 = (b + a + 2147483648) mod 4294967296"
    by (simp add: mod_simps add.assoc)
  then show ?thesis by (simp add: wrap32_def)
qed

text \<open>What the loop computes: for every reason, the names of its pods in listing order.\<close>

definition pods_with :: "string \<Rightarrow> Pod list \<Rightarrow> string list" where
  "pods_with r pods = map pod_Name (filter (\<lambda>p. reason_of p = r) pods)"

definition group_names :: "(string \<rightharpoonup> issueGroup) \<Rightarrow> string \<Rightarrow> string list" where
  "group_names groups r = (case groups r of None \<Rightarrow> [] | Some g \<Rightarrow> ig_podNames g)"

lemma add_to_group_names [simp]:
  "ig_podNames (add_to_group r m n old) = (case old of None \<Rightarrow> [] | Some g \<Rightarrow> ig_podNames g) @ [n]"
  by (simp add: add_to_group_def Let_def split: option.split)

lemma group_names_upd:
  "group_names (groups(r \<mapsto> add_to_group r m n (groups r))) r' = group_names groups r' @ (if r' = r then [n] else [])"
  by (simp add: group_names_def split: option.split)

lemma group_pods_names:
  "r \<noteq> [] \<Longrightarrow> group_names (fst (group_pods (groups, reasons, n) pods)) r = group_names groups r @ pods_with r pods"
proof (induction pods arbitrary: groups reasons n)
  case (Cons pod pods)
  obtain r' m where c: "classifyPodIssue pod = (r', m)" by fastforce
  then have p: "pods_with r (pod # pods) = (if r = r' then [pod_Name pod] else []) @ pods_with r pods"
    by (auto simp: pods_with_def reason_of_def)
  define G where "G = groups(r' \<mapsto> add_to_group r' m (pod_Name pod) (groups r'))"
  have "group_pods (groups, reasons, n) (pod # pods) =
    (if r' = [] then group_pods (groups, reasons, n) pods
     else group_pods (G, if groups r' = None then reasons @ [r'] else reasons, wrap32 (n + 1)) pods)"
    by (simp add: c G_def)
  moreover have "group_names G r = group_names groups r @ (if r = r' then [pod_Name pod] else [])"
    unfolding G_def by (rule group_names_upd)
  ultimately show ?case using Cons by (cases "r' = []") (simp_all only: p if_True if_False append_assoc append_Nil simp_thms)
qed (simp add: pods_with_def)

lemma group_pods_reasons:
  "distinct reasons \<Longrightarrow> set reasons = dom groups \<Longrightarrow> group_pods (groups, reasons, n) pods = (groups', reasons', n') \<Longrightarrow>
   distinct reasons' \<and> set reasons' = dom groups' \<and> dom groups' = dom groups \<union> reason_of ` {p \<in> set pods. unhealthy p}"
proof (induction pods arbitrary: groups reasons n)
  case (Cons pod pods)
  obtain r m where c: "classifyPodIssue pod = (r, m)" by fastforce
  show ?case
  proof (cases "r = []")
    case True
    then have "\<not> unhealthy pod" by (simp add: unhealthy_def c)
    then have "{p \<in> set (pod # pods). unhealthy p} = {p \<in> set pods. unhealthy p}" by auto
    with Cons.IH[OF Cons.prems(1,2)] Cons.prems(3) c True show ?thesis by simp
  next
    case False
    define G where "G = groups(r \<mapsto> add_to_group r m (pod_Name pod) (groups r))"
    from False have "{p \<in> set (pod # pods). unhealthy p} = insert pod {p \<in> set pods. unhealthy p}"
      by (auto simp: unhealthy_def c)
    moreover have "reason_of pod = r" by (simp add: reason_of_def c)
    moreover have "distinct (if groups r = None then reasons @ [r] else reasons)"
      "set (if groups r = None then reasons @ [r] else reasons) = insert r (dom groups)"
      using Cons.prems(1,2) by auto
    moreover have "dom G = insert r (dom groups)" by (simp add: G_def)
    moreover have "group_pods (G, if groups r = None then reasons @ [r] else reasons, wrap32 (n + 1)) pods = (groups', reasons', n')"
      using Cons.prems(3) c False by (simp add: G_def)
    ultimately show ?thesis
      using Cons.IH[of "if groups r = None then reasons @ [r] else reasons" G "wrap32 (n + 1)"] by simp
  qed
qed simp

lemma group_pods_count:
  "snd (snd (group_pods (g, rs, wrap32 n) pods)) = wrap32 (n + int (length (filter unhealthy pods)))"
proof (induction pods arbitrary: g rs n)
  case (Cons pod pods)
  obtain r m where c: "classifyPodIssue pod = (r, m)" by fastforce
  show ?case using Cons c
    using wrap32_add[of "1 + int (length (filter unhealthy pods))" n]
    by (cases "r = []") (simp_all add: unhealthy_def[of pod] algebra_simps)
qed simp

lemma pods_with_Nil: "r \<in> reason_of ` {p \<in> set pods. unhealthy p} \<Longrightarrow> pods_with r pods \<noteq> []"
  by (auto simp: pods_with_def filter_empty_conv unhealthy_def reason_of_def)

lemma truncate_length: "length (truncateMessage msg n) \<le> n + 3"
  by (simp add: truncateMessage_def)

lemma group_reason: "(\<And>r g. groups r = Some g \<Longrightarrow> ig_reason g = r) \<Longrightarrow>
   fst (group_pods (groups, reasons, n) pods) r = Some g \<Longrightarrow> ig_reason g = r"
proof (induction pods arbitrary: groups reasons n)
  case (Cons pod pods)
  obtain r' m where c: "classifyPodIssue pod = (r', m)" by fastforce
  define G where "G = groups(r' \<mapsto> add_to_group r' m (pod_Name pod) (groups r'))"
  have "ig_reason h = q" if "G q = Some h" for q h
    using that Cons.prems(1) by (auto simp: G_def add_to_group_def Let_def split: if_splits option.splits)
  note G = Cons.IH[OF this, where reasons = "if groups r' = None then reasons @ [r'] else reasons" and n = "wrap32 (n + 1)"]
  show ?case
  proof (cases "r' = []")
    case True
    with Cons.IH[OF Cons.prems(1)] Cons.prems(2) c show ?thesis by simp
  next
    case False
    with G Cons.prems(2) c show ?thesis by (simp flip: G_def)
  qed
qed simp

text \<open>
  The summary of a listing of less than \<open>2 ^ 31\<close> pods counts exactly the pods that
  \<open>classifyPodIssue\<close> finds unhealthy and, when there are some, names every reason found among
  them once, in increasing order, each with all the pods of that reason in listing order (of which
  the text shows five at most).
\<close>

theorem checkPodHealth_summary:
  assumes "length pods < 2 ^ 31"
  shows "ph_unhealthyCount (checkPodHealth (Some pods)) = int (length (filter unhealthy pods))
    \<and> (\<exists>gs. ph_issues (checkPodHealth (Some pods)) = str_join ''; '' (map group_part gs)
          \<and> sorted (map ig_reason gs) \<and> distinct (map ig_reason gs)
          \<and> set (map ig_reason gs) = reason_of ` {p \<in> set pods. unhealthy p}
          \<and> (\<forall>g \<in> set gs. ig_podNames g = pods_with (ig_reason g) pods))"
proof -
  obtain groups reasons n where g: "group_pods (Map.empty, [], 0) pods = (groups, reasons, n)"
    by (metis prod_cases3)
  have "length (filter unhealthy pods) < 2147483648"
    by (rule le_less_trans[OF length_filter_le]) (use assms in simp)
  moreover have "n = wrap32 (0 + int (length (filter unhealthy pods)))"
    using group_pods_count[of Map.empty "[]" 0 pods] g by (simp add: wrap32_def)
  ultimately have n: "n = int (length (filter unhealthy pods))" by (simp add: wrap32_id)
  have rs: "distinct reasons" "set reasons = dom groups" "dom groups = reason_of ` {p \<in> set pods. unhealthy p}"
    using group_pods_reasons[OF _ _ g] by auto
  have at: "ig_reason (the (groups r)) = r \<and> ig_podNames (the (groups r)) = pods_with r pods" if "r \<in> set reasons" for r
  proof -
    from that rs(2) obtain h where h: "groups r = Some h" by blast
    have "r \<noteq> []" using that rs by (auto simp: unhealthy_def reason_of_def)
    then show ?thesis
      using h group_reason[of Map.empty "[]" 0 pods r h] group_pods_names[of r Map.empty "[]" 0 pods] g
      by (simp add: group_names_def)
  qed
  let ?gs = "map (\<lambda>r. the (groups r)) (sort reasons)"
  have names: "map ig_reason ?gs = sort reasons" using at by (auto intro!: map_idI)
  show ?thesis
  proof (intro conjI exI[of _ ?gs])
    show "ph_unhealthyCount (checkPodHealth (Some pods)) = int (length (filter unhealthy pods))"
      by (simp add: checkPodHealth_def g n)
    show "ph_issues (checkPodHealth (Some pods)) = str_join ''; '' (map group_part ?gs)"
    proof (cases "n = 0")
      case True
      then have "filter unhealthy pods = []" using n by simp
      then have "{p \<in> set pods. unhealthy p} = {}" by (auto simp: filter_empty_conv)
      with rs have "set reasons = {}" by (simp only: image_empty)
      then have "reasons = []" by simp
      with True show ?thesis by (simp add: checkPodHealth_def g)
    qed (simp add: checkPodHealth_def g comp_def)
  qed (use names rs at in auto)
qed

definition sample_pod :: "string \<Rightarrow> PodPhase \<Rightarrow> Pod" where
  "sample_pod n ph = \<lparr>pod_Name = n, pod_Phase = ph, pod_Conditions = [], pod_Message = ''evicted'', pod_ContainerStatuses = []\<rparr>"

theorem checkPodHealth_summary_witness:
  "length [sample_pod ''a'' PodFailed, sample_pod ''b'' PodRunning] < 2 ^ 31
   \<and> ph_unhealthyCount (checkPodHealth (Some [sample_pod ''a'' PodFailed, sample_pod ''b'' PodRunning])) = 1"
  using checkPodHealth_summary[of "[sample_pod ''a'' PodFailed, sample_pod ''b'' PodRunning]"]
  by (simp add: unhealthy_def classifyPodIssue_def sample_pod_def)

end
