(* ===== verification/Status_Manager.thy ===== *)
theory Status_Manager
  imports Pod_Health FC_Validation
begin

text \<open>
  \<open>internal/pkg/manager/status/status_manager.go\<close> and \<open>namespace.go\<close>: the manager that
  gathers the component statuses and publishes them in the FlowCollector resource. Its state is the
  record \<open>Manager\<close> (the three \<open>sync.Map\<close>s and the presence of an event recorder); every
  method is a function from state to state. \<open>sync.Map.Range\<close> visits the keys in an unspecified
  order: each such loop takes that order as an argument, a list of keys. The API server is the record
  \<open>api\<close> over a type of worlds, the clock an argument. The texts of webhook errors and warnings,
  which the webhook model keeps as structured values, are rendered by two arguments.
\<close>

section \<open>State\<close>

record Manager =
  statuses :: "ComponentName \<rightharpoonup> ComponentStatus"
  exporters :: "string \<rightharpoonup> FlowCollectorExporterStatus"
  eventRecorder :: bool
  prevStatuses :: "ComponentName \<rightharpoonup> ComponentStatus"

definition NewManager :: Manager where
  "NewManager = \<lparr>statuses = Map.empty, exporters = Map.empty, eventRecorder = False, prevStatuses = Map.empty\<rparr>"

definition SetEventRecorder :: "Manager \<Rightarrow> Manager" where
  "SetEventRecorder s = s\<lparr>eventRecorder := True\<rparr>"

definition getStatus :: "Manager \<Rightarrow> ComponentName \<Rightarrow> ComponentStatus option" where
  "getStatus s cpnt = statuses s cpnt"

definition updateComponentStatus :: "ComponentStatus \<Rightarrow> Manager \<Rightarrow> Manager" where
  "updateComponentStatus other s =
     (let merged = (case getStatus s (cs_Name other) of None \<Rightarrow> other | Some existing \<Rightarrow> merge existing other)
      in s\<lparr>statuses := (statuses s)(cs_Name other \<mapsto> merged)\<rparr>)"

definition setInProgress :: "ComponentName \<Rightarrow> string \<Rightarrow> string \<Rightarrow> Manager \<Rightarrow> Manager" where
  "setInProgress cpnt reason message = updateComponentStatus (mk_status cpnt StatusInProgress reason [message])"

definition setFailure :: "ComponentName \<Rightarrow> string \<Rightarrow> string \<Rightarrow> Manager \<Rightarrow> Manager" where
  "setFailure cpnt reason message = updateComponentStatus (mk_status cpnt StatusFailure reason [message])"

definition setDegraded :: "ComponentName \<Rightarrow> string \<Rightarrow> string \<Rightarrow> Manager \<Rightarrow> Manager" where
  "setDegraded cpnt reason message = updateComponentStatus (mk_status cpnt StatusDegraded reason [message])"

definition hasFailure :: "Manager \<Rightarrow> ComponentName \<Rightarrow> bool" where
  "hasFailure s cpnt = (case statuses s cpnt of None \<Rightarrow> False | Some v \<Rightarrow> cs_Status v = StatusFailure)"

definition reset :: "ComponentName \<Rightarrow> Manager \<Rightarrow> Manager" where
  "reset cpnt s = s\<lparr>statuses := (statuses s)(cpnt \<mapsto> mk_status cpnt StatusUnknown [] [])\<rparr>"

definition setReady :: "ComponentName \<Rightarrow> Manager \<Rightarrow> Manager" where
  "setReady cpnt = updateComponentStatus (mk_status cpnt StatusReady [] [])"

definition setUnused :: "ComponentName \<Rightarrow> string \<Rightarrow> Manager \<Rightarrow> Manager" where
  "setUnused cpnt message = updateComponentStatus (mk_status cpnt StatusUnused ''ComponentUnused'' [message])"

definition SetExporterStatus :: "string \<Rightarrow> string \<Rightarrow> string \<Rightarrow> string \<Rightarrow> string \<Rightarrow> Manager \<Rightarrow> Manager" where
  "SetExporterStatus name exporterType st reason message s =
     s\<lparr>exporters := (exporters s)(name \<mapsto>
        \<lparr>exps_Name = name, exps_Type = exporterType, exps_State = st, exps_Reason = reason, exps_Message = message\<rparr>)\<rparr>"

text \<open>The loop of \<open>ClearExporters\<close> deletes every key it visits.\<close>

definition ClearExporters :: "string list \<Rightarrow> Manager \<Rightarrow> Manager" where
  "ClearExporters ord s = s\<lparr>exporters := fold (\<lambda>k m. m(k := None)) ord (exporters s)\<rparr>"

text \<open>The values a \<open>Range\<close> in the order \<open>ord\<close> visits.\<close>

definition range_values :: "'k list \<Rightarrow> ('k \<rightharpoonup> 'v) \<Rightarrow> 'v list" where
  "range_values ord m = List.map_filter m ord"

section \<open>Conditions\<close>

definition count_status :: "Status \<Rightarrow> ComponentStatus list \<Rightarrow> nat" where
  "count_status st vs = length (filter (\<lambda>v. cs_Status v = st) vs)"

definition global_condition :: "ComponentStatus list \<Rightarrow> Condition" where
  "global_condition vs =
     (let msg = show_nat (count_status StatusReady vs) @ '' ready components, ''
            @ show_nat (count_status StatusFailure vs) @ '' with failure, ''
            @ show_nat (count_status StatusInProgress vs) @ '' pending, ''
            @ show_nat (count_status StatusDegraded vs) @ '' degraded''
      in if count_status StatusFailure vs > 0 then mk_condition ''Ready'' ConditionFalse ''Failure'' msg
         else if count_status StatusInProgress vs > 0 then mk_condition ''Ready'' ConditionFalse ''Pending'' msg
         else if count_status StatusDegraded vs > 0 then mk_condition ''Ready'' ConditionTrue ''Ready,Degraded'' msg
         else mk_condition ''Ready'' ConditionTrue ''Ready'' msg)"

definition getConditions :: "ComponentName list \<Rightarrow> Manager \<Rightarrow> Condition list" where
  "getConditions ord s =
     (let vs = range_values ord (statuses s) in global_condition vs # map toCondition vs)"

text \<open>\<open>checkValidation\<close>, the two texts rendered by \<open>err_text\<close> and \<open>warn_text\<close>.\<close>

record status_env =
  se_venv :: venv
  se_err_text :: "verror list \<Rightarrow> string"
  se_warn_text :: "warning list \<Rightarrow> string"
  se_now :: int

definition checkValidation :: "status_env \<Rightarrow> FlowCollector \<Rightarrow> Condition" where
  "checkValidation env fc =
     (let v = Validate (se_venv env) (fc_Spec fc) in
      if v_errors v \<noteq> [] then mk_condition ''ConfigurationIssue'' ConditionTrue ''Error'' (se_err_text env (v_errors v))
      else if v_warnings v \<noteq> [] then mk_condition ''ConfigurationIssue'' ConditionTrue ''Warnings'' (se_warn_text env (v_warnings v))
      else mk_condition ''ConfigurationIssue'' ConditionFalse ''Valid'' [])"

section \<open>The Kafka condition\<close>

definition transformer_issues :: "ComponentStatus option \<Rightarrow> string list" where
  "transformer_issues ts =
     (case ts of
        None \<Rightarrow> []
      | Some t \<Rightarrow>
          if cs_Status t \<noteq> StatusUnknown \<and> cs_Status t \<noteq> StatusUnused then
            (if cs_Status t = StatusFailure \<or> cs_Status t = StatusDegraded then [''Transformer: '' @ Message t] else [])
            @ (if ph_unhealthyCount (cs_podHealth t) > 0 then [''Transformer pods: '' @ ph_issues (cs_podHealth t)] else [])
          else [])"

definition agent_issues :: "ComponentStatus option \<Rightarrow> string list" where
  "agent_issues as =
     (case as of
        None \<Rightarrow> []
      | Some a \<Rightarrow>
          if ph_unhealthyCount (cs_podHealth a) > 0 \<and> str_contains (to_lower (ph_issues (cs_podHealth a))) ''kafka''
          then [''Agent pods: '' @ ph_issues (cs_podHealth a)] else [])"

definition exporter_issues :: "FlowCollectorExporterStatus list \<Rightarrow> string list" where
  "exporter_issues es =
     map (\<lambda>e. ''Exporter '' @ exps_Name e @ '': '' @ exps_Message e)
       (filter (\<lambda>e. exps_Type e = ''Kafka'' \<and> exps_State e = status_string StatusFailure) es)"

definition GetKafkaCondition :: "string list \<Rightarrow> Manager \<Rightarrow> Condition option" where
  "GetKafkaCondition eord s =
     (let messages = transformer_issues (getStatus s FLPTransformer) @ agent_issues (getStatus s EBPFAgents)
                     @ exporter_issues (range_values eord (exporters s))
      in if messages \<noteq> [] then
           Some (mk_condition ''KafkaReady'' ConditionFalse ''KafkaIssue'' (str_join ''; '' messages))
         else case getStatus s FLPTransformer of
           None \<Rightarrow> None
         | Some ts \<Rightarrow>
             (case cs_Status ts of
                StatusReady \<Rightarrow> Some (mk_condition ''KafkaReady'' ConditionTrue ''Ready'' [])
              | StatusInProgress \<Rightarrow>
                  Some (mk_condition ''KafkaReady'' ConditionFalse ''KafkaPending'' ''Kafka transformer is rolling out'')
              | _ \<Rightarrow> None))"

section \<open>Component statuses of the resource\<close>

definition weak :: "FlowCollectorComponentStatus option \<Rightarrow> bool" where
  "weak existing =
     (case existing of
        None \<Rightarrow> True
      | Some e \<Rightarrow> fccs_State e = status_string StatusUnknown \<or> fccs_State e = status_string StatusUnused)"

definition mergeProcessorStatus ::
  "FlowCollectorComponentStatus option \<Rightarrow> ComponentStatus \<Rightarrow> FlowCollectorComponentStatus option" where
  "mergeProcessorStatus existing cs =
     (if cs_Status cs = StatusUnknown \<or> cs_Status cs = StatusUnused then
        (case existing of None \<Rightarrow> Some (toCRDStatus cs) | Some e \<Rightarrow> Some e)
      else if cs_Name cs = FLPParent then
        (if weak existing then Some (toCRDStatus cs) else existing)
      else if weak existing \<or> cs_Status cs = StatusFailure \<or> cs_Status cs = StatusInProgress \<or> cs_Status cs = StatusDegraded
      then Some (toCRDStatus cs)
      else map_option (\<lambda>e.
             if fccs_State e = status_string StatusReady \<and> fccs_DesiredReplicas (toCRDStatus cs) \<noteq> None
             then e\<lparr>fccs_DesiredReplicas := fccs_DesiredReplicas (toCRDStatus cs),
                    fccs_ReadyReplicas := fccs_ReadyReplicas (toCRDStatus cs),
                    fccs_UnhealthyPodCount := fccs_UnhealthyPodCount (toCRDStatus cs),
                    fccs_PodIssues := fccs_PodIssues (toCRDStatus cs)\<rparr>
             else e) existing)"

definition preserveAgentOrPluginSnapshot ::
  "FlowCollectorComponentStatus option \<Rightarrow> FlowCollectorComponentStatus option \<Rightarrow> FlowCollectorComponentStatus option" where
  "preserveAgentOrPluginSnapshot cur prev =
     (case prev of
        None \<Rightarrow> cur
      | Some p \<Rightarrow>
          (case cur of
             None \<Rightarrow> Some p
           | Some c \<Rightarrow>
               if fccs_State c = status_string StatusUnknown \<and> fccs_Reason c = [] \<and> fccs_Message c = []
               then Some p else Some c))"

type_synonym crd_statuses = "FlowCollectorComponentsStatus \<times> FlowCollectorIntegrationsStatus"

text \<open>One turn of the loop over the statuses.\<close>

definition populate_one :: "crd_statuses \<Rightarrow> ComponentStatus \<Rightarrow> crd_statuses" where
  "populate_one acc cs =
     (case acc of (cmps, intg) \<Rightarrow>
        (case cs_Name cs of
           EBPFAgents \<Rightarrow> (cmps\<lparr>cmps_Agent := Some (toCRDStatus cs)\<rparr>, intg)
         | FLPParent \<Rightarrow> (cmps\<lparr>cmps_Processor := mergeProcessorStatus (cmps_Processor cmps) cs\<rparr>, intg)
         | FLPMonolith \<Rightarrow> (cmps\<lparr>cmps_Processor := mergeProcessorStatus (cmps_Processor cmps) cs\<rparr>, intg)
         | FLPTransformer \<Rightarrow> (cmps\<lparr>cmps_Processor := mergeProcessorStatus (cmps_Processor cmps) cs\<rparr>, intg)
         | FLPInformers \<Rightarrow> (cmps\<lparr>cmps_Processor := mergeProcessorStatus (cmps_Processor cmps) cs\<rparr>, intg)
         | WebConsole \<Rightarrow> (cmps\<lparr>cmps_Plugin := Some (toCRDStatus cs)\<rparr>, intg)
         | Monitoring \<Rightarrow> (cmps, intg\<lparr>intg_Monitoring := Some (toCRDStatus cs)\<rparr>)
         | LokiStack \<Rightarrow>
             (cmps, if weak (intg_Loki intg) \<or> cs_Status cs = StatusFailure \<or> cs_Status cs = StatusDegraded \<or> cs_Status cs = StatusReady
                    then intg\<lparr>intg_Loki := Some (toCRDStatus cs)\<rparr> else intg)
         | DemoLoki \<Rightarrow>
             (cmps, if weak (intg_Loki intg) \<or> cs_Status cs = StatusFailure \<or> cs_Status cs = StatusDegraded \<or> cs_Status cs = StatusReady
                    then intg\<lparr>intg_Loki := Some (toCRDStatus cs)\<rparr> else intg)
         | _ \<Rightarrow> (cmps, intg)))"

definition empty_statuses :: crd_statuses where
  "empty_statuses =
     (\<lparr>cmps_Agent = None, cmps_Processor = None, cmps_Plugin = None\<rparr>,
      \<lparr>intg_Loki = None, intg_Monitoring = None, intg_Exporters = []\<rparr>)"

definition populateComponentStatuses ::
  "ComponentName list \<Rightarrow> string list \<Rightarrow> Manager \<Rightarrow> FlowCollectorComponentsStatus option \<Rightarrow> FlowCollector \<Rightarrow> FlowCollector" where
  "populateComponentStatuses ord eord s prevComponents fc =
     (case foldl populate_one empty_statuses (range_values ord (statuses s)) of (cmps, intg) \<Rightarrow>
        (let intg = intg\<lparr>intg_Exporters := range_values eord (exporters s)\<rparr>;
             cmps = (case prevComponents of
                       None \<Rightarrow> cmps
                     | Some prev \<Rightarrow> cmps\<lparr>cmps_Agent := preserveAgentOrPluginSnapshot (cmps_Agent cmps) (cmps_Agent prev),
                                          cmps_Plugin := preserveAgentOrPluginSnapshot (cmps_Plugin cmps) (cmps_Plugin prev)\<rparr>)
         in fc\<lparr>fc_Status := (fc_Status fc)\<lparr>st_Components := Some cmps, st_Integrations := Some intg\<rparr>\<rparr>))"

section \<open>Events\<close>

record k8s_event =
  ev_type :: string
  ev_reason :: string
  ev_message :: string

definition transition_event :: "ComponentName \<Rightarrow> ComponentStatus \<Rightarrow> ComponentStatus \<Rightarrow> k8s_event list" where
  "transition_event cpnt prev current =
     (if cs_Status prev = cs_Status current then []
      else if cs_Status current = StatusFailure then
        [\<lparr>ev_type = ''Warning'', ev_reason = ''ComponentFailure'',
          ev_message = ''Component '' @ component_string cpnt @ '' entered failure state: '' @ cs_Reason current @ '' - '' @ Message current\<rparr>]
      else if cs_Status current = StatusDegraded then
        [\<lparr>ev_type = ''Warning'', ev_reason = ''ComponentDegraded'',
          ev_message = ''Component '' @ component_string cpnt @ '' degraded: '' @ cs_Reason current @ '' - '' @ Message current\<rparr>]
      else if cs_Status prev = StatusFailure \<and> (cs_Status current = StatusReady \<or> cs_Status current = StatusInProgress) then
        [\<lparr>ev_type = ''Normal'', ev_reason = ''ComponentRecovered'',
          ev_message = ''Component '' @ component_string cpnt @ '' recovered from failure''\<rparr>]
      else [])"

fun emit_range :: "ComponentName list \<Rightarrow> Manager \<Rightarrow> Manager \<times> k8s_event list" where
  "emit_range [] s = (s, [])"
| "emit_range (cpnt # ord) s =
     (case statuses s cpnt of
        None \<Rightarrow> emit_range ord s
      | Some current \<Rightarrow>
          (let evs = (case prevStatuses s cpnt of None \<Rightarrow> [] | Some prev \<Rightarrow> transition_event cpnt prev current);
               (s', evs') = emit_range ord (s\<lparr>prevStatuses := (prevStatuses s)(cpnt \<mapsto> current)\<rparr>)
           in (s', evs @ evs')))"

definition emitStateTransitionEvents :: "ComponentName list \<Rightarrow> Manager \<Rightarrow> Manager \<times> k8s_event list" where
  "emitStateTransitionEvents ord s = (if \<not> eventRecorder s then (s, []) else emit_range ord s)"

section \<open>Publishing\<close>

datatype api_error = NotFound | Conflict | OtherError string

record 'w api =
  api_Get :: "'w \<Rightarrow> api_error + FlowCollector"
  api_StatusUpdate :: "FlowCollector \<Rightarrow> 'w \<Rightarrow> api_error option \<times> 'w"
  api_Update :: "FlowCollector \<Rightarrow> 'w \<Rightarrow> api_error option \<times> 'w"

text \<open>The orders of the five \<open>Range\<close> loops of one synchronisation.\<close>

record range_orders =
  ro_conditions :: "ComponentName list"
  ro_kafka :: "string list"
  ro_components :: "ComponentName list"
  ro_exporters :: "string list"
  ro_events :: "ComponentName list"

text \<open>
  \<open>retry.RetryOnConflict\<close> of client-go: at most \<open>steps\<close> calls of the function, another
  one only after a conflict. The attempt number is passed to the function.
\<close>

fun RetryOnConflict :: "nat \<Rightarrow> nat \<Rightarrow> (nat \<Rightarrow> 'w \<Rightarrow> api_error option \<times> 'a option \<times> 'w) \<Rightarrow> 'w \<Rightarrow> api_error option \<times> 'a option \<times> 'w" where
  "RetryOnConflict 0 k fn w = (Some (OtherError ''timed out waiting for the condition''), None, w)"
| "RetryOnConflict (Suc steps) k fn w =
     (case fn k w of
        (None, r, w') \<Rightarrow> (None, r, w')
      | (Some Conflict, _, w') \<Rightarrow>
          if steps = 0 then (Some Conflict, None, w') else RetryOnConflict steps (k + 1) fn w'
      | (Some e, _, w') \<Rightarrow> (Some e, None, w'))"

definition DefaultBackoff_Steps :: nat where
  "DefaultBackoff_Steps = 4"

definition new_conditions :: "status_env \<Rightarrow> range_orders \<Rightarrow> Manager \<Rightarrow> FlowCollector \<Rightarrow> Condition list" where
  "new_conditions env ro s fc =
     getConditions (ro_conditions ro) s @ [checkValidation env fc]
     @ (case GetKafkaCondition (ro_kafka ro) s of None \<Rightarrow> [] | Some c \<Rightarrow> [c])"

text \<open>The body of the retried function between \<open>Get\<close> and \<open>Update\<close>.\<close>

definition refreshed :: "status_env \<Rightarrow> range_orders \<Rightarrow> Manager \<Rightarrow> FlowCollector \<Rightarrow> FlowCollector" where
  "refreshed env ro s fc =
     (let conditions = new_conditions env ro s fc;
          old = st_Conditions (fc_Status fc);
          old = (if GetKafkaCondition (ro_kafka ro) s = None
                    \<and> (case getStatus s FLPTransformer of None \<Rightarrow> True | Some ts \<Rightarrow> cs_Status ts \<noteq> StatusUnknown)
                 then RemoveStatusCondition old ''KafkaReady'' else old);
          cs = foldl (SetStatusCondition (se_now env)) old conditions;
          prevComponents = st_Components (fc_Status fc)
      in populateComponentStatuses (ro_components ro) (ro_exporters ro) s prevComponents
           (fc\<lparr>fc_Status := (fc_Status fc)\<lparr>st_Conditions := cs\<rparr>\<rparr>))"

definition update_attempt ::
  "status_env \<Rightarrow> 'w api \<Rightarrow> (nat \<Rightarrow> range_orders) \<Rightarrow> Manager \<Rightarrow> nat \<Rightarrow> 'w \<Rightarrow> api_error option \<times> FlowCollector option \<times> 'w" where
  "update_attempt env c ros s k w =
     (case api_Get c w of
        Inl NotFound \<Rightarrow> (None, None, w)
      | Inl e \<Rightarrow> (Some e, None, w)
      | Inr fc \<Rightarrow>
          (let fc' = refreshed env (ros k) s fc in
           case api_StatusUpdate c fc' w of
             (Some e, w') \<Rightarrow> (Some e, None, w')
           | (None, w') \<Rightarrow> (None, Some fc', w')))"

definition updateStatus ::
  "status_env \<Rightarrow> 'w api \<Rightarrow> (nat \<Rightarrow> range_orders) \<Rightarrow> Manager \<Rightarrow> 'w \<Rightarrow> Manager \<times> k8s_event list \<times> 'w" where
  "updateStatus env c ros s w =
     (case RetryOnConflict DefaultBackoff_Steps 0 (update_attempt env c ros s) w of
        (None, Some fc, w') \<Rightarrow>
          (case emitStateTransitionEvents (ro_events (ros DefaultBackoff_Steps)) s of (s', evs) \<Rightarrow> (s', evs, w'))
      | (_, _, w') \<Rightarrow> (s, [], w'))"

definition Sync :: "status_env \<Rightarrow> 'w api \<Rightarrow> (nat \<Rightarrow> range_orders) \<Rightarrow> Manager \<Rightarrow> 'w \<Rightarrow> Manager \<times> k8s_event list \<times> 'w" where
  "Sync = updateStatus"

text \<open>The loop stops at the first status that needs a requeue.\<close>

fun needs_requeue_range :: "ComponentStatus list \<Rightarrow> bool" where
  "needs_requeue_range [] = False"
| "needs_requeue_range (cs # css) =
     (if cs_Status cs = StatusInProgress \<or> ph_unhealthyCount (cs_podHealth cs) > 0 then True else needs_requeue_range css)"

definition NeedsRequeue :: "ComponentName list \<Rightarrow> Manager \<Rightarrow> bool" where
  "NeedsRequeue ord s = needs_requeue_range (range_values ord (statuses s))"

section \<open>Instances: the view of one component\<close>

text \<open>An \<open>Instance\<close> is the component's name with the shared manager; its methods take both.\<close>

definition ForComponent :: "ComponentName \<Rightarrow> Manager \<Rightarrow> Manager" where
  "ForComponent cpnt s = reset cpnt s"

definition Instance_Get :: "ComponentName \<Rightarrow> Manager \<Rightarrow> ComponentStatus" where
  "Instance_Get cpnt s = (case getStatus s cpnt of Some st \<Rightarrow> st | None \<Rightarrow> mk_status cpnt StatusUnknown [] [])"

text \<open>The parts of a Deployment and of a DaemonSet that are read; the selector is \<open>None\<close> for nil.\<close>

record DeploymentCondition =
  dc_Type :: string
  dc_Status :: ConditionStatus
  dc_Message :: string

record Deployment =
  dep_Name :: string
  dep_Namespace :: string
  dep_SpecReplicas :: "int option"
  dep_Selector :: "string_map option"
  dep_ReadyReplicas :: int
  dep_Replicas :: int
  dep_UnavailableReplicas :: int
  dep_Conditions :: "DeploymentCondition list"

record DaemonSet =
  ds_Name :: string
  ds_Namespace :: string
  ds_Selector :: "string_map option"
  ds_DesiredNumberScheduled :: int
  ds_NumberReady :: int
  ds_NumberUnavailable :: int

definition set_replicas :: "ComponentName \<Rightarrow> int \<Rightarrow> int \<Rightarrow> Manager \<Rightarrow> Manager" where
  "set_replicas cpnt desired ready s =
     (case getStatus s cpnt of
        None \<Rightarrow> s
      | Some cs \<Rightarrow> s\<lparr>statuses := (statuses s)(cpnt \<mapsto> cs\<lparr>cs_DesiredReplicas := Some desired, cs_ReadyReplicas := Some ready\<rparr>)\<rparr>)"

definition setDeploymentReplicas :: "ComponentName \<Rightarrow> Deployment \<Rightarrow> Manager \<Rightarrow> Manager" where
  "setDeploymentReplicas cpnt d = set_replicas cpnt (ptr_or (dep_SpecReplicas d) 1) (dep_ReadyReplicas d)"

definition setDaemonSetReplicas :: "ComponentName \<Rightarrow> DaemonSet \<Rightarrow> Manager \<Rightarrow> Manager" where
  "setDaemonSetReplicas cpnt ds = set_replicas cpnt (ds_DesiredNumberScheduled ds) (ds_NumberReady ds)"

definition ready_of :: "int \<Rightarrow> int \<Rightarrow> string" where
  "ready_of a b = itoa a @ ''/'' @ itoa b"

text \<open>The first \<open>Available\<close> condition decides; \<open>None\<close> when the deployment has none.\<close>

fun available_condition :: "DeploymentCondition list \<Rightarrow> DeploymentCondition option" where
  "available_condition [] = None"
| "available_condition (c # cs) = (if dc_Type c = ''Available'' then Some c else available_condition cs)"

definition CheckDeploymentProgress :: "ComponentName \<Rightarrow> Deployment option \<Rightarrow> Manager \<Rightarrow> Manager" where
  "CheckDeploymentProgress cpnt dopt s =
     (case dopt of
        None \<Rightarrow> setInProgress cpnt ''DeploymentNotCreated'' ''Deployment not created'' s
      | Some d \<Rightarrow>
          setDeploymentReplicas cpnt d
            (case available_condition (dep_Conditions d) of
               Some c \<Rightarrow>
                 if dc_Status c \<noteq> ConditionTrue then
                   setInProgress cpnt ''DeploymentNotReady''
                     (''Deployment '' @ dep_Name d @ '' not ready: '' @ ready_of (dep_ReadyReplicas d) (dep_Replicas d)
                      @ '' ('' @ dc_Message c @ '')'') s
                 else setReady cpnt s
             | None \<Rightarrow>
                 if dep_ReadyReplicas d = dep_Replicas d \<and> dep_Replicas d > 0 then setReady cpnt s
                 else setInProgress cpnt ''DeploymentNotReady''
                   (''Deployment '' @ dep_Name d @ '' not ready: '' @ ready_of (dep_ReadyReplicas d) (dep_Replicas d)
                    @ '' (missing condition)'') s))"

definition CheckDaemonSetProgress :: "ComponentName \<Rightarrow> DaemonSet option \<Rightarrow> Manager \<Rightarrow> Manager" where
  "CheckDaemonSetProgress cpnt dsopt s =
     (case dsopt of
        None \<Rightarrow> setInProgress cpnt ''DaemonSetNotCreated'' ''DaemonSet not created'' s
      | Some ds \<Rightarrow>
          setDaemonSetReplicas cpnt ds
            (if ds_DesiredNumberScheduled ds = 0 then
               setDegraded cpnt ''NoPodsScheduled''
                 (''DaemonSet '' @ ds_Name ds @ '' has no pods scheduled; check nodeSelector or node availability'') s
             else if ds_NumberReady ds < ds_DesiredNumberScheduled ds then
               setInProgress cpnt ''DaemonSetNotReady''
                 (''DaemonSet '' @ ds_Name ds @ '' not ready: '' @ ready_of (ds_NumberReady ds) (ds_DesiredNumberScheduled ds)) s
             else setReady cpnt s))"

definition setPodHealth :: "ComponentName \<Rightarrow> podHealthSummary \<Rightarrow> Manager \<Rightarrow> Manager" where
  "setPodHealth cpnt health =
     updateComponentStatus ((mk_status cpnt StatusDegraded ''UnhealthyPods'' [ph_issues health])\<lparr>cs_podHealth := health\<rparr>)"

text \<open>The pod listing of the API client, by namespace and labels, is the argument \<open>pods\<close>.\<close>

type_synonym pod_lister = "string \<Rightarrow> string_map \<Rightarrow> Pod list option"

definition CheckDeploymentHealth :: "pod_lister \<Rightarrow> ComponentName \<Rightarrow> Deployment option \<Rightarrow> Manager \<Rightarrow> Manager" where
  "CheckDeploymentHealth pods cpnt dopt s =
     (let s = CheckDeploymentProgress cpnt dopt s in
      case dopt of
        None \<Rightarrow> s
      | Some d \<Rightarrow> (case dep_Selector d of
          None \<Rightarrow> s
        | Some sel \<Rightarrow>
            if dep_ReadyReplicas d < dep_Replicas d \<or> dep_UnavailableReplicas d > 0
            then setPodHealth cpnt (checkPodHealth (pods (dep_Namespace d) sel)) s else s))"

definition CheckDaemonSetHealth :: "pod_lister \<Rightarrow> ComponentName \<Rightarrow> DaemonSet option \<Rightarrow> Manager \<Rightarrow> Manager" where
  "CheckDaemonSetHealth pods cpnt dsopt s =
     (let s = CheckDaemonSetProgress cpnt dsopt s in
      case dsopt of
        None \<Rightarrow> s
      | Some ds \<Rightarrow> (case ds_Selector ds of
          None \<Rightarrow> s
        | Some sel \<Rightarrow>
            if ds_NumberReady ds < ds_DesiredNumberScheduled ds \<or> ds_NumberUnavailable ds > 0
            then setPodHealth cpnt (checkPodHealth (pods (ds_Namespace ds) sel)) s else s))"

definition SetCreatingDeployment :: "ComponentName \<Rightarrow> Deployment \<Rightarrow> Manager \<Rightarrow> Manager" where
  "SetCreatingDeployment cpnt d = setInProgress cpnt ''CreatingDeployment'' (''Creating deployment '' @ dep_Name d)"

definition SetCreatingDaemonSet :: "ComponentName \<Rightarrow> DaemonSet \<Rightarrow> Manager \<Rightarrow> Manager" where
  "SetCreatingDaemonSet cpnt ds = setInProgress cpnt ''CreatingDaemonSet'' (''Creating daemon set '' @ ds_Name ds)"

definition SetNotReady :: "ComponentName \<Rightarrow> string \<Rightarrow> string \<Rightarrow> Manager \<Rightarrow> Manager" where
  "SetNotReady cpnt reason message = setInProgress cpnt reason message"

text \<open>\<open>Instance.Error\<close>: the error, given by its text, is recorded and handed back.\<close>

definition Instance_Error :: "ComponentName \<Rightarrow> string \<Rightarrow> string \<Rightarrow> Manager \<Rightarrow> Manager \<times> string" where
  "Instance_Error cpnt reason e s = (setFailure cpnt reason e s, e)"

section \<open>Deployed namespaces\<close>

definition AnnotationDomain :: string where
  "AnnotationDomain = ''flows.netobserv.io''"

definition annotation :: "ComponentName \<Rightarrow> string" where
  "annotation cpnt = AnnotationDomain @ ''/'' @ to_lower (component_string cpnt) @ ''-namespace''"

definition GetDeployedNamespace :: "ComponentName \<Rightarrow> FlowCollector \<Rightarrow> string" where
  "GetDeployedNamespace cpnt fc =
     (case Option.bind (fc_Annotations fc) (\<lambda>m. m (annotation cpnt)) of
        Some ns \<Rightarrow> ns
      | None \<Rightarrow> st_Namespace (fc_Status fc))"

definition with_namespace :: "ComponentName \<Rightarrow> string \<Rightarrow> FlowCollector \<Rightarrow> FlowCollector" where
  "with_namespace cpnt ns fc =
     fc\<lparr>fc_Annotations := Some ((case fc_Annotations fc of None \<Rightarrow> Map.empty | Some m \<Rightarrow> m)(annotation cpnt \<mapsto> ns))\<rparr>"

definition SetDeployedNamespace :: "'w api \<Rightarrow> ComponentName \<Rightarrow> string \<Rightarrow> 'w \<Rightarrow> api_error option \<times> 'w" where
  "SetDeployedNamespace c cpnt ns w =
     (case RetryOnConflict DefaultBackoff_Steps 0
        (\<lambda>k w. case api_Get c w of
                Inl NotFound \<Rightarrow> (None, None, w)
              | Inl e \<Rightarrow> (Some e, None, w)
              | Inr fc \<Rightarrow> (case api_Update c (with_namespace cpnt ns fc) w of
                  (e, w') \<Rightarrow> (e, Some (), w'))) w of
        (e, _, w') \<Rightarrow> (e, w'))"

end
