(* ===== verification/Status_Correct.thy ===== *)
theory Status_Correct
  imports Status_Manager
begin

text \<open>
  Correctness of the status manager: the invariant of its maps over every sequence of calls, the
  meaning of the recorded statuses (worst one since the last reset, failures kept until then), the
  conditions and component statuses it publishes, its events, and its retries.
\<close>

section \<open>Steps and reachable states\<close>

text \<open>
  The calls of the package's interface that change the manager. The label is the component that the
  call resets, if it resets one.
\<close>

inductive mgr_step :: "ComponentName option \<Rightarrow> Manager \<Rightarrow> Manager \<Rightarrow> bool" where
  step_recorder: "mgr_step None s (SetEventRecorder s)"
| step_in_progress: "mgr_step None s (setInProgress c r m s)"
| step_failure: "mgr_step None s (setFailure c r m s)"
| step_degraded: "mgr_step None s (setDegraded c r m s)"
| step_ready: "mgr_step None s (setReady c s)"
| step_unused: "mgr_step None s (setUnused c m s)"
| step_reset: "mgr_step (Some c) s (reset c s)"
| step_deployment: "mgr_step None s (CheckDeploymentHealth pods c d s)"
| step_daemonset: "mgr_step None s (CheckDaemonSetHealth pods c ds s)"
| step_deployment_progress: "mgr_step None s (CheckDeploymentProgress c d s)"
| step_daemonset_progress: "mgr_step None s (CheckDaemonSetProgress c ds s)"
| step_exporter: "mgr_step None s (SetExporterStatus n t st r m s)"
| step_clear: "mgr_step None s (ClearExporters ord s)"
| step_events: "mgr_step None s (fst (emitStateTransitionEvents ord s))"

inductive reachable :: "Manager \<Rightarrow> bool" where
  reach_new: "reachable NewManager"
| reach_step: "reachable s \<Longrightarrow> mgr_step l s s' \<Longrightarrow> reachable s'"

text \<open>Runs in which a given component is not reset.\<close>

inductive run_without_reset :: "ComponentName \<Rightarrow> Manager \<Rightarrow> Manager \<Rightarrow> bool" for c where
  run_refl: "run_without_reset c s s"
| run_step: "run_without_reset c s s' \<Longrightarrow> mgr_step l s' s'' \<Longrightarrow> l \<noteq> Some c \<Longrightarrow> run_without_reset c s s''"

section \<open>Contracts of the state changes\<close>

text \<open>
  The contract every state change other than a reset keeps: entries stay under their own name, and a
  component's failure stays.
\<close>

definition well_named :: "Manager \<Rightarrow> bool" where
  "well_named s \<longleftrightarrow>
     (\<forall>c v. statuses s c = Some v \<longrightarrow> cs_Name v = c)
     \<and> (\<forall>c v. prevStatuses s c = Some v \<longrightarrow> cs_Name v = c)
     \<and> (\<forall>n e. exporters s n = Some e \<longrightarrow> exps_Name e = n)"

locale status_update =
  fixes upd :: "Manager \<Rightarrow> Manager"
  assumes keeps_names: "well_named s \<Longrightarrow> well_named (upd s)"
    and keeps_failure: "hasFailure s c \<Longrightarrow> hasFailure (upd s) c"
    and keeps_known: "dom (statuses s) \<subseteq> dom (statuses (upd s))"

locale status_update_seq = f: status_update f + g: status_update g
  for f :: "Manager \<Rightarrow> Manager" and g :: "Manager \<Rightarrow> Manager"

sublocale status_update_seq \<subseteq> seq: status_update "\<lambda>s. g (f s)"
  by unfold_locales (rule g.keeps_names f.keeps_names g.keeps_failure f.keeps_failure
      subset_trans[OF f.keeps_known g.keeps_known] | assumption)+

context status_update_seq
begin

lemma composed: "status_update (\<lambda>s. g (f s))"
  by (rule seq.status_update_axioms)

end

lemma worse_Failure [simp]: "worse StatusFailure x = StatusFailure" "worse x StatusFailure = StatusFailure"
  by (cases x; simp add: worse_def)+

interpretation updateComponentStatus: status_update "updateComponentStatus other" for other
proof
  fix s c
  show "well_named (updateComponentStatus other s)" if "well_named s"
    using that by (auto simp: well_named_def updateComponentStatus_def getStatus_def Let_def split: option.split)
  show "hasFailure (updateComponentStatus other s) c" if "hasFailure s c"
    using that by (auto simp: hasFailure_def updateComponentStatus_def getStatus_def Let_def merge_Status split: option.splits)
  show "dom (statuses s) \<subseteq> dom (statuses (updateComponentStatus other s))"
    by (auto simp: updateComponentStatus_def Let_def)
qed

interpretation set_replicas: status_update "set_replicas c d r" for c d r
  by unfold_locales
    (auto simp: well_named_def hasFailure_def set_replicas_def getStatus_def dom_def split: option.splits if_splits)

lemma clear_exporters_get:
  "exporters (ClearExporters ord s) n = (if n \<in> set ord then None else exporters s n)"
proof -
  have "fold (\<lambda>k m. m(k := None)) ord m n = (if n \<in> set ord then None else m n)" for m :: "string \<rightharpoonup> FlowCollectorExporterStatus"
    by (induction ord arbitrary: m) auto
  then show ?thesis by (simp add: ClearExporters_def)
qed

lemma clear_exporters_statuses [simp]:
  "statuses (ClearExporters ord s) = statuses s" "prevStatuses (ClearExporters ord s) = prevStatuses s"
  by (simp_all add: ClearExporters_def)

interpretation ClearExporters: status_update "ClearExporters ord" for ord
  by unfold_locales (auto simp: well_named_def hasFailure_def clear_exporters_get split: if_splits)

interpretation SetExporterStatus: status_update "SetExporterStatus n t st r m" for n t st r m
  by unfold_locales (auto simp: well_named_def hasFailure_def SetExporterStatus_def split: if_splits)

interpretation SetEventRecorder: status_update SetEventRecorder
  by unfold_locales (auto simp: well_named_def hasFailure_def SetEventRecorder_def)

text \<open>What one turn of the event loop does, without the pairs.\<close>

definition seen :: "ComponentName \<Rightarrow> Manager \<Rightarrow> Manager" where
  "seen c s = (case statuses s c of None \<Rightarrow> s | Some cur \<Rightarrow> s\<lparr>prevStatuses := (prevStatuses s)(c \<mapsto> cur)\<rparr>)"

definition events_of :: "Manager \<Rightarrow> ComponentName \<Rightarrow> k8s_event list" where
  "events_of s c =
     (case (prevStatuses s c, statuses s c) of (Some prev, Some cur) \<Rightarrow> transition_event c prev cur | _ \<Rightarrow> [])"

lemma emit_range_Cons:
  "fst (emit_range (c # ord) s) = fst (emit_range ord (seen c s))"
  "snd (emit_range (c # ord) s) = events_of s c @ snd (emit_range ord (seen c s))"
  by (simp_all add: seen_def events_of_def split: option.split prod.split)

lemma seen_sel [simp]:
  "statuses (seen c s) = statuses s" "exporters (seen c s) = exporters s"
  "prevStatuses (seen c s) c' = (if c' = c \<and> statuses s c \<noteq> None then statuses s c else prevStatuses s c')"
  by (auto simp: seen_def split: option.split)

declare emit_range.simps(2) [simp del]
declare emit_range_Cons [simp]

lemma emit_range_statuses [simp]:
  "statuses (fst (emit_range ord s)) = statuses s" "exporters (fst (emit_range ord s)) = exporters s"
  by (induction ord arbitrary: s) auto

lemma emit_range_prev:
  "prevStatuses (fst (emit_range ord s)) c = (if c \<in> set ord \<and> statuses s c \<noteq> None then statuses s c else prevStatuses s c)"
  by (induction ord arbitrary: s) auto

interpretation emit: status_update "\<lambda>s. fst (emitStateTransitionEvents ord s)" for ord
  by unfold_locales (auto simp: well_named_def hasFailure_def emitStateTransitionEvents_def emit_range_prev split: if_splits)

text \<open>Every interface call other than a reset is a sequence of such changes.\<close>

lemma seq_update: "status_update f \<Longrightarrow> status_update g \<Longrightarrow> status_update (\<lambda>s. g (f s))"
  by (rule status_update_seq.composed) (simp add: status_update_seq_def)

lemma if_update: "status_update f \<Longrightarrow> status_update g \<Longrightarrow> status_update (\<lambda>s. if b then f s else g s)"
  by (cases b) simp_all

lemma id_update: "status_update (\<lambda>s. s)"
  by unfold_locales auto

lemmas update_facts =
  updateComponentStatus.status_update_axioms set_replicas.status_update_axioms id_update

lemma set_updates:
  "status_update (setInProgress c r m)" "status_update (setFailure c r m)" "status_update (setDegraded c r m)"
  "status_update (setReady c)" "status_update (setUnused c m)" "status_update (setPodHealth c h)"
  unfolding setInProgress_def setFailure_def setDegraded_def setReady_def setUnused_def setPodHealth_def
  by (rule updateComponentStatus.status_update_axioms)+

lemma deployment_progress_update: "status_update (CheckDeploymentProgress c dopt)"
proof (cases dopt)
  case None
  then show ?thesis
    using set_updates(1) by (simp add: CheckDeploymentProgress_def[abs_def])
next
  case (Some d)
  show ?thesis
    unfolding CheckDeploymentProgress_def[abs_def] setDeploymentReplicas_def Some option.case
    by (rule seq_update[OF _ set_replicas.status_update_axioms])
      (cases "available_condition (dep_Conditions d)"; simp add: if_update set_updates)
qed

lemma daemonset_progress_update: "status_update (CheckDaemonSetProgress c dsopt)"
proof (cases dsopt)
  case None
  then show ?thesis
    using set_updates(1) by (simp add: CheckDaemonSetProgress_def[abs_def])
next
  case (Some ds)
  show ?thesis
    unfolding CheckDaemonSetProgress_def[abs_def] setDaemonSetReplicas_def Some option.case
    by (rule seq_update[OF _ set_replicas.status_update_axioms]) (simp add: if_update set_updates)
qed

lemma deployment_health_update: "status_update (CheckDeploymentHealth pods c dopt)"
proof -
  have "status_update (\<lambda>s. case dopt of None \<Rightarrow> s | Some d \<Rightarrow> (case dep_Selector d of None \<Rightarrow> s
      | Some sel \<Rightarrow> if dep_ReadyReplicas d < dep_Replicas d \<or> dep_UnavailableReplicas d > 0
          then setPodHealth c (checkPodHealth (pods (dep_Namespace d) sel)) s else s))"
    by (cases dopt; cases "dep_Selector (the dopt)"; simp add: id_update if_update set_updates)
  from seq_update[OF deployment_progress_update this] show ?thesis
    by (simp add: CheckDeploymentHealth_def[abs_def] Let_def)
qed

lemma daemonset_health_update: "status_update (CheckDaemonSetHealth pods c dsopt)"
proof -
  have "status_update (\<lambda>s. case dsopt of None \<Rightarrow> s | Some ds \<Rightarrow> (case ds_Selector ds of None \<Rightarrow> s
      | Some sel \<Rightarrow> if ds_NumberReady ds < ds_DesiredNumberScheduled ds \<or> ds_NumberUnavailable ds > 0
          then setPodHealth c (checkPodHealth (pods (ds_Namespace ds) sel)) s else s))"
    by (cases dsopt; cases "ds_Selector (the dsopt)"; simp add: id_update if_update set_updates)
  from seq_update[OF daemonset_progress_update this] show ?thesis
    by (simp add: CheckDaemonSetHealth_def[abs_def] Let_def)
qed

lemma mgr_step_cases:
  assumes "mgr_step l s s'"
  shows "(\<exists>c. l = Some c \<and> s' = reset c s) \<or> (\<exists>f. status_update f \<and> s' = f s)"
  using assms
proof cases
  case (step_events ord)
  then show ?thesis
    using emit.status_update_axioms[of ord] by (metis (mono_tags, lifting))
qed (metis set_updates deployment_progress_update daemonset_progress_update deployment_health_update daemonset_health_update
    SetEventRecorder.status_update_axioms ClearExporters.status_update_axioms SetExporterStatus.status_update_axioms)+

section \<open>Invariant and stickiness\<close>

lemma reset_well_named: "well_named s \<Longrightarrow> well_named (reset c s)"
  by (auto simp: well_named_def reset_def)

lemma reachable_names: "reachable s \<Longrightarrow> well_named s"
proof (induction rule: reachable.induct)
  case reach_new
  show ?case by (simp add: well_named_def NewManager_def)
next
  case (reach_step s l s')
  from mgr_step_cases[OF reach_step(2)] reach_step(3) show ?case
    by (auto intro: reset_well_named status_update.keeps_names)
qed

text \<open>
  In every state the manager can reach, by any sequence of calls, each status and each previous
  status is stored under its own component name and each exporter status under its own exporter name.
\<close>

theorem reachable_well_named: "reachable s \<Longrightarrow> well_named s"
  by (rule reachable_names)

definition sample_manager :: Manager where
  "sample_manager = setFailure EBPFAgents ''r'' ''m'' (reset EBPFAgents NewManager)"

lemma sample_reachable: "reachable sample_manager"
  unfolding sample_manager_def by (meson reach_new reach_step step_failure step_reset)

theorem reachable_well_named_witness: "reachable sample_manager \<and> well_named sample_manager"
  using reachable_well_named[OF sample_reachable] sample_reachable by blast

lemma reset_other_failure: "c' \<noteq> c \<Longrightarrow> hasFailure (reset c' s) c = hasFailure s c"
  by (simp add: hasFailure_def reset_def)

text \<open>
  C3: a failure is sticky: once a component has failed, no call other than a reset of that component
  (progress, readiness, pod health, other components, exporters, events) makes the failure go away.
\<close>

theorem failure_kept_until_reset:
  "run_without_reset c s s' \<Longrightarrow> hasFailure s c \<Longrightarrow> hasFailure s' c"
proof (induction rule: run_without_reset.induct)
  case (run_step s s' l s'')
  from mgr_step_cases[OF run_step(2)] run_step show ?case
    by (metis reset_other_failure status_update.keeps_failure)
qed

lemma sample_failure: "hasFailure sample_manager EBPFAgents"
  by (simp add: sample_manager_def hasFailure_def setFailure_def updateComponentStatus_def getStatus_def reset_def merge_Status Let_def)

lemma sample_run: "run_without_reset EBPFAgents sample_manager (setReady EBPFAgents (reset WebConsole sample_manager))"
  by (rule run_step[OF run_step[OF run_refl step_reset] step_ready]) simp_all

theorem failure_kept_until_reset_witness:
  "run_without_reset EBPFAgents sample_manager (setReady EBPFAgents (reset WebConsole sample_manager))
   \<and> hasFailure sample_manager EBPFAgents
   \<and> hasFailure (setReady EBPFAgents (reset WebConsole sample_manager)) EBPFAgents"
  using failure_kept_until_reset[OF sample_run sample_failure] sample_run sample_failure by blast

section \<open>The status since the last reset\<close>

text \<open>What the specification says of a sequence of updates: the worst status, all the messages.\<close>

definition worst_status :: "Status list \<Rightarrow> Status" where
  "worst_status sts = foldl worse StatusUnknown sts"

lemma worst_status_priority:
  "worst_status sts \<in> insert StatusUnknown (set sts)
   \<and> (\<forall>st \<in> set sts. status_index (worst_status sts) \<le> status_index st)"
proof (induction sts rule: rev_induct)
  case (snoc st sts)
  then show ?case by (fastforce simp: worst_status_def worse_def)
qed (simp add: worst_status_def)

lemma update_other:
  "cs_Name other \<noteq> c \<Longrightarrow> statuses (updateComponentStatus other s) c = statuses s c"
  by (simp add: updateComponentStatus_def Let_def)

lemma update_same:
  "statuses s (cs_Name other) = Some v \<Longrightarrow> statuses (updateComponentStatus other s) (cs_Name other) = Some (merge v other)"
  by (simp add: updateComponentStatus_def getStatus_def Let_def)

lemma updates_fold:
  assumes "statuses s c = Some v" and "\<forall>u \<in> set us. cs_Name u = c \<longrightarrow> ph_unhealthyCount (cs_podHealth u) \<le> 0"
  shows "\<exists>v'. statuses (fold updateComponentStatus us s) c = Some v'
     \<and> cs_Status v' = foldl worse (cs_Status v) (map cs_Status (filter (\<lambda>u. cs_Name u = c) us))
     \<and> cs_Messages v' = cs_Messages v @ concat (map cs_Messages (filter (\<lambda>u. cs_Name u = c) us))"
  using assms
proof (induction us arbitrary: s v)
  case (Cons u us)
  show ?case
  proof (cases "cs_Name u = c")
    case False
    then have "statuses (updateComponentStatus u s) c = Some v" using Cons.prems(1) by (simp add: update_other)
    from Cons.IH[OF this] Cons.prems(2) False show ?thesis by simp
  next
    case True
    then have "statuses (updateComponentStatus u s) c = Some (merge v u)"
      using Cons.prems(1) update_same by blast
    from Cons.IH[OF this] Cons.prems(2) True show ?thesis by (simp add: merge_Status)
  qed
qed simp


definition sample_updates :: "ComponentStatus list" where
  "sample_updates =
     [mk_status FLPMonolith StatusReady [] [], mk_status WebConsole StatusFailure ''x'' [''y''],
      mk_status FLPMonolith StatusInProgress ''r'' [''wait'']]"


section \<open>Conditions\<close>

lemma range_values_set: "enumerates ord m \<Longrightarrow> set (range_values ord m) = ran m"
  by (force simp: range_values_def map_filter_def enumerates_def ran_def dom_def)

lemma range_values_map:
  "set ord \<subseteq> dom m \<Longrightarrow> range_values ord m = map (\<lambda>k. the (m k)) ord"
  by (induction ord) (auto simp: range_values_def map_filter_simps)

lemma range_values_enum: "enumerates ord m \<Longrightarrow> range_values ord m = map (\<lambda>k. the (m k)) ord"
  by (simp add: range_values_map enumerates_def)

lemma range_values_mset:
  "enumerates ord m \<Longrightarrow> enumerates ord' m \<Longrightarrow> mset (range_values ord m) = mset (range_values ord' m)"
  using enumerates_perm[of ord m ord'] by (simp add: range_values_enum)

lemma count_status_mset: "mset vs = mset vs' \<Longrightarrow> count_status st vs = count_status st vs'"
  unfolding count_status_def by (metis mset_filter size_mset)

lemma global_condition_mset: "mset vs = mset vs' \<Longrightarrow> global_condition vs = global_condition vs'"
  unfolding global_condition_def by (simp only: count_status_mset[of vs vs'])

lemma count_status_pos: "count_status st vs > 0 \<longleftrightarrow> (\<exists>v \<in> set vs. cs_Status v = st)"
  by (simp add: count_status_def filter_empty_conv)

lemma global_condition_sel:
  "cond_Status (global_condition vs) =
     (if count_status StatusFailure vs > 0 \<or> count_status StatusInProgress vs > 0 then ConditionFalse else ConditionTrue)"
  "cond_Reason (global_condition vs) =
     (if count_status StatusFailure vs > 0 then ''Failure'' else if count_status StatusInProgress vs > 0 then ''Pending''
      else if count_status StatusDegraded vs > 0 then ''Ready,Degraded'' else ''Ready'')"
  by (simp_all add: global_condition_def Let_def)

definition any_component :: "Manager \<Rightarrow> Status \<Rightarrow> bool" where
  "any_component s st \<longleftrightarrow> (\<exists>c v. statuses s c = Some v \<and> cs_Status v = st)"

lemma count_any: "enumerates ord (statuses s) \<Longrightarrow> count_status st (range_values ord (statuses s)) > 0 \<longleftrightarrow> any_component s st"
  by (auto simp: count_status_pos range_values_set any_component_def ran_def)

text \<open>
  C4: the global Ready condition. Whatever order \<open>Range\<close> takes, it is the same condition; it is true
  exactly when no component is in failure or in progress; its reason is Failure, Pending,
  Ready-Degraded or Ready after the worst kind of component there is.
\<close>

theorem ready_condition:
  assumes "enumerates ord (statuses s)" and "enumerates ord' (statuses s)"
  shows "hd (getConditions ord s) = hd (getConditions ord' s)
    \<and> mset (getConditions ord s) = mset (getConditions ord' s)
    \<and> (cond_Status (hd (getConditions ord s)) = ConditionTrue
         \<longleftrightarrow> \<not> any_component s StatusFailure \<and> \<not> any_component s StatusInProgress)
    \<and> cond_Reason (hd (getConditions ord s)) =
        (if any_component s StatusFailure then ''Failure''
         else if any_component s StatusInProgress then ''Pending''
         else if any_component s StatusDegraded then ''Ready,Degraded'' else ''Ready'')"
proof -
  note m = range_values_mset[OF assms] and n = count_any[OF assms(1)] count_any[OF assms(2)]
  have "hd (getConditions ord s) = hd (getConditions ord' s)"
    using global_condition_mset[OF m] by (simp add: getConditions_def Let_def)
  moreover have "mset (getConditions ord s) = mset (getConditions ord' s)"
    using global_condition_mset[OF m] m by (simp add: getConditions_def Let_def)
  ultimately show ?thesis by (simp add: getConditions_def Let_def global_condition_sel n)
qed

lemma sample_enum: "enumerates [EBPFAgents] (statuses sample_manager)"
  by (auto simp: enumerates_def sample_manager_def setFailure_def updateComponentStatus_def reset_def NewManager_def Let_def)

theorem ready_condition_witness:
  "enumerates [EBPFAgents] (statuses sample_manager)
   \<and> cond_Reason (hd (getConditions [EBPFAgents] sample_manager)) = ''Failure''"
proof -
  have "any_component sample_manager StatusFailure"
    using sample_failure by (auto simp: hasFailure_def any_component_def split: option.splits)
  then show ?thesis using ready_condition[OF sample_enum sample_enum] sample_enum by simp
qed

section \<open>The published conditions\<close>

lemma conditions_view_other:
  "t \<notin> cond_Type ` set cs \<Longrightarrow> condition_view (foldl (SetStatusCondition now) old cs) t = condition_view old t"
  by (induction cs arbitrary: old) (auto simp: condition_view_Set)

lemma conditions_view_in:
  "distinct (map cond_Type cs) \<Longrightarrow> c \<in> set cs \<Longrightarrow>
   condition_view (foldl (SetStatusCondition now) old cs) (cond_Type c) = Some (cond_Status c, cond_Reason c, cond_Message c)"
  by (induction cs arbitrary: old) (auto simp: conditions_view_other condition_view_Set)

lemma global_condition_Type [simp]: "cond_Type (global_condition vs) = ''Ready''"
  by (simp add: global_condition_def Let_def)

lemma checkValidation_Type [simp]: "cond_Type (checkValidation env fc) = ''ConfigurationIssue''"
  by (simp add: checkValidation_def Let_def)

lemma kafka_Type: "GetKafkaCondition eord s = Some c \<Longrightarrow> cond_Type c = ''KafkaReady''"
  by (auto simp: GetKafkaCondition_def Let_def split: if_splits option.splits Status.splits)

lemma waiting_types:
  assumes "well_named s" and "enumerates ord (statuses s)"
  shows "map cond_Type (map toCondition (range_values ord (statuses s))) = map (\<lambda>c. ''Waiting'' @ component_string c) ord"
proof -
  have "cs_Name (the (statuses s c)) = c" if "c \<in> set ord" for c
    using assms that by (auto simp: well_named_def enumerates_def)
  then show ?thesis by (simp add: range_values_enum[OF assms(2)])
qed

lemma new_conditions_distinct:
  assumes "well_named s" and "enumerates (ro_conditions ro) (statuses s)"
  shows "distinct (map cond_Type (new_conditions env ro s fc))"
proof -
  have "distinct (map (\<lambda>c. ''Waiting'' @ component_string c) (ro_conditions ro))"
    using assms(2) by (auto simp: enumerates_def distinct_map inj_on_def)
  then show ?thesis
    using waiting_types[OF assms] kafka_Type[of "ro_kafka ro" s]
    by (auto simp: new_conditions_def getConditions_def Let_def split: option.split)
qed

lemma refreshed_conditions:
  "st_Conditions (fc_Status (refreshed env ro s fc)) =
     foldl (SetStatusCondition (se_now env))
       (if GetKafkaCondition (ro_kafka ro) s = None
           \<and> (case getStatus s FLPTransformer of None \<Rightarrow> True | Some ts \<Rightarrow> cs_Status ts \<noteq> StatusUnknown)
        then RemoveStatusCondition (st_Conditions (fc_Status fc)) ''KafkaReady'' else st_Conditions (fc_Status fc))
       (new_conditions env ro s fc)"
  by (simp add: refreshed_def populateComponentStatuses_def Let_def split: prod.split)

definition view_of :: "Condition \<Rightarrow> ConditionStatus \<times> string \<times> string" where
  "view_of c = (cond_Status c, cond_Reason c, cond_Message c)"

definition published :: "status_env \<Rightarrow> range_orders \<Rightarrow> Manager \<Rightarrow> FlowCollector \<Rightarrow> Condition list" where
  "published env ro s fc = st_Conditions (fc_Status (refreshed env ro s fc))"

lemma refreshed_in:
  assumes "well_named s" and "enumerates (ro_conditions ro) (statuses s)" and "c \<in> set (new_conditions env ro s fc)"
  shows "condition_view (published env ro s fc) (cond_Type c) = Some (view_of c)"
  unfolding published_def refreshed_conditions view_of_def
  by (rule conditions_view_in[OF new_conditions_distinct[OF assms(1,2)] assms(3)])

lemma new_conditions_members:
  assumes "enumerates (ro_conditions ro) (statuses s)"
  shows "hd (getConditions (ro_conditions ro) s) \<in> set (new_conditions env ro s fc)"
    "statuses s c = Some v \<Longrightarrow> toCondition v \<in> set (new_conditions env ro s fc)"
    "checkValidation env fc \<in> set (new_conditions env ro s fc)"
    "GetKafkaCondition (ro_kafka ro) s = Some k \<Longrightarrow> k \<in> set (new_conditions env ro s fc)"
  using range_values_set[OF assms] by (auto simp: new_conditions_def getConditions_def Let_def ranI)

lemma kafka_absent:
  assumes "GetKafkaCondition (ro_kafka ro) s = None"
  shows "''KafkaReady'' \<notin> cond_Type ` set (new_conditions env ro s fc)"
  using assms by (auto simp: new_conditions_def getConditions_def Let_def)

text \<open>
  C19: what a synchronisation writes into the conditions of the resource, for every state the manager
  can reach: the global Ready condition; for every known component its own condition; the verdict of
  the webhook, true exactly when it has errors or warnings; the Kafka condition when there is one, and
  otherwise none, unless the transformer is still a placeholder, when the old one stays.
\<close>

theorem published_conditions:
  assumes "reachable s" and "enumerates (ro_conditions ro) (statuses s)"
  shows "condition_view (published env ro s fc) ''Ready'' = Some (view_of (hd (getConditions (ro_conditions ro) s)))
    \<and> (\<forall>c v. statuses s c = Some v \<longrightarrow> condition_view (published env ro s fc) (''Waiting'' @ component_string c) = Some (view_of (toCondition v)))
    \<and> (\<exists>b r m. condition_view (published env ro s fc) ''ConfigurationIssue'' = Some (b, r, m)
         \<and> (b = ConditionTrue \<longleftrightarrow> v_errors (Validate (se_venv env) (fc_Spec fc)) \<noteq> [] \<or> v_warnings (Validate (se_venv env) (fc_Spec fc)) \<noteq> []))
    \<and> condition_view (published env ro s fc) ''KafkaReady'' =
        (case GetKafkaCondition (ro_kafka ro) s of
           Some k \<Rightarrow> Some (view_of k)
         | None \<Rightarrow> if map_option cs_Status (statuses s FLPTransformer) = Some StatusUnknown
                   then condition_view (st_Conditions (fc_Status fc)) ''KafkaReady'' else None)"
proof -
  note names = reachable_names[OF assms(1)]
  note in_cs = refreshed_in[OF names assms(2), of _ env fc] and mem = new_conditions_members[OF assms(2), where env = env and fc = fc]
  have "condition_view (published env ro s fc) ''Ready'' = Some (view_of (hd (getConditions (ro_conditions ro) s)))"
    using in_cs[OF mem(1)] by (simp add: getConditions_def Let_def)
  moreover have "condition_view (published env ro s fc) (''Waiting'' @ component_string c) = Some (view_of (toCondition v))" if "statuses s c = Some v" for c v
    using in_cs[OF mem(2)[OF that]] names that by (simp add: well_named_def)
  moreover have "condition_view (published env ro s fc) ''ConfigurationIssue'' = Some (view_of (checkValidation env fc))"
    using in_cs[OF mem(3)] by simp
  moreover have "cond_Status (checkValidation env fc) = ConditionTrue \<longleftrightarrow>
      v_errors (Validate (se_venv env) (fc_Spec fc)) \<noteq> [] \<or> v_warnings (Validate (se_venv env) (fc_Spec fc)) \<noteq> []"
    by (simp add: checkValidation_def Let_def)
  moreover have "condition_view (published env ro s fc) ''KafkaReady'' = Some (view_of k)" if "GetKafkaCondition (ro_kafka ro) s = Some k" for k
    using in_cs[OF mem(4)[OF that]] kafka_Type[OF that] by simp
  moreover have "condition_view (published env ro s fc) ''KafkaReady'' =
      (if map_option cs_Status (statuses s FLPTransformer) = Some StatusUnknown
       then condition_view (st_Conditions (fc_Status fc)) ''KafkaReady'' else None)"
    if "GetKafkaCondition (ro_kafka ro) s = None"
    unfolding published_def refreshed_conditions conditions_view_other[OF kafka_absent[OF that]]
    using that by (auto simp: getStatus_def condition_view_Remove split: option.split)
  ultimately show ?thesis by (auto simp: view_of_def split: option.split)
qed

definition sample_orders :: range_orders where
  "sample_orders = \<lparr>ro_conditions = [EBPFAgents], ro_kafka = [], ro_components = [EBPFAgents], ro_exporters = [], ro_events = [EBPFAgents]\<rparr>"

lemma sample_orders_enum: "enumerates (ro_conditions sample_orders) (statuses sample_manager)"
  using sample_enum by (simp add: sample_orders_def)

theorem published_conditions_witness:
  "reachable sample_manager \<and> enumerates (ro_conditions sample_orders) (statuses sample_manager)
   \<and> (\<forall>env fc. condition_view (published env sample_orders sample_manager fc) ''KafkaReady'' = None)"
proof -
  have "GetKafkaCondition (ro_kafka sample_orders) sample_manager = None" "statuses sample_manager FLPTransformer = None"
    by (simp_all add: sample_orders_def sample_manager_def setFailure_def updateComponentStatus_def reset_def NewManager_def
        GetKafkaCondition_def getStatus_def transformer_issues_def agent_issues_def merge_podHealth exporter_issues_def
        range_values_def map_filter_simps Let_def split: option.split)
  then show ?thesis
    using published_conditions[OF sample_reachable sample_orders_enum] sample_reachable sample_orders_enum by simp
qed

section \<open>Retries\<close>

lemma retry_conflicts:
  assumes "k < n" and "\<forall>i < k. \<exists>r. fn (j + i) (ws i) = (Some Conflict, r, ws (Suc i))"
    and "fn (j + k) (ws k) = (None, res, w')"
  shows "RetryOnConflict n j fn (ws 0) = (None, res, w')"
  using assms
proof (induction k arbitrary: n j ws)
  case 0
  then show ?case by (cases n) simp_all
next
  case (Suc k)
  then obtain m where n: "n = Suc m" "k < m" by (cases n) auto
  obtain r where first: "fn j (ws 0) = (Some Conflict, r, ws 1)" using Suc.prems(2) by force
  have "RetryOnConflict m (j + 1) fn (ws (Suc 0)) = (None, res, w')"
    by (rule Suc.IH[of m "j + 1" "\<lambda>i. ws (Suc i)"]) (use n Suc.prems in auto)
  with first n show ?case by auto
qed

text \<open>
  C20: publishing terminates after at most four attempts and succeeds whenever one of them is not met by
  a conflict: if the first \<open>k < 4\<close> updates are refused with a conflict and the next one goes through,
  then the status is published, computed from the resource as read for that last attempt, and the
  transition events are emitted.
\<close>

theorem updateStatus_retries:
  assumes "k < 4"
    and "\<forall>i < k. \<exists>fc. api_Get c (ws i) = Inr fc \<and> api_StatusUpdate c (refreshed env (ros i) s fc) (ws i) = (Some Conflict, ws (Suc i))"
    and "api_Get c (ws k) = Inr fc" and "api_StatusUpdate c (refreshed env (ros k) s fc) (ws k) = (None, w')"
  shows "updateStatus env c ros s (ws 0) =
     (fst (emitStateTransitionEvents (ro_events (ros 4)) s), snd (emitStateTransitionEvents (ro_events (ros 4)) s), w')"
proof -
  have "RetryOnConflict 4 0 (update_attempt env c ros s) (ws 0) = (None, Some (refreshed env (ros k) s fc), w')"
    by (rule retry_conflicts[OF assms(1)]) (use assms in \<open>fastforce simp: update_attempt_def Let_def\<close>)+
  then show ?thesis by (simp add: updateStatus_def DefaultBackoff_Steps_def split: prod.split)
qed

text \<open>An API server whose world counts the updates still to be refused and stores the resource.\<close>

definition sample_api :: "(nat \<times> FlowCollector) api" where
  "sample_api = \<lparr>api_Get = (\<lambda>(n, fc). Inr fc),
     api_StatusUpdate = (\<lambda>fc' (n, fc). if n > 0 then (Some Conflict, (n - 1, fc)) else (None, (0, fc'))),
     api_Update = (\<lambda>fc' (n, fc). (None, (n, fc')))\<rparr>"

theorem updateStatus_retries_witness:
  "\<forall>env fc. updateStatus env sample_api (\<lambda>_. sample_orders) sample_manager (2, fc) =
     (sample_manager, [], (0, refreshed env sample_orders sample_manager fc))"
proof (intro allI)
  fix env fc
  show "updateStatus env sample_api (\<lambda>_. sample_orders) sample_manager (2, fc) =
     (sample_manager, [], (0, refreshed env sample_orders sample_manager fc))"
    using updateStatus_retries[of 2 sample_api "\<lambda>i. (2 - i, fc)" env "\<lambda>_. sample_orders" sample_manager fc
        "(0, refreshed env sample_orders sample_manager fc)"]
    by (simp add: sample_api_def emitStateTransitionEvents_def sample_manager_def setFailure_def
        updateComponentStatus_def reset_def NewManager_def Let_def numeral_2_eq_2 less_Suc_eq)
qed

section \<open>Events\<close>

lemma emit_range_events:
  "distinct ord \<Longrightarrow> snd (emit_range ord s) = concat (map (events_of s) ord)"
proof (induction ord arbitrary: s)
  case (Cons c ord)
  then have same: "map (events_of (seen c s)) ord = map (events_of s) ord"
    by (auto simp: events_of_def)
  from Cons show ?case by (simp add: same)
qed simp

text \<open>
  A synchronisation emits exactly the events of the components whose status changed since the last
  one that emitted (the same multiset of events in whatever order \<open>Range\<close> visits them), and a second
  synchronisation with no status change in between emits none.
\<close>

theorem events_only_on_transition:
  assumes "enumerates ord (statuses s)" and "enumerates ord' (statuses s)" and "eventRecorder s"
  shows "snd (emitStateTransitionEvents ord s) = concat (map (events_of s) ord)
    \<and> mset (snd (emitStateTransitionEvents ord s)) = mset (snd (emitStateTransitionEvents ord' s))
    \<and> snd (emitStateTransitionEvents ord' (fst (emitStateTransitionEvents ord s))) = []"
proof -
  have d: "distinct ord" "distinct ord'" using assms by (simp_all add: enumerates_def)
  have "mset (map (events_of s) ord) = mset (map (events_of s) ord')"
    using enumerates_perm[OF assms(1,2)] by simp
  then have "mset (concat (map (events_of s) ord)) = mset (concat (map (events_of s) ord'))"
    by (metis mset_concat mset_map sum_mset_sum_list)
  moreover have "events_of (fst (emit_range ord s)) c = []" for c
    using assms(1) by (auto simp: events_of_def emit_range_prev enumerates_def transition_event_def split: option.split)
  ultimately show ?thesis
    using assms(3) by (simp add: emitStateTransitionEvents_def emit_range_events d)
qed

lemma sample_recorder: "enumerates [EBPFAgents] (statuses (SetEventRecorder sample_manager))" "eventRecorder (SetEventRecorder sample_manager)"
  using sample_enum by (simp_all add: SetEventRecorder_def)

theorem events_only_on_transition_witness:
  "eventRecorder (SetEventRecorder sample_manager)
   \<and> snd (emitStateTransitionEvents [EBPFAgents] (fst (emitStateTransitionEvents [EBPFAgents] (SetEventRecorder sample_manager)))) = []"
  using events_only_on_transition[OF sample_recorder(1) sample_recorder(1) sample_recorder(2)] sample_recorder by blast

section \<open>The processor status\<close>

definition flp_component :: "ComponentName \<Rightarrow> bool" where
  "flp_component c \<longleftrightarrow> c \<in> {FLPParent, FLPMonolith, FLPTransformer, FLPInformers}"

definition sub_reconciler :: "ComponentName \<Rightarrow> bool" where
  "sub_reconciler c \<longleftrightarrow> c \<in> {FLPMonolith, FLPTransformer, FLPInformers}"

definition troubled :: "Status \<Rightarrow> bool" where
  "troubled st \<longleftrightarrow> st \<in> {StatusFailure, StatusInProgress, StatusDegraded}"

lemma populate_processor:
  "cmps_Processor (fst (foldl populate_one acc vs)) =
     foldl mergeProcessorStatus (cmps_Processor (fst acc)) (filter (\<lambda>v. flp_component (cs_Name v)) vs)"
proof (induction vs arbitrary: acc)
  case (Cons v vs)
  have "cmps_Processor (fst (populate_one acc v)) =
      (if flp_component (cs_Name v) then mergeProcessorStatus (cmps_Processor (fst acc)) v else cmps_Processor (fst acc))"
    by (cases acc; cases "cs_Name v") (simp_all add: populate_one_def flp_component_def)
  with Cons show ?case by simp
qed simp

lemma processor_status:
  "map_option cmps_Processor (st_Components (fc_Status (populateComponentStatuses ord eord s prev fc))) =
     Some (foldl mergeProcessorStatus None (filter (\<lambda>v. flp_component (cs_Name v)) (range_values ord (statuses s))))"
  using populate_processor[of empty_statuses "range_values ord (statuses s)"]
  by (cases "foldl populate_one empty_statuses (range_values ord (statuses s))")
    (simp add: populateComponentStatuses_def empty_statuses_def Let_def split: option.split)

text \<open>The states that a troubled sub-reconciler among \<open>vs\<close> would publish.\<close>

definition trouble_states :: "ComponentStatus list \<Rightarrow> string set" where
  "trouble_states vs = {status_string (cs_Status v) | v. v \<in> set vs \<and> sub_reconciler (cs_Name v) \<and> troubled (cs_Status v)}"

lemma merge_keeps_trouble:
  assumes "\<exists>e. p = Some e \<and> fccs_State e \<in> T" and "T \<subseteq> status_string ` {st. troubled st}"
    and "sub_reconciler (cs_Name v) \<and> troubled (cs_Status v) \<longrightarrow> status_string (cs_Status v) \<in> T"
    and "flp_component (cs_Name v)"
  shows "\<exists>e. mergeProcessorStatus p v = Some e \<and> fccs_State e \<in> T"
proof -
  obtain e st where e: "p = Some e" "fccs_State e = status_string st" "troubled st" "fccs_State e \<in> T" using assms by blast
  then have "\<not> weak p" "fccs_State e \<noteq> status_string StatusReady" by (auto simp: weak_def troubled_def)
  then show ?thesis using e assms(3,4)
    by (cases "cs_Name v"; cases "cs_Status v")
      (auto simp: mergeProcessorStatus_def sub_reconciler_def troubled_def flp_component_def)
qed

lemma merge_starts_trouble:
  "sub_reconciler (cs_Name v) \<Longrightarrow> troubled (cs_Status v) \<Longrightarrow> mergeProcessorStatus p v = Some (toCRDStatus v)"
  by (auto simp: mergeProcessorStatus_def sub_reconciler_def troubled_def)

lemma trouble_fold:
  assumes "\<forall>v \<in> set vs. flp_component (cs_Name v)" and "T \<subseteq> status_string ` {st. troubled st}"
    and "\<forall>v \<in> set vs. sub_reconciler (cs_Name v) \<and> troubled (cs_Status v) \<longrightarrow> status_string (cs_Status v) \<in> T"
    and "(\<exists>e. p = Some e \<and> fccs_State e \<in> T) \<or> (\<exists>v \<in> set vs. sub_reconciler (cs_Name v) \<and> troubled (cs_Status v))"
  shows "\<exists>e. foldl mergeProcessorStatus p vs = Some e \<and> fccs_State e \<in> T"
  using assms
proof (induction vs arbitrary: p)
  case (Cons v vs)
  have "(\<exists>e. mergeProcessorStatus p v = Some e \<and> fccs_State e \<in> T)
      \<or> (\<exists>v \<in> set vs. sub_reconciler (cs_Name v) \<and> troubled (cs_Status v))"
  proof (cases "\<exists>e. p = Some e \<and> fccs_State e \<in> T")
    case True
    then show ?thesis using merge_keeps_trouble[OF True Cons.prems(2)] Cons.prems by auto
  next
    case False
    then show ?thesis using Cons.prems merge_starts_trouble[of v p] by (auto simp: toCRDStatus_def)
  qed
  with Cons show ?case by simp
qed auto

text \<open>
  C21: a troubled sub-reconciler is never hidden. When the monolith, the transformer or the informers
  are in failure, in progress or degraded, the published processor status is in the state of one of
  the troubled ones, whatever the parent and the healthy ones say and in whatever order they are visited.
\<close>

theorem processor_trouble_published:
  assumes "enumerates ord (statuses s)" and "well_named s"
    and "statuses s c = Some v" and "sub_reconciler c" and "troubled (cs_Status v)"
  shows "\<exists>cmps e. st_Components (fc_Status (populateComponentStatuses ord eord s prev fc)) = Some cmps
     \<and> cmps_Processor cmps = Some e \<and> fccs_State e \<in> trouble_states (range_values ord (statuses s))"
proof -
  let ?vs = "filter (\<lambda>v. flp_component (cs_Name v)) (range_values ord (statuses s))"
  have v: "v \<in> set (range_values ord (statuses s))" "cs_Name v = c"
    using assms range_values_set[OF assms(1)] by (auto simp: ranI well_named_def)
  have "\<exists>e. foldl mergeProcessorStatus None ?vs = Some e \<and> fccs_State e \<in> trouble_states (range_values ord (statuses s))"
  proof (rule trouble_fold)
    show "trouble_states (range_values ord (statuses s)) \<subseteq> status_string ` {st. troubled st}"
      by (auto simp: trouble_states_def)
    show "(\<exists>e. None = Some e \<and> fccs_State e \<in> trouble_states (range_values ord (statuses s)))
        \<or> (\<exists>v \<in> set ?vs. sub_reconciler (cs_Name v) \<and> troubled (cs_Status v))"
      using v assms(4,5) by (auto simp: flp_component_def sub_reconciler_def)
  qed (auto simp: trouble_states_def)
  then show ?thesis using processor_status[of ord eord s prev fc] by auto
qed

definition two_components :: "ComponentStatus \<Rightarrow> ComponentStatus \<Rightarrow> Manager" where
  "two_components a b = NewManager\<lparr>statuses := [cs_Name a \<mapsto> a, cs_Name b \<mapsto> b]\<rparr>"

definition parent_failed :: Manager where
  "parent_failed = two_components (mk_status FLPParent StatusFailure ''e'' [''m'']) (mk_status FLPMonolith StatusReady [] [])"

definition monolith_pending :: Manager where
  "monolith_pending = two_components (mk_status FLPParent StatusReady [] []) (mk_status FLPMonolith StatusInProgress ''e'' [''m''])"

lemma two_components_enum:
  "cs_Name a \<noteq> cs_Name b \<Longrightarrow> enumerates [cs_Name a, cs_Name b] (statuses (two_components a b))"
  "cs_Name a \<noteq> cs_Name b \<Longrightarrow> enumerates [cs_Name b, cs_Name a] (statuses (two_components a b))"
  by (auto simp: enumerates_def two_components_def split: if_splits)

lemma monolith_pending_facts:
  "enumerates [FLPParent, FLPMonolith] (statuses monolith_pending)" "well_named monolith_pending"
  "statuses monolith_pending FLPMonolith = Some (mk_status FLPMonolith StatusInProgress ''e'' [''m''])"
  using two_components_enum(1)[of "mk_status FLPParent StatusReady [] []" "mk_status FLPMonolith StatusInProgress ''e'' [''m'']"]
  by (auto simp: monolith_pending_def two_components_def well_named_def NewManager_def split: if_splits)

theorem processor_trouble_published_witness:
  "enumerates [FLPParent, FLPMonolith] (statuses monolith_pending) \<and> well_named monolith_pending
   \<and> (\<forall>fc. \<exists>cmps e. st_Components (fc_Status (populateComponentStatuses [FLPParent, FLPMonolith] [] monolith_pending None fc)) = Some cmps
        \<and> cmps_Processor cmps = Some e
        \<and> fccs_State e \<in> trouble_states (range_values [FLPParent, FLPMonolith] (statuses monolith_pending)))"
  using processor_trouble_published[OF monolith_pending_facts] monolith_pending_facts
  by (simp add: sub_reconciler_def troubled_def)

text \<open>
  The parent's status is not ranked below an active sub-reconciler's: with the parent in failure and
  the monolith ready, the published processor state is Failure or Ready, by the order in which
  \<open>Range\<close> happens to visit the two. (The comment of \<open>mergeProcessorStatus\<close> says that active
  sub-reconcilers take priority over the parent.)
\<close>

theorem processor_status_depends_on_order:
  "enumerates [FLPParent, FLPMonolith] (statuses parent_failed) \<and> enumerates [FLPMonolith, FLPParent] (statuses parent_failed)
   \<and> map_option (\<lambda>c. map_option fccs_State (cmps_Processor c))
       (st_Components (fc_Status (populateComponentStatuses [FLPParent, FLPMonolith] eord parent_failed prev fc))) = Some (Some ''Failure'')
   \<and> map_option (\<lambda>c. map_option fccs_State (cmps_Processor c))
       (st_Components (fc_Status (populateComponentStatuses [FLPMonolith, FLPParent] eord parent_failed prev fc))) = Some (Some ''Ready'')"
proof -
  have state: "map_option (\<lambda>c. map_option fccs_State (cmps_Processor c)) x = map_option (map_option fccs_State) (map_option cmps_Processor x)" for x
    by (simp add: option.map_comp comp_def)
  have vals: "range_values [FLPParent, FLPMonolith] (statuses parent_failed) =
        [mk_status FLPParent StatusFailure ''e'' [''m''], mk_status FLPMonolith StatusReady [] []]"
      "range_values [FLPMonolith, FLPParent] (statuses parent_failed) =
        [mk_status FLPMonolith StatusReady [] [], mk_status FLPParent StatusFailure ''e'' [''m'']]"
    by (simp_all add: range_values_def map_filter_simps parent_failed_def two_components_def)
  show ?thesis
    unfolding state processor_status vals
    using two_components_enum[of "mk_status FLPParent StatusFailure ''e'' [''m'']" "mk_status FLPMonolith StatusReady [] []"]
    by (simp add: parent_failed_def flp_component_def mergeProcessorStatus_def weak_def)
qed

section \<open>Agent and plugin snapshots\<close>

lemma populate_one_agent_plugin:
  "cmps_Agent (fst (populate_one acc v)) = (if cs_Name v = EBPFAgents then Some (toCRDStatus v) else cmps_Agent (fst acc))"
  "cmps_Plugin (fst (populate_one acc v)) = (if cs_Name v = WebConsole then Some (toCRDStatus v) else cmps_Plugin (fst acc))"
  by (cases acc; cases "cs_Name v"; simp add: populate_one_def)+

lemma populate_agent_plugin:
  "cmps_Agent (fst (foldl populate_one acc vs)) =
     (case find (\<lambda>v. cs_Name v = EBPFAgents) (rev vs) of Some v \<Rightarrow> Some (toCRDStatus v) | None \<Rightarrow> cmps_Agent (fst acc))"
  "cmps_Plugin (fst (foldl populate_one acc vs)) =
     (case find (\<lambda>v. cs_Name v = WebConsole) (rev vs) of Some v \<Rightarrow> Some (toCRDStatus v) | None \<Rightarrow> cmps_Plugin (fst acc))"
  by (induction vs rule: rev_induct) (simp_all add: populate_one_agent_plugin)

lemma find_component:
  assumes "enumerates ord (statuses s)" and "well_named s"
  shows "find (\<lambda>v. cs_Name v = c) (rev (range_values ord (statuses s))) = statuses s c"
proof (cases "statuses s c")
  case None
  then have "\<forall>v \<in> ran (statuses s). cs_Name v \<noteq> c" using assms(2) by (auto simp: ran_def well_named_def)
  then show ?thesis using None range_values_set[OF assms(1)] by (simp add: find_None_iff)
next
  case (Some v)
  then have "v \<in> set (rev (range_values ord (statuses s)))" "cs_Name v = c"
    using range_values_set[OF assms(1)] assms(2) by (auto simp: ranI well_named_def)
  then obtain u where u: "find (\<lambda>v. cs_Name v = c) (rev (range_values ord (statuses s))) = Some u"
    by (cases "find (\<lambda>v. cs_Name v = c) (rev (range_values ord (statuses s)))") (auto simp: find_None_iff)
  then obtain i where i: "i < length (rev (range_values ord (statuses s)))" "u = rev (range_values ord (statuses s)) ! i" "cs_Name u = c"
    unfolding find_Some_iff by blast
  have "u \<in> ran (statuses s)" using nth_mem[OF i(1)] i(2) range_values_set[OF assms(1)] by simp
  then have "u = v" using i(3) Some assms(2) by (auto simp: ran_def well_named_def)
  with u Some show ?thesis by simp
qed

text \<open>A status that \<open>ForComponent\<close> has put in place and nobody has set yet, or none at all.\<close>

definition not_reported :: "ComponentStatus option \<Rightarrow> bool" where
  "not_reported st = (case st of None \<Rightarrow> True | Some v \<Rightarrow> cs_Status v = StatusUnknown \<and> cs_Reason v = [] \<and> Message v = [])"

definition snapshot_spec :: "ComponentStatus option \<Rightarrow> FlowCollectorComponentStatus option \<Rightarrow> FlowCollectorComponentStatus option" where
  "snapshot_spec cur prev = (if not_reported cur \<and> prev \<noteq> None then prev else map_option toCRDStatus cur)"

lemma snapshot_eq: "preserveAgentOrPluginSnapshot (map_option toCRDStatus cur) prev = snapshot_spec cur prev"
proof -
  have "status_string st = ''Unknown'' \<longleftrightarrow> st = StatusUnknown" for st by (cases st) simp_all
  then show ?thesis
    by (cases cur; cases prev) (simp_all add: preserveAgentOrPluginSnapshot_def snapshot_spec_def not_reported_def)
qed

text \<open>
  The published agent and plugin statuses. While the owning controller has not reported (no entry,
  or the placeholder of a reset), the status published before stays, if there was one; as soon as it
  has, its status is published. Neither depends on the order of \<open>Range\<close>.
\<close>

theorem agent_plugin_snapshot:
  assumes "enumerates ord (statuses s)" and "well_named s"
  shows "\<exists>cmps. st_Components (fc_Status (populateComponentStatuses ord eord s (Some prev) fc)) = Some cmps
     \<and> cmps_Agent cmps = snapshot_spec (statuses s EBPFAgents) (cmps_Agent prev)
     \<and> cmps_Plugin cmps = snapshot_spec (statuses s WebConsole) (cmps_Plugin prev)"
proof -
  have "cmps_Agent (fst (foldl populate_one empty_statuses (range_values ord (statuses s)))) = map_option toCRDStatus (statuses s EBPFAgents)"
    "cmps_Plugin (fst (foldl populate_one empty_statuses (range_values ord (statuses s)))) = map_option toCRDStatus (statuses s WebConsole)"
    by (simp_all add: populate_agent_plugin find_component[OF assms] empty_statuses_def split: option.split)
  then show ?thesis
    by (auto simp: populateComponentStatuses_def Let_def snapshot_eq split: prod.split)
qed

theorem agent_plugin_snapshot_witness:
  "enumerates [EBPFAgents] (statuses sample_manager) \<and> well_named sample_manager
   \<and> (\<forall>p fc. \<exists>cmps. st_Components (fc_Status (populateComponentStatuses [EBPFAgents] [] sample_manager (Some p) fc)) = Some cmps
        \<and> cmps_Plugin cmps = snapshot_spec None (cmps_Plugin p))"
proof -
  have "statuses sample_manager WebConsole = None"
    by (simp add: sample_manager_def setFailure_def updateComponentStatus_def reset_def NewManager_def Let_def)
  then show ?thesis
    using agent_plugin_snapshot[OF sample_enum reachable_names[OF sample_reachable], of "[]"] sample_enum
      reachable_names[OF sample_reachable] by fastforce
qed

section \<open>Requeueing\<close>

lemma needs_requeue_range_iff:
  "needs_requeue_range vs \<longleftrightarrow> (\<exists>v \<in> set vs. cs_Status v = StatusInProgress \<or> ph_unhealthyCount (cs_podHealth v) > 0)"
  by (induction vs) auto

text \<open>
  The controllers requeue exactly when some component is in progress or has unhealthy pods, though
  the loop stops at the first one it meets and in whatever order it runs. In particular, whenever the
  global condition says Pending, there is a requeue.
\<close>

theorem requeue_iff:
  assumes "enumerates ord (statuses s)"
  shows "(NeedsRequeue ord s \<longleftrightarrow>
      (\<exists>c v. statuses s c = Some v \<and> (cs_Status v = StatusInProgress \<or> ph_unhealthyCount (cs_podHealth v) > 0)))
    \<and> (cond_Reason (hd (getConditions ord s)) = ''Pending'' \<longrightarrow> NeedsRequeue ord s)"
proof -
  have iff: "NeedsRequeue ord s \<longleftrightarrow>
      (\<exists>c v. statuses s c = Some v \<and> (cs_Status v = StatusInProgress \<or> ph_unhealthyCount (cs_podHealth v) > 0))"
    unfolding NeedsRequeue_def needs_requeue_range_iff range_values_set[OF assms] by (auto simp: ran_def)
  have "any_component s StatusInProgress" if "cond_Reason (hd (getConditions ord s)) = ''Pending''"
    using that count_any[OF assms, of StatusInProgress]
    by (auto simp: getConditions_def Let_def global_condition_sel split: if_splits)
  then show ?thesis unfolding iff any_component_def by blast
qed

theorem requeue_iff_witness:
  "enumerates [FLPParent, FLPMonolith] (statuses monolith_pending)
   \<and> cond_Reason (hd (getConditions [FLPParent, FLPMonolith] monolith_pending)) = ''Pending''
   \<and> NeedsRequeue [FLPParent, FLPMonolith] monolith_pending"
proof -
  have vals: "range_values [FLPParent, FLPMonolith] (statuses monolith_pending) =
      [mk_status FLPParent StatusReady [] [], mk_status FLPMonolith StatusInProgress ''e'' [''m'']]"
    by (simp add: range_values_def map_filter_simps monolith_pending_def two_components_def)
  then have "cond_Reason (hd (getConditions [FLPParent, FLPMonolith] monolith_pending)) = ''Pending''"
    by (simp add: getConditions_def Let_def global_condition_sel count_status_def)
  then show ?thesis using requeue_iff[OF monolith_pending_facts(1)] monolith_pending_facts(1) by blast
qed

section \<open>Pod health\<close>

text \<open>
  Pod health reported for a rolling workload. When the workload is in progress and unhealthy pods are
  found, the component becomes Degraded with their summary; when none are found it stays in progress
  with its reason. A failed component stays failed in both cases.
\<close>

theorem pod_health_effect:
  assumes "getStatus s c = Some v" and "cs_Name v = c"
  shows "\<exists>v'. getStatus (setPodHealth c h s) c = Some v'
     \<and> (cs_Status v = StatusInProgress \<longrightarrow>
          (if ph_unhealthyCount h > 0 then cs_Status v' = StatusDegraded \<and> cs_Reason v' = ''UnhealthyPods'' \<and> cs_podHealth v' = h
           else cs_Status v' = StatusInProgress \<and> cs_Reason v' = cs_Reason v \<and> cs_podHealth v' = cs_podHealth v))
     \<and> (cs_Status v = StatusFailure \<longrightarrow> cs_Status v' = StatusFailure \<and> cs_Reason v' = cs_Reason v)"
proof -
  let ?o = "(mk_status c StatusDegraded ''UnhealthyPods'' [ph_issues h])\<lparr>cs_podHealth := h\<rparr>"
  have "getStatus (setPodHealth c h s) c = Some (merge v ?o)"
    using assms by (simp add: setPodHealth_def updateComponentStatus_def getStatus_def Let_def)
  moreover have "cs_Status v = StatusInProgress \<longrightarrow>
      (if ph_unhealthyCount h > 0 then cs_Status (merge v ?o) = StatusDegraded \<and> cs_Reason (merge v ?o) = ''UnhealthyPods'' \<and> cs_podHealth (merge v ?o) = h
       else cs_Status (merge v ?o) = StatusInProgress \<and> cs_Reason (merge v ?o) = cs_Reason v \<and> cs_podHealth (merge v ?o) = cs_podHealth v)"
    by (simp add: merge_def Let_def mk_status_def)
  moreover have "cs_Status v = StatusFailure \<longrightarrow> cs_Status (merge v ?o) = StatusFailure \<and> cs_Reason (merge v ?o) = cs_Reason v"
    by (simp add: merge_def Let_def mk_status_def)
  ultimately show ?thesis by blast
qed

theorem pod_health_effect_witness:
  "\<exists>v'. getStatus (setPodHealth EBPFAgents \<lparr>ph_unhealthyCount = 1, ph_issues = ''x''\<rparr> (setInProgress EBPFAgents ''r'' ''m'' NewManager)) EBPFAgents
     = Some v' \<and> cs_Status v' = StatusDegraded"
  using pod_health_effect[of "setInProgress EBPFAgents ''r'' ''m'' NewManager" EBPFAgents
      "mk_status EBPFAgents StatusInProgress ''r'' [''m'']" "\<lparr>ph_unhealthyCount = 1, ph_issues = ''x''\<rparr>"]
  by (auto simp: setInProgress_def updateComponentStatus_def getStatus_def NewManager_def)

definition unavailable_daemonset :: DaemonSet where
  "unavailable_daemonset = \<lparr>ds_Name = ''netobserv-ebpf-agent'', ds_Namespace = ''ns'', ds_Selector = Some Map.empty,
     ds_DesiredNumberScheduled = 2, ds_NumberReady = 2, ds_NumberUnavailable = 1\<rparr>"

text \<open>
  A component can be published as degraded for unhealthy pods while no pod is unhealthy. A daemon set
  whose pods are all ready but not yet all available (or whose pods cannot be listed) goes from Ready
  to Degraded with reason UnhealthyPods, an unhealthy pod count of zero and no issue text.
\<close>

theorem degraded_without_unhealthy_pods:
  "map_option (\<lambda>v. (cs_Status v, cs_Reason v, ph_unhealthyCount (cs_podHealth v), cs_Messages v))
     (getStatus (CheckDaemonSetHealth (\<lambda>ns sel. Some []) EBPFAgents (Some unavailable_daemonset) (ForComponent EBPFAgents s)) EBPFAgents)
     = Some (StatusDegraded, ''UnhealthyPods'', 0, [[]])
   \<and> map_option (\<lambda>v. (cs_Status v, cs_Reason v, ph_unhealthyCount (cs_podHealth v), cs_Messages v))
     (getStatus (CheckDaemonSetHealth (\<lambda>ns sel. None) EBPFAgents (Some unavailable_daemonset) (ForComponent EBPFAgents s)) EBPFAgents)
     = Some (StatusDegraded, ''UnhealthyPods'', 0, [[]])"
  by (simp add: CheckDaemonSetHealth_def CheckDaemonSetProgress_def unavailable_daemonset_def setDaemonSetReplicas_def set_replicas_def
      ForComponent_def reset_def setReady_def setPodHealth_def updateComponentStatus_def getStatus_def checkPodHealth_def merge_def mk_status_def zero_health_def Let_def)

section \<open>Deployed namespaces\<close>

lemma annotation_inj: "annotation a = annotation b \<longleftrightarrow> a = b"
proof -
  have "to_lower (component_string a) = to_lower (component_string b) \<longleftrightarrow> a = b"
    by (cases a; cases b; simp add: to_lower_def)
  then show ?thesis by (simp add: annotation_def)
qed

text \<open>
  The annotation that records where a component is deployed round-trips: reading it back gives the
  namespace written, for that component only; the others read what they read before.
\<close>

theorem deployed_namespace_roundtrip:
  "GetDeployedNamespace c (with_namespace c' ns fc) = (if c = c' then ns else GetDeployedNamespace c fc)"
  by (cases "fc_Annotations fc") (auto simp: GetDeployedNamespace_def with_namespace_def annotation_inj split: option.split)

end
