(* ===== verification/Slices.thy ===== *)
theory Slices
  imports FC_Helper Go_Net Status_Manager
begin

text \<open>
  FlowCollector slices: the types of \<open>api/flowcollectorslice\<close>, the status maps of
  \<open>internal/controller/flp/slicesstatus\<close> and \<open>internal/controller/flp/slices.go\<close>, which
  turns the slices into flow filters and subnet labels. The package variables of \<open>slicesstatus\<close>
  are a record; the slices, updated in place by the code, are a list returned updated. The two warning
  texts about CIDRs and the text of a parse error are rendered by arguments.
\<close>

section \<open>Types\<close>

record SliceSubnetLabel =
  ssl_CIDRs :: "string list"
  ssl_Name :: string

record FlowCollectorSliceSpec =
  fss_SubnetLabels :: "SliceSubnetLabel list"
  fss_Sampling :: int

record FlowCollectorSliceStatus =
  fst_Conditions :: "Condition list"
  fst_FilterApplied :: string
  fst_SubnetLabelsConfigured :: nat

record FlowCollectorSlice =
  slc_Name :: string
  slc_Namespace :: string
  slc_Spec :: FlowCollectorSliceSpec
  slc_Status :: FlowCollectorSliceStatus

section \<open>Statuses of the slices\<close>

type_synonym nsname = "string \<times> string"

record slice_statuses =
  mapStatuses :: "nsname \<rightharpoonup> Condition"
  mapSubnetWarnings :: "nsname \<rightharpoonup> Condition"

definition nsname_of :: "FlowCollectorSlice \<Rightarrow> nsname" where
  "nsname_of s = (slc_Namespace s, slc_Name s)"

definition reset_slice :: "FlowCollectorSlice \<Rightarrow> FlowCollectorSlice" where
  "reset_slice s = s\<lparr>slc_Status := (slc_Status s)\<lparr>fst_FilterApplied := [], fst_SubnetLabelsConfigured := 0\<rparr>\<rparr>"

definition slices_Reset :: "FlowCollectorSlice list \<Rightarrow> slice_statuses \<times> FlowCollectorSlice list" where
  "slices_Reset items = (\<lparr>mapStatuses = Map.empty, mapSubnetWarnings = Map.empty\<rparr>, map reset_slice items)"

definition slice_SetReady :: "FlowCollectorSlice \<Rightarrow> slice_statuses \<Rightarrow> slice_statuses" where
  "slice_SetReady fcs st =
     st\<lparr>mapStatuses := (mapStatuses st)(nsname_of fcs \<mapsto>
        mk_condition ''Ready'' ConditionTrue ''Ready'' ''flowlogs-pipeline configured'')\<rparr>"

definition slice_SetFailure :: "FlowCollectorSlice \<Rightarrow> string \<Rightarrow> slice_statuses \<Rightarrow> slice_statuses" where
  "slice_SetFailure fcs msg st =
     st\<lparr>mapStatuses := (mapStatuses st)(nsname_of fcs \<mapsto> mk_condition ''Ready'' ConditionFalse ''Failure'' msg)\<rparr>"

definition AddSubnetWarning :: "FlowCollectorSlice \<Rightarrow> string \<Rightarrow> slice_statuses \<Rightarrow> slice_statuses" where
  "AddSubnetWarning fcs msg st =
     (case mapSubnetWarnings st (nsname_of fcs) of
        Some existing \<Rightarrow>
          if length (cond_Message existing) < 500
          then st\<lparr>mapSubnetWarnings := (mapSubnetWarnings st)(nsname_of fcs \<mapsto>
                 existing\<lparr>cond_Message := cond_Message existing @ ''; '' @ msg\<rparr>)\<rparr>
          else st
      | None \<Rightarrow>
          st\<lparr>mapSubnetWarnings := (mapSubnetWarnings st)(nsname_of fcs \<mapsto>
             mk_condition ''SubnetWarning'' ConditionTrue ''SubnetOverlap'' msg)\<rparr>)"

text \<open>The function that \<open>Sync\<close> applies to the status of one slice as read from the API server.\<close>

definition apply_slice_status :: "int \<Rightarrow> slice_statuses \<Rightarrow> FlowCollectorSlice \<Rightarrow> FlowCollectorSliceStatus \<Rightarrow> FlowCollectorSliceStatus" where
  "apply_slice_status now st item s =
     (case mapStatuses st (nsname_of item) of
        None \<Rightarrow> s
      | Some cond \<Rightarrow>
          (let cs = SetStatusCondition now (fst_Conditions s) cond;
               cs = (case mapSubnetWarnings st (nsname_of item) of
                       Some w \<Rightarrow> SetStatusCondition now cs w
                     | None \<Rightarrow> RemoveStatusCondition cs ''SubnetWarning'')
           in s\<lparr>fst_Conditions := cs, fst_FilterApplied := fst_FilterApplied (slc_Status item),
                fst_SubnetLabelsConfigured := fst_SubnetLabelsConfigured (slc_Status item)\<rparr>))"

text \<open>
  The API server as \<open>setStatus\<close> uses it. A resource that is gone is no error, and an error left after the
  retries is only logged.
\<close>

record 'w slice_api =
  sapi_Get :: "nsname \<Rightarrow> 'w \<Rightarrow> api_error + FlowCollectorSlice"
  sapi_StatusUpdate :: "FlowCollectorSlice \<Rightarrow> 'w \<Rightarrow> api_error option \<times> 'w"

definition slice_setStatus :: "'w slice_api \<Rightarrow> nsname \<Rightarrow> (FlowCollectorSliceStatus \<Rightarrow> FlowCollectorSliceStatus) \<Rightarrow> 'w \<Rightarrow> 'w" where
  "slice_setStatus c nsname applyStatus w =
     (case RetryOnConflict DefaultBackoff_Steps 0
        (\<lambda>k w. case sapi_Get c nsname w of
                Inl NotFound \<Rightarrow> (None, None, w)
              | Inl e \<Rightarrow> (Some e, None, w)
              | Inr fcs \<Rightarrow> (case sapi_StatusUpdate c (fcs\<lparr>slc_Status := applyStatus (slc_Status fcs)\<rparr>) w of
                  (e, w') \<Rightarrow> (e, Some (), w'))) w of
        (_, _, w') \<Rightarrow> w')"

fun slices_Sync :: "int \<Rightarrow> 'w slice_api \<Rightarrow> slice_statuses \<Rightarrow> FlowCollectorSlice list \<Rightarrow> 'w \<Rightarrow> 'w" where
  "slices_Sync now c st [] w = w"
| "slices_Sync now c st (item # items) w =
     slices_Sync now c st items
       (case mapStatuses st (nsname_of item) of
          None \<Rightarrow> w
        | Some cond \<Rightarrow> slice_setStatus c (nsname_of item) (apply_slice_status now st item) w)"

definition GetReadyCondition :: "FlowCollectorSlice \<Rightarrow> slice_statuses \<Rightarrow> Condition option" where
  "GetReadyCondition s st = mapStatuses st (nsname_of s)"

definition GetSubnetWarningCondition :: "FlowCollectorSlice \<Rightarrow> slice_statuses \<Rightarrow> Condition option" where
  "GetSubnetWarningCondition s st = mapSubnetWarnings st (nsname_of s)"

section \<open>Filters\<close>

text \<open>\<open>api.TransformFilterRule\<close> with the type \<open>KeepEntryQuery\<close>; the sampling is a \<open>uint16\<close>.\<close>

record keep_rule =
  KeepEntryQuery :: string
  KeepEntrySampling :: int

definition ns_query :: "string \<Rightarrow> string" where
  "ns_query ns = ''SrcK8S_Namespace=\"'' @ ns @ ''\" or DstK8S_Namespace=\"'' @ ns @ ''\"''"

definition ns_regex_query :: "string \<Rightarrow> string" where
  "ns_regex_query p = ''SrcK8S_Namespace=~\"'' @ p @ ''\" or DstK8S_Namespace=~\"'' @ p @ ''\"''"

definition is_regex :: "string \<Rightarrow> bool" where
  "is_regex ns \<longleftrightarrow> length ns \<ge> 2 \<and> has_prefix ns ''/'' \<and> has_suffix ns ''/''"

fun allow_list_rules :: "string list \<Rightarrow> string set \<times> keep_rule list \<Rightarrow> string set \<times> keep_rule list" where
  "allow_list_rules [] acc = acc"
| "allow_list_rules (ns # nss) (processed, rules) =
     (if is_regex ns then
        allow_list_rules nss (processed, rules @ [\<lparr>KeepEntryQuery = ns_regex_query (trim_prefix (trim_suffix ns ''/'') ''/''), KeepEntrySampling = 0\<rparr>])
      else if ns \<notin> processed then
        allow_list_rules nss (insert ns processed, rules @ [\<lparr>KeepEntryQuery = ns_query ns, KeepEntrySampling = 0\<rparr>])
      else allow_list_rules nss (processed, rules))"

definition set_filter :: "string \<Rightarrow> FlowCollectorSlice \<Rightarrow> FlowCollectorSlice" where
  "set_filter f s = s\<lparr>slc_Status := (slc_Status s)\<lparr>fst_FilterApplied := f\<rparr>\<rparr>"

fun slice_rules :: "string set \<Rightarrow> FlowCollectorSlice list \<Rightarrow> keep_rule list \<times> FlowCollectorSlice list" where
  "slice_rules processed [] = ([], [])"
| "slice_rules processed (s # ss) =
     (if slc_Namespace s \<notin> processed then
        (let q = ns_query (slc_Namespace s);
             (rules, ss') = slice_rules (insert (slc_Namespace s) processed) ss
         in (\<lparr>KeepEntryQuery = q, KeepEntrySampling = to_uint16 (fss_Sampling (slc_Spec s))\<rparr> # rules, set_filter q s # ss'))
      else
        (let (rules, ss') = slice_rules processed ss in (rules, set_filter ''(skipped, not needed)'' s # ss')))"

definition slicesToFilters :: "FlowCollectorSpec \<Rightarrow> FlowCollectorSlice list \<Rightarrow> keep_rule list \<times> FlowCollectorSlice list" where
  "slicesToFilters fc fcSlices =
     (if \<not> IsSliceEnabled fc then ([], fcSlices)
      else case flp_SlicesConfig (spec_Processor fc) of
        None \<Rightarrow> ([], fcSlices)
      | Some cfg \<Rightarrow>
          if slices_CollectionMode cfg = CollectionAlwaysCollect then ([], fcSlices)
          else (case allow_list_rules (slices_NamespacesAllowList cfg) ({}, []) of
                  (processed, rules) \<Rightarrow>
                    (case slice_rules processed fcSlices of (rules', ss') \<Rightarrow> (rules @ rules', ss'))))"

section \<open>Subnet labels\<close>

record slice_texts =
  txt_wrong_cidr :: "string \<Rightarrow> string \<Rightarrow> string"
  txt_full_overlap :: "string \<Rightarrow> IPNet \<Rightarrow> string \<Rightarrow> IPNet \<Rightarrow> string"
  txt_overlap :: "string \<Rightarrow> IPNet \<Rightarrow> string \<Rightarrow> IPNet \<Rightarrow> string"

record cidrsPerOwner =
  cpo_cidrs :: "IPNet list"
  cpo_owner :: string

definition fully_overlapped :: "IPNet \<Rightarrow> IPNet \<Rightarrow> bool" where
  "fully_overlapped cidr other \<longleftrightarrow> net_Contains other (net_IP cidr) \<and> net_Ones cidr \<ge> net_Ones other"

text \<open>The two inner loops: whether the CIDR is skipped, and the warnings added.\<close>

fun check_others :: "slice_texts \<Rightarrow> FlowCollectorSlice \<Rightarrow> string \<Rightarrow> IPNet \<Rightarrow> string \<Rightarrow> IPNet list \<Rightarrow> bool \<times> slice_statuses \<Rightarrow> bool \<times> slice_statuses" where
  "check_others tx fcs name cidr owner [] acc = acc"
| "check_others tx fcs name cidr owner (other # others) (skip, st) =
     check_others tx fcs name cidr owner others
       (if net_Contains other (net_IP cidr) then
          (if net_Ones cidr \<ge> net_Ones other
           then (True, AddSubnetWarning fcs (txt_full_overlap tx name cidr owner other) st)
           else (skip, AddSubnetWarning fcs (txt_overlap tx name cidr owner other) st))
        else if net_Contains cidr (net_IP other)
        then (skip, AddSubnetWarning fcs (txt_overlap tx name cidr owner other) st)
        else (skip, st))"

fun check_owners :: "slice_texts \<Rightarrow> FlowCollectorSlice \<Rightarrow> string \<Rightarrow> IPNet \<Rightarrow> cidrsPerOwner list \<Rightarrow> bool \<times> slice_statuses \<Rightarrow> bool \<times> slice_statuses" where
  "check_owners tx fcs name cidr [] acc = acc"
| "check_owners tx fcs name cidr (ow # ows) acc =
     check_owners tx fcs name cidr ows (check_others tx fcs name cidr (cpo_owner ow) (cpo_cidrs ow) acc)"

text \<open>The loop over the CIDRs of one label: kept texts, kept networks, error flag, statuses.\<close>

fun label_cidrs ::
  "slice_texts \<Rightarrow> FlowCollectorSlice \<Rightarrow> string \<Rightarrow> cidrsPerOwner list \<Rightarrow> string list
     \<Rightarrow> string list \<times> IPNet list \<times> bool \<times> slice_statuses \<Rightarrow> string list \<times> IPNet list \<times> bool \<times> slice_statuses" where
  "label_cidrs tx fcs name toCheck [] acc = acc"
| "label_cidrs tx fcs name toCheck (s # ss) (strs, cidrs, hasError, st) =
     (case ParseCIDR s of
        None \<Rightarrow> label_cidrs tx fcs name toCheck ss (strs, cidrs, True, slice_SetFailure fcs (txt_wrong_cidr tx name s) st)
      | Some cidr \<Rightarrow>
          (case check_owners tx fcs name cidr toCheck (False, st) of (skip, st') \<Rightarrow>
             if \<not> skip then label_cidrs tx fcs name toCheck ss (strs @ [s], cidrs @ [cidr], hasError, st')
             else label_cidrs tx fcs name toCheck ss (strs, cidrs, hasError, st')))"

record subnet_acc =
  sa_toCheck :: "cidrsPerOwner list"
  sa_labels :: "SubnetLabel list"
  sa_error :: bool
  sa_count :: nat
  sa_st :: slice_statuses

definition add_label :: "slice_texts \<Rightarrow> FlowCollectorSlice \<Rightarrow> subnet_acc \<Rightarrow> SliceSubnetLabel \<Rightarrow> subnet_acc" where
  "add_label tx fcs acc sl =
     (case label_cidrs tx fcs (ssl_Name sl) (sa_toCheck acc) (ssl_CIDRs sl) ([], [], sa_error acc, sa_st acc) of
        (strs, cidrs, hasError, st) \<Rightarrow>
          (let acc = acc\<lparr>sa_error := hasError, sa_st := st\<rparr> in
           if length cidrs > 0 then
             acc\<lparr>sa_toCheck := sa_toCheck acc @ [\<lparr>cpo_cidrs = cidrs, cpo_owner = slc_Namespace fcs @ ''/'' @ slc_Name fcs\<rparr>],
                 sa_labels := sa_labels acc @ [\<lparr>sl_CIDRs = strs, sl_Name = ssl_Name sl\<rparr>],
                 sa_count := sa_count acc + 1\<rparr>
           else acc))"

definition add_slice :: "slice_texts \<Rightarrow> subnet_acc \<times> FlowCollectorSlice list \<Rightarrow> FlowCollectorSlice \<Rightarrow> subnet_acc \<times> FlowCollectorSlice list" where
  "add_slice tx p fcs =
     (case p of (acc, out) \<Rightarrow>
        (let acc = foldl (add_label tx fcs) (acc\<lparr>sa_error := False, sa_count := 0\<rparr>) (fss_SubnetLabels (slc_Spec fcs));
             fcs' = fcs\<lparr>slc_Status := (slc_Status fcs)\<lparr>fst_SubnetLabelsConfigured := sa_count acc\<rparr>\<rparr>;
             st = (if \<not> sa_error acc then slice_SetReady fcs' (sa_st acc) else sa_st acc)
         in (acc\<lparr>sa_st := st\<rparr>, out @ [fcs'])))"

definition slicesToFCSubnetLabels ::
  "slice_texts \<Rightarrow> FlowCollectorSlice list \<Rightarrow> IPNet list \<Rightarrow> slice_statuses \<Rightarrow> SubnetLabel list \<times> FlowCollectorSlice list \<times> slice_statuses" where
  "slicesToFCSubnetLabels tx fcSlices configuredCIDRs st =
     (case foldl (add_slice tx)
        (\<lparr>sa_toCheck = [\<lparr>cpo_cidrs = configuredCIDRs, cpo_owner = ''admin''\<rparr>], sa_labels = [], sa_error = False, sa_count = 0, sa_st = st\<rparr>, [])
        fcSlices of
        (acc, out) \<Rightarrow> (sa_labels acc, out, sa_st acc))"

end
