(* ===== verification/Slices_Correct.thy ===== *)
theory Slices_Correct
  imports Slices Samples
begin

text \<open>
  Correctness of the slices: which filters they give and how often, and that subnet labels of slices
  never take precedence over the administrator's, while no address of a valid slice CIDR is left
  without a label.
\<close>

section \<open>Inclusion of networks\<close>

lemma mask_byte_twice:
  "a \<le> b \<Longrightarrow> (x - x mod 2 ^ a) - (x - x mod 2 ^ a) mod 2 ^ b = x - x mod (2::nat) ^ b"
proof -
  assume "a \<le> b"
  then have d: "(2::nat) ^ a dvd 2 ^ b" by (rule le_imp_power_dvd)
  have "(x - x mod 2 ^ a) div 2 ^ b = x div (2::nat) ^ b"
  proof -
    obtain k where k: "(2::nat) ^ b = 2 ^ a * k" using d by (auto elim: dvdE)
    have "x - x mod 2 ^ a = 2 ^ a * (x div 2 ^ a)" by (simp add: minus_mod_eq_mult_div)
    then show ?thesis by (simp add: k div_mult2_eq)
  qed
  then show ?thesis by (simp add: minus_mod_eq_mult_div)
qed

lemma mask_bytes_twice: "k \<le> m \<Longrightarrow> mask_bytes k (mask_bytes m bs) = mask_bytes k bs"
proof (induction m bs arbitrary: k rule: mask_bytes.induct)
  case (2 ones b bs)
  have "8 - ones \<le> 8 - k" using 2(3) by simp
  from mask_byte_twice[OF this, of b] 2 show ?case by auto
qed simp

definition wf_net :: "IPNet \<Rightarrow> bool" where
  "wf_net n \<longleftrightarrow> net_Bits n = 32 \<and> length (net_IP n) = 4 \<or> net_Bits n = 128 \<and> length (net_IP n) = 16"

lemma network_number_wf: "wf_net n \<Longrightarrow> network_number n =
   (case To4 (net_IP n) of Some ip4 \<Rightarrow> Some (ip4, if net_Bits n = 32 then net_Ones n else net_Ones n - 96)
    | None \<Rightarrow> Some (net_IP n, net_Ones n))"
  by (auto simp: wf_net_def network_number_def To4_def split: option.split)

text \<open>
  A network that the code calls fully overlapped is a subset of the other one: every address it
  contains, the other contains too (for two networks of one address family).
\<close>

lemma fully_overlapped_subset:
  assumes wf: "wf_net c" "wf_net other" and fam: "net_Bits c = net_Bits other"
    and ov: "fully_overlapped c other" and ip: "net_Contains c ip"
  shows "net_Contains other ip"
proof -
  let ?norm = "\<lambda>ip0. case To4 ip0 of Some x \<Rightarrow> x | None \<Rightarrow> ip0"
  obtain nc oc where nc: "network_number c = Some (nc, oc)" using network_number_wf[OF wf(1)] by (cases "To4 (net_IP c)") auto
  obtain no oo where no: "network_number other = Some (no, oo)" using network_number_wf[OF wf(2)] by (cases "To4 (net_IP other)") auto
  have norm: "?norm (net_IP c) = nc"
    using network_number_wf[OF wf(1)] nc by (cases "To4 (net_IP c)") auto
  have c: "length (?norm ip) = length nc" "mask_bytes oc nc = mask_bytes oc (?norm ip)"
    using ip nc by (simp_all add: net_Contains_def Let_def)
  have o: "length nc = length no" "mask_bytes oo no = mask_bytes oo nc" "net_Ones other \<le> net_Ones c"
    using ov no norm by (simp_all add: fully_overlapped_def net_Contains_def Let_def)
  have "oo \<le> oc"
  proof (cases "net_Bits c = 32")
    case True
    then show ?thesis using network_number_wf[OF wf(1)] network_number_wf[OF wf(2)] nc no fam o(3) wf
      by (auto simp: wf_net_def To4_def split: option.splits)
  next
    case False
    have "length nc = 4 \<longleftrightarrow> To4 (net_IP c) \<noteq> None" "length no = 4 \<longleftrightarrow> To4 (net_IP other) \<noteq> None"
      using network_number_wf[OF wf(1)] network_number_wf[OF wf(2)] nc no False fam wf
      by (auto simp: wf_net_def To4_def split: option.splits if_splits)
    then show ?thesis using network_number_wf[OF wf(1)] network_number_wf[OF wf(2)] nc no fam o False
      by (auto split: option.splits)
  qed
  then have "mask_bytes oo (?norm ip) = mask_bytes oo no"
    using c(2) o(2) mask_bytes_twice by metis
  then show ?thesis using c(1) o(1) by (simp add: net_Contains_def no Let_def)
qed

section \<open>The loops as filters\<close>

definition covered :: "cidrsPerOwner list \<Rightarrow> IPNet \<Rightarrow> bool" where
  "covered toCheck c \<longleftrightarrow> (\<exists>ow \<in> set toCheck. \<exists>other \<in> set (cpo_cidrs ow). fully_overlapped c other)"

definition kept :: "cidrsPerOwner list \<Rightarrow> string \<Rightarrow> bool" where
  "kept toCheck s = (case ParseCIDR s of None \<Rightarrow> False | Some c \<Rightarrow> \<not> covered toCheck c)"

lemma warning_statuses [simp]: "mapStatuses (AddSubnetWarning fcs m st) = mapStatuses st"
  by (simp add: AddSubnetWarning_def split: option.split)

lemma check_others_result:
  "fst (check_others tx fcs name c ow others acc) = (fst acc \<or> (\<exists>other \<in> set others. fully_overlapped c other))"
  "mapStatuses (snd (check_others tx fcs name c ow others acc)) = mapStatuses (snd acc)"
  by (induction others arbitrary: acc) (auto simp: fully_overlapped_def split: if_splits)

lemma check_owners_result:
  "fst (check_owners tx fcs name c ows acc) = (fst acc \<or> covered ows c)"
  "mapStatuses (snd (check_owners tx fcs name c ows acc)) = mapStatuses (snd acc)"
  by (induction ows arbitrary: acc) (auto simp: check_others_result covered_def)

definition statuses_after :: "FlowCollectorSlice \<Rightarrow> (string \<Rightarrow> string) \<Rightarrow> string list \<Rightarrow> (nsname \<rightharpoonup> Condition) \<Rightarrow> nsname \<rightharpoonup> Condition" where
  "statuses_after fcs txt ss m =
     foldl (\<lambda>m s. if ParseCIDR s = None then m(nsname_of fcs \<mapsto> mk_condition ''Ready'' ConditionFalse ''Failure'' (txt s)) else m) m ss"

lemma label_cidrs_step:
  "\<exists>st1. label_cidrs tx fcs name T (s # ss) (strs, cidrs, e, st) =
      label_cidrs tx fcs name T ss
        (strs @ (if kept T s then [s] else []), cidrs @ (if kept T s then [the (ParseCIDR s)] else []), e \<or> ParseCIDR s = None, st1)
    \<and> mapStatuses st1 = statuses_after fcs (txt_wrong_cidr tx name) [s] (mapStatuses st)"
proof (cases "ParseCIDR s")
  case None
  then show ?thesis by (auto simp: kept_def statuses_after_def slice_SetFailure_def)
next
  case (Some c)
  then show ?thesis
    using check_owners_result[of tx fcs name c T "(False, st)"]
    by (cases "check_owners tx fcs name c T (False, st)") (auto simp: kept_def statuses_after_def)
qed

lemma statuses_after_Cons: "statuses_after fcs txt (s # ss) m = statuses_after fcs txt ss (statuses_after fcs txt [s] m)"
  by (simp add: statuses_after_def)

lemma label_cidrs_all:
  "label_cidrs tx fcs name T ss (strs, cidrs, e, st) = (strs', cidrs', e', st') \<Longrightarrow>
     strs' = strs @ filter (kept T) ss \<and> cidrs' = cidrs @ map (\<lambda>s. the (ParseCIDR s)) (filter (kept T) ss)
     \<and> (e' \<longleftrightarrow> e \<or> (\<exists>s \<in> set ss. ParseCIDR s = None))
     \<and> mapStatuses st' = statuses_after fcs (txt_wrong_cidr tx name) ss (mapStatuses st)"
proof (induction ss arbitrary: strs cidrs e st)
  case (Cons s ss)
  obtain st1 where
    step: "label_cidrs tx fcs name T (s # ss) (strs, cidrs, e, st) =
      label_cidrs tx fcs name T ss
        (strs @ (if kept T s then [s] else []), cidrs @ (if kept T s then [the (ParseCIDR s)] else []), e \<or> ParseCIDR s = None, st1)"
    and st1: "mapStatuses st1 = statuses_after fcs (txt_wrong_cidr tx name) [s] (mapStatuses st)"
    using label_cidrs_step by blast
  from Cons.IH[OF Cons.prems[unfolded step]] st1 show ?case
    by (subst statuses_after_Cons) (auto simp del: label_cidrs.simps)
qed (simp add: statuses_after_def)

lemmas label_cidrs_result =
  label_cidrs_all[THEN conjunct1] label_cidrs_all[THEN conjunct2, THEN conjunct1]
  label_cidrs_all[THEN conjunct2, THEN conjunct2, THEN conjunct1]
  label_cidrs_all[THEN conjunct2, THEN conjunct2, THEN conjunct2]

section \<open>Invariant of the accumulated labels\<close>

definition label_nets :: "SubnetLabel list \<Rightarrow> IPNet set" where
  "label_nets ls = {c. \<exists>l \<in> set ls. \<exists>s \<in> set (sl_CIDRs l). ParseCIDR s = Some c}"

definition checked_nets :: "cidrsPerOwner list \<Rightarrow> IPNet set" where
  "checked_nets toCheck = (\<Union>ow \<in> set toCheck. set (cpo_cidrs ow))"

definition labels_ok :: "IPNet list \<Rightarrow> subnet_acc \<Rightarrow> bool" where
  "labels_ok admin acc \<longleftrightarrow>
     checked_nets (sa_toCheck acc) = set admin \<union> label_nets (sa_labels acc)
     \<and> (\<forall>l \<in> set (sa_labels acc). \<forall>s \<in> set (sl_CIDRs l). \<exists>c. ParseCIDR s = Some c \<and> (\<forall>a \<in> set admin. \<not> fully_overlapped c a))"

lemma covered_checked: "covered toCheck c \<longleftrightarrow> (\<exists>other \<in> checked_nets toCheck. fully_overlapped c other)"
  by (auto simp: covered_def checked_nets_def)

text \<open>The nets a CIDR text is accounted for by: its own label or one that overlaps it fully.\<close>

definition accounted :: "IPNet list \<Rightarrow> SubnetLabel list \<Rightarrow> string \<Rightarrow> bool" where
  "accounted admin ls s \<longleftrightarrow>
     (\<forall>c. ParseCIDR s = Some c \<longrightarrow> c \<in> label_nets ls \<or> (\<exists>other \<in> set admin \<union> label_nets ls. fully_overlapped c other))"

lemma label_nets_append: "label_nets (ls @ ls') = label_nets ls \<union> label_nets ls'"
  by (auto simp: label_nets_def)

lemma accounted_mono: "accounted admin ls s \<Longrightarrow> accounted admin (ls @ ls') s"
  by (auto simp: accounted_def label_nets_append)

lemma add_label_step:
  assumes "labels_ok admin acc"
  shows "labels_ok admin (add_label tx fcs acc sl)"
    and "\<exists>ls. sa_labels (add_label tx fcs acc sl) = sa_labels acc @ ls \<and> (\<forall>l \<in> set ls. set (sl_CIDRs l) \<subseteq> set (ssl_CIDRs sl))"
    and "\<forall>s \<in> set (ssl_CIDRs sl). accounted admin (sa_labels (add_label tx fcs acc sl)) s"
    and "sa_error (add_label tx fcs acc sl) \<longleftrightarrow> sa_error acc \<or> (\<exists>s \<in> set (ssl_CIDRs sl). ParseCIDR s = None)"
    and "mapStatuses (sa_st (add_label tx fcs acc sl)) =
           statuses_after fcs (txt_wrong_cidr tx (ssl_Name sl)) (ssl_CIDRs sl) (mapStatuses (sa_st acc))"
proof -
  let ?T = "sa_toCheck acc" let ?K = "filter (kept ?T) (ssl_CIDRs sl)"
  obtain strs cidrs e st where r: "label_cidrs tx fcs (ssl_Name sl) ?T (ssl_CIDRs sl) ([], [], sa_error acc, sa_st acc) = (strs, cidrs, e, st)"
    by (metis prod_cases4)
  note res = label_cidrs_result[OF r]
  have strs: "strs = ?K" and cidrs: "cidrs = map (\<lambda>s. the (ParseCIDR s)) ?K" using res by simp_all
  let ?l = "\<lparr>sl_CIDRs = strs, sl_Name = ssl_Name sl\<rparr>"
  have new: "label_nets [?l] = set cidrs"
    by (force simp: label_nets_def strs cidrs kept_def split: option.splits)
  have labels: "sa_labels (add_label tx fcs acc sl) = sa_labels acc @ (if cidrs = [] then [] else [?l])"
    by (simp add: add_label_def r Let_def)
  have nets: "label_nets (sa_labels (add_label tx fcs acc sl)) = label_nets (sa_labels acc) \<union> set cidrs"
    by (simp add: labels label_nets_append new) (simp add: label_nets_def)
  have checked: "checked_nets (sa_toCheck (add_label tx fcs acc sl)) = checked_nets ?T \<union> set cidrs"
    by (auto simp: add_label_def r Let_def checked_nets_def)
  have adm: "\<exists>c. ParseCIDR s = Some c \<and> (\<forall>a \<in> set admin. \<not> fully_overlapped c a)" if "s \<in> set strs" for s
    using that assms by (auto simp: strs kept_def labels_ok_def covered_checked split: option.splits)
  show "labels_ok admin (add_label tx fcs acc sl)"
    using assms checked nets adm by (auto simp: labels_ok_def labels)
  show "\<exists>ls. sa_labels (add_label tx fcs acc sl) = sa_labels acc @ ls \<and> (\<forall>l \<in> set ls. set (sl_CIDRs l) \<subseteq> set (ssl_CIDRs sl))"
    using labels by (intro exI[of _ "if cidrs = [] then [] else [?l]"]) (auto simp: strs)
  show "\<forall>s \<in> set (ssl_CIDRs sl). accounted admin (sa_labels (add_label tx fcs acc sl)) s"
  proof
    fix s assume s: "s \<in> set (ssl_CIDRs sl)"
    show "accounted admin (sa_labels (add_label tx fcs acc sl)) s"
      unfolding accounted_def nets
    proof (intro allI impI)
      fix c assume c: "ParseCIDR s = Some c"
      show "c \<in> label_nets (sa_labels acc) \<union> set cidrs
          \<or> (\<exists>other \<in> set admin \<union> (label_nets (sa_labels acc) \<union> set cidrs). fully_overlapped c other)"
      proof (cases "kept ?T s")
        case True
        then have "c \<in> set cidrs" using s c by (force simp: cidrs)
        then show ?thesis by blast
      next
        case False
        then have "\<exists>other \<in> checked_nets ?T. fully_overlapped c other" by (simp add: kept_def c covered_checked)
        then show ?thesis using assms by (auto simp: labels_ok_def)
      qed
    qed
  qed
  show "sa_error (add_label tx fcs acc sl) \<longleftrightarrow> sa_error acc \<or> (\<exists>s \<in> set (ssl_CIDRs sl). ParseCIDR s = None)"
    using res(3) by (simp add: add_label_def r Let_def)
  show "mapStatuses (sa_st (add_label tx fcs acc sl)) =
      statuses_after fcs (txt_wrong_cidr tx (ssl_Name sl)) (ssl_CIDRs sl) (mapStatuses (sa_st acc))"
    using res(4) by (simp add: add_label_def r Let_def)
qed

definition slice_cidrs :: "FlowCollectorSlice \<Rightarrow> string set" where
  "slice_cidrs fcs = (\<Union>sl \<in> set (fss_SubnetLabels (slc_Spec fcs)). set (ssl_CIDRs sl))"

lemma add_labels:
  assumes "labels_ok admin acc"
  shows "labels_ok admin (foldl (add_label tx fcs) acc sls)
    \<and> (\<exists>ls. sa_labels (foldl (add_label tx fcs) acc sls) = sa_labels acc @ ls
           \<and> (\<forall>l \<in> set ls. set (sl_CIDRs l) \<subseteq> (\<Union>sl \<in> set sls. set (ssl_CIDRs sl))))
    \<and> (\<forall>sl \<in> set sls. \<forall>s \<in> set (ssl_CIDRs sl). accounted admin (sa_labels (foldl (add_label tx fcs) acc sls)) s)
    \<and> (sa_error (foldl (add_label tx fcs) acc sls) \<longleftrightarrow> sa_error acc \<or> (\<exists>sl \<in> set sls. \<exists>s \<in> set (ssl_CIDRs sl). ParseCIDR s = None))"
  using assms
proof (induction sls arbitrary: acc)
  case (Cons sl sls)
  note step = add_label_step[OF Cons.prems, where tx = tx and fcs = fcs and sl = sl]
  note IH = Cons.IH[OF step(1)]
  obtain ls where ls: "sa_labels (foldl (add_label tx fcs) (add_label tx fcs acc sl) sls) = sa_labels (add_label tx fcs acc sl) @ ls"
    "\<forall>l \<in> set ls. set (sl_CIDRs l) \<subseteq> (\<Union>sl \<in> set sls. set (ssl_CIDRs sl))"
    using IH by blast
  obtain ls' where ls': "sa_labels (add_label tx fcs acc sl) = sa_labels acc @ ls'"
    "\<forall>l \<in> set ls'. set (sl_CIDRs l) \<subseteq> set (ssl_CIDRs sl)" using step(2) by blast
  have "\<exists>ls. sa_labels (foldl (add_label tx fcs) acc (sl # sls)) = sa_labels acc @ ls
      \<and> (\<forall>l \<in> set ls. set (sl_CIDRs l) \<subseteq> (\<Union>sl \<in> set (sl # sls). set (ssl_CIDRs sl)))"
    using ls ls' by (intro exI[of _ "ls' @ ls"]) auto
  moreover
  have "\<forall>s \<in> set (ssl_CIDRs sl). accounted admin (sa_labels (foldl (add_label tx fcs) acc (sl # sls))) s"
    using step(3) ls(1) accounted_mono[of admin "sa_labels (add_label tx fcs acc sl)" _ ls] by auto
  ultimately show ?case using IH step(4) by auto
qed simp

lemma add_slice_sel:
  "sa_labels (fst (add_slice tx (acc, out) fcs)) = sa_labels (foldl (add_label tx fcs) (acc\<lparr>sa_error := False, sa_count := 0\<rparr>) (fss_SubnetLabels (slc_Spec fcs)))"
  "sa_toCheck (fst (add_slice tx (acc, out) fcs)) = sa_toCheck (foldl (add_label tx fcs) (acc\<lparr>sa_error := False, sa_count := 0\<rparr>) (fss_SubnetLabels (slc_Spec fcs)))"
  by (simp_all add: add_slice_def Let_def)

lemma add_slice_step:
  assumes "labels_ok admin acc"
  shows "labels_ok admin (fst (add_slice tx (acc, out) fcs))
    \<and> (\<exists>ls. sa_labels (fst (add_slice tx (acc, out) fcs)) = sa_labels acc @ ls \<and> (\<forall>l \<in> set ls. set (sl_CIDRs l) \<subseteq> slice_cidrs fcs))
    \<and> (\<forall>s \<in> slice_cidrs fcs. accounted admin (sa_labels (fst (add_slice tx (acc, out) fcs))) s)"
proof -
  have "labels_ok admin (acc\<lparr>sa_error := False, sa_count := 0\<rparr>)" using assms by (simp add: labels_ok_def)
  from add_labels[OF this, of tx fcs "fss_SubnetLabels (slc_Spec fcs)"] show ?thesis
    unfolding labels_ok_def add_slice_sel slice_cidrs_def by auto
qed

lemma add_slices:
  assumes "labels_ok admin acc"
  shows "labels_ok admin (fst (foldl (add_slice tx) (acc, out) fs))
    \<and> (\<exists>ls. sa_labels (fst (foldl (add_slice tx) (acc, out) fs)) = sa_labels acc @ ls
           \<and> (\<forall>l \<in> set ls. set (sl_CIDRs l) \<subseteq> (\<Union>fcs \<in> set fs. slice_cidrs fcs)))
    \<and> (\<forall>fcs \<in> set fs. \<forall>s \<in> slice_cidrs fcs. accounted admin (sa_labels (fst (foldl (add_slice tx) (acc, out) fs))) s)"
  using assms
proof (induction fs arbitrary: acc out)
  case (Cons fcs fs)
  obtain acc' out' where a: "add_slice tx (acc, out) fcs = (acc', out')" by fastforce
  have step: "labels_ok admin acc'" "\<exists>ls. sa_labels acc' = sa_labels acc @ ls \<and> (\<forall>l \<in> set ls. set (sl_CIDRs l) \<subseteq> slice_cidrs fcs)"
    "\<forall>s \<in> slice_cidrs fcs. accounted admin (sa_labels acc') s"
    using add_slice_step[OF Cons.prems, of tx out fcs] a by simp_all
  obtain ls where ls: "sa_labels (fst (foldl (add_slice tx) (acc', out') fs)) = sa_labels acc' @ ls"
    "\<forall>l \<in> set ls. set (sl_CIDRs l) \<subseteq> (\<Union>fcs \<in> set fs. slice_cidrs fcs)"
    using Cons.IH[OF step(1)] by blast
  obtain ls' where ls': "sa_labels acc' = sa_labels acc @ ls'" "\<forall>l \<in> set ls'. set (sl_CIDRs l) \<subseteq> slice_cidrs fcs" using step(2) by blast
  have "\<exists>ls. sa_labels (fst (foldl (add_slice tx) (acc, out) (fcs # fs))) = sa_labels acc @ ls
      \<and> (\<forall>l \<in> set ls. set (sl_CIDRs l) \<subseteq> (\<Union>fcs \<in> set (fcs # fs). slice_cidrs fcs))"
    using ls ls' a by (intro exI[of _ "ls' @ ls"]) auto
  moreover have "\<forall>s \<in> slice_cidrs fcs. accounted admin (sa_labels (fst (foldl (add_slice tx) (acc, out) (fcs # fs)))) s"
    using step(3) ls(1) accounted_mono[of admin "sa_labels acc'" _ ls] a by auto
  ultimately show ?case using Cons.IH[OF step(1), of out'] a by auto
qed simp

lemma subnet_labels_all:
  assumes "slicesToFCSubnetLabels tx fs admin st = (labels, out, st')"
  shows "\<forall>l \<in> set labels. \<forall>s \<in> set (sl_CIDRs l). \<exists>c. ParseCIDR s = Some c \<and> (\<forall>a \<in> set admin. \<not> fully_overlapped c a)"
    and "\<forall>fcs \<in> set fs. \<forall>s \<in> slice_cidrs fcs. accounted admin labels s"
    and "\<forall>l \<in> set labels. set (sl_CIDRs l) \<subseteq> (\<Union>fcs \<in> set fs. slice_cidrs fcs)"
proof -
  let ?init = "\<lparr>sa_toCheck = [\<lparr>cpo_cidrs = admin, cpo_owner = ''admin''\<rparr>], sa_labels = [], sa_error = False, sa_count = 0, sa_st = st\<rparr>"
  have "labels_ok admin ?init" by (simp add: labels_ok_def checked_nets_def label_nets_def)
  from add_slices[OF this, of tx "[]" fs] assms
  have "labels_ok admin (fst (foldl (add_slice tx) (?init, []) fs))"
    "\<forall>fcs \<in> set fs. \<forall>s \<in> slice_cidrs fcs. accounted admin (sa_labels (fst (foldl (add_slice tx) (?init, []) fs))) s"
    "\<forall>l \<in> set (sa_labels (fst (foldl (add_slice tx) (?init, []) fs))). set (sl_CIDRs l) \<subseteq> (\<Union>fcs \<in> set fs. slice_cidrs fcs)" by auto
  moreover have "sa_labels (fst (foldl (add_slice tx) (?init, []) fs)) = labels"
    using assms by (simp add: slicesToFCSubnetLabels_def split: prod.splits)
  ultimately show "\<forall>l \<in> set labels. \<forall>s \<in> set (sl_CIDRs l). \<exists>c. ParseCIDR s = Some c \<and> (\<forall>a \<in> set admin. \<not> fully_overlapped c a)"
    "\<forall>fcs \<in> set fs. \<forall>s \<in> slice_cidrs fcs. accounted admin labels s"
    "\<forall>l \<in> set labels. set (sl_CIDRs l) \<subseteq> (\<Union>fcs \<in> set fs. slice_cidrs fcs)"
    by (simp_all add: labels_ok_def)
qed

text \<open>
  C24: subnet labels of slices. Every CIDR handed on is valid and not fully inside a subnet of the
  administrator, whose labels therefore take precedence; and no valid CIDR of a slice is lost: each of
  its addresses lies in an administrator's subnet or in a subnet that is handed on (for networks of
  one address family).
\<close>

theorem slice_subnets_sound_and_complete:
  assumes "slicesToFCSubnetLabels tx fs admin st = (labels, out, st')"
    and "\<forall>a \<in> set admin. wf_net a \<and> net_Bits a = B"
    and "\<forall>fcs \<in> set fs. \<forall>s \<in> slice_cidrs fcs. \<forall>c. ParseCIDR s = Some c \<longrightarrow> wf_net c \<and> net_Bits c = B"
  shows "(\<forall>l \<in> set labels. \<forall>s \<in> set (sl_CIDRs l). \<exists>c. ParseCIDR s = Some c \<and> (\<forall>a \<in> set admin. \<not> fully_overlapped c a))
    \<and> (\<forall>fcs \<in> set fs. \<forall>s \<in> slice_cidrs fcs. \<forall>c ip. ParseCIDR s = Some c \<longrightarrow> net_Contains c ip \<longrightarrow>
         (\<exists>n \<in> set admin \<union> label_nets labels. net_Contains n ip))"
proof (intro conjI ballI allI impI)
  show "\<exists>c. ParseCIDR s = Some c \<and> (\<forall>a \<in> set admin. \<not> fully_overlapped c a)" if "l \<in> set labels" "s \<in> set (sl_CIDRs l)" for l s
    using subnet_labels_all(1)[OF assms(1)] that by blast
next
  fix fcs s c ip
  assume s: "fcs \<in> set fs" "s \<in> slice_cidrs fcs" "ParseCIDR s = Some c" and ip: "net_Contains c ip"
  then have c: "wf_net c" "net_Bits c = B" using assms(3) by blast+
  have "c \<in> label_nets labels \<or> (\<exists>other \<in> set admin \<union> label_nets labels. fully_overlapped c other)"
    using subnet_labels_all(2)[OF assms(1)] s by (auto simp: accounted_def)
  then show "\<exists>n \<in> set admin \<union> label_nets labels. net_Contains n ip"
  proof
    assume "\<exists>other \<in> set admin \<union> label_nets labels. fully_overlapped c other"
    then obtain other where o: "other \<in> set admin \<union> label_nets labels" "fully_overlapped c other" by blast
    have "\<forall>c \<in> label_nets labels. wf_net c \<and> net_Bits c = B"
      using assms(3) subnet_labels_all(3)[OF assms(1)] by (fastforce simp: label_nets_def)
    with o have "wf_net other" "net_Bits c = net_Bits other" using assms(2) c by auto
    with fully_overlapped_subset[OF c(1)] o ip show ?thesis by blast
  qed (use ip in blast)
qed

definition sample_slice :: "string list \<Rightarrow> int \<Rightarrow> FlowCollectorSlice" where
  "sample_slice cidrs n = \<lparr>slc_Name = ''s'', slc_Namespace = ''ns'',
     slc_Spec = \<lparr>fss_SubnetLabels = [\<lparr>ssl_CIDRs = cidrs, ssl_Name = ''EXT:x''\<rparr>], fss_Sampling = n\<rparr>,
     slc_Status = \<lparr>fst_Conditions = [], fst_FilterApplied = [], fst_SubnetLabelsConfigured = 0\<rparr>\<rparr>"

definition sample_texts :: slice_texts where
  "sample_texts = \<lparr>txt_wrong_cidr = (\<lambda>n s. s), txt_full_overlap = (\<lambda>n c w d. n), txt_overlap = (\<lambda>n c w d. n)\<rparr>"

definition ten_net :: IPNet where
  "ten_net = \<lparr>net_IP = [10, 0, 0, 0], net_Ones = 8, net_Bits = 32\<rparr>"

lemma parse_sample:
  "ParseCIDR ''10.1.0.0/16'' = Some \<lparr>net_IP = [10, 1, 0, 0], net_Ones = 16, net_Bits = 32\<rparr>"
  "ParseCIDR ''11.0.0.0/8'' = Some \<lparr>net_IP = [11, 0, 0, 0], net_Ones = 8, net_Bits = 32\<rparr>"
  by (simp_all add: ParseCIDR_def netip_ParseAddr_def parse_v4_def digit_val_def dtoi_all_def)

lemma sample_labels:
  "fst (slicesToFCSubnetLabels sample_texts [sample_slice [''10.1.0.0/16'', ''11.0.0.0/8''] 0] [ten_net] \<lparr>mapStatuses = Map.empty, mapSubnetWarnings = Map.empty\<rparr>)
     = [\<lparr>sl_CIDRs = [''11.0.0.0/8''], sl_Name = ''EXT:x''\<rparr>]"
  by (simp add: slicesToFCSubnetLabels_def add_slice_def add_label_def sample_slice_def parse_sample ten_net_def
      net_Contains_def network_number_def To4_def AddSubnetWarning_def sample_texts_def nsname_of_def Let_def)

theorem slice_subnets_sound_and_complete_witness:
  "\<exists>labels out st'. slicesToFCSubnetLabels sample_texts [sample_slice [''10.1.0.0/16'', ''11.0.0.0/8''] 0] [ten_net]
       \<lparr>mapStatuses = Map.empty, mapSubnetWarnings = Map.empty\<rparr> = (labels, out, st')
     \<and> (\<exists>n \<in> set [ten_net] \<union> label_nets labels. net_Contains n [10, 1, 2, 3])"
proof -
  obtain labels out st' where r: "slicesToFCSubnetLabels sample_texts [sample_slice [''10.1.0.0/16'', ''11.0.0.0/8''] 0] [ten_net]
      \<lparr>mapStatuses = Map.empty, mapSubnetWarnings = Map.empty\<rparr> = (labels, out, st')" by (metis prod_cases3)
  have "net_Contains \<lparr>net_IP = [10, 1, 0, 0], net_Ones = 16, net_Bits = 32\<rparr> [10, 1, 2, 3]"
    by (simp add: net_Contains_def network_number_def To4_def Let_def)
  with slice_subnets_sound_and_complete[OF r, of 32] r show ?thesis
    by (auto simp: slice_cidrs_def sample_slice_def parse_sample wf_net_def ten_net_def)
qed

section \<open>Filters\<close>

lemma allow_list_processed: "fst (allow_list_rules nss (P, rules)) = P \<union> set (filter (\<lambda>n. \<not> is_regex n) nss)"
  by (induction nss arbitrary: P rules) auto

lemma allow_list_prefix: "\<exists>t. snd (allow_list_rules nss (P, rules)) = rules @ t"
proof (induction nss arbitrary: P rules)
  case (Cons n nss)
  show ?case by simp (metis (no_types, lifting) Cons append.assoc)
qed simp

lemma allow_list_length:
  "finite P \<Longrightarrow> length (snd (allow_list_rules nss (P, rules))) + card P =
     length rules + length (filter is_regex nss) + card (fst (allow_list_rules nss (P, rules)))"
proof (induction nss arbitrary: P rules)
  case (Cons n nss)
  let ?r = "\<lparr>KeepEntryQuery = ns_query n, KeepEntrySampling = 0\<rparr>"
  let ?x = "\<lparr>KeepEntryQuery = ns_regex_query (trim_prefix (trim_suffix n ''/'') ''/''), KeepEntrySampling = 0\<rparr>"
  show ?case using Cons.prems Cons.IH[of P "rules @ [?x]"] Cons.IH[of "insert n P" "rules @ [?r]"] Cons.IH[of P rules]
    by (cases "is_regex n"; cases "n \<in> P") (auto simp: card_insert_if simp del: allow_list_processed)
qed simp

lemma allow_list_has:
  "n \<in> set nss \<Longrightarrow> \<not> is_regex n \<Longrightarrow> n \<notin> P \<Longrightarrow> \<exists>r \<in> set (snd (allow_list_rules nss (P, rules))). KeepEntryQuery r = ns_query n"
proof (induction nss arbitrary: P rules)
  case (Cons m nss)
  let ?r = "\<lparr>KeepEntryQuery = ns_query m, KeepEntrySampling = 0\<rparr>"
  have "?r \<in> set (snd (allow_list_rules nss (insert m P, rules @ [?r])))"
    using allow_list_prefix[of nss "insert m P" "rules @ [?r]"] by auto
  then have first: "\<exists>r \<in> set (snd (allow_list_rules nss (insert m P, rules @ [?r]))). KeepEntryQuery r = ns_query m" by force
  show ?case
  proof (cases "m = n")
    case True
    with Cons.prems first show ?thesis by simp
  next
    case False
    with Cons show ?thesis by simp
  qed
qed simp

lemma slice_rules_length:
  "finite P \<Longrightarrow> length (fst (slice_rules P ss)) + card P = card (P \<union> slc_Namespace ` set ss)"
proof (induction ss arbitrary: P)
  case (Cons s ss)
  have "insert (slc_Namespace s) P \<union> slc_Namespace ` set ss = P \<union> slc_Namespace ` set (s # ss)" by auto
  moreover have "P \<union> slc_Namespace ` set ss = P \<union> slc_Namespace ` set (s # ss)" if "slc_Namespace s \<in> P" using that by auto
  ultimately show ?case
    using Cons.prems Cons.IH[of P] Cons.IH[of "insert (slc_Namespace s) P"]
    by (auto simp: Let_def card_insert_if split: prod.split)
qed simp

lemma slice_rules_has:
  "s \<in> set ss \<Longrightarrow> slc_Namespace s \<notin> P \<Longrightarrow> \<exists>r \<in> set (fst (slice_rules P ss)). KeepEntryQuery r = ns_query (slc_Namespace s)"
proof (induction ss arbitrary: P)
  case (Cons t ss)
  show ?case
  proof (cases "slc_Namespace t = slc_Namespace s")
    case True
    with Cons.prems show ?thesis by (simp add: Let_def split: prod.split)
  next
    case False
    with Cons.prems Cons.IH[of P] Cons.IH[of "insert (slc_Namespace t) P"] show ?thesis
      by (auto simp: Let_def split: prod.split)
  qed
qed simp

text \<open>The namespaces named one by one, by the administrator's list or by a slice.\<close>

definition named_namespaces :: "SlicesConfig \<Rightarrow> FlowCollectorSlice list \<Rightarrow> string set" where
  "named_namespaces cfg ss =
     set (filter (\<lambda>n. \<not> is_regex n) (slices_NamespacesAllowList cfg)) \<union> slc_Namespace ` set ss"

text \<open>
  The filters of slices, in a mode that filters. Every namespace named by the administrator or owning a
  slice has a filter for its own query, and there is exactly one filter for each of them besides one for
  each regular expression: none is lost and none is doubled.
\<close>

theorem slice_filters_one_per_namespace:
  assumes "flp_SlicesConfig (spec_Processor fc) = Some cfg" and "slices_Enable cfg"
    and "slices_CollectionMode cfg \<noteq> CollectionAlwaysCollect"
  shows "(\<forall>n \<in> named_namespaces cfg ss. \<exists>r \<in> set (fst (slicesToFilters fc ss)). KeepEntryQuery r = ns_query n)
    \<and> length (fst (slicesToFilters fc ss)) =
        length (filter is_regex (slices_NamespacesAllowList cfg)) + card (named_namespaces cfg ss)"
proof -
  let ?A = "allow_list_rules (slices_NamespacesAllowList cfg) ({}, [])" let ?P = "fst ?A"
  have P: "?P = set (filter (\<lambda>n. \<not> is_regex n) (slices_NamespacesAllowList cfg))" by (simp add: allow_list_processed)
  have rules: "fst (slicesToFilters fc ss) = snd ?A @ fst (slice_rules ?P ss)"
    using assms by (simp add: slicesToFilters_def IsSliceEnabled_def split: prod.split)
  have "\<exists>r \<in> set (fst (slicesToFilters fc ss)). KeepEntryQuery r = ns_query n" if "n \<in> named_namespaces cfg ss" for n
  proof (cases "n \<in> ?P")
    case True
    then show ?thesis using allow_list_has[of n "slices_NamespacesAllowList cfg" "{}" "[]"] P rules by auto
  next
    case False
    then have "n \<in> slc_Namespace ` set ss" using that by (simp only: named_namespaces_def P Un_iff) blast
    then obtain s where "s \<in> set ss" "slc_Namespace s = n" by blast
    then show ?thesis using slice_rules_has[of s ss ?P] False rules by auto
  qed
  moreover have "length (snd ?A) = length (filter is_regex (slices_NamespacesAllowList cfg)) + card ?P"
    using allow_list_length[of "{}" "slices_NamespacesAllowList cfg" "[]"] by simp
  moreover have "length (fst (slice_rules ?P ss)) + card ?P = card (named_namespaces cfg ss)"
    using slice_rules_length[of ?P ss] P by (simp add: named_namespaces_def)
  ultimately show ?thesis using rules by simp
qed

definition sample_slices_spec :: FlowCollectorSpec where
  "sample_slices_spec = zero_spec\<lparr>spec_Processor := zero_flp\<lparr>flp_SlicesConfig :=
     Some \<lparr>slices_Enable = True, slices_CollectionMode = CollectionAllowList, slices_NamespacesAllowList = [''a'', ''/x.*/'', ''a'']\<rparr>\<rparr>\<rparr>"

theorem slice_filters_one_per_namespace_witness:
  "length (fst (slicesToFilters sample_slices_spec [sample_slice [] 5])) = 3"
  using slice_filters_one_per_namespace[of sample_slices_spec
      "\<lparr>slices_Enable = True, slices_CollectionMode = CollectionAllowList, slices_NamespacesAllowList = [''a'', ''/x.*/'', ''a'']\<rparr>" "[sample_slice [] 5]"]
  by (simp add: sample_slices_spec_def is_regex_def has_prefix_def has_suffix_def named_namespaces_def sample_slice_def)

text \<open>
  The sampling interval of a slice is cut to 16 bits on its way to the filter, though the resource admits
  every non-negative 32-bit value: an interval of 65536 reaches the pipeline as 0, which is no sampling.
\<close>

theorem slice_sampling_wraps:
  "map KeepEntrySampling (fst (slice_rules {} [s])) = [fss_Sampling (slc_Spec s) mod 65536]
   \<and> map KeepEntrySampling (fst (slice_rules {} [sample_slice [] 65536])) = [0]"
  by (simp add: sample_slice_def to_uint16_def Let_def)

section \<open>Publication\<close>

lemma slice_setStatus_accepted:
  assumes "sapi_Get c n w = Inr fcs" and "sapi_StatusUpdate c (fcs\<lparr>slc_Status := f (slc_Status fcs)\<rparr>) w = (None, w')"
  shows "slice_setStatus c n f w = w'"
  using assms by (simp add: slice_setStatus_def DefaultBackoff_Steps_def numeral_eq_Suc)

lemma slice_setStatus_gone: "sapi_Get c n w = Inl NotFound \<Longrightarrow> slice_setStatus c n f w = w"
  by (simp add: slice_setStatus_def DefaultBackoff_Steps_def numeral_eq_Suc)

text \<open>
  An API server seen through the slices it stores: reading a slice finds it or reports it missing, and a
  status update of a stored slice is accepted and changes that slice only.
\<close>

definition slice_server :: "'w slice_api \<Rightarrow> ('w \<Rightarrow> nsname \<Rightarrow> FlowCollectorSlice option) \<Rightarrow> bool" where
  "slice_server c stored \<longleftrightarrow>
     (\<forall>w n. sapi_Get c n w = (case stored w n of None \<Rightarrow> Inl NotFound | Some s \<Rightarrow> Inr s))
     \<and> (\<forall>w s. stored w (nsname_of s) \<noteq> None \<longrightarrow>
          (\<exists>w'. sapi_StatusUpdate c s w = (None, w') \<and> stored w' = (stored w)(nsname_of s \<mapsto> s)))
     \<and> (\<forall>w n s. stored w n = Some s \<longrightarrow> nsname_of s = n)"

lemma slice_serverD:
  assumes "slice_server c stored"
  shows "sapi_Get c n w = (case stored w n of None \<Rightarrow> Inl NotFound | Some s \<Rightarrow> Inr s)"
    and "stored w (nsname_of s) \<noteq> None \<Longrightarrow>
      \<exists>w'. sapi_StatusUpdate c s w = (None, w') \<and> stored w' = (stored w)(nsname_of s \<mapsto> s)"
    and "stored w n = Some s \<Longrightarrow> nsname_of s = n"
  using assms unfolding slice_server_def by blast+

definition published :: "int \<Rightarrow> slice_statuses \<Rightarrow> FlowCollectorSlice \<Rightarrow> FlowCollectorSlice \<Rightarrow> FlowCollectorSlice" where
  "published now st item s = s\<lparr>slc_Status := apply_slice_status now st item (slc_Status s)\<rparr>"

lemma nsname_of_status [simp]: "nsname_of (s\<lparr>slc_Status := x\<rparr>) = nsname_of s"
  by (simp add: nsname_of_def)

lemma slice_setStatus_stored:
  assumes "slice_server c stored"
  shows "stored (slice_setStatus c (nsname_of item) (apply_slice_status now st item) w) =
    (\<lambda>n. if n = nsname_of item then map_option (published now st item) (stored w n) else stored w n)"
proof (cases "stored w (nsname_of item)")
  case None
  then have "sapi_Get c (nsname_of item) w = Inl NotFound" by (simp add: slice_serverD(1)[OF assms])
  with None show ?thesis by (auto simp: slice_setStatus_gone)
next
  case (Some s)
  let ?s = "published now st item s"
  have same: "nsname_of s = nsname_of item" and got: "sapi_Get c (nsname_of item) w = Inr s"
    using slice_serverD(3)[OF assms Some] Some by (simp_all add: slice_serverD(1)[OF assms])
  then have "stored w (nsname_of ?s) \<noteq> None" using Some by (simp add: published_def)
  then obtain w' where w': "sapi_StatusUpdate c ?s w = (None, w')" "stored w' = (stored w)(nsname_of ?s \<mapsto> ?s)"
    using slice_serverD(2)[OF assms] by blast
  then have "slice_setStatus c (nsname_of item) (apply_slice_status now st item) w = w'"
    using slice_setStatus_accepted[OF got] by (simp add: published_def)
  then show ?thesis using w'(2) same Some by (auto simp: published_def fun_eq_iff)
qed

lemma published_unreported: "mapStatuses st (nsname_of item) = None \<Longrightarrow> map_option (published now st item) x = x"
  by (cases x) (simp_all add: published_def apply_slice_status_def)

lemma Sync_other:
  assumes "slice_server c stored" and "n \<notin> nsname_of ` set items"
  shows "stored (slices_Sync now c st items w) n = stored w n"
  using assms(2) by (induction items arbitrary: w) (auto simp: slice_setStatus_stored[OF assms(1)] split: option.split)

text \<open>
  Publication of the slice statuses, on an API server that accepts status updates. Every stored slice of
  the list ends with the conditions recorded for it and its own filter and label count, whatever the order
  of the list; a slice that disappeared stays absent, and a slice out of the list is not written.
\<close>

theorem slices_Sync_publishes:
  assumes "slice_server c stored" and "distinct (map nsname_of items)"
  shows "(\<forall>item \<in> set items. stored (slices_Sync now c st items w) (nsname_of item) =
            map_option (published now st item) (stored w (nsname_of item)))
    \<and> (\<forall>n. n \<notin> nsname_of ` set items \<longrightarrow> stored (slices_Sync now c st items w) n = stored w n)"
proof (intro conjI)
  show "\<forall>item \<in> set items. stored (slices_Sync now c st items w) (nsname_of item) =
            map_option (published now st item) (stored w (nsname_of item))"
    using assms(2)
  proof (induction items arbitrary: w)
    case (Cons item items)
    let ?w = "case mapStatuses st (nsname_of item) of None \<Rightarrow> w
      | Some cond \<Rightarrow> slice_setStatus c (nsname_of item) (apply_slice_status now st item) w"
    have step: "stored ?w n = (if n = nsname_of item then map_option (published now st item) (stored w n) else stored w n)" for n
      by (cases "mapStatuses st (nsname_of item)")
         (auto simp: slice_setStatus_stored[OF assms(1)] published_unreported)
    have "nsname_of item \<notin> nsname_of ` set items" using Cons.prems by simp
    moreover have "nsname_of item' \<noteq> nsname_of item" if "item' \<in> set items" for item' using that Cons.prems by (auto simp: image_iff)
    ultimately show ?case using Cons.IH[of ?w] Cons.prems Sync_other[OF assms(1), of "nsname_of item" items now st ?w]
      by (auto simp: step)
  qed simp
qed (use Sync_other[OF assms(1)] in blast)

definition sample_slice_api :: "(nsname \<rightharpoonup> FlowCollectorSlice) slice_api" where
  "sample_slice_api = \<lparr>sapi_Get = (\<lambda>n w. case w n of Some s \<Rightarrow> if nsname_of s = n then Inr s else Inl NotFound | None \<Rightarrow> Inl NotFound),
     sapi_StatusUpdate = (\<lambda>s w. (None, w(nsname_of s \<mapsto> s)))\<rparr>"

definition sample_stored :: "(nsname \<rightharpoonup> FlowCollectorSlice) \<Rightarrow> nsname \<Rightarrow> FlowCollectorSlice option" where
  "sample_stored w n = (case w n of Some s \<Rightarrow> if nsname_of s = n then Some s else None | None \<Rightarrow> None)"

theorem slices_Sync_publishes_witness:
  "map_option (\<lambda>s. map cond_Type (fst_Conditions (slc_Status s)))
     (sample_stored (slices_Sync 7 sample_slice_api (slice_SetReady (sample_slice [] 5) (fst (slices_Reset [])))
        [sample_slice [] 5] [nsname_of (sample_slice [] 5) \<mapsto> sample_slice [] 5]) (nsname_of (sample_slice [] 5)))
   = Some [''Ready'']"
proof -
  have "sample_stored (w(nsname_of s \<mapsto> s)) = (sample_stored w)(nsname_of s \<mapsto> s)" for w s
    by (rule ext) (simp add: sample_stored_def)
  moreover have "sapi_Get sample_slice_api n w = (case sample_stored w n of None \<Rightarrow> Inl NotFound | Some s \<Rightarrow> Inr s)" for n w
    by (simp add: sample_slice_api_def sample_stored_def split: option.split)
  moreover have "sample_stored w n = Some s \<Longrightarrow> nsname_of s = n" for w n s
    by (auto simp: sample_stored_def split: option.splits if_splits)
  ultimately have "slice_server sample_slice_api sample_stored"
    unfolding slice_server_def by (auto simp only: sample_slice_api_def slice_api.simps)
  from slices_Sync_publishes[OF this, of "[sample_slice [] 5]" 7 "slice_SetReady (sample_slice [] 5) (fst (slices_Reset []))"]
  show ?thesis
    by (simp add: sample_stored_def published_def apply_slice_status_def slice_SetReady_def slices_Reset_def sample_slice_def
        RemoveStatusCondition_def mk_condition_def nsname_of_def)
qed

end
