(* ===== verification/Restart_Debouncer.thy ===== *)
theory Restart_Debouncer
  imports Prelude
begin

text \<open>
  \<open>internal/pkg/tlsconfig/restart_debouncer.go\<close>: the operator restarts to load a new TLS profile only
  when the profile has stayed unchanged for a quiet period. Two threads meet here, the observers of the
  profile and the loop of \<open>Start\<close>, so the model is a machine whose steps are the atomic sections of the
  code: \<open>Observe\<close> is two of them (the locked section, then the non-blocking send on a channel of capacity
  one), each case of the \<open>select\<close> in the loop is one, and time passes between any two. Any number of
  observers may stand between their two sections. A Go timer is absent, stopped, or set to a deadline; as
  of Go 1.23 its channel is ready exactly when a set deadline is due, and \<open>Stop\<close> and \<open>Reset\<close> leave no
  stale value behind. A profile is a value of an arbitrary type, compared by \<open>reflect.DeepEqual\<close>.
\<close>

section \<open>State\<close>

datatype go_timer = NilTimer | StoppedTimer | RunningTimer int

datatype loop_state = Selecting | Returned | RestartCalled

record 'p TLSProfileRestartDebouncer =
  deb_applied :: 'p
  deb_interval :: int
  deb_latest :: 'p
  deb_changedAt :: "int option"
  deb_changed :: bool
  deb_senders :: nat
  deb_timer :: go_timer
  deb_timerC :: bool
  deb_loop :: loop_state
  deb_now :: int

text \<open>
  \<open>changedAt\<close> is \<open>None\<close> for the zero time, \<open>changed\<close> says whether the channel holds a signal,
  \<open>senders\<close> counts the observers before their send, \<open>timerC\<close> says whether the variable is not nil.
\<close>

definition NewTLSProfileRestartDebouncer :: "'p \<Rightarrow> int \<Rightarrow> 'p TLSProfileRestartDebouncer" where
  "NewTLSProfileRestartDebouncer applied interval =
     \<lparr>deb_applied = applied, deb_interval = interval, deb_latest = applied, deb_changedAt = None,
      deb_changed = False, deb_senders = 0, deb_timer = NilTimer, deb_timerC = False, deb_loop = Selecting, deb_now = 0\<rparr>"

section \<open>Atomic sections\<close>

definition Observe_store :: "'p \<Rightarrow> 'p TLSProfileRestartDebouncer \<Rightarrow> 'p TLSProfileRestartDebouncer" where
  "Observe_store profile d =
     d\<lparr>deb_latest := profile, deb_changedAt := Some (deb_now d), deb_senders := deb_senders d + 1\<rparr>"

definition Observe_send :: "'p TLSProfileRestartDebouncer \<Rightarrow> 'p TLSProfileRestartDebouncer" where
  "Observe_send d = d\<lparr>deb_senders := deb_senders d - 1, deb_changed := True\<rparr>"

text \<open>The case of a signal: whether new, stopped or running, the timer ends up set to a full interval.\<close>

definition on_changed :: "'p TLSProfileRestartDebouncer \<Rightarrow> 'p TLSProfileRestartDebouncer" where
  "on_changed d =
     d\<lparr>deb_changed := False, deb_timer := RunningTimer (deb_now d + deb_interval d), deb_timerC := True\<rparr>"

text \<open>\<open>time.Since\<close> of the zero time exceeds every interval.\<close>

definition remaining :: "'p TLSProfileRestartDebouncer \<Rightarrow> int" where
  "remaining d = (case deb_changedAt d of None \<Rightarrow> 0 | Some t \<Rightarrow> deb_interval d - (deb_now d - t))"

definition on_timer :: "'p TLSProfileRestartDebouncer \<Rightarrow> 'p TLSProfileRestartDebouncer" where
  "on_timer d =
     (if remaining d > 0 then d\<lparr>deb_timer := RunningTimer (deb_now d + remaining d), deb_timerC := True\<rparr>
      else (let d = d\<lparr>deb_timer := StoppedTimer, deb_timerC := False\<rparr> in
            if deb_applied d = deb_latest d then d else d\<lparr>deb_loop := RestartCalled\<rparr>))"

definition timer_ready :: "'p TLSProfileRestartDebouncer \<Rightarrow> bool" where
  "timer_ready d = (deb_timerC d \<and> (case deb_timer d of RunningTimer t \<Rightarrow> t \<le> deb_now d | _ \<Rightarrow> False))"

text \<open>One step of the machine, \<open>None\<close> when the event cannot happen.\<close>

datatype 'p deb_event = Elapse nat | Store 'p | Send | CtxDone | Changed | Fired

fun deb_exec :: "'p deb_event \<Rightarrow> 'p TLSProfileRestartDebouncer \<Rightarrow> 'p TLSProfileRestartDebouncer option" where
  "deb_exec (Elapse t) d = Some (d\<lparr>deb_now := deb_now d + int t\<rparr>)"
| "deb_exec (Store p) d = Some (Observe_store p d)"
| "deb_exec Send d = (if deb_senders d > 0 then Some (Observe_send d) else None)"
| "deb_exec CtxDone d = (if deb_loop d = Selecting then Some (d\<lparr>deb_loop := Returned\<rparr>) else None)"
| "deb_exec Changed d = (if deb_loop d = Selecting \<and> deb_changed d then Some (on_changed d) else None)"
| "deb_exec Fired d = (if deb_loop d = Selecting \<and> timer_ready d then Some (on_timer d) else None)"

definition NeedLeaderElection :: bool where
  "NeedLeaderElection = False"

text \<open>The runs of the machine, with the events in order.\<close>

inductive deb_run :: "'p TLSProfileRestartDebouncer \<Rightarrow> 'p deb_event list \<Rightarrow> 'p TLSProfileRestartDebouncer \<Rightarrow> bool" where
  run_Nil: "deb_run d [] d"
| run_snoc: "deb_run d es d' \<Longrightarrow> deb_exec e d' = Some d'' \<Longrightarrow> deb_run d (es @ [e]) d''"

inductive_cases deb_run_NilE: "deb_run d [] d'"
inductive_cases deb_run_snocE: "deb_run d (es @ [e]) d'"

lemma deb_run_trans: "deb_run d' es' d'' \<Longrightarrow> deb_run d es d' \<Longrightarrow> deb_run d (es @ es') d''"
proof (induction rule: deb_run.induct)
  case (run_snoc d' es' d'' e d''')
  then have "deb_run d ((es @ es') @ [e]) d'''" by (blast intro: deb_run.run_snoc)
  then show ?case by simp
qed simp

lemma deb_run_single: "deb_exec e d = Some d' \<Longrightarrow> deb_run d [e] d'"
  using run_snoc[OF run_Nil] by fastforce

lemma deb_run_Cons: "deb_exec e d = Some d' \<Longrightarrow> deb_run d' es d'' \<Longrightarrow> deb_run d (e # es) d''"
  using deb_run_trans[OF _ deb_run_single] by fastforce

section \<open>What a run has observed\<close>

fun elapsed :: "'p deb_event list \<Rightarrow> int" where
  "elapsed [] = 0"
| "elapsed (Elapse t # es) = int t + elapsed es"
| "elapsed (_ # es) = elapsed es"

definition is_store :: "'p deb_event \<Rightarrow> bool" where
  "is_store e = (case e of Store _ \<Rightarrow> True | _ \<Rightarrow> False)"

lemma is_store_simps [simp]:
  "is_store (Store p)" "\<not> is_store (Elapse t)" "\<not> is_store Send" "\<not> is_store CtxDone" "\<not> is_store Changed" "\<not> is_store Fired"
  by (simp_all add: is_store_def)

lemma elapsed_append [simp]: "elapsed (es @ es') = elapsed es + elapsed es'"
  by (induction es rule: elapsed.induct) auto

lemma elapsed_nonneg: "0 \<le> elapsed es"
  by (induction es rule: elapsed.induct) auto

text \<open>Time moves only by elapsing, and the configuration never changes.\<close>

lemma deb_exec_frame:
  assumes "deb_exec e d = Some d'"
  shows "deb_applied d' = deb_applied d" and "deb_interval d' = deb_interval d" and "deb_now d' = deb_now d + elapsed [e]"
  using assms by (cases e; auto simp: Observe_store_def Observe_send_def on_changed_def on_timer_def Let_def split: if_splits)+

lemma deb_exec_quiet:
  "deb_exec e d = Some d' \<Longrightarrow> \<not> is_store e \<Longrightarrow> deb_latest d' = deb_latest d \<and> deb_changedAt d' = deb_changedAt d"
  by (cases e) (auto simp: Observe_send_def on_changed_def on_timer_def Let_def split: if_splits)

lemma deb_run_frame:
  assumes "deb_run d es d'"
  shows "deb_applied d' = deb_applied d" and "deb_interval d' = deb_interval d" and "deb_now d' = deb_now d + elapsed es"
  using assms by (induction rule: deb_run.induct) (simp_all add: deb_exec_frame)

text \<open>The last observation of a run, with the time elapsed since.\<close>

definition last_observed :: "'p deb_event list \<Rightarrow> 'p \<Rightarrow> int \<Rightarrow> bool" where
  "last_observed es p age \<longleftrightarrow> (\<exists>es1 es2. es = es1 @ Store p # es2 \<and> list_all (\<lambda>e. \<not> is_store e) es2 \<and> elapsed es2 = age)"

lemma last_observed_snoc:
  "last_observed es p age \<Longrightarrow> \<not> is_store e \<Longrightarrow> last_observed (es @ [e]) p (age + elapsed [e])"
  unfolding last_observed_def
proof (elim exE conjE)
  fix es1 es2
  assume "\<not> is_store e" and "es = es1 @ Store p # es2" and "list_all (\<lambda>e. \<not> is_store e) es2" and "elapsed es2 = age"
  then show "\<exists>es1 es2'. es @ [e] = es1 @ Store p # es2' \<and> list_all (\<lambda>e. \<not> is_store e) es2' \<and> elapsed es2' = age + elapsed [e]"
    by (intro exI[of _ es1] exI[of _ "es2 @ [e]"]) simp
qed

lemma last_observed_Store: "last_observed (es @ [Store p]) p 0"
  unfolding last_observed_def by (rule exI[of _ es], rule exI[of _ "[]"]) simp

lemma run_last_observed:
  assumes "deb_run d es d'" and "deb_changedAt d = None"
  shows "case deb_changedAt d' of None \<Rightarrow> deb_latest d' = deb_latest d | Some t \<Rightarrow> last_observed es (deb_latest d') (deb_now d' - t)"
  using assms
proof (induction rule: deb_run.induct)
  case (run_snoc d es d' e d'')
  show ?case
  proof (cases "is_store e")
    case True
    then obtain p where e: "e = Store p" by (cases e) auto
    with run_snoc.hyps(2) have "deb_latest d'' = p" "deb_changedAt d'' = Some (deb_now d'')" by (auto simp: Observe_store_def)
    with e last_observed_Store[of es p] show ?thesis by simp
  next
    case False
    note same = deb_exec_quiet[OF run_snoc.hyps(2) False] deb_exec_frame(3)[OF run_snoc.hyps(2)]
    show ?thesis
    proof (cases "deb_changedAt d'")
      case (Some t)
      then have "last_observed es (deb_latest d') (deb_now d' - t)" using run_snoc by simp
      from last_observed_snoc[OF this False] show ?thesis using same Some by (simp add: algebra_simps)
    qed (use same run_snoc in auto)
  qed
qed simp

section \<open>Safety\<close>

text \<open>
  C25: a restart is requested only for a stable change. In every run that ends with the request, the last
  profile observed differs from the one the servers were started with, and no profile was observed during
  the quiet period before the request, however the observers and the loop were interleaved.
\<close>

theorem restart_only_when_stable:
  assumes "deb_run (NewTLSProfileRestartDebouncer applied interval) es d" and "deb_loop d = Selecting"
    and "deb_exec e d = Some d'" and "deb_loop d' = RestartCalled"
  shows "\<exists>p age. last_observed es p age \<and> p \<noteq> applied \<and> age \<ge> interval"
proof -
  note frame = deb_run_frame[OF assms(1)]
  have e: "e = Fired" "\<not> remaining d > 0" "deb_applied d \<noteq> deb_latest d"
    using assms(2-4) by (cases e; auto simp: Observe_store_def Observe_send_def on_changed_def on_timer_def Let_def split: if_splits)+
  have applied: "deb_applied d = applied" "deb_interval d = interval"
    using frame by (simp_all add: NewTLSProfileRestartDebouncer_def)
  have hist: "case deb_changedAt d of None \<Rightarrow> deb_latest d = applied | Some t \<Rightarrow> last_observed es (deb_latest d) (deb_now d - t)"
    using run_last_observed[OF assms(1)] by (simp add: NewTLSProfileRestartDebouncer_def split: option.splits)
  then obtain t where "deb_changedAt d = Some t" using e applied by (cases "deb_changedAt d") auto
  then have "last_observed es (deb_latest d) (deb_now d - t)" "deb_latest d \<noteq> applied" "deb_now d - t \<ge> interval"
    using hist e applied by (auto simp: remaining_def)
  then show ?thesis by blast
qed

theorem restart_only_when_stable_witness:
  "\<exists>p age. last_observed [Store (2 :: nat), Send, Changed, Elapse 30] p age \<and> p \<noteq> 1 \<and> age \<ge> 30"
proof -
  let ?d = "NewTLSProfileRestartDebouncer (1 :: nat) 30"
  let ?es = "[Store 2, Send, Changed, Elapse 30]"
  obtain d where "deb_run ?d ?es d" "deb_loop d = Selecting" "deb_exec Fired d \<noteq> None" "deb_loop (the (deb_exec Fired d)) = RestartCalled"
    by (rule that[OF deb_run_Cons[OF _ deb_run_Cons[OF _ deb_run_Cons[OF _ deb_run_single]]]])
       (auto simp: NewTLSProfileRestartDebouncer_def Observe_store_def Observe_send_def on_changed_def on_timer_def
          timer_ready_def remaining_def Let_def)
  then show ?thesis using restart_only_when_stable[of 1 30 ?es d Fired] by fastforce
qed

section \<open>Progress\<close>

text \<open>
  No wake-up is lost: while the latest profile differs from the applied one, an observer is about to send,
  a signal waits in the channel, or the timer is set, at most one interval ahead.
\<close>

definition wakeup_pending :: "'p TLSProfileRestartDebouncer \<Rightarrow> bool" where
  "wakeup_pending d \<longleftrightarrow> deb_senders d > 0 \<or> deb_changed d
     \<or> (deb_timerC d \<and> (\<exists>t. deb_timer d = RunningTimer t \<and> t \<le> deb_now d + deb_interval d))"

definition deb_inv :: "'p TLSProfileRestartDebouncer \<Rightarrow> bool" where
  "deb_inv d \<longleftrightarrow> deb_interval d \<ge> 0 \<and> (\<forall>t. deb_changedAt d = Some t \<longrightarrow> t \<le> deb_now d)
     \<and> (deb_loop d = Selecting \<longrightarrow> deb_latest d \<noteq> deb_applied d \<longrightarrow> wakeup_pending d)"

lemma deb_exec_inv: "deb_inv d \<Longrightarrow> deb_exec e d = Some d' \<Longrightarrow> deb_inv d'"
  by (cases e; fastforce simp: deb_inv_def wakeup_pending_def Observe_store_def Observe_send_def on_changed_def
      on_timer_def timer_ready_def remaining_def Let_def split: if_splits option.splits go_timer.splits)

lemma deb_run_inv: "deb_run d es d' \<Longrightarrow> deb_inv d \<Longrightarrow> deb_inv d'"
  by (induction rule: deb_run.induct) (auto intro: deb_exec_inv)

text \<open>A schedule without observations and cancellation.\<close>

definition undisturbed :: "'p deb_event list \<Rightarrow> bool" where
  "undisturbed = list_all (\<lambda>e. \<not> is_store e \<and> e \<noteq> CtxDone)"

definition restarts_within :: "int \<Rightarrow> 'p TLSProfileRestartDebouncer \<Rightarrow> bool" where
  "restarts_within t d \<longleftrightarrow> (\<exists>es d'. undisturbed es \<and> elapsed es \<le> t \<and> deb_run d es d' \<and> deb_loop d' = RestartCalled)"

lemma restarts_step:
  assumes "deb_exec e d = Some d'" and "restarts_within t d'" and "\<not> is_store e" and "e \<noteq> CtxDone"
  shows "restarts_within (t + elapsed [e]) d"
proof -
  obtain es d'' where es: "undisturbed es" "elapsed es \<le> t" "deb_run d' es d''" "deb_loop d'' = RestartCalled"
    using assms(2) unfolding restarts_within_def by blast
  have "undisturbed (e # es)" "elapsed (e # es) \<le> t + elapsed [e]"
    using es assms(3,4) elapsed_append[of "[e]" es] by (simp_all add: undisturbed_def)
  then show ?thesis using deb_run_Cons[OF assms(1) es(3)] es(4) unfolding restarts_within_def by blast
qed

lemma restarts_mono: "restarts_within t d \<Longrightarrow> t \<le> t' \<Longrightarrow> restarts_within t' d"
  unfolding restarts_within_def by (blast intro: order_trans)

text \<open>The timer fires when its deadline is due and the quiet period is over.\<close>

lemma restarts_due:
  assumes "deb_loop d = Selecting" and "deb_timerC d" and "deb_timer d = RunningTimer t" and "t \<le> deb_now d"
    and "remaining d \<le> 0" and "deb_latest d \<noteq> deb_applied d"
  shows "restarts_within 0 d"
proof -
  have "deb_run d [Fired] (on_timer d)" by (rule deb_run_single) (simp add: timer_ready_def assms)
  moreover have "deb_loop (on_timer d) = RestartCalled" using assms by (simp add: on_timer_def Let_def)
  ultimately show ?thesis unfolding restarts_within_def
    by (intro exI[of _ "[Fired]"] exI[of _ "on_timer d"]) (simp add: undisturbed_def)
qed

lemma restarts_armed:
  assumes "deb_loop d = Selecting" and "deb_timerC d" and "deb_timer d = RunningTimer t" and "t \<le> deb_now d + deb_interval d"
    and "deb_changedAt d = Some c" and "c \<le> deb_now d" and "deb_interval d \<ge> 0" and "deb_latest d \<noteq> deb_applied d"
  shows "restarts_within (deb_interval d) d"
proof -
  let ?w = "max t (deb_now d)" let ?d = "d\<lparr>deb_now := ?w\<rparr>"
  let ?r = "c + deb_interval d"
  have wait: "deb_exec (Elapse (nat (?w - deb_now d))) d = Some ?d" by simp
  have "restarts_within (max 0 (?r - ?w)) ?d"
  proof (cases "?r \<le> ?w")
    case True
    then have "restarts_within 0 ?d"
      by (intro restarts_due[of ?d t]) (use assms in \<open>simp_all add: remaining_def\<close>)
    then show ?thesis by (rule restarts_mono) simp
  next
    case False
    let ?e = "?d\<lparr>deb_timer := RunningTimer ?r, deb_timerC := True\<rparr>"
    have fired: "deb_exec Fired ?d = Some ?e"
      using assms False by (simp add: timer_ready_def on_timer_def remaining_def)
    have "restarts_within 0 (?e\<lparr>deb_now := ?r\<rparr>)"
      by (intro restarts_due[of _ ?r]) (use assms in \<open>simp_all add: remaining_def\<close>)
    moreover have "deb_exec (Elapse (nat (?r - ?w))) ?e = Some (?e\<lparr>deb_now := ?r\<rparr>)" using False by auto
    ultimately have "restarts_within (0 + elapsed [Elapse (nat (?r - ?w)) :: 'a deb_event]) ?e" by (intro restarts_step) auto
    moreover have "elapsed [Elapse (nat (?r - ?w)) :: 'a deb_event] = ?r - ?w" using False by auto
    ultimately have "restarts_within (?r - ?w) ?e" by (simp only: add_0)
    from restarts_step[OF fired this] have "restarts_within (?r - ?w) ?d" by simp
    then show ?thesis by (rule restarts_mono) simp
  qed
  from restarts_step[OF wait this]
  have "restarts_within (max 0 (?r - ?w) + elapsed [Elapse (nat (?w - deb_now d)) :: 'a deb_event]) d" by simp
  then have "restarts_within (max 0 (?r - ?w) + (?w - deb_now d)) d" by (simp only: elapsed.simps) simp
  then show ?thesis by (rule restarts_mono) (use assms in auto)
qed

lemma restarts_signalled:
  assumes "deb_loop d = Selecting" and "deb_changed d"
    and "deb_changedAt d = Some c" and "c \<le> deb_now d" and "deb_interval d \<ge> 0" and "deb_latest d \<noteq> deb_applied d"
  shows "restarts_within (deb_interval d) d"
proof -
  have "deb_exec Changed d = Some (on_changed d)" using assms by simp
  moreover have "restarts_within (deb_interval (on_changed d)) (on_changed d)"
    by (rule restarts_armed[where t = "deb_now d + deb_interval d" and c = c]) (use assms in \<open>simp_all add: on_changed_def\<close>)
  ultimately have "restarts_within (deb_interval (on_changed d) + elapsed [Changed :: 'a deb_event]) d" by (intro restarts_step) auto
  then show ?thesis by (simp add: on_changed_def)
qed



end
