(* ===== verification/Advanced_Config.thy ===== *)
theory Advanced_Config
  imports FC_Helper
begin

text \<open>
  The settings of the \<open>advanced\<close> sections with their defaults filled in, the record types of conversation
  tracking and the namespace of the operands: the part of \<open>internal/pkg/helper/flowcollector.go\<close> that reads
  the FlowCollector. The defaults written in the resource definition, parsed at start, are an argument.
\<close>

section \<open>Defaults of the resource definition\<close>

record crd_defaults =
  GetFieldDefaultInt32 :: "string list \<Rightarrow> string \<Rightarrow> int"
  GetFieldDefaultBool :: "string list \<Rightarrow> string \<Rightarrow> bool"
  GetFieldDefaultDuration :: "string list \<Rightarrow> string \<Rightarrow> duration"
  GetFieldDefaultMapString :: "string list \<Rightarrow> string \<Rightarrow> string_map"

definition ProcessorAdvancedPath :: "string list" where
  "ProcessorAdvancedPath = [''spec'', ''processor'', ''advanced'']"

definition PluginAdvancedPath :: "string list" where
  "PluginAdvancedPath = [''spec'', ''consolePlugin'', ''advanced'']"

definition LokiAdvancedPath :: "string list" where
  "LokiAdvancedPath = [''spec'', ''loki'', ''advanced'']"

section \<open>Record types\<close>

datatype ConnTrackOutputRecordType = ConnTrackFlowLog | ConnTrackNewConnection | ConnTrackHeartbeat | ConnTrackEndConnection

definition GetRecordTypes :: "FlowCollectorFLP \<Rightarrow> ConnTrackOutputRecordType list" where
  "GetRecordTypes p =
     (case flp_LogTypes p of
        Some LogTypeFlows \<Rightarrow> [ConnTrackFlowLog]
      | Some LogTypeConversations \<Rightarrow> [ConnTrackNewConnection, ConnTrackHeartbeat, ConnTrackEndConnection]
      | Some LogTypeEndedConversations \<Rightarrow> [ConnTrackEndConnection]
      | Some LogTypeAll \<Rightarrow> [ConnTrackFlowLog, ConnTrackNewConnection, ConnTrackHeartbeat, ConnTrackEndConnection]
      | None \<Rightarrow> [ConnTrackFlowLog])"

definition PtrBool :: "bool option \<Rightarrow> bool" where
  "PtrBool b = (case b of None \<Rightarrow> False | Some v \<Rightarrow> v)"

definition PtrInt32 :: "int option \<Rightarrow> int" where
  "PtrInt32 i = (case i of None \<Rightarrow> 0 | Some v \<Rightarrow> v)"

section \<open>Advanced settings\<close>

text \<open>A pointer kept unless the user's is set, and a string kept unless the user's is not empty.\<close>

definition override :: "'a option \<Rightarrow> 'a option \<Rightarrow> 'a option" where
  "override d u = (case u of None \<Rightarrow> d | Some v \<Rightarrow> Some v)"

definition override_str :: "string \<Rightarrow> string \<Rightarrow> string" where
  "override_str d u = (if length u > 0 then u else d)"

definition override_env :: "string_map \<Rightarrow> string_map \<Rightarrow> string_map" where
  "override_env d u = (if u \<noteq> Map.empty then u else d)"

definition override_port :: "int option \<Rightarrow> int option \<Rightarrow> int option" where
  "override_port d u = (case u of None \<Rightarrow> d | Some p \<Rightarrow> if p > 0 then Some p else d)"

definition default_scheduling :: "Toleration list option \<Rightarrow> SchedulingConfig" where
  "default_scheduling t = \<lparr>sched_Tolerations = t, sched_NodeSelector = Some Map.empty, sched_Affinity = None, sched_PriorityClassName = []\<rparr>"

definition override_scheduling :: "SchedulingConfig \<Rightarrow> SchedulingConfig option \<Rightarrow> SchedulingConfig" where
  "override_scheduling d u =
     (case u of None \<Rightarrow> d
      | Some s \<Rightarrow> \<lparr>sched_Tolerations = override (sched_Tolerations d) (sched_Tolerations s),
                  sched_NodeSelector = override (sched_NodeSelector d) (sched_NodeSelector s),
                  sched_Affinity = override (sched_Affinity d) (sched_Affinity s),
                  sched_PriorityClassName = override_str (sched_PriorityClassName d) (sched_PriorityClassName s)\<rparr>)"

definition toleration_exists :: Toleration where
  "toleration_exists = \<lparr>tol_Key = [], tol_Operator = ''Exists'', tol_Value = [], tol_Effect = [], tol_TolerationSeconds = None\<rparr>"

definition GetAdvancedAgentConfig :: "AdvancedAgentConfig option \<Rightarrow> AdvancedAgentConfig" where
  "GetAdvancedAgentConfig specConfig =
     (let cfg = \<lparr>aac_Env = Map.empty, aac_Scheduling = Some (default_scheduling (Some [toleration_exists])), aac_CapOverride = []\<rparr> in
      case specConfig of None \<Rightarrow> cfg
      | Some u \<Rightarrow> cfg\<lparr>aac_Env := override_env Map.empty (aac_Env u),
                     aac_Scheduling := Some (override_scheduling (default_scheduling (Some [toleration_exists])) (aac_Scheduling u))\<rparr>)"

definition GetAdvancedProcessorConfig :: "crd_defaults \<Rightarrow> FlowCollectorSpec \<Rightarrow> AdvancedProcessorConfig" where
  "GetAdvancedProcessorConfig D spec =
     (let sched = default_scheduling (if UseHostNetwork spec then Some [toleration_exists] else None);
          cfg = \<lparr>apc_Env = Map.empty,
                 apc_Port = Some (GetFieldDefaultInt32 D ProcessorAdvancedPath ''port''),
                 apc_HealthPort = Some (GetFieldDefaultInt32 D ProcessorAdvancedPath ''healthPort''),
                 apc_ProfilePort = None,
                 apc_EnableKubeProbes = Some (GetFieldDefaultBool D ProcessorAdvancedPath ''enableKubeProbes''),
                 apc_DropUnusedFields = None,
                 apc_ConversationHeartbeatInterval = Some (GetFieldDefaultDuration D ProcessorAdvancedPath ''conversationHeartbeatInterval''),
                 apc_ConversationEndTimeout = Some (GetFieldDefaultDuration D ProcessorAdvancedPath ''conversationEndTimeout''),
                 apc_ConversationTerminatingTimeout = Some (GetFieldDefaultDuration D ProcessorAdvancedPath ''conversationTerminatingTimeout''),
                 apc_Scheduling = Some sched, apc_SecondaryNetworks = []\<rparr>
      in case flp_Advanced (spec_Processor spec) of None \<Rightarrow> cfg
         | Some u \<Rightarrow> cfg\<lparr>apc_Env := override_env Map.empty (apc_Env u),
                        apc_Port := override_port (apc_Port cfg) (apc_Port u),
                        apc_HealthPort := override (apc_HealthPort cfg) (apc_HealthPort u),
                        apc_ProfilePort := override (apc_ProfilePort cfg) (apc_ProfilePort u),
                        apc_EnableKubeProbes := override (apc_EnableKubeProbes cfg) (apc_EnableKubeProbes u),
                        apc_ConversationHeartbeatInterval := override (apc_ConversationHeartbeatInterval cfg) (apc_ConversationHeartbeatInterval u),
                        apc_ConversationEndTimeout := override (apc_ConversationEndTimeout cfg) (apc_ConversationEndTimeout u),
                        apc_ConversationTerminatingTimeout := override (apc_ConversationTerminatingTimeout cfg) (apc_ConversationTerminatingTimeout u),
                        apc_Scheduling := Some (override_scheduling sched (apc_Scheduling u))\<rparr>)"

definition GetAdvancedLokiConfig :: "crd_defaults \<Rightarrow> AdvancedLokiConfig option \<Rightarrow> AdvancedLokiConfig" where
  "GetAdvancedLokiConfig D specConfig =
     (let cfg = \<lparr>alc_WriteMinBackoff = Some (GetFieldDefaultDuration D LokiAdvancedPath ''writeMinBackoff''),
                 alc_WriteMaxBackoff = Some (GetFieldDefaultDuration D LokiAdvancedPath ''writeMaxBackoff''),
                 alc_WriteMaxRetries = Some (GetFieldDefaultInt32 D LokiAdvancedPath ''writeMaxRetries''),
                 alc_StaticLabels = Some (GetFieldDefaultMapString D LokiAdvancedPath ''staticLabels''),
                 alc_ExcludeLabels = []\<rparr>
      in case specConfig of None \<Rightarrow> cfg
         | Some u \<Rightarrow> cfg\<lparr>alc_WriteMinBackoff := override (alc_WriteMinBackoff cfg) (alc_WriteMinBackoff u),
                        alc_WriteMaxBackoff := override (alc_WriteMaxBackoff cfg) (alc_WriteMaxBackoff u),
                        alc_WriteMaxRetries := override (alc_WriteMaxRetries cfg) (alc_WriteMaxRetries u),
                        alc_StaticLabels := override (alc_StaticLabels cfg) (alc_StaticLabels u)\<rparr>)"

definition GetAdvancedPluginConfig :: "crd_defaults \<Rightarrow> AdvancedPluginConfig option \<Rightarrow> AdvancedPluginConfig" where
  "GetAdvancedPluginConfig D specConfig =
     (let cfg = \<lparr>aplug_Env = Map.empty, aplug_Args = [],
                 aplug_Register = Some (GetFieldDefaultBool D PluginAdvancedPath ''register''),
                 aplug_Port = Some (GetFieldDefaultInt32 D PluginAdvancedPath ''port''),
                 aplug_Scheduling = Some (default_scheduling None)\<rparr>
      in case specConfig of None \<Rightarrow> cfg
         | Some u \<Rightarrow> cfg\<lparr>aplug_Env := override_env Map.empty (aplug_Env u),
                        aplug_Args := (if length (aplug_Args u) > 0 then aplug_Args u else []),
                        aplug_Register := override (aplug_Register cfg) (aplug_Register u),
                        aplug_Port := override_port (aplug_Port cfg) (aplug_Port u),
                        aplug_Scheduling := Some (override_scheduling (default_scheduling None) (aplug_Scheduling u))\<rparr>)"

text \<open>\<open>defaultNs\<close> is the operator's start option for the namespace of the operands.\<close>

definition GetOperandsNamespace :: "FlowCollectorSpec \<Rightarrow> string \<Rightarrow> string" where
  "GetOperandsNamespace fc defaultNs =
     (if spec_Namespace fc \<noteq> [] then spec_Namespace fc else if defaultNs \<noteq> [] then defaultNs else ''netobserv'')"

section \<open>The settings are complete\<close>

lemma override_None [simp]: "override (Some d) u \<noteq> None"
  by (cases u) (simp_all add: override_def)

lemma override_port_positive: "d > 0 \<Longrightarrow> \<exists>p > 0. override_port (Some d) u = Some p"
  by (cases u) (simp_all add: override_port_def)

definition complete_scheduling :: "SchedulingConfig option \<Rightarrow> bool" where
  "complete_scheduling s = (case s of None \<Rightarrow> False | Some c \<Rightarrow> sched_NodeSelector c \<noteq> None)"

lemma complete_override [simp]: "complete_scheduling (Some (override_scheduling (default_scheduling t) u))"
  by (cases u) (simp_all add: complete_scheduling_def override_scheduling_def default_scheduling_def override_def split: option.split)

lemma complete_default [simp]: "complete_scheduling (Some (default_scheduling t))"
  by (simp add: complete_scheduling_def default_scheduling_def)


definition sample_defaults :: crd_defaults where
  "sample_defaults = \<lparr>GetFieldDefaultInt32 = (\<lambda>_ f. if f = ''port'' then 2055 else 8080), GetFieldDefaultBool = (\<lambda>_ _. True),
     GetFieldDefaultDuration = (\<lambda>_ _. 30000000000), GetFieldDefaultMapString = (\<lambda>_ _. [''app'' \<mapsto> ''netobserv-flowcollector''])\<rparr>"


end
