(* ===== verification/Change_Detection.thy ===== *)
theory Change_Detection
  imports FC_Helper
begin

text \<open>
  Detection of changes in deployed objects: \<open>internal/pkg/helper/comparators.go\<close>, the report of
  \<open>change_report.go\<close> and \<open>IsSubSet\<close> of \<open>helpers.go\<close>, with \<open>DeepDerivative\<close> and \<open>DeepEqual\<close> of
  apimachinery on a universe of Go values. A Go map is an association list in iteration order. The parts of
  Kubernetes objects that are only compared as a whole are Go values. The report, a pointer the functions
  append to, is threaded; \<open>None\<close> stands for a nil pointer.
\<close>

section \<open>Go values and their comparison\<close>

text \<open>
  \<open>GNil\<close> is a nil pointer or interface; nil and empty slices and maps are not distinguished, as neither
  function does; a quantity is compared by value. A struct is the list of its fields.
\<close>

datatype go_value =
  GBool bool | GNum int | GStr string | GQuantity int | GNil | GPtr go_value
| GSlice "go_value list" | GMap "(string \<times> go_value) list" | GStruct "go_value list"

fun deepDerivative :: "go_value \<Rightarrow> go_value \<Rightarrow> bool"
  and derive_all :: "go_value list \<Rightarrow> go_value list \<Rightarrow> bool"
  and derive_map :: "(string \<times> go_value) list \<Rightarrow> (string \<times> go_value) list \<Rightarrow> bool" where
  "deepDerivative (GBool a) v = (v = GBool a)"
| "deepDerivative (GNum a) v = (v = GNum a)"
| "deepDerivative (GQuantity a) v = (v = GQuantity a)"
| "deepDerivative (GStr a) v = (case v of GStr b \<Rightarrow> a = [] \<or> a = b | _ \<Rightarrow> False)"
| "deepDerivative GNil v = (case v of GNil \<Rightarrow> True | GPtr _ \<Rightarrow> True | _ \<Rightarrow> False)"
| "deepDerivative (GPtr a) v = (case v of GPtr b \<Rightarrow> deepDerivative a b | _ \<Rightarrow> False)"
| "deepDerivative (GSlice as) v = (case v of GSlice bs \<Rightarrow> derive_all as bs | _ \<Rightarrow> False)"
| "deepDerivative (GMap as) v = (case v of GMap bs \<Rightarrow> as = [] \<or> length as \<le> length bs \<and> derive_map as bs | _ \<Rightarrow> False)"
| "deepDerivative (GStruct as) v = (case v of GStruct bs \<Rightarrow> length as = length bs \<and> derive_all as bs | _ \<Rightarrow> False)"
| "derive_all [] bs = True"
| "derive_all (a # as) [] = False"
| "derive_all (a # as) (b # bs) = (deepDerivative a b \<and> derive_all as bs)"
| "derive_map [] bs = True"
| "derive_map ((k, a) # as) bs = ((case map_of bs k of None \<Rightarrow> False | Some b \<Rightarrow> deepDerivative a b) \<and> derive_map as bs)"

fun deepEqual :: "go_value \<Rightarrow> go_value \<Rightarrow> bool"
  and equal_all :: "go_value list \<Rightarrow> go_value list \<Rightarrow> bool"
  and equal_map :: "(string \<times> go_value) list \<Rightarrow> (string \<times> go_value) list \<Rightarrow> bool" where
  "deepEqual (GBool a) v = (v = GBool a)"
| "deepEqual (GNum a) v = (v = GNum a)"
| "deepEqual (GQuantity a) v = (v = GQuantity a)"
| "deepEqual (GStr a) v = (v = GStr a)"
| "deepEqual GNil v = (v = GNil)"
| "deepEqual (GPtr a) v = (case v of GPtr b \<Rightarrow> deepEqual a b | _ \<Rightarrow> False)"
| "deepEqual (GSlice as) v = (case v of GSlice bs \<Rightarrow> length as = length bs \<and> equal_all as bs | _ \<Rightarrow> False)"
| "deepEqual (GMap as) v = (case v of GMap bs \<Rightarrow> length as = length bs \<and> equal_map as bs | _ \<Rightarrow> False)"
| "deepEqual (GStruct as) v = (case v of GStruct bs \<Rightarrow> length as = length bs \<and> equal_all as bs | _ \<Rightarrow> False)"
| "equal_all [] bs = True"
| "equal_all (a # as) [] = False"
| "equal_all (a # as) (b # bs) = (deepEqual a b \<and> equal_all as bs)"
| "equal_map [] bs = True"
| "equal_map ((k, a) # as) bs = ((case map_of bs k of None \<Rightarrow> False | Some b \<Rightarrow> deepEqual a b) \<and> equal_map as bs)"

section \<open>Labels and annotations\<close>

type_synonym go_map = "(string \<times> string) list"

fun IsSubSet :: "go_map \<Rightarrow> go_map \<Rightarrow> bool" where
  "IsSubSet s [] = True"
| "IsSubSet s ((k, v) # sub) =
     (case map_of s k of None \<Rightarrow> False | Some sv \<Rightarrow> if v \<noteq> sv then False else IsSubSet s sub)"

definition str_map :: "go_map \<Rightarrow> go_value" where
  "str_map m = GMap (map (\<lambda>(k, v). (k, GStr v)) m)"

text \<open>\<open>m[k]\<close> with the empty string for an absent key.\<close>

definition go_lookup :: "go_map \<Rightarrow> string \<Rightarrow> string" where
  "go_lookup m k = (case map_of m k of None \<Rightarrow> [] | Some v \<Rightarrow> v)"

section \<open>Change report\<close>

record ChangeReport =
  cr_title :: string
  cr_report :: "string list"

definition NewChangeReport :: "string \<Rightarrow> ChangeReport" where
  "NewChangeReport title = \<lparr>cr_title = title, cr_report = []\<rparr>"

definition report_Add :: "string \<Rightarrow> ChangeReport \<Rightarrow> ChangeReport" where
  "report_Add msg r = r\<lparr>cr_report := cr_report r @ [msg]\<rparr>"

text \<open>\<open>Check\<close>, and the Go disjunction of two checks, which does not evaluate the second after a hit.\<close>

type_synonym check = "ChangeReport \<Rightarrow> bool \<times> ChangeReport"

definition report_Check :: "string \<Rightarrow> bool \<Rightarrow> check" where
  "report_Check msg change r = (change, if change then report_Add msg r else r)"

definition check_or :: "check \<Rightarrow> check \<Rightarrow> check" where
  "check_or f g r = (case f r of (True, r') \<Rightarrow> (True, r') | (False, r') \<Rightarrow> g r')"

definition check_named :: "string \<Rightarrow> check \<Rightarrow> check" where
  "check_named msg f r = (case f r of (b, r') \<Rightarrow> report_Check msg b r')"

definition report_String :: "ChangeReport \<Rightarrow> string" where
  "report_String r = cr_title r @ '':'' @
     (if cr_report r \<noteq> [] then concat (map (\<lambda>s. ''<'' @ s) (cr_report r)) else ''no change'')"

section \<open>Pods\<close>

record Container =
  ct_Name :: string
  ct_Image :: string
  ct_ImagePullPolicy :: string
  ct_Args :: "string list"
  ct_Resources :: go_value
  ct_Env :: go_value
  ct_LivenessProbe :: "go_value option"
  ct_StartupProbe :: "go_value option"
  ct_Capabilities :: "go_value option option"

text \<open>The last field is the security context with its capabilities.\<close>

record PodTemplateSpec =
  pt_Annotations :: "go_map option"
  pt_NodeSelector :: go_map
  pt_Tolerations :: "Toleration list"
  pt_Affinity :: go_value
  pt_PriorityClassName :: string
  pt_Volumes :: go_value
  pt_Containers :: "Container list"

fun domain_annotation_changed :: "go_map \<Rightarrow> go_map \<Rightarrow> check" where
  "domain_annotation_changed [] n r = (False, r)"
| "domain_annotation_changed ((k, v) # old) n r =
     (if has_prefix k ''flows.netobserv.io'' \<and> go_lookup n k \<noteq> v
      then (True, report_Add (''Annotation changed: '' @ [CHR 0x27] @ k @ '': '' @ v @ [CHR 0x27]) r)
      else domain_annotation_changed old n r)"

definition annotationsChanged :: "PodTemplateSpec \<Rightarrow> PodTemplateSpec \<Rightarrow> check" where
  "annotationsChanged old n r =
     (case (pt_Annotations old, pt_Annotations n) of
        (None, None) \<Rightarrow> (False, r)
      | (None, Some _) \<Rightarrow> (True, report_Add ''New annotations, previously none'' r)
      | (Some m, m') \<Rightarrow> domain_annotation_changed m (case m' of None \<Rightarrow> [] | Some m' \<Rightarrow> m') r)"

definition volumesChanged :: "PodTemplateSpec \<Rightarrow> PodTemplateSpec \<Rightarrow> check" where
  "volumesChanged old n = report_Check ''Volumes changed'' (\<not> deepDerivative (pt_Volumes n) (pt_Volumes old))"

definition assignationChanged :: "PodTemplateSpec \<Rightarrow> PodTemplateSpec \<Rightarrow> check" where
  "assignationChanged old n r =
     (if \<not> deepEqual (str_map (pt_NodeSelector n)) (str_map (pt_NodeSelector old)) then (True, report_Add ''NodeSelector changed'' r)
      else if pt_Tolerations n \<noteq> pt_Tolerations old then (True, report_Add ''Toleration changed'' r)
      else if \<not> deepDerivative (pt_Affinity n) (pt_Affinity old) then (True, report_Add ''Affinity changed'' r)
      else if pt_PriorityClassName n \<noteq> pt_PriorityClassName old then (True, report_Add ''PriorityClassName changed'' r)
      else (False, r))"

definition probeChanged :: "go_value option \<Rightarrow> go_value option \<Rightarrow> bool" where
  "probeChanged old n \<longleftrightarrow> (old = None \<and> n \<noteq> None) \<or> (old \<noteq> None \<and> n = None)"

definition containerChanged :: "Container \<Rightarrow> Container \<Rightarrow> check" where
  "containerChanged old n =
     check_or (report_Check ''Image changed'' (ct_Image n \<noteq> ct_Image old))
     (check_or (report_Check ''Pull policy changed'' (ct_ImagePullPolicy n \<noteq> [] \<and> ct_ImagePullPolicy n \<noteq> ct_ImagePullPolicy old))
     (check_or (report_Check ''Args changed'' (ct_Args n \<noteq> ct_Args old))
     (check_or (report_Check ''Resources req/limit changed'' (\<not> deepDerivative (ct_Resources n) (ct_Resources old)))
     (check_or (report_Check ''Env changed'' (\<not> deepEqual (ct_Env n) (ct_Env old)))
     (check_or (report_Check ''Liveness probe changed'' (probeChanged (ct_LivenessProbe n) (ct_LivenessProbe old)))
               (report_Check ''Startup probe changed'' (probeChanged (ct_StartupProbe n) (ct_StartupProbe old))))))))"

fun FindContainer :: "Container list \<Rightarrow> string \<Rightarrow> Container option" where
  "FindContainer [] name = None"
| "FindContainer (c # cs) name = (if ct_Name c = name then Some c else FindContainer cs name)"

definition PodChanged :: "PodTemplateSpec \<Rightarrow> PodTemplateSpec \<Rightarrow> string \<Rightarrow> check" where
  "PodChanged old n containerName =
     check_or (annotationsChanged old n) (check_or (volumesChanged old n) (check_or (assignationChanged old n)
       (case FindContainer (pt_Containers old) containerName of
          None \<Rightarrow> (\<lambda>r. (True, report_Add ''Old container not found'' r))
        | Some oldContainer \<Rightarrow>
            (case FindContainer (pt_Containers n) containerName of
               None \<Rightarrow> (\<lambda>r. (True, report_Add ''New container not found'' r))
             | Some newContainer \<Rightarrow> check_named ''Container changed'' (containerChanged oldContainer newContainer)))))"

section \<open>Deployments, daemon sets and the other objects\<close>

text \<open>The API server fills in the replicas of every deployment it stores, so a stored one always has them.\<close>

record DeploymentSpec =
  dsp_Template :: PodTemplateSpec
  dsp_Replicas :: "int option"

record stored_deployment =
  sd_Template :: PodTemplateSpec
  sd_Replicas :: int

definition DeploymentChanged :: "stored_deployment \<Rightarrow> DeploymentSpec \<Rightarrow> string \<Rightarrow> check" where
  "DeploymentChanged old n contName =
     check_or (check_named ''Pod changed'' (PodChanged (sd_Template old) (dsp_Template n) contName))
       (report_Check ''Replicas changed'' (dsp_Replicas n \<noteq> None \<and> Some (sd_Replicas old) \<noteq> dsp_Replicas n))"

datatype ReconcileAction = ActionNone | ActionCreate | ActionUpdate

record DaemonSetObject =
  dso_Labels :: go_map
  dso_Selector :: go_value
  dso_Template :: PodTemplateSpec

definition containerCapabilities :: "Container \<Rightarrow> go_value" where
  "containerCapabilities c = (case ct_Capabilities c of None \<Rightarrow> GNil | Some None \<Rightarrow> GNil | Some (Some v) \<Rightarrow> GPtr v)"

text \<open>\<open>derive_template\<close> is \<open>deepDerivative\<close> on whole pod templates.\<close>

definition DaemonSetChanged ::
  "(PodTemplateSpec \<Rightarrow> PodTemplateSpec \<Rightarrow> bool) \<Rightarrow> DaemonSetObject option \<Rightarrow> DaemonSetObject option \<Rightarrow> ReconcileAction" where
  "DaemonSetChanged derive_template current desired =
     (case desired of None \<Rightarrow> ActionNone
      | Some d \<Rightarrow>
        (case current of None \<Rightarrow> ActionCreate
         | Some c \<Rightarrow>
             if \<not> IsSubSet (dso_Labels c) (dso_Labels d)
                \<or> \<not> deepDerivative (dso_Selector d) (dso_Selector c)
                \<or> \<not> derive_template (dso_Template d) (dso_Template c)
                \<or> fst (assignationChanged (dso_Template c) (dso_Template d) (NewChangeReport []))
             then ActionUpdate
             else (case (pt_Containers (dso_Template d), pt_Containers (dso_Template c)) of
                     (dc # _, cc # _) \<Rightarrow>
                       if \<not> deepEqual (ct_Env dc) (ct_Env cc)
                          \<or> \<not> deepEqual (containerCapabilities dc) (containerCapabilities cc)
                       then ActionUpdate else ActionNone
                   | _ \<Rightarrow> ActionNone)))"

record ServiceObject =
  svc_Labels :: go_map
  svc_Annotations :: go_map
  svc_Spec :: go_value

definition ServiceChanged :: "ServiceObject \<Rightarrow> ServiceObject \<Rightarrow> check" where
  "ServiceChanged old n =
     check_or (report_Check ''Service annotations changed'' (\<not> deepDerivative (str_map (svc_Annotations n)) (str_map (svc_Annotations old))))
     (check_or (report_Check ''Service labels changed'' (\<not> deepDerivative (str_map (svc_Labels n)) (str_map (svc_Labels old))))
               (report_Check ''Service spec changed'' (\<not> deepDerivative (svc_Spec n) (svc_Spec old))))"

record monitoring_object =
  mon_Labels :: go_map
  mon_Spec :: go_value

definition ServiceMonitorChanged :: "monitoring_object \<Rightarrow> monitoring_object \<Rightarrow> check" where
  "ServiceMonitorChanged old n =
     check_or (report_Check ''ServiceMonitor spec changed'' (\<not> deepDerivative (mon_Spec n) (mon_Spec old)))
              (report_Check ''ServiceMonitor labels changed'' (\<not> IsSubSet (mon_Labels old) (mon_Labels n)))"

definition PrometheusRuleChanged :: "monitoring_object \<Rightarrow> monitoring_object \<Rightarrow> check" where
  "PrometheusRuleChanged old n =
     check_or (report_Check ''PrometheusRule spec changed'' (\<not> deepEqual (mon_Spec n) (mon_Spec old)))
              (report_Check ''PrometheusRule labels changed'' (\<not> IsSubSet (mon_Labels old) (mon_Labels n)))"

definition ConsolePluginChanged :: "go_value \<Rightarrow> go_value \<Rightarrow> check" where
  "ConsolePluginChanged old n = report_Check ''ConsolePlugin spec changed'' (\<not> deepDerivative n old)"

record HorizontalPodAutoscaler =
  asc_MaxReplicas :: int
  asc_MinReplicas :: "int option"
  asc_Metrics :: go_value

definition differentPointerValues :: "int option \<Rightarrow> int option \<Rightarrow> bool" where
  "differentPointerValues a b = (case (a, b) of
     (None, None) \<Rightarrow> False | (Some x, Some y) \<Rightarrow> x \<noteq> y | _ \<Rightarrow> True)"

text \<open>\<open>metrics\<close> reads the metric specifications of the FlowCollector as Go values.\<close>

definition AutoScalerChanged :: "(opaque list \<Rightarrow> go_value) \<Rightarrow> HorizontalPodAutoscaler \<Rightarrow> FlowCollectorHPA \<Rightarrow> check" where
  "AutoScalerChanged metrics asc desired =
     check_or (report_Check ''Max replicas changed'' (asc_MaxReplicas asc \<noteq> hpa_MaxReplicas desired))
     (check_or (report_Check ''Min replicas changed'' (differentPointerValues (asc_MinReplicas asc) (hpa_MinReplicas desired)))
               (report_Check ''Metrics changed'' (\<not> deepDerivative (metrics (hpa_Metrics desired)) (asc_Metrics asc))))"

record PersistentVolumeClaim =
  pvc_AccessModes :: "string list"
  pvc_Storage :: int
  pvc_VolumeMode :: "string option"

definition getEffectiveMode :: "string option \<Rightarrow> string" where
  "getEffectiveMode m = (case m of None \<Rightarrow> ''Filesystem'' | Some v \<Rightarrow> v)"

definition PersistentVolumeClaimSpecChanged :: "PersistentVolumeClaim \<Rightarrow> PersistentVolumeClaim \<Rightarrow> check" where
  "PersistentVolumeClaimSpecChanged current desired =
     check_or (report_Check ''AccessModes changed'' (pvc_AccessModes desired \<noteq> pvc_AccessModes current))
     (check_or (report_Check ''Storage size changed'' (pvc_Storage desired \<noteq> pvc_Storage current))
               (report_Check ''VolumeMode changed'' (getEffectiveMode (pvc_VolumeMode desired) \<noteq> getEffectiveMode (pvc_VolumeMode current))))"

end
