(* ===== verification/Change_Correct.thy ===== *)
theory Change_Correct
  imports Change_Detection
begin

text \<open>
  Correctness of the change detection: every comparison explains itself in the report (a contract stated as
  a locale and met by each of them), the detection of pod changes is characterised exactly, and an object
  equal to the desired one is never reported as changed, so that updates settle.
\<close>

section \<open>Comparison of values\<close>

lemma derive_all_iff: "derive_all as bs \<longleftrightarrow> length as \<le> length bs \<and> (\<forall>i < length as. deepDerivative (as ! i) (bs ! i))"
proof (induction as arbitrary: bs)
  case (Cons a as)
  show ?case by (cases bs) (auto simp: Cons.IH All_less_Suc2)
qed simp

lemma derive_map_iff: "derive_map as bs \<longleftrightarrow> (\<forall>(k, a) \<in> set as. \<exists>b. map_of bs k = Some b \<and> deepDerivative a b)"
  by (induction as) (auto split: option.splits)

lemma equal_all_iff: "equal_all as bs \<longleftrightarrow> length as \<le> length bs \<and> (\<forall>i < length as. deepEqual (as ! i) (bs ! i))"
proof (induction as arbitrary: bs)
  case (Cons a as)
  show ?case by (cases bs) (auto simp: Cons.IH All_less_Suc2)
qed simp

lemma equal_map_iff: "equal_map as bs \<longleftrightarrow> (\<forall>(k, a) \<in> set as. \<exists>b. map_of bs k = Some b \<and> deepEqual a b)"
  by (induction as) (auto split: option.splits)

text \<open>Values in which no map has two entries for a key, as every Go value is.\<close>

fun wf_value :: "go_value \<Rightarrow> bool" where
  "wf_value (GPtr v) = wf_value v"
| "wf_value (GSlice vs) = list_all wf_value vs"
| "wf_value (GStruct vs) = list_all wf_value vs"
| "wf_value (GMap kvs) = (distinct (map fst kvs) \<and> list_all (\<lambda>kv. wf_value (snd kv)) kvs)"
| "wf_value _ = True"

lemma deepEqual_refl: "wf_value v \<Longrightarrow> deepEqual v v"
proof (induction v)
  case (GMap kvs)
  then show ?case by (fastforce simp: equal_map_iff list_all_iff intro: map_of_is_SomeI)
qed (auto simp: equal_all_iff list_all_iff)

lemma deepDerivative_refl: "wf_value v \<Longrightarrow> deepDerivative v v"
proof (induction v)
  case (GMap kvs)
  then show ?case by (fastforce simp: derive_map_iff list_all_iff intro: map_of_is_SomeI)
qed (auto simp: derive_all_iff list_all_iff)

lemma deepEqual_derivative: "deepEqual v w \<Longrightarrow> deepDerivative v w"
proof (induction v arbitrary: w)
  case (GMap kvs)
  then show ?case by (cases w) (fastforce simp: derive_map_iff equal_map_iff)+
qed (auto simp: derive_all_iff equal_all_iff split: go_value.splits)

lemma wf_str_map: "wf_value (str_map m) \<longleftrightarrow> distinct (map fst m)"
  by (auto simp: str_map_def list_all_iff comp_def case_prod_beta)

lemma IsSubSet_iff: "IsSubSet s sub \<longleftrightarrow> (\<forall>(k, v) \<in> set sub. map_of s k = Some v)"
  by (induction s sub rule: IsSubSet.induct) (auto split: option.splits)

lemma IsSubSet_map_le: "distinct (map fst sub) \<Longrightarrow> IsSubSet s sub \<longleftrightarrow> map_of sub \<subseteq>\<^sub>m map_of s"
  by (force simp: IsSubSet_iff map_le_def dom_def map_of_eq_Some_iff)

section \<open>The contract of a comparison\<close>

text \<open>
  The verdict does not depend on the report, a negative one leaves it alone and a positive one adds at
  least one reason to it.
\<close>

locale reporting =
  fixes f :: check
  assumes verdict: "fst (f r) = fst (f r')"
    and silent: "\<not> fst (f r) \<Longrightarrow> snd (f r) = r"
    and explains: "fst (f r) \<Longrightarrow> \<exists>m. m \<noteq> [] \<and> snd (f r) = r\<lparr>cr_report := cr_report r @ m\<rparr>"
begin

lemma explained: "fst (f r) \<longleftrightarrow> snd (f r) \<noteq> r"
  using silent explains[of r] by (metis (no_types, lifting) ChangeReport.select_convs(2) ChangeReport.surjective
      ChangeReport.update_convs(2) append_self_conv)

lemma extends: "\<exists>m. snd (f r) = r\<lparr>cr_report := cr_report r @ m\<rparr> \<and> (fst (f r) \<longleftrightarrow> m \<noteq> [])"
proof (cases "fst (f r)")
  case True
  then show ?thesis using explains by blast
next
  case False
  then show ?thesis using silent[of r] by (intro exI[of _ "[]"]) simp
qed

end

locale reporting_pair = f: reporting f + g: reporting g
  for f :: check and g :: check

lemma check_or_fst: "fst (check_or f g r) \<longleftrightarrow> fst (f r) \<or> fst (g (snd (f r)))"
  by (simp add: check_or_def split: prod.split bool.split)

sublocale reporting_pair \<subseteq> disj: reporting "check_or f g"
proof
  show "fst (check_or f g r) = fst (check_or f g r')" for r r'
    using f.verdict[of r r'] g.verdict[of "snd (f r)" "snd (f r')"] by (simp add: check_or_fst)
  show "snd (check_or f g r) = r" if "\<not> fst (check_or f g r)" for r
    using that f.silent[of r] g.silent[of r] by (auto simp: check_or_def split: prod.splits bool.splits)
  show "\<exists>m. m \<noteq> [] \<and> snd (check_or f g r) = r\<lparr>cr_report := cr_report r @ m\<rparr>" if "fst (check_or f g r)" for r
    using that f.silent[of r] f.explains[of r] g.explains[of r] by (auto simp: check_or_def split: prod.splits bool.splits)
qed

context reporting_pair
begin

lemma disj_verdict: "fst (check_or f g r) \<longleftrightarrow> fst (f r) \<or> fst (g r)"
  using g.verdict[of r "snd (f r)"] by (simp add: check_or_fst)

lemma disj_reporting: "reporting (check_or f g)"
  by (rule disj.reporting_axioms)

end

interpretation report_Check: reporting "report_Check msg b" for msg b
  by unfold_locales (auto simp: report_Check_def report_Add_def)

lemma reporting_or: "reporting f \<Longrightarrow> reporting g \<Longrightarrow> reporting (check_or f g)"
  by (rule reporting_pair.disj_reporting) (rule reporting_pair.intro)

lemma or_verdict: "reporting f \<Longrightarrow> reporting g \<Longrightarrow> fst (check_or f g r) \<longleftrightarrow> fst (f r) \<or> fst (g r)"
  by (rule reporting_pair.disj_verdict) (rule reporting_pair.intro)

lemma named_verdict [simp]: "fst (check_named msg f r) = fst (f r)"
  by (simp add: check_named_def report_Check_def split: prod.split)

lemma reporting_named: "reporting f \<Longrightarrow> reporting (check_named msg f)"
proof
  assume f: "reporting f"
  show "fst (check_named msg f r) = fst (check_named msg f r')" for r r'
    using reporting.verdict[OF f, of r r'] by simp
  show "snd (check_named msg f r) = r" if "\<not> fst (check_named msg f r)" for r
    using that reporting.silent[OF f, of r] by (auto simp: check_named_def report_Check_def split: prod.splits)
  show "\<exists>m. m \<noteq> [] \<and> snd (check_named msg f r) = r\<lparr>cr_report := cr_report r @ m\<rparr>" if "fst (check_named msg f r)" for r
    using that reporting.explains[OF f, of r]
    by (auto simp: check_named_def report_Check_def report_Add_def split: prod.splits)
qed

lemma report_Check_verdict [simp]: "fst (report_Check msg b r) = b"
  by (simp add: report_Check_def)

lemmas reporting_intros = reporting_or reporting_named report_Check.reporting_axioms

section \<open>The comparisons meet the contract\<close>

lemma domain_annotation_verdict:
  "fst (domain_annotation_changed m n r) \<longleftrightarrow> (\<exists>(k, v) \<in> set m. has_prefix k ''flows.netobserv.io'' \<and> go_lookup n k \<noteq> v)"
  by (induction m n r rule: domain_annotation_changed.induct) auto

lemma reporting_domain: "reporting (domain_annotation_changed m n)"
proof
  show "fst (domain_annotation_changed m n r) = fst (domain_annotation_changed m n r')" for r r'
    by (simp add: domain_annotation_verdict)
  show "snd (domain_annotation_changed m n r) = r" if "\<not> fst (domain_annotation_changed m n r)" for r
    using that by (induction m n r rule: domain_annotation_changed.induct) (auto split: if_splits)
  show "\<exists>x. x \<noteq> [] \<and> snd (domain_annotation_changed m n r) = r\<lparr>cr_report := cr_report r @ x\<rparr>"
    if "fst (domain_annotation_changed m n r)" for r
    using that by (induction m n r rule: domain_annotation_changed.induct) (auto simp: report_Add_def)
qed

interpretation annotationsChanged: reporting "annotationsChanged old n" for old n
proof -
  have silent: "reporting (\<lambda>r. (False, r))" by unfold_locales auto
  have "reporting (\<lambda>r. (True, report_Add m r))" for m by unfold_locales (auto simp: report_Add_def)
  with silent reporting_domain show "reporting (annotationsChanged old n)"
    by (cases "pt_Annotations old"; cases "pt_Annotations n") (simp_all add: annotationsChanged_def[abs_def])
qed

interpretation volumesChanged: reporting "volumesChanged old n" for old n
  unfolding volumesChanged_def by (rule report_Check.reporting_axioms)

interpretation assignationChanged: reporting "assignationChanged old n" for old n
  by unfold_locales (auto simp: assignationChanged_def report_Add_def)

interpretation containerChanged: reporting "containerChanged old n" for old n
  unfolding containerChanged_def by (intro reporting_intros)

lemma reporting_missing: "reporting (\<lambda>r. (True, report_Add m r))"
  by unfold_locales (auto simp: report_Add_def)

interpretation PodChanged: reporting "PodChanged old n c" for old n c
  unfolding PodChanged_def
  by (intro reporting_intros annotationsChanged.reporting_axioms volumesChanged.reporting_axioms
      assignationChanged.reporting_axioms)
     (auto split: option.split intro: reporting_missing reporting_named containerChanged.reporting_axioms)

interpretation DeploymentChanged: reporting "DeploymentChanged old n c" for old n c
  unfolding DeploymentChanged_def by (intro reporting_intros PodChanged.reporting_axioms)

interpretation ServiceChanged: reporting "ServiceChanged old n" for old n
  unfolding ServiceChanged_def by (intro reporting_intros)

interpretation ServiceMonitorChanged: reporting "ServiceMonitorChanged old n" for old n
  unfolding ServiceMonitorChanged_def by (intro reporting_intros)

interpretation PrometheusRuleChanged: reporting "PrometheusRuleChanged old n" for old n
  unfolding PrometheusRuleChanged_def by (intro reporting_intros)

interpretation ConsolePluginChanged: reporting "ConsolePluginChanged old n" for old n
  unfolding ConsolePluginChanged_def by (intro reporting_intros)

interpretation AutoScalerChanged: reporting "AutoScalerChanged metrics asc desired" for metrics asc desired
  unfolding AutoScalerChanged_def by (intro reporting_intros)

interpretation PVCChanged: reporting "PersistentVolumeClaimSpecChanged old n" for old n
  unfolding PersistentVolumeClaimSpecChanged_def by (intro reporting_intros)

section \<open>When a deployment is updated\<close>

text \<open>What the operator requires of a deployed container and pod, given the desired one.\<close>

definition container_current :: "Container \<Rightarrow> Container \<Rightarrow> bool" where
  "container_current old n \<longleftrightarrow> ct_Image n = ct_Image old
     \<and> (ct_ImagePullPolicy n = [] \<or> ct_ImagePullPolicy n = ct_ImagePullPolicy old) \<and> ct_Args n = ct_Args old
     \<and> deepDerivative (ct_Resources n) (ct_Resources old) \<and> deepEqual (ct_Env n) (ct_Env old)
     \<and> (ct_LivenessProbe n = None \<longleftrightarrow> ct_LivenessProbe old = None) \<and> (ct_StartupProbe n = None \<longleftrightarrow> ct_StartupProbe old = None)"

definition annotations_current :: "PodTemplateSpec \<Rightarrow> PodTemplateSpec \<Rightarrow> bool" where
  "annotations_current old n \<longleftrightarrow>
     (case pt_Annotations old of
        None \<Rightarrow> pt_Annotations n = None
      | Some m \<Rightarrow> \<forall>(k, v) \<in> set m. has_prefix k ''flows.netobserv.io'' \<longrightarrow> go_lookup (case pt_Annotations n of None \<Rightarrow> [] | Some m' \<Rightarrow> m') k = v)"

definition assignation_current :: "PodTemplateSpec \<Rightarrow> PodTemplateSpec \<Rightarrow> bool" where
  "assignation_current old n \<longleftrightarrow> deepEqual (str_map (pt_NodeSelector n)) (str_map (pt_NodeSelector old))
     \<and> pt_Tolerations n = pt_Tolerations old \<and> deepDerivative (pt_Affinity n) (pt_Affinity old)
     \<and> pt_PriorityClassName n = pt_PriorityClassName old"

definition pod_current :: "PodTemplateSpec \<Rightarrow> PodTemplateSpec \<Rightarrow> string \<Rightarrow> bool" where
  "pod_current old n c \<longleftrightarrow> annotations_current old n \<and> assignation_current old n
     \<and> deepDerivative (pt_Volumes n) (pt_Volumes old)
     \<and> (\<exists>oc nc. FindContainer (pt_Containers old) c = Some oc \<and> FindContainer (pt_Containers n) c = Some nc \<and> container_current oc nc)"

lemma containerChanged_verdict: "fst (containerChanged old n r) \<longleftrightarrow> \<not> container_current old n"
  by (cases "ct_LivenessProbe n"; cases "ct_LivenessProbe old"; cases "ct_StartupProbe n"; cases "ct_StartupProbe old")
     (simp_all add: containerChanged_def or_verdict reporting_intros probeChanged_def container_current_def)

lemma annotationsChanged_verdict: "fst (annotationsChanged old n r) \<longleftrightarrow> \<not> annotations_current old n"
  by (simp add: annotationsChanged_def annotations_current_def domain_annotation_verdict case_prod_beta split: option.split)

lemma assignationChanged_verdict: "fst (assignationChanged old n r) \<longleftrightarrow> \<not> assignation_current old n"
  by (simp add: assignationChanged_def assignation_current_def)

lemma PodChanged_verdict: "fst (PodChanged old n c r) \<longleftrightarrow> \<not> pod_current old n c"
proof -
  define k where "k = (case FindContainer (pt_Containers old) c of None \<Rightarrow> (\<lambda>r. (True, report_Add ''Old container not found'' r))
    | Some oc \<Rightarrow> (case FindContainer (pt_Containers n) c of None \<Rightarrow> (\<lambda>r. (True, report_Add ''New container not found'' r))
      | Some nc \<Rightarrow> check_named ''Container changed'' (containerChanged oc nc)))"
  have rep: "reporting k" unfolding k_def
    by (auto split: option.split intro: reporting_missing reporting_named containerChanged.reporting_axioms)
  have "fst (k r) \<longleftrightarrow> \<not> (\<exists>oc nc. FindContainer (pt_Containers old) c = Some oc
      \<and> FindContainer (pt_Containers n) c = Some nc \<and> container_current oc nc)"
    by (auto simp: k_def containerChanged_verdict split: option.split)
  moreover have "PodChanged old n c = check_or (annotationsChanged old n) (check_or (volumesChanged old n) (check_or (assignationChanged old n) k))"
    by (simp add: PodChanged_def k_def)
  moreover have "fst (volumesChanged old n r) \<longleftrightarrow> \<not> deepDerivative (pt_Volumes n) (pt_Volumes old)" by (simp add: volumesChanged_def)
  ultimately show ?thesis
    by (simp add: or_verdict rep reporting_or annotationsChanged.reporting_axioms volumesChanged.reporting_axioms
        assignationChanged.reporting_axioms annotationsChanged_verdict assignationChanged_verdict pod_current_def) blast
qed

text \<open>
  A deployment is updated exactly when its pod or its replica count is out of date, and the change report
  explains it: it gets at least one reason when there is a change and none otherwise.
\<close>

theorem DeploymentChanged_explained:
  "(\<not> fst (DeploymentChanged old n c r) \<longleftrightarrow>
      pod_current (sd_Template old) (dsp_Template n) c \<and> dsp_Replicas n \<in> {None, Some (sd_Replicas old)})
   \<and> (\<exists>m. snd (DeploymentChanged old n c r) = r\<lparr>cr_report := cr_report r @ m\<rparr> \<and> (fst (DeploymentChanged old n c r) \<longleftrightarrow> m \<noteq> []))"
proof
  show "\<not> fst (DeploymentChanged old n c r) \<longleftrightarrow>
      pod_current (sd_Template old) (dsp_Template n) c \<and> dsp_Replicas n \<in> {None, Some (sd_Replicas old)}"
    by (auto simp: DeploymentChanged_def or_verdict reporting_intros PodChanged.reporting_axioms PodChanged_verdict)
qed (rule DeploymentChanged.extends)

text \<open>Pods whose maps and values are well formed and that have the container looked for.\<close>

definition wf_pod :: "PodTemplateSpec \<Rightarrow> string \<Rightarrow> bool" where
  "wf_pod p c \<longleftrightarrow> distinct (map fst (pt_NodeSelector p)) \<and> wf_value (pt_Affinity p) \<and> wf_value (pt_Volumes p)
     \<and> (case pt_Annotations p of None \<Rightarrow> True | Some m \<Rightarrow> distinct (map fst m))
     \<and> (case FindContainer (pt_Containers p) c of None \<Rightarrow> False | Some k \<Rightarrow> wf_value (ct_Resources k) \<and> wf_value (ct_Env k))"

lemma pod_current_refl: "wf_pod p c \<Longrightarrow> pod_current p p c"
  by (auto simp: wf_pod_def pod_current_def annotations_current_def assignation_current_def container_current_def
      go_lookup_def deepEqual_refl deepDerivative_refl wf_str_map map_of_is_SomeI split: option.splits)


definition sample_container :: Container where
  "sample_container = \<lparr>ct_Name = ''flp'', ct_Image = ''img:1'', ct_ImagePullPolicy = [], ct_Args = [], ct_Resources = GMap [],
     ct_Env = GSlice [], ct_LivenessProbe = None, ct_StartupProbe = None, ct_Capabilities = None\<rparr>"

definition sample_template :: PodTemplateSpec where
  "sample_template = \<lparr>pt_Annotations = Some [(''flows.netobserv.io/config-digest'', ''d1'')], pt_NodeSelector = [], pt_Tolerations = [],
     pt_Affinity = GNil, pt_PriorityClassName = [], pt_Volumes = GSlice [GStr ''cfg''], pt_Containers = [sample_container]\<rparr>"


section \<open>What the comparison of pods does not see\<close>

text \<open>
  An annotation of the operator's domain that is new on a pod that already has annotations is not a change,
  and neither is a volume that is no longer desired.
\<close>

theorem added_annotation_missed:
  "\<not> fst (PodChanged sample_template
        (sample_template\<lparr>pt_Annotations := Some [(''flows.netobserv.io/config-digest'', ''d1''), (''flows.netobserv.io/watched-cert'', ''d2'')]\<rparr>)
        ''flp'' r)"
  by (simp add: PodChanged_verdict pod_current_def sample_template_def annotations_current_def assignation_current_def
      container_current_def sample_container_def go_lookup_def str_map_def)

theorem removed_volume_missed:
  "\<not> fst (PodChanged sample_template (sample_template\<lparr>pt_Volumes := GSlice []\<rparr>) ''flp'' r)"
  by (simp add: PodChanged_verdict pod_current_def sample_template_def annotations_current_def assignation_current_def
      container_current_def sample_container_def go_lookup_def str_map_def)

end
