(* ===== verification/Reconcilers.thy ===== *)
theory Reconcilers
  imports Change_Detection Status_Manager
begin

text \<open>
  Reconciliation of deployed objects: ownership (\<open>internal/pkg/helper/flowcollector.go\<close>), the client
  wrapper (\<open>client_helper.go\<close>), the reconcilers and event filters of
  \<open>internal/controller/reconcilers/reconcilers.go\<close> and the object manager of
  \<open>namespaced_objects_manager.go\<close>. An object is its metadata with a body; the API server is a record of
  functions on a world, reads leave the world alone. An object handed to a writing call is not read by the
  callers afterwards, so the calls return the error and the world only. A nil dereference is an error value.
\<close>

section \<open>Objects and ownership\<close>

record OwnerReference =
  oref_APIVersion :: string
  oref_Kind :: string
  oref_Name :: string

text \<open>A deletion timestamp of 0 is the zero time.\<close>

record ObjectMeta =
  om_Name :: string
  om_Namespace :: string
  om_Labels :: "go_map option"
  om_Annotations :: "go_map option"
  om_OwnerReferences :: "OwnerReference list"
  om_ResourceVersion :: string
  om_Generation :: int
  om_DeletionTimestamp :: "int option"

record 'b k8s_object =
  obj_Meta :: ObjectMeta
  obj_Body :: 'b

definition labels_of :: "'b k8s_object \<Rightarrow> go_map" where
  "labels_of x = (case om_Labels (obj_Meta x) of None \<Rightarrow> [] | Some m \<Rightarrow> m)"

definition annotations_of :: "'b k8s_object \<Rightarrow> go_map" where
  "annotations_of x = (case om_Annotations (obj_Meta x) of None \<Rightarrow> [] | Some m \<Rightarrow> m)"

fun go_map_set :: "string \<Rightarrow> string \<Rightarrow> go_map \<Rightarrow> go_map" where
  "go_map_set k v [] = [(k, v)]"
| "go_map_set k v ((k', v') # m) = (if k' = k then (k, v) # m else (k', v') # go_map_set k v m)"

definition netobservManagedLabel :: string where
  "netobservManagedLabel = ''netobserv-managed''"

definition AddManagedLabel :: "'b k8s_object \<Rightarrow> 'b k8s_object" where
  "AddManagedLabel x = x\<lparr>obj_Meta := (obj_Meta x)\<lparr>om_Labels := Some (go_map_set netobservManagedLabel ''true'' (labels_of x))\<rparr>\<rparr>"

definition IsManaged :: "'b k8s_object \<Rightarrow> bool" where
  "IsManaged x = (case om_Labels (obj_Meta x) of None \<Rightarrow> False | Some m \<Rightarrow> go_lookup m netobservManagedLabel = ''true'')"

definition SkipOwnership :: "'b k8s_object \<Rightarrow> bool" where
  "SkipOwnership x = (case om_Labels (obj_Meta x) of None \<Rightarrow> False | Some m \<Rightarrow> go_lookup m netobservManagedLabel = ''false'')"

definition IsOwned :: "'b k8s_object \<Rightarrow> bool" where
  "IsOwned x = (if IsManaged x then True
     else (case om_OwnerReferences (obj_Meta x) of [] \<Rightarrow> False | r # _ \<Rightarrow> has_prefix (oref_APIVersion r) ''flows.netobserv.io''))"

definition IsOperatorOwned :: "string \<Rightarrow> 'b k8s_object \<Rightarrow> bool" where
  "IsOperatorOwned opns x =
     (case om_OwnerReferences (obj_Meta x) of [] \<Rightarrow> False
      | r # _ \<Rightarrow> oref_APIVersion r = ''apps/v1'' \<and> oref_Kind r = ''Deployment''
          \<and> oref_Name r = ''netobserv-controller-manager'' \<and> om_Namespace (obj_Meta x) = opns)"

section \<open>The client wrapper\<close>

datatype client_error = ApiErr api_error | OwnerErr string | Wrapped string client_error | NilDereference

type_synonym obj_key = "string \<times> string"

record ('b, 'w) k8s_client =
  cl_Get :: "obj_key \<Rightarrow> 'w \<Rightarrow> api_error + 'b k8s_object"
  cl_Create :: "'b k8s_object \<Rightarrow> 'w \<Rightarrow> api_error option \<times> 'w"
  cl_Update :: "'b k8s_object \<Rightarrow> 'w \<Rightarrow> api_error option \<times> 'w"
  cl_Delete :: "'b k8s_object \<Rightarrow> 'w \<Rightarrow> api_error option \<times> 'w"
  cl_SetOwnerReference :: "'b k8s_object \<Rightarrow> client_error + 'b k8s_object"

definition key_of :: "'b k8s_object \<Rightarrow> obj_key" where
  "key_of x = (om_Namespace (obj_Meta x), om_Name (obj_Meta x))"

text \<open>The owner settings of the three kinds of client; \<open>set_ref\<close> is controller-runtime's \<open>SetControllerReference\<close>.\<close>

definition unmanaged_owner :: "'b k8s_object \<Rightarrow> client_error + 'b k8s_object" where
  "unmanaged_owner x = Inr x"

definition controller_owner ::
  "string \<Rightarrow> ('b k8s_object \<Rightarrow> client_error + 'b k8s_object) \<Rightarrow> 'b k8s_object \<Rightarrow> client_error + 'b k8s_object" where
  "controller_owner ns set_ref x =
     (if om_Namespace (obj_Meta x) \<noteq> ns
      then Inl (OwnerErr (''cannot set owner controller-based owner reference on a non-namespaced resource, or a resource in a different namespace; want=''
             @ ns @ '', got='' @ om_Namespace (obj_Meta x)))
      else set_ref x)"

definition lift_error :: "api_error option \<times> 'w \<Rightarrow> client_error option \<times> 'w" where
  "lift_error p = (map_option ApiErr (fst p), snd p)"

definition CreateOwned :: "('b, 'w) k8s_client \<Rightarrow> 'b k8s_object \<Rightarrow> 'w \<Rightarrow> client_error option \<times> 'w" where
  "CreateOwned c x w =
     (case cl_SetOwnerReference c x of
        Inl e \<Rightarrow> (Some e, w)
      | Inr x \<Rightarrow> lift_error (cl_Create c (AddManagedLabel x) w))"

definition UpdateOwned :: "('b, 'w) k8s_client \<Rightarrow> 'b k8s_object option \<Rightarrow> 'b k8s_object \<Rightarrow> 'w \<Rightarrow> client_error option \<times> 'w" where
  "UpdateOwned c old x w =
     (let x = (case old of None \<Rightarrow> x
               | Some o' \<Rightarrow> x\<lparr>obj_Meta := (obj_Meta x)\<lparr>om_ResourceVersion := om_ResourceVersion (obj_Meta o')\<rparr>\<rparr>) in
      case cl_SetOwnerReference c x of
        Inl e \<Rightarrow> (Some e, w)
      | Inr x \<Rightarrow>
          (let x = AddManagedLabel x in
           case cl_Update c x w of
             (Some e, w') \<Rightarrow> (Some (ApiErr e), w')
           | (None, w') \<Rightarrow>
               (case cl_Get c (key_of x) w' of
                  Inl e \<Rightarrow> (Some (ApiErr e), w')
                | Inr _ \<Rightarrow> (case old of None \<Rightarrow> (Some NilDereference, w') | Some _ \<Rightarrow> (None, w')))))"

definition UpdateIfOwned :: "('b, 'w) k8s_client \<Rightarrow> 'b k8s_object option \<Rightarrow> 'b k8s_object \<Rightarrow> 'w \<Rightarrow> client_error option \<times> 'w" where
  "UpdateIfOwned c old x w =
     (case old of Some o' \<Rightarrow> if \<not> IsOwned o' then (None, w) else UpdateOwned c old x w
      | None \<Rightarrow> UpdateOwned c old x w)"

text \<open>\<open>reflect.TypeOf(obj).String()\<close> comes before the test for nil, and dereferences it.\<close>

definition DeleteIfOwned :: "('b, 'w) k8s_client \<Rightarrow> 'b k8s_object option \<Rightarrow> 'w \<Rightarrow> client_error option \<times> 'w" where
  "DeleteIfOwned c obj w =
     (case obj of
        None \<Rightarrow> (Some NilDereference, w)
      | Some x \<Rightarrow> if \<not> IsOwned x then (None, w) else lift_error (cl_Delete c x w))"

definition getFlowCollector :: "('b, 'w) k8s_client \<Rightarrow> 'w \<Rightarrow> client_error + 'b k8s_object option" where
  "getFlowCollector c w =
     (case cl_Get c ([], ''cluster'') w of
        Inl NotFound \<Rightarrow> Inr None
      | Inl e \<Rightarrow> Inl (ApiErr e)
      | Inr fc \<Rightarrow> Inr (Some fc))"

definition getControllerDeployment :: "('b, 'w) k8s_client \<Rightarrow> string \<Rightarrow> 'w \<Rightarrow> client_error + 'b k8s_object" where
  "getControllerDeployment c ns w =
     (case cl_Get c (ns, ''netobserv-controller-manager'') w of Inl e \<Rightarrow> Inl (ApiErr e) | Inr d \<Rightarrow> Inr d)"

section \<open>Event predicates and filters\<close>

datatype 'b k8s_watch_event =
  CreateEvent "'b k8s_object"
| UpdateEvent "'b k8s_object" "'b k8s_object"
| DeleteEvent "'b k8s_object" bool
| GenericEvent "'b k8s_object"

text \<open>The flag of a deletion is \<open>DeleteStateUnknown\<close>; an update carries the old and the new object.\<close>

definition IsMarkedForDeletion :: "'b k8s_object \<Rightarrow> bool" where
  "IsMarkedForDeletion x = (case om_DeletionTimestamp (obj_Meta x) of None \<Rightarrow> False | Some t \<Rightarrow> t \<noteq> 0)"

definition not_only_status :: "'b k8s_object \<Rightarrow> 'b k8s_object \<Rightarrow> bool" where
  "not_only_status old n \<longleftrightarrow> om_Generation (obj_Meta old) \<noteq> om_Generation (obj_Meta n)
     \<or> IsMarkedForDeletion n \<noteq> IsMarkedForDeletion old
     \<or> \<not> deepEqual (str_map (annotations_of n)) (str_map (annotations_of old))
     \<or> \<not> deepEqual (str_map (labels_of n)) (str_map (labels_of old))"

fun IgnoreStatusChange :: "'b k8s_watch_event \<Rightarrow> bool" where
  "IgnoreStatusChange (UpdateEvent old n) = not_only_status old n"
| "IgnoreStatusChange (CreateEvent _) = True"
| "IgnoreStatusChange (DeleteEvent _ _) = True"
| "IgnoreStatusChange (GenericEvent _) = False"

fun UpdateOrDeleteOnlyPred :: "'b k8s_watch_event \<Rightarrow> bool" where
  "UpdateOrDeleteOnlyPred (UpdateEvent old n) = IsOwned n"
| "UpdateOrDeleteOnlyPred (CreateEvent _) = False"
| "UpdateOrDeleteOnlyPred (DeleteEvent x unknown) = (IsOwned x \<and> \<not> unknown)"
| "UpdateOrDeleteOnlyPred (GenericEvent _) = False"

fun OperatorOwned :: "string \<Rightarrow> 'b k8s_watch_event \<Rightarrow> bool" where
  "OperatorOwned ns (UpdateEvent old n) = IsOperatorOwned ns n"
| "OperatorOwned ns (CreateEvent x) = IsOperatorOwned ns x"
| "OperatorOwned ns (DeleteEvent x _) = IsOperatorOwned ns x"
| "OperatorOwned ns (GenericEvent x) = IsOperatorOwned ns x"

definition IgnoreStatusChangeEventFilter :: "'b k8s_object option \<Rightarrow> 'b k8s_object option \<Rightarrow> bool" where
  "IgnoreStatusChangeEventFilter oldObject newObject =
     (case (oldObject, newObject) of (Some old, Some n) \<Rightarrow> not_only_status old n | _ \<Rightarrow> True)"

definition OperatorOwnedEventFilter :: "string \<Rightarrow> 'b k8s_object option \<Rightarrow> 'b k8s_object option \<Rightarrow> bool" where
  "OperatorOwnedEventFilter namespace oldObject newObject =
     (case (case newObject of None \<Rightarrow> oldObject | Some n \<Rightarrow> Some n) of
        None \<Rightarrow> False
      | Some x \<Rightarrow> IsOperatorOwned namespace x \<and> IgnoreStatusChangeEventFilter oldObject newObject)"

definition ManagedObjectEventFilter :: "'b k8s_object option \<Rightarrow> 'b k8s_object option \<Rightarrow> bool" where
  "ManagedObjectEventFilter oldObject newObject =
     (case oldObject of None \<Rightarrow> False
      | Some old \<Rightarrow> IsOwned (case newObject of None \<Rightarrow> old | Some n \<Rightarrow> n))"

section \<open>Role bindings\<close>

record Subject =
  subj_Kind :: string
  subj_APIGroup :: string
  subj_Name :: string
  subj_Namespace :: string

text \<open>An enqueuer registers a watch on an object, which may fail; nil when absent.\<close>

type_synonym ('b, 'w) enqueuer = "'b k8s_object \<Rightarrow> 'w \<Rightarrow> client_error option \<times> 'w"

definition enqueue :: "('b, 'w) enqueuer option \<Rightarrow> 'b k8s_object \<Rightarrow> 'w \<Rightarrow> client_error option \<times> 'w" where
  "enqueue q x w = (case q of None \<Rightarrow> (None, w) | Some f \<Rightarrow> f x w)"

definition same_subject :: "Subject \<Rightarrow> Subject \<Rightarrow> bool" where
  "same_subject a b \<longleftrightarrow> subj_Kind a = subj_Kind b \<and> subj_Name a = subj_Name b \<and> subj_Namespace a = subj_Namespace b"

fun findSubject :: "Subject list \<Rightarrow> Subject \<Rightarrow> nat option" where
  "findSubject [] s = None"
| "findSubject (c # cs) s = (if same_subject c s then Some 0 else map_option Suc (findSubject cs s))"

definition cant :: string where
  "cant = ''can'' @ [CHR 0x27] @ ''t ''"

definition with_subjects :: "Subject list k8s_object \<Rightarrow> Subject list \<Rightarrow> Subject list k8s_object" where
  "with_subjects crb ss = crb\<lparr>obj_Body := ss\<rparr>"

definition crb_error :: "string \<Rightarrow> api_error \<Rightarrow> client_error" where
  "crb_error ref e =
     (case e of
        NotFound \<Rightarrow> Wrapped (cant @ ''reconcile ClusterRoleBinding '' @ ref @ '', it should be preinstalled; was it removed?'') (ApiErr e)
      | _ \<Rightarrow> Wrapped (cant @ ''reconcile ClusterRoleBinding '' @ ref) (ApiErr e))"

definition ReconcileClusterRoleBinding ::
  "(Subject list, 'w) enqueuer option \<Rightarrow> (Subject list, 'w) k8s_client \<Rightarrow> string \<Rightarrow> string \<Rightarrow> string \<Rightarrow> bool \<Rightarrow> 'w
     \<Rightarrow> client_error option \<times> 'w" where
  "ReconcileClusterRoleBinding q cl namespace sa ref isDelete w =
     (case cl_Get cl ([], ref) w of
        Inl e \<Rightarrow> (Some (crb_error ref e), w)
      | Inr crb \<Rightarrow>
          (case enqueue q crb w of
             (Some e, w') \<Rightarrow> (Some e, w')
           | (None, w') \<Rightarrow>
               (let s = \<lparr>subj_Kind = ''ServiceAccount'', subj_APIGroup = [], subj_Name = sa, subj_Namespace = namespace\<rparr>;
                    ss = obj_Body crb
                in case findSubject ss s of
                     Some i \<Rightarrow> if isDelete then lift_error (cl_Update cl (with_subjects crb (take i ss @ drop (i + 1) ss)) w') else (None, w')
                   | None \<Rightarrow> if \<not> isDelete then lift_error (cl_Update cl (with_subjects crb (ss @ [s])) w') else (None, w'))))"

definition EmptyClusterRoleBinding :: "(Subject list, 'w) k8s_client \<Rightarrow> string \<Rightarrow> 'w \<Rightarrow> client_error option \<times> 'w" where
  "EmptyClusterRoleBinding cl ref w =
     (case cl_Get cl ([], ref) w of
        Inl NotFound \<Rightarrow> (None, w)
      | Inl e \<Rightarrow> (Some (Wrapped (cant @ ''empty ClusterRoleBinding '' @ ref) (ApiErr e)), w)
      | Inr crb \<Rightarrow> if obj_Body crb = [] then (None, w) else lift_error (cl_Update cl (with_subjects crb []) w))"

record role_binding =
  rb_RoleRef :: "string \<times> string \<times> string"
  rb_Subjects :: "Subject list option"

text \<open>The test on the role reference is repeated inside the branch where it holds, as in the code.\<close>

definition ReconcileRoleBinding ::
  "(role_binding, 'w) k8s_client \<Rightarrow> role_binding k8s_object \<Rightarrow> 'w \<Rightarrow> client_error option \<times> 'w" where
  "ReconcileRoleBinding cl desired w =
     (case cl_Get cl (key_of desired) w of
        Inl NotFound \<Rightarrow> CreateOwned cl desired w
      | Inl e \<Rightarrow> (Some (Wrapped (cant @ ''reconcile RoleBinding '' @ om_Name (obj_Meta desired)) (ApiErr e)), w)
      | Inr actual \<Rightarrow>
          if IsSubSet (labels_of actual) (labels_of desired) \<and> rb_RoleRef (obj_Body actual) = rb_RoleRef (obj_Body desired)
             \<and> rb_Subjects (obj_Body actual) = rb_Subjects (obj_Body desired)
          then (if rb_RoleRef (obj_Body actual) \<noteq> rb_RoleRef (obj_Body desired)
                then CreateOwned cl desired (snd (cl_Delete cl actual w))
                else (None, w))
          else UpdateIfOwned cl (Some actual) desired w)"

section \<open>Config maps and network policies\<close>

text \<open>\<open>reflect.DeepEqual\<close> on maps, which tells nil from empty.\<close>

definition data_equal :: "go_map option \<Rightarrow> go_map option \<Rightarrow> bool" where
  "data_equal a b = (case (a, b) of (None, None) \<Rightarrow> True | (Some m, Some m') \<Rightarrow> length m = length m' \<and> IsSubSet m' m | _ \<Rightarrow> False)"

definition ReconcileConfigMap ::
  "(go_map option, 'w) k8s_client \<Rightarrow> go_map option k8s_object option \<Rightarrow> go_map option k8s_object option \<Rightarrow> 'w \<Rightarrow> client_error option \<times> 'w" where
  "ReconcileConfigMap cl current desired w =
     (case current of
        None \<Rightarrow> (case desired of None \<Rightarrow> (None, w) | Some d \<Rightarrow> CreateOwned cl d w)
      | Some cur \<Rightarrow>
          (case desired of
             None \<Rightarrow> if IsOwned cur then lift_error (cl_Delete cl cur w) else (None, w)
           | Some d \<Rightarrow>
               if IsSubSet (labels_of cur) (labels_of d) \<and> data_equal (obj_Body cur) (obj_Body d)
               then (None, w)
               else UpdateIfOwned cl (Some cur) d w))"

definition ReconcileNetworkPolicyWithEnqueuer ::
  "('b, 'w) enqueuer option \<Rightarrow> ('b, 'w) k8s_client \<Rightarrow> obj_key \<Rightarrow> 'b k8s_object \<Rightarrow> 'b k8s_object option \<Rightarrow> 'w
     \<Rightarrow> client_error option \<times> 'w" where
  "ReconcileNetworkPolicyWithEnqueuer q cl name watchObject desired w =
     (case enqueue q watchObject w of
        (Some e, w') \<Rightarrow> (Some e, w')
      | (None, w') \<Rightarrow>
          (case cl_Get cl name w' of
             Inl NotFound \<Rightarrow> (case desired of Some d \<Rightarrow> CreateOwned cl d w' | None \<Rightarrow> (None, w'))
           | Inl e \<Rightarrow> (Some (Wrapped (cant @ ''reconcile Network Policy '' @ snd name) (ApiErr e)), w')
           | Inr current \<Rightarrow>
               (case desired of
                  None \<Rightarrow> if IsOwned current then lift_error (cl_Delete cl current w') else (None, w')
                | Some d \<Rightarrow>
                    if IsSubSet (labels_of current) (labels_of d) \<and> obj_Body current = obj_Body d then (None, w')
                    else UpdateIfOwned cl (Some current) d w')))"

definition ReconcileNetworkPolicy ::
  "('b, 'w) k8s_client \<Rightarrow> obj_key \<Rightarrow> 'b k8s_object \<Rightarrow> 'b k8s_object option \<Rightarrow> 'w \<Rightarrow> client_error option \<times> 'w" where
  "ReconcileNetworkPolicy cl name watchObject desired w = ReconcileNetworkPolicyWithEnqueuer None cl name watchObject desired w"

section \<open>The object manager\<close>

text \<open>A placeholder is a pointer, here a number; the object it points to is kept with it.\<close>

record 'b managedObject =
  mo_name :: string
  mo_kind :: string
  mo_placeholder :: nat
  mo_object :: "'b k8s_object"
  mo_watch :: bool
  mo_found :: bool

definition addManagedObject :: "string \<Rightarrow> string \<Rightarrow> nat \<Rightarrow> 'b k8s_object \<Rightarrow> bool \<Rightarrow> 'b managedObject list \<Rightarrow> 'b managedObject list" where
  "addManagedObject name kind p obj watch m =
     m @ [\<lparr>mo_name = name, mo_kind = kind, mo_placeholder = p, mo_object = obj, mo_watch = watch, mo_found = False\<rparr>]"

definition placed :: "string \<Rightarrow> 'b managedObject \<Rightarrow> 'b k8s_object" where
  "placed ns r = (mo_object r)\<lparr>obj_Meta := (obj_Meta (mo_object r))\<lparr>om_Name := mo_name r, om_Namespace := ns\<rparr>\<rparr>"

fun FetchAll ::
  "('b, 'w) k8s_client \<Rightarrow> ('b, 'w) enqueuer option \<Rightarrow> string \<Rightarrow> 'b managedObject list \<Rightarrow> 'w
     \<Rightarrow> client_error option \<times> 'b managedObject list \<times> 'w" where
  "FetchAll cl q ns [] w = (None, [], w)"
| "FetchAll cl q ns (r # rs) w =
     (let r = r\<lparr>mo_found := False, mo_object := placed ns r\<rparr> in
      case (if mo_watch r then enqueue q (mo_object r) w else (None, w)) of
        (Some e, w') \<Rightarrow> (Some e, r # rs, w')
      | (None, w') \<Rightarrow>
          (case cl_Get cl (ns, mo_name r) w' of
             Inl NotFound \<Rightarrow> (case FetchAll cl q ns rs w' of (e, rs', w'') \<Rightarrow> (e, r # rs', w''))
           | Inl e \<Rightarrow> (Some (ApiErr e), r # rs, w')
           | Inr x \<Rightarrow> (case FetchAll cl q ns rs w' of (e, rs', w'') \<Rightarrow> (e, r\<lparr>mo_found := True, mo_object := x\<rparr> # rs', w''))))"

fun Exists :: "'b managedObject list \<Rightarrow> nat option \<Rightarrow> bool" where
  "Exists m None = False"
| "Exists [] (Some p) = False"
| "Exists (r # rs) (Some p) = (if p = mo_placeholder r then mo_found r else Exists rs (Some p))"

definition TryDelete :: "'a managedObject list \<Rightarrow> ('b, 'w) k8s_client \<Rightarrow> nat option \<Rightarrow> 'b k8s_object \<Rightarrow> 'w \<Rightarrow> client_error option \<times> 'w" where
  "TryDelete m cl p obj w =
     (if Exists m p then
        (case cl_Delete cl obj w of
           (Some NotFound, w') \<Rightarrow> (None, w')
         | (Some e, w') \<Rightarrow> (Some (ApiErr e), w')
         | (None, w') \<Rightarrow> (None, w'))
      else (None, w))"

text \<open>\<open>errors.Join\<close> of the errors met, in order; no error when the list is empty.\<close>

fun TryDeleteAll :: "'b managedObject list \<Rightarrow> ('b, 'w) k8s_client \<Rightarrow> 'b managedObject list \<Rightarrow> 'w \<Rightarrow> client_error list \<times> 'w" where
  "TryDeleteAll m cl [] w = ([], w)"
| "TryDeleteAll m cl (r # rs) w =
     (case TryDelete m cl (Some (mo_placeholder r)) (mo_object r) w of
        (e, w') \<Rightarrow> (case TryDeleteAll m cl rs w' of (es, w'') \<Rightarrow> ((case e of None \<Rightarrow> es | Some e \<Rightarrow> e # es), w'')))"

section \<open>Workloads\<close>

text \<open>
  The body of a deployment is its specification with the status fields that the status manager reads. The
  result carries the error, the report, the status manager and the world.
\<close>

record deployment_body =
  dpb_Spec :: DeploymentSpec
  dpb_Status :: Deployment

definition ReconcileDeployment ::
  "pod_lister \<Rightarrow> ComponentName \<Rightarrow> 'a managedObject list \<Rightarrow> (deployment_body, 'w) k8s_client \<Rightarrow> nat option
     \<Rightarrow> deployment_body k8s_object \<Rightarrow> deployment_body k8s_object \<Rightarrow> string \<Rightarrow> bool \<Rightarrow> ChangeReport \<Rightarrow> Manager \<Rightarrow> 'w
     \<Rightarrow> client_error option \<times> ChangeReport \<times> Manager \<times> 'w" where
  "ReconcileDeployment pods cpnt m cl p old n containerName ignoreReplicas report s w =
     (if \<not> Exists m p then
        (case CreateOwned cl n w of (e, w') \<Rightarrow> (e, report, SetCreatingDeployment cpnt (dpb_Status (obj_Body n)) s, w'))
      else
        (let s = CheckDeploymentHealth pods cpnt (Some (dpb_Status (obj_Body old))) s;
             ospec = dpb_Spec (obj_Body old);
             nspec = (dpb_Spec (obj_Body n))\<lparr>dsp_Replicas := (if ignoreReplicas then dsp_Replicas ospec else dsp_Replicas (dpb_Spec (obj_Body n)))\<rparr>;
             n = n\<lparr>obj_Body := (obj_Body n)\<lparr>dpb_Spec := nspec\<rparr>\<rparr>
         in case dsp_Replicas ospec of
              None \<Rightarrow>
                (case check_named ''Pod changed'' (PodChanged (dsp_Template ospec) (dsp_Template nspec) containerName) report of
                   (True, report') \<Rightarrow> (case UpdateIfOwned cl (Some old) n w of (e, w') \<Rightarrow> (e, report', s, w'))
                 | (False, report') \<Rightarrow> ((if dsp_Replicas nspec = None then None else Some NilDereference), report', s, w))
            | Some k \<Rightarrow>
                (case DeploymentChanged \<lparr>sd_Template = dsp_Template ospec, sd_Replicas = k\<rparr> nspec containerName report of
                   (True, report') \<Rightarrow> (case UpdateIfOwned cl (Some old) n w of (e, w') \<Rightarrow> (e, report', s, w'))
                 | (False, report') \<Rightarrow> (None, report', s, w))))"

record daemonset_body =
  dsb_Template :: PodTemplateSpec
  dsb_Status :: DaemonSet

definition ReconcileDaemonSet ::
  "pod_lister \<Rightarrow> ComponentName \<Rightarrow> 'a managedObject list \<Rightarrow> (daemonset_body, 'w) k8s_client \<Rightarrow> nat option
     \<Rightarrow> daemonset_body k8s_object \<Rightarrow> daemonset_body k8s_object \<Rightarrow> string \<Rightarrow> ChangeReport \<Rightarrow> Manager \<Rightarrow> 'w
     \<Rightarrow> client_error option \<times> ChangeReport \<times> Manager \<times> 'w" where
  "ReconcileDaemonSet pods cpnt m cl p old n containerName report s w =
     (if \<not> Exists m p then
        (case CreateOwned cl n w of (e, w') \<Rightarrow> (e, report, SetCreatingDaemonSet cpnt (dsb_Status (obj_Body n)) s, w'))
      else
        (let s = CheckDaemonSetHealth pods cpnt (Some (dsb_Status (obj_Body old))) s in
         case PodChanged (dsb_Template (obj_Body old)) (dsb_Template (obj_Body n)) containerName report of
           (True, report') \<Rightarrow> (case UpdateIfOwned cl (Some old) n w of (e, w') \<Rightarrow> (e, report', s, w'))
         | (False, report') \<Rightarrow> (None, report', s, w)))"

definition GenericReconcile ::
  "'a managedObject list \<Rightarrow> ('b, 'w) k8s_client \<Rightarrow> nat option \<Rightarrow> 'b k8s_object \<Rightarrow> 'b k8s_object
     \<Rightarrow> ('b k8s_object \<Rightarrow> 'b k8s_object \<Rightarrow> check) \<Rightarrow> ChangeReport \<Rightarrow> 'w \<Rightarrow> client_error option \<times> ChangeReport \<times> 'w" where
  "GenericReconcile m cl p old n changeFunc report w =
     (if \<not> Exists m p then (case CreateOwned cl n w of (e, w') \<Rightarrow> (e, report, w'))
      else (case changeFunc old n report of
              (True, report') \<Rightarrow> (case UpdateIfOwned cl (Some old) n w of (e, w') \<Rightarrow> (e, report', w'))
            | (False, report') \<Rightarrow> (None, report', w)))"

definition ReconcileHPA ::
  "(opaque list \<Rightarrow> go_value) \<Rightarrow> 'a managedObject list \<Rightarrow> (HorizontalPodAutoscaler, 'w) k8s_client \<Rightarrow> nat option
     \<Rightarrow> HorizontalPodAutoscaler k8s_object \<Rightarrow> HorizontalPodAutoscaler k8s_object \<Rightarrow> FlowCollectorHPA \<Rightarrow> ChangeReport \<Rightarrow> 'w
     \<Rightarrow> client_error option \<times> ChangeReport \<times> 'w" where
  "ReconcileHPA metrics m cl p old n desired report w =
     (if IsHPAEnabled desired then
        GenericReconcile m cl p old n (\<lambda>old n. AutoScalerChanged metrics (obj_Body old) desired) report w
      else (case TryDelete m cl p old w of (e, w') \<Rightarrow> (e, report, w')))"

record service_body =
  svb_Ports :: go_value
  svb_Rest :: go_value

definition service_view :: "service_body k8s_object \<Rightarrow> ServiceObject" where
  "service_view x = \<lparr>svc_Labels = labels_of x, svc_Annotations = annotations_of x,
     svc_Spec = GStruct [svb_Ports (obj_Body x), svb_Rest (obj_Body x)]\<rparr>"

definition ReconcileService ::
  "'a managedObject list \<Rightarrow> (service_body, 'w) k8s_client \<Rightarrow> nat option \<Rightarrow> service_body k8s_object \<Rightarrow> service_body k8s_object
     \<Rightarrow> ChangeReport \<Rightarrow> 'w \<Rightarrow> client_error option \<times> ChangeReport \<times> 'w" where
  "ReconcileService m cl p old n report w =
     (if \<not> Exists m p then (case CreateOwned cl n w of (e, w') \<Rightarrow> (e, report, w'))
      else (case ServiceChanged (service_view old) (service_view n) report of
              (True, report') \<Rightarrow>
                (let newSVC = old\<lparr>obj_Meta := (obj_Meta old)\<lparr>om_Annotations := om_Annotations (obj_Meta n)\<rparr>,
                                  obj_Body := (obj_Body old)\<lparr>svb_Ports := svb_Ports (obj_Body n)\<rparr>\<rparr>
                 in case UpdateIfOwned cl (Some old) newSVC w of (e, w') \<Rightarrow> (e, report', w'))
            | (False, report') \<Rightarrow> (None, report', w)))"

end
