(* ===== verification/Reconcilers_Correct.thy ===== *)
theory Reconcilers_Correct
  imports Reconcilers Change_Correct
begin

text \<open>
  Correctness of the reconcilers: objects of others are not written, the name-scoped event filters agree with
  the predicates they mirror, subjects of cluster role bindings are added and removed exactly, created
  objects are recognised as owned; and the places where the code does not do what its comments say.
\<close>

section \<open>Ownership\<close>

lemma map_of_go_map_set [simp]: "map_of (go_map_set k v m) = (map_of m)(k \<mapsto> v)"
  by (induction m) (auto simp: fun_eq_iff)

lemma distinct_go_map_set: "distinct (map fst m) \<Longrightarrow> distinct (map fst (go_map_set k v m))"
proof (induction m)
  case (Cons kv m)
  have "fst ` set (go_map_set k v m) = insert k (fst ` set m)" for m by (induction m) force+
  with Cons show ?case by (cases kv) auto
qed simp

lemma AddManagedLabel_owned [simp]: "IsOwned (AddManagedLabel x)"
  by (simp add: IsOwned_def IsManaged_def AddManagedLabel_def go_lookup_def)

lemma AddManagedLabel_labels: "map_of (labels_of (AddManagedLabel x)) = (map_of (labels_of x))(netobservManagedLabel \<mapsto> ''true'')"
  by (simp add: labels_of_def AddManagedLabel_def)

text \<open>The object as written by \<open>CreateOwned\<close> and \<open>UpdateOwned\<close>, if a write happens.\<close>

lemma CreateOwned_cases:
  "CreateOwned c x w =
     (case cl_SetOwnerReference c x of Inl e \<Rightarrow> (Some e, w) | Inr y \<Rightarrow> lift_error (cl_Create c (AddManagedLabel y) w))"
  by (simp add: CreateOwned_def)

lemma UpdateIfOwned_unowned [simp]: "\<not> IsOwned old \<Longrightarrow> UpdateIfOwned c (Some old) x w = (None, w)"
  by (simp add: UpdateIfOwned_def)

lemma unowned_ConfigMap: "\<not> IsOwned cm \<Longrightarrow> ReconcileConfigMap cl (Some cm) d w = (None, w)"
  by (simp add: ReconcileConfigMap_def split: option.split)

lemma unowned_NetworkPolicy: "\<not> IsOwned np \<Longrightarrow> cl_Get cl name w = Inr np \<Longrightarrow> ReconcileNetworkPolicy cl name wo d w = (None, w)"
  by (simp add: ReconcileNetworkPolicy_def ReconcileNetworkPolicyWithEnqueuer_def enqueue_def split: option.split)

lemma unowned_RoleBinding: "\<not> IsOwned rb \<Longrightarrow> cl_Get cl (key_of d) w = Inr rb \<Longrightarrow> ReconcileRoleBinding cl d w = (None, w)"
  by (simp add: ReconcileRoleBinding_def)

lemma unowned_Deployment:
  assumes "\<not> IsOwned dep" and "Exists m p" and "dsp_Replicas (dpb_Spec (obj_Body dep)) = Some k"
  shows "\<exists>r' s'. ReconcileDeployment pods c m cl p dep d cn ig r s w = (None, r', s', w)"
  using assms by (simp add: ReconcileDeployment_def Let_def split: prod.split bool.split)

lemma unowned_DaemonSet:
  assumes "\<not> IsOwned ds" and "Exists m p"
  shows "\<exists>r' s'. ReconcileDaemonSet pods c m cl p ds d cn r s w = (None, r', s', w)"
  using assms by (simp add: ReconcileDaemonSet_def Let_def split: prod.split bool.split)

lemma unowned_Generic:
  assumes "\<not> IsOwned x" and "Exists m p"
  shows "\<exists>r'. GenericReconcile m cl p x d f r w = (None, r', w)"
  using assms by (simp add: GenericReconcile_def split: prod.split bool.split)

lemma unowned_Service:
  assumes "\<not> IsOwned svc" and "Exists m p"
  shows "\<exists>r'. ReconcileService m cl p svc d r w = (None, r', w)"
  using assms by (simp add: ReconcileService_def Let_def split: prod.split bool.split)


definition sample_meta :: ObjectMeta where
  "sample_meta = \<lparr>om_Name = ''x'', om_Namespace = ''ns'', om_Labels = None, om_Annotations = None, om_OwnerReferences = [],
     om_ResourceVersion = ''1'', om_Generation = 1, om_DeletionTimestamp = None\<rparr>"

definition fixed_client :: "'b k8s_object \<Rightarrow> ('b, nat) k8s_client" where
  "fixed_client x = \<lparr>cl_Get = (\<lambda>k w. Inr x), cl_Create = (\<lambda>x w. (None, w + 1)), cl_Update = (\<lambda>x w. (None, w + 1)),
     cl_Delete = (\<lambda>x w. (None, w + 1)), cl_SetOwnerReference = Inr\<rparr>"

definition of_others :: "'b \<Rightarrow> 'b k8s_object" where
  "of_others b = \<lparr>obj_Meta = sample_meta, obj_Body = b\<rparr>"

lemma of_others_unowned: "\<not> IsOwned (of_others b)"
  by (simp add: of_others_def IsOwned_def IsManaged_def sample_meta_def)

definition sample_deployment :: Deployment where
  "sample_deployment = \<lparr>dep_Name = ''x'', dep_Namespace = ''ns'', dep_SpecReplicas = Some 1, dep_Selector = None,
     dep_ReadyReplicas = 1, dep_Replicas = 1, dep_UnavailableReplicas = 0, dep_Conditions = []\<rparr>"

definition sample_daemonset :: DaemonSet where
  "sample_daemonset = \<lparr>ds_Name = ''x'', ds_Namespace = ''ns'', ds_Selector = None, ds_DesiredNumberScheduled = 1,
     ds_NumberReady = 1, ds_NumberUnavailable = 0\<rparr>"


section \<open>Owned objects\<close>

text \<open>
  What the operator writes it recognises as its own: an object that has been created or updated through
  the client wrapper carries the managed label, keeps its other labels and counts as owned. But setting the
  label to false does not release an object that still has the operator's owner reference, although the
  label is there for users to switch to false.
\<close>

theorem managed_label_ownership:
  "IsOwned (AddManagedLabel x)
   \<and> map_of (labels_of (AddManagedLabel x)) = (map_of (labels_of x))(netobservManagedLabel \<mapsto> ''true'')
   \<and> (let released = \<lparr>obj_Meta = sample_meta\<lparr>om_Labels := Some [(netobservManagedLabel, ''false'')],
          om_OwnerReferences := [\<lparr>oref_APIVersion = ''flows.netobserv.io/v1beta2'', oref_Kind = ''FlowCollector'', oref_Name = ''cluster''\<rparr>]\<rparr>,
          obj_Body = b\<rparr>
      in SkipOwnership released \<and> IsOwned released)"
proof (intro conjI)
  show "IsOwned (AddManagedLabel x)" by simp
  show "map_of (labels_of (AddManagedLabel x)) = (map_of (labels_of x))(netobservManagedLabel \<mapsto> ''true'')" by (rule AddManagedLabel_labels)
qed (simp add: SkipOwnership_def IsOwned_def IsManaged_def go_lookup_def has_prefix_def)

section \<open>Event filters\<close>

text \<open>The arguments a name-scoped watch passes for an event: no old object on creation, no new one on deletion.\<close>

fun filter_args :: "'b k8s_watch_event \<Rightarrow> ('b k8s_object option \<times> 'b k8s_object option) option" where
  "filter_args (CreateEvent x) = Some (None, Some x)"
| "filter_args (UpdateEvent old n) = Some (Some old, Some n)"
| "filter_args (DeleteEvent x unknown) = (if unknown then None else Some (Some x, None))"
| "filter_args (GenericEvent x) = None"

text \<open>
  The filters of the name-scoped watches are the predicates they are meant to mirror: on every creation,
  update and confirmed deletion each filter decides as its predicate.
\<close>

theorem event_filters_mirror_predicates:
  assumes "filter_args e = Some (old, n)"
  shows "ManagedObjectEventFilter old n = UpdateOrDeleteOnlyPred e
    \<and> IgnoreStatusChangeEventFilter old n = IgnoreStatusChange e
    \<and> OperatorOwnedEventFilter ns old n = (OperatorOwned ns e \<and> IgnoreStatusChange e)"
  using assms
  by (cases e) (auto simp: ManagedObjectEventFilter_def IgnoreStatusChangeEventFilter_def OperatorOwnedEventFilter_def split: if_splits)

theorem event_filters_mirror_predicates_witness:
  "ManagedObjectEventFilter None (Some (of_others ())) = UpdateOrDeleteOnlyPred (CreateEvent (of_others ()))"
  using event_filters_mirror_predicates[of "CreateEvent (of_others ())"] by simp

section \<open>Cluster role bindings\<close>

lemma findSubject_None: "findSubject ss s = None \<longleftrightarrow> (\<forall>x \<in> set ss. \<not> same_subject x s)"
  by (induction ss) auto

lemma findSubject_Some:
  "findSubject ss s = Some i \<Longrightarrow> i < length ss \<and> same_subject (ss ! i) s \<and> (\<forall>x \<in> set (take i ss). \<not> same_subject x s)"
proof (induction ss arbitrary: i)
  case (Cons x ss)
  then show ?case by (cases "same_subject x s") auto
qed simp

definition service_account :: "string \<Rightarrow> string \<Rightarrow> Subject" where
  "service_account ns sa = \<lparr>subj_Kind = ''ServiceAccount'', subj_APIGroup = [], subj_Name = sa, subj_Namespace = ns\<rparr>"

definition subject_count :: "Subject \<Rightarrow> Subject list \<Rightarrow> nat" where
  "subject_count s ss = length (filter (\<lambda>x. same_subject x s) ss)"

lemma remove_subject:
  assumes "findSubject ss s = Some i"
  shows "filter (\<lambda>x. \<not> same_subject x s) (take i ss @ drop (i + 1) ss) = filter (\<lambda>x. \<not> same_subject x s) ss"
    and "subject_count s ss = Suc (subject_count s (take i ss @ drop (i + 1) ss))"
proof -
  have i: "i < length ss" "same_subject (ss ! i) s" using findSubject_Some[OF assms] by simp_all
  have "ss = take i ss @ ss ! i # drop (i + 1) ss" using id_take_nth_drop[OF i(1)] by simp
  then have split: "filter P ss = filter P (take i ss) @ filter P (ss ! i # drop (i + 1) ss)" for P by (metis filter_append)
  show "filter (\<lambda>x. \<not> same_subject x s) (take i ss @ drop (i + 1) ss) = filter (\<lambda>x. \<not> same_subject x s) ss"
    using i(2) by (simp add: split[of "\<lambda>x. \<not> same_subject x s"])
  show "subject_count s ss = Suc (subject_count s (take i ss @ drop (i + 1) ss))"
    using i(2) by (simp add: subject_count_def split[of "\<lambda>x. same_subject x s"])
qed

text \<open>
  Reconciling a service account into a preinstalled cluster role binding. When the account is wanted and
  missing, or present and unwanted, there is exactly one update, after which it occurs once more or once
  less, all other subjects staying as they were and in order; otherwise nothing is written.
\<close>

theorem ReconcileClusterRoleBinding_effect:
  assumes "cl_Get cl ([], ref) w = Inr crb" and "s = service_account ns sa"
  shows "\<exists>ss. ReconcileClusterRoleBinding None cl ns sa ref isDelete w =
        (if (subject_count s (obj_Body crb) > 0) = isDelete then lift_error (cl_Update cl (crb\<lparr>obj_Body := ss\<rparr>) w) else (None, w))
    \<and> filter (\<lambda>x. \<not> same_subject x s) ss = filter (\<lambda>x. \<not> same_subject x s) (obj_Body crb)
    \<and> subject_count s ss = (if isDelete then subject_count s (obj_Body crb) - 1 else subject_count s (obj_Body crb) + 1)"
proof -
  let ?b = "obj_Body crb"
  have none: "findSubject ?b s = None \<longleftrightarrow> subject_count s ?b = 0"
    by (auto simp: subject_count_def findSubject_None filter_empty_conv)
  have run: "ReconcileClusterRoleBinding None cl ns sa ref d w = (case findSubject ?b s of
      Some i \<Rightarrow> if d then lift_error (cl_Update cl (crb\<lparr>obj_Body := take i ?b @ drop (i + 1) ?b\<rparr>) w) else (None, w)
    | None \<Rightarrow> if \<not> d then lift_error (cl_Update cl (crb\<lparr>obj_Body := ?b @ [s]\<rparr>) w) else (None, w))" for d
    by (cases "findSubject ?b s")
       (simp_all add: ReconcileClusterRoleBinding_def assms service_account_def enqueue_def with_subjects_def Let_def)
  show ?thesis
  proof (cases isDelete)
    case False
    then show ?thesis using none
      by (intro exI[of _ "?b @ [s]"]) (auto simp: run subject_count_def same_subject_def split: option.split)
  next
    case True
    show ?thesis
    proof (cases "findSubject ?b s")
      case None
      then show ?thesis using True none by (intro exI[of _ ?b]) (simp add: run)
    next
      case (Some i)
      then show ?thesis using True none remove_subject[OF Some]
        by (intro exI[of _ "take i ?b @ drop (i + 1) ?b"]) (simp add: run)
    qed
  qed
qed

theorem ReconcileClusterRoleBinding_effect_witness:
  "ReconcileClusterRoleBinding None (fixed_client (of_others [])) ''ns'' ''sa'' ''r'' False 0 = (None, 1)"
  using ReconcileClusterRoleBinding_effect[of "fixed_client (of_others [])" "''r''" 0 "of_others []" "service_account ''ns'' ''sa''" "''ns''" "''sa''" False]
  by (auto simp: fixed_client_def of_others_def subject_count_def lift_error_def)

section \<open>Where the reconcilers fall short\<close>

text \<open>A role binding with another role reference is updated in place: the branch that deletes and recreates it is dead.\<close>

theorem changed_role_ref_updated_in_place:
  assumes "cl_Get cl (key_of desired) w = Inr actual" and "rb_RoleRef (obj_Body actual) \<noteq> rb_RoleRef (obj_Body desired)"
  shows "ReconcileRoleBinding cl desired w = UpdateIfOwned cl (Some actual) desired w"
  using assms by (simp add: ReconcileRoleBinding_def)

text \<open>The update of a service does not carry the desired labels, so that a label change is found again forever.\<close>

theorem service_labels_never_applied:
  assumes "Exists m p" and "IsOwned old" and "fst (ServiceChanged (service_view old) (service_view n) r)"
    and "\<forall>x. cl_SetOwnerReference cl x = Inr x"
  shows "\<exists>written. labels_of written = go_map_set netobservManagedLabel ''true'' (labels_of old)
    \<and> snd (snd (ReconcileService m cl p old n r w)) = snd (cl_Update cl written w)"
proof -
  let ?new = "old\<lparr>obj_Meta := (obj_Meta old)\<lparr>om_Annotations := om_Annotations (obj_Meta n)\<rparr>,
     obj_Body := (obj_Body old)\<lparr>svb_Ports := svb_Ports (obj_Body n)\<rparr>\<rparr>"
  let ?w = "AddManagedLabel (?new\<lparr>obj_Meta := (obj_Meta ?new)\<lparr>om_ResourceVersion := om_ResourceVersion (obj_Meta old)\<rparr>\<rparr>)"
  obtain r' where "ServiceChanged (service_view old) (service_view n) r = (True, r')" using assms(3) by (metis prod.collapse)
  then have "snd (snd (ReconcileService m cl p old n r w)) = snd (cl_Update cl ?w w)"
    using assms by (simp add: ReconcileService_def UpdateIfOwned_def UpdateOwned_def Let_def split: prod.split option.split sum.split)
  moreover have "labels_of ?w = go_map_set netobservManagedLabel ''true'' (labels_of old)"
    by (simp add: labels_of_def AddManagedLabel_def)
  ultimately show ?thesis by blast
qed

text \<open>A nil object makes the conditional deletion panic before its test for nil.\<close>

theorem DeleteIfOwned_nil_panics: "DeleteIfOwned c None w = (Some NilDereference, w)"
  by (simp add: DeleteIfOwned_def)

end
