(* ===== verification/Narrow_Cache.thy ===== *)
theory Narrow_Cache
  imports Prelude
begin

text \<open>
  The name-scoped cache of \<open>internal/pkg/narrowcache\<close>: \<open>client.go\<close>, \<open>source.go\<close> and
  \<open>idempotent_sources.go\<close>. Each object asked for is fetched once, cached, and kept up to date by a goroutine
  that reads a watch on that one object and calls the handlers registered for it. An object is a value of an
  arbitrary type; the handler of a request is its filters, the request and the queue it is for; a nil filter
  is \<open>None\<close>. What one critical section of the code does is one function on the maps of the client.
\<close>

section \<open>State\<close>

record ('o, 'r) requestEventHandler =
  reh_request :: 'r
  reh_filters :: "('o option \<Rightarrow> 'o option \<Rightarrow> bool) option list"

record ('o, 'r) watchedObject =
  wo_cached :: "'o option"
  wo_handlers :: "('o, 'r) requestEventHandler list"

text \<open>The map of watched objects by cache key, and per group the registered resources with their active flag.\<close>

record ('o, 'r) narrow_client =
  watchedObjects :: "string \<rightharpoonup> ('o, 'r) watchedObject"
  nc_registered :: "string \<rightharpoonup> (string \<rightharpoonup> bool)"

datatype nc_error = NcNotFound | NcLive string | NcNotManaged | NcCanceled | NcNoObject string

section \<open>Cache entries\<close>

definition setCacheObject :: "string \<Rightarrow> 'o option \<Rightarrow> ('o, 'r) narrow_client \<Rightarrow> ('o, 'r) narrow_client" where
  "setCacheObject key obj c =
     c\<lparr>watchedObjects := (watchedObjects c)(key \<mapsto>
        (case watchedObjects c key of
           Some ca \<Rightarrow> ca\<lparr>wo_cached := obj\<rparr>
         | None \<Rightarrow> \<lparr>wo_cached = obj, wo_handlers = []\<rparr>))\<rparr>"

definition cachedObject :: "string \<Rightarrow> ('o, 'r) narrow_client \<Rightarrow> 'o option" where
  "cachedObject key c = (case watchedObjects c key of Some ca \<Rightarrow> wo_cached ca | None \<Rightarrow> None)"

definition removeFromCache :: "string \<Rightarrow> ('o, 'r) narrow_client \<Rightarrow> ('o, 'r) narrow_client" where
  "removeFromCache key c =
     (case watchedObjects c key of
        Some ca \<Rightarrow> c\<lparr>watchedObjects := (watchedObjects c)(key \<mapsto> ca\<lparr>wo_cached := None\<rparr>)\<rparr>
      | None \<Rightarrow> c)"

definition addHandler :: "bool \<Rightarrow> string \<Rightarrow> ('o, 'r) requestEventHandler \<Rightarrow> ('o, 'r) narrow_client
    \<Rightarrow> nc_error option \<times> ('o, 'r) narrow_client" where
  "addHandler ctxErr key hoq c =
     (if ctxErr then (Some NcCanceled, c)
      else case watchedObjects c key of
        Some ca \<Rightarrow> (None, c\<lparr>watchedObjects := (watchedObjects c)(key \<mapsto> ca\<lparr>wo_handlers := wo_handlers ca @ [hoq]\<rparr>)\<rparr>)
      | None \<Rightarrow> (Some (NcNoObject key), c))"

definition clearEntryByKey :: "string \<Rightarrow> ('o, 'r) narrow_client \<Rightarrow> ('o, 'r) narrow_client" where
  "clearEntryByKey key c = c\<lparr>watchedObjects := (watchedObjects c)(key := None)\<rparr>"

section \<open>Handlers\<close>

text \<open>\<open>enqueue\<close>: the request is added to the queue unless one of the filters refuses the event.\<close>

fun reh_enqueue :: "('o option \<Rightarrow> 'o option \<Rightarrow> bool) option list \<Rightarrow> 'r \<Rightarrow> 'o option \<Rightarrow> 'o option \<Rightarrow> 'r option" where
  "reh_enqueue [] req old n = Some req"
| "reh_enqueue (f # fs) req old n =
     (case f of
        Some g \<Rightarrow> if \<not> g old n then None else reh_enqueue fs req old n
      | None \<Rightarrow> reh_enqueue fs req old n)"

datatype 'o watch_event = Added 'o | Modified 'o | Deleted 'o | Bookmark | WatchError

text \<open>
  \<open>callHandlers\<close>: what each handler of the entry adds to its queue. A creation passes no old object to the
  filters, a deletion no new one. Each call runs in its own goroutine, so the order of the result is of no
  meaning.
\<close>

datatype 'o handler_event = HCreate 'o | HUpdate "'o option" 'o | HDelete 'o

fun handler_args :: "'o handler_event \<Rightarrow> 'o option \<times> 'o option" where
  "handler_args (HCreate n) = (None, Some n)"
| "handler_args (HUpdate old n) = (old, Some n)"
| "handler_args (HDelete old) = (Some old, None)"

definition callHandlers :: "bool \<Rightarrow> string \<Rightarrow> 'o handler_event option \<Rightarrow> ('o, 'r) narrow_client \<Rightarrow> 'r list" where
  "callHandlers ctxErr key ev c =
     (if ctxErr then []
      else case ev of None \<Rightarrow> []
      | Some e \<Rightarrow> (case watchedObjects c key of
          None \<Rightarrow> []
        | Some ca \<Rightarrow> List.map_filter (\<lambda>h. reh_enqueue (reh_filters h) (reh_request h) (fst (handler_args e)) (snd (handler_args e)))
                       (wo_handlers ca)))"

section \<open>The update loop\<close>

text \<open>One event of the watch: the requests enqueued and the client after it.\<close>

definition handle_watch_event :: "string \<Rightarrow> 'o watch_event \<Rightarrow> ('o, 'r) narrow_client \<Rightarrow> 'r list \<times> ('o, 'r) narrow_client" where
  "handle_watch_event key ev c =
     (case ev of
        Added n \<Rightarrow> (let c' = setCacheObject key (Some n) c in (callHandlers False key (Some (HCreate n)) c', c'))
      | Modified n \<Rightarrow> (let old = cachedObject key c; c' = setCacheObject key (Some n) c
                      in (callHandlers False key (Some (HUpdate old n)) c', c'))
      | Deleted old \<Rightarrow> (let c' = removeFromCache key c in (callHandlers False key (Some (HDelete old)) c', c'))
      | Bookmark \<Rightarrow> ([], c)
      | WatchError \<Rightarrow> ([], c))"

text \<open>What the handlers are told when a closed watch has been opened again, from the objects before and after.\<close>

definition reestablished_event :: "'o option \<Rightarrow> 'o option \<Rightarrow> 'o handler_event option" where
  "reestablished_event previous obj =
     (case obj of
        None \<Rightarrow> (case previous of None \<Rightarrow> None | Some p \<Rightarrow> Some (HDelete p))
      | Some n \<Rightarrow> (case previous of None \<Rightarrow> Some (HCreate n) | Some p \<Rightarrow> Some (HUpdate (Some p) n)))"

section \<open>Reading\<close>

text \<open>
  \<open>fetchAndWatch\<close> and \<open>getAndCreateWatchIfNeeded\<close>, run without interruption: \<open>live\<close> is the outcome of opening
  the watch and reading the object (\<open>Inr None\<close> when it does not exist), \<open>cu\<close> the clean-up of the kind.
\<close>

definition fetchAndWatch ::
  "('o \<Rightarrow> 'o) \<Rightarrow> string \<Rightarrow> nc_error + 'o option \<Rightarrow> ('o, 'r) narrow_client \<Rightarrow> (nc_error + 'o option) \<times> ('o, 'r) narrow_client" where
  "fetchAndWatch cu key live c =
     (case live of
        Inl e \<Rightarrow> (Inl e, c)
      | Inr obj \<Rightarrow> (Inr (map_option cu obj), setCacheObject key (map_option cu obj) c))"

definition getAndCreateWatchIfNeeded ::
  "('o \<Rightarrow> 'o) \<Rightarrow> string \<Rightarrow> nc_error + 'o option \<Rightarrow> ('o, 'r) narrow_client \<Rightarrow> (nc_error + 'o) \<times> ('o, 'r) narrow_client" where
  "getAndCreateWatchIfNeeded cu key live c =
     (case watchedObjects c key of
        Some ca \<Rightarrow> ((case wo_cached ca of None \<Rightarrow> Inl NcNotFound | Some x \<Rightarrow> Inr x), c)
      | None \<Rightarrow>
          (case fetchAndWatch cu key live c of
             (Inl e, c') \<Rightarrow> (Inl e, c')
           | (Inr None, c') \<Rightarrow> (Inl NcNotFound, c')
           | (Inr (Some x), c') \<Rightarrow> (Inr x, c')))"

section \<open>Writing\<close>

text \<open>
  \<open>Create\<close>, \<open>Update\<close> and \<open>Delete\<close> forward to the underlying client, and clear the entry of the object when
  that fails and its kind is managed by the cache; \<open>res\<close> is the outcome of the underlying call.
\<close>

definition clearEntry :: "bool \<Rightarrow> string \<Rightarrow> ('o, 'r) narrow_client \<Rightarrow> ('o, 'r) narrow_client" where
  "clearEntry managed key c = (if managed then clearEntryByKey key c else c)"

definition nc_write :: "bool \<Rightarrow> string \<Rightarrow> nc_error option \<Rightarrow> ('o, 'r) narrow_client \<Rightarrow> nc_error option \<times> ('o, 'r) narrow_client" where
  "nc_write managed key res c =
     (case res of Some e \<Rightarrow> (Some e, clearEntry managed key c) | None \<Rightarrow> (None, c))"

section \<open>Registration of handlers\<close>

definition setActive :: "string \<Rightarrow> string \<Rightarrow> ('o, 'r) narrow_client \<Rightarrow> bool \<times> ('o, 'r) narrow_client" where
  "setActive grp k c =
     (let m = (case nc_registered c grp of None \<Rightarrow> Map.empty | Some m \<Rightarrow> m)
      in (m k \<noteq> None, c\<lparr>nc_registered := (nc_registered c)(grp \<mapsto> m(k \<mapsto> True))\<rparr>))"

definition isActive :: "string \<Rightarrow> string \<Rightarrow> ('o, 'r) narrow_client \<Rightarrow> bool" where
  "isActive grp k c =
     (case nc_registered c grp of None \<Rightarrow> False | Some m \<Rightarrow> (case m k of None \<Rightarrow> False | Some b \<Rightarrow> b))"

definition resetActive :: "string \<Rightarrow> ('o, 'r) narrow_client \<Rightarrow> ('o, 'r) narrow_client" where
  "resetActive grp c =
     (case nc_registered c grp of None \<Rightarrow> c
      | Some m \<Rightarrow> c\<lparr>nc_registered := (nc_registered c)(grp \<mapsto> (\<lambda>k. map_option (\<lambda>_. False) (m k)))\<rparr>)"

text \<open>
  \<open>EnqueueRequestOnEvents\<close>: a source on the object, then the controller's \<open>Watch\<close>, which starts the source:
  the handler is added to the entry and the request enqueued once. \<open>watchErr\<close> is the outcome of the
  controller; the result has the error and the initial request.
\<close>

definition EnqueueRequestOnEvents ::
  "('o \<Rightarrow> 'o) \<Rightarrow> string \<Rightarrow> nc_error + 'o option \<Rightarrow> nc_error option \<Rightarrow> ('o, 'r) requestEventHandler \<Rightarrow> ('o, 'r) narrow_client
     \<Rightarrow> nc_error option \<times> 'r list \<times> ('o, 'r) narrow_client" where
  "EnqueueRequestOnEvents cu key live watchErr h c =
     (case getAndCreateWatchIfNeeded cu key live c of
        (r, c') \<Rightarrow>
          if (case r of Inl e \<Rightarrow> e \<noteq> NcNotFound | Inr _ \<Rightarrow> False)
          then ((case r of Inl e \<Rightarrow> Some e | Inr _ \<Rightarrow> None), [], c')
          else (case watchErr of
                  Some e \<Rightarrow> (Some e, [], c')
                | None \<Rightarrow> (case addHandler False key h c' of
                    (Some e, c'') \<Rightarrow> (Some e, [], c'')
                  | (None, c'') \<Rightarrow> (None, [reh_request h], c''))))"

text \<open>
  \<open>SafeEnqueueRequestOnEvents\<close>: registers at most once per group and resource \<open>k\<close>. The filter on the active
  flag reads the client at the time of the event, so it is an argument here: \<open>active\<close> decides on the object.
\<close>

definition active_filter :: "('o \<Rightarrow> bool) \<Rightarrow> 'o option \<Rightarrow> 'o option \<Rightarrow> bool" where
  "active_filter active oldObject newObject =
     (case (case newObject of None \<Rightarrow> oldObject | Some n \<Rightarrow> Some n) of None \<Rightarrow> False | Some x \<Rightarrow> active x)"

definition SafeEnqueueRequestOnEvents ::
  "('o \<Rightarrow> 'o) \<Rightarrow> bool \<Rightarrow> string \<Rightarrow> string \<Rightarrow> string \<Rightarrow> nc_error + 'o option \<Rightarrow> nc_error option \<Rightarrow> ('o \<Rightarrow> bool) option
     \<Rightarrow> ('o, 'r) requestEventHandler \<Rightarrow> ('o, 'r) narrow_client \<Rightarrow> nc_error option \<times> 'r list \<times> ('o, 'r) narrow_client" where
  "SafeEnqueueRequestOnEvents cu managed grp k key live watchErr checkActive h c =
     (if \<not> managed then (Some NcNotManaged, [], c)
      else case setActive grp k c of
        (True, c') \<Rightarrow> (None, [], c')
      | (False, c') \<Rightarrow>
          (let h' = (case checkActive of None \<Rightarrow> h
                     | Some a \<Rightarrow> h\<lparr>reh_filters := reh_filters h @ [Some (active_filter a)]\<rparr>)
           in case EnqueueRequestOnEvents cu key live watchErr h' c' of
                (Some e, reqs, c'') \<Rightarrow>
                  (Some e, reqs, c''\<lparr>nc_registered := (nc_registered c'')(grp :=
                     map_option (\<lambda>m. m(k := None)) (nc_registered c'' grp))\<rparr>)
              | (None, reqs, c'') \<Rightarrow> (None, reqs, c'')))"

end
