(* ===== verification/Narrow_Cache_Correct.thy ===== *)
theory Narrow_Cache_Correct
  imports Narrow_Cache
begin

text \<open>
  The narrow cache against a changing API server. The machine of this theory interleaves, for one object,
  the changes of the server, the goroutines that read watches and update the cache, reads that miss and open
  new watches, failed writes that clear the entry, and closed watches that are opened again. The invariant
  is that an entry can be out of date only while some goroutine still has work to do about it.
\<close>

section \<open>Elementary facts\<close>

lemma watched_set [simp]: "watchedObjects (setCacheObject key obj c) key \<noteq> None"
  by (simp add: setCacheObject_def)

lemma cached_set [simp]: "cachedObject key (setCacheObject key obj c) = obj"
  by (simp add: cachedObject_def setCacheObject_def split: option.split)

lemma cached_remove [simp]: "cachedObject key (removeFromCache key c) = None"
  by (simp add: cachedObject_def removeFromCache_def split: option.split)

lemma watched_remove [simp]: "watchedObjects (removeFromCache key c) key = None \<longleftrightarrow> watchedObjects c key = None"
  by (simp add: removeFromCache_def split: option.split)

lemma watched_clear [simp]: "watchedObjects (clearEntryByKey key c) key = None"
  by (simp add: clearEntryByKey_def)

section \<open>The machine\<close>

datatype 'o work_phase = Opened | Fetched "'o option" | Running

text \<open>
  A worker is a goroutine with its watch: the events not yet read, whether the watch is still open, the phase
  of \<open>fetchAndWatch\<close> it is in, and whether it has stored an object before, as the update loop has.
\<close>

record 'o worker =
  wk_queue :: "'o watch_event list"
  wk_open :: bool
  wk_phase :: "'o work_phase"
  wk_settled :: bool

record ('o, 'r) nc_machine =
  mc_client :: "('o, 'r) narrow_client"
  mc_server :: "'o option"
  mc_workers :: "'o worker list"

text \<open>The event of a change of the server, and the events a new watch starts with.\<close>

definition change_event :: "'o option \<Rightarrow> 'o option \<Rightarrow> 'o watch_event list" where
  "change_event old n =
     (case (old, n) of
        (None, None) \<Rightarrow> [] | (None, Some x) \<Rightarrow> [Added x] | (Some _, Some x) \<Rightarrow> [Modified x] | (Some x, None) \<Rightarrow> [Deleted x])"

definition initial_events :: "'o option \<Rightarrow> 'o watch_event list" where
  "initial_events srv = (case srv of None \<Rightarrow> [] | Some x \<Rightarrow> [Added x])"

definition tell :: "'o watch_event list \<Rightarrow> 'o worker \<Rightarrow> 'o worker" where
  "tell evs w = (if wk_open w then w\<lparr>wk_queue := wk_queue w @ evs\<rparr> else w)"

definition remove_nth :: "nat \<Rightarrow> 'a list \<Rightarrow> 'a list" where
  "remove_nth i xs = take i xs @ drop (Suc i) xs"

inductive nc_step :: "('o \<Rightarrow> 'o) \<Rightarrow> string \<Rightarrow> ('o, 'r) nc_machine \<Rightarrow> ('o, 'r) nc_machine \<Rightarrow> bool" for cu key where
  server_change: "nc_step cu key m (m\<lparr>mc_server := n, mc_workers := map (tell (change_event (mc_server m) n)) (mc_workers m)\<rparr>)"
| bookmark: "nc_step cu key m (m\<lparr>mc_workers := map (tell [Bookmark]) (mc_workers m)\<rparr>)"
| open_watch: "nc_step cu key m (m\<lparr>mc_workers := mc_workers m @
     [\<lparr>wk_queue = initial_events (mc_server m), wk_open = True, wk_phase = Opened, wk_settled = False\<rparr>]\<rparr>)"
| fetch: "i < length (mc_workers m) \<Longrightarrow> wk_phase (mc_workers m ! i) = Opened \<Longrightarrow>
     nc_step cu key m (m\<lparr>mc_workers := (mc_workers m)[i := (mc_workers m ! i)\<lparr>wk_phase := Fetched (mc_server m)\<rparr>]\<rparr>)"
| fetch_failed: "i < length (mc_workers m) \<Longrightarrow> wk_phase (mc_workers m ! i) = Opened \<Longrightarrow>
     nc_step cu key m (m\<lparr>mc_workers := remove_nth i (mc_workers m),
       mc_client := (if wk_settled (mc_workers m ! i) then clearEntryByKey key (mc_client m) else mc_client m)\<rparr>)"
| store: "i < length (mc_workers m) \<Longrightarrow> wk_phase (mc_workers m ! i) = Fetched v \<Longrightarrow>
     nc_step cu key m (m\<lparr>mc_workers := (mc_workers m)[i := (mc_workers m ! i)\<lparr>wk_phase := Running, wk_settled := True\<rparr>],
       mc_client := snd (fetchAndWatch cu key (Inr v) (mc_client m))\<rparr>)"
| receive: "i < length (mc_workers m) \<Longrightarrow> wk_phase (mc_workers m ! i) = Running \<Longrightarrow> wk_queue (mc_workers m ! i) = e # q \<Longrightarrow>
     nc_step cu key m (m\<lparr>mc_workers := (mc_workers m)[i := (mc_workers m ! i)\<lparr>wk_queue := q\<rparr>],
       mc_client := snd (handle_watch_event key e (mc_client m))\<rparr>)"
| watch_closed: "i < length (mc_workers m) \<Longrightarrow>
     nc_step cu key m (m\<lparr>mc_workers := (mc_workers m)[i := (mc_workers m ! i)\<lparr>wk_open := False\<rparr>]\<rparr>)"
| reopen: "i < length (mc_workers m) \<Longrightarrow> wk_phase (mc_workers m ! i) = Running \<Longrightarrow> wk_queue (mc_workers m ! i) = [] \<Longrightarrow>
     \<not> wk_open (mc_workers m ! i) \<Longrightarrow>
     nc_step cu key m (m\<lparr>mc_workers := (mc_workers m)[i := (mc_workers m ! i)\<lparr>wk_queue := initial_events (mc_server m), wk_open := True, wk_phase := Opened\<rparr>]\<rparr>)"
| terminated: "i < length (mc_workers m) \<Longrightarrow> wk_phase (mc_workers m ! i) = Running \<Longrightarrow>
     nc_step cu key m (m\<lparr>mc_workers := remove_nth i (mc_workers m), mc_client := clearEntryByKey key (mc_client m)\<rparr>)"
| failed_write: "nc_step cu key m (m\<lparr>mc_client := snd (nc_write managed key (Some e) (mc_client m))\<rparr>)"
| register: "nc_step cu key m (m\<lparr>mc_client := snd (addHandler ctxErr key h (mc_client m))\<rparr>)"

inductive nc_reachable :: "('o \<Rightarrow> 'o) \<Rightarrow> string \<Rightarrow> ('o, 'r) nc_machine \<Rightarrow> bool" for cu key where
  nc_start: "nc_reachable cu key \<lparr>mc_client = \<lparr>watchedObjects = Map.empty, nc_registered = Map.empty\<rparr>, mc_server = srv, mc_workers = []\<rparr>"
| nc_next: "nc_reachable cu key m \<Longrightarrow> nc_step cu key m m' \<Longrightarrow> nc_reachable cu key m'"

section \<open>The invariant\<close>

text \<open>What the events not yet read will make of the cache: \<open>None\<close> when none of them touches it.\<close>

fun outcome :: "'o watch_event list \<Rightarrow> 'o option option" where
  "outcome [] = None"
| "outcome (e # q) =
     (case outcome q of Some r \<Rightarrow> Some r
      | None \<Rightarrow> (case e of Added x \<Rightarrow> Some (Some x) | Modified x \<Rightarrow> Some (Some x) | Deleted _ \<Rightarrow> Some None | _ \<Rightarrow> None))"

lemma outcome_append: "outcome (p @ q) = (case outcome q of Some r \<Rightarrow> Some r | None \<Rightarrow> outcome p)"
  by (induction p) (auto split: option.splits)

lemma outcome_change: "outcome (change_event old n) = Some n \<or> (outcome (change_event old n) = None \<and> old = None \<and> n = None)"
  by (cases old; cases n) (simp_all add: change_event_def)

lemma outcome_initial: "outcome (initial_events srv) = None \<or> outcome (initial_events srv) = Some srv"
  by (cases srv) (simp_all add: initial_events_def)

text \<open>A worker is in step with the server, and may still have to correct the cache.\<close>

definition in_step :: "'o option \<Rightarrow> 'o worker \<Rightarrow> bool" where
  "in_step srv w \<longleftrightarrow> (wk_open w \<longrightarrow>
     (outcome (wk_queue w) \<noteq> None \<longrightarrow> outcome (wk_queue w) = Some srv)
     \<and> (\<forall>v. wk_phase w = Fetched v \<longrightarrow> v = srv \<or> outcome (wk_queue w) \<noteq> None))
     \<and> (wk_phase w = Running \<longrightarrow> wk_settled w)"

definition has_work :: "'o worker \<Rightarrow> bool" where
  "has_work w \<longleftrightarrow> wk_settled w \<and> (\<not> wk_open w \<or> wk_phase w \<noteq> Running \<or> outcome (wk_queue w) \<noteq> None)"

definition nc_inv :: "('o \<Rightarrow> 'o) \<Rightarrow> string \<Rightarrow> ('o, 'r) nc_machine \<Rightarrow> bool" where
  "nc_inv cu key m \<longleftrightarrow> (\<forall>w \<in> set (mc_workers m). in_step (mc_server m) w)
     \<and> (watchedObjects (mc_client m) key \<noteq> None \<longrightarrow>
          (\<exists>w \<in> set (mc_workers m). wk_settled w)
          \<and> ((\<exists>w \<in> set (mc_workers m). has_work w) \<or> map_option cu (cachedObject key (mc_client m)) = map_option cu (mc_server m)))"

section \<open>Every step keeps the invariant\<close>

lemma ex_update:
  assumes "\<exists>w \<in> set xs. P w" and "i < length xs" and "P (xs ! i) \<Longrightarrow> P w'"
  shows "\<exists>w \<in> set (xs[i := w']). P w"
proof -
  obtain j where j: "j < length xs" "P (xs ! j)" using assms(1) by (auto simp: in_set_conv_nth)
  have "P (xs[i := w'] ! j)" using j assms(2,3) by (cases "i = j") auto
  then show ?thesis using j(1) by (metis length_list_update nth_mem)
qed

lemma ex_remove:
  assumes "\<exists>w \<in> set xs. P w" and "i < length xs" and "\<not> P (xs ! i)"
  shows "\<exists>w \<in> set (remove_nth i xs). P w"
proof -
  have "set xs = insert (xs ! i) (set (remove_nth i xs))"
    using id_take_nth_drop[OF assms(2)] by (metis list.set(2) remove_nth_def set_append Un_insert_right)
  then show ?thesis using assms(1,3) by auto
qed

lemma all_update: "\<forall>w \<in> set xs. P w \<Longrightarrow> P w' \<Longrightarrow> \<forall>w \<in> set (xs[i := w']). P w"
  by (metis insertE set_update_subset_insert subsetD)

lemma all_remove: "\<forall>w \<in> set xs. P w \<Longrightarrow> \<forall>w \<in> set (remove_nth i xs). P w"
  unfolding remove_nth_def by (auto dest: in_set_takeD in_set_dropD)

lemma tell_simps [simp]: "wk_settled (tell evs w) = wk_settled w" "wk_open (tell evs w) = wk_open w" "wk_phase (tell evs w) = wk_phase w"
  by (simp_all add: tell_def)

lemma in_step_change: "in_step srv w \<Longrightarrow> in_step n (tell (change_event srv n) w)"
  using outcome_change[of srv n] by (auto simp: in_step_def tell_def outcome_append split: option.splits)

lemma has_work_change: "wk_settled w \<Longrightarrow> has_work (tell (change_event srv n) w) \<or> (srv = None \<and> n = None)"
  using outcome_change[of srv n] by (auto simp: has_work_def tell_def outcome_append)

lemma in_step_bookmark: "in_step srv w \<Longrightarrow> in_step srv (tell [Bookmark] w)"
  by (auto simp: in_step_def tell_def outcome_append)

lemma has_work_bookmark [simp]: "has_work (tell [Bookmark] w) = has_work w"
  by (auto simp: has_work_def tell_def outcome_append)

lemma inv_workers: "nc_inv cu key m \<Longrightarrow> i < length (mc_workers m) \<Longrightarrow> in_step (mc_server m) (mc_workers m ! i)"
  by (simp add: nc_inv_def)

text \<open>A step that only changes worker \<open>i\<close>, keeping what it owes to the cache.\<close>

lemma inv_update_worker:
  assumes "nc_inv cu key m" and "i < length (mc_workers m)" and "in_step (mc_server m) w'"
    and "wk_settled w' = wk_settled (mc_workers m ! i)" and "has_work (mc_workers m ! i) \<Longrightarrow> has_work w'"
  shows "nc_inv cu key (m\<lparr>mc_workers := (mc_workers m)[i := w']\<rparr>)"
proof -
  let ?ws = "(mc_workers m)[i := w']"
  have steps: "\<forall>w \<in> set ?ws. in_step (mc_server m) w"
    using all_update[of "mc_workers m" "in_step (mc_server m)" w' i] assms(1,3) by (simp add: nc_inv_def)
  have settled: "\<exists>w \<in> set (mc_workers m). wk_settled w \<Longrightarrow> \<exists>w \<in> set ?ws. wk_settled w"
    using ex_update[of "mc_workers m" wk_settled i w'] assms(2,4) by simp
  have work: "\<exists>w \<in> set (mc_workers m). has_work w \<Longrightarrow> \<exists>w \<in> set ?ws. has_work w"
    using ex_update[of "mc_workers m" has_work i w'] assms(2,5) by simp
  show ?thesis
    unfolding nc_inv_def
  proof (intro conjI impI)
    let ?n = "m\<lparr>mc_workers := ?ws\<rparr>"
    show "\<forall>w \<in> set (mc_workers ?n). in_step (mc_server ?n) w" using steps by simp
    assume present: "watchedObjects (mc_client ?n) key \<noteq> None"
    then show "\<exists>w \<in> set (mc_workers ?n). wk_settled w" using settled assms(1) by (simp add: nc_inv_def)
    from present assms(1) have "(\<exists>w \<in> set (mc_workers m). has_work w) \<or> map_option cu (cachedObject key (mc_client m)) = map_option cu (mc_server m)"
      by (simp add: nc_inv_def)
    then show "(\<exists>w \<in> set (mc_workers ?n). has_work w) \<or> map_option cu (cachedObject key (mc_client ?n)) = map_option cu (mc_server ?n)"
    proof
      assume "\<exists>w \<in> set (mc_workers m). has_work w"
      then show ?thesis using work by simp
    qed simp
  qed
qed

lemma nc_inv_cleared:
  "nc_inv cu key m \<Longrightarrow> watchedObjects c key = None \<Longrightarrow> \<forall>w \<in> set ws. in_step (mc_server m) w \<Longrightarrow>
     nc_inv cu key (m\<lparr>mc_workers := ws, mc_client := c\<rparr>)"
  by (simp add: nc_inv_def)

lemma nc_inv_change:
  assumes "nc_inv cu key m"
  shows "nc_inv cu key (m\<lparr>mc_server := n, mc_workers := map (tell (change_event (mc_server m) n)) (mc_workers m)\<rparr>)"
  unfolding nc_inv_def
proof (intro conjI impI)
  let ?m = "m\<lparr>mc_server := n, mc_workers := map (tell (change_event (mc_server m) n)) (mc_workers m)\<rparr>"
  show "\<forall>w \<in> set (mc_workers ?m). in_step (mc_server ?m) w" using assms by (auto simp: nc_inv_def in_step_change)
  assume present: "watchedObjects (mc_client ?m) key \<noteq> None"
  then obtain w where w: "w \<in> set (mc_workers m)" "wk_settled w" using assms by (auto simp: nc_inv_def)
  then show "\<exists>w \<in> set (mc_workers ?m). wk_settled w" by auto
  consider "has_work (tell (change_event (mc_server m) n) w)" | "mc_server m = None" "n = None"
    using has_work_change[OF w(2), of "mc_server m" n] by fastforce
  then show "(\<exists>w \<in> set (mc_workers ?m). has_work w) \<or> map_option cu (cachedObject key (mc_client ?m)) = map_option cu (mc_server ?m)"
  proof cases
    case 1
    with w(1) show ?thesis by auto
  next
    case 2
    then have "tell (change_event (mc_server m) n) = (\<lambda>w. w)" by (auto simp: change_event_def tell_def fun_eq_iff)
    with 2 assms present show ?thesis by (simp add: nc_inv_def)
  qed
qed

lemma nc_inv_by_worker:
  assumes "\<forall>w \<in> set ws. in_step (mc_server m) w" and "w \<in> set ws" and "wk_settled w"
    and "watchedObjects c key \<noteq> None \<Longrightarrow> has_work w \<or> map_option cu (cachedObject key c) = map_option cu (mc_server m)"
  shows "nc_inv cu key (m\<lparr>mc_workers := ws, mc_client := c\<rparr>)"
  using assms by (simp add: nc_inv_def) blast

lemma nc_inv_store:
  assumes inv: "nc_inv cu key m" and i: "i < length (mc_workers m)" and ph: "wk_phase (mc_workers m ! i) = Fetched v"
    and cu: "\<And>x. cu (cu x) = cu x"
  shows "nc_inv cu key (m\<lparr>mc_workers := (mc_workers m)[i := (mc_workers m ! i)\<lparr>wk_phase := Running, wk_settled := True\<rparr>],
       mc_client := snd (fetchAndWatch cu key (Inr v) (mc_client m))\<rparr>)"
proof -
  let ?w = "(mc_workers m ! i)\<lparr>wk_phase := Running, wk_settled := True\<rparr>"
  have mem: "?w \<in> set ((mc_workers m)[i := ?w])" using i by (simp add: set_update_memI)
  have "in_step (mc_server m) (mc_workers m ! i)" by (rule inv_workers[OF inv i])
  then have step: "in_step (mc_server m) ?w" and "\<not> has_work ?w \<Longrightarrow> v = mc_server m"
    using ph by (auto simp: in_step_def has_work_def)
  then have owed: "has_work ?w \<or> map_option cu (map_option cu v) = map_option cu (mc_server m)"
    using cu by (auto simp: option.map_comp comp_def)
  have all: "\<forall>w \<in> set ((mc_workers m)[i := ?w]). in_step (mc_server m) w"
    using all_update[of "mc_workers m" "in_step (mc_server m)" ?w i] inv step by (simp add: nc_inv_def)
  show ?thesis by (rule nc_inv_by_worker[OF all mem]) (use owed in \<open>simp_all add: fetchAndWatch_def\<close>)
qed

lemma handle_cached:
  "watchedObjects (snd (handle_watch_event key e c)) key \<noteq> None \<Longrightarrow> outcome [e] = Some r \<Longrightarrow> cachedObject key (snd (handle_watch_event key e c)) = r"
  by (cases e) (auto simp: handle_watch_event_def Let_def)

lemma handle_unchanged: "outcome [e] = None \<Longrightarrow> snd (handle_watch_event key e c) = c"
  by (cases e) (auto simp: handle_watch_event_def)

lemma nc_inv_receive:
  assumes inv: "nc_inv cu key m" and i: "i < length (mc_workers m)" and ph: "wk_phase (mc_workers m ! i) = Running"
    and q: "wk_queue (mc_workers m ! i) = e # q"
  shows "nc_inv cu key (m\<lparr>mc_workers := (mc_workers m)[i := (mc_workers m ! i)\<lparr>wk_queue := q\<rparr>],
       mc_client := snd (handle_watch_event key e (mc_client m))\<rparr>)"
proof -
  let ?o = "mc_workers m ! i" let ?w = "?o\<lparr>wk_queue := q\<rparr>" let ?c = "snd (handle_watch_event key e (mc_client m))"
  have old: "in_step (mc_server m) ?o" by (rule inv_workers[OF inv i])
  then have settled: "wk_settled ?w" and step: "in_step (mc_server m) ?w" using ph q by (auto simp: in_step_def split: option.splits)
  show ?thesis
  proof (cases "outcome [e]")
    case None
    have same: "outcome (wk_queue ?o) = outcome (wk_queue ?w)" using None q by (auto split: option.splits)
    then have "has_work ?o \<Longrightarrow> has_work ?w" by (simp add: has_work_def)
    then show ?thesis using inv_update_worker[OF inv i step] by (simp add: handle_unchanged[OF None])
  next
    case (Some r)
    have mem: "?w \<in> set ((mc_workers m)[i := ?w])" using i by (simp add: set_update_memI)
    have all: "\<forall>w \<in> set ((mc_workers m)[i := ?w]). in_step (mc_server m) w"
      using all_update[of "mc_workers m" "in_step (mc_server m)" ?w i] inv step by (simp add: nc_inv_def)
    have "has_work ?w \<or> r = mc_server m"
      using old settled Some q ph by (auto simp: has_work_def in_step_def split: option.splits)
    then have "watchedObjects ?c key \<noteq> None \<Longrightarrow> has_work ?w \<or> cachedObject key ?c = mc_server m"
      using handle_cached[OF _ Some] by blast
    then show ?thesis by (intro nc_inv_by_worker[OF all mem settled]) auto
  qed
qed

lemma nc_inv_append:
  "nc_inv cu key m \<Longrightarrow> in_step (mc_server m) w \<Longrightarrow> nc_inv cu key (m\<lparr>mc_workers := mc_workers m @ [w]\<rparr>)"
  by (auto simp: nc_inv_def)

lemma nc_inv_remove:
  assumes "nc_inv cu key m" and "i < length (mc_workers m)" and "\<not> wk_settled (mc_workers m ! i)"
  shows "nc_inv cu key (m\<lparr>mc_workers := remove_nth i (mc_workers m)\<rparr>)"
proof -
  have "\<not> has_work (mc_workers m ! i)" using assms(3) by (simp add: has_work_def)
  then show ?thesis using assms all_remove[of "mc_workers m" "in_step (mc_server m)" i]
      ex_remove[of "mc_workers m" wk_settled i] ex_remove[of "mc_workers m" has_work i] by (auto simp: nc_inv_def)
qed

lemma nc_inv_client:
  assumes "nc_inv cu key m" and "watchedObjects c key = None \<or> (watchedObjects (mc_client m) key \<noteq> None \<and> cachedObject key c = cachedObject key (mc_client m))"
  shows "nc_inv cu key (m\<lparr>mc_client := c\<rparr>)"
  using assms by (auto simp: nc_inv_def)

lemma nc_step_inv:
  assumes "nc_step cu key m m'" and "nc_inv cu key m" and cu: "\<And>x. cu (cu x) = cu x"
  shows "nc_inv cu key m'"
  using assms(1,2)
proof (induction rule: nc_step.induct)
  case (server_change m n)
  then show ?case by (rule nc_inv_change)
next
  case (bookmark m)
  then show ?case by (auto simp: nc_inv_def in_step_bookmark)
next
  case (open_watch m)
  then show ?case using outcome_initial[of "mc_server m"] by (intro nc_inv_append) (auto simp: in_step_def)
next
  case (fetch i m)
  have "in_step (mc_server m) (mc_workers m ! i)" using fetch inv_workers by blast
  with fetch show ?case by (intro inv_update_worker) (auto simp: in_step_def has_work_def)
next
  case (fetch_failed i m)
  then show ?case using nc_inv_remove[OF fetch_failed.prems] nc_inv_cleared[OF fetch_failed.prems]
      all_remove[of "mc_workers m" "in_step (mc_server m)" i] by (auto simp: nc_inv_def)
next
  case (store i m v)
  then show ?case by (intro nc_inv_store cu)
next
  case (receive i m e q)
  then show ?case by (intro nc_inv_receive)
next
  case (watch_closed i m)
  then have "in_step (mc_server m) (mc_workers m ! i)" using inv_workers by blast
  with watch_closed show ?case by (intro inv_update_worker) (auto simp: in_step_def has_work_def)
next
  case (reopen i m)
  then have "in_step (mc_server m) (mc_workers m ! i)" using inv_workers by blast
  with reopen outcome_initial[of "mc_server m"] show ?case by (intro inv_update_worker) (auto simp: in_step_def has_work_def)
next
  case (terminated i m)
  then show ?case using all_remove[of "mc_workers m" "in_step (mc_server m)" i] by (intro nc_inv_cleared) (auto simp: nc_inv_def)
next
  case (failed_write m managed e)
  then show ?case
    by (intro nc_inv_client) (auto simp: nc_write_def clearEntry_def clearEntryByKey_def cachedObject_def split: option.splits)
next
  case (register m ctxErr h)
  then show ?case
    by (intro nc_inv_client) (auto simp: addHandler_def cachedObject_def split: option.splits)
qed

text \<open>
  C30: The cache and the server. In every reachable state of the cache of one object, with any number of
  goroutines and whatever the interleaving of server changes, reads, watch events, closed and reopened
  watches, terminations and failed writes: if no goroutine of the object has work left (each has its watch
  open and no event to read), then the entry, when there is one, is the object of the server, up to the
  fields that the clean-up of its kind clears.
\<close>

theorem narrow_cache_coherent:
  assumes "nc_reachable cu key m" and "\<And>x. cu (cu x) = cu x" and "\<forall>w \<in> set (mc_workers m). \<not> has_work w"
    and "watchedObjects (mc_client m) key \<noteq> None"
  shows "map_option cu (cachedObject key (mc_client m)) = map_option cu (mc_server m)"
proof -
  have "nc_inv cu key m" using assms(1)
  proof (induction rule: nc_reachable.induct)
    case (nc_start srv)
    show ?case by (simp add: nc_inv_def)
  next
    case (nc_next m m')
    then show ?case using nc_step_inv assms(2) by blast
  qed
  then show ?thesis using assms(3,4) by (auto simp: nc_inv_def)
qed

text \<open>A run that reads an object, sees it change and reads the event.\<close>

definition sample_machine :: "nat \<Rightarrow> (nat, nat) nc_machine" where
  "sample_machine v = \<lparr>mc_client = \<lparr>watchedObjects = [''k'' \<mapsto> \<lparr>wo_cached = Some v, wo_handlers = []\<rparr>], nc_registered = Map.empty\<rparr>,
     mc_server = Some v, mc_workers = [\<lparr>wk_queue = [], wk_open = True, wk_phase = Running, wk_settled = True\<rparr>]\<rparr>"

lemma sample_machine_reachable: "nc_reachable id ''k'' (sample_machine 4)"
proof -
  let ?c = "\<lparr>watchedObjects = Map.empty, nc_registered = Map.empty\<rparr> :: (nat, nat) narrow_client"
  let ?start = "\<lparr>mc_client = ?c, mc_server = Some 4, mc_workers = []\<rparr>"
  let ?w = "\<lambda>q p b. \<lparr>wk_queue = q, wk_open = True, wk_phase = p, wk_settled = b\<rparr> :: nat worker"
  let ?m = "\<lambda>c q p b. \<lparr>mc_client = c, mc_server = Some 4, mc_workers = [?w q p b]\<rparr>"
  have "nc_reachable id ''k'' ?start" by (rule nc_start)
  from nc_next[OF this open_watch] have "nc_reachable id ''k'' (?m ?c [Added 4] Opened False)" by (simp add: initial_events_def)
  from nc_next[OF this fetch[of 0]] have "nc_reachable id ''k'' (?m ?c [Added 4] (Fetched (Some 4)) False)" by simp
  from nc_next[OF this store[of 0]] have "nc_reachable id ''k'' (?m (setCacheObject ''k'' (Some 4) ?c) [Added 4] Running True)"
    by (simp add: fetchAndWatch_def)
  from nc_next[OF this receive[of 0]] have "nc_reachable id ''k'' (?m (setCacheObject ''k'' (Some 4) (setCacheObject ''k'' (Some 4) ?c)) [] Running True)"
    by (simp add: handle_watch_event_def Let_def)
  then show ?thesis by (simp add: sample_machine_def setCacheObject_def)
qed

theorem narrow_cache_coherent_witness: "cachedObject ''k'' (mc_client (sample_machine 4)) = Some 4"
  using narrow_cache_coherent[OF sample_machine_reachable]
  by (simp add: sample_machine_def has_work_def)

section \<open>Registration\<close>

text \<open>The handlers of an entry, none when there is no entry.\<close>

definition handlers_of :: "string \<Rightarrow> ('o, 'r) narrow_client \<Rightarrow> ('o, 'r) requestEventHandler list" where
  "handlers_of key c = (case watchedObjects c key of None \<Rightarrow> [] | Some ca \<Rightarrow> wo_handlers ca)"

lemma registered_frame [simp]:
  "nc_registered (setCacheObject key x c) = nc_registered c"
  "nc_registered (removeFromCache key c) = nc_registered c"
  "nc_registered (clearEntryByKey key c) = nc_registered c"
  "nc_registered (snd (addHandler b key h c)) = nc_registered c"
  by (auto simp: setCacheObject_def removeFromCache_def clearEntryByKey_def addHandler_def split: option.split)

lemma handlers_set [simp]: "handlers_of key (setCacheObject key x c) = handlers_of key c"
  by (simp add: handlers_of_def setCacheObject_def split: option.split)

lemma handlers_frame [simp]: "handlers_of key (c\<lparr>nc_registered := r\<rparr>) = handlers_of key c"
  by (simp add: handlers_of_def)

lemma get_handlers:
  assumes "getAndCreateWatchIfNeeded cu key live c = (r, c')"
  shows "handlers_of key c' = handlers_of key c" and "nc_registered c' = nc_registered c"
  using assms by (auto simp: getAndCreateWatchIfNeeded_def fetchAndWatch_def split: option.splits sum.splits prod.splits)

lemma set_then_active: "setActive grp k c = (b, c') \<Longrightarrow> isActive grp k c' \<and> (\<exists>m. nc_registered c' grp = Some m \<and> m k = Some True)"
  by (auto simp: setActive_def isActive_def Let_def)

text \<open>
  Registering a watch is idempotent. A first registration that succeeds adds exactly one handler to the
  entry and enqueues its request once; from then on, whatever is registered again for the same group and
  resource, no further handler is added and nothing is enqueued. A registration that fails adds none and is
  forgotten, so that it can be tried again.
\<close>

theorem SafeEnqueue_idempotent:
  assumes first: "SafeEnqueueRequestOnEvents cu True grp k key live we ca h c = (err, reqs, c')"
    and fresh: "isActive grp k c = False" and unknown: "\<forall>m. nc_registered c grp = Some m \<longrightarrow> m k = None"
  shows "(err = None \<longrightarrow> reqs = [reh_request h] \<and> length (handlers_of key c') = Suc (length (handlers_of key c))
       \<and> isActive grp k c'
       \<and> (\<forall>live' we' ca' h'. \<exists>c''. SafeEnqueueRequestOnEvents cu True grp k key live' we' ca' h' c' = (None, [], c'')
              \<and> handlers_of key c'' = handlers_of key c'))
    \<and> (err \<noteq> None \<longrightarrow> reqs = [] \<and> handlers_of key c' = handlers_of key c
       \<and> (\<forall>m. nc_registered c' grp = Some m \<longrightarrow> m k = None))"
proof -
  obtain c1 where c1: "setActive grp k c = (False, c1)" "handlers_of key c1 = handlers_of key c"
    using unknown by (auto simp: setActive_def Let_def split: option.splits)
  define h1 where "h1 = (case ca of None \<Rightarrow> h | Some a \<Rightarrow> h\<lparr>reh_filters := reh_filters h @ [Some (active_filter a)]\<rparr>)"
  have req: "reh_request h1 = reh_request h" by (simp add: h1_def split: option.split)
  obtain e r c2 where enq: "EnqueueRequestOnEvents cu key live we h1 c1 = (e, r, c2)" by (metis prod_cases3)
  obtain g c3 where got: "getAndCreateWatchIfNeeded cu key live c1 = (g, c3)" by (metis surj_pair)
  note gh = get_handlers[OF got]
  have reg: "nc_registered c2 = nc_registered c1" and hs: "e \<noteq> None \<Longrightarrow> handlers_of key c2 = handlers_of key c1 \<and> r = []"
    and ok: "e = None \<Longrightarrow> handlers_of key c2 = handlers_of key c1 @ [h1] \<and> r = [reh_request h1]"
    using enq gh by (auto simp: EnqueueRequestOnEvents_def got addHandler_def handlers_of_def
        split: if_splits option.splits sum.splits prod.splits)
  have run: "SafeEnqueueRequestOnEvents cu True grp k key live we ca h c =
      (e, r, if e = None then c2 else c2\<lparr>nc_registered := (nc_registered c2)(grp := map_option (\<lambda>m. m(k := None)) (nc_registered c2 grp))\<rparr>)"
    by (simp add: SafeEnqueueRequestOnEvents_def c1 h1_def[symmetric] enq split: option.split)
  have active: "isActive grp k c1" "\<exists>m. nc_registered c1 grp = Some m \<and> m k = Some True" using set_then_active[OF c1(1)] by auto
  show ?thesis
  proof (cases e)
    case None
    then have c': "err = None" "reqs = [reh_request h]" "c' = c2" using first run ok req by auto
    have again: "\<exists>c''. setActive grp k c2 = (True, c'') \<and> handlers_of key c'' = handlers_of key c2"
      using active(2) by (auto simp: setActive_def Let_def reg)
    then have "\<exists>c''. SafeEnqueueRequestOnEvents cu True grp k key live' we' ca' h' c' = (None, [], c'') \<and> handlers_of key c'' = handlers_of key c'"
      for live' we' ca' h' using c' by (auto simp: SafeEnqueueRequestOnEvents_def)
    then show ?thesis using c' ok[OF None] c1(2) active(1) by (simp add: isActive_def reg)
  next
    case (Some x)
    then show ?thesis using first run hs c1(2) by (auto split: option.splits)
  qed
qed

theorem SafeEnqueue_idempotent_witness:
  "length (handlers_of ''k'' (snd (snd (SafeEnqueueRequestOnEvents id True ''g'' ''r'' ''k'' (Inr (Some (4 :: nat))) None None
      \<lparr>reh_request = (9 :: nat), reh_filters = []\<rparr> \<lparr>watchedObjects = Map.empty, nc_registered = Map.empty\<rparr>)))) = 1"
proof -
  let ?c = "\<lparr>watchedObjects = Map.empty, nc_registered = Map.empty\<rparr> :: (nat, nat) narrow_client"
  let ?h = "\<lparr>reh_request = 9, reh_filters = []\<rparr> :: (nat, nat) requestEventHandler"
  obtain err reqs c' where run: "SafeEnqueueRequestOnEvents id True ''g'' ''r'' ''k'' (Inr (Some 4)) None None ?h ?c = (err, reqs, c')"
    by (metis prod_cases3)
  then have "err = None"
    by (auto simp: SafeEnqueueRequestOnEvents_def setActive_def EnqueueRequestOnEvents_def getAndCreateWatchIfNeeded_def
        fetchAndWatch_def setCacheObject_def addHandler_def)
  then show ?thesis using SafeEnqueue_idempotent[OF run] run by (simp add: isActive_def handlers_of_def)
qed

section \<open>Handlers are lost with a failed write\<close>

text \<open>
  A failed write clears the entry of the object together with its handlers. The registration is kept, so
  that registering again adds no handler, and the next event of the watch reaches nobody.
\<close>

theorem failed_write_loses_handlers:
  assumes "isActive grp k c" and "nc_write True key (Some e) c = (r, c1)"
  shows "handlers_of key c1 = [] \<and> fst (handle_watch_event key ev c1) = []
    \<and> (\<exists>c2. SafeEnqueueRequestOnEvents cu True grp k key live we ca h c1 = (None, [], c2) \<and> handlers_of key c2 = []
         \<and> fst (handle_watch_event key ev c2) = [])"
proof -
  have c1: "c1 = clearEntryByKey key c" using assms(2) by (simp add: nc_write_def clearEntry_def)
  have none: "watchedObjects c1 key = None" by (simp add: c1)
  have quiet: "fst (handle_watch_event key ev d) = []" if "watchedObjects d key = None" for d :: "('a, 'b) narrow_client"
    using that by (cases ev) (auto simp: handle_watch_event_def Let_def callHandlers_def setCacheObject_def removeFromCache_def List.map_filter_def)
  obtain m where "nc_registered c grp = Some m" "m k \<noteq> None" using assms(1) by (auto simp: isActive_def split: option.splits)
  then obtain c2 where c2: "setActive grp k c1 = (True, c2)" "watchedObjects c2 = watchedObjects c1"
    by (auto simp: setActive_def Let_def c1)
  then have "SafeEnqueueRequestOnEvents cu True grp k key live we ca h c1 = (None, [], c2)" by (simp add: SafeEnqueueRequestOnEvents_def)
  then show ?thesis using quiet none c2(2) by (simp add: handlers_of_def)
qed

end
