(* ===== verification/TLS_Config.thy ===== *)
theory TLS_Config
  imports FC_Helper
begin

text \<open>
  \<open>internal/pkg/tlsconfig/config.go\<close> and \<open>envvars.go\<close>: the TLS settings derived from the cluster's
  security profile, and the environment variables that relay them to the deployed components. The tables
  of the crypto libraries (the secure defaults, the named profiles, the cipher suite names) are the
  parameter \<open>tls_lib\<close>; identifiers are unsigned 16-bit numbers.
\<close>

datatype TLSProtocolVersion = VersionTLS10 | VersionTLS11 | VersionTLS12 | VersionTLS13 | OtherTLSVersion string

datatype TLSGroup =
  TLSGroupX25519 | TLSGroupSecP256r1 | TLSGroupSecP384r1 | TLSGroupSecP521r1
| TLSGroupX25519MLKEM768 | TLSGroupSecP256r1MLKEM768 | TLSGroupSecP384r1MLKEM1024 | OtherTLSGroup string

datatype TLSProfileType =
  TLSProfileOldType | TLSProfileIntermediateType | TLSProfileModernType | TLSProfileCustomType | OtherTLSProfile string

record TLSProfileSpec =
  tps_Ciphers :: "string list"
  tps_Groups :: "TLSGroup list"
  tps_MinTLSVersion :: TLSProtocolVersion

record TLSSecurityProfile =
  tsp_Type :: TLSProfileType
  tsp_Custom :: "TLSProfileSpec option"

record tls_Config =
  tls_MinVersion :: nat
  tls_CipherSuites :: "nat list"
  tls_CurvePreferences :: "nat list"

text \<open>\<open>CipherSuites\<close> and \<open>InsecureCipherSuites\<close> list names with identifiers.\<close>

record tls_lib =
  tl_SecureTLSConfig :: tls_Config
  tl_TLSProfiles :: "TLSProfileType \<Rightarrow> TLSProfileSpec"
  tl_OpenSSLToIANACipherSuites :: "string list \<Rightarrow> string list"
  tl_CipherSuites :: "(string \<times> nat) list"
  tl_InsecureCipherSuites :: "(string \<times> nat) list"

datatype tls_error = ErrCustomNil | ErrUnknownProfileType string | ErrUnknownTLSVersion string

section \<open>config.go\<close>

fun tlsVersionFromString :: "TLSProtocolVersion \<Rightarrow> nat \<times> tls_error option" where
  "tlsVersionFromString VersionTLS10 = (0x0301, None)"
| "tlsVersionFromString VersionTLS11 = (0x0302, None)"
| "tlsVersionFromString VersionTLS12 = (0x0303, None)"
| "tlsVersionFromString VersionTLS13 = (0x0304, None)"
| "tlsVersionFromString (OtherTLSVersion v) = (0, Some (ErrUnknownTLSVersion v))"

fun curveIDByGroup :: "TLSGroup \<Rightarrow> nat option" where
  "curveIDByGroup TLSGroupX25519 = Some 29"
| "curveIDByGroup TLSGroupSecP256r1 = Some 23"
| "curveIDByGroup TLSGroupSecP384r1 = Some 24"
| "curveIDByGroup TLSGroupSecP521r1 = Some 25"
| "curveIDByGroup TLSGroupX25519MLKEM768 = Some 4588"
| "curveIDByGroup TLSGroupSecP256r1MLKEM768 = Some 4587"
| "curveIDByGroup TLSGroupSecP384r1MLKEM1024 = Some 4589"
| "curveIDByGroup (OtherTLSGroup _) = None"

definition cipherSuiteByName :: "tls_lib \<Rightarrow> string \<Rightarrow> nat" where
  "cipherSuiteByName l name =
     (case map_of (tl_CipherSuites l) name of
        Some i \<Rightarrow> i
      | None \<Rightarrow> (case map_of (tl_InsecureCipherSuites l) name of Some i \<Rightarrow> i | None \<Rightarrow> 0))"

definition ExtractTLSProfileSpec :: "tls_lib \<Rightarrow> TLSSecurityProfile option \<Rightarrow> TLSProfileSpec option" where
  "ExtractTLSProfileSpec l profile =
     (case profile of
        None \<Rightarrow> None
      | Some p \<Rightarrow>
          (case tsp_Type p of
             TLSProfileOldType \<Rightarrow> Some (tl_TLSProfiles l TLSProfileOldType)
           | TLSProfileIntermediateType \<Rightarrow> Some (tl_TLSProfiles l TLSProfileIntermediateType)
           | TLSProfileModernType \<Rightarrow> Some (tl_TLSProfiles l TLSProfileModernType)
           | TLSProfileCustomType \<Rightarrow> tsp_Custom p
           | OtherTLSProfile _ \<Rightarrow> None))"

text \<open>The part of \<open>profileToTLSConfig\<close> after the switch.\<close>

definition spec_to_tls :: "tls_lib \<Rightarrow> TLSProfileSpec \<Rightarrow> nat \<times> nat list \<times> nat list \<times> tls_error option" where
  "spec_to_tls l s =
     (let (minVersion, versionErr) = tlsVersionFromString (tps_MinTLSVersion s);
          cipherSuites = filter (\<lambda>i. i \<noteq> 0) (map (cipherSuiteByName l) (tl_OpenSSLToIANACipherSuites l (tps_Ciphers s)));
          curves = List.map_filter curveIDByGroup (tps_Groups s)
      in (minVersion, cipherSuites, curves, versionErr))"

definition profileToTLSConfig :: "tls_lib \<Rightarrow> TLSSecurityProfile option \<Rightarrow> nat \<times> nat list \<times> nat list \<times> tls_error option" where
  "profileToTLSConfig l profile =
     (case profile of
        None \<Rightarrow> (0, [], [], None)
      | Some p \<Rightarrow>
          (case tsp_Type p of
             TLSProfileCustomType \<Rightarrow>
               (case tsp_Custom p of None \<Rightarrow> (0, [], [], Some ErrCustomNil) | Some s \<Rightarrow> spec_to_tls l s)
           | OtherTLSProfile t \<Rightarrow> (0, [], [], Some (ErrUnknownProfileType t))
           | t \<Rightarrow> spec_to_tls l (tl_TLSProfiles l t)))"

definition ComposeTLSConfig :: "tls_lib \<Rightarrow> TLSSecurityProfile option \<Rightarrow> tls_Config \<times> tls_error option" where
  "ComposeTLSConfig l profile =
     (let base = tl_SecureTLSConfig l in
      case profile of
        None \<Rightarrow> (base, None)
      | Some _ \<Rightarrow>
          (let (minVersion, cipherSuites, curves, err) = profileToTLSConfig l profile;
               base = (if minVersion \<noteq> 0 then base\<lparr>tls_MinVersion := minVersion\<rparr> else base);
               base = (if cipherSuites \<noteq> [] then base\<lparr>tls_CipherSuites := cipherSuites\<rparr> else base);
               base = (if curves \<noteq> [] then base\<lparr>tls_CurvePreferences := curves\<rparr> else base)
           in (base, err)))"

section \<open>envvars.go\<close>

definition uint16SliceToString :: "nat list \<Rightarrow> string" where
  "uint16SliceToString ids = str_join '','' (map show_nat ids)"

definition ConfigToEnvVars :: "tls_Config option \<Rightarrow> (string \<times> string) list" where
  "ConfigToEnvVars tlsCfg =
     (case tlsCfg of
        None \<Rightarrow> []
      | Some c \<Rightarrow>
          (if tls_MinVersion c \<noteq> 0 then [(''TLS_MIN_VERSION'', show_nat (tls_MinVersion c))] else [])
          @ (if tls_CipherSuites c \<noteq> [] then [(''TLS_CIPHER_SUITES'', uint16SliceToString (tls_CipherSuites c))] else [])
          @ (if tls_CurvePreferences c \<noteq> [] then [(''TLS_CURVE_PREFERENCES'', uint16SliceToString (tls_CurvePreferences c))] else []))"

section \<open>Reading the variables back\<close>

definition parse_ids :: "string \<Rightarrow> (num_error + nat) list" where
  "parse_ids s = map (parse_uint 65535) (split_on CHR '','' s)"

definition env_ids :: "string \<Rightarrow> (string \<times> string) list \<Rightarrow> (num_error + nat) list" where
  "env_ids name env = (case map_of env name of None \<Rightarrow> [] | Some v \<Rightarrow> parse_ids v)"

lemma comma_show_nat: "CHR '','' \<notin> set (show_nat n)"
  using show_nat_digits[of "CHR '',''" n] by (auto simp: digit_val_def)

lemma split_join_show: "xs \<noteq> [] \<Longrightarrow> split_on CHR '','' (str_join '','' (map show_nat xs)) = map show_nat xs"
proof (induction xs rule: induct_list012)
  case (3 x y ys)
  then show ?case using split_on_app[OF comma_show_nat[of x], of "str_join '','' (map show_nat (y # ys))"] by simp
qed (simp_all add: split_on_no_sep comma_show_nat)

lemma parse_ids_show: "xs \<noteq> [] \<Longrightarrow> \<forall>i \<in> set xs. i \<le> 65535 \<Longrightarrow> parse_ids (uint16SliceToString xs) = map Inr xs"
  by (simp add: parse_ids_def uint16SliceToString_def split_join_show)

definition uint16_config :: "tls_Config \<Rightarrow> bool" where
  "uint16_config c \<longleftrightarrow> tls_MinVersion c \<le> 65535 \<and> (\<forall>i \<in> set (tls_CipherSuites c @ tls_CurvePreferences c). i \<le> 65535)"

definition the_ids :: "(num_error + nat) list \<Rightarrow> nat list" where
  "the_ids = map (\<lambda>r. case r of Inr n \<Rightarrow> n | Inl _ \<Rightarrow> 0)"

text \<open>The configuration that a component reads from its environment.\<close>

definition config_of_env :: "(string \<times> string) list \<Rightarrow> tls_Config" where
  "config_of_env env =
     \<lparr>tls_MinVersion = (case the_ids (env_ids ''TLS_MIN_VERSION'' env) of [] \<Rightarrow> 0 | v # _ \<Rightarrow> v),
      tls_CipherSuites = the_ids (env_ids ''TLS_CIPHER_SUITES'' env),
      tls_CurvePreferences = the_ids (env_ids ''TLS_CURVE_PREFERENCES'' env)\<rparr>"

lemma the_ids_Inr [simp]: "the_ids (map Inr xs) = xs"
  by (simp add: the_ids_def comp_def)

lemma parse_ids_single: "n \<le> 65535 \<Longrightarrow> parse_ids (show_nat n) = [Inr n]"
  by (simp add: parse_ids_def split_on_no_sep comma_show_nat)

lemma the_ids_single [simp]: "the_ids [Inr n] = [n]"
  by (simp add: the_ids_def)

lemma the_ids_Nil [simp]: "the_ids [] = []"
  by (simp add: the_ids_def)

text \<open>
  C36: The TLS settings survive their journey through the environment. For every configuration over
  unsigned 16-bit identifiers, reading the comma-separated decimal variables back gives the minimum
  version, the cipher suites and the curves of the configuration, in order; a component without
  configuration gets no variable.
\<close>

theorem tls_env_roundtrip:
  assumes "uint16_config c"
  shows "config_of_env (ConfigToEnvVars (Some c)) = c"
proof -
  have m: "the_ids (env_ids ''TLS_MIN_VERSION'' (ConfigToEnvVars (Some c))) = (if tls_MinVersion c = 0 then [] else [tls_MinVersion c])"
    using assms by (simp add: ConfigToEnvVars_def env_ids_def parse_ids_single uint16_config_def)
  have s: "the_ids (env_ids ''TLS_CIPHER_SUITES'' (ConfigToEnvVars (Some c))) = tls_CipherSuites c"
    using assms by (simp add: ConfigToEnvVars_def env_ids_def parse_ids_show uint16_config_def)
  have p: "the_ids (env_ids ''TLS_CURVE_PREFERENCES'' (ConfigToEnvVars (Some c))) = tls_CurvePreferences c"
    using assms by (simp add: ConfigToEnvVars_def env_ids_def parse_ids_show uint16_config_def)
  show ?thesis by (cases c) (use m s p in \<open>simp add: config_of_env_def\<close>)
qed

theorem tls_env_roundtrip_witness:
  "config_of_env (ConfigToEnvVars (Some \<lparr>tls_MinVersion = 771, tls_CipherSuites = [4865, 4866], tls_CurvePreferences = []\<rparr>))
   = \<lparr>tls_MinVersion = 771, tls_CipherSuites = [4865, 4866], tls_CurvePreferences = []\<rparr>"
  using tls_env_roundtrip[of "\<lparr>tls_MinVersion = 771, tls_CipherSuites = [4865, 4866], tls_CurvePreferences = []\<rparr>"]
  by (simp add: uint16_config_def)

lemma profile_without_spec:
  "ExtractTLSProfileSpec l (Some p) = None \<Longrightarrow> \<exists>e. profileToTLSConfig l (Some p) = (0, [], [], Some e)"
  by (cases "tsp_Type p"; cases "tsp_Custom p") (simp_all add: ExtractTLSProfileSpec_def profileToTLSConfig_def)

text \<open>
  Whatever the profile, a secure default is only ever replaced by a value of the profile: the minimum
  version stays set, and an unknown profile or a custom profile without body gives the defaults with an error.
\<close>

theorem compose_min_version:
  assumes "tls_MinVersion (tl_SecureTLSConfig l) \<noteq> 0"
  shows "tls_MinVersion (fst (ComposeTLSConfig l p)) \<noteq> 0"
  using assms by (cases p; cases "profileToTLSConfig l p") (simp_all add: ComposeTLSConfig_def Let_def)

theorem compose_without_spec:
  assumes "ExtractTLSProfileSpec l (Some p) = None"
  shows "\<exists>e. ComposeTLSConfig l (Some p) = (tl_SecureTLSConfig l, Some e)"
  using profile_without_spec[OF assms] by (auto simp: ComposeTLSConfig_def Let_def)

end
