(* ===== verification/Cluster_Info.thy ===== *)
theory Cluster_Info
  imports TLS_Config
begin

text \<open>
  \<open>internal/pkg/cluster/cluster.go\<close>, \<open>live_client.go\<close> and \<open>refresher.go\<close>: what the operator knows
  about its cluster. The methods of \<open>Info\<close> are functions on its state; the locks make each of them atomic.
  Discovery, the live client, the TLS profile fetch, the context and the clock act on a world \<open>'w\<close>. The
  semantic-version library is the parameter \<open>semver\<close>, and \<open>wait.ExponentialBackoffWithContext\<close> is
  written out from the package the operator vendors. Log lines are left out.
\<close>

section \<open>State\<close>

datatype APIName = ConsolePlugin | CNO | SvcMonitor | PromRule | OCPSecurity | EndpointSlices | LokiStackAPI

fun api_string :: "APIName \<Rightarrow> string" where
  "api_string ConsolePlugin = ''consoleplugins.console.openshift.io/v1''"
| "api_string CNO = ''networks.operator.openshift.io/v1''"
| "api_string SvcMonitor = ''servicemonitors.monitoring.coreos.com/v1''"
| "api_string PromRule = ''prometheusrules.monitoring.coreos.com/v1''"
| "api_string OCPSecurity = ''securitycontextconstraints.security.openshift.io/v1''"
| "api_string EndpointSlices = ''endpointslices.discovery.k8s.io/v1''"
| "api_string LokiStackAPI = ''lokistacks.loki.grafana.com/v1''"

record 'v semver =
  sv_NewVersion :: "string \<Rightarrow> string + 'v"
  sv_dropPreRelease :: "'v \<Rightarrow> 'v"
  sv_LessThan :: "'v \<Rightarrow> 'v \<Rightarrow> bool"
  sv_String :: "'v \<Rightarrow> string"

text \<open>The map of APIs is nil before the first discovery; of the callback only its presence matters.\<close>

record 'v Info =
  apisMap :: "(APIName \<Rightarrow> bool) option"
  info_id :: string
  openShiftVersion :: "'v option"
  cni :: string
  nbNodes :: nat
  hasPromServiceDiscoveryRole :: bool
  apiServerIPs :: "string list"
  apiServerPorts :: "int list"
  info_ready :: bool
  onRefresh :: bool
  tlsProfile :: "TLSSecurityProfile option"
  tlsConfig :: "tls_Config option"

definition zero_Info :: "'v Info" where
  "zero_Info =
     \<lparr>apisMap = None, info_id = [], openShiftVersion = None, cni = [], nbNodes = 0, hasPromServiceDiscoveryRole = False,
      apiServerIPs = [], apiServerPorts = [], info_ready = False, onRefresh = False, tlsProfile = None, tlsConfig = None\<rparr>"

text \<open>Reading a nil map gives false.\<close>

definition has_api :: "APIName \<Rightarrow> 'v Info \<Rightarrow> bool" where
  "has_api a c = (case apisMap c of None \<Rightarrow> False | Some m \<Rightarrow> m a)"

definition HasConsolePlugin :: "'v Info \<Rightarrow> bool" where "HasConsolePlugin c = has_api ConsolePlugin c"
definition HasOCPSecurity :: "'v Info \<Rightarrow> bool" where "HasOCPSecurity c = has_api OCPSecurity c"
definition HasCNO :: "'v Info \<Rightarrow> bool" where "HasCNO c = has_api CNO c"
definition HasSvcMonitor :: "'v Info \<Rightarrow> bool" where "HasSvcMonitor c = has_api SvcMonitor c"
definition HasPromRule :: "'v Info \<Rightarrow> bool" where "HasPromRule c = has_api PromRule c"
definition HasEndpointSlices :: "'v Info \<Rightarrow> bool" where "HasEndpointSlices c = has_api EndpointSlices c"
definition IsOpenShift :: "'v Info \<Rightarrow> bool" where "IsOpenShift c = HasOCPSecurity c"

section \<open>Errors\<close>

text \<open>The predicates of \<open>isTransientAPIError\<close>; an error is described by the ones it satisfies, also when wrapped.\<close>

datatype err_pred =
  IsServerTimeout | IsTimeout | IsServiceUnavailable | IsInternalError | IsTooManyRequests | IsUnexpectedServerError
| DeadlineExceeded | IsConnectionRefused | IsConnectionReset | IsProbableEOF | NetTimeout
| IsForbidden | IsUnauthorized | OtherPred string

type_synonym api_failure = "err_pred list"

definition isTransientAPIError :: "api_failure \<Rightarrow> bool" where
  "isTransientAPIError e = list_ex (\<lambda>p. p \<in> set e)
     [IsServerTimeout, IsTimeout, IsServiceUnavailable, IsInternalError, IsTooManyRequests, IsUnexpectedServerError,
      DeadlineExceeded, IsConnectionRefused, IsConnectionReset, IsProbableEOF, NetTimeout]"

datatype discovery_error = ErrDiscoveryFailed api_failure | ErrNoResources | ErrCriticalAPIDiscovery

section \<open>API discovery\<close>

record APIResourceList =
  arl_GroupVersion :: string
  arl_APIResources :: "string list"

text \<open>The error of \<open>ServerGroupsAndResources\<close>: some groups failed, or the call failed altogether.\<close>

datatype disc_failure = ErrGroupDiscoveryFailed "string list" | ErrDiscovery api_failure

type_synonym disc_response = "APIResourceList list \<times> disc_failure option"

definition hasAPI :: "APIName \<Rightarrow> APIResourceList list \<Rightarrow> bool" where
  "hasAPI apiName resources =
     list_ex (\<lambda>r. list_ex (\<lambda>n. api_string apiName = n @ ''.'' @ arl_GroupVersion r) (arl_APIResources r)) resources"

record api_scan =
  scan_apis :: "APIName \<Rightarrow> bool"
  scan_recovered :: bool
  scan_critical :: bool

text \<open>The body of the loop over the map.\<close>

definition scan_step :: "APIResourceList list \<Rightarrow> string list \<Rightarrow> bool \<Rightarrow> APIName \<Rightarrow> api_scan \<Rightarrow> api_scan" where
  "scan_step resources failedGroups firstRun apiName s =
     (if scan_apis s apiName then s
      else if hasAPI apiName resources then
        s\<lparr>scan_apis := (scan_apis s)(apiName := True), scan_recovered := scan_recovered s \<or> \<not> firstRun\<rparr>
      else if list_ex (\<lambda>gv. str_contains (api_string apiName) gv) failedGroups \<and> apiName = OCPSecurity then
        s\<lparr>scan_critical := True\<rparr>
      else s)"

text \<open>
  Go visits the map in any order, here \<open>order\<close>. The result is the error, the new state and whether the
  callback is started.
\<close>

definition fetchAvailableAPIsInternal ::
  "APIName list \<Rightarrow> disc_response \<Rightarrow> bool \<Rightarrow> 'v Info \<Rightarrow> discovery_error option \<times> 'v Info \<times> bool" where
  "fetchAvailableAPIsInternal order resp allowCriticalFailure c =
     (case resp of
        (_, Some (ErrDiscovery e)) \<Rightarrow> (Some (ErrDiscoveryFailed e), c, False)
      | (resources, err) \<Rightarrow>
          if resources = [] then (Some ErrNoResources, c, False)
          else
            (let failedGroups = (case err of Some (ErrGroupDiscoveryFailed gs) \<Rightarrow> gs | _ \<Rightarrow> []);
                 firstRun = (apisMap c = None);
                 known = (case apisMap c of None \<Rightarrow> (\<lambda>_. False) | Some m \<Rightarrow> m);
                 s = fold (scan_step resources failedGroups firstRun) order
                       \<lparr>scan_apis = known, scan_recovered = False, scan_critical = False\<rparr>
             in (if scan_critical s \<and> \<not> allowCriticalFailure then Some ErrCriticalAPIDiscovery else None,
                 c\<lparr>apisMap := Some (scan_apis s)\<rparr>,
                 scan_recovered s \<and> onRefresh c)))"

text \<open>\<open>HasLokiStack\<close> discovers again while the API is unknown; it also returns whether the callback is started.\<close>

definition HasLokiStack :: "APIName list \<Rightarrow> disc_response \<Rightarrow> 'v Info \<Rightarrow> bool \<times> 'v Info \<times> bool" where
  "HasLokiStack order resp c =
     (if \<not> has_api LokiStackAPI c then
        (case fetchAvailableAPIsInternal order resp True c of
           (Some _, c', r) \<Rightarrow> (False, c', r)
         | (None, c', r) \<Rightarrow> (has_api LokiStackAPI c', c', r))
      else (has_api LokiStackAPI c, c, False))"

section \<open>Retries at startup\<close>

text \<open>Durations are nanoseconds. The factor is a fraction; the products stay small enough for a \<open>float64\<close> to be exact.\<close>

record Backoff =
  bo_Duration :: int
  bo_Factor :: "int \<times> int"
  bo_Cap :: int
  bo_Steps :: nat

definition second :: int where "second = 1000000000"

definition startupRetryBackoff :: Backoff where
  "startupRetryBackoff = \<lparr>bo_Duration = 3 * second, bo_Factor = (3, 2), bo_Cap = 30 * second, bo_Steps = 15\<rparr>"

text \<open>\<open>Backoff.Step\<close> for a positive number of steps and a factor that is not zero: the wait and the next state.\<close>

definition backoff_step :: "Backoff \<Rightarrow> int \<times> Backoff" where
  "backoff_step b =
     (let next = bo_Duration b * fst (bo_Factor b) div snd (bo_Factor b) in
      (bo_Duration b,
       if 0 < bo_Cap b \<and> next > bo_Cap b then b\<lparr>bo_Duration := bo_Cap b, bo_Steps := 0\<rparr>
       else b\<lparr>bo_Duration := next, bo_Steps := bo_Steps b - 1\<rparr>))"

lemma backoff_step_less [simp]: "bo_Steps b \<noteq> 0 \<Longrightarrow> bo_Steps (snd (backoff_step b)) < bo_Steps b"
  by (auto simp: backoff_step_def Let_def)

text \<open>
  The context and the clock as the loop uses them: \<open>rt_ctxErr\<close> is the error of a done context,
  \<open>rt_sleep\<close> waits (with jitter), also ended by the context.
\<close>

record 'w runtime =
  rt_ctxErr :: "'w \<Rightarrow> string option"
  rt_sleep :: "int \<Rightarrow> 'w \<Rightarrow> 'w"

datatype 'e retry_error = ErrWaitTimeout | ErrContext string | ErrOp 'e

text \<open>
  \<open>ExponentialBackoffWithContext\<close>. The condition returns whether to stop and the error; the result is
  the error, \<open>None\<close> for nil, and the world.
\<close>

function exponentialBackoff ::
  "'w runtime \<Rightarrow> ('w \<Rightarrow> (bool \<times> 'e option) \<times> 'w) \<Rightarrow> Backoff \<Rightarrow> 'w \<Rightarrow> 'e retry_error option \<times> 'w" where
  "exponentialBackoff rt cond b w =
     (if bo_Steps b = 0 then (Some ErrWaitTimeout, w)
      else case rt_ctxErr rt w of
        Some e \<Rightarrow> (Some (ErrContext e), w)
      | None \<Rightarrow>
          (case cond w of
             ((done, err), w') \<Rightarrow>
               if err \<noteq> None \<or> done then (map_option ErrOp err, w')
               else if bo_Steps b = 1 then (Some ErrWaitTimeout, w')
               else
                 (let w'' = rt_sleep rt (fst (backoff_step b)) w' in
                  case rt_ctxErr rt w'' of
                    Some e \<Rightarrow> (Some (ErrContext e), w'')
                  | None \<Rightarrow> exponentialBackoff rt cond (snd (backoff_step b)) w'')))"
  by pat_completeness auto
termination
  by (relation "measure (\<lambda>(rt, cond, b, w). bo_Steps b)") auto

declare exponentialBackoff.simps [simp del]

text \<open>The variables \<open>result\<close> and \<open>lastErr\<close> that the closure assigns are kept beside the world.\<close>

definition lift_runtime :: "'w runtime \<Rightarrow> ('w \<times> ('e + 'a) option) runtime" where
  "lift_runtime rt = \<lparr>rt_ctxErr = (\<lambda>s. rt_ctxErr rt (fst s)), rt_sleep = (\<lambda>d s. (rt_sleep rt d (fst s), snd s))\<rparr>"

definition retry_condition ::
  "('e \<Rightarrow> bool) \<Rightarrow> ('w \<Rightarrow> ('e + 'a) \<times> 'w) \<Rightarrow> 'w \<times> ('e + 'a) option \<Rightarrow> (bool \<times> 'e option) \<times> ('w \<times> ('e + 'a) option)" where
  "retry_condition retryable op s =
     (case op (fst s) of
        (Inr x, w') \<Rightarrow> ((True, None), (w', Some (Inr x)))
      | (Inl e, w') \<Rightarrow> ((False, if retryable e then None else Some e), (w', Some (Inl e))))"

definition retryStartupAPICall ::
  "'w runtime \<Rightarrow> Backoff \<Rightarrow> ('e \<Rightarrow> bool) \<Rightarrow> ('w \<Rightarrow> ('e + 'a) \<times> 'w) \<Rightarrow> 'w \<Rightarrow> ('e retry_error + 'a) \<times> 'w" where
  "retryStartupAPICall rt b retryable op w =
     (case exponentialBackoff (lift_runtime rt) (retry_condition retryable op) b (w, None) of
        (None, (w', Some (Inr x))) \<Rightarrow> (Inr x, w')
      | (_, (w', Some (Inl e))) \<Rightarrow> (Inl (ErrOp e), w')
      | (Some e, (w', _)) \<Rightarrow> (Inl e, w')
      | (None, (w', None)) \<Rightarrow> (Inl ErrWaitTimeout, w'))"

text \<open>
  The last case does not arise: without error the closure has stored a result. The startup discovery
  acts on the world and on \<open>Info\<close>, whose callback is not set yet.
\<close>

definition discovery_op ::
  "APIName list \<Rightarrow> ('w \<Rightarrow> disc_response \<times> 'w) \<Rightarrow> bool \<Rightarrow> 'w \<times> 'v Info \<Rightarrow> (discovery_error + unit) \<times> ('w \<times> 'v Info)" where
  "discovery_op order disc allowCriticalFailure s =
     (case disc (fst s) of (resp, w') \<Rightarrow>
        (case fetchAvailableAPIsInternal order resp allowCriticalFailure (snd s) of
           (Some e, c', _) \<Rightarrow> (Inl e, (w', c'))
         | (None, c', _) \<Rightarrow> (Inr (), (w', c'))))"

fun retryable_discovery :: "discovery_error \<Rightarrow> bool" where
  "retryable_discovery ErrCriticalAPIDiscovery = True"
| "retryable_discovery (ErrDiscoveryFailed e) = isTransientAPIError e"
| "retryable_discovery ErrNoResources = False"

definition on_fst :: "'w runtime \<Rightarrow> ('w \<times> 'b) runtime" where
  "on_fst rt = \<lparr>rt_ctxErr = (\<lambda>s. rt_ctxErr rt (fst s)), rt_sleep = (\<lambda>d s. (rt_sleep rt d (fst s), snd s))\<rparr>"

definition fetchAvailableAPIs ::
  "'w runtime \<Rightarrow> APIName list \<Rightarrow> ('w \<Rightarrow> disc_response \<times> 'w) \<Rightarrow> 'w \<times> 'v Info
     \<Rightarrow> (discovery_error retry_error + unit) \<times> ('w \<times> 'v Info)" where
  "fetchAvailableAPIs rt order disc s =
     retryStartupAPICall (on_fst rt) startupRetryBackoff retryable_discovery (discovery_op order disc False) s"

datatype newinfo_error = ErrLiveClient string | ErrAPIs "discovery_error retry_error" | ErrTLSProfile "api_failure retry_error"

text \<open>
  \<open>NewInfo\<close>: \<open>liveErr\<close> is the error of building the live client, \<open>fetchProfile\<close> the call of
  \<open>FetchAPIServerTLSProfile\<close>. A failed discovery still returns the state, the other failures do not.
\<close>

definition NewInfo ::
  "'w runtime \<Rightarrow> tls_lib \<Rightarrow> APIName list \<Rightarrow> string option \<Rightarrow> ('w \<Rightarrow> disc_response \<times> 'w)
     \<Rightarrow> ('w \<Rightarrow> (api_failure + TLSSecurityProfile option) \<times> 'w) \<Rightarrow> 'w \<Rightarrow> (newinfo_error option \<times> 'v Info option) \<times> 'w" where
  "NewInfo rt l order liveErr disc fetchProfile w =
     (case liveErr of
        Some e \<Rightarrow> ((Some (ErrLiveClient e), None), w)
      | None \<Rightarrow>
          (case fetchAvailableAPIs rt order disc (w, zero_Info) of
             (Inl e, (w1, info)) \<Rightarrow> ((Some (ErrAPIs e), Some info), w1)
           | (Inr _, (w1, info)) \<Rightarrow>
               (case (if IsOpenShift info then retryStartupAPICall rt startupRetryBackoff isTransientAPIError fetchProfile w1
                      else (Inr None, w1)) of
                  (Inl e, w2) \<Rightarrow> ((Some (ErrTLSProfile e), None), w2)
                | (Inr p, w2) \<Rightarrow>
                    ((None, Some (info\<lparr>tlsProfile := p, tlsConfig := Some (fst (ComposeTLSConfig l p))\<rparr>)), w2))))"

section \<open>The live client\<close>

text \<open>An endpoint slice: the addresses of each endpoint, and the ports, nil or set.\<close>

record EndpointSlice =
  es_Endpoints :: "string list list"
  es_Ports :: "int option list"

record EndpointSubset =
  sub_Addresses :: "string list"
  sub_Ports :: "int list"

definition getAPIServerIPsFromEndpointSlices :: "'e + EndpointSlice \<Rightarrow> 'e + (string list \<times> int list)" where
  "getAPIServerIPsFromEndpointSlices r =
     (case r of Inl e \<Rightarrow> Inl e | Inr s \<Rightarrow> Inr (concat (es_Endpoints s), List.map_filter (\<lambda>p. p) (es_Ports s)))"

definition getAPIServerIPsFromEndpoints :: "'e + EndpointSubset list \<Rightarrow> 'e + (string list \<times> int list)" where
  "getAPIServerIPsFromEndpoints r =
     (case r of
        Inl e \<Rightarrow> Inl e
      | Inr subsets \<Rightarrow> Inr (concat (map sub_Addresses subsets), filter (\<lambda>p. p \<noteq> 0) (concat (map sub_Ports subsets))))"

datatype JSONSchemaProps = SchemaProps "(string \<times> JSONSchemaProps) list"

record CRDVersion =
  crdv_Name :: string
  crdv_Schema :: "JSONSchemaProps option option"

fun schema_path :: "(string \<times> JSONSchemaProps) list \<Rightarrow> string list \<Rightarrow> bool" where
  "schema_path props [] = True"
| "schema_path props (search # parts) =
     (case map_of props search of None \<Rightarrow> False | Some (SchemaProps ps) \<Rightarrow> schema_path ps parts)"

text \<open>Of the property that \<open>getCRDPropertyInVersion\<close> returns, the caller only tests that it is not nil.\<close>

definition getCRDPropertyInVersion :: "CRDVersion \<Rightarrow> string list \<Rightarrow> bool" where
  "getCRDPropertyInVersion v parts =
     (case crdv_Schema v of Some (Some (SchemaProps props)) \<Rightarrow> schema_path props parts | _ \<Rightarrow> False)"

fun hasCRDProperty :: "CRDVersion list \<Rightarrow> string \<Rightarrow> string \<Rightarrow> bool" where
  "hasCRDProperty [] version path = False"
| "hasCRDProperty (v # vs) version path =
     (if version \<noteq> [] \<and> version \<noteq> crdv_Name v then hasCRDProperty vs version path
      else if getCRDPropertyInVersion v (split_on CHR ''.'' path) then True
      else hasCRDProperty vs version path)"

text \<open>The answers of the live client; a node is its annotations, a daemon set its name.\<close>

record 'e liveClient =
  lc_ClusterVersion :: "'e + (string \<times> (string \<times> string) list)"
  lc_NetworkConfig :: "'e + string"
  lc_EndpointSlice :: "'e + EndpointSlice"
  lc_Endpoints :: "'e + EndpointSubset list"
  lc_CRD :: "string \<Rightarrow> 'e + CRDVersion list"
  lc_Nodes :: "'e + (string \<times> string) list option list"
  lc_KubeSystemDS :: "'e + string list"

datatype 'e info_error =
  ErrClusterVersion 'e | ErrNetwork 'e | ErrServiceMonitorCRD 'e | ErrNodes 'e | ErrKubeSystemDS 'e
| PanicSemver string | PanicNilCallback | ErrRefreshDiscovery discovery_error

fun guessCNIFromNodes :: "(string \<times> string) list option list \<Rightarrow> string" where
  "guessCNIFromNodes [] = []"
| "guessCNIFromNodes (annots # ns) =
     (case annots of
        None \<Rightarrow> guessCNIFromNodes ns
      | Some m \<Rightarrow>
          (case map_of m ''k8s.ovn.org/host-cidrs'' of
             Some cfg \<Rightarrow> if cfg \<noteq> [] then ''OVNKubernetes'' else guessCNIFromNodes ns
           | None \<Rightarrow> guessCNIFromNodes ns))"

fun guessCNIFromSystemDS :: "string list \<Rightarrow> string" where
  "guessCNIFromSystemDS [] = []"
| "guessCNIFromSystemDS (d # ds) = (if d = ''kindnet'' then ''Kindnet'' else guessCNIFromSystemDS ds)"

definition setInfo ::
  "string \<Rightarrow> 'v option \<Rightarrow> string \<Rightarrow> nat \<Rightarrow> bool \<Rightarrow> string list \<Rightarrow> int list \<Rightarrow> 'v Info \<Rightarrow> 'v Info" where
  "setInfo i v n nodes promRole ips ports c =
     c\<lparr>info_id := i, openShiftVersion := v, cni := n, nbNodes := nodes, hasPromServiceDiscoveryRole := promRole,
       apiServerIPs := (if ips \<noteq> [] then ips else apiServerIPs c),
       apiServerPorts := (if ports \<noteq> [] then ports else apiServerPorts c), info_ready := True\<rparr>"

text \<open>The version of the first completed update; \<open>semver.New\<close> panics on a version it cannot parse.\<close>

definition completed_version :: "'v semver \<Rightarrow> (string \<times> string) list \<Rightarrow> 'e info_error + 'v option" where
  "completed_version sv history =
     (case find (\<lambda>h. fst h = ''Completed'') history of
        None \<Rightarrow> Inr None
      | Some h \<Rightarrow> (case sv_NewVersion sv (snd h) of Inl e \<Rightarrow> Inl (PanicSemver e) | Inr v \<Rightarrow> Inr (Some v)))"

definition fetch_openshift :: "'v semver \<Rightarrow> 'e liveClient \<Rightarrow> 'v Info \<Rightarrow> 'e info_error + (string \<times> 'v option \<times> string)" where
  "fetch_openshift sv lc c =
     (if \<not> IsOpenShift c then Inr ([], None, [])
      else case lc_ClusterVersion lc of
        Inl e \<Rightarrow> Inl (ErrClusterVersion e)
      | Inr (i, history) \<Rightarrow>
          (case completed_version sv history of
             Inl e \<Rightarrow> Inl e
           | Inr v \<Rightarrow> (case lc_NetworkConfig lc of Inl e \<Rightarrow> Inl (ErrNetwork e) | Inr n \<Rightarrow> Inr (i, v, n))))"

definition fetch_cni :: "'e liveClient \<Rightarrow> string \<Rightarrow> (string \<times> string) list option list \<Rightarrow> 'e info_error + string" where
  "fetch_cni lc n nodes =
     (if n \<noteq> [] then Inr n
      else if guessCNIFromNodes nodes \<noteq> [] then Inr (guessCNIFromNodes nodes)
      else case lc_KubeSystemDS lc of Inl e \<Rightarrow> Inl (ErrKubeSystemDS e) | Inr ds \<Rightarrow> Inr (guessCNIFromSystemDS ds))"

definition fetch_api_server :: "'e liveClient \<Rightarrow> 'v Info \<Rightarrow> string list \<times> int list" where
  "fetch_api_server lc c =
     (case (if HasEndpointSlices c then getAPIServerIPsFromEndpointSlices (lc_EndpointSlice lc)
            else getAPIServerIPsFromEndpoints (lc_Endpoints lc)) of
        Inl _ \<Rightarrow> ([], []) | Inr r \<Rightarrow> r)"

definition fetch_prom_role :: "'e liveClient \<Rightarrow> 'v Info \<Rightarrow> 'e info_error + bool" where
  "fetch_prom_role lc c =
     (if HasSvcMonitor c \<and> HasEndpointSlices c then
        (case lc_CRD lc ''servicemonitors.monitoring.coreos.com'' of
           Inl e \<Rightarrow> Inl (ErrServiceMonitorCRD e)
         | Inr crd \<Rightarrow> Inr (hasCRDProperty crd ''v1'' ''spec.serviceDiscoveryRole''))
      else Inr False)"

text \<open>The number of nodes is converted to 16 bits.\<close>

definition fetchClusterInfo :: "'v semver \<Rightarrow> 'e liveClient \<Rightarrow> 'v Info \<Rightarrow> 'e info_error option \<times> 'v Info" where
  "fetchClusterInfo sv lc c =
     (case fetch_openshift sv lc c of
        Inl e \<Rightarrow> (Some e, c)
      | Inr (i, v, n) \<Rightarrow>
          (let (ips, ports) = fetch_api_server lc c in
           case fetch_prom_role lc c of
             Inl e \<Rightarrow> (Some e, c)
           | Inr role \<Rightarrow>
               (case lc_Nodes lc of
                  Inl e \<Rightarrow> (Some (ErrNodes e), c)
                | Inr nodes \<Rightarrow>
                    (case fetch_cni lc n nodes of
                       Inl e \<Rightarrow> (Some e, c)
                     | Inr n' \<Rightarrow> (None, setInfo i v n' (length nodes mod 65536) role ips ports c)))))"

section \<open>Accessors\<close>

datatype accessor_error = NotCollected | UnknownVersion | BadVersion string

definition GetID :: "'v Info \<Rightarrow> string" where "GetID c = info_id c"

definition GetOpenShiftVersion :: "'v semver \<Rightarrow> 'v Info \<Rightarrow> accessor_error + string" where
  "GetOpenShiftVersion sv c =
     (if \<not> info_ready c then Inl NotCollected
      else case openShiftVersion c of None \<Rightarrow> Inl UnknownVersion | Some v \<Rightarrow> Inr (sv_String sv v))"

text \<open>Network types are strings; the names the operator knows are constructors, the empty one is unknown.\<close>

definition network_type :: "string \<Rightarrow> NetworkType" where
  "network_type s =
     (if s = [] then UnknownCNI else if s = ''OpenShiftSDN'' then OpenShiftSDN
      else if s = ''OVNKubernetes'' then OVNKubernetes else if s = ''Kindnet'' then Kindnet else OtherCNI s)"

text \<open>The callers that drop the error of \<open>GetCNI\<close> go on with its empty value, so both are returned.\<close>

definition GetCNI :: "'v Info \<Rightarrow> NetworkType \<times> accessor_error option" where
  "GetCNI c = (if \<not> info_ready c then (UnknownCNI, Some NotCollected) else (network_type (cni c), None))"

definition GetNbNodes :: "'v Info \<Rightarrow> accessor_error + nat" where
  "GetNbNodes c = (if \<not> info_ready c then Inl NotCollected else Inr (nbNodes c))"

definition GetAPIServerIPs :: "'v Info \<Rightarrow> string list" where "GetAPIServerIPs c = apiServerIPs c"
definition GetAPIServerPorts :: "'v Info \<Rightarrow> int list" where "GetAPIServerPorts c = apiServerPorts c"

definition IsOpenShiftVersionLessThan :: "'v semver \<Rightarrow> string \<Rightarrow> 'v Info \<Rightarrow> bool \<times> string \<times> accessor_error option" where
  "IsOpenShiftVersionLessThan sv v c =
     (if \<not> info_ready c then (False, [], Some NotCollected)
      else case openShiftVersion c of
        None \<Rightarrow> (False, [], Some UnknownVersion)
      | Some ov \<Rightarrow>
          (case sv_NewVersion sv v of
             Inl e \<Rightarrow> (False, [], Some (BadVersion e))
           | Inr version \<Rightarrow> (sv_LessThan sv (sv_dropPreRelease sv ov) version, sv_String sv ov, None)))"

definition IsOpenShiftVersionAtLeast :: "'v semver \<Rightarrow> string \<Rightarrow> 'v Info \<Rightarrow> bool \<times> string \<times> accessor_error option" where
  "IsOpenShiftVersionAtLeast sv v c = (case IsOpenShiftVersionLessThan sv v c of (b, s, e) \<Rightarrow> (\<not> b, s, e))"

definition GetTLSConfig :: "'v Info \<Rightarrow> tls_Config option" where "GetTLSConfig c = tlsConfig c"

definition GetComponentTLSConfig :: "'v Info \<Rightarrow> tls_Config option" where
  "GetComponentTLSConfig c = (if \<not> IsOpenShift c then None else tlsConfig c)"

definition GetTLSProfileSpec :: "tls_lib \<Rightarrow> 'v Info \<Rightarrow> TLSProfileSpec option" where
  "GetTLSProfileSpec l c = ExtractTLSProfileSpec l (tlsProfile c)"

definition SetOnRefresh :: "'v Info \<Rightarrow> 'v Info" where "SetOnRefresh c = c\<lparr>onRefresh := True\<rparr>"

section \<open>The refresh loop\<close>

text \<open>The result of \<open>refresh\<close>: the error, the state and how many times the callback is started.\<close>

definition refresh :: "APIName list \<Rightarrow> 'v semver \<Rightarrow> disc_response \<Rightarrow> 'e liveClient \<Rightarrow> 'v Info \<Rightarrow> 'e info_error option \<times> 'v Info \<times> nat" where
  "refresh order sv resp lc c =
     (case fetchAvailableAPIsInternal order resp True c of
        (Some e, c1, r) \<Rightarrow> (Some (ErrRefreshDiscovery e), c1, if r then 1 else 0)
      | (None, c1, r) \<Rightarrow>
          (case fetchClusterInfo sv lc c1 of
             (Some e, c2) \<Rightarrow> (Some e, c2, if r then 1 else 0)
           | (None, c2) \<Rightarrow>
               if \<not> onRefresh c2 then (Some PanicNilCallback, c2, if r then 1 else 0)
               else (None, c2, if r then 2 else 1)))"

definition normalRefreshInterval :: int where "normalRefreshInterval = 600 * second"
definition initialRetryInterval :: int where "initialRetryInterval = 30 * second"
definition maxRetryInterval :: int where "maxRetryInterval = 600 * second"

text \<open>The interval that \<open>startRefreshLoop\<close> schedules after a refresh.\<close>

definition next_interval :: "bool \<Rightarrow> int \<Rightarrow> int" where
  "next_interval failed currentInterval =
     (if failed then
        (if currentInterval = normalRefreshInterval then initialRetryInterval
         else if currentInterval * 2 > maxRetryInterval then maxRetryInterval
         else currentInterval * 2)
      else if currentInterval \<noteq> normalRefreshInterval then normalRefreshInterval
      else currentInterval)"

text \<open>The intervals the loop waits for, given which refreshes fail.\<close>

fun refresh_intervals :: "int \<Rightarrow> bool list \<Rightarrow> int list" where
  "refresh_intervals cur [] = [cur]"
| "refresh_intervals cur (f # fs) = cur # refresh_intervals (next_interval f cur) fs"

end
