(* ===== verification/Cluster_Correct.thy ===== *)
theory Cluster_Correct
  imports Cluster_Info
begin

text \<open>
  What the cluster information guarantees: discovered APIs stay, a successful startup has settled whether
  the cluster is OpenShift, the retries are bounded, and a failed refresh keeps what was known.
\<close>

section \<open>The loop over the APIs\<close>

lemma scan_apis_fold:
  "scan_apis (fold (scan_step res gs first) order s) a \<longleftrightarrow> scan_apis s a \<or> (a \<in> set order \<and> hasAPI a res)"
  by (induction order arbitrary: s) (auto simp: scan_step_def)

lemma scan_critical_fold:
  "scan_critical (fold (scan_step res gs first) order s) \<longleftrightarrow>
     scan_critical s \<or> (OCPSecurity \<in> set order \<and> \<not> scan_apis s OCPSecurity \<and> \<not> hasAPI OCPSecurity res
       \<and> list_ex (\<lambda>gv. str_contains (api_string OCPSecurity) gv) gs)"
proof (induction order arbitrary: s)
  case (Cons a order)
  show ?case by (simp only: fold_Cons o_apply Cons.IH) (auto simp: scan_step_def list_ex_iff)
qed simp

lemma scan_recovered_fold:
  "scan_recovered (fold (scan_step res gs first) order s) \<longleftrightarrow>
     scan_recovered s \<or> (\<not> first \<and> (\<exists>a \<in> set order. \<not> scan_apis s a \<and> hasAPI a res))"
proof (induction order arbitrary: s)
  case (Cons a order)
  show ?case by (simp only: fold_Cons o_apply Cons.IH) (auto simp: scan_step_def list_ex_iff)
qed simp

text \<open>A response that the loop looks at, and the groups it reports as failed.\<close>

definition usable :: "disc_response \<Rightarrow> bool" where
  "usable resp \<longleftrightarrow> fst resp \<noteq> [] \<and> (case snd resp of Some (ErrDiscovery _) \<Rightarrow> False | _ \<Rightarrow> True)"

definition failed_groups :: "disc_response \<Rightarrow> string list" where
  "failed_groups resp = (case snd resp of Some (ErrGroupDiscoveryFailed gs) \<Rightarrow> gs | _ \<Rightarrow> [])"

definition undecided :: "disc_response \<Rightarrow> 'v Info \<Rightarrow> bool" where
  "undecided resp c \<longleftrightarrow> \<not> has_api OCPSecurity c \<and> \<not> hasAPI OCPSecurity (fst resp)
     \<and> list_ex (\<lambda>gv. str_contains (api_string OCPSecurity) gv) (failed_groups resp)"

lemma fetch_unusable:
  "\<not> usable resp \<Longrightarrow> \<exists>e. fetchAvailableAPIsInternal order resp allow c = (Some e, c, False)"
  by (cases resp; cases "snd resp"; cases "the (snd resp)") (auto simp: fetchAvailableAPIsInternal_def usable_def)

lemma fetch_usable:
  assumes "usable resp" and "set order = UNIV"
  shows "fetchAvailableAPIsInternal order resp allow c =
    (if undecided resp c \<and> \<not> allow then Some ErrCriticalAPIDiscovery else None,
     c\<lparr>apisMap := Some (\<lambda>a. has_api a c \<or> hasAPI a (fst resp))\<rparr>,
     apisMap c \<noteq> None \<and> (\<exists>a. \<not> has_api a c \<and> hasAPI a (fst resp)) \<and> onRefresh c)"
proof -
  obtain res err where r: "resp = (res, err)" by fastforce
  let ?gs = "failed_groups resp" and ?known = "\<lambda>a. has_api a c"
  let ?s = "fold (scan_step res ?gs (apisMap c = None)) order \<lparr>scan_apis = ?known, scan_recovered = False, scan_critical = False\<rparr>"
  have known: "(case apisMap c of None \<Rightarrow> (\<lambda>_. False) | Some m \<Rightarrow> m) = ?known" by (auto simp: has_api_def split: option.split)
  have "fetchAvailableAPIsInternal order resp allow c =
    (if scan_critical ?s \<and> \<not> allow then Some ErrCriticalAPIDiscovery else None, c\<lparr>apisMap := Some (scan_apis ?s)\<rparr>, scan_recovered ?s \<and> onRefresh c)"
    using assms(1) known r by (auto simp: fetchAvailableAPIsInternal_def usable_def failed_groups_def Let_def split: option.splits disc_failure.splits)
  moreover have "scan_apis ?s = (\<lambda>a. has_api a c \<or> hasAPI a res)" using assms(2) by (auto simp: scan_apis_fold)
  moreover have "scan_critical ?s = undecided resp c" using assms(2) r by (simp add: scan_critical_fold undecided_def)
  moreover have "scan_recovered ?s = (apisMap c \<noteq> None \<and> (\<exists>a. \<not> has_api a c \<and> hasAPI a res))" using assms(2) by (simp add: scan_recovered_fold)
  ultimately show ?thesis using r by simp
qed

lemma fetch_unusable_state: "\<not> usable resp \<Longrightarrow> snd (fetchAvailableAPIsInternal order resp allow c) = (c, False)"
  using fetch_unusable[of resp order allow c] by auto

lemma has_api_fetch:
  "set order = UNIV \<Longrightarrow> has_api a (fst (snd (fetchAvailableAPIsInternal order resp allow c))) \<longleftrightarrow>
     has_api a c \<or> (usable resp \<and> hasAPI a (fst resp))"
  by (cases "usable resp") (simp_all add: fetch_unusable_state fetch_usable, simp add: has_api_def)

lemma fetch_frame:
  "set order = UNIV \<Longrightarrow> \<exists>m. fst (snd (fetchAvailableAPIsInternal order resp allow c)) = c\<lparr>apisMap := m\<rparr>"
proof (cases "usable resp")
  case False
  then show ?thesis using fetch_unusable_state[of resp order allow c] by (intro exI[of _ "apisMap c"]) simp
qed (auto simp: fetch_usable)

section \<open>Rules for the retry loop\<close>

text \<open>Without error the loop has ended with a condition that held, in a state that an invariant describes.\<close>

lemma backoff_success:
  assumes "exponentialBackoff rt cond b w = (None, w')" and "I w"
    and cond: "\<And>w r w'. I w \<Longrightarrow> cond w = (r, w') \<Longrightarrow> I w'" and sleep: "\<And>w d. I w \<Longrightarrow> I (rt_sleep rt d w)"
  shows "\<exists>s. I s \<and> cond s = ((True, None), w')"
  using assms(1,2)
proof (induction "bo_Steps b" arbitrary: b w rule: less_induct)
  case less
  obtain d e v where v: "cond w = ((d, e), v)" by (metis surj_pair)
  let ?b = "snd (backoff_step b)" and ?v = "rt_sleep rt (fst (backoff_step b)) v"
  have pos: "bo_Steps b \<noteq> 0" and "e = None"
    using less.prems v by (auto simp: exponentialBackoff.simps[of rt cond b w] split: if_splits option.splits)
  show ?case
  proof (cases d)
    case True
    then show ?thesis using less.prems v \<open>e = None\<close> by (auto simp: exponentialBackoff.simps[of rt cond b w] split: if_splits option.splits)
  next
    case False
    then have "exponentialBackoff rt cond ?b ?v = (None, w')"
      using less.prems v \<open>e = None\<close> by (auto simp: exponentialBackoff.simps[of rt cond b w] Let_def split: if_splits option.splits)
    then show ?thesis using less.hyps[of ?b ?v] pos cond[OF less.prems(2) v] sleep by simp
  qed
qed

lemma retry_success:
  assumes "retryStartupAPICall rt b retryable op w = (Inr x, w')" and "I w"
    and op: "\<And>w r w'. I w \<Longrightarrow> op w = (r, w') \<Longrightarrow> I w'" and sleep: "\<And>w d. I w \<Longrightarrow> I (rt_sleep rt d w)"
  shows "\<exists>s. I s \<and> op s = (Inr x, w')"
proof -
  let ?c = "retry_condition retryable op"
  have "exponentialBackoff (lift_runtime rt) ?c b (w, None) = (None, (w', Some (Inr x)))"
    using assms(1) by (auto simp: retryStartupAPICall_def split: prod.splits option.splits sum.splits)
  then have "\<exists>s. I (fst s) \<and> ?c s = ((True, None), (w', Some (Inr x)))"
    by (rule backoff_success)
      (use assms(2) op sleep in \<open>auto simp: retry_condition_def lift_runtime_def split: prod.splits sum.splits\<close>)
  then obtain s where s: "I (fst s)" "?c s = ((True, None), (w', Some (Inr x)))" by blast
  then have "op (fst s) = (Inr x, w')"
    by (cases "op (fst s)"; cases "fst (op (fst s))") (auto simp: retry_condition_def)
  with s(1) show ?thesis by blast
qed

section \<open>How often a call is tried\<close>

function attempts :: "Backoff \<Rightarrow> nat" where
  "attempts b = (if bo_Steps b = 0 then 0 else if bo_Steps b = 1 then 1 else Suc (attempts (snd (backoff_step b))))"
  by pat_completeness auto
termination
  by (relation "measure bo_Steps") auto

declare attempts.simps [simp del]

text \<open>A call whose outcomes are \<open>f 0, f 1, ...\<close>, with a context that is never done; the world counts the calls.\<close>

definition trace_op :: "(nat \<Rightarrow> 'e + 'a) \<Rightarrow> nat \<Rightarrow> ('e + 'a) \<times> nat" where
  "trace_op f n = (f n, Suc n)"

definition quiet :: "nat runtime" where
  "quiet = \<lparr>rt_ctxErr = (\<lambda>_. None), rt_sleep = (\<lambda>_ n. n)\<rparr>"

definition transient :: "('e \<Rightarrow> bool) \<Rightarrow> 'e + 'a \<Rightarrow> bool" where
  "transient retryable r = (case r of Inl e \<Rightarrow> retryable e | Inr _ \<Rightarrow> False)"

definition surfaced :: "'e + 'a \<Rightarrow> 'e retry_error + 'a" where
  "surfaced r = (case r of Inl e \<Rightarrow> Inl (ErrOp e) | Inr x \<Rightarrow> Inr x)"

lemma backoff_trace:
  "exponentialBackoff (lift_runtime quiet) (retry_condition retryable (trace_op f)) b (n, l) =
     (case find (\<lambda>i. \<not> transient retryable (f i)) [n..<n + attempts b] of
        Some i \<Rightarrow> (case f i of Inr _ \<Rightarrow> None | Inl e \<Rightarrow> Some (ErrOp e), (Suc i, Some (f i)))
      | None \<Rightarrow> (Some ErrWaitTimeout, (n + attempts b, if attempts b = 0 then l else Some (f (n + attempts b - 1)))))"
proof (induction "bo_Steps b" arbitrary: b n l rule: less_induct)
  case less
  let ?b = "snd (backoff_step b)"
  note step = exponentialBackoff.simps[of _ _ b]
  show ?case
  proof (cases "bo_Steps b = 0")
    case True
    then show ?thesis by (simp add: step attempts.simps[of b])
  next
    case False
    then have up: "[n..<n + attempts b] = n # [Suc n..<n + attempts b]"
      by (simp add: attempts.simps[of b] upt_conv_Cons)
    show ?thesis
    proof (cases "transient retryable (f n)")
      case True
      then obtain e where e: "f n = Inl e" "retryable e" by (auto simp: transient_def split: sum.splits)
      show ?thesis
      proof (cases "bo_Steps b = 1")
        case one: True
        then show ?thesis using e by (simp add: step attempts.simps[of b] lift_runtime_def quiet_def retry_condition_def trace_op_def transient_def)
      next
        case many: False
        then have a: "attempts b = Suc (attempts ?b)" using \<open>bo_Steps b \<noteq> 0\<close> by (simp add: attempts.simps[of b])
        have "exponentialBackoff (lift_runtime quiet) (retry_condition retryable (trace_op f)) b (n, l)
           = exponentialBackoff (lift_runtime quiet) (retry_condition retryable (trace_op f)) ?b (Suc n, Some (f n))"
          using e many \<open>bo_Steps b \<noteq> 0\<close> by (simp add: step lift_runtime_def quiet_def retry_condition_def trace_op_def Let_def)
        also note less.hyps[of ?b "Suc n" "Some (f n)"]
        moreover have "[n..<n + attempts b] = n # [Suc n..<Suc n + attempts ?b]" by (simp add: a upt_conv_Cons del: upt_Suc)
        ultimately show ?thesis using True \<open>bo_Steps b \<noteq> 0\<close> by (simp add: a del: upt_Suc split: option.split)
      qed
    next
      case decisive: False
      then show ?thesis using False up
        by (cases "f n") (simp_all add: step lift_runtime_def quiet_def retry_condition_def trace_op_def transient_def)
    qed
  qed
qed

lemma startup_attempts: "attempts startupRetryBackoff = 6"
  by (simp add: attempts.simps startupRetryBackoff_def backoff_step_def Let_def second_def)

text \<open>
  C35: The startup calls to the API server are bounded and surface the right outcome. For every sequence
  of outcomes, the call is tried at most six times, it stops at the first outcome that is a success or
  a permanent error and returns it, and after six transient errors it returns the last of them. (The
  configured 15 steps are never reached: the growing delay passes its cap after the sixth attempt, and
  the backoff of the library gives up at its cap.)
\<close>

theorem startup_retry_outcome:
  "retryStartupAPICall quiet startupRetryBackoff retryable (trace_op f) 0 =
     (case find (\<lambda>i. \<not> transient retryable (f i)) [0..<6] of
        Some i \<Rightarrow> (surfaced (f i), Suc i)
      | None \<Rightarrow> (surfaced (f 5), 6))"
proof (cases "find (\<lambda>i. \<not> transient retryable (f i)) [0..<6]")
  case None
  then have "\<not> (\<exists>i \<in> set [0..<6]. \<not> transient retryable (f i))" by (auto simp: find_None_iff)
  then have "transient retryable (f 5)" by auto
  with None show ?thesis
    by (auto simp: retryStartupAPICall_def backoff_trace startup_attempts surfaced_def transient_def split: sum.splits)
next
  case (Some i)
  then show ?thesis
    by (cases "f i") (simp_all add: retryStartupAPICall_def backoff_trace startup_attempts surfaced_def)
qed

section \<open>The refresh loop\<close>

definition refresh_waits :: "int set" where
  "refresh_waits = (\<lambda>n. n * second) ` {30, 60, 120, 240, 480, 600}"

lemma next_interval_waits: "i \<in> refresh_waits \<Longrightarrow> next_interval f i \<in> refresh_waits"
  by (auto simp: refresh_waits_def next_interval_def normalRefreshInterval_def initialRetryInterval_def maxRetryInterval_def second_def)

lemma refresh_intervals_waits: "i \<in> refresh_waits \<Longrightarrow> set (refresh_intervals i fs) \<subseteq> refresh_waits"
  by (induction fs arbitrary: i) (auto simp: next_interval_waits dest: subsetD)

text \<open>
  The refresh loop never waits less than 30 seconds nor more than ten minutes, whatever refreshes
  fail: its intervals are 30, 60, 120, 240, 480 or 600 seconds.
\<close>

theorem refresh_interval_bounds:
  "set (refresh_intervals normalRefreshInterval failures) \<subseteq> (\<lambda>n. n * second) ` {30, 60, 120, 240, 480, 600}"
proof -
  have "normalRefreshInterval \<in> refresh_waits" by (simp add: refresh_waits_def normalRefreshInterval_def)
  from refresh_intervals_waits[OF this] show ?thesis by (simp add: refresh_waits_def)
qed

text \<open>
  The documented backoff (30s, 1m, 2m, 4m, 8m, 10m max) does not stay at its maximum: the maximum equals
  the normal interval, which the loop takes for a first error, so the seventh failure in a row goes back
  to 30 seconds.
\<close>

theorem refresh_backoff_starts_over:
  "refresh_intervals normalRefreshInterval (replicate 7 True) = map (\<lambda>n. n * second) [600, 30, 60, 120, 240, 480, 600, 30]"
  by (simp add: numeral_eq_Suc next_interval_def normalRefreshInterval_def initialRetryInterval_def maxRetryInterval_def second_def)

section \<open>Startup\<close>

text \<open>
  What the discovery client promises of a response: it lists only APIs the cluster has, and an API that
  the cluster has is listed, or its group is reported as failed, or the whole call fails.
\<close>

definition honest :: "(APIName \<Rightarrow> bool) \<Rightarrow> disc_response \<Rightarrow> bool" where
  "honest truth resp \<longleftrightarrow>
     (\<forall>a. hasAPI a (fst resp) \<longrightarrow> truth a)
     \<and> (\<forall>a. truth a \<and> usable resp \<longrightarrow> hasAPI a (fst resp) \<or> list_ex (\<lambda>gv. str_contains (api_string a) gv) (failed_groups resp))"

lemma discovery_sound:
  assumes "honest truth resp" and "set order = UNIV" and "\<And>a. has_api a c \<Longrightarrow> truth a"
  shows "has_api a (fst (snd (fetchAvailableAPIsInternal order resp allow c))) \<Longrightarrow> truth a"
    and "fst (fetchAvailableAPIsInternal order resp False c) = None \<Longrightarrow>
           has_api OCPSecurity (fst (snd (fetchAvailableAPIsInternal order resp False c))) = truth OCPSecurity"
proof -
  show sound: "has_api a (fst (snd (fetchAvailableAPIsInternal order resp allow c))) \<Longrightarrow> truth a" for a allow
    using assms by (auto simp: has_api_fetch honest_def)
  assume ok: "fst (fetchAvailableAPIsInternal order resp False c) = None"
  then have u: "usable resp" using fetch_unusable[of resp order False c] by fastforce
  with ok have "\<not> undecided resp c" using assms(2) by (auto simp: fetch_usable)
  then show "has_api OCPSecurity (fst (snd (fetchAvailableAPIsInternal order resp False c))) = truth OCPSecurity"
    using sound[of OCPSecurity False] u assms(1,2) by (auto simp: has_api_fetch honest_def undecided_def)
qed

lemma discovery_op_state:
  assumes "disc (fst s) = (resp, v)"
  shows "snd (snd (discovery_op order disc allow s)) = fst (snd (fetchAvailableAPIsInternal order resp allow (snd s)))"
    and "fst (discovery_op order disc allow s) = Inr u \<longleftrightarrow> fst (fetchAvailableAPIsInternal order resp allow (snd s)) = None"
  using assms
  by (cases "fetchAvailableAPIsInternal order resp allow (snd s)"; cases "fst (fetchAvailableAPIsInternal order resp allow (snd s))";
      simp add: discovery_op_def)+

lemma fetchAvailableAPIs_sound:
  assumes ok: "fetchAvailableAPIs rt order disc (w, zero_Info) = (Inr u, (w', c))"
    and honest: "\<And>w. honest truth (fst (disc w))" and order: "set order = UNIV"
  shows "IsOpenShift c = truth OCPSecurity"
proof -
  let ?I = "\<lambda>s. \<forall>a. has_api a (snd s) \<longrightarrow> truth a" and ?op = "discovery_op order disc False"
  have "\<exists>s. ?I s \<and> ?op s = (Inr u, (w', c))"
  proof (rule retry_success[of "on_fst rt" startupRetryBackoff retryable_discovery ?op "(w, zero_Info)"])
    show "retryStartupAPICall (on_fst rt) startupRetryBackoff retryable_discovery ?op (w, zero_Info) = (Inr u, (w', c))"
      using ok by (simp add: fetchAvailableAPIs_def)
    show "?I (w, zero_Info)" by (simp add: has_api_def zero_Info_def)
    show "?I (rt_sleep (on_fst rt) d s)" if "?I s" for s d using that by (simp add: on_fst_def)
    show "?I s'" if "?I s" and "?op s = (r, s')" for s r s'
    proof -
      obtain resp v where d: "disc (fst s) = (resp, v)" by fastforce
      then have h: "honest truth resp" using honest[of "fst s"] by simp
      have "snd s' = fst (snd (fetchAvailableAPIsInternal order resp False (snd s)))"
        using that(2) discovery_op_state(1)[of disc s, OF d, of order False] by simp
      then show ?thesis using discovery_sound(1)[OF h order] that(1) by metis
    qed
  qed
  then obtain s where s: "?I s" "?op s = (Inr u, (w', c))" by blast
  obtain resp v where d: "disc (fst s) = (resp, v)" by fastforce
  then have h: "honest truth resp" using honest[of "fst s"] by simp
  from s(2) d have "fst (fetchAvailableAPIsInternal order resp False (snd s)) = None"
      "fst (snd (fetchAvailableAPIsInternal order resp False (snd s))) = c"
    using discovery_op_state[of disc s, OF d, of order False] by simp_all
  with discovery_sound(2)[OF h order, of "snd s"] s(1) show ?thesis by (simp add: IsOpenShift_def HasOCPSecurity_def)
qed

text \<open>
  C34: A successful startup has settled what the cluster is. When \<open>NewInfo\<close> returns without error, through
  whatever transient failures, the operator takes the cluster for OpenShift exactly when it has the security
  API, its own servers have a TLS configuration, and components are relayed one on OpenShift only.
  The responses of the discovery client are assumed honest.
\<close>

theorem NewInfo_knows_openshift:
  assumes ok: "NewInfo rt l order liveErr disc fetchProfile w = ((None, Some c), w')"
    and honest: "\<forall>w. honest truth (fst (disc w))" and order: "set order = UNIV"
  shows "IsOpenShift c = truth OCPSecurity \<and> GetTLSConfig c \<noteq> None
    \<and> (GetComponentTLSConfig c \<noteq> None \<longleftrightarrow> truth OCPSecurity)
    \<and> (\<not> truth OCPSecurity \<longrightarrow> GetTLSConfig c = Some (tl_SecureTLSConfig l))"
proof -
  from ok obtain w1 info p u where f: "fetchAvailableAPIs rt order disc (w, zero_Info) = (Inr u, (w1, info))"
    and c: "c = info\<lparr>tlsProfile := p, tlsConfig := Some (fst (ComposeTLSConfig l p))\<rparr>"
    and p: "\<not> IsOpenShift info \<Longrightarrow> p = None"
    by (auto simp: NewInfo_def split: option.splits prod.splits sum.splits if_splits)
  have "IsOpenShift info = truth OCPSecurity" using fetchAvailableAPIs_sound[OF f _ order] honest by blast
  moreover have "IsOpenShift c = IsOpenShift info" by (simp add: c IsOpenShift_def HasOCPSecurity_def has_api_def)
  ultimately show ?thesis using p by (auto simp: c GetTLSConfig_def GetComponentTLSConfig_def ComposeTLSConfig_def)
qed

text \<open>A cluster that answers a first discovery with a failed group, and then with the security API.\<close>

definition sample_lib :: tls_lib where
  "sample_lib =
     \<lparr>tl_SecureTLSConfig = \<lparr>tls_MinVersion = 771, tls_CipherSuites = [4865], tls_CurvePreferences = []\<rparr>,
      tl_TLSProfiles = (\<lambda>_. \<lparr>tps_Ciphers = [], tps_Groups = [], tps_MinTLSVersion = VersionTLS12\<rparr>),
      tl_OpenSSLToIANACipherSuites = (\<lambda>cs. cs), tl_CipherSuites = [], tl_InsecureCipherSuites = []\<rparr>"

definition sample_order :: "APIName list" where
  "sample_order = [ConsolePlugin, CNO, SvcMonitor, PromRule, OCPSecurity, EndpointSlices, LokiStackAPI]"

definition sample_disc :: "nat \<Rightarrow> disc_response \<times> nat" where
  "sample_disc n =
     (if n = 0 then ([\<lparr>arl_GroupVersion = ''v1'', arl_APIResources = [''pods'']\<rparr>], Some (ErrGroupDiscoveryFailed [''security.openshift.io/v1'']))
      else ([\<lparr>arl_GroupVersion = ''security.openshift.io/v1'', arl_APIResources = [''securitycontextconstraints'']\<rparr>], None), Suc n)"

lemma sample_order_all: "set sample_order = UNIV"
proof -
  have "a \<in> set sample_order" for a by (cases a) (simp_all add: sample_order_def)
  then show ?thesis by blast
qed

lemma sample_listed: "hasAPI a (fst (fst (sample_disc n))) \<longleftrightarrow> n \<noteq> 0 \<and> a = OCPSecurity"
  by (cases a) (simp_all add: sample_disc_def hasAPI_def)

lemma sample_failed: "list_ex (\<lambda>gv. str_contains (api_string OCPSecurity) gv) (failed_groups (fst (sample_disc n))) \<longleftrightarrow> n = 0"
  by (simp add: sample_disc_def failed_groups_def has_prefix_def)

lemma sample_usable: "usable (fst (sample_disc n))"
  by (simp add: sample_disc_def usable_def)

lemma sample_honest: "honest (\<lambda>a. a = OCPSecurity) (fst (sample_disc n))"
  unfolding honest_def using sample_listed sample_failed by blast

definition sample_info :: "nat Info" where
  "sample_info = zero_Info\<lparr>apisMap := Some (\<lambda>a. a = OCPSecurity), tlsConfig := Some (tl_SecureTLSConfig sample_lib)\<rparr>"

lemma sample_fetch:
  "fetchAvailableAPIsInternal sample_order (fst (sample_disc 0)) False zero_Info = (Some ErrCriticalAPIDiscovery, zero_Info\<lparr>apisMap := Some (\<lambda>_. False)\<rparr>, False)"
  "fetchAvailableAPIsInternal sample_order (fst (sample_disc (Suc 0))) False (zero_Info\<lparr>apisMap := Some (\<lambda>_. False)\<rparr>)
     = (None, zero_Info\<lparr>apisMap := Some (\<lambda>a. a = OCPSecurity)\<rparr>, False)"
  by (simp_all only: fetch_usable[OF sample_usable sample_order_all] undecided_def sample_listed sample_failed)
    (simp_all add: has_api_def zero_Info_def)

lemma discovery_op_unfold:
  "disc w = (resp, w') \<Longrightarrow> fetchAvailableAPIsInternal order resp allow c = (e, c', r) \<Longrightarrow>
     discovery_op order disc allow (w, c) = (case e of Some e \<Rightarrow> Inl e | None \<Rightarrow> Inr (), (w', c'))"
  by (cases e) (simp_all add: discovery_op_def)

lemma sample_disc_pair: "sample_disc n = (fst (sample_disc n), Suc n)"
  by (simp add: sample_disc_def)

lemmas sample_ops = discovery_op_unfold[of sample_disc, OF sample_disc_pair sample_fetch(1)] discovery_op_unfold[of sample_disc, OF sample_disc_pair sample_fetch(2)]

lemma sample_apis:
  "fetchAvailableAPIs quiet sample_order sample_disc (0, zero_Info) = (Inr (), (2, zero_Info\<lparr>apisMap := Some (\<lambda>a. a = OCPSecurity)\<rparr>))"
  by (simp add: fetchAvailableAPIs_def retryStartupAPICall_def exponentialBackoff.simps startupRetryBackoff_def backoff_step_def Let_def
      lift_runtime_def on_fst_def quiet_def retry_condition_def sample_ops second_def numeral_2_eq_2)

lemma sample_profile: "retryStartupAPICall quiet startupRetryBackoff isTransientAPIError (Pair (Inr None)) w = (Inr None, w)"
  by (simp add: retryStartupAPICall_def exponentialBackoff.simps startupRetryBackoff_def lift_runtime_def quiet_def retry_condition_def)

lemma sample_NewInfo:
  "NewInfo quiet sample_lib sample_order None sample_disc (Pair (Inr None)) 0 = ((None, Some sample_info), 2)"
  unfolding NewInfo_def by (simp add: sample_apis sample_profile IsOpenShift_def HasOCPSecurity_def has_api_def ComposeTLSConfig_def sample_info_def)
    (simp add: zero_Info_def)

theorem NewInfo_knows_openshift_witness:
  "IsOpenShift sample_info \<and> GetComponentTLSConfig sample_info \<noteq> None"
  using NewInfo_knows_openshift[OF sample_NewInfo, of "\<lambda>a. a = OCPSecurity"] sample_honest sample_order_all by simp

section \<open>Refreshes\<close>

lemma fetchClusterInfo_error: "fst (fetchClusterInfo sv lc c) = Some e \<Longrightarrow> snd (fetchClusterInfo sv lc c) = c"
  by (auto simp: fetchClusterInfo_def split: sum.splits prod.splits)

lemma fetchClusterInfo_apis: "apisMap (snd (fetchClusterInfo sv lc c)) = apisMap c"
  by (auto simp: fetchClusterInfo_def setInfo_def split: sum.splits prod.splits)

lemma has_api_fetchClusterInfo: "has_api a (snd (fetchClusterInfo sv lc c)) = has_api a c"
  by (simp add: has_api_def fetchClusterInfo_apis)

lemma fetchClusterInfo_addresses:
  "apiServerIPs c \<noteq> [] \<Longrightarrow> apiServerIPs (snd (fetchClusterInfo sv lc c)) \<noteq> []"
  by (auto simp: fetchClusterInfo_def setInfo_def split: sum.splits prod.splits)

lemma fetchClusterInfo_ready: "info_ready c \<Longrightarrow> info_ready (snd (fetchClusterInfo sv lc c))"
  by (auto simp: fetchClusterInfo_def setInfo_def split: sum.splits prod.splits)

lemma refresh_state:
  "fst (snd (refresh order sv resp lc c)) =
     (let (e, c1, r) = fetchAvailableAPIsInternal order resp True c in
      if e = None then snd (fetchClusterInfo sv lc c1) else c1)"
  by (auto simp: refresh_def split: option.splits prod.splits)

text \<open>The states that a run of refreshes goes through.\<close>

fun refreshes :: "APIName list \<Rightarrow> 'v semver \<Rightarrow> (disc_response \<times> 'e liveClient) list \<Rightarrow> 'v Info \<Rightarrow> 'v Info" where
  "refreshes order sv [] c = c"
| "refreshes order sv ((resp, lc) # rs) c = refreshes order sv rs (fst (snd (refresh order sv resp lc c)))"

lemma refresh_keeps:
  assumes "set order = UNIV"
  shows "has_api a c \<Longrightarrow> has_api a (fst (snd (refresh order sv resp lc c)))"
    and "info_ready c \<Longrightarrow> info_ready (fst (snd (refresh order sv resp lc c)))"
    and "apiServerIPs c \<noteq> [] \<Longrightarrow> apiServerIPs (fst (snd (refresh order sv resp lc c))) \<noteq> []"
proof -
  obtain e c1 r where f: "fetchAvailableAPIsInternal order resp True c = (e, c1, r)" by (metis prod_cases3)
  have api: "has_api a c \<Longrightarrow> has_api a c1" for a using has_api_fetch[OF assms, of a resp True c] f by simp
  obtain m where m: "c1 = c\<lparr>apisMap := m\<rparr>" using fetch_frame[OF assms, of resp True c] f by auto
  show "has_api a c \<Longrightarrow> has_api a (fst (snd (refresh order sv resp lc c)))"
    using api by (simp add: refresh_state f has_api_fetchClusterInfo)
  show "info_ready c \<Longrightarrow> info_ready (fst (snd (refresh order sv resp lc c)))"
    using fetchClusterInfo_ready[of c1 sv lc] by (simp add: refresh_state f m)
  show "apiServerIPs c \<noteq> [] \<Longrightarrow> apiServerIPs (fst (snd (refresh order sv resp lc c))) \<noteq> []"
    using fetchClusterInfo_addresses[of c1 sv lc] by (simp add: refresh_state f m)
qed

text \<open>
  Refreshing never loses what matters. Through any number of refreshes, with any answers and any
  failures, an API that was discovered stays available (so an OpenShift cluster stays one), information
  that was collected stays readable, and the addresses of the API server never become empty.
\<close>

theorem refreshes_keep:
  assumes "set order = UNIV"
  shows "(has_api a c \<longrightarrow> has_api a (refreshes order sv rs c))
    \<and> (snd (GetCNI c) = None \<longrightarrow> snd (GetCNI (refreshes order sv rs c)) = None)
    \<and> (GetAPIServerIPs c \<noteq> [] \<longrightarrow> GetAPIServerIPs (refreshes order sv rs c) \<noteq> [])"
proof (induction rs arbitrary: c)
  case (Cons r rs)
  let ?c = "fst (snd (refresh order sv (fst r) (snd r) c))"
  show ?case using Cons[of ?c] refresh_keeps(1)[OF assms, of a c sv "fst r" "snd r"] refresh_keeps(2,3)[OF assms, of c sv "fst r" "snd r"]
    by (cases r) (auto simp: GetCNI_def GetAPIServerIPs_def split: if_splits)
qed simp

theorem refreshes_keep_witness:
  "has_api OCPSecurity (refreshes sample_order \<lparr>sv_NewVersion = (\<lambda>_. Inr 0), sv_dropPreRelease = id, sv_LessThan = (<), sv_String = (\<lambda>_. [])\<rparr>
     ([] :: (disc_response \<times> string liveClient) list) sample_info)"
  using refreshes_keep[OF sample_order_all, of OCPSecurity sample_info] by (simp add: sample_info_def has_api_def)

end
