(* ===== verification/Operator_Config.thy ===== *)
theory Operator_Config
  imports Cluster_Info Advanced_Config
begin

text \<open>
  \<open>internal/pkg/manager/config.go\<close>: the start options of the operator, their validation, and the choice of
  the web console image by cluster version. The options of the static plugin are left out.
\<close>

record Config =
  cfg_DemoLokiImage :: string
  cfg_EBPFAgentImage :: string
  cfg_FlowlogsPipelineImage :: string
  cfg_WebConsoleImage :: string
  cfg_WebConsolePF4Image :: string
  cfg_WebConsolePF5Image :: string
  cfg_EBPFByteCodeImage :: string
  cfg_Namespace :: string
  cfg_DefaultOperandsNamespace :: string
  cfg_Vendor :: Vendor
  cfg_DeployOperatorNetworkPolicy :: "bool option"

datatype config_error = EmptyAgentImage | EmptyFLPImage | EmptyConsoleImage | EmptyNamespace

definition Config_Validate :: "Config \<Rightarrow> config_error option" where
  "Config_Validate c =
     (if cfg_EBPFAgentImage c = [] then Some EmptyAgentImage
      else if cfg_FlowlogsPipelineImage c = [] then Some EmptyFLPImage
      else if cfg_WebConsoleImage c = [] then Some EmptyConsoleImage
      else if cfg_Namespace c = [] then Some EmptyNamespace
      else None)"

fun pick_variant :: "'v semver \<Rightarrow> 'v Info \<Rightarrow> (string \<times> string) list \<Rightarrow> string option" where
  "pick_variant sv ci [] = None"
| "pick_variant sv ci ((minVersion, img) # vs) =
     (if minVersion = [] then Some img
      else case IsOpenShiftVersionAtLeast sv minVersion ci of
        (isAtLeast, _, err) \<Rightarrow> if err = None \<and> isAtLeast then Some img else pick_variant sv ci vs)"

definition ResolveWebConsoleImage :: "'v semver \<Rightarrow> Config \<Rightarrow> 'v Info option \<Rightarrow> string" where
  "ResolveWebConsoleImage sv c clusterInfo =
     (case clusterInfo of
        Some ci \<Rightarrow>
          if cfg_Vendor c = VendorOpenShift \<or> cfg_Vendor c = VendorOpenShiftDownstream then
            (case pick_variant sv ci
                [(''4.22.0'', cfg_WebConsoleImage c), (''4.15.0'', cfg_WebConsolePF5Image c), ([], cfg_WebConsolePF4Image c)] of
               Some img \<Rightarrow> img | None \<Rightarrow> cfg_WebConsoleImage c)
          else cfg_WebConsoleImage c
      | None \<Rightarrow> cfg_WebConsoleImage c)"

text \<open>
  While the cluster version is not known yet, an OpenShift build answers with the image of the oldest
  clusters, not with the current one.
\<close>

theorem unknown_version_oldest_console:
  assumes "cfg_Vendor c = VendorOpenShift" and "\<not> info_ready ci \<or> openShiftVersion ci = None"
  shows "ResolveWebConsoleImage sv c (Some ci) = cfg_WebConsolePF4Image c"
  using assms by (auto simp: ResolveWebConsoleImage_def IsOpenShiftVersionAtLeast_def IsOpenShiftVersionLessThan_def)

text \<open>On a known version the image is the one of the interval the version falls in.\<close>

theorem ResolveWebConsoleImage_by_version:
  assumes "cfg_Vendor c = VendorOpenShift" and "info_ready ci" and "openShiftVersion ci = Some v"
    and "sv_NewVersion sv ''4.22.0'' = Inr a" and "sv_NewVersion sv ''4.15.0'' = Inr b"
  shows "ResolveWebConsoleImage sv c (Some ci) =
    (let r = sv_dropPreRelease sv v in
     if \<not> sv_LessThan sv r a then cfg_WebConsoleImage c
     else if \<not> sv_LessThan sv r b then cfg_WebConsolePF5Image c
     else cfg_WebConsolePF4Image c)"
  using assms by (simp add: ResolveWebConsoleImage_def IsOpenShiftVersionAtLeast_def IsOpenShiftVersionLessThan_def Let_def)

end
