(* ===== verification/Net_Policy.thy ===== *)
theory Net_Policy
  imports Operator_Config Reconcilers
begin

text \<open>
  \<open>internal/pkg/netpol/netpol.go\<close>, \<open>internal/pkg/helper/ip.go\<close> and
  \<open>internal/controller/networkpolicy\<close>: the network policies of the operator's namespaces and the
  controller that installs them. The environment variables are a function, the cluster information is the
  one of \<open>Cluster_Info\<close>.
\<close>

section \<open>The policy objects of Kubernetes\<close>

datatype Protocol = ProtocolTCP | ProtocolUDP

datatype LabelSelectorOperator = LabelSelectorOpIn | LabelSelectorOpNotIn | LabelSelectorOpExists | LabelSelectorOpDoesNotExist

record LabelSelectorRequirement =
  lsr_Key :: string
  lsr_Operator :: LabelSelectorOperator
  lsr_Values :: "string list"

record LabelSelector =
  ls_MatchLabels :: go_map
  ls_MatchExpressions :: "LabelSelectorRequirement list"

record NetworkPolicyPeer =
  npp_PodSelector :: "LabelSelector option"
  npp_NamespaceSelector :: "LabelSelector option"
  npp_IPBlock :: "string option"

record NetworkPolicyPort =
  nport_Protocol :: "Protocol option"
  nport_Port :: "IntOrString option"

record NetworkPolicyIngressRule =
  nir_From :: "NetworkPolicyPeer list"
  nir_Ports :: "NetworkPolicyPort list"

record NetworkPolicyEgressRule =
  ner_To :: "NetworkPolicyPeer list"
  ner_Ports :: "NetworkPolicyPort list"

datatype PolicyType = PolicyTypeIngress | PolicyTypeEgress

record NetworkPolicySpec =
  nps_PodSelector :: LabelSelector
  nps_Ingress :: "NetworkPolicyIngressRule list"
  nps_Egress :: "NetworkPolicyEgressRule list"
  nps_PolicyTypes :: "PolicyType list"

definition any_selector :: LabelSelector where
  "any_selector = \<lparr>ls_MatchLabels = [], ls_MatchExpressions = []\<rparr>"

definition namespace_peer :: "LabelSelector \<Rightarrow> NetworkPolicyPeer" where
  "namespace_peer s = \<lparr>npp_PodSelector = None, npp_NamespaceSelector = Some s, npp_IPBlock = None\<rparr>"

definition same_namespace_peer :: NetworkPolicyPeer where
  "same_namespace_peer = \<lparr>npp_PodSelector = Some any_selector, npp_NamespaceSelector = None, npp_IPBlock = None\<rparr>"

definition cidr_peer :: "string \<Rightarrow> NetworkPolicyPeer" where
  "cidr_peer cidr = \<lparr>npp_PodSelector = None, npp_NamespaceSelector = None, npp_IPBlock = Some cidr\<rparr>"

definition FromInt :: "int \<Rightarrow> IntOrString" where
  "FromInt i = \<lparr>ios_Type = IntKind, ios_IntVal = wrap32 i, ios_StrVal = []\<rparr>"

definition FromString :: "string \<Rightarrow> IntOrString" where
  "FromString s = \<lparr>ios_Type = StringKind, ios_IntVal = 0, ios_StrVal = s\<rparr>"

definition policy_port :: "Protocol \<Rightarrow> IntOrString \<Rightarrow> NetworkPolicyPort" where
  "policy_port pr p = \<lparr>nport_Protocol = Some pr, nport_Port = Some p\<rparr>"

section \<open>ip.go\<close>

definition IPToCIDR :: "string \<Rightarrow> string" where
  "IPToCIDR ipStr =
     (case ParseIP ipStr of
        None \<Rightarrow> []
      | Some ip \<Rightarrow> if To4 ip \<noteq> None then ipStr @ ''/32'' else ipStr @ ''/128'')"

section \<open>netpol.go\<close>

definition metadata_name :: string where "metadata_name = ''kubernetes.io/metadata.name''"

definition on_openshift :: "Vendor \<Rightarrow> bool" where
  "on_openshift vendor \<longleftrightarrow> vendor = VendorOpenShift \<or> vendor = VendorOpenShiftDownstream"

definition ovnHostNetworkPeer :: "Vendor \<Rightarrow> NetworkPolicyPeer" where
  "ovnHostNetworkPeer vendor =
     namespace_peer \<lparr>ls_MatchLabels =
        (if on_openshift vendor then [(''policy-group.network.openshift.io/host-network'', [])]
         else [(metadata_name, ''ovn-host-network'')]), ls_MatchExpressions = []\<rparr>"

definition PeerInNamespace :: "string \<Rightarrow> NetworkPolicyPeer" where
  "PeerInNamespace ns = namespace_peer \<lparr>ls_MatchLabels = [(metadata_name, ns)], ls_MatchExpressions = []\<rparr>"

definition PeerInNamespaces :: "string list \<Rightarrow> NetworkPolicyPeer" where
  "PeerInNamespaces ns = namespace_peer \<lparr>ls_MatchLabels = [],
     ls_MatchExpressions = [\<lparr>lsr_Key = metadata_name, lsr_Operator = LabelSelectorOpIn, lsr_Values = ns\<rparr>]\<rparr>"

definition AllowFromSameNamespace :: NetworkPolicyIngressRule where
  "AllowFromSameNamespace = \<lparr>nir_From = [same_namespace_peer], nir_Ports = []\<rparr>"

definition AllowToSameNamespace :: NetworkPolicyEgressRule where
  "AllowToSameNamespace = \<lparr>ner_To = [same_namespace_peer], ner_Ports = []\<rparr>"

text \<open>The advanced settings always have a port; dereferencing nil would panic.\<close>

definition AllowFromOpenShiftConsole :: "crd_defaults \<Rightarrow> FlowCollectorConsolePlugin \<Rightarrow> NetworkPolicyIngressRule" where
  "AllowFromOpenShiftConsole d desired =
     \<lparr>nir_From = [PeerInNamespace ''openshift-console''],
      nir_Ports = [policy_port ProtocolTCP (FromInt (the (aplug_Port (GetAdvancedPluginConfig d (cons_Advanced desired)))))]\<rparr>"

definition AllowToLokiStack :: "FlowCollectorSpec \<Rightarrow> NetworkPolicyEgressRule" where
  "AllowToLokiStack spec =
     \<lparr>ner_To = [PeerInNamespace (lstk_Namespace (loki_LokiStack (spec_Loki spec)))],
      ner_Ports = [policy_port ProtocolTCP (FromInt 8080), policy_port ProtocolTCP (FromInt 3100)]\<rparr>"

definition AllowVendorPrometheusScrape :: "Vendor \<Rightarrow> int list \<Rightarrow> NetworkPolicyIngressRule" where
  "AllowVendorPrometheusScrape vendor ports =
     \<lparr>nir_From =
        [case vendor of
           VendorOpenShift \<Rightarrow> PeerInNamespace ''openshift-user-workload-monitoring''
         | VendorOpenShiftDownstream \<Rightarrow> PeerInNamespace ''openshift-monitoring''
         | VendorOther \<Rightarrow> same_namespace_peer],
      nir_Ports = map (\<lambda>p. policy_port ProtocolTCP (FromInt p)) ports\<rparr>"

definition AllowPrometheusQuery :: "Vendor \<Rightarrow> NetworkPolicyEgressRule" where
  "AllowPrometheusQuery vendor =
     \<lparr>ner_To = [if on_openshift vendor then PeerInNamespace ''openshift-monitoring'' else same_namespace_peer], ner_Ports = []\<rparr>"

text \<open>\<open>strconv.ParseInt(s, 10, 32)\<close>: a sign, then digits; the value must fit.\<close>

definition parse_int32 :: "string \<Rightarrow> int option" where
  "parse_int32 s =
     (let neg = has_prefix s ''-''; t = (if neg \<or> has_prefix s ''+'' then tl s else s) in
      case parse_uint 4294967295 t of
        Inl _ \<Rightarrow> None
      | Inr n \<Rightarrow> if (if neg then n \<le> 2147483648 else n < 2147483648) then Some (if neg then - int n else int n) else None)"

definition api_server_peer :: "(string \<Rightarrow> string) \<Rightarrow> Vendor \<Rightarrow> NetworkPolicyPeer \<times> int" where
  "api_server_peer getenv vendor =
     (if on_openshift vendor then (PeerInNamespaces [''openshift-apiserver'', ''openshift-kube-apiserver''], 6443)
      else
        (let ip = getenv ''KUBERNETES_SERVICE_HOST''; portStr = getenv ''KUBERNETES_SERVICE_PORT'';
             peer = (if ip \<noteq> [] \<and> IPToCIDR ip \<noteq> [] then cidr_peer (IPToCIDR ip) else PeerInNamespace ''kube-system'');
             port = (if portStr \<noteq> [] then (case parse_int32 portStr of Some p \<Rightarrow> p | None \<Rightarrow> 443) else 443)
         in (peer, port)))"

definition AllowToAPIServer :: "(string \<Rightarrow> string) \<Rightarrow> 'v Info \<Rightarrow> Vendor \<Rightarrow> NetworkPolicyEgressRule" where
  "AllowToAPIServer getenv ci vendor =
     (let (peer, port) = api_server_peer getenv vendor;
          cidrs = filter (\<lambda>c. c \<noteq> []) (map IPToCIDR (GetAPIServerIPs ci));
          others = filter (\<lambda>p. p \<noteq> port) (GetAPIServerPorts ci)
      in \<lparr>ner_To = peer # map cidr_peer cidrs,
          ner_Ports = policy_port ProtocolTCP (FromInt port) # map (\<lambda>p. policy_port ProtocolTCP (FromInt p)) others\<rparr>)"

definition AllowToWebhooks :: "'v Info \<Rightarrow> Vendor \<Rightarrow> NetworkPolicyIngressRule" where
  "AllowToWebhooks ci vendor =
     \<lparr>nir_From = [if fst (GetCNI ci) = OVNKubernetes then ovnHostNetworkPeer vendor else PeerInNamespace ''kube-system''],
      nir_Ports = [policy_port ProtocolTCP (FromInt 9443)]\<rparr>"

definition AllowHostNetworkFlows :: "crd_defaults \<Rightarrow> 'v Info \<Rightarrow> Vendor \<Rightarrow> FlowCollectorSpec \<Rightarrow> string \<Rightarrow> NetworkPolicyIngressRule" where
  "AllowHostNetworkFlows d ci vendor spec fromNamespace =
     \<lparr>nir_From = [if fst (GetCNI ci) = OVNKubernetes then ovnHostNetworkPeer vendor else PeerInNamespace fromNamespace],
      nir_Ports = [policy_port ProtocolTCP (FromInt (the (apc_Port (GetAdvancedProcessorConfig d spec))))]\<rparr>"

definition AllowDNS :: "Vendor \<Rightarrow> NetworkPolicyEgressRule" where
  "AllowDNS vendor =
     \<lparr>ner_To = [PeerInNamespace (if on_openshift vendor then ''openshift-dns'' else ''kube-system'')],
      ner_Ports = [policy_port ProtocolUDP (FromString ''dns''), policy_port ProtocolTCP (FromString ''dns-tcp'')]\<rparr>"

section \<open>np_objects.go\<close>

text \<open>What the builders read of the manager.\<close>

record 'v np_manager =
  npm_Config :: Config
  npm_ClusterInfo :: "'v Info"
  npm_getenv :: "string \<Rightarrow> string"
  npm_defaults :: crd_defaults

definition operands_ns :: "FlowCollectorSpec \<Rightarrow> 'v np_manager \<Rightarrow> string" where
  "operands_ns spec mgr = GetOperandsNamespace spec (cfg_DefaultOperandsNamespace (npm_Config mgr))"

definition should_install :: "FlowCollectorSpec \<Rightarrow> 'v np_manager \<Rightarrow> bool" where
  "should_install spec mgr =
     (let cni = fst (GetCNI (npm_ClusterInfo mgr)); enable = np_Enable (spec_NetworkPolicy spec) in
      if operands_ns spec mgr = cfg_Namespace (npm_Config mgr) \<or> enable = None
      then ShouldInstallNetworkPolicy (cfg_DeployOperatorNetworkPolicy (npm_Config mgr)) cni
      else ShouldInstallNetworkPolicy enable cni)"

definition policy_object :: "string \<Rightarrow> NetworkPolicySpec \<Rightarrow> NetworkPolicySpec k8s_object" where
  "policy_object ns s =
     \<lparr>obj_Meta = \<lparr>om_Name = ''netobserv'', om_Namespace = ns, om_Labels = None, om_Annotations = None, om_OwnerReferences = [],
        om_ResourceVersion = [], om_Generation = 0, om_DeletionTimestamp = None\<rparr>, obj_Body = s\<rparr>"

definition main_ingress :: "FlowCollectorSpec \<Rightarrow> 'v np_manager \<Rightarrow> NetworkPolicyIngressRule list" where
  "main_ingress spec mgr =
     (let ci = npm_ClusterInfo mgr; vendor = cfg_Vendor (npm_Config mgr); d = npm_defaults mgr; more_ns = np_AdditionalNamespaces (spec_NetworkPolicy spec) in
      [AllowFromSameNamespace]
      @ (if spec_DeploymentModel spec = DeploymentModelService
         then [AllowHostNetworkFlows d ci vendor spec (operands_ns spec mgr @ ''-privileged'')] else [])
      @ (if IsOpenShift ci then
           [AllowVendorPrometheusScrape vendor [GetMetricsPort_flp (spec_Processor spec), 9002]]
           @ (if UseWebConsole spec then [AllowFromOpenShiftConsole d (spec_ConsolePlugin spec)] else [])
         else [])
      @ (if more_ns \<noteq> [] then [\<lparr>nir_From = [PeerInNamespaces more_ns], nir_Ports = []\<rparr>] else []))"

definition main_egress :: "FlowCollectorSpec \<Rightarrow> 'v np_manager \<Rightarrow> NetworkPolicyEgressRule list" where
  "main_egress spec mgr =
     (let ci = npm_ClusterInfo mgr; vendor = cfg_Vendor (npm_Config mgr); more_ns = np_AdditionalNamespaces (spec_NetworkPolicy spec);
          lokiNs = lstk_Namespace (loki_LokiStack (spec_Loki spec)) in
      [AllowToSameNamespace, AllowDNS vendor, AllowToAPIServer (npm_getenv mgr) ci vendor]
      @ (if UseLoki spec \<and> loki_Mode (spec_Loki spec) = LokiModeLokiStack \<and> lokiNs \<noteq> [] \<and> lokiNs \<noteq> operands_ns spec mgr
         then [AllowToLokiStack spec] else [])
      @ (if IsOpenShift ci then [AllowPrometheusQuery vendor] else [])
      @ (if more_ns \<noteq> [] then [\<lparr>ner_To = [PeerInNamespaces more_ns], ner_Ports = []\<rparr>] else []))"

definition buildMainNetworkPolicy ::
  "FlowCollectorSpec \<Rightarrow> 'v np_manager \<Rightarrow> obj_key \<times> NetworkPolicySpec k8s_object option" where
  "buildMainNetworkPolicy spec mgr =
     (let ns = operands_ns spec mgr in
      ((ns, ''netobserv''),
       if \<not> should_install spec mgr then None
       else Some (policy_object ns
         \<lparr>nps_PodSelector = \<lparr>ls_MatchLabels = [(''part-of'', ''netobserv-operator'')], ls_MatchExpressions = []\<rparr>,
          nps_Ingress = main_ingress spec mgr, nps_Egress = main_egress spec mgr,
          nps_PolicyTypes = [PolicyTypeIngress, PolicyTypeEgress]\<rparr>)))"

definition buildPrivilegedNetworkPolicy ::
  "FlowCollectorSpec \<Rightarrow> 'v np_manager \<Rightarrow> obj_key \<times> NetworkPolicySpec k8s_object option" where
  "buildPrivilegedNetworkPolicy spec mgr =
     (let privNs = operands_ns spec mgr @ ''-privileged'' in
      ((privNs, ''netobserv''),
       if \<not> should_install spec mgr then None
       else Some (policy_object privNs
         \<lparr>nps_PodSelector = any_selector,
          nps_Ingress =
            (if IsOpenShift (npm_ClusterInfo mgr)
             then [AllowVendorPrometheusScrape (cfg_Vendor (npm_Config mgr)) [GetMetricsPort_ebpf (agent_EBPF (spec_Agent spec))]]
             else []),
          nps_Egress = [], nps_PolicyTypes = [PolicyTypeIngress, PolicyTypeEgress]\<rparr>)))"

section \<open>np_controller.go\<close>

definition np_reconcile ::
  "(NetworkPolicySpec, 'w) enqueuer option \<Rightarrow> (NetworkPolicySpec, 'w) k8s_client \<Rightarrow> 'v np_manager \<Rightarrow> (obj_key \<Rightarrow> NetworkPolicySpec k8s_object)
     \<Rightarrow> FlowCollectorSpec \<Rightarrow> 'w \<Rightarrow> (client_error + bool) \<times> 'w" where
  "np_reconcile q cl mgr placeholder desired w =
     (case buildMainNetworkPolicy desired mgr of (npName, desiredNp) \<Rightarrow>
      case ReconcileNetworkPolicyWithEnqueuer q cl npName (placeholder npName) desiredNp w of
        (Some e, w') \<Rightarrow> (Inl e, w')
      | (None, w') \<Rightarrow>
          (case buildPrivilegedNetworkPolicy desired mgr of (privName, desiredPriv) \<Rightarrow>
           case ReconcileNetworkPolicyWithEnqueuer q cl privName (placeholder privName) desiredPriv w' of
             (Some e, w'') \<Rightarrow> (Inl e, w'')
           | (None, w'') \<Rightarrow> (Inr (desiredNp \<noteq> None), w'')))"

text \<open>
  \<open>Reconcile\<close>: \<open>getFC\<close> is the lookup of the \<open>FlowCollector\<close>, \<open>resetWatches\<close> the enqueuer's
  \<open>ResetActiveWatches\<close>, \<open>commit\<close> the deferred commit of the status, \<open>err_text\<close> prints an error.
\<close>

definition np_Reconcile ::
  "(NetworkPolicySpec, 'w) enqueuer option \<Rightarrow> (NetworkPolicySpec, 'w) k8s_client \<Rightarrow> 'v np_manager \<Rightarrow> (obj_key \<Rightarrow> NetworkPolicySpec k8s_object)
     \<Rightarrow> ('w \<Rightarrow> client_error + FlowCollectorSpec option) \<Rightarrow> ('w \<Rightarrow> 'w) \<Rightarrow> (Manager \<Rightarrow> 'w \<Rightarrow> Manager \<times> 'w) \<Rightarrow> (client_error \<Rightarrow> string)
     \<Rightarrow> Manager \<Rightarrow> 'w \<Rightarrow> client_error option \<times> Manager \<times> 'w" where
  "np_Reconcile q cl mgr placeholder getFC resetWatches commit err_text st w =
     (case getFC w of
        Inl e \<Rightarrow> (Some (Wrapped ''failed to get FlowCollector'' e), st, w)
      | Inr None \<Rightarrow> (None, st, resetWatches w)
      | Inr (Some desired) \<Rightarrow>
          (let st1 = reset NetworkPolicyCpnt st in
           case np_reconcile q cl mgr placeholder desired (resetWatches w) of
             (Inl e, w') \<Rightarrow>
               (let st2 = (if \<not> hasFailure st1 NetworkPolicyCpnt then setFailure NetworkPolicyCpnt ''NetworkPolicyError'' (err_text e) st1 else st1);
                    (st3, w'') = commit st2 w' in (Some e, st3, w''))
           | (Inr hasNP, w') \<Rightarrow>
               (let st2 = (if \<not> hasNP then setUnused NetworkPolicyCpnt ''Network policy is disabled'' st1 else setReady NetworkPolicyCpnt st1);
                    (st3, w'') = commit st2 w' in (None, st3, w''))))"

end
