(* ===== verification/Api_Store.thy ===== *)
theory Api_Store
  imports Reconcilers_Correct
begin

text \<open>
  A concrete API server, on which the reconcilers are run: a store of objects by key, and a family of stores,
  one per kind of object, with the client of each kind.
\<close>

section \<open>One kind of object\<close>

text \<open>
  An API server that stores what it is given, at the key of the object; \<open>own\<close> sets the owner reference.
\<close>

type_synonym 'b store = "obj_key \<rightharpoonup> 'b k8s_object"

definition store_client :: "('b k8s_object \<Rightarrow> 'b k8s_object) \<Rightarrow> ('b, 'b store) k8s_client" where
  "store_client own =
     \<lparr>cl_Get = (\<lambda>k st. case st k of None \<Rightarrow> Inl NotFound | Some x \<Rightarrow> Inr x),
      cl_Create = (\<lambda>x st. if st (key_of x) = None then (None, st(key_of x \<mapsto> x)) else (Some Conflict, st)),
      cl_Update = (\<lambda>x st. if st (key_of x) = None then (Some NotFound, st) else (None, st(key_of x \<mapsto> x))),
      cl_Delete = (\<lambda>x st. if st (key_of x) = None then (Some NotFound, st) else (None, st(key_of x := None))),
      cl_SetOwnerReference = (\<lambda>x. Inr (own x))\<rparr>"

definition sets_owner_only :: "('b k8s_object \<Rightarrow> 'b k8s_object) \<Rightarrow> bool" where
  "sets_owner_only own \<longleftrightarrow> (\<forall>x. \<exists>refs. own x = x\<lparr>obj_Meta := (obj_Meta x)\<lparr>om_OwnerReferences := refs\<rparr>\<rparr>)"

definition well_keyed :: "'b store \<Rightarrow> bool" where
  "well_keyed st \<longleftrightarrow> (\<forall>k x. st k = Some x \<longrightarrow> key_of x = k)"

definition ours :: "'b store \<Rightarrow> obj_key \<Rightarrow> bool" where
  "ours st k \<longleftrightarrow> (case st k of None \<Rightarrow> True | Some x \<Rightarrow> IsOwned x)"

lemma well_keyedD: "well_keyed st \<Longrightarrow> st k = Some x \<Longrightarrow> key_of x = k"
  unfolding well_keyed_def by blast

lemma oursD: "ours st k \<Longrightarrow> st k = Some x \<Longrightarrow> IsOwned x"
  by (simp add: ours_def)

lemma id_sets_owner_only: "sets_owner_only id"
  unfolding sets_owner_only_def
proof
  fix x :: "'b k8s_object"
  show "\<exists>refs. id x = x\<lparr>obj_Meta := (obj_Meta x)\<lparr>om_OwnerReferences := refs\<rparr>\<rparr>"
    by (rule exI[of _ "om_OwnerReferences (obj_Meta x)"]) simp
qed

lemma own_facts:
  "sets_owner_only own \<Longrightarrow> key_of (own x) = key_of x" "sets_owner_only own \<Longrightarrow> obj_Body (own x) = obj_Body x"
  "sets_owner_only own \<Longrightarrow> labels_of (own x) = labels_of x"
  unfolding sets_owner_only_def key_of_def labels_of_def by (drule spec[of _ x], auto)+

lemma managed_facts: "key_of (AddManagedLabel x) = key_of x" "obj_Body (AddManagedLabel x) = obj_Body x"
  by (simp_all add: key_of_def AddManagedLabel_def)

section \<open>One store per kind\<close>

text \<open>The client of one kind, on a world with a store for every kind.\<close>

definition at_kind :: "'k \<Rightarrow> ('b, 'b store) k8s_client \<Rightarrow> ('b, 'k \<Rightarrow> 'b store) k8s_client" where
  "at_kind k c =
     \<lparr>cl_Get = (\<lambda>key w. cl_Get c key (w k)),
      cl_Create = (\<lambda>x w. case cl_Create c x (w k) of (e, st) \<Rightarrow> (e, w(k := st))),
      cl_Update = (\<lambda>x w. case cl_Update c x (w k) of (e, st) \<Rightarrow> (e, w(k := st))),
      cl_Delete = (\<lambda>x w. case cl_Delete c x (w k) of (e, st) \<Rightarrow> (e, w(k := st))),
      cl_SetOwnerReference = cl_SetOwnerReference c\<rparr>"

lemma at_kind_sel [simp]:
  "cl_Get (at_kind k (store_client own)) key w = (case w k key of None \<Rightarrow> Inl NotFound | Some x \<Rightarrow> Inr x)"
  "cl_Create (at_kind k (store_client own)) x w = (if w k (key_of x) = None then (None, w(k := (w k)(key_of x \<mapsto> x))) else (Some Conflict, w))"
  "cl_Update (at_kind k (store_client own)) x w = (if w k (key_of x) = None then (Some NotFound, w) else (None, w(k := (w k)(key_of x \<mapsto> x))))"
  "cl_Delete (at_kind k (store_client own)) x w = (if w k (key_of x) = None then (Some NotFound, w) else (None, w(k := (w k)(key_of x := None))))"
  "cl_SetOwnerReference (at_kind k (store_client own)) x = Inr (own x)"
  by (simp_all add: at_kind_def store_client_def)

lemma create_at_kind:
  "sets_owner_only own \<Longrightarrow> w k (key_of x) = None \<Longrightarrow>
     CreateOwned (at_kind k (store_client own)) x w = (None, w(k := (w k)(key_of x \<mapsto> AddManagedLabel (own x))))"
  by (simp add: CreateOwned_def lift_error_def managed_facts own_facts)

lemma with_version_key [simp]: "key_of (x\<lparr>obj_Meta := (obj_Meta x)\<lparr>om_ResourceVersion := v\<rparr>\<rparr>) = key_of x"
  by (simp add: key_of_def)

lemma update_at_kind:
  assumes "sets_owner_only own" "w k (key_of x) \<noteq> None"
  shows "UpdateOwned (at_kind k (store_client own)) (Some old) x w =
    (None, w(k := (w k)(key_of x \<mapsto> AddManagedLabel (own (x\<lparr>obj_Meta := (obj_Meta x)\<lparr>om_ResourceVersion := om_ResourceVersion (obj_Meta old)\<rparr>\<rparr>)))))"
  using assms by (simp add: UpdateOwned_def Let_def managed_facts own_facts)

end
