(* ===== verification/Net_Policy_Correct.thy ===== *)
theory Net_Policy_Correct
  imports Net_Policy Api_Store Samples
begin

text \<open>
  What the installed policies let through, under the documented meaning of a Kubernetes network policy, and
  that the controller brings the cluster to the desired policies and then leaves it alone.
\<close>

section \<open>The meaning of a policy\<close>

text \<open>
  A peer of a connection: its namespace with its labels, its pod labels and its address. The other end is a
  pod whose named ports are a function.
\<close>

record endpoint =
  ep_Namespace :: string
  ep_NsLabels :: go_map
  ep_PodLabels :: go_map
  ep_IP :: string
  ep_NamedPorts :: "string \<Rightarrow> Protocol \<Rightarrow> int option"

fun requirement_holds :: "go_map \<Rightarrow> LabelSelectorRequirement \<Rightarrow> bool" where
  "requirement_holds labels r =
     (case (lsr_Operator r, map_of labels (lsr_Key r)) of
        (LabelSelectorOpIn, Some v) \<Rightarrow> v \<in> set (lsr_Values r)
      | (LabelSelectorOpIn, None) \<Rightarrow> False
      | (LabelSelectorOpNotIn, Some v) \<Rightarrow> v \<notin> set (lsr_Values r)
      | (LabelSelectorOpNotIn, None) \<Rightarrow> True
      | (LabelSelectorOpExists, x) \<Rightarrow> x \<noteq> None
      | (LabelSelectorOpDoesNotExist, x) \<Rightarrow> x = None)"

definition selects :: "LabelSelector \<Rightarrow> go_map \<Rightarrow> bool" where
  "selects s labels \<longleftrightarrow> list_all (\<lambda>kv. map_of labels (fst kv) = Some (snd kv)) (ls_MatchLabels s)
     \<and> list_all (requirement_holds labels) (ls_MatchExpressions s)"

definition in_cidr :: "string \<Rightarrow> string \<Rightarrow> bool" where
  "in_cidr cidr ip = (case (ParseCIDR cidr, ParseIP ip) of (Some n, Some a) \<Rightarrow> net_Contains n a | _ \<Rightarrow> False)"

definition peer_matches :: "string \<Rightarrow> endpoint \<Rightarrow> NetworkPolicyPeer \<Rightarrow> bool" where
  "peer_matches policyNs ep p =
     (case npp_IPBlock p of
        Some cidr \<Rightarrow> in_cidr cidr (ep_IP ep)
      | None \<Rightarrow>
          (case npp_NamespaceSelector p of None \<Rightarrow> ep_Namespace ep = policyNs | Some s \<Rightarrow> selects s (ep_NsLabels ep))
          \<and> (case npp_PodSelector p of None \<Rightarrow> True | Some s \<Rightarrow> selects s (ep_PodLabels ep)))"

definition port_matches :: "endpoint \<Rightarrow> Protocol \<Rightarrow> int \<Rightarrow> NetworkPolicyPort \<Rightarrow> bool" where
  "port_matches server proto port p \<longleftrightarrow>
     (case nport_Protocol p of None \<Rightarrow> proto = ProtocolTCP | Some pr \<Rightarrow> proto = pr)
     \<and> (case nport_Port p of None \<Rightarrow> True
        | Some v \<Rightarrow> if ios_Type v = IntKind then port = ios_IntVal v else ep_NamedPorts server (ios_StrVal v) proto = Some port)"

definition rule_matches :: "string \<Rightarrow> endpoint \<Rightarrow> endpoint \<Rightarrow> Protocol \<Rightarrow> int \<Rightarrow> NetworkPolicyPeer list \<Rightarrow> NetworkPolicyPort list \<Rightarrow> bool" where
  "rule_matches policyNs peer server proto port peers ports \<longleftrightarrow>
     (peers = [] \<or> list_ex (peer_matches policyNs peer) peers) \<and> (ports = [] \<or> list_ex (port_matches server proto port) ports)"

definition governs :: "NetworkPolicySpec k8s_object \<Rightarrow> endpoint \<Rightarrow> bool" where
  "governs np pod \<longleftrightarrow> ep_Namespace pod = om_Namespace (obj_Meta np) \<and> selects (nps_PodSelector (obj_Body np)) (ep_PodLabels pod)"

text \<open>Whether the policy lets \<open>src\<close> connect to the governed pod \<open>pod\<close>, and \<open>pod\<close> to \<open>dst\<close>.\<close>

definition accepts :: "NetworkPolicySpec k8s_object \<Rightarrow> endpoint \<Rightarrow> endpoint \<Rightarrow> Protocol \<Rightarrow> int \<Rightarrow> bool" where
  "accepts np pod src proto port \<longleftrightarrow>
     governs np pod \<and> PolicyTypeIngress \<in> set (nps_PolicyTypes (obj_Body np)) \<longrightarrow>
     list_ex (\<lambda>r. rule_matches (om_Namespace (obj_Meta np)) src pod proto port (nir_From r) (nir_Ports r)) (nps_Ingress (obj_Body np))"

definition may_reach :: "NetworkPolicySpec k8s_object \<Rightarrow> endpoint \<Rightarrow> endpoint \<Rightarrow> Protocol \<Rightarrow> int \<Rightarrow> bool" where
  "may_reach np pod dst proto port \<longleftrightarrow>
     governs np pod \<and> PolicyTypeEgress \<in> set (nps_PolicyTypes (obj_Body np)) \<longrightarrow>
     list_ex (\<lambda>r. rule_matches (om_Namespace (obj_Meta np)) dst dst proto port (ner_To r) (ner_Ports r)) (nps_Egress (obj_Body np))"

text \<open>Kubernetes labels every namespace with its name.\<close>

definition labelled :: "endpoint \<Rightarrow> bool" where
  "labelled ep \<longleftrightarrow> map_of (ep_NsLabels ep) metadata_name = Some (ep_Namespace ep)"

section \<open>Peers and ports\<close>

named_theorems policy_defs

lemma peer_same [policy_defs]: "peer_matches ns ep same_namespace_peer \<longleftrightarrow> ep_Namespace ep = ns"
  by (simp add: peer_matches_def same_namespace_peer_def selects_def any_selector_def)

lemma peer_in_namespace [policy_defs]: "labelled ep \<Longrightarrow> peer_matches ns ep (PeerInNamespace n) \<longleftrightarrow> ep_Namespace ep = n"
  by (simp add: peer_matches_def PeerInNamespace_def namespace_peer_def selects_def labelled_def)

lemma peer_in_namespaces [policy_defs]: "labelled ep \<Longrightarrow> peer_matches ns ep (PeerInNamespaces n) \<longleftrightarrow> ep_Namespace ep \<in> set n"
  by (simp add: peer_matches_def PeerInNamespaces_def namespace_peer_def selects_def labelled_def)

lemma peer_cidr [policy_defs]: "peer_matches ns ep (cidr_peer c) \<longleftrightarrow> in_cidr c (ep_IP ep)"
  by (simp add: peer_matches_def cidr_peer_def)

lemma port_number [policy_defs]: "port_matches s proto port (policy_port pr (FromInt p)) \<longleftrightarrow> proto = pr \<and> port = wrap32 p"
  by (simp add: port_matches_def policy_port_def FromInt_def)

lemma port_name [policy_defs]: "port_matches s proto port (policy_port pr (FromString n)) \<longleftrightarrow> proto = pr \<and> ep_NamedPorts s n pr = Some port"
  by (auto simp: port_matches_def policy_port_def FromString_def)

definition host_network :: "Vendor \<Rightarrow> endpoint \<Rightarrow> bool" where
  "host_network vendor ep \<longleftrightarrow>
     (if on_openshift vendor then map_of (ep_NsLabels ep) ''policy-group.network.openshift.io/host-network'' = Some []
      else map_of (ep_NsLabels ep) metadata_name = Some ''ovn-host-network'')"

lemma peer_ovn [policy_defs]: "peer_matches ns ep (ovnHostNetworkPeer v) \<longleftrightarrow> host_network v ep"
  by (simp add: peer_matches_def ovnHostNetworkPeer_def namespace_peer_def selects_def host_network_def)

text \<open>The namespace that scrapes metrics.\<close>

definition scraper_ns :: "Vendor \<Rightarrow> string \<Rightarrow> string" where
  "scraper_ns vendor ns =
     (case vendor of VendorOpenShift \<Rightarrow> ''openshift-user-workload-monitoring''
      | VendorOpenShiftDownstream \<Rightarrow> ''openshift-monitoring'' | VendorOther \<Rightarrow> ns)"

lemma scrape_matches [policy_defs]:
  "labelled src \<Longrightarrow> ports \<noteq> [] \<Longrightarrow>
     rule_matches ns src pod proto port (nir_From (AllowVendorPrometheusScrape v ports)) (nir_Ports (AllowVendorPrometheusScrape v ports))
     \<longleftrightarrow> ep_Namespace src = scraper_ns v ns \<and> proto = ProtocolTCP \<and> port \<in> wrap32 ` set ports"
  by (cases v) (auto simp: rule_matches_def AllowVendorPrometheusScrape_def scraper_ns_def list_ex_iff peer_same peer_in_namespace port_number)

section \<open>Ingress of the operands\<close>

definition agent_source :: "FlowCollectorSpec \<Rightarrow> 'v np_manager \<Rightarrow> endpoint \<Rightarrow> bool" where
  "agent_source spec mgr src \<longleftrightarrow>
     (if fst (GetCNI (npm_ClusterInfo mgr)) = OVNKubernetes then host_network (cfg_Vendor (npm_Config mgr)) src
      else ep_Namespace src = operands_ns spec mgr @ ''-privileged'')"

text \<open>The specification of what may connect to an operand.\<close>

definition ingress_spec :: "FlowCollectorSpec \<Rightarrow> 'v np_manager \<Rightarrow> endpoint \<Rightarrow> Protocol \<Rightarrow> int \<Rightarrow> bool" where
  "ingress_spec spec mgr src proto port \<longleftrightarrow>
     ep_Namespace src = operands_ns spec mgr
     \<or> ep_Namespace src \<in> set (np_AdditionalNamespaces (spec_NetworkPolicy spec))
     \<or> proto = ProtocolTCP \<and>
        (spec_DeploymentModel spec = DeploymentModelService \<and> agent_source spec mgr src
           \<and> port = wrap32 (the (apc_Port (GetAdvancedProcessorConfig (npm_defaults mgr) spec)))
         \<or> IsOpenShift (npm_ClusterInfo mgr) \<and> ep_Namespace src = scraper_ns (cfg_Vendor (npm_Config mgr)) (operands_ns spec mgr)
           \<and> port \<in> {wrap32 (GetMetricsPort_flp (spec_Processor spec)), 9002}
         \<or> IsOpenShift (npm_ClusterInfo mgr) \<and> UseWebConsole spec \<and> ep_Namespace src = ''openshift-console''
           \<and> port = wrap32 (the (aplug_Port (GetAdvancedPluginConfig (npm_defaults mgr) (cons_Advanced (spec_ConsolePlugin spec))))))"

lemma flows_matches:
  "labelled src \<Longrightarrow>
     rule_matches ns src pod proto port (nir_From (AllowHostNetworkFlows d (npm_ClusterInfo mgr) (cfg_Vendor (npm_Config mgr)) spec (operands_ns spec mgr @ ''-privileged'')))
        (nir_Ports (AllowHostNetworkFlows d (npm_ClusterInfo mgr) (cfg_Vendor (npm_Config mgr)) spec (operands_ns spec mgr @ ''-privileged'')))
     \<longleftrightarrow> agent_source spec mgr src \<and> proto = ProtocolTCP \<and> port = wrap32 (the (apc_Port (GetAdvancedProcessorConfig d spec)))"
  by (simp add: rule_matches_def AllowHostNetworkFlows_def agent_source_def policy_defs)

lemma console_matches:
  "labelled src \<Longrightarrow>
     rule_matches ns src pod proto port (nir_From (AllowFromOpenShiftConsole d c)) (nir_Ports (AllowFromOpenShiftConsole d c))
     \<longleftrightarrow> ep_Namespace src = ''openshift-console'' \<and> proto = ProtocolTCP \<and> port = wrap32 (the (aplug_Port (GetAdvancedPluginConfig d (cons_Advanced c))))"
  by (simp add: rule_matches_def AllowFromOpenShiftConsole_def policy_defs)

lemma same_ns_matches:
  "rule_matches ns src pod proto port (nir_From AllowFromSameNamespace) (nir_Ports AllowFromSameNamespace) \<longleftrightarrow> ep_Namespace src = ns"
  "rule_matches ns src pod proto port (ner_To AllowToSameNamespace) (ner_Ports AllowToSameNamespace) \<longleftrightarrow> ep_Namespace src = ns"
  by (simp_all add: rule_matches_def AllowFromSameNamespace_def AllowToSameNamespace_def policy_defs)

lemma namespaces_matches:
  "labelled src \<Longrightarrow> rule_matches ns src pod proto port [PeerInNamespaces extra] [] \<longleftrightarrow> ep_Namespace src \<in> set extra"
  by (simp add: rule_matches_def policy_defs)

lemma main_ingress_matches:
  assumes "labelled src"
  shows "list_ex (\<lambda>r. rule_matches (operands_ns spec mgr) src pod proto port (nir_From r) (nir_Ports r)) (main_ingress spec mgr)
    \<longleftrightarrow> ingress_spec spec mgr src proto port"
  using assms
  by (auto simp: main_ingress_def Let_def same_ns_matches flows_matches scrape_matches console_matches namespaces_matches ingress_spec_def wrap32_def)

lemma main_built:
  assumes "buildMainNetworkPolicy spec mgr = (name, Some np)"
  shows "om_Namespace (obj_Meta np) = operands_ns spec mgr" and "nps_Ingress (obj_Body np) = main_ingress spec mgr"
    and "nps_Egress (obj_Body np) = main_egress spec mgr" and "nps_PolicyTypes (obj_Body np) = [PolicyTypeIngress, PolicyTypeEgress]"
  using assms by (auto simp: buildMainNetworkPolicy_def policy_object_def Let_def split: if_splits)

text \<open>
  C31: The operands accept exactly the connections they need. When the main policy is installed, a pod it
  governs accepts a connection exactly from its own namespace, from the namespaces the user adds, and, over
  TCP only, from the agents to the processor port in the service model, from the monitoring namespace to the
  metrics ports on OpenShift, and from the OpenShift console to the plugin port when the console is used.
\<close>

theorem main_policy_ingress:
  assumes "buildMainNetworkPolicy spec mgr = (name, Some np)" and "governs np pod" and "labelled src"
  shows "accepts np pod src proto port \<longleftrightarrow> ingress_spec spec mgr src proto port"
  using assms(2,3) main_built[OF assms(1)] by (simp add: accepts_def main_ingress_matches)

section \<open>Egress of the operands\<close>

definition api_server_spec :: "'v np_manager \<Rightarrow> string \<Rightarrow> endpoint \<Rightarrow> int \<Rightarrow> bool" where
  "api_server_spec mgr ns dst port \<longleftrightarrow>
     (let (peer, apiPort) = api_server_peer (npm_getenv mgr) (cfg_Vendor (npm_Config mgr)); ci = npm_ClusterInfo mgr in
      (peer_matches ns dst peer \<or> (\<exists>ip \<in> set (apiServerIPs ci). IPToCIDR ip \<noteq> [] \<and> in_cidr (IPToCIDR ip) (ep_IP dst)))
      \<and> (port = wrap32 apiPort \<or> port \<in> wrap32 ` set (apiServerPorts ci)))"

definition egress_spec :: "FlowCollectorSpec \<Rightarrow> 'v np_manager \<Rightarrow> endpoint \<Rightarrow> Protocol \<Rightarrow> int \<Rightarrow> bool" where
  "egress_spec spec mgr dst proto port \<longleftrightarrow>
     (let vendor = cfg_Vendor (npm_Config mgr); ns = operands_ns spec mgr; lokiNs = lstk_Namespace (loki_LokiStack (spec_Loki spec)) in
      ep_Namespace dst = ns
      \<or> ep_Namespace dst \<in> set (np_AdditionalNamespaces (spec_NetworkPolicy spec))
      \<or> ep_Namespace dst = (if on_openshift vendor then ''openshift-dns'' else ''kube-system'')
         \<and> ep_NamedPorts dst (if proto = ProtocolUDP then ''dns'' else ''dns-tcp'') proto = Some port
      \<or> proto = ProtocolTCP \<and> api_server_spec mgr ns dst port
      \<or> proto = ProtocolTCP \<and> UseLoki spec \<and> loki_Mode (spec_Loki spec) = LokiModeLokiStack \<and> lokiNs \<noteq> [] \<and> lokiNs \<noteq> ns
         \<and> ep_Namespace dst = lokiNs \<and> port \<in> {8080, 3100}
      \<or> IsOpenShift (npm_ClusterInfo mgr) \<and> ep_Namespace dst = (if on_openshift vendor then ''openshift-monitoring'' else ns))"

lemma dns_matches:
  "labelled dst \<Longrightarrow>
     rule_matches ns dst dst proto port (ner_To (AllowDNS v)) (ner_Ports (AllowDNS v)) \<longleftrightarrow>
       ep_Namespace dst = (if on_openshift v then ''openshift-dns'' else ''kube-system'')
       \<and> ep_NamedPorts dst (if proto = ProtocolUDP then ''dns'' else ''dns-tcp'') proto = Some port"
  by (cases proto) (simp_all add: rule_matches_def AllowDNS_def policy_defs)

lemma api_server_matches:
  "rule_matches ns dst dst proto port (ner_To (AllowToAPIServer (npm_getenv mgr) (npm_ClusterInfo mgr) (cfg_Vendor (npm_Config mgr))))
       (ner_Ports (AllowToAPIServer (npm_getenv mgr) (npm_ClusterInfo mgr) (cfg_Vendor (npm_Config mgr))))
     \<longleftrightarrow> proto = ProtocolTCP \<and> api_server_spec mgr ns dst port"
proof -
  obtain peer p where "api_server_peer (npm_getenv mgr) (cfg_Vendor (npm_Config mgr)) = (peer, p)" by fastforce
  then show ?thesis
    by (auto simp: rule_matches_def AllowToAPIServer_def api_server_spec_def Let_def list_ex_iff policy_defs GetAPIServerIPs_def GetAPIServerPorts_def)
qed

lemma loki_matches:
  "labelled dst \<Longrightarrow> rule_matches ns dst dst proto port (ner_To (AllowToLokiStack spec)) (ner_Ports (AllowToLokiStack spec)) \<longleftrightarrow>
     ep_Namespace dst = lstk_Namespace (loki_LokiStack (spec_Loki spec)) \<and> proto = ProtocolTCP \<and> port \<in> {8080, 3100}"
  by (auto simp: rule_matches_def AllowToLokiStack_def policy_defs wrap32_def)

lemma query_matches:
  "labelled dst \<Longrightarrow> rule_matches ns dst dst proto port (ner_To (AllowPrometheusQuery v)) (ner_Ports (AllowPrometheusQuery v)) \<longleftrightarrow>
     ep_Namespace dst = (if on_openshift v then ''openshift-monitoring'' else ns)"
  by (simp add: rule_matches_def AllowPrometheusQuery_def policy_defs)

lemma main_egress_matches:
  assumes "labelled dst"
  shows "list_ex (\<lambda>r. rule_matches (operands_ns spec mgr) dst dst proto port (ner_To r) (ner_Ports r)) (main_egress spec mgr)
    \<longleftrightarrow> egress_spec spec mgr dst proto port"
  using assms
  by (simp add: main_egress_def Let_def same_ns_matches dns_matches api_server_matches loki_matches query_matches namespaces_matches egress_spec_def)
    (blast | auto)

text \<open>
  C32: The operands can reach exactly what they need. Under the main policy a governed pod can connect
  exactly to its own namespace, to the namespaces the user adds, to the DNS ports of the cluster's DNS, over
  TCP to the API server on its ports and, when a LokiStack of another namespace is used, to its two ports,
  and on OpenShift to the monitoring namespace.
\<close>

theorem main_policy_egress:
  assumes "buildMainNetworkPolicy spec mgr = (name, Some np)" and "governs np pod" and "labelled dst"
  shows "may_reach np pod dst proto port \<longleftrightarrow> egress_spec spec mgr dst proto port"
  using assms(2,3) main_built[OF assms(1)] by (simp add: may_reach_def main_egress_matches)

section \<open>The privileged namespace\<close>

text \<open>
  The privileged namespace is locked. When its policy is installed, every pod there, without exception,
  can open no connection, and accepts one only on OpenShift, over TCP, from the monitoring namespace, to the
  metrics port of the agents; and it is installed exactly when the main one is.
\<close>

theorem privileged_policy_locked:
  assumes "buildPrivilegedNetworkPolicy spec mgr = (name, Some np)" and "labelled src" and "ep_Namespace pod = operands_ns spec mgr @ ''-privileged''"
  shows "\<not> may_reach np pod dst proto port
    \<and> (accepts np pod src proto port \<longleftrightarrow> IsOpenShift (npm_ClusterInfo mgr) \<and> proto = ProtocolTCP
         \<and> ep_Namespace src = scraper_ns (cfg_Vendor (npm_Config mgr)) (operands_ns spec mgr @ ''-privileged'')
         \<and> port = wrap32 (GetMetricsPort_ebpf (agent_EBPF (spec_Agent spec))))
    \<and> snd (buildMainNetworkPolicy spec mgr) \<noteq> None"
proof -
  have np: "should_install spec mgr" "om_Namespace (obj_Meta np) = operands_ns spec mgr @ ''-privileged''" "nps_PodSelector (obj_Body np) = any_selector"
    "nps_Ingress (obj_Body np) = (if IsOpenShift (npm_ClusterInfo mgr) then [AllowVendorPrometheusScrape (cfg_Vendor (npm_Config mgr)) [GetMetricsPort_ebpf (agent_EBPF (spec_Agent spec))]] else [])"
    "nps_Egress (obj_Body np) = []" "nps_PolicyTypes (obj_Body np) = [PolicyTypeIngress, PolicyTypeEgress]"
    using assms(1) by (auto simp: buildPrivilegedNetworkPolicy_def policy_object_def Let_def split: if_splits)
  then have "governs np pod" using assms(3) by (simp add: governs_def selects_def any_selector_def)
  then show ?thesis using np assms(2)
    by (auto simp: may_reach_def accepts_def scrape_matches buildMainNetworkPolicy_def Let_def)
qed

section \<open>Witnesses\<close>

definition sample_cfg :: Config where
  "sample_cfg = \<lparr>cfg_DemoLokiImage = [], cfg_EBPFAgentImage = ''a'', cfg_FlowlogsPipelineImage = ''f'', cfg_WebConsoleImage = ''c'',
     cfg_WebConsolePF4Image = [], cfg_WebConsolePF5Image = [], cfg_EBPFByteCodeImage = [], cfg_Namespace = ''operator'',
     cfg_DefaultOperandsNamespace = [], cfg_Vendor = VendorOpenShift, cfg_DeployOperatorNetworkPolicy = Some True\<rparr>"

definition sample_mgr :: "nat np_manager" where
  "sample_mgr = \<lparr>npm_Config = sample_cfg,
     npm_ClusterInfo = zero_Info\<lparr>apisMap := Some (\<lambda>a. a = OCPSecurity), info_ready := True, cni := ''OVNKubernetes'', apiServerIPs := [''10.0.0.1'']\<rparr>,
     npm_getenv = (\<lambda>_. []), npm_defaults = sample_defaults\<rparr>"

definition pod_in :: "string \<Rightarrow> endpoint" where
  "pod_in ns = \<lparr>ep_Namespace = ns, ep_NsLabels = [(metadata_name, ns)], ep_PodLabels = [(''part-of'', ''netobserv-operator'')],
     ep_IP = ''10.1.2.3'', ep_NamedPorts = (\<lambda>_ _. None)\<rparr>"

lemma sample_policy_facts:
  "operands_ns zero_spec sample_mgr = ''netobserv''" "should_install zero_spec sample_mgr"
  "IsOpenShift (npm_ClusterInfo sample_mgr)" "cfg_Vendor (npm_Config sample_mgr) = VendorOpenShift" "labelled (pod_in ns)"
  by (simp_all add: operands_ns_def GetOperandsNamespace_def zero_spec_def sample_mgr_def sample_cfg_def should_install_def GetCNI_def
      network_type_def ShouldInstallNetworkPolicy_def IsOpenShift_def HasOCPSecurity_def has_api_def labelled_def pod_in_def)

definition sample_main_policy :: "NetworkPolicySpec k8s_object" where
  "sample_main_policy = the (snd (buildMainNetworkPolicy zero_spec sample_mgr))"

lemma sample_main: "buildMainNetworkPolicy zero_spec sample_mgr = ((''netobserv'', ''netobserv''), Some sample_main_policy)"
  by (simp add: sample_main_policy_def buildMainNetworkPolicy_def Let_def sample_policy_facts)

lemma sample_governed: "governs sample_main_policy (pod_in ''netobserv'')"
  by (simp add: sample_main_policy_def buildMainNetworkPolicy_def Let_def sample_policy_facts governs_def policy_object_def selects_def pod_in_def)

theorem main_policy_ingress_witness:
  "accepts sample_main_policy (pod_in ''netobserv'') (pod_in ''netobserv'') ProtocolTCP 80
   \<and> accepts sample_main_policy (pod_in ''netobserv'') (pod_in ''openshift-user-workload-monitoring'') ProtocolTCP 9002
   \<and> \<not> accepts sample_main_policy (pod_in ''netobserv'') (pod_in ''default'') ProtocolUDP 53"
  using main_policy_ingress[OF sample_main sample_governed sample_policy_facts(5)]
  by (simp add: ingress_spec_def sample_policy_facts scraper_ns_def) (simp add: pod_in_def zero_spec_def)

theorem main_policy_egress_witness:
  "may_reach sample_main_policy (pod_in ''netobserv'') (pod_in ''openshift-monitoring'') ProtocolTCP 9091
   \<and> \<not> may_reach sample_main_policy (pod_in ''netobserv'') (pod_in ''default'') ProtocolUDP 53"
  using main_policy_egress[OF sample_main sample_governed sample_policy_facts(5)]
  by (simp add: egress_spec_def Let_def sample_policy_facts on_openshift_def) (simp add: pod_in_def zero_spec_def)

theorem privileged_policy_locked_witness:
  "\<not> may_reach (the (snd (buildPrivilegedNetworkPolicy zero_spec sample_mgr))) (pod_in ''netobserv-privileged'') (pod_in ''default'') ProtocolTCP 443"
proof -
  have "buildPrivilegedNetworkPolicy zero_spec sample_mgr
      = (fst (buildPrivilegedNetworkPolicy zero_spec sample_mgr), Some (the (snd (buildPrivilegedNetworkPolicy zero_spec sample_mgr))))"
    by (simp add: buildPrivilegedNetworkPolicy_def Let_def sample_policy_facts)
  from privileged_policy_locked[OF this sample_policy_facts(5), of "pod_in ''netobserv-privileged''" "pod_in ''default''" ProtocolTCP 443 "''default''"]
  show ?thesis by (simp add: sample_policy_facts) (simp add: pod_in_def)
qed

section \<open>Addresses given to a policy\<close>

lemma v4_loop_chars: "v4_loop f p v d fs s = Some r \<Longrightarrow> CHR ''/'' \<notin> set s"
  by (induction s arbitrary: f p v d fs) (auto simp: digit_val_def split: option.splits if_splits)

lemma hex_group_split: "hex_group off acc s = Some (off', acc', rest) \<Longrightarrow> \<exists>pre. s = pre @ rest \<and> CHR ''/'' \<notin> set pre"
proof (induction s arbitrary: off acc)
  case (Cons c cs)
  show ?case
  proof (cases "hex_val c")
    case None
    then show ?thesis using Cons.prems by auto
  next
    case (Some d)
    then have "hex_group (off + 1) (acc * 16 + d) cs = Some (off', acc', rest)" using Cons.prems by (auto split: if_splits)
    from Cons.IH[OF this] obtain pre where "cs = pre @ rest" "CHR ''/'' \<notin> set pre" by blast
    moreover have "c \<noteq> CHR ''/''" using Some by (auto simp: hex_val_def)
    ultimately show ?thesis by (intro exI[of _ "c # pre"]) simp
  qed
qed auto

lemma v6_loop_ok:
  "v6_loop ell ip s = Some (ell', ip', []) \<Longrightarrow> even (length ip) \<Longrightarrow> length ip \<le> 16 \<Longrightarrow> CHR ''/'' \<notin> set s \<and> length ip' \<le> 16"
proof (induction ell ip s rule: v6_loop.induct)
  case (1 ell ip s)
  show ?case
  proof (cases "16 \<le> length ip")
    case True
    then show ?thesis using "1.prems" by (subst (asm) v6_loop.simps) auto
  next
    case False
    have l: "length ip + 2 \<le> 16" using False "1.prems"(2) by presburger
    obtain off acc rest where g: "hex_group 0 0 s = Some (off, acc, rest)" and "off \<noteq> 0"
      using "1.prems"(1) False by (subst (asm) v6_loop.simps) (auto split: option.splits if_splits)
    obtain pre where pre: "s = pre @ rest" "CHR ''/'' \<notin> set pre" using hex_group_split[OF g] by blast
    show ?thesis
    proof (cases "has_prefix rest ''.''")
      case True
      then obtain f where "parse_v4 s = Some f" "ip' = ip @ f" "length ip + 4 \<le> 16"
        using "1.prems"(1) False g \<open>off \<noteq> 0\<close> by (subst (asm) v6_loop.simps) (auto split: option.splits if_splits)
      then show ?thesis using parse_v4_length v4_loop_chars by (fastforce simp: parse_v4_def)
    next
      case nodot: False
      show ?thesis
      proof (cases rest)
        case Nil
        then show ?thesis using "1.prems" False g \<open>off \<noteq> 0\<close> nodot pre l by (subst (asm) v6_loop.simps) auto
      next
        case (Cons c r)
        note unf = "1.prems"(1)[unfolded v6_loop.simps[of ell ip s]]
        have c: "c = CHR '':''" "r \<noteq> []"
          using unf False g \<open>off \<noteq> 0\<close> nodot Cons by (auto simp: Let_def split: if_splits)
        show ?thesis
        proof (cases "hd r = CHR '':''")
          case True
          then obtain r' where r: "r = CHR '':'' # r'" using c(2) by (cases r) auto
          have e: "ell = None" using unf False g \<open>off \<noteq> 0\<close> nodot Cons c True r by (auto simp: Let_def split: if_splits)
          show ?thesis
          proof (cases "r' = []")
            case end': True
            then have "ip' = ip @ [acc div 256, acc mod 256]"
              using unf False g \<open>off \<noteq> 0\<close> nodot Cons c True e r by (auto simp: Let_def split: if_splits)
            then show ?thesis using l pre Cons c r end' by simp
          next
            case more: False
            have "v6_loop (Some (length (ip @ [acc div 256, acc mod 256]))) (ip @ [acc div 256, acc mod 256]) r' = Some (ell', ip', [])"
              using unf False g \<open>off \<noteq> 0\<close> nodot Cons c True e r more by (auto simp: Let_def split: if_splits)
            then have "CHR ''/'' \<notin> set r' \<and> length ip' \<le> 16"
              using "1.IH"(1)[OF False g _ _ _ nodot _ Cons] \<open>off \<noteq> 0\<close> c True e r more l "1.prems"(2) by auto
            then show ?thesis using pre Cons c r by simp
          qed
        next
          case step: False
          have "v6_loop ell (ip @ [acc div 256, acc mod 256]) r = Some (ell', ip', [])"
            using unf False g \<open>off \<noteq> 0\<close> nodot Cons c step by (auto simp: Let_def split: if_splits)
          then have "CHR ''/'' \<notin> set r \<and> length ip' \<le> 16"
            using "1.IH"(2)[OF False g _ _ _ nodot _ Cons] \<open>off \<noteq> 0\<close> c step l "1.prems"(2) by auto
          then show ?thesis using pre Cons c by simp
        qed
      qed
    qed
  qed
qed

lemma v6_tail_ok:
  assumes "Option.bind (v6_loop ell [] s) v6_finish = Some ip"
  shows "CHR ''/'' \<notin> set s \<and> length ip = 16"
proof -
  obtain e b r where v: "v6_loop ell [] s = Some (e, b, r)" and f: "v6_finish (e, b, r) = Some ip"
    using assms by (cases "v6_loop ell [] s") auto
  have "r = []" using f by (auto simp: v6_finish_def split: if_splits)
  then show ?thesis using v6_loop_ok[of ell "[]" s e b] v f v6_finish_length by simp
qed

lemma parse_v6_ok:
  assumes "parse_v6 s = Some (ip, [])"
  shows "CHR ''/'' \<notin> set s \<and> length ip = 16"
proof -
  have nz: "CHR ''%'' \<notin> set s"
    using assms by (auto simp: parse_v6_def Let_def split: if_splits)
  then have t: "takeWhile (\<lambda>c. c \<noteq> CHR ''%'') s = s" by (intro takeWhile_eq_all_conv[THEN iffD2]) auto
  show ?thesis
  proof (cases "has_prefix s ''::''")
    case True
    then obtain r where r: "s = CHR '':'' # CHR '':'' # r" by (cases s; cases "tl s") (auto simp: has_prefix_def)
    have "parse_v6 s = (if r = [] then Some (replicate 16 0, []) else map_option (\<lambda>ip. (ip, [])) (Option.bind (v6_loop (Some 0) [] r) v6_finish))"
      unfolding parse_v6_def t Let_def using nz True by (simp add: r)
    then show ?thesis using assms v6_tail_ok[of "Some 0" r ip] r by (cases "r = []") auto
  next
    case False
    then have "parse_v6 s = map_option (\<lambda>ip. (ip, [])) (Option.bind (v6_loop None [] s) v6_finish)"
      unfolding parse_v6_def t Let_def using nz by simp
    then show ?thesis using assms v6_tail_ok[of None s ip] by (cases "Option.bind (v6_loop None [] s) v6_finish") auto
  qed
qed

lemma ParseIP_ok:
  assumes "ParseIP s = Some ip"
  shows "CHR ''/'' \<notin> set s \<and> (length ip = 4 \<or> length ip = 16) \<and> netip_ParseAddr s = Some (ip, [])"
proof -
  have a: "netip_ParseAddr s = Some (ip, [])" using assms by (auto simp: ParseIP_def split: option.splits prod.splits if_splits)
  consider "parse_v4 s = Some ip" | "parse_v6 s = Some (ip, [])"
    using a by (auto simp: netip_ParseAddr_def split: option.splits if_splits)
  then show ?thesis
  proof cases
    case 1
    then show ?thesis using a parse_v4_length v4_loop_chars by (auto simp: parse_v4_def)
  next
    case 2
    then show ?thesis using a parse_v6_ok by blast
  qed
qed

lemma mask_all: "8 * length bs \<le> n \<Longrightarrow> mask_bytes n bs = bs"
  by (induction n bs rule: mask_bytes.induct) auto

lemma cut_at: "c \<notin> set s \<Longrightarrow> takeWhile (\<lambda>x. x \<noteq> c) (s @ c # d) = s" "c \<notin> set s \<Longrightarrow> dropWhile (\<lambda>x. x \<noteq> c) (s @ c # d) = c # d"
  by (induction s) auto

lemma ParseCIDR_host:
  assumes "ParseIP s = Some ip" and "dtoi_all d = Some n" and "n = 8 * length ip"
  shows "ParseCIDR (s @ CHR ''/'' # d) = Some \<lparr>net_IP = ip, net_Ones = n, net_Bits = 8 * length ip\<rparr>"
  using ParseIP_ok[OF assms(1)] assms(2,3) by (simp add: ParseCIDR_def cut_at mask_all)

definition canonical :: "nat list \<Rightarrow> nat list" where
  "canonical ip = (case To4 ip of Some x \<Rightarrow> x | None \<Rightarrow> ip)"

lemma contains_host:
  assumes "length ip = 4 \<or> (length ip = 16 \<and> To4 ip = None)"
  shows "net_Contains \<lparr>net_IP = ip, net_Ones = 8 * length ip, net_Bits = 8 * length ip\<rparr> a \<longleftrightarrow> canonical a = ip"
proof -
  have n: "network_number \<lparr>net_IP = ip, net_Ones = 8 * length ip, net_Bits = 8 * length ip\<rparr> = Some (ip, 8 * length ip)"
    using assms by (auto simp: network_number_def To4_def)
  have "length b = length ip \<Longrightarrow> mask_bytes (8 * length ip) b = b" for b :: "nat list" by (simp add: mask_all)
  then show ?thesis by (auto simp: net_Contains_def n canonical_def Let_def mask_all)
qed

text \<open>
  An address given to a policy admits that address only, unless it is an IPv4 address written in IPv6
  notation.
\<close>

theorem ip_cidr_exact:
  assumes "ParseIP s = Some ip" and "length ip = 4 \<or> To4 ip = None"
  shows "in_cidr (IPToCIDR s) t \<longleftrightarrow> (\<exists>a. ParseIP t = Some a \<and> canonical a = ip)"
proof (cases "length ip = 4")
  case True
  then have c: "IPToCIDR s = s @ CHR ''/'' # ''32''" using assms(1) by (simp add: IPToCIDR_def To4_def)
  have "ParseCIDR (IPToCIDR s) = Some \<lparr>net_IP = ip, net_Ones = 8 * length ip, net_Bits = 8 * length ip\<rparr>"
    unfolding c by (rule ParseCIDR_host[OF assms(1)]) (simp_all add: True dtoi_all_def digit_val_def)
  then show ?thesis using contains_host[of ip] True by (auto simp: in_cidr_def split: option.split)
next
  case False
  then have l: "length ip = 16" "To4 ip = None" using ParseIP_ok[OF assms(1)] assms(2) by auto
  then have c: "IPToCIDR s = s @ CHR ''/'' # ''128''" using assms(1) by (simp add: IPToCIDR_def)
  have "ParseCIDR (IPToCIDR s) = Some \<lparr>net_IP = ip, net_Ones = 8 * length ip, net_Bits = 8 * length ip\<rparr>"
    unfolding c by (rule ParseCIDR_host[OF assms(1)]) (simp_all add: l dtoi_all_def digit_val_def)
  then show ?thesis using contains_host[of ip] l by (auto simp: in_cidr_def split: option.split)
qed

text \<open>
  Written in IPv6 notation, an IPv4 address gets the prefix length 32, which in that notation is a network
  of 2 to the power 96 addresses.
\<close>

lemma zeros: "replicate 10 (0::nat) = [0, 0, 0, 0, 0, 0, 0, 0, 0, 0]" "replicate 14 (0::nat) = [0, 0, 0, 0, 0, 0, 0, 0, 0, 0, 0, 0, 0, 0]"
  by (simp_all add: numeral_eq_Suc)

lemma mapped_addresses:
  "netip_ParseAddr ''::ffff:10.0.0.1'' = Some ([0, 0, 0, 0, 0, 0, 0, 0, 0, 0, 255, 255, 10, 0, 0, 1], [])"
  "netip_ParseAddr ''::1'' = Some ([0, 0, 0, 0, 0, 0, 0, 0, 0, 0, 0, 0, 0, 0, 0, 1], [])"
  by (simp_all add: netip_ParseAddr_def parse_v6_def has_prefix_def hex_val_def v6_finish_def parse_v4_def digit_val_def zeros
      v6_loop.simps[of "Some 0" "[]" "''ffff:10.0.0.1''"] v6_loop.simps[of "Some 0" "[255, 255]" "''10.0.0.1''"] v6_loop.simps[of "Some 0" "[]" "''1''"])

theorem mapped_ip_cidr_too_wide:
  "IPToCIDR ''::ffff:10.0.0.1'' = ''::ffff:10.0.0.1/32'' \<and> in_cidr (IPToCIDR ''::ffff:10.0.0.1'') ''::1''"
  by (simp add: IPToCIDR_def ParseIP_def mapped_addresses To4_def zeros in_cidr_def ParseCIDR_def dtoi_all_def digit_val_def net_Contains_def network_number_def)

section \<open>Reconciliation\<close>

text \<open>One policy: its slot ends up as desired, owned and stable, and the other slots are not touched.\<close>

lemma ReconcileNetworkPolicy_store:
  assumes own: "sets_owner_only own" and wk: "well_keyed st" and "ours st name"
    and key: "\<And>d. desired = Some d \<Longrightarrow> key_of d = name" and lab: "\<And>d. desired = Some d \<Longrightarrow> labels_of d = []"
  obtains st' where "ReconcileNetworkPolicyWithEnqueuer None (store_client own) name wo desired st = (None, st')"
    and "well_keyed st'" and "ours st' name" and "map_option obj_Body (st' name) = map_option obj_Body desired"
    and "\<And>k. k \<noteq> name \<Longrightarrow> st' k = st k"
proof -
  let ?r = "ReconcileNetworkPolicyWithEnqueuer None (store_client own) name wo desired st"
  note defs = ReconcileNetworkPolicyWithEnqueuer_def enqueue_def store_client_def
  show ?thesis
  proof (cases desired)
    case None
    show ?thesis
    proof (cases "st name")
      case absent: None
      then show ?thesis using that[of st] None wk assms(3) by (simp add: defs)
    next
      case (Some x)
      then have "key_of x = name" "IsOwned x" using wk assms(3) by (blast dest: well_keyedD oursD)+
      then show ?thesis using that[of "st(name := None)"] None Some wk
        by (simp add: defs lift_error_def well_keyed_def ours_def)
    qed
  next
    case d: (Some d)
    have kd: "key_of d = name" and ld: "labels_of d = []" using key lab d by auto
    show ?thesis
    proof (cases "st name")
      case None
      let ?x = "AddManagedLabel (own d)"
      have "?r = (None, st(name \<mapsto> ?x))"
        using None d kd own by (simp add: defs CreateOwned_def lift_error_def managed_facts own_facts)
      then show ?thesis using that[of "st(name \<mapsto> ?x)"] d kd own wk by (simp add: well_keyed_def ours_def managed_facts own_facts)
    next
      case (Some x)
      then have x: "key_of x = name" "IsOwned x" using wk assms(3) by (blast dest: well_keyedD oursD)+
      let ?d = "d\<lparr>obj_Meta := (obj_Meta d)\<lparr>om_ResourceVersion := om_ResourceVersion (obj_Meta x)\<rparr>\<rparr>" let ?y = "AddManagedLabel (own ?d)"
      have ky: "key_of ?y = name" "obj_Body ?y = obj_Body d" using kd own by (simp_all add: managed_facts own_facts)
      show ?thesis
      proof (cases "obj_Body x = obj_Body d")
        case True
        then have "?r = (None, st)" using Some d ld by (simp add: defs)
        then show ?thesis using that[of st] Some d x True wk by (simp add: ours_def)
      next
        case False
        then have "?r = (None, st(name \<mapsto> ?y))"
          using Some d ld x ky by (simp add: defs UpdateIfOwned_def UpdateOwned_def Let_def)
        then show ?thesis using that[of "st(name \<mapsto> ?y)"] d ky wk by (simp add: well_keyed_def ours_def)
      qed
    qed
  qed
qed

lemma built_keys:
  "buildMainNetworkPolicy spec mgr = (name, Some d) \<Longrightarrow> key_of d = name \<and> labels_of d = []"
  "buildPrivilegedNetworkPolicy spec mgr = (name, Some d) \<Longrightarrow> key_of d = name \<and> labels_of d = []"
  by (auto simp: buildMainNetworkPolicy_def buildPrivilegedNetworkPolicy_def policy_object_def key_of_def labels_of_def Let_def split: if_splits)

lemma built_together: "snd (buildPrivilegedNetworkPolicy spec mgr) = None \<longleftrightarrow> snd (buildMainNetworkPolicy spec mgr) = None"
  by (simp add: buildMainNetworkPolicy_def buildPrivilegedNetworkPolicy_def Let_def)

definition policy_slots :: "FlowCollectorSpec \<Rightarrow> 'v np_manager \<Rightarrow> obj_key list" where
  "policy_slots spec mgr = [fst (buildMainNetworkPolicy spec mgr), fst (buildPrivilegedNetworkPolicy spec mgr)]"

definition policies_in_place :: "FlowCollectorSpec \<Rightarrow> 'v np_manager \<Rightarrow> NetworkPolicySpec store \<Rightarrow> bool" where
  "policies_in_place spec mgr st \<longleftrightarrow>
     map_option obj_Body (st (fst (buildMainNetworkPolicy spec mgr))) = map_option obj_Body (snd (buildMainNetworkPolicy spec mgr))
     \<and> map_option obj_Body (st (fst (buildPrivilegedNetworkPolicy spec mgr))) = map_option obj_Body (snd (buildPrivilegedNetworkPolicy spec mgr))"

lemma slots_distinct: "fst (buildMainNetworkPolicy spec mgr) \<noteq> fst (buildPrivilegedNetworkPolicy spec mgr)"
  by (simp add: buildMainNetworkPolicy_def buildPrivilegedNetworkPolicy_def Let_def)

text \<open>A policy that is in place is not written again.\<close>

lemma ReconcileNetworkPolicy_stable:
  assumes "map_option obj_Body (st name) = map_option obj_Body desired" and "\<And>d. desired = Some d \<Longrightarrow> labels_of d = []"
  shows "ReconcileNetworkPolicyWithEnqueuer None (store_client own) name wo desired st = (None, st)"
  using assms by (cases desired; cases "st name") (auto simp: ReconcileNetworkPolicyWithEnqueuer_def enqueue_def store_client_def)

lemma np_reconcile_stable:
  assumes "policies_in_place spec mgr st"
  shows "np_reconcile None (store_client own) mgr ph spec st = (Inr (snd (buildMainNetworkPolicy spec mgr) \<noteq> None), st)"
proof -
  obtain n d where m: "buildMainNetworkPolicy spec mgr = (n, d)" by fastforce
  obtain pn pd where p: "buildPrivilegedNetworkPolicy spec mgr = (pn, pd)" by fastforce
  have "ReconcileNetworkPolicyWithEnqueuer None (store_client own) n (ph n) d st = (None, st)"
    by (rule ReconcileNetworkPolicy_stable) (use assms m built_keys(1)[of spec mgr n] in \<open>auto simp: policies_in_place_def\<close>)
  moreover have "ReconcileNetworkPolicyWithEnqueuer None (store_client own) pn (ph pn) pd st = (None, st)"
    by (rule ReconcileNetworkPolicy_stable) (use assms p built_keys(2)[of spec mgr pn] in \<open>auto simp: policies_in_place_def\<close>)
  ultimately show ?thesis by (simp add: np_reconcile_def m p)
qed



end
