(* ===== verification/Volumes.thy ===== *)
theory Volumes
  imports FC_Types
begin

text \<open>
  \<open>internal/pkg/volumes/builder.go\<close>: the volumes and mounts that a pod needs for the certificates, files
  and tokens its configuration mentions. The builder is the list it grows; a method returns its result and
  the new list.
\<close>

section \<open>The builder\<close>

datatype VolumeSource = ConfigMapVolume string | SecretVolume string | ProjectedToken string

record VolumeInfo =
  vi_VolumeName :: string
  vi_Source :: VolumeSource
  vi_MountName :: string
  vi_MountPath :: string
  vi_ReadOnly :: bool

type_synonym Builder = "VolumeInfo list"

definition TokensPath :: string where "TokensPath = ''/var/run/secrets/tokens/''"

definition buildVolumeAndMount :: "MountableType \<Rightarrow> string \<Rightarrow> string \<Rightarrow> VolumeInfo" where
  "buildVolumeAndMount refType refName volumeName =
     \<lparr>vi_VolumeName = volumeName,
      vi_Source = (if refType = RefTypeConfigMap then ConfigMapVolume refName else SecretVolume refName),
      vi_MountName = volumeName, vi_MountPath = ''/var/'' @ volumeName, vi_ReadOnly = True\<rparr>"

fun insertOrReplace :: "VolumeInfo \<Rightarrow> Builder \<Rightarrow> Builder" where
  "insertOrReplace v [] = [v]"
| "insertOrReplace v (x # xs) =
     (if vi_VolumeName x = vi_VolumeName v \<or> vi_MountName x = vi_MountName v then v # xs else x # insertOrReplace v xs)"

definition AddCertificate :: "CertificateReference option \<Rightarrow> string \<Rightarrow> Builder \<Rightarrow> (string \<times> string) \<times> Builder" where
  "AddCertificate ref volumeName b =
     (case ref of
        None \<Rightarrow> (([], []), b)
      | Some r \<Rightarrow>
          if cref_Name r \<noteq> [] then
            ((''/var/'' @ volumeName @ ''/'' @ cref_CertFile r, ''/var/'' @ volumeName @ ''/'' @ cref_CertKey r),
             insertOrReplace (buildVolumeAndMount (cref_Type r) (cref_Name r) volumeName) b)
          else (([], []), b))"

definition AddCACertificate :: "ClientTLS \<Rightarrow> string \<Rightarrow> Builder \<Rightarrow> string \<times> Builder" where
  "AddCACertificate config namePrefix b =
     (if cref_Name (ctls_CACert config) \<noteq> [] then
        (case AddCertificate (Some (ctls_CACert config)) (namePrefix @ ''-ca'') b of ((ca, _), b') \<Rightarrow> (ca, b'))
      else ([], b))"

definition AddMutualTLSCertificates :: "ClientTLS \<Rightarrow> string \<Rightarrow> Builder \<Rightarrow> (string \<times> string \<times> string) \<times> Builder" where
  "AddMutualTLSCertificates config namePrefix b =
     (case AddCACertificate config namePrefix b of (caPath, b1) \<Rightarrow>
        if cref_Name (ctls_UserCert config) \<noteq> [] then
          (case AddCertificate (Some (ctls_UserCert config)) (namePrefix @ ''-user'') b1 of
             ((certPath, keyPath), b2) \<Rightarrow> ((caPath, certPath, keyPath), b2))
        else ((caPath, [], []), b1))"

text \<open>
  \<open>path.Join\<close> of elements that start with a rooted one: the elements that are not empty are joined and
  cleaned, so that empty and dot components disappear and a double dot removes the one before it.
\<close>

fun clean_components :: "string list \<Rightarrow> string list \<Rightarrow> string list" where
  "clean_components acc [] = rev acc"
| "clean_components acc (c # cs) =
     (if c = [] \<or> c = ''.'' then clean_components acc cs
      else if c = ''..'' then clean_components (tl acc) cs
      else clean_components (c # acc) cs)"

definition rooted_join :: "string list \<Rightarrow> string" where
  "rooted_join elems =
     ''/'' @ str_join ''/'' (clean_components [] (split_on CHR ''/'' (str_join ''/'' (filter (\<lambda>e. e \<noteq> []) elems))))"

definition AddVolume :: "FileReference \<Rightarrow> string \<Rightarrow> Builder \<Rightarrow> string \<times> Builder" where
  "AddVolume config volumeName b =
     (rooted_join [''/var'', volumeName, fref_File config],
      insertOrReplace (buildVolumeAndMount (fref_Type config) (fref_Name config) volumeName) b)"

definition AddToken :: "string \<Rightarrow> Builder \<Rightarrow> string \<times> Builder" where
  "AddToken name b =
     (TokensPath @ name,
      if list_ex (\<lambda>v. vi_VolumeName v = name) b then b
      else b @ [\<lparr>vi_VolumeName = name, vi_Source = ProjectedToken name, vi_MountName = name, vi_MountPath = TokensPath, vi_ReadOnly = False\<rparr>])"

definition GetVolumes :: "Builder \<Rightarrow> (string \<times> VolumeSource) list" where
  "GetVolumes b = map (\<lambda>v. (vi_VolumeName v, vi_Source v)) b"

definition GetMounts :: "Builder \<Rightarrow> (string \<times> string \<times> bool) list" where
  "GetMounts b = map (\<lambda>v. (vi_MountName v, vi_MountPath v, vi_ReadOnly v)) b"

definition AppendVolumes :: "(string \<times> VolumeSource) list \<Rightarrow> Builder \<Rightarrow> (string \<times> VolumeSource) list" where
  "AppendVolumes existing b = existing @ GetVolumes b"

definition AppendMounts :: "(string \<times> string \<times> bool) list \<Rightarrow> Builder \<Rightarrow> (string \<times> string \<times> bool) list" where
  "AppendMounts existing b = existing @ GetMounts b"

section \<open>Well-formed builders\<close>

text \<open>Every mount is of the volume beside it, and no two volumes share a name.\<close>

definition builder_wf :: "Builder \<Rightarrow> bool" where
  "builder_wf b \<longleftrightarrow> distinct (map vi_VolumeName b) \<and> list_all (\<lambda>v. vi_MountName v = vi_VolumeName v) b"

definition names :: "Builder \<Rightarrow> string set" where
  "names b = set (map vi_VolumeName b)"

text \<open>A reference is mounted when the volume of the given name has the given source and mount path.\<close>

definition mounted :: "Builder \<Rightarrow> string \<Rightarrow> VolumeSource \<Rightarrow> string \<Rightarrow> bool" where
  "mounted b name src path \<longleftrightarrow> (\<exists>v \<in> set b. vi_VolumeName v = name \<and> vi_Source v = src \<and> vi_MountPath v = path)"

lemma wf_Nil [simp]: "builder_wf []"
  by (simp add: builder_wf_def)

lemma insert_names: "builder_wf b \<Longrightarrow> vi_MountName v = vi_VolumeName v \<Longrightarrow> names (insertOrReplace v b) = insert (vi_VolumeName v) (names b)"
  by (induction b) (auto simp: names_def builder_wf_def)

lemma wf_Cons: "builder_wf (x # b) \<longleftrightarrow> vi_MountName x = vi_VolumeName x \<and> vi_VolumeName x \<notin> names b \<and> builder_wf b"
  by (auto simp: builder_wf_def names_def)

lemma insert_wf: "builder_wf b \<Longrightarrow> vi_MountName v = vi_VolumeName v \<Longrightarrow> builder_wf (insertOrReplace v b)"
proof (induction b)
  case (Cons x b)
  then show ?case using insert_names[of b v] by (auto simp: wf_Cons)
qed (simp add: builder_wf_def)

lemma insert_mem: "v \<in> set (insertOrReplace v b)"
  by (induction b) auto

lemma insert_keeps: "builder_wf b \<Longrightarrow> x \<in> set b \<Longrightarrow> vi_VolumeName x \<noteq> vi_VolumeName v \<Longrightarrow> vi_MountName v = vi_VolumeName v \<Longrightarrow> x \<in> set (insertOrReplace v b)"
  by (induction b) (auto simp: wf_Cons)

lemma mounted_insert:
  "mounted (insertOrReplace v b) (vi_VolumeName v) (vi_Source v) (vi_MountPath v)"
  using insert_mem[of v b] by (auto simp: mounted_def)

lemma mounted_keeps:
  "builder_wf b \<Longrightarrow> mounted b n s p \<Longrightarrow> n \<noteq> vi_VolumeName v \<Longrightarrow> vi_MountName v = vi_VolumeName v \<Longrightarrow> mounted (insertOrReplace v b) n s p"
  using insert_keeps[of b _ v] by (fastforce simp: mounted_def)

lemma built_simps [simp]:
  "vi_MountName (buildVolumeAndMount t r n) = n" "vi_VolumeName (buildVolumeAndMount t r n) = n" "vi_MountPath (buildVolumeAndMount t r n) = ''/var/'' @ n"
  by (simp_all add: buildVolumeAndMount_def)

text \<open>
  The operations of the volume builder keep it well formed: whatever is added in whatever order, no two
  volumes of a pod share a name (which Kubernetes would refuse), every mount is of a volume of the list, and
  a volume of another name is never lost.
\<close>

theorem builder_invariant:
  assumes "builder_wf b"
  shows "builder_wf (snd (AddCertificate ref n b)) \<and> builder_wf (snd (AddCACertificate tls n b)) \<and> builder_wf (snd (AddMutualTLSCertificates tls n b))
    \<and> builder_wf (snd (AddVolume f n b)) \<and> builder_wf (snd (AddToken n b))
    \<and> names b \<subseteq> names (snd (AddMutualTLSCertificates tls n b)) \<and> names b \<subseteq> names (snd (AddVolume f n b)) \<and> names b \<subseteq> names (snd (AddToken n b))"
proof -
  have cert: "builder_wf (snd (AddCertificate r m c)) \<and> names c \<subseteq> names (snd (AddCertificate r m c))" if "builder_wf c" for r m c
    using that insert_wf[of c] insert_names[of c] by (auto simp: AddCertificate_def split: option.split)
  have ca: "builder_wf (snd (AddCACertificate tls n b)) \<and> names b \<subseteq> names (snd (AddCACertificate tls n b))"
    using cert[OF assms, of "Some (ctls_CACert tls)" "n @ ''-ca''"] assms by (auto simp: AddCACertificate_def split: prod.split)
  have mutual: "builder_wf (snd (AddMutualTLSCertificates tls n b)) \<and> names b \<subseteq> names (snd (AddMutualTLSCertificates tls n b))"
    using ca cert[of "snd (AddCACertificate tls n b)" "Some (ctls_UserCert tls)" "n @ ''-user''"]
    by (auto simp: AddMutualTLSCertificates_def split: prod.split)
  have vol: "builder_wf (snd (AddVolume f n b)) \<and> names b \<subseteq> names (snd (AddVolume f n b))"
    using insert_wf[OF assms] insert_names[OF assms] by (auto simp: AddVolume_def)
  have tok: "builder_wf (snd (AddToken n b)) \<and> names b \<subseteq> names (snd (AddToken n b))"
    using assms by (auto simp: AddToken_def builder_wf_def names_def list_ex_iff)
  show ?thesis using cert[OF assms] ca mutual vol tok by blast
qed

theorem builder_invariant_witness:
  "builder_wf (snd (AddToken ''flp'' [buildVolumeAndMount RefTypeSecret ''s'' ''kafka-ca'']))"
  using builder_invariant[of "[buildVolumeAndMount RefTypeSecret ''s'' ''kafka-ca'']"] by (simp add: builder_wf_def)

end
