(* ===== verification/Loki_Config.thy ===== *)
theory Loki_Config
  imports FC_Helper
begin

text \<open>
  \<open>internal/pkg/helper/loki_config.go\<close> and \<open>helper/loki/labels.go\<close>: the connection to Loki, resolved from
  the four modes of the specification, and the stream labels. The labels are those of the embedded file
  \<open>loki-labels.json\<close>.
\<close>

definition zero_cert :: CertificateReference where
  "zero_cert = \<lparr>cref_Type = RefTypeUnset, cref_Name = [], cref_Namespace = [], cref_CertFile = [], cref_CertKey = []\<rparr>"

definition zero_tls :: ClientTLS where
  "zero_tls = \<lparr>ctls_Enable = False, ctls_InsecureSkipVerify = False, ctls_CACert = zero_cert, ctls_UserCert = zero_cert\<rparr>"

definition lokistack_params :: "LokiStackRef \<Rightarrow> string \<Rightarrow> LokiManualParams" where
  "lokistack_params ls namespace =
     (let ns = (if lstk_Namespace ls \<noteq> [] then lstk_Namespace ls else namespace);
          gatewayURL = ''https://'' @ lstk_Name ls @ ''-gateway-http.'' @ ns @ ''.svc.cluster.local.:8080/api/logs/v1/network/''
      in \<lparr>lman_IngesterURL = gatewayURL, lman_QuerierURL = gatewayURL,
          lman_StatusURL = ''https://'' @ lstk_Name ls @ ''-query-frontend-http.'' @ ns @ ''.svc.cluster.local.:3100/'',
          lman_TenantID = ''network'', lman_AuthToken = LokiAuthForwardUserToken,
          lman_TLS = zero_tls\<lparr>ctls_Enable := True,
            ctls_CACert := \<lparr>cref_Type = RefTypeConfigMap, cref_Name = lstk_Name ls @ ''-gateway-ca-bundle'',
              cref_Namespace = lstk_Namespace ls, cref_CertFile = ''service-ca.crt'', cref_CertKey = []\<rparr>\<rparr>,
          lman_StatusTLS = zero_tls\<lparr>ctls_Enable := True,
            ctls_CACert := \<lparr>cref_Type = RefTypeConfigMap, cref_Name = lstk_Name ls @ ''-ca-bundle'',
              cref_Namespace = lstk_Namespace ls, cref_CertFile = ''service-ca.crt'', cref_CertKey = []\<rparr>,
            ctls_UserCert := \<lparr>cref_Type = RefTypeSecret, cref_Name = lstk_Name ls @ ''-query-frontend-http'',
              cref_Namespace = lstk_Namespace ls, cref_CertFile = ''tls.crt'', cref_CertKey = ''tls.key''\<rparr>\<rparr>\<rparr>)"

definition NewLokiConfig :: "FlowCollectorLoki \<Rightarrow> string \<Rightarrow> LokiManualParams" where
  "NewLokiConfig spec namespace =
     (case loki_Mode spec of
        LokiModeLokiStack \<Rightarrow> lokistack_params (loki_LokiStack spec) namespace
      | LokiModeMonolithic \<Rightarrow>
          (let m = loki_Monolithic spec in
           if lmon_InstallDemoLoki m = Some True then
             \<lparr>lman_IngesterURL = ''http://loki:3100/'', lman_QuerierURL = ''http://loki:3100/'', lman_StatusURL = [],
              lman_TenantID = ''netobserv'', lman_AuthToken = LokiAuthDisabled, lman_TLS = zero_tls, lman_StatusTLS = zero_tls\<rparr>
           else
             \<lparr>lman_IngesterURL = lmon_URL m, lman_QuerierURL = lmon_URL m, lman_StatusURL = lmon_URL m,
              lman_TenantID = lmon_TenantID m, lman_AuthToken = LokiAuthUnset, lman_TLS = lmon_TLS m, lman_StatusTLS = zero_tls\<rparr>)
      | LokiModeMicroservices \<Rightarrow>
          (let m = loki_Microservices spec in
           \<lparr>lman_IngesterURL = lmic_IngesterURL m, lman_QuerierURL = lmic_QuerierURL m, lman_StatusURL = lmic_QuerierURL m,
            lman_TenantID = lmic_TenantID m, lman_AuthToken = LokiAuthUnset, lman_TLS = lmic_TLS m, lman_StatusTLS = zero_tls\<rparr>)
      | LokiModeManual \<Rightarrow> loki_Manual spec
      | LokiModeUnset \<Rightarrow> loki_Manual spec)"

definition UseForwardToken :: "LokiManualParams \<Rightarrow> bool" where
  "UseForwardToken l \<longleftrightarrow> lman_AuthToken l = LokiAuthForwardUserToken"

definition UseHostToken :: "LokiManualParams \<Rightarrow> bool" where
  "UseHostToken l \<longleftrightarrow> lman_AuthToken l = LokiAuthUseHostToken"

section \<open>Labels\<close>

datatype LabelsType = DefaultLabels | ConntrackLabels | MultiClusterLabels | ZonesLabels | UDNLabels

fun GetLabelsPerType :: "LabelsType \<Rightarrow> string list" where
  "GetLabelsPerType DefaultLabels =
     [''SrcK8S_Namespace'', ''SrcK8S_Type'', ''DstK8S_Namespace'', ''DstK8S_Type'', ''K8S_FlowLayer'', ''FlowDirection'']"
| "GetLabelsPerType ConntrackLabels = [''_RecordType'']"
| "GetLabelsPerType MultiClusterLabels = [''K8S_ClusterName'']"
| "GetLabelsPerType ZonesLabels = [''SrcK8S_Zone'', ''DstK8S_Zone'']"
| "GetLabelsPerType UDNLabels = [''UdnId'']"

fun addExcluding :: "string list \<Rightarrow> string list \<Rightarrow> string list \<Rightarrow> string list" where
  "addExcluding list [] excluding = list"
| "addExcluding list (a # as) excluding = addExcluding (if a \<notin> set excluding then list @ [a] else list) as excluding"

definition GetLabels :: "FlowCollectorSpec \<Rightarrow> string list" where
  "GetLabels desired =
     (let excluding = (case loki_Advanced (spec_Loki desired) of None \<Rightarrow> [] | Some a \<Rightarrow> alc_ExcludeLabels a);
          l = addExcluding [] (GetLabelsPerType DefaultLabels) excluding;
          l = (if HasConntrack (spec_Processor desired) then addExcluding l (GetLabelsPerType ConntrackLabels) excluding else l);
          l = (if IsMultiClusterEnabled (spec_Processor desired) then addExcluding l (GetLabelsPerType MultiClusterLabels) excluding else l);
          l = (if IsZoneEnabled (spec_Processor desired) then addExcluding l (GetLabelsPerType ZonesLabels) excluding else l);
          l = (if IsUDNMappingEnabled (agent_EBPF (spec_Agent desired)) then addExcluding l (GetLabelsPerType UDNLabels) excluding else l)
      in l)"

lemma addExcluding_filter: "addExcluding l as ex = l @ filter (\<lambda>a. a \<notin> set ex) as"
  by (induction as arbitrary: l) auto

text \<open>
  The stream labels are those of the enabled features, without the excluded ones and without repetition.
\<close>

theorem GetLabels_spec:
  "distinct (GetLabels s)
   \<and> set (GetLabels s) =
       (set (GetLabelsPerType DefaultLabels)
        \<union> (if HasConntrack (spec_Processor s) then set (GetLabelsPerType ConntrackLabels) else {})
        \<union> (if IsMultiClusterEnabled (spec_Processor s) then set (GetLabelsPerType MultiClusterLabels) else {})
        \<union> (if IsZoneEnabled (spec_Processor s) then set (GetLabelsPerType ZonesLabels) else {})
        \<union> (if IsUDNMappingEnabled (agent_EBPF (spec_Agent s)) then set (GetLabelsPerType UDNLabels) else {}))
       - set (case loki_Advanced (spec_Loki s) of None \<Rightarrow> [] | Some a \<Rightarrow> alc_ExcludeLabels a)"
  (is "_ \<and> _ = ?all - set ?ex")
proof -
  define base where "base = GetLabelsPerType DefaultLabels
    @ (if HasConntrack (spec_Processor s) then GetLabelsPerType ConntrackLabels else [])
    @ (if IsMultiClusterEnabled (spec_Processor s) then GetLabelsPerType MultiClusterLabels else [])
    @ (if IsZoneEnabled (spec_Processor s) then GetLabelsPerType ZonesLabels else [])
    @ (if IsUDNMappingEnabled (agent_EBPF (spec_Agent s)) then GetLabelsPerType UDNLabels else [])"
  have l: "GetLabels s = filter (\<lambda>a. a \<notin> set ?ex) base"
    by (cases "HasConntrack (spec_Processor s)"; cases "IsMultiClusterEnabled (spec_Processor s)"; cases "IsZoneEnabled (spec_Processor s)";
        cases "IsUDNMappingEnabled (agent_EBPF (spec_Agent s))")
      (simp_all add: GetLabels_def base_def addExcluding_filter Let_def del: GetLabelsPerType.simps)
  have "distinct base" by (simp add: base_def)
  moreover have "set base = ?all" by (simp add: base_def Un_assoc del: GetLabelsPerType.simps)
  ultimately show ?thesis by (auto simp: l)
qed

end
