(* ===== verification/Flow_Metrics.thy ===== *)
theory Flow_Metrics
  imports Health_Rules
begin

text \<open>
  \<open>api/flowmetrics/v1alpha1/flowmetric_types.go\<close>, \<open>internal/pkg/metrics/predefined_metrics.go\<close>,
  \<open>predefined_charts.go\<close> and \<open>helper.go\<close>: the metrics that the operator predefines, with the charts of
  their dashboards, and their selection from a specification. The string types of the Go code are strings;
  the map of a \<open>remap\<close> is an association list in the order of the source.
\<close>

section \<open>Types\<close>

record MetricFilter =
  mf_Field :: string
  mf_Value :: string
  mf_MatchType :: string

record Query =
  q_PromQL :: string
  q_Legend :: string
  q_Top :: int

record Chart =
  ch_DashboardName :: string
  ch_SectionName :: string
  ch_Title :: string
  ch_Unit :: string
  ch_Type :: string
  ch_Queries :: "Query list"

record FlowMetricSpec =
  fms_MetricName :: string
  fms_Type :: string
  fms_Help :: string
  fms_ValueField :: string
  fms_Filters :: "MetricFilter list"
  fms_Labels :: "string list"
  fms_Flatten :: "string list"
  fms_Remap :: "(string \<times> string) list"
  fms_Direction :: string
  fms_Buckets :: "string list"
  fms_Divider :: string
  fms_Charts :: "Chart list"

definition zero_metric :: FlowMetricSpec where
  "zero_metric = \<lparr>fms_MetricName = [], fms_Type = [], fms_Help = [], fms_ValueField = [], fms_Filters = [], fms_Labels = [],
     fms_Flatten = [], fms_Remap = [], fms_Direction = [], fms_Buckets = [], fms_Divider = [], fms_Charts = []\<rparr>"

definition CounterMetric :: string where "CounterMetric = ''Counter''"
definition GaugeMetric :: string where "GaugeMetric = ''Gauge''"
definition HistogramMetric :: string where "HistogramMetric = ''Histogram''"
definition Egress :: string where "Egress = ''Egress''"
definition Ingress :: string where "Ingress = ''Ingress''"

definition presence :: "string \<Rightarrow> MetricFilter" where
  "presence f = \<lparr>mf_Field = f, mf_Value = [], mf_MatchType = ''Presence''\<rparr>"

section \<open>helper.go\<close>

definition GetFilters :: "FlowMetricSpec \<Rightarrow> MetricFilter list" where
  "GetFilters fm =
     fms_Filters fm
     @ (if fms_Direction fm = Egress then [\<lparr>mf_Field = ''FlowDirection'', mf_Value = ''0'', mf_MatchType = ''NotEqual''\<rparr>]
        else if fms_Direction fm = Ingress then [\<lparr>mf_Field = ''FlowDirection'', mf_Value = ''1'', mf_MatchType = ''NotEqual''\<rparr>]
        else [])"

section \<open>predefined_charts.go\<close>

definition tagNamespaces :: string where "tagNamespaces = ''namespaces''"
definition tagNodes :: string where "tagNodes = ''nodes''"
definition tagWorkloads :: string where "tagWorkloads = ''workloads''"

definition mk_query :: "string \<Rightarrow> string \<Rightarrow> Query" where
  "mk_query p l = \<lparr>q_PromQL = p, q_Legend = l, q_Top = 0\<rparr>"

definition mk_chart :: "string \<Rightarrow> string \<Rightarrow> string \<Rightarrow> string \<Rightarrow> Query list \<Rightarrow> Chart" where
  "mk_chart ty section title unit queries =
     \<lparr>ch_DashboardName = ''Main'', ch_SectionName = section, ch_Title = title, ch_Unit = unit, ch_Type = ty, ch_Queries = queries\<rparr>"

definition replace_query :: "string \<Rightarrow> string \<Rightarrow> string list \<Rightarrow> Query \<Rightarrow> Query" where
  "replace_query labels legend orFilters q =
     (let p = str_replace_all ''$LABELS'' labels (q_PromQL q); l = str_replace_all ''$LEGEND'' legend (q_Legend q) in
      q\<lparr>q_Legend := l,
        q_PromQL := (if orFilters = [] then str_replace_all ''$FILTERS'' [] p
                     else str_join '' or '' (map (\<lambda>f. ''('' @ str_replace_all ''$FILTERS'' f p @ '')'') orFilters))\<rparr>)"

definition queriesReplaceAll :: "Chart \<Rightarrow> string \<Rightarrow> string \<Rightarrow> string list \<Rightarrow> Chart" where
  "queriesReplaceAll c labels legend orFilters = c\<lparr>ch_Queries := map (replace_query labels legend orFilters) (ch_Queries c)\<rparr>"

definition chartVariantFor :: "Chart \<Rightarrow> string \<Rightarrow> string \<Rightarrow> string \<Rightarrow> Chart" where
  "chartVariantFor c grp layer unit =
     (let flowLayerFilter = (if layer \<noteq> [] then ''K8S_FlowLayer=\"'' @ layer @ ''\",'' else []);
          orFilters = [flowLayerFilter @ ''SrcK8S_Namespace!=\"\"'', flowLayerFilter @ ''DstK8S_Namespace!=\"\"''];
          (suffix, labels, legend, filters) =
            (if grp = tagNodes then
               (''node'', ''SrcK8S_HostName,DstK8S_HostName'', ''source:{{SrcK8S_HostName}}, dest:{{DstK8S_HostName}}'', [])
             else if grp = tagNamespaces then
               (''namespace'', ''SrcK8S_Namespace,DstK8S_Namespace'', ''source:{{SrcK8S_Namespace}}, dest:{{DstK8S_Namespace}}'', orFilters)
             else if grp = tagWorkloads then
               (''workload'', ''SrcK8S_Namespace,SrcK8S_OwnerName,DstK8S_Namespace,DstK8S_OwnerName'',
                ''source:{{SrcK8S_OwnerName}}/{{SrcK8S_Namespace}}, dest:{{DstK8S_OwnerName}}/{{DstK8S_Namespace}}'', orFilters)
             else ([], [], [], []))
      in queriesReplaceAll
           (c\<lparr>ch_Title := ch_Title c @ '' per '' @ (if layer \<noteq> [] then layer @ '' '' else []) @ suffix
                @ (if unit \<noteq> [] then '' ('' @ unit @ '')'' else [])\<rparr>)
           labels legend filters)"

definition chartVariantsFor :: "Chart \<Rightarrow> string \<Rightarrow> string \<Rightarrow> Chart list" where
  "chartVariantsFor c grp unit =
     (if grp = tagNodes then [chartVariantFor c grp [] unit]
      else if grp = tagNamespaces then [chartVariantFor c grp ''infra'' unit, chartVariantFor c grp ''app'' unit]
      else if grp = tagWorkloads then
        (let section = str_replace_first ''per workload'' ''per namespace'' (ch_SectionName c) in
         [(chartVariantFor c tagNamespaces ''infra'' unit)\<lparr>ch_SectionName := section\<rparr>,
          (chartVariantFor c tagNamespaces ''app'' unit)\<lparr>ch_SectionName := section\<rparr>,
          chartVariantFor c grp ''infra'' unit, chartVariantFor c grp ''app'' unit])
      else [])"

definition trafficCharts :: "string \<Rightarrow> string \<Rightarrow> string \<Rightarrow> Chart list" where
  "trafficCharts grp vt dir =
     (let unit = (if vt = ''bytes'' then ''Bps'' else if vt = ''packets'' then ''pps'' else []) in
      mk_chart ''SingleStat'' [] (''Total '' @ dir @ '' traffic'') unit [mk_query ''sum(rate($METRIC[2m]))'' []]
      # chartVariantsFor
          (mk_chart ''StackArea'' (''Traffic rates per '' @ trim_suffix grp ''s'') (''Top '' @ dir @ '' traffic'') unit
             [mk_query ''sum(rate($METRIC{$FILTERS}[2m])) by ($LABELS)'' ''$LEGEND'']) grp unit)"

definition quantile_query :: "string \<Rightarrow> Query" where
  "quantile_query q = mk_query (''histogram_quantile('' @ q @ '', sum(rate($METRIC_bucket{$FILTERS}[2m])) by (le,$LABELS))*1000 > 0'') ''$LEGEND''"

definition p99_query :: Query where
  "p99_query = mk_query ''histogram_quantile(0.99, sum(rate($METRIC_bucket[2m])) by (le)) > 0'' ''p99''"

definition rttCharts :: "string \<Rightarrow> Chart list" where
  "rttCharts grp =
     mk_chart ''SingleStat'' [] ''TCP latency'' ''seconds'' [p99_query]
     # chartVariantsFor (mk_chart ''Line'' ''TCP latencies'' ''Top P50 sRTT'' ''seconds'' [quantile_query ''0.5'']) grp ''ms''
     @ chartVariantsFor (mk_chart ''Line'' ''TCP latencies'' ''Top P99 sRTT'' ''seconds'' [quantile_query ''0.99'']) grp ''ms''"

definition dropCharts :: "string \<Rightarrow> string \<Rightarrow> Chart list" where
  "dropCharts grp unit =
     (if unit = ''pps'' then [mk_chart ''SingleStat'' [] ''Drops'' unit [mk_query ''sum(rate($METRIC[2m]))'' []]] else [])
     @ chartVariantsFor
         (mk_chart ''StackArea'' ''Byte and packet drops'' ''Top drops'' unit
            [mk_query ''sum(rate($METRIC{$FILTERS}[2m])) by ($LABELS)'' ''$LEGEND'']) grp unit"

definition dnsCharts :: "string \<Rightarrow> Chart list" where
  "dnsCharts grp =
     mk_chart ''SingleStat'' [] ''DNS error rate'' [] [mk_query ''sum(rate($METRIC{DnsFlagsResponseCode!=\"NoError\"}[2m]))'' []]
     # chartVariantsFor
         (mk_chart ''StackArea'' ''DNS'' ''DNS error rate'' []
            [mk_query ''sum(rate($METRIC{DnsFlagsResponseCode!=\"NoError\",$FILTERS}[2m])) by (DnsFlagsResponseCode,$LABELS)''
               ''$LEGEND, {{ DnsFlagsResponseCode }}'']) grp []"

definition dnsLatencyCharts :: "string \<Rightarrow> Chart list" where
  "dnsLatencyCharts grp =
     mk_chart ''SingleStat'' [] ''DNS latency'' ''seconds'' [p99_query]
     # chartVariantsFor (mk_chart ''Line'' ''DNS'' ''Top P50 DNS latency'' ''seconds'' [quantile_query ''0.5'']) grp ''ms''
     @ chartVariantsFor (mk_chart ''Line'' ''DNS'' ''Top P99 DNS latency'' ''seconds'' [quantile_query ''0.99'']) grp ''ms''"

definition netpolCharts :: "string \<Rightarrow> Chart list" where
  "netpolCharts grp =
     [mk_chart ''SingleStat'' [] ''Policy drop rate'' [] [mk_query ''sum(rate($METRIC{action=\"drop\"}[2m]))'' []],
      mk_chart ''SingleStat'' [] ''Policy allow rate'' [] [mk_query ''sum(rate($METRIC{action=~\"allow.*\"}[2m]))'' []]]
     @ chartVariantsFor
         (mk_chart ''StackArea'' ''Network Policy'' ''Drop rate'' []
            [mk_query ''sum(rate($METRIC{action=\"drop\",$FILTERS}[2m])) by (type,direction,$LABELS)'' ''$LEGEND, {{ type }}, {{ direction }}'']) grp []
     @ chartVariantsFor
         (mk_chart ''StackArea'' ''Network Policy'' ''Allow rate'' []
            [mk_query ''sum(rate($METRIC{action=~\"allow.*\",$FILTERS}[2m])) by (type,direction,$LABELS)'' ''$LEGEND, {{ type }}, {{ direction }}'']) grp []"

definition ipsecStatusChart :: "string \<Rightarrow> Chart list" where
  "ipsecStatusChart grp =
     mk_chart ''SingleStat'' [] ''IPsec encrypted traffic'' ''percent''
       [mk_query ''sum(rate(netobserv_node_ipsec_flows_total{IPSecStatus=\"success\"}[2m])) / sum(rate(netobserv_node_to_node_ingress_flows_total[2m]))'' []]
     # chartVariantsFor
         (mk_chart ''Line'' ''IPsec'' ''IPsec flows rate'' [] [mk_query ''sum(rate($METRIC[2m])) by (IPSecStatus)'' ''{{ IPSecStatus }}'']) grp []"

definition tlsStatusChart :: "Chart list" where
  "tlsStatusChart =
     [mk_chart ''SingleStat'' [] ''TLS traffic'' ''percent''
        [mk_query (''sum(rate($METRIC[2m])) / (sum(rate(netobserv_namespace_flows_total[2m])) OR sum(rate(netobserv_workload_flows_total[2m]))''
           @ '' OR sum(rate(netobserv_node_flows_total[2m])))'') []],
      mk_chart ''Line'' ''TLS'' ''Flows rate per TLS version'' []
        [mk_query ''sum(rate($METRIC{TLSVersion!=\"\"}[2m])) by (TLSVersion)'' ''{{ TLSVersion }}''],
      mk_chart ''Line'' ''TLS'' ''Flows rate per TLS group'' []
        [mk_query ''sum(rate($METRIC{TLSGroup!=\"\"}[2m])) by (TLSGroup)'' ''{{ TLSGroup }}'']]"

section \<open>predefined_metrics.go\<close>

definition latencyBuckets :: "string list" where
  "latencyBuckets = [''.005'', ''.01'', ''.02'', ''.03'', ''.04'', ''.05'', ''.075'', ''.1'', ''.25'', ''1'']"

definition mapLabels :: "string \<Rightarrow> string list" where
  "mapLabels grp =
     (if grp = tagNodes then [''K8S_ClusterName'', ''SrcK8S_Zone'', ''DstK8S_Zone'', ''SrcK8S_HostName'', ''DstK8S_HostName'']
      else if grp = tagNamespaces then
        [''K8S_ClusterName'', ''SrcK8S_Zone'', ''DstK8S_Zone'', ''SrcK8S_Namespace'', ''DstK8S_Namespace'', ''K8S_FlowLayer'',
         ''SrcSubnetLabel'', ''DstSubnetLabel'']
      else if grp = tagWorkloads then
        [''K8S_ClusterName'', ''SrcK8S_Zone'', ''DstK8S_Zone'', ''SrcK8S_Namespace'', ''DstK8S_Namespace'', ''K8S_FlowLayer'',
         ''SrcSubnetLabel'', ''DstSubnetLabel'', ''SrcK8S_NetworkName'', ''DstK8S_NetworkName'', ''SrcASN'', ''DstASN'',
         ''SrcK8S_OwnerName'', ''DstK8S_OwnerName'', ''SrcK8S_OwnerType'', ''DstK8S_OwnerType'', ''SrcK8S_Type'', ''DstK8S_Type'']
      else [])"

definition mapValueFields :: "string \<Rightarrow> string" where
  "mapValueFields vt = (if vt = ''bytes'' then ''Bytes'' else if vt = ''packets'' then ''Packets'' else [])"

definition metric_groups :: "string list" where "metric_groups = [tagNodes, tagNamespaces, tagWorkloads]"

definition traffic_metric :: "string \<Rightarrow> string \<Rightarrow> string \<Rightarrow> FlowMetricSpec" where
  "traffic_metric grp vt dir =
     (let g = trim_suffix grp ''s''; lowDir = to_lower dir in
      zero_metric\<lparr>fms_MetricName := g @ ''_'' @ lowDir @ ''_'' @ vt @ ''_total'', fms_Type := CounterMetric,
        fms_Help := ''Total '' @ vt @ '' per '' @ g @ '' in '' @ lowDir @ '' direction'', fms_ValueField := mapValueFields vt,
        fms_Direction := dir, fms_Labels := mapLabels grp, fms_Charts := trafficCharts grp vt lowDir\<rparr>)"

definition base_metrics :: "string \<Rightarrow> FlowMetricSpec list" where
  "base_metrics grp =
     (let g = trim_suffix grp ''s'' in
      concat (map (\<lambda>vt. map (traffic_metric grp vt) [Egress, Ingress]) [''bytes'', ''packets''])
      @ [zero_metric\<lparr>fms_MetricName := g @ ''_sampling'', fms_Type := GaugeMetric, fms_Help := ''Sampling per '' @ g,
           fms_ValueField := ''Sampling'', fms_Labels := mapLabels grp\<rparr>,
         zero_metric\<lparr>fms_MetricName := g @ ''_flows_total'', fms_Type := ''counter'', fms_Help := ''Total flows per '' @ g,
           fms_Labels := mapLabels grp\<rparr>])"

definition rtt_metrics :: "string \<Rightarrow> FlowMetricSpec list" where
  "rtt_metrics grp =
     (let g = trim_suffix grp ''s'' in
      [zero_metric\<lparr>fms_MetricName := g @ ''_rtt_seconds'', fms_Type := HistogramMetric,
         fms_Help := ''Round-trip time latency in seconds per '' @ g, fms_ValueField := ''TimeFlowRttNs'',
         fms_Filters := [presence ''TimeFlowRttNs''], fms_Labels := mapLabels grp, fms_Divider := ''1000000000'',
         fms_Buckets := latencyBuckets, fms_Charts := rttCharts grp\<rparr>])"

definition drop_metrics :: "string \<Rightarrow> FlowMetricSpec list" where
  "drop_metrics grp =
     (let g = trim_suffix grp ''s''; dropLabels = mapLabels grp @ [''PktDropLatestState'', ''PktDropLatestDropCause''] in
      [zero_metric\<lparr>fms_MetricName := g @ ''_drop_packets_total'', fms_Type := CounterMetric,
         fms_Help := ''Total dropped packets per '' @ g, fms_ValueField := ''PktDropPackets'',
         fms_Filters := [presence ''PktDropPackets''], fms_Labels := dropLabels, fms_Charts := dropCharts grp ''pps''\<rparr>,
       zero_metric\<lparr>fms_MetricName := g @ ''_drop_bytes_total'', fms_Type := CounterMetric,
         fms_Help := ''Total dropped bytes per '' @ g, fms_ValueField := ''PktDropBytes'',
         fms_Filters := [presence ''PktDropBytes''], fms_Labels := dropLabels, fms_Charts := dropCharts grp ''Bps''\<rparr>])"

definition dns_metrics :: "string \<Rightarrow> FlowMetricSpec list" where
  "dns_metrics grp =
     (let g = trim_suffix grp ''s'' in
      [zero_metric\<lparr>fms_MetricName := g @ ''_dns_latency_seconds'', fms_Type := HistogramMetric,
         fms_Help := ''DNS latency in seconds per '' @ g, fms_ValueField := ''DnsLatencyMs'',
         fms_Filters := [presence ''DnsId''], fms_Labels := mapLabels grp, fms_Divider := ''1000'',
         fms_Buckets := latencyBuckets, fms_Charts := dnsLatencyCharts grp\<rparr>,
       zero_metric\<lparr>fms_MetricName := g @ ''_dns_flows_total'', fms_Type := CounterMetric, fms_Help := ''DNS flows per '' @ g,
         fms_Filters := [presence ''DnsId''], fms_Labels := mapLabels grp @ [''DnsFlagsResponseCode'', ''DnsName''],
         fms_Charts := dnsCharts grp\<rparr>])"

definition netpol_metrics :: "string \<Rightarrow> FlowMetricSpec list" where
  "netpol_metrics grp =
     (let g = trim_suffix grp ''s'' in
      [zero_metric\<lparr>fms_MetricName := g @ ''_network_policy_events_total'', fms_Type := ''counter'',
         fms_Help := ''Total network policy events per '' @ g,
         fms_Labels := mapLabels grp @ [''NetworkEvents>Type'', ''NetworkEvents>Namespace'', ''NetworkEvents>Name'', ''NetworkEvents>Action'', ''NetworkEvents>Direction''],
         fms_Filters := [\<lparr>mf_Field = ''NetworkEvents>Feature'', mf_Value = ''acl'', mf_MatchType = []\<rparr>],
         fms_Flatten := [''NetworkEvents''],
         fms_Remap := [(''NetworkEvents>Type'', ''type''), (''NetworkEvents>Namespace'', ''namespace''), (''NetworkEvents>Name'', ''name''),
           (''NetworkEvents>Action'', ''action''), (''NetworkEvents>Direction'', ''direction'')],
         fms_Charts := netpolCharts grp\<rparr>])"

definition tls_metrics :: "string \<Rightarrow> FlowMetricSpec list" where
  "tls_metrics grp =
     (let g = trim_suffix grp ''s'' in
      [zero_metric\<lparr>fms_MetricName := g @ ''_tls_flows_total'', fms_Type := CounterMetric, fms_Help := ''Total TLS flows per '' @ g,
         fms_Filters := [presence ''TLSTypes''], fms_Labels := mapLabels grp @ [''TLSVersion'', ''TLSCipherSuite'', ''TLSGroup''],
         fms_Charts := tlsStatusChart\<rparr>])"

definition ipsec_metrics :: "string \<Rightarrow> FlowMetricSpec list" where
  "ipsec_metrics grp =
     (let g = trim_suffix grp ''s'' in
      [zero_metric\<lparr>fms_MetricName := g @ ''_ipsec_flows_total'', fms_Type := CounterMetric,
         fms_Help := ''Total IPsec encrypted flows per '' @ g, fms_Filters := [presence ''IPSecStatus''],
         fms_Labels := mapLabels grp @ [''IPSecStatus''], fms_Charts := ipsecStatusChart grp\<rparr>])"

definition cross_nodes_metric :: FlowMetricSpec where
  "cross_nodes_metric =
     zero_metric\<lparr>fms_MetricName := ''node_to_node_ingress_flows_total'', fms_Type := CounterMetric,
       fms_Help := ''Total ingress flows between nodes'', fms_Labels := mapLabels tagNodes,
       fms_Filters := [\<lparr>mf_Field = ''FlowDirection'', mf_Value = ''2'', mf_MatchType = ''NotEqual''\<rparr>,
         presence ''SrcK8S_HostName'', presence ''DstK8S_HostName'']\<rparr>"

definition predefinedMetrics :: "FlowMetricSpec list" where
  "predefinedMetrics =
     concat (map base_metrics metric_groups) @ concat (map rtt_metrics metric_groups) @ concat (map drop_metrics metric_groups)
     @ concat (map dns_metrics metric_groups) @ concat (map netpol_metrics metric_groups) @ concat (map tls_metrics metric_groups)
     @ concat (map ipsec_metrics metric_groups) @ [cross_nodes_metric]"

definition GetAllNames :: "string list" where
  "GetAllNames = map fms_MetricName predefinedMetrics"

definition removeLabels :: "string list \<Rightarrow> string list \<Rightarrow> string list" where
  "removeLabels initial toRemove = filter (\<lambda>l. l \<notin> set toRemove) initial"

text \<open>The charts of a packets metric are dropped when the bytes metric is shown.\<close>

definition shown_charts :: "string list \<Rightarrow> FlowMetricSpec \<Rightarrow> Chart list" where
  "shown_charts mnames m =
     (if str_contains (fms_MetricName m) ''_packets_'' then
        (let withBytes = str_replace_first ''_packets_'' ''_bytes_'' (fms_MetricName m) in
         if withBytes \<in> set mnames \<or> str_replace_first ''namespace_'' ''workload_'' withBytes \<in> set mnames then [] else fms_Charts m)
      else fms_Charts m)"

definition update_def :: "string list \<Rightarrow> string list \<Rightarrow> MetricFilter option \<Rightarrow> FlowMetricSpec \<Rightarrow> FlowMetricSpec" where
  "update_def mnames labelsToRemove filterRecordType m =
     m\<lparr>fms_Labels := removeLabels (fms_Labels m) labelsToRemove,
       fms_Filters := fms_Filters m @ (case filterRecordType of None \<Rightarrow> [] | Some f \<Rightarrow> [f]),
       fms_Charts := shown_charts mnames m\<rparr>"

definition getUpdatedDefsFromNames :: "string list \<Rightarrow> string list \<Rightarrow> MetricFilter option \<Rightarrow> FlowMetricSpec list" where
  "getUpdatedDefsFromNames mnames labelsToRemove filterRecordType =
     map (update_def mnames labelsToRemove filterRecordType) (filter (\<lambda>m. fms_MetricName m \<in> set mnames) predefinedMetrics)"

definition labels_to_remove :: "FlowCollectorSpec \<Rightarrow> string list" where
  "labels_to_remove fc =
     (if \<not> IsZoneEnabled (spec_Processor fc) then [''SrcK8S_Zone'', ''DstK8S_Zone''] else [])
     @ (if \<not> IsMultiClusterEnabled (spec_Processor fc) then [''K8S_ClusterName''] else [])
     @ (if \<not> IsUDNMappingEnabled (agent_EBPF (spec_Agent fc)) \<and> GetSecondaryIndexes fc = [] then [''SrcK8S_NetworkName'', ''DstK8S_NetworkName''] else [])
     @ (if \<not> IsBgpEnrichmentEnabled (spec_Processor fc) then [''SrcASN'', ''DstASN''] else [])"

definition record_type_filter :: "FlowCollectorSpec \<Rightarrow> MetricFilter option" where
  "record_type_filter fc =
     (case flp_LogTypes (spec_Processor fc) of
        Some LogTypeConversations \<Rightarrow> Some \<lparr>mf_Field = ''_RecordType'', mf_Value = ''endConnection'', mf_MatchType = []\<rparr>
      | Some LogTypeAll \<Rightarrow> Some \<lparr>mf_Field = ''_RecordType'', mf_Value = ''flowLog'', mf_MatchType = []\<rparr>
      | _ \<Rightarrow> None)"

definition GetDefinitions :: "FlowCollectorSpec \<Rightarrow> bool \<Rightarrow> FlowMetricSpec list" where
  "GetDefinitions fc allMetrics =
     getUpdatedDefsFromNames (if allMetrics then GetAllNames else GetIncludeList fc) (labels_to_remove fc) (record_type_filter fc)"

definition MergePredefined :: "FlowMetricSpec list \<Rightarrow> FlowCollectorSpec \<Rightarrow> FlowMetricSpec list" where
  "MergePredefined fm fc = GetDefinitions fc False @ fm"

end
