(* ===== verification/Flow_Metrics_Correct.thy ===== *)
theory Flow_Metrics_Correct
  imports Flow_Metrics Samples
begin

text \<open>
  The predefined metrics: their names, that the default selections and the health rules only refer to metrics
  that exist, and what the selection for a specification gives.
\<close>

section \<open>Names\<close>

lemma groups_eq: "metric_groups = [''nodes'', ''namespaces'', ''workloads'']"
  by (simp add: metric_groups_def tagNodes_def tagNamespaces_def tagWorkloads_def)

lemma name_parts:
  "to_lower Egress = ''egress''" "to_lower Ingress = ''ingress''"
  "trim_suffix ''nodes'' ''s'' = ''node''" "trim_suffix ''namespaces'' ''s'' = ''namespace''" "trim_suffix ''workloads'' ''s'' = ''workload''"
  by code_simp+

lemmas metric_defs = base_metrics_def rtt_metrics_def drop_metrics_def dns_metrics_def netpol_metrics_def tls_metrics_def
  ipsec_metrics_def cross_nodes_metric_def traffic_metric_def Let_def

lemma predefined_names:
  "GetAllNames =
   [''node_egress_bytes_total'', ''node_ingress_bytes_total'', ''node_egress_packets_total'', ''node_ingress_packets_total'',
    ''node_sampling'', ''node_flows_total'', ''namespace_egress_bytes_total'', ''namespace_ingress_bytes_total'',
    ''namespace_egress_packets_total'', ''namespace_ingress_packets_total'', ''namespace_sampling'', ''namespace_flows_total'',
    ''workload_egress_bytes_total'', ''workload_ingress_bytes_total'', ''workload_egress_packets_total'', ''workload_ingress_packets_total'',
    ''workload_sampling'', ''workload_flows_total'', ''node_rtt_seconds'', ''namespace_rtt_seconds'',
    ''workload_rtt_seconds'', ''node_drop_packets_total'', ''node_drop_bytes_total'', ''namespace_drop_packets_total'',
    ''namespace_drop_bytes_total'', ''workload_drop_packets_total'', ''workload_drop_bytes_total'', ''node_dns_latency_seconds'',
    ''node_dns_flows_total'', ''namespace_dns_latency_seconds'', ''namespace_dns_flows_total'', ''workload_dns_latency_seconds'',
    ''workload_dns_flows_total'', ''node_network_policy_events_total'', ''namespace_network_policy_events_total'', ''workload_network_policy_events_total'',
    ''node_tls_flows_total'', ''namespace_tls_flows_total'', ''workload_tls_flows_total'', ''node_ipsec_flows_total'',
    ''namespace_ipsec_flows_total'', ''workload_ipsec_flows_total'', ''node_to_node_ingress_flows_total'']"
  by (simp add: GetAllNames_def predefinedMetrics_def groups_eq metric_defs name_parts)

lemma names_distinct: "distinct GetAllNames"
  by (simp add: predefined_names)

lemma defaults_predefined: "set DefaultIncludeList \<subseteq> set GetAllNames" "set DefaultIncludeListLokiDisabled \<subseteq> set GetAllNames"
  by (simp_all add: predefined_names DefaultIncludeList_def DefaultIncludeListLokiDisabled_def)

lemma update_def_simps [simp]:
  "fms_MetricName (update_def ns rm f m) = fms_MetricName m" "fms_Labels (update_def ns rm f m) = removeLabels (fms_Labels m) rm"
  by (simp_all add: update_def_def)

lemma definitions_names: "map fms_MetricName (GetDefinitions fc False) = filter (\<lambda>n. n \<in> set (GetIncludeList fc)) GetAllNames"
  by (simp add: GetDefinitions_def getUpdatedDefsFromNames_def GetAllNames_def filter_map comp_def)

lemma definitions_default:
  assumes "fm_IncludeList (flp_Metrics (spec_Processor fc)) = None" and "fm_AdditionalIncludeList (flp_Metrics (spec_Processor fc)) = None"
  shows "set (GetIncludeList fc) \<subseteq> set GetAllNames"
  using assms defaults_predefined by (auto simp: include_list_filter include_base_def)

lemma definitions_labels: "m \<in> set (GetDefinitions fc b) \<Longrightarrow> l \<in> set (fms_Labels m) \<Longrightarrow> l \<notin> set (labels_to_remove fc)"
  by (auto simp: GetDefinitions_def getUpdatedDefsFromNames_def removeLabels_def)

text \<open>
  The selection of predefined metrics. The metrics generated for a specification are the predefined ones
  that its effective list names, each once and in the predefined order, whatever the order and repetitions of
  the list; without user-given lists every effective name has its metric; and no metric carries a label of
  a feature that is off (zones, cluster name, network names, AS numbers).
\<close>

theorem GetDefinitions_spec:
  "map fms_MetricName (GetDefinitions fc False) = filter (\<lambda>n. n \<in> set (GetIncludeList fc)) GetAllNames
   \<and> distinct (map fms_MetricName (GetDefinitions fc False))
   \<and> (fm_IncludeList (flp_Metrics (spec_Processor fc)) = None \<and> fm_AdditionalIncludeList (flp_Metrics (spec_Processor fc)) = None \<longrightarrow>
        set (map fms_MetricName (GetDefinitions fc False)) = set (GetIncludeList fc))
   \<and> \<Union> (set ` fms_Labels ` set (GetDefinitions fc False)) \<inter> set (labels_to_remove fc) = {}"
  using names_distinct definitions_default[of fc] definitions_labels[of _ fc False]
  by (auto simp: definitions_names)

theorem GetDefinitions_spec_witness:
  "set (map fms_MetricName (GetDefinitions zero_spec False)) = set (GetIncludeList zero_spec)"
proof -
  have "fm_IncludeList (flp_Metrics (spec_Processor zero_spec)) = None \<and> fm_AdditionalIncludeList (flp_Metrics (spec_Processor zero_spec)) = None" by simp
  with GetDefinitions_spec[of zero_spec] show ?thesis by blast
qed

section \<open>Metrics of the health rules\<close>

lemma sprintf_names: "sprintf_s (''%s'' @ t) g = g @ t"
  by (simp add: has_prefix_def)

text \<open>
  Every metric that a health rule may be computed from exists: for each template and each grouping, the
  eligible metrics and totals are names of predefined metrics.
\<close>

theorem health_rule_metrics_exist:
  "set (fst (GetElligibleMetricsForAlert t v)) \<union> set (snd (GetElligibleMetricsForAlert t v)) \<subseteq> set GetAllNames"
  by (cases t; cases "var_GroupBy v")
    (simp_all add: GetElligibleMetricsForAlert_def metric_requirement_def group_prefixes_def has_prefix_def predefined_names)

end
