(* ===== verification/Metric_Status.thy ===== *)
theory Metric_Status
  imports Flow_Metrics Component_Status Status_Manager
begin

text \<open>
  User-defined metrics: the admission webhook (\<open>api/flowmetrics/v1alpha1/flowmetric_webhook.go\<close>), the
  cardinality check (\<open>internal/pkg/helper/cardinality\<close>), the statuses
  (\<open>internal/controller/flp/fmstatus\<close>), the name conversions (\<open>internal/pkg/conversion\<close>,
  \<open>helper.PrometheusMetricName\<close>, \<open>helper.FindFields\<close>) and the translation of a metric for
  flowlogs-pipeline (\<open>flowMetricToFLP\<close> of \<open>flp_pipeline_builder.go\<close>). The embedded tables (fields of
  the console, cardinalities) and \<open>strconv.ParseFloat\<close>, which gives values of a type \<open>'f\<close>, are
  parameters; strings are ASCII, as the API server requires of names and enumerations.
\<close>

section \<open>Conversions\<close>

definition is_upper :: "char \<Rightarrow> bool" where
  "is_upper c = (let n = of_char c :: nat in 65 \<le> n \<and> n \<le> 90)"

definition lower_char :: "char \<Rightarrow> char" where
  "lower_char c = (let n = of_char c :: nat in if 65 \<le> n \<and> n \<le> 90 then char_of (n + 32) else c)"

definition upper_char :: "char \<Rightarrow> char" where
  "upper_char c = (let n = of_char c :: nat in if 97 \<le> n \<and> n \<le> 122 then char_of (n - 32) else c)"

definition upperPascalExceptions :: "(string \<times> string) list" where
  "upperPascalExceptions = [(''IPFIX'', ''IPFIX''), (''EBPF'', ''eBPF''), (''SCRAM-SHA512'', ''ScramSHA512'')]"

fun pascal_split :: "(char \<Rightarrow> char) \<Rightarrow> char \<Rightarrow> string \<Rightarrow> string" where
  "pascal_split conv splitter [] = []"
| "pascal_split conv splitter (c # cs) = (if is_upper c then [splitter, conv c] else [conv c]) @ pascal_split conv splitter cs"

definition pascal_to :: "(char \<Rightarrow> char) \<Rightarrow> string \<Rightarrow> char \<Rightarrow> string" where
  "pascal_to conv str splitter =
     (if str = [] then str
      else case find (\<lambda>kv. snd kv = str) upperPascalExceptions of
        Some kv \<Rightarrow> fst kv
      | None \<Rightarrow> conv (hd str) # pascal_split conv splitter (tl str))"

definition PascalToUpper :: "string \<Rightarrow> char \<Rightarrow> string" where "PascalToUpper = pascal_to upper_char"
definition PascalToLower :: "string \<Rightarrow> char \<Rightarrow> string" where "PascalToLower = pascal_to lower_char"

text \<open>The regular expression splits at runs of dashes and underscores.\<close>

fun token_split :: "string \<Rightarrow> string list" where
  "token_split [] = [[]]"
| "token_split (c # cs) =
     (let sep = (\<lambda>c. c = CHR ''-'' \<or> c = CHR ''_'') in
      if sep c then (if cs \<noteq> [] \<and> sep (hd cs) then token_split cs else [] # token_split cs)
      else (case token_split cs of [] \<Rightarrow> [[c]] | t # ts \<Rightarrow> (c # t) # ts))"

text \<open>An empty token, of a leading or trailing separator, is indexed out of range: \<open>None\<close> is the panic.\<close>

definition UpperToPascal :: "string \<Rightarrow> string option" where
  "UpperToPascal str =
     (if str = [] then Some str
      else case map_of upperPascalExceptions str of
        Some e \<Rightarrow> Some e
      | None \<Rightarrow>
          (let toks = token_split (map lower_char str) in
           if list_ex (\<lambda>t. t = []) toks then None else Some (concat (map (\<lambda>t. upper_char (hd t) # tl t) toks))))"

definition PrometheusMetricName :: "string \<Rightarrow> string" where
  "PrometheusMetricName from = map (\<lambda>c. let n = of_char c :: nat in
     if 97 \<le> n \<and> n \<le> 122 \<or> 65 \<le> n \<and> n \<le> 90 \<or> 48 \<le> n \<and> n \<le> 57 \<or> c = CHR '':'' \<or> c = CHR ''_'' then c else CHR ''_'') from"

section \<open>Cardinality\<close>

datatype Warn = WarnAvoid | WarnCareful | WarnFine | WarnUnknown

fun warn_string :: "Warn \<Rightarrow> string" where
  "warn_string WarnAvoid = ''avoid''"
| "warn_string WarnCareful = ''careful''"
| "warn_string WarnFine = ''fine''"
| "warn_string WarnUnknown = ''unknown''"

text \<open>The parsed table, or the error of parsing the embedded file.\<close>

type_synonym card_table = "string + (string \<rightharpoonup> Warn)"

definition getCardinality :: "card_table \<Rightarrow> string \<Rightarrow> string + Warn" where
  "getCardinality t label = (case t of Inl e \<Rightarrow> Inl e | Inr m \<Rightarrow> Inr (case m label of Some v \<Rightarrow> v | None \<Rightarrow> WarnUnknown))"

type_synonym card_report = "Warn \<Rightarrow> string list"

fun check_labels :: "card_table \<Rightarrow> string list \<Rightarrow> card_report \<Rightarrow> string + card_report" where
  "check_labels t [] perLevel = Inr perLevel"
| "check_labels t (l # ls) perLevel =
     (case getCardinality t l of Inl e \<Rightarrow> Inl e | Inr c \<Rightarrow> check_labels t ls (perLevel(c := perLevel c @ [l])))"

definition card_CheckCardinality :: "card_table \<Rightarrow> string list \<Rightarrow> string + card_report" where
  "card_CheckCardinality t labels = check_labels t labels (\<lambda>_. [])"

definition levels :: "Warn list" where "levels = [WarnAvoid, WarnUnknown, WarnCareful, WarnFine]"

definition GetOverall :: "card_report \<Rightarrow> Warn" where
  "GetOverall r = (case find (\<lambda>lvl. r lvl \<noteq> []) levels of Some lvl \<Rightarrow> lvl | None \<Rightarrow> WarnFine)"

definition quote :: string where "quote = [CHR 0x27]"

definition GetDetails :: "card_report \<Rightarrow> string" where
  "GetDetails r = concat (map (\<lambda>lvl.
     if r lvl \<noteq> [] then ''Cardinality level '' @ quote @ warn_string lvl @ quote @ '': '' @ show_nat (length (r lvl)) @ '' labels (''
       @ str_join '', '' (r lvl) @ ''); '' else []) levels)"

section \<open>The resource and its webhook\<close>

record FlowMetricStatus =
  fmst_Conditions :: "Condition list"
  fmst_PrometheusName :: string

record FlowMetric =
  flm_Name :: string
  flm_Namespace :: string
  flm_Spec :: FlowMetricSpec
  flm_Status :: FlowMetricStatus

text \<open>What the webhook and the translation read: the fields of the console with their types, the table, the parser.\<close>

record 'f metric_env =
  me_fields :: "(string \<times> string) list option"
  me_cards :: card_table
  me_ParseFloat :: "string \<Rightarrow> 'f option"

fun find_labels :: "(string \<rightharpoonup> string) \<Rightarrow> bool \<Rightarrow> string list \<Rightarrow> bool" where
  "find_labels m isNumber [] = True"
| "find_labels m isNumber (l # ls) =
     (case m (hd (split_on CHR ''>'' l)) of
        None \<Rightarrow> False
      | Some ty \<Rightarrow> if isNumber \<and> ty \<noteq> ''number'' then False else find_labels m isNumber ls)"

text \<open>Of two fields with the same name the later one counts.\<close>

definition FindFields :: "'f metric_env \<Rightarrow> string list \<Rightarrow> bool \<Rightarrow> bool" where
  "FindFields env labels isNumber =
     (case me_fields env of None \<Rightarrow> False | Some fs \<Rightarrow> find_labels (map_of (rev fs)) isNumber labels)"

datatype fm_error =
  InvalidFilterField "string list" | InvalidLabelName "string list" | InvalidRemap "string list"
| InvalidFlatten "string list" | InvalidValueField string | InvalidBucket string

definition metric_errors :: "'f metric_env \<Rightarrow> FlowMetricSpec \<Rightarrow> fm_error list" where
  "metric_errors env s =
     (let fields = map mf_Field (fms_Filters s); invalid = filter (\<lambda>k. k \<notin> set (fms_Labels s)) (map fst (fms_Remap s)) in
      (if fields \<noteq> [] \<and> \<not> FindFields env fields False then [InvalidFilterField fields] else [])
      @ (if fms_Labels s \<noteq> [] then
           (if \<not> FindFields env (fms_Labels s) False then [InvalidLabelName (fms_Labels s)] else [])
           @ (if fms_Remap s \<noteq> [] \<and> invalid \<noteq> [] then [InvalidRemap invalid] else [])
           @ (if fms_Flatten s \<noteq> [] \<and> \<not> FindFields env (fms_Flatten s) False then [InvalidFlatten (fms_Flatten s)] else [])
         else [])
      @ (if fms_ValueField s \<noteq> [] \<and> \<not> FindFields env [fms_ValueField s] True then [InvalidValueField (fms_ValueField s)] else [])
      @ map InvalidBucket (filter (\<lambda>b. me_ParseFloat env b = None) (fms_Buckets s)))"

text \<open>
  After a failed check the report is nil and reading it panics: \<open>None\<close>. The messages of the warnings are
  their levels and details.
\<close>

definition checkFlowMetricCardinality :: "'f metric_env \<Rightarrow> FlowMetric \<Rightarrow> (Warn \<times> string) list option" where
  "checkFlowMetricCardinality env fm =
     (case card_CheckCardinality (me_cards env) (fms_Labels (flm_Spec fm)) of
        Inl _ \<Rightarrow> None
      | Inr r \<Rightarrow> Some (if GetOverall r \<in> {WarnAvoid, WarnUnknown, WarnCareful} then [(GetOverall r, GetDetails r)] else []))"

definition validateFlowMetric :: "'f metric_env \<Rightarrow> FlowMetric \<Rightarrow> fm_error list + (Warn \<times> string) list option" where
  "validateFlowMetric env fm =
     (if metric_errors env (flm_Spec fm) \<noteq> [] then Inl (metric_errors env (flm_Spec fm)) else Inr (checkFlowMetricCardinality env fm))"

section \<open>Translation for flowlogs-pipeline\<close>

record MetricsFilter =
  mfi_Key :: string
  mfi_Value :: string
  mfi_Type :: string

record 'f MetricsItem =
  mi_Name :: string
  mi_Type :: string
  mi_Help :: string
  mi_Filters :: "MetricsFilter list"
  mi_Labels :: "string list"
  mi_Remap :: "(string \<times> string) list"
  mi_Flatten :: "string list"
  mi_ValueKey :: string
  mi_Buckets :: "'f list"
  mi_ValueScale :: "'f option"

datatype flp_error = BadBuckets string | BadDivider string

fun parse_buckets :: "(string \<Rightarrow> 'f option) \<Rightarrow> string list \<Rightarrow> flp_error + 'f list" where
  "parse_buckets pf [] = Inr []"
| "parse_buckets pf (b # bs) =
     (case pf b of None \<Rightarrow> Inl (BadBuckets b)
      | Some f \<Rightarrow> (case parse_buckets pf bs of Inl e \<Rightarrow> Inl e | Inr fs \<Rightarrow> Inr (f # fs)))"

definition metric_name :: "FlowMetric \<Rightarrow> string" where
  "metric_name fm = (if fms_MetricName (flm_Spec fm) = [] then PrometheusMetricName (flm_Name fm) else fms_MetricName (flm_Spec fm))"

definition flowMetricToFLP :: "(string \<Rightarrow> 'f option) \<Rightarrow> FlowMetric \<Rightarrow> flp_error + 'f MetricsItem" where
  "flowMetricToFLP pf fm =
     (let s = flm_Spec fm in
      case parse_buckets pf (fms_Buckets s) of
        Inl e \<Rightarrow> Inl e
      | Inr buckets \<Rightarrow>
          (let item = (\<lambda>scale.
             \<lparr>mi_Name = metric_name fm, mi_Type = to_lower (fms_Type s), mi_Help = fms_Help s,
              mi_Filters = map (\<lambda>f. \<lparr>mfi_Key = mf_Field f, mfi_Value = mf_Value f, mfi_Type = PascalToLower (mf_MatchType f) CHR ''_''\<rparr>) (GetFilters s),
              mi_Labels = fms_Labels s, mi_Remap = fms_Remap s, mi_Flatten = fms_Flatten s, mi_ValueKey = fms_ValueField s,
              mi_Buckets = buckets, mi_ValueScale = scale\<rparr>)
           in if fms_Divider s \<noteq> [] then (case pf (fms_Divider s) of None \<Rightarrow> Inl (BadDivider (fms_Divider s)) | Some f \<Rightarrow> Inr (item (Some f)))
              else Inr (item None)))"

section \<open>Statuses\<close>

type_synonym fm_key = "string \<times> string"

record fm_statuses =
  fm_mapStatuses :: "fm_key \<rightharpoonup> Condition"
  fm_mapCards :: "fm_key \<rightharpoonup> Condition"

definition fm_key_of :: "FlowMetric \<Rightarrow> fm_key" where "fm_key_of fm = (flm_Namespace fm, flm_Name fm)"

definition fm_Reset :: fm_statuses where
  "fm_Reset = \<lparr>fm_mapStatuses = Map.empty, fm_mapCards = Map.empty\<rparr>"

definition fm_SetReady :: "FlowMetric \<Rightarrow> fm_statuses \<Rightarrow> fm_statuses" where
  "fm_SetReady fm st = st\<lparr>fm_mapStatuses := (fm_mapStatuses st)(fm_key_of fm \<mapsto> mk_condition ''Ready'' ConditionTrue ''Ready'' ''flowlogs-pipeline configured'')\<rparr>"

definition fm_SetFailure :: "FlowMetric \<Rightarrow> string \<Rightarrow> fm_statuses \<Rightarrow> fm_statuses" where
  "fm_SetFailure fm msg st = st\<lparr>fm_mapStatuses := (fm_mapStatuses st)(fm_key_of fm \<mapsto> mk_condition ''Ready'' ConditionFalse ''Failure'' msg)\<rparr>"

definition fm_CheckCardinality :: "card_table \<Rightarrow> FlowMetric \<Rightarrow> fm_statuses \<Rightarrow> fm_statuses" where
  "fm_CheckCardinality t fm st =
     (case card_CheckCardinality t (fms_Labels (flm_Spec fm)) of
        Inl e \<Rightarrow> fm_SetFailure fm e st
      | Inr r \<Rightarrow>
          (let overall = GetOverall r;
               c = mk_condition ''CardinalityWarning'' (if overall = WarnAvoid \<or> overall = WarnUnknown then ConditionTrue else ConditionFalse)
                     (warn_string overall) (GetDetails r)
           in fm_SetReady fm (st\<lparr>fm_mapCards := (fm_mapCards st)(fm_key_of fm \<mapsto> c)\<rparr>)))"

definition apply_fm_status :: "int \<Rightarrow> fm_statuses \<Rightarrow> FlowMetric \<Rightarrow> FlowMetricStatus \<Rightarrow> FlowMetricStatus" where
  "apply_fm_status now st fm s =
     (let cs = (case fm_mapStatuses st (fm_key_of fm) of None \<Rightarrow> fmst_Conditions s | Some c \<Rightarrow> SetStatusCondition now (fmst_Conditions s) c);
          cs = (case fm_mapCards st (fm_key_of fm) of None \<Rightarrow> cs | Some c \<Rightarrow> SetStatusCondition now cs c)
      in s\<lparr>fmst_Conditions := cs, fmst_PrometheusName := fmst_PrometheusName (flm_Status fm)\<rparr>)"

record 'w metric_api =
  mapi_Get :: "fm_key \<Rightarrow> 'w \<Rightarrow> api_error + FlowMetric"
  mapi_StatusUpdate :: "FlowMetric \<Rightarrow> 'w \<Rightarrow> api_error option \<times> 'w"

definition fm_setStatus :: "'w metric_api \<Rightarrow> fm_key \<Rightarrow> (FlowMetricStatus \<Rightarrow> FlowMetricStatus) \<Rightarrow> 'w \<Rightarrow> 'w" where
  "fm_setStatus c key applyStatus w =
     (case RetryOnConflict DefaultBackoff_Steps 0
        (\<lambda>k w. case mapi_Get c key w of
                Inl NotFound \<Rightarrow> (None, None, w)
              | Inl e \<Rightarrow> (Some e, None, w)
              | Inr fm \<Rightarrow> (case mapi_StatusUpdate c (fm\<lparr>flm_Status := applyStatus (flm_Status fm)\<rparr>) w of
                  (e, w') \<Rightarrow> (e, Some (), w'))) w of
        (_, _, w') \<Rightarrow> w')"

fun fm_Sync :: "int \<Rightarrow> 'w metric_api \<Rightarrow> fm_statuses \<Rightarrow> FlowMetric list \<Rightarrow> 'w \<Rightarrow> 'w" where
  "fm_Sync now c st [] w = w"
| "fm_Sync now c st (fm # fms) w =
     fm_Sync now c st fms
       (case fm_mapStatuses st (fm_key_of fm) of
          None \<Rightarrow> w
        | Some _ \<Rightarrow> fm_setStatus c (fm_key_of fm) (apply_fm_status now st fm) w)"

end
