(* ===== verification/Metric_Status_Correct.thy ===== *)
theory Metric_Status_Correct
  imports Metric_Status
begin

text \<open>
  What admission says about a user-defined metric, the meaning of its cardinality level, valid Prometheus
  names, and the names of the match types.
\<close>

section \<open>Cardinality\<close>

lemma check_labels_spec:
  "check_labels (Inr m) ls r = Inr (\<lambda>w. r w @ filter (\<lambda>l. (case m l of Some v \<Rightarrow> v | None \<Rightarrow> WarnUnknown) = w) ls)"
  by (induction ls arbitrary: r) (auto simp: getCardinality_def fun_eq_iff)

definition level_of :: "(string \<rightharpoonup> Warn) \<Rightarrow> string \<Rightarrow> Warn" where
  "level_of m l = (case m l of Some v \<Rightarrow> v | None \<Rightarrow> WarnUnknown)"

fun badness :: "Warn \<Rightarrow> nat" where
  "badness WarnFine = 0" | "badness WarnCareful = 1" | "badness WarnUnknown = 2" | "badness WarnAvoid = 3"

lemma report_nonempty: "filter (\<lambda>l. level_of m l = w) ls \<noteq> [] \<longleftrightarrow> (\<exists>l \<in> set ls. level_of m l = w)"
  by (auto simp: filter_empty_conv)

lemma report_eq:
  "card_CheckCardinality (Inr m) ls = Inr (\<lambda>w. filter (\<lambda>l. level_of m l = w) ls)"
  by (simp add: card_CheckCardinality_def check_labels_spec level_of_def)

lemma overall_max: "badness (GetOverall (\<lambda>w. filter (\<lambda>l. level_of m l = w) ls)) = Max (insert 0 (badness ` level_of m ` set ls))"
proof -
  let ?S = "badness ` level_of m ` set ls" and ?r = "\<lambda>w. filter (\<lambda>l. level_of m l = w) ls"
  have mem: "badness w \<in> ?S \<longleftrightarrow> ?r w \<noteq> []" for w
  proof -
    have inj: "badness a = badness b \<longleftrightarrow> a = b" for a b by (cases a; cases b) simp_all
    have "badness w \<in> ?S \<longleftrightarrow> (\<exists>l \<in> set ls. level_of m l = w)" using inj by (auto simp: image_iff)
    then show ?thesis using report_nonempty[of m w ls] by simp
  qed
  have le: "x \<le> n" if "x \<in> ?S" "\<And>w. ?r w \<noteq> [] \<Longrightarrow> badness w \<le> n" for x n
  proof -
    from that(1) obtain w where "x = badness w" by auto
    then show ?thesis using that mem[of w] by simp
  qed
  have fin: "finite (insert 0 ?S)" by simp
  have eq: "Max (insert 0 ?S) = n" if "n \<in> insert 0 ?S" "\<And>x. x \<in> ?S \<Longrightarrow> x \<le> n" for n
    using that fin by (intro Max_eqI) auto
  consider "?r WarnAvoid \<noteq> []" | "?r WarnAvoid = []" "?r WarnUnknown \<noteq> []" | "?r WarnAvoid = []" "?r WarnUnknown = []" "?r WarnCareful \<noteq> []"
    | "?r WarnAvoid = []" "?r WarnUnknown = []" "?r WarnCareful = []" by blast
  then show ?thesis
  proof cases
    case 1
    then have worst: "?r w \<noteq> [] \<Longrightarrow> badness w \<le> 3" for w by (cases w) simp_all
    have "Max (insert 0 ?S) = 3" by (rule eq) (use 1 mem[of WarnAvoid] le[OF _ worst] in auto)
    with 1 show ?thesis by (simp add: GetOverall_def levels_def)
  next
    case 2
    then have worst: "?r w \<noteq> [] \<Longrightarrow> badness w \<le> 2" for w by (cases w) simp_all
    have "Max (insert 0 ?S) = 2" by (rule eq) (use 2 mem[of WarnUnknown] le[OF _ worst] in auto)
    with 2 show ?thesis by (simp add: GetOverall_def levels_def)
  next
    case 3
    then have worst: "?r w \<noteq> [] \<Longrightarrow> badness w \<le> 1" for w by (cases w) simp_all
    have "Max (insert 0 ?S) = 1" by (rule eq) (use 3 mem[of WarnCareful] le[OF _ worst] in auto)
    with 3 show ?thesis by (simp add: GetOverall_def levels_def)
  next
    case 4
    then have worst: "?r w \<noteq> [] \<Longrightarrow> badness w \<le> 0" for w by (cases w) simp_all
    have "Max (insert 0 ?S) = 0" by (rule eq) (use 4 le[OF _ worst] in auto)
    with 4 show ?thesis by (simp add: GetOverall_def levels_def)
  qed
qed

text \<open>
  The level of a metric is the worst level of its labels, where a label that the table does not know is worse
  than one to be careful with and better than one to avoid; a metric without labels is fine.
\<close>

theorem cardinality_overall:
  "\<exists>r. card_CheckCardinality (Inr m) labels = Inr r
     \<and> badness (GetOverall r) = Max (insert 0 (badness ` level_of m ` set labels))"
  by (simp add: report_eq overall_max)

text \<open>An error of the table makes the webhook read a nil report.\<close>

theorem broken_table_panics: "me_cards env = Inl e \<Longrightarrow> fms_Labels (flm_Spec fm) \<noteq> [] \<Longrightarrow> checkFlowMetricCardinality env fm = None"
  by (cases "fms_Labels (flm_Spec fm)") (simp_all add: checkFlowMetricCardinality_def card_CheckCardinality_def getCardinality_def)

section \<open>Admission and translation\<close>

lemma parse_buckets_ok: "(\<forall>b \<in> set bs. pf b \<noteq> None) \<longleftrightarrow> (\<exists>fs. parse_buckets pf bs = Inr fs)"
  by (induction bs) (auto split: option.splits sum.splits)

lemma parse_buckets_length: "parse_buckets pf bs = Inr fs \<Longrightarrow> length fs = length bs"
  by (induction bs arbitrary: fs) (auto split: option.splits sum.splits)

lemma accepted_buckets: "metric_errors env s = [] \<Longrightarrow> \<forall>b \<in> set (fms_Buckets s). me_ParseFloat env b \<noteq> None"
  by (auto simp: metric_errors_def Let_def filter_empty_conv)


definition sample_metric :: FlowMetric where
  "sample_metric = \<lparr>flm_Name = ''m'', flm_Namespace = ''ns'', flm_Spec = zero_metric\<lparr>fms_Type := ''Counter'', fms_Divider := ''x''\<rparr>,
     flm_Status = \<lparr>fmst_Conditions = [], fmst_PrometheusName = []\<rparr>\<rparr>"

definition sample_menv :: "nat metric_env" where
  "sample_menv = \<lparr>me_fields = Some [], me_cards = Inr Map.empty, me_ParseFloat = (\<lambda>s. if s = ''1'' then Some 1 else None)\<rparr>"

lemma sample_metric_accepted: "validateFlowMetric sample_menv sample_metric = Inr (Some [])"
  by (simp add: validateFlowMetric_def sample_menv_def sample_metric_def metric_errors_def zero_metric_def checkFlowMetricCardinality_def
      card_CheckCardinality_def GetOverall_def levels_def)

text \<open>The exception arises: the webhook accepts a metric whose divider is no number, and its translation fails.\<close>

theorem accepted_divider_fails:
  "validateFlowMetric sample_menv sample_metric = Inr (Some [])
   \<and> flowMetricToFLP (me_ParseFloat sample_menv) sample_metric = Inl (BadDivider ''x'')"
  using sample_metric_accepted by (simp add: flowMetricToFLP_def sample_menv_def sample_metric_def zero_metric_def)


text \<open>Without labels, the webhook accepts any remapping and flattening.\<close>

theorem remap_unchecked_without_labels:
  assumes "fms_Labels s = []" and "metric_errors env s = []"
  shows "metric_errors env (s\<lparr>fms_Remap := anything, fms_Flatten := anything'\<rparr>) = []"
proof -
  have "metric_errors env (s\<lparr>fms_Remap := anything, fms_Flatten := anything'\<rparr>) = metric_errors env s"
    using assms(1) by (simp add: metric_errors_def Let_def)
  with assms(2) show ?thesis by simp
qed

section \<open>Names\<close>

lemma match_types:
  "PascalToLower ''Equal'' CHR ''_'' = ''equal''" "PascalToLower ''NotEqual'' CHR ''_'' = ''not_equal''"
  "PascalToLower ''Presence'' CHR ''_'' = ''presence''" "PascalToLower ''Absence'' CHR ''_'' = ''absence''"
  "PascalToLower ''MatchRegex'' CHR ''_'' = ''match_regex''" "PascalToLower ''NotMatchRegex'' CHR ''_'' = ''not_match_regex''"
  by code_simp+

text \<open>Despite its name, the conversion to lower case gives upper case for the exceptions.\<close>

theorem PascalToLower_upper: "PascalToLower ''eBPF'' CHR ''_'' = ''EBPF''"
  by code_simp

text \<open>A separator at the end makes the conversion from upper case panic.\<close>

theorem UpperToPascal_panics: "UpperToPascal ''FLOWS_'' = None"
  by code_simp

end
