(* ===== verification/Otel_Config.thy ===== *)
theory Otel_Config
  imports Metric_Status
begin

text \<open>
  \<open>internal/pkg/helper/otel/otel_config.go\<close>: the renaming of flow fields for OpenTelemetry exporters. The
  table is the embedded file \<open>otel-config.json\<close>, parsed once: either the error of parsing it, or its entries
  in the order in which Go ranges over the map. The cached package variables hold the same values on every call.
\<close>

type_synonym otel_table = "string + (string \<times> string) list"

record TransformGeneric =
  tg_Policy :: string
  tg_Rules :: "GenericTransformRule list"

definition GetOtelTransformRules :: "otel_table \<Rightarrow> string + GenericTransformRule list" where
  "GetOtelTransformRules t =
     (case t of
        Inl e \<Rightarrow> Inl e
      | Inr cfg \<Rightarrow> Inr (sort_key gtr_Input (map (\<lambda>(k, v). \<lparr>gtr_Input = k, gtr_Output = v, gtr_Multiplier = 0\<rparr>) cfg)))"

definition GetOtelTransformConfig :: "otel_table \<Rightarrow> GenericTransformRule list option \<Rightarrow> string + TransformGeneric" where
  "GetOtelTransformConfig t rules =
     (case GetOtelTransformRules t of
        Inl e \<Rightarrow> Inl e
      | Inr otelRules \<Rightarrow>
          Inr \<lparr>tg_Policy = ''replace_keys'',
               tg_Rules = (case rules of None \<Rightarrow> otelRules
                 | Some rs \<Rightarrow> map (\<lambda>r. \<lparr>gtr_Input = gtr_Input r, gtr_Output = gtr_Output r, gtr_Multiplier = gtr_Multiplier r\<rparr>) rs)\<rparr>)"

fun convertToOtelLabel :: "GenericTransformRule list \<Rightarrow> string \<Rightarrow> string" where
  "convertToOtelLabel [] input = input"
| "convertToOtelLabel (tr # trs) input = (if gtr_Input tr = input then gtr_Output tr else convertToOtelLabel trs input)"

definition convertToOtelFilters :: "GenericTransformRule list \<Rightarrow> MetricsFilter list \<Rightarrow> MetricsFilter list" where
  "convertToOtelFilters rules filters =
     map (\<lambda>f. \<lparr>mfi_Key = convertToOtelLabel rules (mfi_Key f), mfi_Value = mfi_Value f, mfi_Type = mfi_Type f\<rparr>) filters"

definition convertToOtelLabels :: "GenericTransformRule list \<Rightarrow> string list \<Rightarrow> string list" where
  "convertToOtelLabels rules labels = map (convertToOtelLabel rules) labels"

definition GetOtelMetrics :: "otel_table \<Rightarrow> 'f MetricsItem list \<Rightarrow> string + 'f MetricsItem list" where
  "GetOtelMetrics t flpMetrics =
     (case GetOtelTransformRules t of
        Inl e \<Rightarrow> Inl e
      | Inr otelRules \<Rightarrow>
          Inr (map (\<lambda>m.
            \<lparr>mi_Name = convertToOtelLabel otelRules (mi_Name m), mi_Type = mi_Type m, mi_Help = mi_Help m,
             mi_Filters = convertToOtelFilters otelRules (mi_Filters m), mi_Labels = convertToOtelLabels otelRules (mi_Labels m),
             mi_Remap = [], mi_Flatten = [], mi_ValueKey = convertToOtelLabel otelRules (mi_ValueKey m),
             mi_Buckets = mi_Buckets m, mi_ValueScale = mi_ValueScale m\<rparr>) flpMetrics))"

section \<open>The table as a renaming\<close>

text \<open>The order of the parsed entries is of no effect when their keys are distinct.\<close>

lemma convert_is_map_of: "convertToOtelLabel rs x = (case map_of (map (\<lambda>r. (gtr_Input r, gtr_Output r)) rs) x of Some y \<Rightarrow> y | None \<Rightarrow> x)"
  by (induction rs) auto

lemma otel_rules_lookup:
  assumes "distinct (map fst cfg)" "GetOtelTransformRules (Inr cfg) = Inr rs"
  shows "convertToOtelLabel rs x = (case map_of cfg x of Some y \<Rightarrow> y | None \<Rightarrow> x)"
proof -
  let ?r = "\<lambda>(k, v). \<lparr>gtr_Input = k, gtr_Output = v, gtr_Multiplier = 0\<rparr> :: GenericTransformRule"
  let ?p = "\<lambda>r. (gtr_Input r, gtr_Output r)"
  have rs: "rs = sort_key gtr_Input (map ?r cfg)" using assms(2) by (simp add: GetOtelTransformRules_def)
  have p: "map (?p \<circ> ?r) cfg = cfg" by (rule map_idI) auto
  have m: "mset (map ?p rs) = mset cfg"
  proof -
    have "mset (map ?p rs) = image_mset ?p (mset (map ?r cfg))" by (simp only: rs mset_map mset_sort)
    also have "\<dots> = mset (map (?p \<circ> ?r) cfg)" by (simp only: mset_map image_mset.compositionality)
    finally show ?thesis by (simp only: p)
  qed
  then have "set (map ?p rs) = set cfg" by (rule mset_eq_setD)
  moreover have "distinct (map fst (map ?p rs))"
  proof -
    have "mset (map fst (map ?p rs)) = mset (map fst cfg)" using m by (simp only: mset_map)
    then show ?thesis using assms(1) mset_eq_imp_distinct_iff by blast
  qed
  ultimately have "map_of (map ?p rs) = map_of cfg"
    using assms(1) by (intro map_of_inject_set[THEN iffD2]) auto
  then show ?thesis by (simp add: convert_is_map_of)
qed

text \<open>
  The metrics sent to an OpenTelemetry exporter lose their remapping and their flattening, whatever they are.
\<close>

theorem otel_metrics_drop_remap:
  "GetOtelMetrics (Inr cfg) [m] = Inr ms \<Longrightarrow> mi_Remap (hd ms) = [] \<and> mi_Flatten (hd ms) = []"
  by (auto simp: GetOtelMetrics_def GetOtelTransformRules_def)

end
