(* ===== verification/Helpers.thy ===== *)
theory Helpers
  imports Health_Rules TLS_Config
begin

text \<open>
  The small helpers of \<open>internal/pkg/helper\<close> that the object builders share: \<open>helpers.go\<close>, \<open>env.go\<close> and
  \<open>monitoring.go\<close>. A map is a partial function; \<open>KeySorted\<close> sorts its pairs by key, so that the order in which
  Go ranges over the map has no effect. The memory limit of a resource requirement is an argument, being the
  number that \<open>Quantity.AsInt64\<close> yields, or none when the requirement has no such limit.
\<close>

section \<open>Strings\<close>

fun ContainsString :: "string list \<Rightarrow> string \<Rightarrow> bool" where
  "ContainsString [] s = False"
| "ContainsString (item # items) s = (if item = s then True else ContainsString items s)"

fun Intersect :: "string list \<Rightarrow> string list \<Rightarrow> bool" where
  "Intersect [] second = False"
| "Intersect (i # is) second = (if ContainsString second i then True else Intersect is second)"

text \<open>One occurrence is cut out per call, and the function calls itself on the rest.\<close>

definition cut_first :: "string list \<Rightarrow> string \<Rightarrow> string list option" where
  "cut_first xs search =
     (case slice_index xs search of None \<Rightarrow> None | Some i \<Rightarrow> Some (take i xs @ drop (Suc i) xs))"

lemma cut_first_shorter: "cut_first xs s = Some ys \<Longrightarrow> length ys < length xs"
proof -
  assume "cut_first xs s = Some ys"
  then obtain i where i: "slice_index xs s = Some i" "ys = take i xs @ drop (Suc i) xs"
    by (auto simp: cut_first_def split: option.splits)
  have "slice_index zs s = Some j \<Longrightarrow> j < length zs" for zs j
    by (induction zs arbitrary: j) (auto split: if_splits option.splits)
  from this[OF i(1)] show ?thesis by (simp add: i(2))
qed

function RemoveAllStrings :: "string list \<Rightarrow> string \<Rightarrow> string list" where
  "RemoveAllStrings xs search = (case cut_first xs search of None \<Rightarrow> xs | Some rest \<Rightarrow> RemoveAllStrings rest search)"
  by auto
termination by (relation "measure (\<lambda>(xs, _). length xs)") (auto dest: cut_first_shorter)

declare RemoveAllStrings.simps [simp del]

definition ExtractVersion :: "string \<Rightarrow> string" where
  "ExtractVersion img =
     (let parts = split_on CHR '':'' img in if length parts > 1 then last parts else ''unknown'')"

definition maxLabelLength :: nat where "maxLabelLength = 63"

definition MaxLabelLength :: "string \<Rightarrow> string" where
  "MaxLabelLength s = (if length s \<le> maxLabelLength then s else take maxLabelLength s)"

definition UnstructuredDuration :: "duration option \<Rightarrow> string" where
  "UnstructuredDuration d = (case d of None \<Rightarrow> [] | Some x \<Rightarrow> duration_string x)"

definition KeySorted :: "string_map \<Rightarrow> (string \<times> string) list" where
  "KeySorted m = map (\<lambda>k. (k, the (m k))) (sorted_list_of_set (dom m))"

section \<open>Environment variables\<close>

text \<open>
  \<open>memLimit - int64(float64(memLimit) * 0.1)\<close>: the conversion to \<open>float64\<close> rounds above \<open>2 ^ 53\<close> and the product
  with the nearest double of one tenth is rounded and truncated; the result of that product is the argument \<open>tenth\<close>.
\<close>

definition EnvFromReqsLimits :: "(int \<Rightarrow> int) \<Rightarrow> (string \<times> string) list \<Rightarrow> int option \<Rightarrow> (string \<times> string) list" where
  "EnvFromReqsLimits tenth envs memLimit =
     (case memLimit of
        Some l \<Rightarrow> if l > 0 then envs @ [(''GOMEMLIMIT'', itoa (l - tenth l))] else envs
      | None \<Rightarrow> envs)"

definition AppendTLSEnvVars :: "(string \<times> string) list \<Rightarrow> tls_Config option \<Rightarrow> (string \<times> string) list" where
  "AppendTLSEnvVars envs tlsCfg = (case tlsCfg of None \<Rightarrow> envs | Some c \<Rightarrow> envs @ ConfigToEnvVars (Some c))"

section \<open>Service monitors\<close>

datatype SecretOrConfigMap = NoSelector | ConfigMapKey string string | SecretKey string string

definition GetSecretOrConfigMap :: "FileReference \<Rightarrow> SecretOrConfigMap" where
  "GetSecretOrConfigMap f =
     (if fref_Type f = RefTypeConfigMap then ConfigMapKey (fref_Name f) (fref_File f) else SecretKey (fref_Name f) (fref_File f))"

record monitor_TLSConfig =
  mtls_ServerName :: string
  mtls_InsecureSkipVerify :: "bool option"
  mtls_CA :: SecretOrConfigMap
  mtls_CAFile :: string

definition GetServiceMonitorTLSConfig :: "ServerTLS \<Rightarrow> string \<Rightarrow> string \<times> monitor_TLSConfig option" where
  "GetServiceMonitorTLSConfig t serverName =
     (if stls_Type t = TLSAuto then
        (''https'', Some \<lparr>mtls_ServerName = serverName, mtls_InsecureSkipVerify = None, mtls_CA = NoSelector,
           mtls_CAFile = ''/etc/prometheus/configmaps/serving-certs-ca-bundle/service-ca.crt''\<rparr>)
      else if stls_Type t = TLSProvided then
        (''https'', Some \<lparr>mtls_ServerName = serverName, mtls_InsecureSkipVerify = Some (stls_InsecureSkipVerify t),
           mtls_CA = (case stls_ProvidedCAFile t of
              Some f \<Rightarrow> if \<not> stls_InsecureSkipVerify t \<and> fref_File f \<noteq> [] then GetSecretOrConfigMap f else NoSelector
            | None \<Rightarrow> NoSelector),
           mtls_CAFile = []\<rparr>)
      else (''http'', None))"

section \<open>What the helpers compute\<close>

lemma ContainsString_iff [simp]: "ContainsString xs s \<longleftrightarrow> s \<in> set xs"
  by (induction xs) auto

lemma Intersect_iff [simp]: "Intersect xs ys \<longleftrightarrow> set xs \<inter> set ys \<noteq> {}"
  by (induction xs) auto

lemma cut_first_filter: "cut_first xs s = Some ys \<Longrightarrow> filter (\<lambda>x. x \<noteq> s) ys = filter (\<lambda>x. x \<noteq> s) xs"
  by (induction xs arbitrary: ys) (auto simp: cut_first_def split: if_splits option.splits)

lemma cut_first_None: "cut_first xs s = None \<longleftrightarrow> s \<notin> set xs"
  by (simp add: cut_first_def del: slice_index_None flip: slice_index_None split: option.splits)

text \<open>Every occurrence is removed and the order of the others kept.\<close>

theorem RemoveAllStrings_filter: "RemoveAllStrings xs s = filter (\<lambda>x. x \<noteq> s) xs"
proof (induction xs s rule: RemoveAllStrings.induct)
  case (1 xs search)
  show ?case
  proof (cases "cut_first xs search")
    case None
    then have "filter (\<lambda>x. x \<noteq> search) xs = xs"
      by (metis (full_types) cut_first_None filter_True)
    with None show ?thesis by (simp add: RemoveAllStrings.simps)
  next
    case (Some rest)
    with 1 show ?thesis by (simp add: RemoveAllStrings.simps cut_first_filter)
  qed
qed

lemma MaxLabelLength_length: "length (MaxLabelLength s) \<le> 63"
  by (simp add: MaxLabelLength_def maxLabelLength_def)

text \<open>The sorted pairs are the map, each key once, in increasing order.\<close>

lemma KeySorted_map:
  assumes "finite (dom m)"
  shows "map_of (KeySorted m) = m" "distinct (map fst (KeySorted m))" "sorted (map fst (KeySorted m))"
proof -
  let ?ks = "sorted_list_of_set (dom m)"
  have keys: "map fst (KeySorted m) = ?ks" by (simp add: KeySorted_def comp_def)
  show "distinct (map fst (KeySorted m))" "sorted (map fst (KeySorted m))" by (simp_all add: keys)
  show "map_of (KeySorted m) = m"
  proof
    fix k
    show "map_of (KeySorted m) k = m k"
      using assms by (cases "m k") (auto simp: KeySorted_def map_of_map_restrict restrict_map_def)
  qed
qed

end
