(* ===== verification/Pipeline.thy ===== *)
theory Pipeline
  imports Slices Volumes Loki_Config Advanced_Config Helpers Otel_Config
begin

text \<open>
  \<open>internal/controller/flp/flp_pipeline_builder.go\<close>: the configuration of flowlogs-pipeline, built stage by
  stage with the pipeline builder of the vendored package \<open>flowlogs-pipeline/pkg/config\<close>. A stage handle of
  that package is the name of its stage; the pipeline that all handles share, the volumes, the slices and
  metrics whose statuses are written, and the two status tables are the state \<open>pstate\<close> that every method
  returns updated.
\<close>

section \<open>The pipeline of the vendored package\<close>

record Stage =
  stage_Name :: string
  stage_Follows :: string

record K8sRule =
  kr_IPField :: string
  kr_MACField :: string
  kr_InterfacesField :: string
  kr_UDNsField :: string
  kr_Output :: string
  kr_AddZone :: bool

record K8sReference =
  kref_Namespace :: string
  kref_Name :: string

record K8sInfraRule =
  kir_NamespaceNameFields :: "K8sReference list"
  kir_Output :: string
  kir_InfraPrefixes :: "string list"
  kir_InfraRefs :: "K8sReference list"

datatype NetworkTransformRule =
  NetworkAddKubernetes K8sRule
| NetworkReinterpretDirection
| NetworkDecodeTCPFlags string string
| NetworkAddKubernetesInfra K8sInfraRule
| NetworkAddSubnetLabel string string
| NetworkAddASNLabel string string

record api_SecondaryNetwork =
  asn_Name :: string
  asn_Index :: "string set"

record DirectionInfo =
  di_ReporterIPField :: string
  di_SrcHostField :: string
  di_DstHostField :: string
  di_FlowDirectionField :: string

record TransformNetwork =
  tn_Rules :: "NetworkTransformRule list"
  tn_DirectionInfo :: "DirectionInfo option"
  tn_SecondaryNetworks :: "api_SecondaryNetwork list"
  tn_TrackedKinds :: "string list"
  tn_SubnetLabels :: "(string \<times> string list) list"

datatype RemoveEntryRule = RemoveEntryIfEqual string int bool | RemoveEntryIfExists string

datatype TransformFilterRule =
  TfKeepEntryQuery keep_rule
| TfAddFieldIfDoesntExist string string
| TfRemoveEntryAllSatisfied "RemoveEntryRule list"
| TfConditionalSampling "(RemoveEntryRule list \<times> int) list"

record TransformFilter =
  tf_Rules :: "TransformFilterRule list"
  tf_SamplingField :: string

record OutputField =
  of_Name :: string
  of_Operation :: string
  of_SplitAB :: bool
  of_Input :: string
  of_ReportMissing :: bool

record ConnTrack =
  ct_FieldGroups :: "(string \<times> string list) list"
  ct_HashFieldGroupRefs :: "string list"
  ct_HashFieldGroupARef :: string
  ct_HashFieldGroupBRef :: string
  ct_OutputRecordTypes :: "ConnTrackOutputRecordType list"
  ct_OutputFields :: "OutputField list"
  ct_HeartbeatInterval :: duration
  ct_EndConnectionTimeout :: duration
  ct_TerminatingTimeout :: duration
  ct_TCPFlagsFieldName :: string
  ct_TCPFlagsDetectEnd :: bool
  ct_TCPFlagsSwapAB :: bool

record api_ClientTLS =
  act_InsecureSkipVerify :: bool
  act_CACertPath :: string
  act_UserCertPath :: string
  act_UserKeyPath :: string

datatype api_SASLType = ApiSASLPlain | ApiSASLScramSHA512

record api_SASLConfig =
  asasl_Type :: api_SASLType
  asasl_ClientIDPath :: string
  asasl_ClientSecretPath :: string

record IngestGRPCProto =
  ig_Port :: int
  ig_CertPath :: string
  ig_KeyPath :: string
  ig_ClientCAPath :: string

record IngestKafka =
  ik_Brokers :: "string list"
  ik_Topic :: string
  ik_GroupID :: string
  ik_Decoder :: string
  ik_TLS :: "api_ClientTLS option"
  ik_SASL :: "api_SASLConfig option"
  ik_PullQueueCapacity :: int
  ik_PullMaxBytes :: int

record EncodeKafka =
  ek_Address :: string
  ek_Topic :: string
  ek_Compression :: string
  ek_TLS :: "api_ClientTLS option"
  ek_SASL :: "api_SASLConfig option"

record WriteIpfix =
  wi_TargetHost :: string
  wi_TargetPort :: int
  wi_Transport :: string
  wi_EnterpriseID :: int

record OtlpConnectionInfo =
  oc_Address :: string
  oc_Port :: int
  oc_ConnectionType :: string
  oc_TLS :: "api_ClientTLS option"
  oc_Headers :: string_map

record WriteLoki =
  wl_Labels :: "string list"
  wl_BatchSize :: int
  wl_BatchWait :: string
  wl_MaxBackoff :: string
  wl_MaxRetries :: int
  wl_MinBackoff :: string
  wl_StaticLabels :: string_map
  wl_Timeout :: string
  wl_URL :: string
  wl_TimestampLabel :: string
  wl_TimestampScale :: string
  wl_TenantID :: string
  wl_Authorization :: "(string \<times> string) option"
  wl_InsecureSkipVerify :: bool
  wl_CAFile :: string

record 'f EncodeOtlpMetrics =
  eom_Connection :: OtlpConnectionInfo
  eom_Prefix :: string
  eom_Metrics :: "'f MetricsItem list"
  eom_PushTimeInterval :: duration
  eom_ExpiryTime :: duration

datatype 'f stage_params =
  PGRPC IngestGRPCProto
| PKafkaIngest IngestKafka
| PConnTrack ConnTrack
| PNetwork TransformNetwork
| PFilter TransformFilter
| PGeneric TransformGeneric
| PProm string "'f MetricsItem list"
| PKafka EncodeKafka
| POtelLogs OtlpConnectionInfo
| POtelMetrics "'f EncodeOtlpMetrics"
| PStdout string
| PLoki WriteLoki
| PIpfix WriteIpfix

record 'f StageParam =
  sp_Name :: string
  sp_Params :: "'f stage_params"
  sp_isDynamic :: bool

record 'f pipeline =
  pl_stages :: "Stage list"
  pl_config :: "'f StageParam list"

definition new_pipeline :: "string \<Rightarrow> 'f stage_params \<Rightarrow> 'f pipeline" where
  "new_pipeline name ingest =
     \<lparr>pl_stages = [\<lparr>stage_Name = name, stage_Follows = []\<rparr>],
      pl_config = [\<lparr>sp_Name = name, sp_Params = ingest, sp_isDynamic = False\<rparr>]\<rparr>"

definition GetSplitStageParams :: "'f pipeline \<Rightarrow> 'f StageParam list \<times> 'f StageParam list" where
  "GetSplitStageParams p = (filter (\<lambda>x. \<not> sp_isDynamic x) (pl_config p), filter sp_isDynamic (pl_config p))"

section \<open>The state of the builder\<close>

record 'f pstate =
  ps_pipeline :: "'f pipeline"
  ps_volumes :: Builder
  ps_slices :: "FlowCollectorSlice list"
  ps_slice_st :: slice_statuses
  ps_metrics :: "FlowMetric list"
  ps_fm_st :: fm_statuses

definition pipe_next :: "bool \<Rightarrow> string \<Rightarrow> 'f stage_params \<Rightarrow> string \<Rightarrow> 'f pstate \<Rightarrow> string \<times> 'f pstate" where
  "pipe_next dynamic name params lastStage s =
     (name, s\<lparr>ps_pipeline :=
        \<lparr>pl_stages = pl_stages (ps_pipeline s) @ [\<lparr>stage_Name = name, stage_Follows = lastStage\<rparr>],
         pl_config = pl_config (ps_pipeline s) @ [\<lparr>sp_Name = name, sp_Params = params, sp_isDynamic = dynamic\<rparr>]\<rparr>\<rparr>)"

text \<open>
  What the builder only reads: the fields of \<open>PipelineBuilder\<close>, and the parameters of the model: the defaults
  of the resource definition, the texts of warnings and errors, the embedded tables and the float parser.
\<close>

record 'f PipelineBuilder =
  pb_operandsNamespace :: string
  pb_desired :: FlowCollectorSpec
  pb_detectedSubnets :: "SubnetLabel list"
  pb_loki :: LokiManualParams
  pb_clusterID :: string
  pb_defaults :: crd_defaults
  pb_texts :: slice_texts
  pb_flp_error :: "flp_error \<Rightarrow> string"
  pb_otel :: otel_table
  pb_cards :: card_table
  pb_ParseFloat :: "string \<Rightarrow> 'f option"

datatype pipe_error = WrongCIDR string string | BadPredefined flp_error | OtelTableError string | NilPushTimeInterval

section \<open>Connection tracking\<close>

definition out_field :: "string \<Rightarrow> string \<Rightarrow> bool \<Rightarrow> bool \<Rightarrow> OutputField" where
  "out_field n op splitAB missing = \<lparr>of_Name = n, of_Operation = op, of_SplitAB = splitAB, of_Input = [], of_ReportMissing = missing\<rparr>"

definition conntrack_fields :: "FlowCollectorEBPF \<Rightarrow> OutputField list" where
  "conntrack_fields e =
     [out_field ''Bytes'' ''sum'' False False, out_field ''Bytes'' ''sum'' True False,
      out_field ''Packets'' ''sum'' False False, out_field ''Packets'' ''sum'' True False,
      out_field ''numFlowLogs'' ''count'' False False,
      out_field ''TimeFlowStartMs'' ''min'' False True, out_field ''TimeFlowEndMs'' ''max'' False True,
      out_field ''FlowDirection'' ''first'' False True, out_field ''IfDirection'' ''first'' False True, out_field ''AgentIP'' ''first'' False True]
     @ (if IsPktDropEnabled e then
          [out_field ''PktDropBytes'' ''sum'' False False, out_field ''PktDropBytes'' ''sum'' True False,
           out_field ''PktDropPackets'' ''sum'' False False, out_field ''PktDropPackets'' ''sum'' True False,
           out_field ''PktDropLatestState'' ''last'' False False, out_field ''PktDropLatestDropCause'' ''last'' False False] else [])
     @ (if IsDNSTrackingEnabled e then
          [out_field ''DnsFlagsResponseCode'' ''last'' False False, out_field ''DnsLatencyMs'' ''max'' False False] else [])
     @ (if IsNetworkEventsEnabled e then [out_field ''NetworkEvents'' ''last'' False False] else [])
     @ (if IsFlowRTTEnabled e then [(out_field ''MaxTimeFlowRttNs'' ''max'' False False)\<lparr>of_Input := ''TimeFlowRttNs''\<rparr>] else [])"

text \<open>The three intervals are always set in the effective advanced settings; a nil one would panic.\<close>

definition addConnectionTracking :: "'f PipelineBuilder \<Rightarrow> string \<Rightarrow> 'f pstate \<Rightarrow> string \<times> 'f pstate" where
  "addConnectionTracking b lastStage s =
     (let flp = spec_Processor (pb_desired b) in
      if HasConntrack flp then
        (let adv = GetAdvancedProcessorConfig (pb_defaults b) (pb_desired b) in
         pipe_next False ''extract_conntrack'' (PConnTrack
           \<lparr>ct_FieldGroups = [(''src'', [''SrcAddr'', ''SrcPort'']), (''dst'', [''DstAddr'', ''DstPort'']), (''common'', [''Proto''])],
            ct_HashFieldGroupRefs = [''common''], ct_HashFieldGroupARef = ''src'', ct_HashFieldGroupBRef = ''dst'',
            ct_OutputRecordTypes = GetRecordTypes flp,
            ct_OutputFields = conntrack_fields (agent_EBPF (spec_Agent (pb_desired b))),
            ct_HeartbeatInterval = the (apc_ConversationHeartbeatInterval adv),
            ct_EndConnectionTimeout = the (apc_ConversationEndTimeout adv),
            ct_TerminatingTimeout = the (apc_ConversationTerminatingTimeout adv),
            ct_TCPFlagsFieldName = ''Flags'', ct_TCPFlagsDetectEnd = True, ct_TCPFlagsSwapAB = True\<rparr>) lastStage s)
      else (lastStage, s))"

section \<open>Enrichment\<close>

definition k8s_rule :: "string \<Rightarrow> string \<Rightarrow> string \<Rightarrow> bool \<Rightarrow> NetworkTransformRule" where
  "k8s_rule ip mac out zone = NetworkAddKubernetes
     \<lparr>kr_IPField = ip, kr_MACField = mac, kr_InterfacesField = ''Interfaces'', kr_UDNsField = ''Udns'', kr_Output = out, kr_AddZone = zone\<rparr>"

definition xlat_rule :: "string \<Rightarrow> string \<Rightarrow> NetworkTransformRule" where
  "xlat_rule ip out = NetworkAddKubernetes
     \<lparr>kr_IPField = ip, kr_MACField = [], kr_InterfacesField = [], kr_UDNsField = [], kr_Output = out, kr_AddZone = False\<rparr>"

fun index_string :: "SecondaryNetworkIndex \<Rightarrow> string" where
  "index_string SecondaryNetworkIndexByMAC = ''MAC''"
| "index_string SecondaryNetworkIndexByIP = ''IP''"
| "index_string SecondaryNetworkIndexByInterface = ''Interface''"

definition secondary_networks :: "FlowCollectorSpec \<Rightarrow> api_SecondaryNetwork list" where
  "secondary_networks spec =
     map (\<lambda>sn. \<lparr>asn_Name = [], asn_Index = set (map (\<lambda>i. to_lower (index_string i)) (sn_Index sn))\<rparr>) (GetSecondaryIndexes spec)
     @ (if IsUDNMappingEnabled (agent_EBPF (spec_Agent spec)) then [\<lparr>asn_Name = ''ovn-kubernetes'', asn_Index = {''udn''}\<rparr>] else [])"

definition enrich_rules :: "FlowCollectorSpec \<Rightarrow> string \<Rightarrow> NetworkTransformRule list" where
  "enrich_rules spec ns =
     (let addZone = IsZoneEnabled (spec_Processor spec) in
      [k8s_rule ''SrcAddr'' ''SrcMac'' ''SrcK8S'' addZone, k8s_rule ''DstAddr'' ''DstMac'' ''DstK8S'' addZone]
      @ (if IsPacketTranslationEnabled (agent_EBPF (spec_Agent spec))
         then [xlat_rule ''XlatSrcAddr'' ''XlatSrcK8S'', xlat_rule ''XlatDstAddr'' ''XlatDstK8S''] else [])
      @ [NetworkReinterpretDirection, NetworkDecodeTCPFlags ''Flags'' ''Flags'',
         NetworkAddKubernetesInfra
           \<lparr>kir_NamespaceNameFields = [\<lparr>kref_Namespace = ''SrcK8S_Namespace'', kref_Name = ''SrcK8S_Name''\<rparr>,
              \<lparr>kref_Namespace = ''DstK8S_Namespace'', kref_Name = ''DstK8S_Name''\<rparr>],
            kir_Output = ''K8S_FlowLayer'', kir_InfraPrefixes = [ns, ''openshift''],
            kir_InfraRefs = [\<lparr>kref_Namespace = ''default'', kref_Name = ''kubernetes''\<rparr>, \<lparr>kref_Namespace = ''default'', kref_Name = ''openshift''\<rparr>]\<rparr>])"

definition addEnrichStage :: "'f PipelineBuilder \<Rightarrow> string \<Rightarrow> 'f pstate \<Rightarrow> string \<times> 'f pstate" where
  "addEnrichStage b previous s =
     pipe_next False ''enrich'' (PNetwork
       \<lparr>tn_Rules = enrich_rules (pb_desired b) (pb_operandsNamespace b),
        tn_DirectionInfo = Some \<lparr>di_ReporterIPField = ''AgentIP'', di_SrcHostField = ''SrcK8S_HostIP'', di_DstHostField = ''DstK8S_HostIP'', di_FlowDirectionField = ''FlowDirection''\<rparr>,
        tn_SecondaryNetworks = secondary_networks (pb_desired b), tn_TrackedKinds = [''ReplicaSet'', ''Deployment'', ''Gateway''],
        tn_SubnetLabels = []\<rparr>) previous s"

section \<open>Subnet labels, BGP\<close>

text \<open>The CIDRs of the administrator's labels, or the first one that does not parse.\<close>

fun label_networks :: "string \<Rightarrow> string list \<Rightarrow> pipe_error + IPNet list" where
  "label_networks name [] = Inr []"
| "label_networks name (c # cs) =
     (case ParseCIDR c of
        None \<Rightarrow> Inl (WrongCIDR name c)
      | Some n \<Rightarrow> (case label_networks name cs of Inl e \<Rightarrow> Inl e | Inr ns \<Rightarrow> Inr (n # ns)))"

fun custom_cidrs :: "SubnetLabel list \<Rightarrow> pipe_error + IPNet list" where
  "custom_cidrs [] = Inr []"
| "custom_cidrs (l # ls) =
     (case label_networks (sl_Name l) (sl_CIDRs l) of
        Inl e \<Rightarrow> Inl e
      | Inr ns \<Rightarrow> (case custom_cidrs ls of Inl e \<Rightarrow> Inl e | Inr ms \<Rightarrow> Inr (ns @ ms)))"

definition subnetLabelsToFLP :: "SubnetLabel list \<Rightarrow> (string \<times> string list) list" where
  "subnetLabelsToFLP labels = map (\<lambda>l. (sl_Name l, sl_CIDRs l)) labels"

definition network_stage :: "NetworkTransformRule list \<Rightarrow> (string \<times> string list) list \<Rightarrow> 'f stage_params" where
  "network_stage rules labels = PNetwork
     \<lparr>tn_Rules = rules, tn_DirectionInfo = None, tn_SecondaryNetworks = [], tn_TrackedKinds = [], tn_SubnetLabels = labels\<rparr>"

definition subnet_stage :: "'f PipelineBuilder \<Rightarrow> IPNet list \<Rightarrow> string \<Rightarrow> 'f pstate \<Rightarrow> string \<times> 'f pstate" where
  "subnet_stage b cidrs previous s =
     (let (fromSlices, s1) =
        (if IsSliceEnabled (pb_desired b)
         then (case slicesToFCSubnetLabels (pb_texts b) (ps_slices s) cidrs (ps_slice_st s) of
                 (ls, ss, st) \<Rightarrow> (ls, s\<lparr>ps_slices := ss, ps_slice_st := st\<rparr>))
         else ([], s));
          flpLabels = subnetLabelsToFLP (sls_CustomLabels (flp_SubnetLabels (spec_Processor (pb_desired b))) @ fromSlices @ pb_detectedSubnets b)
      in if length flpLabels > 0 then
           pipe_next True ''subnets'' (network_stage
             [NetworkAddSubnetLabel ''SrcAddr'' ''SrcSubnetLabel'', NetworkAddSubnetLabel ''DstAddr'' ''DstSubnetLabel''] flpLabels) previous s1
         else (previous, s1))"

definition addSubnetLabelsStage :: "'f PipelineBuilder \<Rightarrow> string \<Rightarrow> 'f pstate \<Rightarrow> (pipe_error + string) \<times> 'f pstate" where
  "addSubnetLabelsStage b previous s =
     (case custom_cidrs (sls_CustomLabels (flp_SubnetLabels (spec_Processor (pb_desired b)))) of
        Inl e \<Rightarrow> (Inl e, s)
      | Inr cidrs \<Rightarrow> (case subnet_stage b cidrs previous s of (stage, s') \<Rightarrow> (Inr stage, s')))"

definition addBgpEnrichmentStage :: "'f PipelineBuilder \<Rightarrow> string \<Rightarrow> 'f pstate \<Rightarrow> string \<times> 'f pstate" where
  "addBgpEnrichmentStage b previous s =
     (if \<not> IsBgpEnrichmentEnabled (spec_Processor (pb_desired b)) then (previous, s)
      else pipe_next True ''asns'' (network_stage
             [NetworkAddASNLabel ''SrcAddr'' ''SrcASN'', NetworkAddASNLabel ''DstAddr'' ''DstASN''] []) previous s)"

section \<open>Filters\<close>

definition filtersToFLP :: "FLPFilterSet list \<Rightarrow> FLPFilterTarget \<Rightarrow> TransformFilterRule list" where
  "filtersToFLP fs target =
     map (\<lambda>f. TfKeepEntryQuery \<lparr>KeepEntryQuery = fs_Query f, KeepEntrySampling = to_uint16 (fs_Sampling f)\<rparr>)
       (filter (\<lambda>f. fs_OutputTarget f = target) fs)"

definition filter_stage :: "TransformFilterRule list \<Rightarrow> 'f stage_params" where
  "filter_stage rules = PFilter \<lparr>tf_Rules = rules, tf_SamplingField = ''Sampling''\<rparr>"

definition addOtherTransforms :: "'f PipelineBuilder \<Rightarrow> TransformFilterRule list \<Rightarrow> TransformFilterRule list" where
  "addOtherTransforms b rules =
     (let flp = spec_Processor (pb_desired b);
          clusterName = (if flp_ClusterName flp \<noteq> [] then flp_ClusterName flp else pb_clusterID b)
      in if IsMultiClusterEnabled flp \<and> clusterName \<noteq> [] then rules @ [TfAddFieldIfDoesntExist ''K8S_ClusterName'' clusterName] else rules)"

definition dedup_rules :: "RemoveEntryRule list" where
  "dedup_rules = [RemoveEntryIfEqual ''FlowDirection'' 1 True, RemoveEntryIfExists ''DstK8S_OwnerName'']"

definition dedup_filter :: "FLPDeduper \<Rightarrow> TransformFilter" where
  "dedup_filter d =
     \<lparr>tf_Rules =
        (if dedup_Mode d = FLPDeduperDrop then [TfRemoveEntryAllSatisfied dedup_rules]
         else [TfConditionalSampling [(dedup_rules, to_uint16 (dedup_Sampling d))]]),
      tf_SamplingField = []\<rparr>"

definition addTruncFiltersDedupStage :: "'f PipelineBuilder \<Rightarrow> string \<Rightarrow> 'f pstate \<Rightarrow> string \<times> 'f pstate" where
  "addTruncFiltersDedupStage b previous s =
     (let flp = spec_Processor (pb_desired b);
          (sliceFilters, ss) = slicesToFilters (pb_desired b) (ps_slices s);
          filters = addOtherTransforms b (filtersToFLP (flp_Filters flp) FLPFilterTargetAll @ map TfKeepEntryQuery sliceFilters);
          (stage, s1) = (if length filters > 0 then pipe_next True ''filters'' (filter_stage filters) previous (s\<lparr>ps_slices := ss\<rparr>)
                         else (previous, s\<lparr>ps_slices := ss\<rparr>))
      in if HasFLPDeduper flp then pipe_next False ''dedup'' (PFilter (dedup_filter (the (flp_Deduper flp)))) stage s1 else (stage, s1))"

text \<open>A stage with the filters of one target, when there are any.\<close>

definition target_filters :: "'f PipelineBuilder \<Rightarrow> FLPFilterTarget \<Rightarrow> string \<Rightarrow> string \<Rightarrow> 'f pstate \<Rightarrow> string \<times> 'f pstate" where
  "target_filters b target name previous s =
     (let filters = filtersToFLP (flp_Filters (spec_Processor (pb_desired b))) target
      in if length filters > 0 then pipe_next False name (filter_stage filters) previous s else (previous, s))"

section \<open>TLS and SASL of a client\<close>

definition getClientTLS :: "ClientTLS \<Rightarrow> string \<Rightarrow> Builder \<Rightarrow> api_ClientTLS option \<times> Builder" where
  "getClientTLS t volumeName v =
     (if ctls_Enable t then
        (case AddMutualTLSCertificates t volumeName v of ((ca, cert, key), v') \<Rightarrow>
           (Some \<lparr>act_InsecureSkipVerify = ctls_InsecureSkipVerify t, act_CACertPath = ca, act_UserCertPath = cert, act_UserKeyPath = key\<rparr>, v'))
      else (None, v))"

definition getSASL :: "SASLConfig \<Rightarrow> string \<Rightarrow> Builder \<Rightarrow> api_SASLConfig option \<times> Builder" where
  "getSASL sasl volumePrefix v =
     (if \<not> UseSASL sasl then (None, v)
      else case AddVolume (sasl_ClientIDReference sasl) (volumePrefix @ ''-sasl-id'') v of (idPath, v1) \<Rightarrow>
           case AddVolume (sasl_ClientSecretReference sasl) (volumePrefix @ ''-sasl-secret'') v1 of (secretPath, v2) \<Rightarrow>
             (Some \<lparr>asasl_Type = (if sasl_Type sasl = SASLScramSHA512 then ApiSASLScramSHA512 else ApiSASLPlain),
                    asasl_ClientIDPath = idPath, asasl_ClientSecretPath = secretPath\<rparr>, v2))"

section \<open>Loki\<close>

definition FLPName :: string where "FLPName = ''flowlogs-pipeline''"

definition loki_write :: "'f PipelineBuilder \<Rightarrow> WriteLoki" where
  "loki_write b =
     (let loki = spec_Loki (pb_desired b); adv = GetAdvancedLokiConfig (pb_defaults b) (loki_Advanced loki) in
      \<lparr>wl_Labels = GetLabels (pb_desired b), wl_BatchSize = loki_WriteBatchSize loki,
       wl_BatchWait = UnstructuredDuration (loki_WriteBatchWait loki), wl_MaxBackoff = UnstructuredDuration (alc_WriteMaxBackoff adv),
       wl_MaxRetries = PtrInt32 (alc_WriteMaxRetries adv), wl_MinBackoff = UnstructuredDuration (alc_WriteMinBackoff adv),
       wl_StaticLabels = (case alc_StaticLabels adv of None \<Rightarrow> Map.empty | Some m \<Rightarrow> m),
       wl_Timeout = UnstructuredDuration (loki_WriteTimeout loki), wl_URL = lman_IngesterURL (pb_loki b),
       wl_TimestampLabel = ''TimeFlowEndMs'', wl_TimestampScale = ''1ms'', wl_TenantID = lman_TenantID (pb_loki b),
       wl_Authorization = None, wl_InsecureSkipVerify = False, wl_CAFile = []\<rparr>)"

definition loki_credentials :: "'f PipelineBuilder \<Rightarrow> Builder \<Rightarrow> WriteLoki \<times> Builder" where
  "loki_credentials b v =
     (let loki = pb_loki b;
          useToken = UseHostToken loki \<or> UseForwardToken loki;
          v1 = (if useToken then snd (AddToken FLPName v) else v);
          w = (loki_write b)\<lparr>wl_Authorization := (if useToken then Some (''Bearer'', TokensPath @ FLPName) else None)\<rparr>
      in if ctls_Enable (lman_TLS loki) then
           (if ctls_InsecureSkipVerify (lman_TLS loki) then (w\<lparr>wl_InsecureSkipVerify := True\<rparr>, v1)
            else (case AddCACertificate (lman_TLS loki) ''loki-certs'' v1 of (caPath, v2) \<Rightarrow> (w\<lparr>wl_CAFile := caPath\<rparr>, v2)))
         else (w, v1))"

definition addLokiStage :: "'f PipelineBuilder \<Rightarrow> string \<Rightarrow> 'f pstate \<Rightarrow> 'f pstate" where
  "addLokiStage b previous s =
     (case target_filters b FLPFilterTargetLoki ''filters-loki'' previous s of (lokiStage, s1) \<Rightarrow>
      case loki_credentials b (ps_volumes s1) of (w, v) \<Rightarrow>
        snd (pipe_next False ''loki'' (PLoki w) lokiStage (s1\<lparr>ps_volumes := v\<rparr>)))"

section \<open>Metrics\<close>

definition predefined_metric :: "FlowMetricSpec \<Rightarrow> FlowMetric" where
  "predefined_metric m = \<lparr>flm_Name = [], flm_Namespace = [], flm_Spec = m, flm_Status = \<lparr>fmst_Conditions = [], fmst_PrometheusName = []\<rparr>\<rparr>"

fun predefined_items :: "(string \<Rightarrow> 'f option) \<Rightarrow> FlowMetricSpec list \<Rightarrow> flp_error + 'f MetricsItem list" where
  "predefined_items pf [] = Inr []"
| "predefined_items pf (m # ms) =
     (case flowMetricToFLP pf (predefined_metric m) of
        Inl e \<Rightarrow> Inl e
      | Inr i \<Rightarrow> (case predefined_items pf ms of Inl e \<Rightarrow> Inl e | Inr is \<Rightarrow> Inr (i # is)))"

fun user_items :: "'f PipelineBuilder \<Rightarrow> FlowMetric list \<Rightarrow> fm_statuses \<Rightarrow> 'f MetricsItem list \<times> FlowMetric list \<times> fm_statuses" where
  "user_items b [] st = ([], [], st)"
| "user_items b (fm # fms) st =
     (case flowMetricToFLP (pb_ParseFloat b) fm of
        Inl e \<Rightarrow>
          (case user_items b fms (fm_SetFailure fm (pb_flp_error b e) st) of (is, fms', st') \<Rightarrow> (is, fm # fms', st'))
      | Inr m \<Rightarrow>
          (let fm' = fm\<lparr>flm_Status := (flm_Status fm)\<lparr>fmst_PrometheusName := ''netobserv_'' @ mi_Name m\<rparr>\<rparr> in
           case user_items b fms (fm_CheckCardinality (pb_cards b) fm' st) of (is, fms', st') \<Rightarrow> (m # is, fm' # fms', st')))"

definition addPrometheusStage :: "'f PipelineBuilder \<Rightarrow> string \<Rightarrow> 'f pstate \<Rightarrow> (pipe_error + 'f MetricsItem list) \<times> 'f pstate" where
  "addPrometheusStage b previous s =
     (case predefined_items (pb_ParseFloat b) (GetDefinitions (pb_desired b) False) of
        Inl e \<Rightarrow> (Inl (BadPredefined e), s)
      | Inr predefined \<Rightarrow>
          (case user_items b (ps_metrics s) (ps_fm_st s) of (user, fms, st) \<Rightarrow>
             (let flpMetrics = predefined @ user; s1 = s\<lparr>ps_metrics := fms, ps_fm_st := st\<rparr> in
              if length flpMetrics > 0 then
                (case target_filters b FLPFilterTargetMetrics ''filters-prom'' previous s1 of (promStage, s2) \<Rightarrow>
                   (Inr flpMetrics, snd (pipe_next True ''prometheus'' (PProm ''netobserv_'' flpMetrics) promStage s2)))
              else (Inr flpMetrics, s1))))"

section \<open>Exporters\<close>

definition createKafkaWriteStage :: "string \<Rightarrow> FlowCollectorKafka \<Rightarrow> string \<Rightarrow> 'f pstate \<Rightarrow> string \<times> 'f pstate" where
  "createKafkaWriteStage name spec fromStage s =
     (case getClientTLS (kafka_TLS spec) name (ps_volumes s) of (t, v1) \<Rightarrow>
      case getSASL (kafka_SASL spec) name v1 of (sasl, v2) \<Rightarrow>
        pipe_next False name (PKafka \<lparr>ek_Address = kafka_Address spec, ek_Topic = kafka_Topic spec, ek_Compression = kafka_Compression spec,
          ek_TLS = t, ek_SASL = sasl\<rparr>) fromStage (s\<lparr>ps_volumes := v2\<rparr>))"

definition getIPFIXTransport :: "string \<Rightarrow> string" where
  "getIPFIXTransport transport = (if transport = ''UDP'' then ''udp'' else ''tcp'')"

definition createIPFIXWriteStage :: "string \<Rightarrow> FlowCollectorIPFIXReceiver \<Rightarrow> string \<Rightarrow> 'f pstate \<Rightarrow> string \<times> 'f pstate" where
  "createIPFIXWriteStage name spec fromStage s =
     pipe_next False name (PIpfix \<lparr>wi_TargetHost = ipfixr_TargetHost spec, wi_TargetPort = ipfixr_TargetPort spec,
       wi_Transport = getIPFIXTransport (ipfixr_Transport spec), wi_EnterpriseID = ipfixr_EnterpriseID spec\<rparr>) fromStage s"

definition getOtelConnType :: "string \<Rightarrow> string" where
  "getOtelConnType connType = (if connType = ''http'' then ''http'' else ''grpc'')"

definition createOpenTelemetryStage ::
  "'f PipelineBuilder \<Rightarrow> string \<Rightarrow> FlowCollectorOpenTelemetry \<Rightarrow> string \<Rightarrow> 'f MetricsItem list \<Rightarrow> 'f pstate \<Rightarrow> pipe_error option \<times> 'f pstate" where
  "createOpenTelemetryStage b name spec fromStage flpMetrics s =
     (case getClientTLS (ot_TLS spec) name (ps_volumes s) of (t, v) \<Rightarrow>
      let s0 = s\<lparr>ps_volumes := v\<rparr>;
          conn = \<lparr>oc_Address = ot_TargetHost spec, oc_Port = ot_TargetPort spec, oc_ConnectionType = getOtelConnType (ot_Protocol spec),
                  oc_TLS = t, oc_Headers = ot_Headers spec\<rparr>;
          logsEnabled = (otl_Enable (ot_Logs spec) = Some True); metricsEnabled = (otm_Enable (ot_Metrics spec) = Some True)
      in if logsEnabled \<or> metricsEnabled then
           (case GetOtelTransformConfig (pb_otel b) (ot_FieldsMapping spec) of
              Inl e \<Rightarrow> (Some (OtelTableError e), s0)
            | Inr transformCfg \<Rightarrow>
                (case pipe_next False (name @ ''-transform'') (PGeneric transformCfg) fromStage s0 of (transformStage, s1) \<Rightarrow>
                 let s2 = (if logsEnabled then snd (pipe_next False (name @ ''-logs'') (POtelLogs conn) transformStage s1) else s1)
                 in if metricsEnabled then
                      (case GetOtelMetrics (pb_otel b) flpMetrics of
                         Inl e \<Rightarrow> (Some (OtelTableError e), s2)
                       | Inr metricsCfg \<Rightarrow>
                           (case otm_PushTimeInterval (ot_Metrics spec) of
                              None \<Rightarrow> (Some NilPushTimeInterval, s2)
                            | Some interval \<Rightarrow>
                                (None, snd (pipe_next False (name @ ''-metrics'') (POtelMetrics
                                  \<lparr>eom_Connection = conn, eom_Prefix = ''netobserv_'', eom_Metrics = metricsCfg, eom_PushTimeInterval = interval,
                                   eom_ExpiryTime = 120 * 10 ^ 9\<rparr>) transformStage s2))))
                    else (None, s2)))
         else (None, s0))"

definition add_exporter ::
  "'f PipelineBuilder \<Rightarrow> string \<Rightarrow> 'f MetricsItem list \<Rightarrow> nat \<Rightarrow> FlowCollectorExporter \<Rightarrow> 'f pstate \<Rightarrow> pipe_error option \<times> 'f pstate" where
  "add_exporter b stage flpMetrics i e s =
     (case exp_Type e of
        KafkaExporter \<Rightarrow> (None, snd (createKafkaWriteStage (''kafka-export-'' @ show_nat i) (exp_Kafka e) stage s))
      | IpfixExporter \<Rightarrow> (None, snd (createIPFIXWriteStage (''ipfix-export-'' @ show_nat i) (exp_IPFIX e) stage s))
      | OpenTelemetryExporter \<Rightarrow> createOpenTelemetryStage b (''otel-export-'' @ show_nat i) (exp_OpenTelemetry e) stage flpMetrics s
      | ExporterTypeUnset \<Rightarrow> (None, s))"

fun add_exporters ::
  "'f PipelineBuilder \<Rightarrow> string \<Rightarrow> 'f MetricsItem list \<Rightarrow> nat \<Rightarrow> FlowCollectorExporter list \<Rightarrow> 'f pstate \<Rightarrow> pipe_error option \<times> 'f pstate" where
  "add_exporters b stage flpMetrics i [] s = (None, s)"
| "add_exporters b stage flpMetrics i (e # es) s =
     (case add_exporter b stage flpMetrics i e s of
        (Some x, s') \<Rightarrow> (Some x, s')
      | (None, s') \<Rightarrow> add_exporters b stage flpMetrics (Suc i) es s')"

definition addCustomExportStages :: "'f PipelineBuilder \<Rightarrow> string \<Rightarrow> 'f MetricsItem list \<Rightarrow> 'f pstate \<Rightarrow> pipe_error option \<times> 'f pstate" where
  "addCustomExportStages b previous flpMetrics s =
     (case target_filters b FLPFilterTargetExporters ''filters-exp'' previous s of (stage, s1) \<Rightarrow>
        add_exporters b stage flpMetrics 0 (spec_Exporters (pb_desired b)) s1)"

section \<open>The whole pipeline\<close>

text \<open>The stages every output has in common, up to the point where the outputs branch off.\<close>

definition common_stages :: "'f PipelineBuilder \<Rightarrow> string \<Rightarrow> 'f pstate \<Rightarrow> (pipe_error + string) \<times> 'f pstate" where
  "common_stages b ingest s =
     (case addConnectionTracking b ingest s of (st1, s1) \<Rightarrow>
      case addEnrichStage b st1 s1 of (st2, s2) \<Rightarrow>
      case addSubnetLabelsStage b st2 s2 of
        (Inl e, s3) \<Rightarrow> (Inl e, s3)
      | (Inr st3, s3) \<Rightarrow>
          (case addBgpEnrichmentStage b st3 s3 of (st4, s4) \<Rightarrow>
           case addTruncFiltersDedupStage b st4 s4 of (st5, s5) \<Rightarrow> (Inr st5, s5)))"

definition log_outputs :: "'f PipelineBuilder \<Rightarrow> string \<Rightarrow> 'f pstate \<Rightarrow> 'f pstate" where
  "log_outputs b stage s =
     (let s1 = (if UseLoki (pb_desired b) then addLokiStage b stage s else s)
      in if flp_LogLevel (spec_Processor (pb_desired b)) = ''trace''
         then snd (pipe_next False ''stdout'' (PStdout ''json'') stage s1) else s1)"

definition createPipeline :: "'f PipelineBuilder \<Rightarrow> string \<Rightarrow> 'f pstate \<Rightarrow> pipe_error option \<times> 'f pstate" where
  "createPipeline b ingest s =
     (case common_stages b ingest s of
        (Inl e, s1) \<Rightarrow> (Some e, s1)
      | (Inr stage, s1) \<Rightarrow>
          (case addPrometheusStage b stage (log_outputs b stage s1) of
             (Inl e, s2) \<Rightarrow> (Some e, s2)
           | (Inr flpMetrics, s2) \<Rightarrow> addCustomExportStages b stage flpMetrics s2))"

end
