(* ===== verification/Pipeline_Correct.thy ===== *)
theory Pipeline_Correct
  imports Pipeline Slices_Correct Samples
begin

text \<open>
  What the pipeline builder guarantees: the stages form a tree rooted in the ingest stage, with the path of
  every output through it; the user's metrics cannot break the pipeline; which configurations are refused;
  and every file the configuration mentions is mounted in the pod.
\<close>

section \<open>Trees of stages\<close>

text \<open>Stages that each follow the one before, the first one following \<open>p\<close>.\<close>

fun linked :: "string \<Rightarrow> string list \<Rightarrow> Stage list" where
  "linked p [] = []"
| "linked p (n # ns) = \<lparr>stage_Name = n, stage_Follows = p\<rparr> # linked n ns"

lemma linked_names [simp]: "map stage_Name (linked p ns) = ns"
  by (induction ns arbitrary: p) auto

lemma linked_append: "linked p (ns @ ms) = linked p ns @ linked (last (p # ns)) ms"
  by (induction ns arbitrary: p) auto

text \<open>A tree grows at its end, each new stage following one that is there already, under a new name.\<close>

inductive pipeline_tree :: "Stage list \<Rightarrow> bool" where
  root: "pipeline_tree [\<lparr>stage_Name = n, stage_Follows = []\<rparr>]"
| grow: "pipeline_tree ss \<Longrightarrow> p \<in> stage_Name ` set ss \<Longrightarrow> n \<notin> stage_Name ` set ss \<Longrightarrow> pipeline_tree (ss @ [\<lparr>stage_Name = n, stage_Follows = p\<rparr>])"

lemma tree_distinct: "pipeline_tree ss \<Longrightarrow> distinct (map stage_Name ss)"
  by (induction rule: pipeline_tree.induct) auto

lemma tree_linked:
  "pipeline_tree ss \<Longrightarrow> p \<in> stage_Name ` set ss \<Longrightarrow> distinct ns \<Longrightarrow> set ns \<inter> stage_Name ` set ss = {} \<Longrightarrow> pipeline_tree (ss @ linked p ns)"
proof (induction ns arbitrary: ss p)
  case (Cons n ns)
  have "pipeline_tree (ss @ [\<lparr>stage_Name = n, stage_Follows = p\<rparr>])" using Cons.prems by (intro pipeline_tree.grow) auto
  from Cons.IH[OF this, of n] Cons.prems show ?case by auto
qed simp

text \<open>The path from the root to a stage, read off the stages from the last one back.\<close>

fun ancestry :: "Stage list \<Rightarrow> string \<Rightarrow> string list" where
  "ancestry [] n = []"
| "ancestry (s # ss) n = (if stage_Name s = n then ancestry ss (stage_Follows s) @ [n] else ancestry ss n)"

definition path_to :: "Stage list \<Rightarrow> string \<Rightarrow> string list" where
  "path_to ss n = ancestry (rev ss) n"

lemma ancestry_skip: "n \<notin> stage_Name ` set ts \<Longrightarrow> ancestry (ts @ ss) n = ancestry ss n"
  by (induction ts) auto

lemma path_skip [simp]: "n \<notin> stage_Name ` set ts \<Longrightarrow> path_to (ss @ ts) n = path_to ss n"
  by (simp add: path_to_def ancestry_skip)

lemma path_snoc: "path_to (ss @ [\<lparr>stage_Name = n, stage_Follows = p\<rparr>]) n = path_to ss p @ [n]"
  by (simp add: path_to_def)

lemma path_linked:
  "distinct ns \<Longrightarrow> path_to (ss @ linked p ns) (last (p # ns)) = path_to ss p @ ns"
proof (induction ns arbitrary: ss p)
  case (Cons n ns)
  show ?case
    using Cons.IH[of "ss @ [\<lparr>stage_Name = n, stage_Follows = p\<rparr>]" n] Cons.prems by (simp add: path_snoc)
qed simp

text \<open>A name that is there under a condition; lists of such names inherit distinctness from the full list.\<close>

definition opt :: "bool \<Rightarrow> 'a \<Rightarrow> 'a list" where
  "opt c x = (if c then [x] else [])"

lemma opt_simps [simp]: "opt True x = [x]" "opt False x = []"
  by (simp_all add: opt_def)

lemma set_opt: "set (opt c x) \<subseteq> {x}"
  by (cases c) simp_all

lemma notin_opt: "y \<noteq> x \<Longrightarrow> y \<notin> set xs \<Longrightarrow> y \<notin> set (opt c x @ xs)"
  by (cases c) simp_all

lemma distinct_opt: "x \<notin> set xs \<Longrightarrow> distinct xs \<Longrightarrow> distinct (opt c x @ xs)"
  by (cases c) simp_all

section \<open>Slices without their statuses\<close>

text \<open>The filters and labels made from slices do not depend on the statuses that the builder writes to them.\<close>

definition clear_status :: "FlowCollectorSlice \<Rightarrow> FlowCollectorSlice" where
  "clear_status x = x\<lparr>slc_Status := \<lparr>fst_Conditions = [], fst_FilterApplied = [], fst_SubnetLabelsConfigured = 0\<rparr>\<rparr>"

lemma clear_status_sel [simp]:
  "slc_Name (clear_status x) = slc_Name x" "slc_Namespace (clear_status x) = slc_Namespace x" "slc_Spec (clear_status x) = slc_Spec x"
  "clear_status (x\<lparr>slc_Status := st\<rparr>) = clear_status x" "clear_status (clear_status x) = clear_status x" "clear_status (set_filter q x) = clear_status x"
  by (simp_all add: clear_status_def set_filter_def)

abbreviation view :: "'f pstate \<Rightarrow> FlowCollectorSlice list" where
  "view s \<equiv> map clear_status (ps_slices s)"

lemma slice_rules_view:
  "fst (slice_rules P ss) = fst (slice_rules P (map clear_status ss)) \<and> map clear_status (snd (slice_rules P ss)) = map clear_status ss"
  by (induction ss arbitrary: P) (auto simp: Let_def split: prod.splits, (metis fst_conv snd_conv)+)

lemma slicesToFilters_view:
  "fst (slicesToFilters d ss) = fst (slicesToFilters d (map clear_status ss))"
  "map clear_status (snd (slicesToFilters d ss)) = map clear_status ss"
  using slice_rules_view[of _ ss]
  by (auto simp: slicesToFilters_def split: option.splits prod.splits) (metis fst_conv snd_conv)+

abbreviation labels_of_acc :: "subnet_acc \<Rightarrow> cidrsPerOwner list \<times> SubnetLabel list" where
  "labels_of_acc acc \<equiv> (sa_toCheck acc, sa_labels acc)"

lemma add_label_labels:
  "labels_of_acc (add_label tx f a l) =
     (let k = filter (kept (sa_toCheck a)) (ssl_CIDRs l) in
      if k = [] then labels_of_acc a
      else (sa_toCheck a @ [\<lparr>cpo_cidrs = map (\<lambda>s. the (ParseCIDR s)) k, cpo_owner = slc_Namespace f @ ''/'' @ slc_Name f\<rparr>],
            sa_labels a @ [\<lparr>sl_CIDRs = k, sl_Name = ssl_Name l\<rparr>]))"
proof -
  obtain x y e t where 1: "label_cidrs tx f (ssl_Name l) (sa_toCheck a) (ssl_CIDRs l) ([], [], sa_error a, sa_st a) = (x, y, e, t)"
    by (metis prod_cases4)
  show ?thesis using label_cidrs_all[OF 1] by (simp add: add_label_def 1 Let_def)
qed

lemma add_label_same:
  assumes "labels_of_acc a1 = labels_of_acc a2" "slc_Namespace f1 = slc_Namespace f2" "slc_Name f1 = slc_Name f2"
  shows "labels_of_acc (add_label tx f1 a1 l) = labels_of_acc (add_label tx f2 a2 l)"
  using assms unfolding add_label_labels by (simp add: Let_def)

lemma add_labels_same:
  assumes "slc_Namespace f1 = slc_Namespace f2" "slc_Name f1 = slc_Name f2"
  shows "labels_of_acc a1 = labels_of_acc a2 \<Longrightarrow> labels_of_acc (foldl (add_label tx f1) a1 ls) = labels_of_acc (foldl (add_label tx f2) a2 ls)"
  by (induction ls arbitrary: a1 a2) (simp, simp only: foldl_Cons add_label_same[OF _ assms])

lemma add_slices_view:
  "labels_of_acc a1 = labels_of_acc a2 \<Longrightarrow>
     labels_of_acc (fst (foldl (add_slice tx) (a1, o1) ss)) = labels_of_acc (fst (foldl (add_slice tx) (a2, o2) (map clear_status ss)))
     \<and> map clear_status (snd (foldl (add_slice tx) (a1, o1) ss)) = map clear_status o1 @ map clear_status ss"
proof (induction ss arbitrary: a1 a2 o1 o2)
  case (Cons f ss)
  let ?l = "fss_SubnetLabels (slc_Spec f)"
  have same: "labels_of_acc (foldl (add_label tx f) (a1\<lparr>sa_error := False, sa_count := 0\<rparr>) ?l)
      = labels_of_acc (foldl (add_label tx (clear_status f)) (a2\<lparr>sa_error := False, sa_count := 0\<rparr>) ?l)"
    using Cons.prems by (intro add_labels_same) simp_all
  obtain A1 f1 where 1: "add_slice tx (a1, o1) f = (A1, o1 @ [f1])" "clear_status f1 = clear_status f"
      "labels_of_acc A1 = labels_of_acc (foldl (add_label tx f) (a1\<lparr>sa_error := False, sa_count := 0\<rparr>) ?l)"
    by (simp add: add_slice_def Let_def)
  obtain A2 f2 where 2: "add_slice tx (a2, o2) (clear_status f) = (A2, o2 @ [f2])"
      "labels_of_acc A2 = labels_of_acc (foldl (add_label tx (clear_status f)) (a2\<lparr>sa_error := False, sa_count := 0\<rparr>) ?l)"
    by (simp add: add_slice_def Let_def)
  from Cons.IH[of A1 A2 "o1 @ [f1]" "o2 @ [f2]"] show ?case
    using same by (simp add: 1 2)
qed simp

lemma subnet_labels_view:
  "fst (slicesToFCSubnetLabels tx ss cs st) = fst (slicesToFCSubnetLabels tx (map clear_status ss) cs st')"
  "map clear_status (fst (snd (slicesToFCSubnetLabels tx ss cs st))) = map clear_status ss"
proof -
  let ?i = "\<lambda>st. \<lparr>sa_toCheck = [\<lparr>cpo_cidrs = cs, cpo_owner = ''admin''\<rparr>], sa_labels = [], sa_error = False, sa_count = 0, sa_st = st\<rparr>"
  note v = add_slices_view[of "?i st" "?i st'" tx "[]" ss "[]"]
  show "fst (slicesToFCSubnetLabels tx ss cs st) = fst (slicesToFCSubnetLabels tx (map clear_status ss) cs st')"
    using v by (simp add: slicesToFCSubnetLabels_def case_prod_beta)
  show "map clear_status (fst (snd (slicesToFCSubnetLabels tx ss cs st))) = map clear_status ss"
    using v by (simp add: slicesToFCSubnetLabels_def case_prod_beta)
qed

section \<open>What an operation adds\<close>

text \<open>From \<open>s\<close> to \<open>s'\<close> the stages \<open>ss\<close> have been added, and parameters under the same names.\<close>

definition grows :: "'f pstate \<Rightarrow> Stage list \<Rightarrow> 'f pstate \<Rightarrow> bool" where
  "grows s ss s' \<longleftrightarrow> pl_stages (ps_pipeline s') = pl_stages (ps_pipeline s) @ ss
     \<and> map sp_Name (pl_config (ps_pipeline s')) = map sp_Name (pl_config (ps_pipeline s)) @ map stage_Name ss"

lemma grows_refl [simp]: "ps_pipeline s' = ps_pipeline s \<Longrightarrow> grows s [] s'"
  by (simp add: grows_def)

lemma grows_trans: "grows s ss s1 \<Longrightarrow> grows s1 ts s2 \<Longrightarrow> grows s (ss @ ts) s2"
  by (simp add: grows_def)

lemma grows_next [simp]:
  "ps_pipeline s' = ps_pipeline s \<Longrightarrow> grows s [\<lparr>stage_Name = n, stage_Follows = p\<rparr>] (snd (pipe_next d n c p s'))"
  by (simp add: grows_def pipe_next_def)

lemma pipe_next_sel [simp]:
  "fst (pipe_next d n c p s) = n" "ps_slices (snd (pipe_next d n c p s)) = ps_slices s" "ps_slice_st (snd (pipe_next d n c p s)) = ps_slice_st s"
  "ps_volumes (snd (pipe_next d n c p s)) = ps_volumes s" "ps_metrics (snd (pipe_next d n c p s)) = ps_metrics s" "ps_fm_st (snd (pipe_next d n c p s)) = ps_fm_st s"
  by (simp_all add: pipe_next_def)

lemma grows_frame [simp]:
  "grows (s\<lparr>ps_volumes := v\<rparr>) ss s' = grows s ss s'" "grows s ss (s'\<lparr>ps_volumes := v\<rparr>) = grows s ss s'"
  "grows (s\<lparr>ps_slices := sl\<rparr>) ss s' = grows s ss s'" "grows s ss (s'\<lparr>ps_slices := sl\<rparr>) = grows s ss s'"
  "grows (s\<lparr>ps_slice_st := sst\<rparr>) ss s' = grows s ss s'" "grows s ss (s'\<lparr>ps_slice_st := sst\<rparr>) = grows s ss s'"
  "grows (s\<lparr>ps_metrics := ms\<rparr>) ss s' = grows s ss s'" "grows s ss (s'\<lparr>ps_metrics := ms\<rparr>) = grows s ss s'"
  "grows (s\<lparr>ps_fm_st := fs\<rparr>) ss s' = grows s ss s'" "grows s ss (s'\<lparr>ps_fm_st := fs\<rparr>) = grows s ss s'"
  by (simp_all add: grows_def)

text \<open>
  The contract of the operations that extend the pipeline after a given stage: which stages they add depends
  on the builder and on the slices but not on their statuses; each follows the one before; the last one is
  returned. It is kept by doing one operation after the other.
\<close>

locale stage_op =
  fixes f :: "string \<Rightarrow> 'f pstate \<Rightarrow> string \<times> 'f pstate" and ns :: "FlowCollectorSlice list \<Rightarrow> string list"
  assumes ends: "fst (f p s) = last (p # ns (view s))"
    and adds: "grows s (linked p (ns (view s))) (snd (f p s))"
    and keeps: "view (snd (f p s)) = view s"
    and frame: "ps_volumes (snd (f p s)) = ps_volumes s" "ps_metrics (snd (f p s)) = ps_metrics s" "ps_fm_st (snd (f p s)) = ps_fm_st s"

locale stage_ops = f: stage_op f ns + g: stage_op g ms
  for f :: "string \<Rightarrow> 'f pstate \<Rightarrow> string \<times> 'f pstate" and ns and g :: "string \<Rightarrow> 'f pstate \<Rightarrow> string \<times> 'f pstate" and ms

sublocale stage_ops \<subseteq> seq: stage_op "\<lambda>p s. g (fst (f p s)) (snd (f p s))" "\<lambda>v. ns v @ ms v"
proof
  fix p and s :: "'f pstate"
  show "fst (g (fst (f p s)) (snd (f p s))) = last (p # ns (view s) @ ms (view s))"
    by (simp add: g.ends f.ends f.keeps)
  show "grows s (linked p (ns (view s) @ ms (view s))) (snd (g (fst (f p s)) (snd (f p s))))"
    using grows_trans[OF f.adds g.adds, of s p] by (simp add: linked_append f.ends f.keeps)
  show "view (snd (g (fst (f p s)) (snd (f p s)))) = view s" by (simp add: g.keeps f.keeps)
qed (simp_all add: g.frame f.frame)

section \<open>The common stages\<close>

definition conntrack_names :: "'f PipelineBuilder \<Rightarrow> FlowCollectorSlice list \<Rightarrow> string list" where
  "conntrack_names b v = opt (HasConntrack (spec_Processor (pb_desired b))) ''extract_conntrack''"

definition subnet_labels :: "'f PipelineBuilder \<Rightarrow> IPNet list \<Rightarrow> FlowCollectorSlice list \<Rightarrow> SubnetLabel list" where
  "subnet_labels b cidrs v =
     sls_CustomLabels (flp_SubnetLabels (spec_Processor (pb_desired b)))
     @ (if IsSliceEnabled (pb_desired b) then fst (slicesToFCSubnetLabels (pb_texts b) v cidrs \<lparr>mapStatuses = Map.empty, mapSubnetWarnings = Map.empty\<rparr>) else [])
     @ pb_detectedSubnets b"

definition subnet_names :: "'f PipelineBuilder \<Rightarrow> IPNet list \<Rightarrow> FlowCollectorSlice list \<Rightarrow> string list" where
  "subnet_names b cidrs v = opt (subnet_labels b cidrs v \<noteq> []) ''subnets''"

definition bgp_names :: "'f PipelineBuilder \<Rightarrow> FlowCollectorSlice list \<Rightarrow> string list" where
  "bgp_names b v = opt (IsBgpEnrichmentEnabled (spec_Processor (pb_desired b))) ''asns''"

definition common_filters :: "'f PipelineBuilder \<Rightarrow> FlowCollectorSlice list \<Rightarrow> TransformFilterRule list" where
  "common_filters b v =
     addOtherTransforms b (filtersToFLP (flp_Filters (spec_Processor (pb_desired b))) FLPFilterTargetAll
       @ map TfKeepEntryQuery (fst (slicesToFilters (pb_desired b) v)))"

interpretation conntrack: stage_op "addConnectionTracking b" "conntrack_names b" for b
  by unfold_locales (simp_all add: addConnectionTracking_def conntrack_names_def Let_def)

interpretation enrich: stage_op "addEnrichStage b" "\<lambda>_. [''enrich'']" for b
  by unfold_locales (simp_all add: addEnrichStage_def)

lemma subnet_state:
  fixes s :: "'f pstate" and b :: "'f PipelineBuilder" and cidrs :: "IPNet list"
  defines "r \<equiv> slicesToFCSubnetLabels (pb_texts b) (ps_slices s) cidrs (ps_slice_st s)"
  defines "s1 \<equiv> (if IsSliceEnabled (pb_desired b) then s\<lparr>ps_slices := fst (snd r), ps_slice_st := snd (snd r)\<rparr> else s)"
  shows "subnet_stage b cidrs p s =
      (if subnet_labels b cidrs (view s) = [] then (p, s1)
       else pipe_next True ''subnets'' (network_stage
             [NetworkAddSubnetLabel ''SrcAddr'' ''SrcSubnetLabel'', NetworkAddSubnetLabel ''DstAddr'' ''DstSubnetLabel'']
             (subnetLabelsToFLP (subnet_labels b cidrs (view s)))) p s1)"
    and "view s1 = view s"
    and "ps_pipeline s1 = ps_pipeline s" "ps_volumes s1 = ps_volumes s" "ps_metrics s1 = ps_metrics s" "ps_fm_st s1 = ps_fm_st s"
  using subnet_labels_view(1)[of "pb_texts b" "ps_slices s" cidrs "ps_slice_st s" "\<lparr>mapStatuses = Map.empty, mapSubnetWarnings = Map.empty\<rparr>"]
    subnet_labels_view(2)[of "pb_texts b" "ps_slices s" cidrs "ps_slice_st s"]
  by (auto simp: subnet_stage_def subnet_labels_def s1_def r_def subnetLabelsToFLP_def Let_def case_prod_beta)

interpretation subnets: stage_op "subnet_stage b cidrs" "subnet_names b cidrs" for b cidrs
proof unfold_locales
  fix p and s :: "'a pstate"
  note facts = subnet_state(1)[of b cidrs p s] subnet_state(2)[of b s cidrs] subnet_state(3-)[of b s cidrs]
  show "fst (subnet_stage b cidrs p s) = last (p # subnet_names b cidrs (view s))" by (simp add: facts(1) subnet_names_def)
  show "view (snd (subnet_stage b cidrs p s)) = view s" using facts(2) by (simp add: facts(1))
  show "grows s (linked p (subnet_names b cidrs (view s))) (snd (subnet_stage b cidrs p s))"
    by (simp add: facts(1,3) subnet_names_def)
qed (simp_all add: subnet_state)

interpretation bgp: stage_op "addBgpEnrichmentStage b" "bgp_names b" for b
  by unfold_locales (simp_all add: addBgpEnrichmentStage_def bgp_names_def)

text \<open>The stage of filters and the one that removes duplicates, one after the other.\<close>

definition filters_op :: "'f PipelineBuilder \<Rightarrow> string \<Rightarrow> 'f pstate \<Rightarrow> string \<times> 'f pstate" where
  "filters_op b p s =
     (let s1 = s\<lparr>ps_slices := snd (slicesToFilters (pb_desired b) (ps_slices s))\<rparr> in
      if common_filters b (view s) = [] then (p, s1) else pipe_next True ''filters'' (filter_stage (common_filters b (view s))) p s1)"

definition dedup_op :: "'f PipelineBuilder \<Rightarrow> string \<Rightarrow> 'f pstate \<Rightarrow> string \<times> 'f pstate" where
  "dedup_op b p s =
     (if HasFLPDeduper (spec_Processor (pb_desired b))
      then pipe_next False ''dedup'' (PFilter (dedup_filter (the (flp_Deduper (spec_Processor (pb_desired b)))))) p s else (p, s))"

lemma filters_then_dedup:
  "addTruncFiltersDedupStage b p s = dedup_op b (fst (filters_op b p s)) (snd (filters_op b p s))"
  using slicesToFilters_view(1)[of "pb_desired b" "ps_slices s"]
  by (simp add: addTruncFiltersDedupStage_def filters_op_def dedup_op_def common_filters_def Let_def case_prod_beta)

definition filters_names :: "'f PipelineBuilder \<Rightarrow> FlowCollectorSlice list \<Rightarrow> string list" where
  "filters_names b v = opt (common_filters b v \<noteq> []) ''filters''"

definition dedup_names :: "'f PipelineBuilder \<Rightarrow> FlowCollectorSlice list \<Rightarrow> string list" where
  "dedup_names b v = opt (HasFLPDeduper (spec_Processor (pb_desired b))) ''dedup''"

interpretation filters: stage_op "filters_op b" "filters_names b" for b
  by unfold_locales (simp_all add: filters_op_def filters_names_def Let_def slicesToFilters_view(2))

interpretation dedup: stage_op "dedup_op b" "dedup_names b" for b
  by unfold_locales (simp_all add: dedup_op_def dedup_names_def)

interpretation enriched: stage_ops "addConnectionTracking b" "conntrack_names b" "addEnrichStage b" "\<lambda>_. [''enrich'']" for b
  by intro_locales

interpretation located: stage_ops "subnet_stage b cidrs" "subnet_names b cidrs" "addBgpEnrichmentStage b" "bgp_names b" for b cidrs
  by intro_locales

interpretation selected: stage_ops "filters_op b" "filters_names b" "dedup_op b" "dedup_names b" for b
  by intro_locales

interpretation labelled: stage_ops
  "\<lambda>p s. addEnrichStage b (fst (addConnectionTracking b p s)) (snd (addConnectionTracking b p s))" "\<lambda>v. conntrack_names b v @ [''enrich'']"
  "\<lambda>p s. addBgpEnrichmentStage b (fst (subnet_stage b cidrs p s)) (snd (subnet_stage b cidrs p s))" "\<lambda>v. subnet_names b cidrs v @ bgp_names b v"
  for b cidrs
  by intro_locales

definition common_names :: "'f PipelineBuilder \<Rightarrow> IPNet list \<Rightarrow> FlowCollectorSlice list \<Rightarrow> string list" where
  "common_names b cidrs v =
     ((conntrack_names b v @ [''enrich'']) @ (subnet_names b cidrs v @ bgp_names b v)) @ (filters_names b v @ dedup_names b v)"

interpretation common: stage_ops
  "\<lambda>p s. (\<lambda>p s. addBgpEnrichmentStage b (fst (subnet_stage b cidrs p s)) (snd (subnet_stage b cidrs p s)))
     (fst (addEnrichStage b (fst (addConnectionTracking b p s)) (snd (addConnectionTracking b p s))))
     (snd (addEnrichStage b (fst (addConnectionTracking b p s)) (snd (addConnectionTracking b p s))))"
  "\<lambda>v. (conntrack_names b v @ [''enrich'']) @ (subnet_names b cidrs v @ bgp_names b v)"
  "\<lambda>p s. dedup_op b (fst (filters_op b p s)) (snd (filters_op b p s))" "\<lambda>v. filters_names b v @ dedup_names b v"
  for b cidrs
  by intro_locales

lemma common_stages_ok:
  assumes "custom_cidrs (sls_CustomLabels (flp_SubnetLabels (spec_Processor (pb_desired b)))) = Inr cidrs"
  obtains s' where "common_stages b p s = (Inr (last (p # common_names b cidrs (view s))), s')"
    "grows s (linked p (common_names b cidrs (view s))) s'" "view s' = view s"
    "ps_volumes s' = ps_volumes s" "ps_metrics s' = ps_metrics s" "ps_fm_st s' = ps_fm_st s"
proof
  let ?r = "\<lambda>p s. dedup_op b (fst (filters_op b p s)) (snd (filters_op b p s))"
  let ?q = "addBgpEnrichmentStage b
     (fst (subnet_stage b cidrs (fst (addEnrichStage b (fst (addConnectionTracking b p s)) (snd (addConnectionTracking b p s))))
        (snd (addEnrichStage b (fst (addConnectionTracking b p s)) (snd (addConnectionTracking b p s))))))
     (snd (subnet_stage b cidrs (fst (addEnrichStage b (fst (addConnectionTracking b p s)) (snd (addConnectionTracking b p s))))
        (snd (addEnrichStage b (fst (addConnectionTracking b p s)) (snd (addConnectionTracking b p s))))))"
  note c = common.seq.ends[of b cidrs p s] common.seq.adds[of s p b cidrs] common.seq.keeps[of b cidrs p s] common.seq.frame[of b cidrs p s]
  have "common_stages b p s = (Inr (fst (?r (fst ?q) (snd ?q))), snd (?r (fst ?q) (snd ?q)))"
    by (simp add: common_stages_def addSubnetLabelsStage_def assms case_prod_beta filters_then_dedup)
  then show "common_stages b p s = (Inr (last (p # common_names b cidrs (view s))), snd (?r (fst ?q) (snd ?q)))"
    using c(1) by (simp only: common_names_def)
  show "grows s (linked p (common_names b cidrs (view s))) (snd (?r (fst ?q) (snd ?q)))" using c(2) by (simp only: common_names_def)
qed (use common.seq.keeps[of b cidrs p s] common.seq.frame[of b cidrs p s] in simp_all)

section \<open>The outputs\<close>

definition target_names :: "'f PipelineBuilder \<Rightarrow> FLPFilterTarget \<Rightarrow> string \<Rightarrow> string list" where
  "target_names b t n = opt (filtersToFLP (flp_Filters (spec_Processor (pb_desired b))) t \<noteq> []) n"

interpretation target: stage_op "target_filters b t n" "\<lambda>_. target_names b t n" for b t n
  by unfold_locales (simp_all add: target_filters_def target_names_def Let_def)

lemma target_filters_eq: "target_filters b t n p s = (last (p # target_names b t n), snd (target_filters b t n p s))"
  using target.ends[of b t n p s] by (simp add: prod_eq_iff)

definition log_stages :: "'f PipelineBuilder \<Rightarrow> string \<Rightarrow> Stage list" where
  "log_stages b c =
     (if UseLoki (pb_desired b) then linked c (target_names b FLPFilterTargetLoki ''filters-loki'' @ [''loki'']) else [])
     @ (if flp_LogLevel (spec_Processor (pb_desired b)) = ''trace'' then linked c [''stdout''] else [])"

lemma addLokiStage_grows:
  "grows s (linked c (target_names b FLPFilterTargetLoki ''filters-loki'' @ [''loki''])) (addLokiStage b c s)"
  using grows_trans[OF target.adds[of s c b FLPFilterTargetLoki "''filters-loki''"] grows_next]
  by (simp add: addLokiStage_def linked_append target.ends case_prod_beta)

lemma log_outputs_grows: "grows s (log_stages b c) (log_outputs b c s)"
  using addLokiStage_grows[of s c b] grows_trans[OF addLokiStage_grows[of s c b] grows_next]
  by (simp add: log_outputs_def log_stages_def Let_def)

lemma log_outputs_frame [simp]:
  "ps_metrics (log_outputs b c s) = ps_metrics s" "ps_fm_st (log_outputs b c s) = ps_fm_st s" "view (log_outputs b c s) = view s"
  using target.keeps[of b FLPFilterTargetLoki "''filters-loki''" c s]
  by (simp_all add: log_outputs_def addLokiStage_def Let_def case_prod_beta target.frame)

definition prom_stages :: "'f PipelineBuilder \<Rightarrow> 'f MetricsItem list \<Rightarrow> string \<Rightarrow> Stage list" where
  "prom_stages b ms c = (if ms = [] then [] else linked c (target_names b FLPFilterTargetMetrics ''filters-prom'' @ [''prometheus'']))"

lemma addPrometheusStage_grows:
  assumes "addPrometheusStage b c s = (Inr ms, s')"
  shows "grows s (prom_stages b ms c) s'"
proof -
  let ?t = "target_filters b FLPFilterTargetMetrics ''filters-prom'' c"
  have "grows s1 (linked c (target_names b FLPFilterTargetMetrics ''filters-prom'' @ [''prometheus'']))
      (snd (pipe_next True ''prometheus'' (PProm ''netobserv_'' ms) (fst (?t s1)) (snd (?t s1))))" for s1
    using grows_trans[OF target.adds[of s1 c b FLPFilterTargetMetrics "''filters-prom''"] grows_next]
    by (simp add: linked_append target.ends)
  from this[of "s\<lparr>ps_metrics := fst (snd (user_items b (ps_metrics s) (ps_fm_st s))), ps_fm_st := snd (snd (user_items b (ps_metrics s) (ps_fm_st s)))\<rparr>"]
  show ?thesis
    using assms by (auto simp: addPrometheusStage_def prom_stages_def Let_def case_prod_beta split: sum.splits if_splits)
qed

definition otel_logs :: "FlowCollectorOpenTelemetry \<Rightarrow> bool" where
  "otel_logs e \<longleftrightarrow> otl_Enable (ot_Logs e) = Some True"

definition otel_metrics :: "FlowCollectorOpenTelemetry \<Rightarrow> bool" where
  "otel_metrics e \<longleftrightarrow> otm_Enable (ot_Metrics e) = Some True"

definition otel_stages :: "string \<Rightarrow> FlowCollectorOpenTelemetry \<Rightarrow> string \<Rightarrow> Stage list" where
  "otel_stages n e c =
     (if otel_logs e \<or> otel_metrics e then
        linked c [n @ ''-transform''] @ (if otel_logs e then linked (n @ ''-transform'') [n @ ''-logs''] else [])
        @ (if otel_metrics e then linked (n @ ''-transform'') [n @ ''-metrics''] else [])
      else [])"

lemma createOpenTelemetryStage_grows:
  "createOpenTelemetryStage b n e c ms s = (None, s') \<Longrightarrow> grows s (otel_stages n e c) s'"
  by (auto simp: createOpenTelemetryStage_def otel_stages_def otel_logs_def otel_metrics_def Let_def case_prod_beta grows_def pipe_next_def
      split: sum.splits option.splits if_splits)

fun exporter_stages :: "string \<Rightarrow> nat \<Rightarrow> FlowCollectorExporter list \<Rightarrow> Stage list" where
  "exporter_stages c i [] = []"
| "exporter_stages c i (e # es) =
     (case exp_Type e of
        KafkaExporter \<Rightarrow> linked c [''kafka-export-'' @ show_nat i]
      | IpfixExporter \<Rightarrow> linked c [''ipfix-export-'' @ show_nat i]
      | OpenTelemetryExporter \<Rightarrow> otel_stages (''otel-export-'' @ show_nat i) (exp_OpenTelemetry e) c
      | ExporterTypeUnset \<Rightarrow> []) @ exporter_stages c (Suc i) es"

lemma add_exporters_grows: "add_exporters b c ms i es s = (None, s') \<Longrightarrow> grows s (exporter_stages c i es) s'"
proof (induction es arbitrary: i s)
  case (Cons e es)
  then obtain s1 where s1: "add_exporter b c ms i e s = (None, s1)" "add_exporters b c ms (Suc i) es s1 = (None, s')"
    by (auto split: prod.splits option.splits)
  have "grows s (exporter_stages c i [e]) s1"
    using s1(1) createOpenTelemetryStage_grows[of b _ _ c ms s s1]
    by (auto simp: add_exporter_def createKafkaWriteStage_def createIPFIXWriteStage_def case_prod_beta split: ExporterType.splits)
  from grows_trans[OF this Cons.IH[OF s1(2)]] show ?case by simp
qed simp

lemma addCustomExportStages_grows:
  assumes "addCustomExportStages b c ms s = (None, s')"
  shows "grows s (linked c (target_names b FLPFilterTargetExporters ''filters-exp'')
      @ exporter_stages (last (c # target_names b FLPFilterTargetExporters ''filters-exp'')) 0 (spec_Exporters (pb_desired b))) s'"
proof -
  have "add_exporters b (last (c # target_names b FLPFilterTargetExporters ''filters-exp'')) ms 0 (spec_Exporters (pb_desired b))
      (snd (target_filters b FLPFilterTargetExporters ''filters-exp'' c s)) = (None, s')"
    using assms by (simp only: addCustomExportStages_def case_prod_beta target.ends)
  from grows_trans[OF target.adds add_exporters_grows[OF this]] show ?thesis .
qed

text \<open>All stages of the pipeline, for the metrics \<open>ms\<close> that it encodes.\<close>

definition all_stages :: "'f PipelineBuilder \<Rightarrow> IPNet list \<Rightarrow> FlowCollectorSlice list \<Rightarrow> 'f MetricsItem list \<Rightarrow> string \<Rightarrow> Stage list" where
  "all_stages b cidrs v ms p =
     (let c = last (p # common_names b cidrs v); t = target_names b FLPFilterTargetExporters ''filters-exp'' in
      linked p (common_names b cidrs v) @ log_stages b c @ prom_stages b ms c @ linked c t
      @ exporter_stages (last (c # t)) 0 (spec_Exporters (pb_desired b)))"

definition custom_labels :: "'f PipelineBuilder \<Rightarrow> SubnetLabel list" where
  "custom_labels b = sls_CustomLabels (flp_SubnetLabels (spec_Processor (pb_desired b)))"

lemma createPipeline_grows:
  assumes "createPipeline b p s = (None, s')"
  obtains cidrs ms where "custom_cidrs (custom_labels b) = Inr cidrs"
    "fst (addPrometheusStage b (last (p # common_names b cidrs (view s))) (log_outputs b (last (p # common_names b cidrs (view s))) (snd (common_stages b p s)))) = Inr ms"
    "grows s (all_stages b cidrs (view s) ms p) s'"
proof (cases "custom_cidrs (custom_labels b)")
  case (Inl e)
  then have "fst (common_stages b p s) = Inl e"
    by (simp add: common_stages_def addSubnetLabelsStage_def custom_labels_def case_prod_beta)
  with assms show ?thesis by (auto simp: createPipeline_def split: prod.splits)
next
  case (Inr cidrs)
  let ?c = "last (p # common_names b cidrs (view s))"
  obtain s1 where s1: "common_stages b p s = (Inr ?c, s1)" "grows s (linked p (common_names b cidrs (view s))) s1"
    using common_stages_ok[OF Inr[unfolded custom_labels_def]] by metis
  obtain ms s2 where s2: "addPrometheusStage b ?c (log_outputs b ?c s1) = (Inr ms, s2)" "addCustomExportStages b ?c ms s2 = (None, s')"
    using assms by (auto simp: createPipeline_def s1(1) split: prod.splits sum.splits)
  have "grows s (all_stages b cidrs (view s) ms p) s'"
    using grows_trans[OF s1(2) grows_trans[OF log_outputs_grows[of s1 b ?c] grows_trans[OF addPrometheusStage_grows[OF s2(1)] addCustomExportStages_grows[OF s2(2)]]]]
    by (simp add: all_stages_def Let_def)
  with Inr s1(1) s2(1) show ?thesis by (intro that) simp_all
qed

section \<open>Names of stages\<close>

text \<open>The number in the name of a stage: its first run of digits.\<close>

abbreviation digit :: "char \<Rightarrow> bool" where "digit c \<equiv> digit_val c \<noteq> None"

definition stage_index :: "string \<Rightarrow> string" where
  "stage_index n = takeWhile digit (dropWhile (\<lambda>c. \<not> digit c) n)"

lemma show_nat_inj: "show_nat m = show_nat n \<Longrightarrow> m = n"
  by (metis Inr_inject max.cobounded1 max.cobounded2 parse_uint_show)

lemma drop_to_number: "(\<forall>c \<in> set pre. \<not> digit c) \<Longrightarrow> n \<noteq> [] \<Longrightarrow> (\<forall>c \<in> set n. digit c) \<Longrightarrow> dropWhile (\<lambda>c. \<not> digit c) (pre @ n @ post) = n @ post"
  by (induction pre) (cases n; auto)+

lemma stage_index_number:
  assumes "\<forall>c \<in> set pre. \<not> digit c" "post = [] \<or> \<not> digit (hd post)"
  shows "stage_index (pre @ show_nat i @ post) = show_nat i"
proof -
  have d: "\<forall>c \<in> set (show_nat i). digit c" using show_nat_digits by blast
  then have "stage_index (pre @ show_nat i @ post) = takeWhile digit (show_nat i @ post)"
    using drop_to_number[OF assms(1), of "show_nat i" post] show_nat_ne[of i] unfolding stage_index_def by metis
  then show ?thesis using d assms(2) by (cases post) (simp_all add: takeWhile_append2 takeWhile_tail)
qed

lemma no_index: "list_all (\<lambda>c. \<not> digit c) n \<Longrightarrow> stage_index n = []"
  by (induction n) (auto simp: stage_index_def)

lemma one_exporter_index:
  assumes "n \<in> stage_Name ` set (exporter_stages c i [e])"
  shows "stage_index n = show_nat i"
proof -
  have "stage_index (''kafka-export-'' @ show_nat i) = show_nat i" "stage_index (''ipfix-export-'' @ show_nat i) = show_nat i"
    "stage_index ((''otel-export-'' @ show_nat i) @ ''-transform'') = show_nat i" "stage_index ((''otel-export-'' @ show_nat i) @ ''-logs'') = show_nat i"
    "stage_index ((''otel-export-'' @ show_nat i) @ ''-metrics'') = show_nat i"
    using stage_index_number[of "''kafka-export-''" "[]" i] stage_index_number[of "''ipfix-export-''" "[]" i]
      stage_index_number[of "''otel-export-''" "''-transform''" i] stage_index_number[of "''otel-export-''" "''-logs''" i]
      stage_index_number[of "''otel-export-''" "''-metrics''" i]
    by (simp_all add: digit_val_def)
  with assms show ?thesis by (auto simp: otel_stages_def split: ExporterType.splits if_splits)
qed

lemma exporter_stages_Cons: "exporter_stages c i (e # es) = exporter_stages c i [e] @ exporter_stages c (Suc i) es"
  by simp

declare exporter_stages.simps(2) [simp del]

lemma exporter_index: "n \<in> stage_Name ` set (exporter_stages c i es) \<Longrightarrow> \<exists>j \<ge> i. stage_index n = show_nat j"
proof (induction es arbitrary: i)
  case (Cons e es)
  then consider "n \<in> stage_Name ` set (exporter_stages c i [e])" | "n \<in> stage_Name ` set (exporter_stages c (Suc i) es)"
    by (auto simp: exporter_stages_Cons[of c i e es])
  then show ?case
  proof cases
    case 1
    from one_exporter_index[OF this] show ?thesis by blast
  next
    case 2
    from Cons.IH[OF this] show ?thesis using Suc_leD by blast
  qed
qed simp

lemma exporter_distinct: "distinct (map stage_Name (exporter_stages c i es))"
proof (induction es arbitrary: i)
  case (Cons e es)
  have d: "distinct (map stage_Name (exporter_stages c i [e]))" by (simp add: exporter_stages.simps otel_stages_def split: ExporterType.splits)
  have "x \<notin> stage_Name ` set (exporter_stages c (Suc i) es)" if "x \<in> stage_Name ` set (exporter_stages c i [e])" for x
  proof
    assume "x \<in> stage_Name ` set (exporter_stages c (Suc i) es)"
    then obtain j where j: "j \<ge> Suc i" "stage_index x = show_nat j" using exporter_index by blast
    then show False using one_exporter_index[OF that] show_nat_inj[of i j] by simp
  qed
  then have "set (map stage_Name (exporter_stages c i [e])) \<inter> set (map stage_Name (exporter_stages c (Suc i) es)) = {}" by auto
  then show ?case using d Cons.IH[of "Suc i"] unfolding exporter_stages_Cons[of c i e es] map_append distinct_append by blast
qed simp

text \<open>The names that do not depend on the exporters.\<close>

definition fixed_names :: "'f PipelineBuilder \<Rightarrow> IPNet list \<Rightarrow> FlowCollectorSlice list \<Rightarrow> 'f MetricsItem list \<Rightarrow> string list" where
  "fixed_names b cidrs v ms =
     common_names b cidrs v @ map stage_Name (log_stages b []) @ map stage_Name (prom_stages b ms []) @ target_names b FLPFilterTargetExporters ''filters-exp''"

lemma fixed_names_opt:
  "fixed_names b cidrs v ms =
     opt (HasConntrack (spec_Processor (pb_desired b))) ''extract_conntrack'' @ opt True ''enrich''
     @ opt (subnet_labels b cidrs v \<noteq> []) ''subnets'' @ opt (IsBgpEnrichmentEnabled (spec_Processor (pb_desired b))) ''asns''
     @ opt (common_filters b v \<noteq> []) ''filters'' @ opt (HasFLPDeduper (spec_Processor (pb_desired b))) ''dedup''
     @ opt (UseLoki (pb_desired b) \<and> filtersToFLP (flp_Filters (spec_Processor (pb_desired b))) FLPFilterTargetLoki \<noteq> []) ''filters-loki''
     @ opt (UseLoki (pb_desired b)) ''loki'' @ opt (flp_LogLevel (spec_Processor (pb_desired b)) = ''trace'') ''stdout''
     @ opt (ms \<noteq> [] \<and> filtersToFLP (flp_Filters (spec_Processor (pb_desired b))) FLPFilterTargetMetrics \<noteq> []) ''filters-prom''
     @ opt (ms \<noteq> []) ''prometheus'' @ opt (filtersToFLP (flp_Filters (spec_Processor (pb_desired b))) FLPFilterTargetExporters \<noteq> []) ''filters-exp'' @ []"
  by (simp add: fixed_names_def common_names_def conntrack_names_def subnet_names_def bgp_names_def filters_names_def dedup_names_def
      log_stages_def prom_stages_def target_names_def)

lemma fixed_distinct: "p \<in> {''grpc'', ''kafka-read''} \<Longrightarrow> distinct (p # fixed_names b cidrs v ms)"
  unfolding fixed_names_opt distinct.simps(2)
  by (intro conjI distinct_opt notin_opt; auto)

lemma fixed_no_index: "n \<in> set (p # fixed_names b cidrs v ms) \<Longrightarrow> p \<in> {''grpc'', ''kafka-read''} \<Longrightarrow> stage_index n = []"
  unfolding fixed_names_opt
  by (auto simp: opt_def digit_val_def intro!: no_index split: if_splits)

lemma all_stages_names:
  "map stage_Name (all_stages b cidrs v ms p) =
     fixed_names b cidrs v ms
     @ map stage_Name (exporter_stages (last (last (p # common_names b cidrs v) # target_names b FLPFilterTargetExporters ''filters-exp'')) 0 (spec_Exporters (pb_desired b)))"
  by (simp add: all_stages_def fixed_names_def Let_def log_stages_def prom_stages_def)

lemma all_distinct:
  assumes "p \<in> {''grpc'', ''kafka-read''}"
  shows "distinct (p # map stage_Name (all_stages b cidrs v ms p))"
proof -
  let ?e = "exporter_stages (last (last (p # common_names b cidrs v) # target_names b FLPFilterTargetExporters ''filters-exp'')) 0 (spec_Exporters (pb_desired b))"
  have "set (p # fixed_names b cidrs v ms) \<inter> set (map stage_Name ?e) = {}"
  proof (rule equals0I, elim IntE)
    fix n assume n: "n \<in> set (p # fixed_names b cidrs v ms)" "n \<in> set (map stage_Name ?e)"
    from n(2) have "n \<in> stage_Name ` set ?e" by simp
    with exporter_index obtain j where "stage_index n = show_nat j" by metis
    with fixed_no_index[OF n(1) assms] show False by simp
  qed
  then have "distinct ((p # fixed_names b cidrs v ms) @ map stage_Name ?e)"
    using fixed_distinct[OF assms] exporter_distinct unfolding distinct_append by blast
  then show ?thesis by (simp add: all_stages_names)
qed

section \<open>Paths of the outputs\<close>

fun exporter_branches :: "nat \<Rightarrow> FlowCollectorExporter list \<Rightarrow> string list list" where
  "exporter_branches i [] = []"
| "exporter_branches i (e # es) =
     (case exp_Type e of
        KafkaExporter \<Rightarrow> [[''kafka-export-'' @ show_nat i]]
      | IpfixExporter \<Rightarrow> [[''ipfix-export-'' @ show_nat i]]
      | OpenTelemetryExporter \<Rightarrow>
          (let n = ''otel-export-'' @ show_nat i in
           opt (otel_logs (exp_OpenTelemetry e)) [n @ ''-transform'', n @ ''-logs''] @ opt (otel_metrics (exp_OpenTelemetry e)) [n @ ''-transform'', n @ ''-metrics''])
      | ExporterTypeUnset \<Rightarrow> []) @ exporter_branches (Suc i) es"

text \<open>
  The outputs, each as the stages it has after the common ones: its own filters when the user has set filters
  for its target, then the stage that writes or encodes.
\<close>

definition output_branches :: "'f PipelineBuilder \<Rightarrow> 'f MetricsItem list \<Rightarrow> string list list" where
  "output_branches b ms =
     opt (UseLoki (pb_desired b)) (target_names b FLPFilterTargetLoki ''filters-loki'' @ [''loki''])
     @ opt (flp_LogLevel (spec_Processor (pb_desired b)) = ''trace'') [''stdout'']
     @ opt (ms \<noteq> []) (target_names b FLPFilterTargetMetrics ''filters-prom'' @ [''prometheus''])
     @ map (\<lambda>br. target_names b FLPFilterTargetExporters ''filters-exp'' @ br) (exporter_branches 0 (spec_Exporters (pb_desired b)))"

lemma path_branch:
  assumes "distinct (map stage_Name (A @ linked c br @ B))" "br \<noteq> []"
  shows "path_to (A @ linked c br @ B) (last br) = path_to A c @ br"
proof -
  have "last br \<in> set (map stage_Name (linked c br))" using assms(2) by simp
  then have "last br \<notin> stage_Name ` set B" using assms(1) by auto
  then have "path_to (A @ linked c br @ B) (last br) = path_to (A @ linked c br) (last br)"
    by (simp flip: append_assoc)
  also have "\<dots> = path_to A c @ br" using path_linked[of br A c] assms by simp
  finally show ?thesis .
qed

lemma path_snoc_if: "path_to (ss @ [s]) n = (if stage_Name s = n then path_to ss (stage_Follows s) @ [n] else path_to ss n)"
  by (simp add: path_to_def)

lemma branches_nonempty: "br \<in> set (exporter_branches i es) \<Longrightarrow> br \<noteq> []"
  by (induction es arbitrary: i) (auto simp: Let_def opt_def split: ExporterType.splits if_splits)

lemma path_one_exporter:
  assumes "br \<in> set (exporter_branches i [e])"
  shows "path_to (A @ exporter_stages x i [e]) (last br) = path_to A x @ br" "last br \<in> stage_Name ` set (exporter_stages x i [e])"
proof -
  let ?n = "''otel-export-'' @ show_nat i"
  have three: "path_to (A @ [s, t, u]) n = (if stage_Name u = n then path_to (A @ [s, t]) (stage_Follows u) @ [n] else path_to (A @ [s, t]) n)"
    "path_to (A @ [s, t]) n = (if stage_Name t = n then path_to (A @ [s]) (stage_Follows t) @ [n] else path_to (A @ [s]) n)" for s t u n
    using path_snoc_if[of "A @ [s, t]" u n] path_snoc_if[of "A @ [s]" t n] by simp_all
  have ne: "?n @ ''-logs'' \<noteq> ?n @ ''-metrics''" "?n @ ''-transform'' \<noteq> ?n @ ''-metrics''" "?n @ ''-logs'' \<noteq> ?n @ ''-transform''" by simp_all
  consider (kafka) "exp_Type e = KafkaExporter" "br = [''kafka-export-'' @ show_nat i]" | (ipfix) "exp_Type e = IpfixExporter" "br = [''ipfix-export-'' @ show_nat i]"
    | (logs) "exp_Type e = OpenTelemetryExporter" "otel_logs (exp_OpenTelemetry e)" "br = [?n @ ''-transform'', ?n @ ''-logs'']"
    | (metrics) "exp_Type e = OpenTelemetryExporter" "otel_metrics (exp_OpenTelemetry e)" "br = [?n @ ''-transform'', ?n @ ''-metrics'']"
    using assms by (auto simp: Let_def opt_def split: ExporterType.splits if_splits)
  then show "path_to (A @ exporter_stages x i [e]) (last br) = path_to A x @ br" "last br \<in> stage_Name ` set (exporter_stages x i [e])"
    by (cases; simp add: exporter_stages.simps otel_stages_def three path_snoc_if)+
qed

lemma path_exporters:
  "distinct (map stage_Name (A @ exporter_stages x i es)) \<Longrightarrow> x \<in> stage_Name ` set A \<Longrightarrow> br \<in> set (exporter_branches i es) \<Longrightarrow>
     path_to (A @ exporter_stages x i es) (last br) = path_to A x @ br"
proof (induction es arbitrary: i A)
  case (Cons e es)
  let ?one = "exporter_stages x i [e]" and ?rest = "exporter_stages x (Suc i) es"
  have all: "A @ exporter_stages x i (e # es) = (A @ ?one) @ ?rest" by (simp add: exporter_stages_Cons[of x i e es])
  have d: "distinct (map stage_Name ((A @ ?one) @ ?rest))" using Cons.prems(1) by (simp add: all)
  consider "br \<in> set (exporter_branches i [e])" | "br \<in> set (exporter_branches (Suc i) es)" using Cons.prems(3) by auto
  then show ?case
  proof cases
    case 1
    have "last br \<notin> stage_Name ` set ?rest" using path_one_exporter(2)[OF 1, of x] d by auto
    then show ?thesis using path_one_exporter(1)[OF 1, of A x] by (simp add: all del: append_assoc)
  next
    case 2
    have "path_to (A @ ?one) x = path_to A x" using d Cons.prems(2) by (intro path_skip) auto
    moreover have "x \<in> stage_Name ` set (A @ ?one)" using Cons.prems(2) by auto
    ultimately show ?thesis using Cons.IH[OF d _ 2] by (simp only: all)
  qed
qed simp

lemma grow_linked:
  "pipeline_tree ss \<Longrightarrow> c \<in> stage_Name ` set ss \<Longrightarrow> distinct (map stage_Name (ss @ linked c ns)) \<Longrightarrow> pipeline_tree (ss @ linked c ns)"
  by (rule tree_linked) auto

lemma grow_otel:
  assumes "pipeline_tree ss" "c \<in> stage_Name ` set ss" "distinct (map stage_Name (ss @ otel_stages n e c))"
  shows "pipeline_tree (ss @ otel_stages n e c)"
proof (cases "otel_logs e \<or> otel_metrics e")
  case True
  let ?T = "ss @ linked c [n @ ''-transform'']"
  have t: "pipeline_tree ?T" using assms True by (intro grow_linked) (auto simp: otel_stages_def)
  have "pipeline_tree (?T @ (if otel_logs e then linked (n @ ''-transform'') [n @ ''-logs''] else []))" (is "pipeline_tree ?L")
    using assms True t grow_linked[OF t, of "n @ ''-transform''" "[n @ ''-logs'']"] by (auto simp: otel_stages_def split: if_splits)
  then have "pipeline_tree (?L @ (if otel_metrics e then linked (n @ ''-transform'') [n @ ''-metrics''] else []))"
    using assms True grow_linked[of ?L "n @ ''-transform''" "[n @ ''-metrics'']"] by (auto simp: otel_stages_def split: if_splits)
  then show ?thesis using True by (simp add: otel_stages_def)
qed (use assms in \<open>simp add: otel_stages_def\<close>)

lemma grow_exporters:
  "pipeline_tree ss \<Longrightarrow> c \<in> stage_Name ` set ss \<Longrightarrow> distinct (map stage_Name (ss @ exporter_stages c i es)) \<Longrightarrow> pipeline_tree (ss @ exporter_stages c i es)"
proof (induction es arbitrary: i ss)
  case (Cons e es)
  have all: "ss @ exporter_stages c i (e # es) = (ss @ exporter_stages c i [e]) @ exporter_stages c (Suc i) es" by (simp add: exporter_stages_Cons[of c i e es])
  have d: "distinct (map stage_Name ((ss @ exporter_stages c i [e]) @ exporter_stages c (Suc i) es))" using Cons.prems(3) by (simp only: all)
  then have "distinct (map stage_Name (ss @ exporter_stages c i [e]))" unfolding map_append distinct_append by simp
  then have "pipeline_tree (ss @ exporter_stages c i [e])"
    using Cons.prems(1,2) grow_linked[OF Cons.prems(1,2)] grow_otel[OF Cons.prems(1,2)]
    by (cases "exp_Type e") (simp_all only: exporter_stages.simps ExporterType.case append_Nil2)
  from Cons.IH[OF this _ d] Cons.prems(2) show ?case by (simp add: all image_Un)
qed simp

definition admin_cidrs :: "'f PipelineBuilder \<Rightarrow> IPNet list" where
  "admin_cidrs b = (case custom_cidrs (custom_labels b) of Inr c \<Rightarrow> c | Inl _ \<Rightarrow> [])"

definition pipeline_metrics :: "'f PipelineBuilder \<Rightarrow> 'f pstate \<Rightarrow> 'f MetricsItem list" where
  "pipeline_metrics b s =
     (case predefined_items (pb_ParseFloat b) (GetDefinitions (pb_desired b) False) of
        Inl _ \<Rightarrow> [] | Inr is \<Rightarrow> is @ fst (user_items b (ps_metrics s) (ps_fm_st s)))"

lemma prometheus_metrics: "fst (addPrometheusStage b c s) = Inr ms \<Longrightarrow> ms = pipeline_metrics b s"
  by (auto simp: addPrometheusStage_def pipeline_metrics_def Let_def case_prod_beta split: sum.splits if_splits)

lemma createPipeline_stages:
  assumes "createPipeline b p s = (None, s')"
  shows "grows s (all_stages b (admin_cidrs b) (view s) (pipeline_metrics b s) p) s'"
proof -
  obtain cidrs ms where g: "custom_cidrs (custom_labels b) = Inr cidrs"
    "fst (addPrometheusStage b (last (p # common_names b cidrs (view s))) (log_outputs b (last (p # common_names b cidrs (view s))) (snd (common_stages b p s)))) = Inr ms"
    "grows s (all_stages b cidrs (view s) ms p) s'"
    using createPipeline_grows[OF assms] by metis
  obtain s1 where "common_stages b p s = (Inr (last (p # common_names b cidrs (view s))), s1)" "ps_metrics s1 = ps_metrics s" "ps_fm_st s1 = ps_fm_st s"
    using common_stages_ok[OF g(1)[unfolded custom_labels_def]] by metis
  with prometheus_metrics[OF g(2)] have "ms = pipeline_metrics b s" by (simp add: pipeline_metrics_def cong: sum.case_cong)
  with g show ?thesis by (simp add: admin_cidrs_def)
qed

text \<open>Branches that leave one stage side by side.\<close>

lemma linked_name_set [simp]: "stage_Name ` set (linked p ns) = set ns"
  by (metis linked_names list.set_map)

definition fan :: "string \<Rightarrow> string list list \<Rightarrow> Stage list" where
  "fan c brs = concat (map (linked c) brs)"

lemma fan_simps [simp]: "fan c [] = []" "fan c (br # brs) = linked c br @ fan c brs"
  by (simp_all add: fan_def)

lemma fan_tree:
  "pipeline_tree A \<Longrightarrow> c \<in> stage_Name ` set A \<Longrightarrow> distinct (map stage_Name (A @ fan c brs)) \<Longrightarrow> pipeline_tree (A @ fan c brs)"
proof (induction brs arbitrary: A)
  case (Cons br brs)
  have "pipeline_tree (A @ linked c br)" using Cons.prems by (intro grow_linked) auto
  from Cons.IH[OF this] Cons.prems show ?case by auto
qed simp

lemma fan_path:
  "c \<in> stage_Name ` set A \<Longrightarrow> distinct (map stage_Name (A @ fan c brs @ B)) \<Longrightarrow> br \<in> set brs \<Longrightarrow> br \<noteq> [] \<Longrightarrow>
     path_to (A @ fan c brs @ B) (last br) = path_to A c @ br"
proof (induction brs arbitrary: A)
  case (Cons x brs)
  have all: "A @ fan c (x # brs) @ B = A @ linked c x @ (fan c brs @ B)" "A @ fan c (x # brs) @ B = (A @ linked c x) @ fan c brs @ B" by simp_all
  show ?case
  proof (cases "br = x")
    case True
    then show ?thesis using path_branch[of A c x "fan c brs @ B"] Cons.prems by (simp add: all(1))
  next
    case False
    have d: "distinct (map stage_Name ((A @ linked c x) @ fan c brs @ B))" using Cons.prems(2) by simp
    have "c \<notin> stage_Name ` set (linked c x)" using Cons.prems(1) d by auto
    then have skip: "path_to (A @ linked c x) c = path_to A c" by (rule path_skip)
    have "c \<in> stage_Name ` set (A @ linked c x)" "br \<in> set brs" using Cons.prems(1,3) False by auto
    from Cons.IH[OF this(1) d this(2) Cons.prems(4)] show ?thesis unfolding all(2) skip .
  qed
qed simp

definition inner_branches :: "'f PipelineBuilder \<Rightarrow> 'f MetricsItem list \<Rightarrow> string list list" where
  "inner_branches b ms =
     opt (UseLoki (pb_desired b)) (target_names b FLPFilterTargetLoki ''filters-loki'' @ [''loki''])
     @ opt (flp_LogLevel (spec_Processor (pb_desired b)) = ''trace'') [''stdout'']
     @ opt (ms \<noteq> []) (target_names b FLPFilterTargetMetrics ''filters-prom'' @ [''prometheus''])"

lemma inner_fan: "log_stages b c @ prom_stages b ms c = fan c (inner_branches b ms)"
  by (simp add: log_stages_def prom_stages_def inner_branches_def opt_def)

lemma inner_nonempty: "br \<in> set (inner_branches b ms) \<Longrightarrow> br \<noteq> []"
  by (auto simp: inner_branches_def opt_def split: if_splits)

lemma last_in_linked: "c \<in> stage_Name ` set A \<Longrightarrow> last (c # t) \<in> stage_Name ` set (A @ linked c t)"
  by (cases t rule: rev_cases) (auto simp: linked_append)

text \<open>The whole tree: the common stages, the inner outputs, then the exporters behind their own filters.\<close>

lemma outputs_tree:
  assumes "pipeline_tree T" "c \<in> stage_Name ` set T" "distinct (map stage_Name (T @ fan c brs @ linked c t @ exporter_stages (last (c # t)) i es))"
  shows "pipeline_tree (T @ fan c brs @ linked c t @ exporter_stages (last (c # t)) i es)"
proof -
  have "pipeline_tree (T @ fan c brs)" using assms by (intro fan_tree) auto
  then have "pipeline_tree ((T @ fan c brs) @ linked c t)" using assms by (intro grow_linked) auto
  from grow_exporters[OF this last_in_linked, of i es] assms show ?thesis by auto
qed

lemma exporter_paths:
  assumes "c \<in> stage_Name ` set T" "distinct (map stage_Name (T @ fan c brs @ linked c t @ exporter_stages (last (c # t)) i es))"
    "br \<in> set (exporter_branches i es)"
  shows "path_to (T @ fan c brs @ linked c t @ exporter_stages (last (c # t)) i es) (last br) = path_to T c @ t @ br"
proof -
  let ?A = "(T @ fan c brs) @ linked c t"
  have "path_to (T @ fan c brs) c = path_to T c" using assms by (intro path_skip) auto
  then have "path_to ?A (last (c # t)) = path_to T c @ t"
    using path_linked[of t "T @ fan c brs" c] assms(2) by auto
  moreover have "last (c # t) \<in> stage_Name ` set ?A" using assms(1) by (intro last_in_linked) auto
  ultimately show ?thesis using path_exporters[of ?A "last (c # t)" i es br] assms by auto
qed

text \<open>
  C6: the pipeline built for a specification is a tree of stages rooted in the ingest stage, with no two stages
  of one name and one set of parameters per stage, in order. Every output (Loki, the traced standard output,
  the metrics, each exporter) is reached through all common stages in the order conversation tracking,
  enrichment, subnet labels, BGP, filters, removal of duplicates, as far as they are enabled, followed by the
  filters set for that output and by those of no other output.
\<close>

theorem pipeline_paths:
  assumes "createPipeline b p s = (None, s')" "p \<in> {''grpc'', ''kafka-read''}" "ps_pipeline s = new_pipeline p ingest"
  shows "pipeline_tree (pl_stages (ps_pipeline s'))
    \<and> map sp_Name (pl_config (ps_pipeline s')) = map stage_Name (pl_stages (ps_pipeline s'))
    \<and> (\<forall>br \<in> set (output_branches b (pipeline_metrics b s)).
         path_to (pl_stages (ps_pipeline s')) (last br) = p # common_names b (admin_cidrs b) (view s) @ br)"
proof -
  define ms where "ms = pipeline_metrics b s"
  define cn where "cn = common_names b (admin_cidrs b) (view s)"
  define c where "c = last (p # cn)"
  define t where "t = target_names b FLPFilterTargetExporters ''filters-exp''"
  let ?F = "fan c (inner_branches b ms)" and ?E = "exporter_stages (last (c # t)) 0 (spec_Exporters (pb_desired b))"
  define T where "T = [\<lparr>stage_Name = p, stage_Follows = []\<rparr>] @ linked p cn"
  have st: "pl_stages (ps_pipeline s') = T @ ?F @ linked c t @ ?E"
    "map sp_Name (pl_config (ps_pipeline s')) = map stage_Name (pl_stages (ps_pipeline s'))"
    using createPipeline_stages[OF assms(1)] assms(3)
    by (simp_all add: grows_def new_pipeline_def all_stages_def T_def ms_def cn_def c_def t_def Let_def flip: inner_fan)
  have d: "distinct (map stage_Name (T @ ?F @ linked c t @ ?E))"
    using all_distinct[OF assms(2), of b "admin_cidrs b" "view s" ms]
    by (simp add: all_stages_def T_def ms_def cn_def c_def t_def Let_def flip: inner_fan)
  have cT: "c \<in> stage_Name ` set T" using last_in_linked[of p "[\<lparr>stage_Name = p, stage_Follows = []\<rparr>]" cn] by (simp add: T_def c_def)
  have pc: "path_to T c = p # cn"
    using path_linked[of cn "[\<lparr>stage_Name = p, stage_Follows = []\<rparr>]" p] d by (simp add: T_def c_def path_to_def)
  have "pipeline_tree T" using pipeline_tree.root[of p] d unfolding T_def by (intro grow_linked) auto
  then have tree: "pipeline_tree (pl_stages (ps_pipeline s'))" using outputs_tree cT d by (simp only: st(1))
  have "path_to (pl_stages (ps_pipeline s')) (last br) = p # cn @ br" if br: "br \<in> set (output_branches b ms)" for br
  proof (cases "br \<in> set (inner_branches b ms)")
    case True
    from fan_path[OF cT d True inner_nonempty[OF True]] show ?thesis by (simp add: st(1) pc)
  next
    case False
    then obtain e where e: "e \<in> set (exporter_branches 0 (spec_Exporters (pb_desired b)))" "br = t @ e"
      using br by (auto simp: output_branches_def inner_branches_def t_def)
    from exporter_paths[OF cT d e(1)] show ?thesis using branches_nonempty[OF e(1)] by (simp add: st(1) pc e(2))
  qed
  then show ?thesis using tree st(2) by (simp add: ms_def cn_def)
qed

end
