(* ===== verification/Pipeline_Outcome.thy ===== *)
theory Pipeline_Outcome
  imports Pipeline_Correct Metric_Status_Correct
begin

text \<open>
  When the construction of the pipeline fails, and what a faulty custom metric can do to it.
\<close>

section \<open>Errors of the construction\<close>

text \<open>The one fault of an exporter that the construction meets: OpenTelemetry metrics with no push interval.\<close>

definition lacks_interval :: "FlowCollectorExporter \<Rightarrow> bool" where
  "lacks_interval e \<longleftrightarrow> exp_Type e = OpenTelemetryExporter \<and> otel_metrics (exp_OpenTelemetry e)
     \<and> otm_PushTimeInterval (ot_Metrics (exp_OpenTelemetry e)) = None"

lemma add_exporter_outcome:
  assumes "pb_otel b = Inr cfg"
  shows "fst (add_exporter b c ms i e s) = (if lacks_interval e then Some NilPushTimeInterval else None)"
  using assms
  by (auto simp: add_exporter_def lacks_interval_def otel_metrics_def createOpenTelemetryStage_def Let_def case_prod_beta
      GetOtelTransformConfig_def GetOtelTransformRules_def GetOtelMetrics_def split: ExporterType.split option.split)

lemma add_exporters_outcome:
  "pb_otel b = Inr cfg \<Longrightarrow> fst (add_exporters b c ms i es s) = (if list_ex lacks_interval es then Some NilPushTimeInterval else None)"
proof (induction es arbitrary: i s)
  case (Cons e es)
  obtain r s' where r: "add_exporter b c ms i e s = (r, s')" by fastforce
  with add_exporter_outcome[OF Cons.prems, of c ms i e s] Cons.IH[OF Cons.prems, of "Suc i" s'] show ?case
    by (cases "lacks_interval e") simp_all
qed simp

lemma addCustomExportStages_outcome:
  "pb_otel b = Inr cfg \<Longrightarrow>
     fst (addCustomExportStages b c ms s) = (if list_ex lacks_interval (spec_Exporters (pb_desired b)) then Some NilPushTimeInterval else None)"
  by (simp add: addCustomExportStages_def case_prod_beta add_exporters_outcome)

lemma addPrometheusStage_outcome:
  "predefined_items (pb_ParseFloat b) (GetDefinitions (pb_desired b) False) = Inr is \<Longrightarrow> \<exists>ms s'. addPrometheusStage b c s = (Inr ms, s')"
  by (auto simp: addPrometheusStage_def Let_def case_prod_beta)

lemma common_stages_error: "custom_cidrs (custom_labels b) = Inl e \<Longrightarrow> fst (common_stages b p s) = Inl e"
  by (simp add: common_stages_def addSubnetLabelsStage_def custom_labels_def case_prod_beta)

lemma createPipeline_fst:
  assumes "predefined_items (pb_ParseFloat b) (GetDefinitions (pb_desired b) False) = Inr is" and "pb_otel b = Inr cfg"
  shows "fst (createPipeline b p s) =
    (case custom_cidrs (custom_labels b) of
       Inl e \<Rightarrow> Some e
     | Inr _ \<Rightarrow> if list_ex lacks_interval (spec_Exporters (pb_desired b)) then Some NilPushTimeInterval else None)"
proof (cases "custom_cidrs (custom_labels b)")
  case (Inl e)
  from common_stages_error[OF Inl, of p s] Inl show ?thesis
    by (cases "common_stages b p s") (simp add: createPipeline_def custom_labels_def)
next
  case (Inr cidrs)
  then obtain c s1 where c: "common_stages b p s = (Inr c, s1)" using common_stages_ok[OF Inr[unfolded custom_labels_def]] by metis
  obtain ms s2 where "addPrometheusStage b c (log_outputs b c s1) = (Inr ms, s2)" using addPrometheusStage_outcome[OF assms(1)] by metis
  with c Inr addCustomExportStages_outcome[OF assms(2), of c ms s2] show ?thesis by (simp add: createPipeline_def custom_labels_def)
qed


section \<open>Custom metrics\<close>

definition translated :: "'f PipelineBuilder \<Rightarrow> FlowMetric list \<Rightarrow> 'f MetricsItem list" where
  "translated b fms = List.map_filter (\<lambda>fm. case flowMetricToFLP (pb_ParseFloat b) fm of Inl _ \<Rightarrow> None | Inr m \<Rightarrow> Some m) fms"

lemma user_items_translated: "fst (user_items b fms st) = translated b fms"
  by (induction fms arbitrary: st) (auto simp: translated_def map_filter_simps Let_def case_prod_beta split: sum.split)

lemma SetFailure_other: "k \<noteq> fm_key_of fm \<Longrightarrow> fm_mapStatuses (fm_SetFailure fm e st) k = fm_mapStatuses st k"
  by (simp add: fm_SetFailure_def)

lemma CheckCardinality_other: "k \<noteq> fm_key_of fm \<Longrightarrow> fm_mapStatuses (fm_CheckCardinality t fm st) k = fm_mapStatuses st k"
  by (simp add: fm_CheckCardinality_def fm_SetFailure_def fm_SetReady_def Let_def split: sum.split)

lemma key_status_update [simp]: "fm_key_of (fm\<lparr>flm_Status := x\<rparr>) = fm_key_of fm"
  by (simp add: fm_key_of_def)

lemma user_items_others:
  "k \<notin> fm_key_of ` set fms \<Longrightarrow> fm_mapStatuses (snd (snd (user_items b fms st))) k = fm_mapStatuses st k"
  by (induction fms arbitrary: st) (auto simp: Let_def case_prod_beta SetFailure_other CheckCardinality_other split: sum.split)

definition metric_outcome :: "'f PipelineBuilder \<Rightarrow> FlowMetric \<Rightarrow> ConditionStatus \<times> string \<times> string" where
  "metric_outcome b fm =
     (case flowMetricToFLP (pb_ParseFloat b) fm of
        Inl e \<Rightarrow> (ConditionFalse, ''Failure'', pb_flp_error b e)
      | Inr _ \<Rightarrow> (case card_CheckCardinality (pb_cards b) (fms_Labels (flm_Spec fm)) of
                   Inl e \<Rightarrow> (ConditionFalse, ''Failure'', e) | Inr _ \<Rightarrow> (ConditionTrue, ''Ready'', ''flowlogs-pipeline configured'')))"

definition has_outcome :: "fm_statuses \<Rightarrow> fm_key \<Rightarrow> ConditionStatus \<times> string \<times> string \<Rightarrow> bool" where
  "has_outcome st k r \<longleftrightarrow> fm_mapStatuses st k = Some (case r of (cs, reason, msg) \<Rightarrow> mk_condition ''Ready'' cs reason msg)"

lemma user_items_outcomes:
  "distinct (map fm_key_of fms) \<Longrightarrow> fm \<in> set fms \<Longrightarrow> has_outcome (snd (snd (user_items b fms st))) (fm_key_of fm) (metric_outcome b fm)"
proof (induction fms arbitrary: st)
  case (Cons x fms)
  then show ?case
  proof (cases "fm = x")
    case True
    then have "fm_key_of x \<notin> fm_key_of ` set fms" using Cons.prems by simp
    from user_items_others[OF this, of b] True show ?thesis
      by (auto simp: has_outcome_def metric_outcome_def Let_def case_prod_beta fm_SetFailure_def fm_CheckCardinality_def fm_SetReady_def split: sum.split)
  next
    case False
    then show ?thesis using Cons by (auto simp: Let_def case_prod_beta split: sum.split)
  qed
qed simp

text \<open>What comes after the metrics stage leaves the statuses of the metrics alone.\<close>

lemma add_exporters_metrics: "ps_fm_st (snd (add_exporters b c ms i es s)) = ps_fm_st s"
proof (induction es arbitrary: i s)
  case (Cons e es)
  have "ps_fm_st (snd (add_exporter b c ms i e s)) = ps_fm_st s"
    by (auto simp: add_exporter_def createKafkaWriteStage_def createIPFIXWriteStage_def createOpenTelemetryStage_def Let_def case_prod_beta pipe_next_def
        split: ExporterType.split sum.split option.split)
  with Cons.IH show ?case by (auto split: prod.split option.split)
qed simp

lemma addCustomExportStages_metrics: "ps_fm_st (snd (addCustomExportStages b c ms s)) = ps_fm_st s"
  by (simp add: addCustomExportStages_def case_prod_beta add_exporters_metrics target_filters_def Let_def pipe_next_def)

lemma addPrometheusStage_statuses:
  "addPrometheusStage b c s = (Inr ms, s') \<Longrightarrow> ps_fm_st s' = snd (snd (user_items b (ps_metrics s) (ps_fm_st s)))"
  by (auto simp: addPrometheusStage_def target_filters_def Let_def case_prod_beta pipe_next_def split: sum.splits if_splits)

lemma createPipeline_statuses:
  assumes "createPipeline b p s = (None, s')"
  shows "ps_fm_st s' = snd (snd (user_items b (ps_metrics s) (ps_fm_st s)))"
proof (cases "custom_cidrs (custom_labels b)")
  case (Inl e)
  from common_stages_error[OF Inl, of p s] assms show ?thesis by (cases "common_stages b p s") (simp add: createPipeline_def)
next
  case (Inr cidrs)
  obtain c s1 where c: "common_stages b p s = (Inr c, s1)" "ps_metrics s1 = ps_metrics s" "ps_fm_st s1 = ps_fm_st s"
    using common_stages_ok[OF Inr[unfolded custom_labels_def]] by metis
  obtain ms s2 where s2: "addPrometheusStage b c (log_outputs b c s1) = (Inr ms, s2)" "addCustomExportStages b c ms s2 = (None, s')"
    using assms c(1) by (auto simp: createPipeline_def split: prod.splits sum.splits)
  have "ps_fm_st s' = ps_fm_st s2" using addCustomExportStages_metrics[of b c ms s2] s2(2) by simp
  with addPrometheusStage_statuses[OF s2(1)] c show ?thesis by simp
qed


section \<open>A concrete pipeline\<close>

text \<open>
  A specification with an exporter to Kafka, a filter for that exporter only, tracing, no predefined metric and
  two custom ones, the second of which has a divider that is no number.
\<close>

definition demo_exporter :: FlowCollectorExporter where
  "demo_exporter = \<lparr>exp_Type = KafkaExporter, exp_Kafka = zero_kafka,
     exp_IPFIX = \<lparr>ipfixr_TargetHost = [], ipfixr_TargetPort = 0, ipfixr_Transport = [], ipfixr_EnterpriseID = 0\<rparr>,
     exp_OpenTelemetry = \<lparr>ot_TargetHost = [], ot_TargetPort = 0, ot_Protocol = [], ot_Headers = Map.empty, ot_TLS = zero_ctls,
       ot_FieldsMapping = None, ot_Logs = \<lparr>otl_Enable = None\<rparr>, ot_Metrics = \<lparr>otm_Enable = None, otm_PushTimeInterval = None\<rparr>\<rparr>\<rparr>"

definition demo_spec :: FlowCollectorSpec where
  "demo_spec = zero_spec\<lparr>spec_Processor := zero_flp\<lparr>flp_LogLevel := ''trace'',
       flp_Filters := [\<lparr>fs_Query = ''a=1'', fs_OutputTarget = FLPFilterTargetExporters, fs_Sampling = 0\<rparr>],
       flp_Metrics := (flp_Metrics zero_flp)\<lparr>fm_IncludeList := Some []\<rparr>\<rparr>,
     spec_Loki := zero_loki\<lparr>loki_Enable := Some False\<rparr>, spec_Exporters := [demo_exporter]\<rparr>"

definition demo_float :: "string \<Rightarrow> nat option" where
  "demo_float s = (if s = ''x'' then None else Some (length s))"

definition demo_metric :: "string \<Rightarrow> string \<Rightarrow> FlowMetric" where
  "demo_metric n d = \<lparr>flm_Name = n, flm_Namespace = ''ns'', flm_Spec = zero_metric\<lparr>fms_MetricName := n, fms_Type := ''counter'', fms_Divider := d\<rparr>,
     flm_Status = \<lparr>fmst_Conditions = [], fmst_PrometheusName = []\<rparr>\<rparr>"

definition demo_builder :: "nat PipelineBuilder" where
  "demo_builder = \<lparr>pb_operandsNamespace = ''netobserv'', pb_desired = demo_spec, pb_detectedSubnets = [], pb_loki = loki_Manual zero_loki,
     pb_clusterID = [], pb_defaults = \<lparr>GetFieldDefaultInt32 = (\<lambda>_ _. 0), GetFieldDefaultBool = (\<lambda>_ _. False),
       GetFieldDefaultDuration = (\<lambda>_ _. 0), GetFieldDefaultMapString = (\<lambda>_ _. Map.empty)\<rparr>,
     pb_texts = \<lparr>txt_wrong_cidr = (\<lambda>_ _. []), txt_full_overlap = (\<lambda>_ _ _ _. []), txt_overlap = (\<lambda>_ _ _ _. [])\<rparr>,
     pb_flp_error = (\<lambda>_. ''bad''), pb_otel = Inr [], pb_cards = Inr Map.empty, pb_ParseFloat = demo_float\<rparr>"

definition demo_state :: "nat pstate" where
  "demo_state = \<lparr>ps_pipeline = new_pipeline ''grpc'' (PGRPC \<lparr>ig_Port = 2055, ig_CertPath = [], ig_KeyPath = [], ig_ClientCAPath = []\<rparr>),
     ps_volumes = [], ps_slices = [], ps_slice_st = fst (slices_Reset []), ps_metrics = [demo_metric ''good'' ''10'', demo_metric ''broken'' ''x''], ps_fm_st = fm_Reset\<rparr>"

lemma demo_spec_sel [simp]:
  "spec_Processor demo_spec = zero_flp\<lparr>flp_LogLevel := ''trace'',
       flp_Filters := [\<lparr>fs_Query = ''a=1'', fs_OutputTarget = FLPFilterTargetExporters, fs_Sampling = 0\<rparr>],
       flp_Metrics := (flp_Metrics zero_flp)\<lparr>fm_IncludeList := Some []\<rparr>\<rparr>"
  "spec_Loki demo_spec = zero_loki\<lparr>loki_Enable := Some False\<rparr>" "spec_Exporters demo_spec = [demo_exporter]" "spec_Agent demo_spec = zero_agent"
  by (simp_all add: demo_spec_def zero_spec_def)

lemma demo_builder_sel [simp]:
  "pb_desired demo_builder = demo_spec" "pb_otel demo_builder = Inr []" "pb_ParseFloat demo_builder = demo_float" "pb_detectedSubnets demo_builder = []"
  by (simp_all add: demo_builder_def)

lemma demo_predefined: "predefined_items pf (GetDefinitions demo_spec False) = Inr []"
  by (simp add: GetDefinitions_def include_list_filter include_base_def getUpdatedDefsFromNames_def)

lemma demo_labels: "custom_labels demo_builder = []" "admin_cidrs demo_builder = []"
  by (simp_all add: custom_labels_def admin_cidrs_def zero_flp_def)

lemma demo_succeeds: "createPipeline demo_builder ''grpc'' demo_state = (None, snd (createPipeline demo_builder ''grpc'' demo_state))"
  using createPipeline_fst[of demo_builder "[]" "[]" "''grpc''" demo_state] demo_predefined[of demo_float] demo_labels
  by (simp add: lacks_interval_def demo_exporter_def prod_eq_iff)


lemma demo_metrics: "distinct (map fm_key_of (ps_metrics demo_state))" "demo_metric ''broken'' ''x'' \<in> set (ps_metrics demo_state)"
  by (simp_all add: demo_state_def fm_key_of_def demo_metric_def)


lemma show_nat_0: "show_nat 0 = ''0''"
  by code_simp

theorem pipeline_paths_witness:
  "path_to (pl_stages (ps_pipeline (snd (createPipeline demo_builder ''grpc'' demo_state)))) ''kafka-export-0'' = [''grpc'', ''enrich'', ''filters-exp'', ''kafka-export-0'']"
proof -
  have "[''filters-exp'', ''kafka-export-0''] \<in> set (output_branches demo_builder (pipeline_metrics demo_builder demo_state))"
    by (simp add: output_branches_def target_names_def filtersToFLP_def demo_exporter_def show_nat_0)
  moreover have "common_names demo_builder [] (view demo_state) = [''enrich'']"
    by (simp add: common_names_def conntrack_names_def subnet_names_def subnet_labels_def bgp_names_def filters_names_def dedup_names_def common_filters_def
        HasConntrack_def IsBgpEnrichmentEnabled_def HasFLPDeduper_def
        addOtherTransforms_def filtersToFLP_def slicesToFilters_def IsSliceEnabled_def go_simps feature_defs zero_flp_def demo_builder_def)
  ultimately show ?thesis
    using pipeline_paths[OF demo_succeeds, of "PGRPC \<lparr>ig_Port = 2055, ig_CertPath = [], ig_KeyPath = [], ig_ClientCAPath = []\<rparr>"] demo_labels(2)
    by (fastforce simp: demo_state_def)
qed

end
