(* ===== verification/Watchers.thy ===== *)
theory Watchers
  imports Reconcilers
begin

text \<open>
  \<open>internal/pkg/watchers\<close>: certificates and files that a user refers to are watched, digested for the pods'
  annotations and copied into the namespace of the pods when they live elsewhere. A secret or config map is its
  data with the rest of the object; the bytes of a secret are characters. There is one client and one way to
  register a watch per kind; \<open>errors.IsForbidden\<close> is a parameter.
\<close>

unbundle bit_operations_syntax

section \<open>Digests\<close>

text \<open>\<open>fnv.New32\<close>: multiplication by the prime, then exclusive or with the byte, on 32 bits.\<close>

definition fnv32_step :: "32 word \<Rightarrow> char \<Rightarrow> 32 word" where
  "fnv32_step h c = (h * 16777619) XOR of_char c"

definition fnv32 :: "string \<Rightarrow> 32 word" where
  "fnv32 bytes = foldl fnv32_step 2166136261 bytes"

definition sum_bytes :: "32 word \<Rightarrow> nat list" where
  "sum_bytes h = map (\<lambda>i. unat (drop_bit i h AND 255)) [24, 16, 8, 0]"

text \<open>The two alphabets of \<open>encoding/base64\<close>, which differ in their last two characters.\<close>

definition b64_alphabet :: "string \<Rightarrow> string" where
  "b64_alphabet end2 = ''ABCDEFGHIJKLMNOPQRSTUVWXYZabcdefghijklmnopqrstuvwxyz0123456789'' @ end2"

fun b64 :: "string \<Rightarrow> nat list \<Rightarrow> string" where
  "b64 al [] = []"
| "b64 al [a] = [al ! (a div 4), al ! (a mod 4 * 16), CHR ''='', CHR ''='']"
| "b64 al [a, b] = [al ! (a div 4), al ! (a mod 4 * 16 + b div 16), al ! (b mod 16 * 4), CHR ''='']"
| "b64 al (a # b # c # r) =
     al ! (a div 4) # al ! (a mod 4 * 16 + b div 16) # al ! (b mod 16 * 4 + c div 64) # al ! (c mod 64) # b64 al r"

text \<open>
  The JSON text of a string as \<open>encoding/json\<close> writes it, for valid UTF-8 without the two Unicode line
  separators: quotes, backslashes, control characters and the three HTML characters are escaped.
\<close>

definition hex_digit :: "nat \<Rightarrow> char" where
  "hex_digit n = ''0123456789abcdef'' ! n"

definition json_char :: "char \<Rightarrow> string" where
  "json_char c =
     (if c = CHR 0x22 \<or> c = CHR 0x5C then [CHR 0x5C, c]
      else if c = CHR 0x08 then [CHR 0x5C, CHR ''b'']
      else if c = CHR 0x0C then [CHR 0x5C, CHR ''f'']
      else if c = CHR 0x0A then [CHR 0x5C, CHR ''n'']
      else if c = CHR 0x0D then [CHR 0x5C, CHR ''r'']
      else if c = CHR 0x09 then [CHR 0x5C, CHR ''t'']
      else if of_char c < (32 :: nat) \<or> c \<in> {CHR ''<'', CHR ''>'', CHR ''&''}
      then [CHR 0x5C, CHR ''u'', CHR ''0'', CHR ''0'', hex_digit (of_char c div 16), hex_digit (of_char c mod 16)]
      else [c])"

definition json_string :: "string \<Rightarrow> string" where
  "json_string s = [CHR 0x22] @ concat (map json_char s) @ [CHR 0x22]"

definition json_bytes :: "string option \<Rightarrow> string" where
  "json_bytes b = (case b of None \<Rightarrow> ''null'' | Some s \<Rightarrow> [CHR 0x22] @ b64 (b64_alphabet ''+/'') (map of_char s) @ [CHR 0x22])"

text \<open>The encoder writes one line per chunk; on these chunks it does not fail.\<close>

definition getDigest :: "string list \<Rightarrow> (string \<Rightarrow> string) \<Rightarrow> string" where
  "getDigest keys chunker =
     b64 (b64_alphabet ''-_'') (sum_bytes (fnv32 (concat (map (\<lambda>k. chunker k @ [CHR 0x0A]) keys))))"

section \<open>Watchable objects\<close>

datatype Watchable = SecretWatchable | ConfigWatchable

record watch_body =
  wb_Data :: go_map
  wb_Rest :: go_value

definition kindToWatchable :: "MountableType \<Rightarrow> Watchable" where
  "kindToWatchable kind = (if kind = RefTypeConfigMap then ConfigWatchable else SecretWatchable)"

fun GetDigest :: "Watchable \<Rightarrow> watch_body k8s_object \<Rightarrow> string list \<Rightarrow> string" where
  "GetDigest SecretWatchable x keys = getDigest keys (\<lambda>k. json_bytes (map_of (wb_Data (obj_Body x)) k))"
| "GetDigest ConfigWatchable x keys = getDigest keys (\<lambda>k. json_string (go_lookup (wb_Data (obj_Body x)) k))"

definition PrepareForCreate :: "watch_body k8s_object \<Rightarrow> ObjectMeta \<Rightarrow> watch_body k8s_object" where
  "PrepareForCreate x m = x\<lparr>obj_Meta := m\<rparr>"

definition PrepareForUpdate :: "watch_body k8s_object \<Rightarrow> watch_body k8s_object \<Rightarrow> watch_body k8s_object" where
  "PrepareForUpdate from to = to\<lparr>obj_Body := (obj_Body to)\<lparr>wb_Data := wb_Data (obj_Body from)\<rparr>\<rparr>"

section \<open>References\<close>

record objectRef =
  or_kind :: MountableType
  or_name :: string
  or_namespace :: string
  or_keys :: "string list"

record Watcher =
  wt_defaultNamespace :: string
  wt_operatorNamespace :: string

definition NewWatcher :: "string \<Rightarrow> Watcher" where
  "NewWatcher opNamespace = \<lparr>wt_defaultNamespace = [], wt_operatorNamespace = opNamespace\<rparr>"

definition refFromFile :: "Watcher \<Rightarrow> FileReference \<Rightarrow> objectRef" where
  "refFromFile w fr =
     \<lparr>or_kind = fref_Type fr, or_name = fref_Name fr,
      or_namespace = (if fref_Namespace fr = [] then wt_defaultNamespace w else fref_Namespace fr), or_keys = [fref_File fr]\<rparr>"

definition refFromCert :: "Watcher \<Rightarrow> CertificateReference \<Rightarrow> objectRef" where
  "refFromCert w cert =
     \<lparr>or_kind = cref_Type cert, or_name = cref_Name cert,
      or_namespace = (if cref_Namespace cert = [] then wt_defaultNamespace w else cref_Namespace cert),
      or_keys = cref_CertFile cert # (if cref_CertKey cert \<noteq> [] then [cref_CertKey cert] else [])\<rparr>"

section \<open>Watching and copying one object\<close>

record 'w watch_env =
  we_client :: "Watchable \<Rightarrow> (watch_body, 'w) k8s_client"
  we_EnqueueOnChange :: "Watchable \<Rightarrow> (watch_body, 'w) enqueuer"
  we_ResetActiveWatches :: "'w \<Rightarrow> 'w"
  we_IsForbidden :: "client_error \<Rightarrow> bool"

definition watcher_Reset :: "'w watch_env \<Rightarrow> string \<Rightarrow> Watcher \<Rightarrow> 'w \<Rightarrow> Watcher \<times> 'w" where
  "watcher_Reset env namespace w s = (w\<lparr>wt_defaultNamespace := namespace\<rparr>, we_ResetActiveWatches env s)"

definition read_hint :: "Watcher \<Rightarrow> objectRef \<Rightarrow> string \<Rightarrow> string" where
  "read_hint w ref dest =
     ''make sure you grant Secret access permissions to the operator: kubectl create rolebinding secret-watcher -n '' @ or_namespace ref
     @ '' --clusterrole=netobserv-secret-watcher --serviceaccount='' @ wt_operatorNamespace w
     @ '':netobserv-controller-manager ; kubectl create rolebinding secret-creator -n '' @ dest
     @ '' --clusterrole=netobserv-secret-creator --serviceaccount='' @ wt_operatorNamespace w @ '':netobserv-controller-manager - error was: ''"

definition write_hint :: "Watcher \<Rightarrow> string \<Rightarrow> string" where
  "write_hint w dest =
     ''make sure you grant Secret write permissions to the operator: kubectl create rolebinding secret-creator -n '' @ dest
     @ '' --clusterrole=netobserv-secret-creator --serviceaccount='' @ wt_operatorNamespace w @ '':netobserv-controller-manager - error was: ''"

definition hinted :: "'w watch_env \<Rightarrow> objectRef \<Rightarrow> string \<Rightarrow> client_error \<Rightarrow> client_error" where
  "hinted env ref hint e = (if or_kind ref = RefTypeSecret \<and> we_IsForbidden env e then Wrapped hint e else e)"

definition copy_meta :: "objectRef \<Rightarrow> string \<Rightarrow> ObjectMeta" where
  "copy_meta ref dest =
     \<lparr>om_Name = or_name ref, om_Namespace = dest, om_Labels = None,
      om_Annotations = Some [(''flows.netobserv.io/copied-from'', or_namespace ref @ ''/'' @ or_name ref)],
      om_OwnerReferences = [], om_ResourceVersion = [], om_Generation = 0, om_DeletionTimestamp = None\<rparr>"

text \<open>The part of \<open>reconcile\<close> for an object of another namespace.\<close>

definition copy_object ::
  "'w watch_env \<Rightarrow> Watcher \<Rightarrow> objectRef \<Rightarrow> string \<Rightarrow> watch_body k8s_object \<Rightarrow> string \<Rightarrow> 'w \<Rightarrow> (client_error + string) \<times> 'w" where
  "copy_object env w ref dest obj digest s =
     (let k = kindToWatchable (or_kind ref); cl = we_client env k in
      case cl_Get cl (dest, or_name ref) s of
        Inl NotFound \<Rightarrow>
          (case CreateOwned cl (PrepareForCreate obj (copy_meta ref dest)) s of
             (Some e, s') \<Rightarrow> (Inl (hinted env ref (write_hint w dest) e), s')
           | (None, s') \<Rightarrow> (Inr digest, s'))
      | Inl e \<Rightarrow> (Inl (ApiErr e), s)
      | Inr target \<Rightarrow>
          if GetDigest k target (or_keys ref) \<noteq> digest then
            (let target' = PrepareForUpdate obj target in
             case UpdateOwned cl (Some target') target' s of
               (Some e, s') \<Rightarrow> (Inl (hinted env ref (write_hint w dest) e), s')
             | (None, s') \<Rightarrow> (Inr digest, s'))
          else (Inr digest, s))"

definition watcher_reconcile :: "'w watch_env \<Rightarrow> Watcher \<Rightarrow> objectRef \<Rightarrow> string \<Rightarrow> 'w \<Rightarrow> (client_error + string) \<times> 'w" where
  "watcher_reconcile env w ref dest s =
     (let k = kindToWatchable (or_kind ref) in
      case cl_Get (we_client env k) (or_namespace ref, or_name ref) s of
        Inl e \<Rightarrow> (Inl (hinted env ref (read_hint w ref dest) (ApiErr e)), s)
      | Inr obj \<Rightarrow>
          (case we_EnqueueOnChange env k obj s of
             (Some e, s1) \<Rightarrow> (Inl (Wrapped ''narrowcache EnqueueOnChange error: '' e), s1)
           | (None, s1) \<Rightarrow>
               (let digest = GetDigest k obj (or_keys ref) in
                if or_namespace ref \<noteq> dest then copy_object env w ref dest obj digest s1 else (Inr digest, s1))))"

section \<open>The calls of the controllers\<close>

text \<open>Two references one after the other; the digests are lost on an error.\<close>

definition both ::
  "('w \<Rightarrow> (client_error + string) \<times> 'w) \<Rightarrow> ('w \<Rightarrow> (client_error + string) \<times> 'w) \<Rightarrow> 'w \<Rightarrow> (client_error + string \<times> string) \<times> 'w" where
  "both f g s =
     (case f s of
        (Inl e, s1) \<Rightarrow> (Inl e, s1)
      | (Inr a, s1) \<Rightarrow> (case g s1 of (Inl e, s2) \<Rightarrow> (Inl e, s2) | (Inr b, s2) \<Rightarrow> (Inr (a, b), s2)))"

definition cert_if :: "bool \<Rightarrow> 'w watch_env \<Rightarrow> Watcher \<Rightarrow> CertificateReference \<Rightarrow> string \<Rightarrow> 'w \<Rightarrow> (client_error + string) \<times> 'w" where
  "cert_if b env w cert dest s = (if b then watcher_reconcile env w (refFromCert w cert) dest s else (Inr [], s))"

definition ProcessMTLSCerts :: "'w watch_env \<Rightarrow> Watcher \<Rightarrow> ClientTLS \<Rightarrow> string \<Rightarrow> 'w \<Rightarrow> (client_error + string \<times> string) \<times> 'w" where
  "ProcessMTLSCerts env w t dest =
     both (cert_if (ctls_Enable t \<and> cref_Name (ctls_CACert t) \<noteq> []) env w (ctls_CACert t) dest)
          (cert_if (ctls_Enable t \<and> cref_Name (ctls_UserCert t) \<noteq> []) env w (ctls_UserCert t) dest)"

definition ProcessMTLSCertsFromRefs ::
  "'w watch_env \<Rightarrow> Watcher \<Rightarrow> FileReference \<Rightarrow> CertificateReference \<Rightarrow> string \<Rightarrow> 'w \<Rightarrow> (client_error + string \<times> string) \<times> 'w" where
  "ProcessMTLSCertsFromRefs env w ca cert dest =
     both (watcher_reconcile env w (refFromFile w ca) dest) (watcher_reconcile env w (refFromCert w cert) dest)"

definition ProcessCACert :: "'w watch_env \<Rightarrow> Watcher \<Rightarrow> ClientTLS \<Rightarrow> string \<Rightarrow> 'w \<Rightarrow> (client_error + string) \<times> 'w" where
  "ProcessCACert env w t dest = cert_if (ctls_Enable t \<and> cref_Name (ctls_CACert t) \<noteq> []) env w (ctls_CACert t) dest"

definition ProcessCertRef :: "'w watch_env \<Rightarrow> Watcher \<Rightarrow> CertificateReference option \<Rightarrow> string \<Rightarrow> 'w \<Rightarrow> (client_error + string) \<times> 'w" where
  "ProcessCertRef env w cert dest s =
     (case cert of None \<Rightarrow> (Inr [], s) | Some c \<Rightarrow> watcher_reconcile env w (refFromCert w c) dest s)"

definition ProcessFileReference :: "'w watch_env \<Rightarrow> Watcher \<Rightarrow> FileReference \<Rightarrow> string \<Rightarrow> 'w \<Rightarrow> (client_error + string) \<times> 'w" where
  "ProcessFileReference env w file dest = watcher_reconcile env w (refFromFile w file) dest"

definition ProcessSASL :: "'w watch_env \<Rightarrow> Watcher \<Rightarrow> SASLConfig \<Rightarrow> string \<Rightarrow> 'w \<Rightarrow> (client_error + string \<times> string) \<times> 'w" where
  "ProcessSASL env w sasl dest =
     both (watcher_reconcile env w (refFromFile w (sasl_ClientIDReference sasl)) dest)
          (watcher_reconcile env w (refFromFile w (sasl_ClientSecretReference sasl)) dest)"

definition Annotation :: "string \<Rightarrow> string" where
  "Annotation k = ''flows.netobserv.io/watched-'' @ k"

end
