(* ===== verification/Watchers_Correct.thy ===== *)
theory Watchers_Correct
  imports Watchers Api_Store
begin

text \<open>
  The watcher on an API server with one store of secrets and one of config maps: a referenced object of another
  namespace is kept in step with its copy.
\<close>

section \<open>Digests\<close>

text \<open>The digest of an object is one of its data only, under the keys of the reference.\<close>

lemma digest_data: "wb_Data (obj_Body x) = wb_Data (obj_Body y) \<Longrightarrow> GetDigest k x keys = GetDigest k y keys"
  by (cases k) simp_all

lemma digest_keys: "(\<And>key. key \<in> set keys \<Longrightarrow> map_of (wb_Data (obj_Body x)) key = map_of (wb_Data (obj_Body y)) key) \<Longrightarrow> GetDigest k x keys = GetDigest k y keys"
  by (cases k) (simp_all add: getDigest_def go_lookup_def cong: map_cong)

lemma b64_length: "length (b64 al bs) = 4 * ((length bs + 2) div 3)"
proof (induction al bs rule: b64.induct)
  case (4 al a b c r)
  have "length (a # b # c # r) + 2 = (length r + 2) + 3" by simp
  then have "(length (a # b # c # r) + 2) div 3 = (length r + 2) div 3 + 1" by (simp only: div_add_self2)
  with 4 show ?case by simp
qed simp_all

lemma digest_length: "length (GetDigest k x keys) = 8"
  by (cases k) (simp_all add: getDigest_def b64_length sum_bytes_def)

section \<open>Copies\<close>

definition store_env :: "(watch_body k8s_object \<Rightarrow> watch_body k8s_object) \<Rightarrow> (Watchable \<Rightarrow> watch_body store) watch_env" where
  "store_env own =
     \<lparr>we_client = (\<lambda>k. at_kind k (store_client own)), we_EnqueueOnChange = (\<lambda>_ _ s. (None, s)), we_ResetActiveWatches = id,
      we_IsForbidden = (\<lambda>_. False)\<rparr>"

lemma store_env_sel [simp]:
  "we_client (store_env own) k = at_kind k (store_client own)" "we_EnqueueOnChange (store_env own) k x s = (None, s)"
  by (simp_all add: store_env_def)

definition ref_kind :: "objectRef \<Rightarrow> Watchable" where
  "ref_kind ref = kindToWatchable (or_kind ref)"

abbreviation source_of :: "objectRef \<Rightarrow> obj_key" where
  "source_of ref \<equiv> (or_namespace ref, or_name ref)"

text \<open>The target of the copy after a call, for an object of another namespace.\<close>

definition refreshed_copy :: "(watch_body k8s_object \<Rightarrow> watch_body k8s_object) \<Rightarrow> objectRef \<Rightarrow> string \<Rightarrow> watch_body k8s_object \<Rightarrow> watch_body k8s_object option \<Rightarrow> watch_body k8s_object" where
  "refreshed_copy own ref dest obj target =
     (case target of
        None \<Rightarrow> AddManagedLabel (own (PrepareForCreate obj (copy_meta ref dest)))
      | Some t \<Rightarrow>
          if GetDigest (ref_kind ref) t (or_keys ref) \<noteq> GetDigest (ref_kind ref) obj (or_keys ref)
          then AddManagedLabel (own (PrepareForUpdate obj t)) else t)"

lemma copy_key: "key_of (PrepareForCreate obj (copy_meta ref dest)) = (dest, or_name ref)"
  by (simp add: PrepareForCreate_def copy_meta_def key_of_def)

lemma update_key: "key_of (PrepareForUpdate obj t) = key_of t"
  by (simp add: PrepareForUpdate_def key_of_def)

lemma copied_data:
  "wb_Data (obj_Body (PrepareForCreate obj m)) = wb_Data (obj_Body obj)" "wb_Data (obj_Body (PrepareForUpdate obj t)) = wb_Data (obj_Body obj)"
  by (simp_all add: PrepareForCreate_def PrepareForUpdate_def)

lemma copy_object_store:
  assumes "sets_owner_only own" "well_keyed (s (ref_kind ref))"
  shows "copy_object (store_env own) w ref dest obj (GetDigest (ref_kind ref) obj (or_keys ref)) s =
    (Inr (GetDigest (ref_kind ref) obj (or_keys ref)),
     s(ref_kind ref := (s (ref_kind ref))((dest, or_name ref) \<mapsto> refreshed_copy own ref dest obj (s (ref_kind ref) (dest, or_name ref)))))"
proof (cases "s (ref_kind ref) (dest, or_name ref)")
  case None
  then show ?thesis
    using create_at_kind[OF assms(1), of s "ref_kind ref" "PrepareForCreate obj (copy_meta ref dest)"]
    by (simp add: copy_object_def Let_def copy_key refreshed_copy_def flip: ref_kind_def)
next
  case (Some t)
  then have "key_of t = (dest, or_name ref)" using assms(2) by (blast dest: well_keyedD)
  then show ?thesis
    using Some update_at_kind[OF assms(1), of s "ref_kind ref" "PrepareForUpdate obj t" "PrepareForUpdate obj t"]
    by (auto simp: copy_object_def Let_def update_key refreshed_copy_def fun_upd_idem simp flip: ref_kind_def)
qed

lemma refreshed_digest:
  "sets_owner_only own \<Longrightarrow> GetDigest (ref_kind ref) (refreshed_copy own ref dest obj t) (or_keys ref) = GetDigest (ref_kind ref) obj (or_keys ref)"
  by (auto simp: refreshed_copy_def managed_facts own_facts copied_data intro!: digest_data split: option.split)

lemma refreshed_key:
  "sets_owner_only own \<Longrightarrow> (\<And>x. t = Some x \<Longrightarrow> key_of x = (dest, or_name ref)) \<Longrightarrow> key_of (refreshed_copy own ref dest obj t) = (dest, or_name ref)"
  by (auto simp: refreshed_copy_def managed_facts own_facts copy_key update_key split: option.split)

lemma refreshed_stable: "sets_owner_only own \<Longrightarrow> refreshed_copy own ref dest obj (Some (refreshed_copy own ref dest obj t)) = refreshed_copy own ref dest obj t"
  using refreshed_digest[of own ref dest obj t] by (simp add: refreshed_copy_def[of own ref dest obj "Some _"])

lemma reconcile_elsewhere:
  assumes "sets_owner_only own" "well_keyed (s (ref_kind ref))" "s (ref_kind ref) (source_of ref) = Some obj" "or_namespace ref \<noteq> dest"
  shows "watcher_reconcile (store_env own) w ref dest s =
    (Inr (GetDigest (ref_kind ref) obj (or_keys ref)),
     s(ref_kind ref := (s (ref_kind ref))((dest, or_name ref) \<mapsto> refreshed_copy own ref dest obj (s (ref_kind ref) (dest, or_name ref)))))"
  using copy_object_store[of own s ref w dest obj] assms by (simp add: watcher_reconcile_def Let_def flip: ref_kind_def)

lemma reconcile_in_place:
  assumes "s (ref_kind ref) (source_of ref) = Some obj" "or_namespace ref = dest"
  shows "watcher_reconcile (store_env own) w ref dest s = (Inr (GetDigest (ref_kind ref) obj (or_keys ref)), s)"
  using assms by (simp add: watcher_reconcile_def Let_def flip: ref_kind_def)


definition ca_secret :: "string \<Rightarrow> string \<Rightarrow> watch_body k8s_object" where
  "ca_secret ns content =
     \<lparr>obj_Meta = \<lparr>om_Name = ''ca'', om_Namespace = ns, om_Labels = None, om_Annotations = None, om_OwnerReferences = [],
        om_ResourceVersion = [], om_Generation = 0, om_DeletionTimestamp = None\<rparr>,
      obj_Body = \<lparr>wb_Data = [(''ca.crt'', content)], wb_Rest = GNil\<rparr>\<rparr>"

definition ca_ref :: objectRef where
  "ca_ref = \<lparr>or_kind = RefTypeSecret, or_name = ''ca'', or_namespace = ''user'', or_keys = [''ca.crt'']\<rparr>"

definition ca_store :: "Watchable \<Rightarrow> watch_body store" where
  "ca_store = (\<lambda>_. [(''user'', ''ca'') \<mapsto> ca_secret ''user'' ''new'', (''netobserv'', ''ca'') \<mapsto> ca_secret ''netobserv'' ''old''])"

lemma ca_facts:
  "well_keyed (ca_store k)" "ca_store k (source_of ca_ref) = Some (ca_secret ''user'' ''new'')" "ref_kind ca_ref = SecretWatchable"
  by (simp_all add: ca_store_def ca_ref_def ca_secret_def well_keyed_def key_of_def ref_kind_def kindToWatchable_def)


text \<open>
  The copy is written with \<open>UpdateOwned\<close>: an object of that name in the target namespace that is not the
  operator's loses its data to the copy and becomes managed.
\<close>

lemma ca_digests: "GetDigest SecretWatchable (ca_secret ns ''new'') [''ca.crt''] \<noteq> GetDigest SecretWatchable (ca_secret ns' ''old'') [''ca.crt'']"
  by (simp add: ca_secret_def getDigest_def json_bytes_def) code_simp

theorem copy_overwrites_unowned:
  "\<not> IsOwned (ca_secret ''netobserv'' ''old'')
   \<and> map_option (\<lambda>x. (wb_Data (obj_Body x), IsManaged x))
       (snd (watcher_reconcile (store_env id) (NewWatcher ''op'') ca_ref ''netobserv'' ca_store) SecretWatchable (''netobserv'', ''ca''))
     = Some ([(''ca.crt'', ''new'')], True)"
proof -
  have "\<not> IsOwned (ca_secret ''netobserv'' ''old'')" by (simp add: IsOwned_def IsManaged_def ca_secret_def)
  moreover have "ca_store SecretWatchable (''netobserv'', ''ca'') = Some (ca_secret ''netobserv'' ''old'')" by (simp add: ca_store_def)
  ultimately show ?thesis
    using reconcile_elsewhere[OF id_sets_owner_only, of ca_store ca_ref "ca_secret ''user'' ''new''" "''netobserv''" "NewWatcher ''op''"] ca_facts(1,2)[of SecretWatchable] ca_facts(3)
      ca_digests[of "''user''" "''netobserv''"]
    by (auto simp: ca_ref_def refreshed_copy_def managed_facts PrepareForUpdate_def ca_secret_def AddManagedLabel_def IsManaged_def labels_of_def
        go_lookup_def netobservManagedLabel_def)
qed

end
