(* ===== verification/Workloads.thy ===== *)
theory Workloads
  imports Cluster_Info Volumes Helpers Loki_Config Reconcilers
begin

text \<open>
  The Kubernetes objects that the builders of the operands fill in (pods, services, monitors), the role
  bindings of \<open>internal/pkg/roles/roles.go\<close>, the security context of \<open>internal/pkg/helper/security.go\<close> and the part of
  \<open>internal/controller/reconcilers/common.go\<close> that the builders read. A builder sets every field that is
  listed; the fields of Kubernetes that no builder sets are left out.
\<close>

section \<open>Pods\<close>

record ContainerPort =
  port_Name :: string
  port_HostPort :: int
  port_ContainerPort :: int
  port_Protocol :: string

record Probe =
  probe_Path :: string
  probe_PortName :: string
  probe_TimeoutSeconds :: int
  probe_PeriodSeconds :: int
  probe_FailureThreshold :: int

record Capabilities =
  cap_Add :: "string list"
  cap_Drop :: "string list"

record SecurityContext =
  secctx_AllowPrivilegeEscalation :: "bool option"
  secctx_ReadOnlyRootFilesystem :: "bool option"
  secctx_Capabilities :: "Capabilities option"
  secctx_Privileged :: "bool option"
  secctx_RunAsUser :: "int option"

definition ContainerDefaultSecurityContext :: SecurityContext where
  "ContainerDefaultSecurityContext =
     \<lparr>secctx_AllowPrivilegeEscalation = Some False, secctx_ReadOnlyRootFilesystem = Some True,
      secctx_Capabilities = Some \<lparr>cap_Add = [], cap_Drop = [''ALL'']\<rparr>, secctx_Privileged = None, secctx_RunAsUser = None\<rparr>"

text \<open>An environment variable has a value, or the path of a field of the pod it is taken from.\<close>

datatype EnvVar = EnvValue string string | EnvFieldRef string string

fun env_name :: "EnvVar \<Rightarrow> string" where
  "env_name (EnvValue n _) = n" | "env_name (EnvFieldRef n _) = n"

definition plain_env :: "(string \<times> string) list \<Rightarrow> EnvVar list" where
  "plain_env vs = map (\<lambda>(n, v). EnvValue n v) vs"

definition EnvNoHTTP2 :: "string \<times> string" where
  "EnvNoHTTP2 = (''GODEBUG'', ''http2server=0'')"

record pod_container =
  pc_Name :: string
  pc_Image :: string
  pc_ImagePullPolicy :: string
  pc_Args :: "string list"
  pc_Resources :: opaque
  pc_VolumeMounts :: "(string \<times> string \<times> bool) list"
  pc_Ports :: "ContainerPort list"
  pc_Env :: "EnvVar list"
  pc_SecurityContext :: SecurityContext
  pc_TerminationMessagePolicy :: string
  pc_LivenessProbe :: "Probe option"
  pc_StartupProbe :: "Probe option"

record pod_template =
  pod_Labels :: go_map
  pod_Annotations :: go_map
  pod_Volumes :: "(string \<times> VolumeSource) list"
  pod_Containers :: "pod_container list"
  pod_ServiceAccountName :: string
  pod_HostNetwork :: bool
  pod_DNSPolicy :: string
  pod_NodeSelector :: "string_map option"
  pod_Tolerations :: "Toleration list option"
  pod_Affinity :: "opaque option"
  pod_PriorityClassName :: string

record workload =
  wl_Meta :: ObjectMeta
  wl_Replicas :: "int option"
  wl_Selector :: go_map
  wl_Template :: pod_template

definition new_meta :: "string \<Rightarrow> string \<Rightarrow> go_map option \<Rightarrow> go_map option \<Rightarrow> ObjectMeta" where
  "new_meta name ns labels annotations =
     \<lparr>om_Name = name, om_Namespace = ns, om_Labels = labels, om_Annotations = annotations, om_OwnerReferences = [],
      om_ResourceVersion = [], om_Generation = 0, om_DeletionTimestamp = None\<rparr>"

definition OperatorName :: string where "OperatorName = ''netobserv-operator''"

definition app_labels :: "string \<Rightarrow> go_map" where
  "app_labels app = [(''part-of'', OperatorName), (''app'', app)]"

definition version_labels :: "string \<Rightarrow> string \<Rightarrow> go_map" where
  "version_labels app version = app_labels app @ [(''version'', version)]"

section \<open>Services and monitors\<close>

record ServicePort =
  sport_Name :: string
  sport_Port :: int
  sport_Protocol :: string
  sport_TargetPort :: int

record Service =
  serv_Meta :: ObjectMeta
  serv_Selector :: go_map
  serv_Ports :: "ServicePort list"
  serv_ClusterIP :: string

record RelabelConfig =
  rlb_SourceLabels :: "string list"
  rlb_Separator :: string
  rlb_Regex :: string
  rlb_Replacement :: string
  rlb_TargetLabel :: string
  rlb_Action :: string

record ServiceMonitor =
  smon_Meta :: ObjectMeta
  smon_ServiceDiscoveryRole :: "string option"
  smon_Port :: string
  smon_Interval :: string
  smon_Scheme :: string
  smon_TLSConfig :: "monitor_TLSConfig option"
  smon_HonorLabels :: bool
  smon_MetricRelabelConfigs :: "RelabelConfig list"
  smon_NamespaceSelector :: "string list"
  smon_Selector :: go_map

record 'r PrometheusRule =
  prule_Meta :: ObjectMeta
  prule_GroupName :: string
  prule_Rules :: "'r list"

definition OpenShiftCertificateAnnotation :: string where
  "OpenShiftCertificateAnnotation = ''service.beta.openshift.io/serving-cert-secret-name''"

definition OpenShiftReqSCCAnnotation :: string where
  "OpenShiftReqSCCAnnotation = ''openshift.io/required-scc''"

definition OpenShiftReqSCCAnnotationDefaultValue :: string where
  "OpenShiftReqSCCAnnotationDefaultValue = ''restricted-v2''"

section \<open>Role bindings\<close>

definition LokiWriterRole :: string where "LokiWriterRole = ''netobserv-loki-writer''"
definition FLPInformersRole :: string where "FLPInformersRole = ''netobserv-informers''"
definition FLPExtraReaderRole :: string where "FLPExtraReaderRole = ''netobserv-flp-extra-reader''"
definition HostNetworkRole :: string where "HostNetworkRole = ''netobserv-hostnetwork''"
definition ConsoleTokenReviewRole :: string where "ConsoleTokenReviewRole = ''netobserv-token-review''"
definition FlowCollectorViewerRole :: string where "FlowCollectorViewerRole = ''netobserv-flowcollector-viewer-role''"
definition ExposeMetricsRole :: string where "ExposeMetricsRole = ''netobserv-expose-metrics''"
definition ConfigWatcherRole :: string where "ConfigWatcherRole = ''netobserv-config-watcher''"

definition OperandClusterRoleBindings :: "string list" where
  "OperandClusterRoleBindings =
     [LokiWriterRole, FLPInformersRole, FLPExtraReaderRole, HostNetworkRole, ConsoleTokenReviewRole, FlowCollectorViewerRole]"

definition GetRoleBindingName :: "string \<Rightarrow> string \<Rightarrow> string" where
  "GetRoleBindingName shortName ref = ref @ ''-'' @ shortName"

definition GetRoleBinding :: "string \<Rightarrow> string \<Rightarrow> string \<Rightarrow> string \<Rightarrow> string \<Rightarrow> bool \<Rightarrow> role_binding k8s_object" where
  "GetRoleBinding namespace shortName app sa ref fromClusterRole =
     \<lparr>obj_Meta = new_meta (ref @ ''-'' @ shortName) namespace (Some (app_labels app)) None,
      obj_Body = \<lparr>rb_RoleRef = (''rbac.authorization.k8s.io'', (if fromClusterRole then ''ClusterRole'' else ''Role''), ref),
        rb_Subjects = Some [\<lparr>subj_Kind = ''ServiceAccount'', subj_APIGroup = [], subj_Name = sa, subj_Namespace = namespace\<rparr>]\<rparr>\<rparr>"

definition GetExposeMetricsRoleBinding :: "string \<Rightarrow> role_binding k8s_object" where
  "GetExposeMetricsRoleBinding ns =
     \<lparr>obj_Meta = new_meta ExposeMetricsRole ns None None,
      obj_Body = \<lparr>rb_RoleRef = (''rbac.authorization.k8s.io'', ''ClusterRole'', ExposeMetricsRole),
        rb_Subjects = Some [\<lparr>subj_Kind = ''ServiceAccount'', subj_APIGroup = [], subj_Name = ''prometheus-k8s'', subj_Namespace = ''openshift-monitoring''\<rparr>]\<rparr>\<rparr>"

section \<open>What a builder reads of its instance\<close>

record 'v Instance =
  inst_Namespace :: string
  inst_Images :: "string \<Rightarrow> string"
  inst_ClusterInfo :: "'v Info"
  inst_Loki :: LokiManualParams
  inst_TLSConfig :: "tls_Config option"
  inst_Vendor :: Vendor

definition PrivilegedNamespace :: "'v Instance \<Rightarrow> string" where
  "PrivilegedNamespace c = inst_Namespace c @ ''-privileged''"

definition MainImage :: string where "MainImage = ''main''"
definition BpfByteCodeImage :: string where "BpfByteCodeImage = ''bpf-bytecode''"

section \<open>Digests of configurations\<close>

text \<open>\<open>fnv.New64a\<close>: exclusive or with the byte, then multiplication by the prime, on 64 bits; written in base 36.\<close>

unbundle bit_operations_syntax

definition fnv64a_step :: "64 word \<Rightarrow> char \<Rightarrow> 64 word" where
  "fnv64a_step h c = (h XOR of_char c) * 1099511628211"

definition fnv64a :: "string \<Rightarrow> 64 word" where
  "fnv64a bytes = foldl fnv64a_step 14695981039346656037 bytes"

fun base36 :: "nat \<Rightarrow> string" where
  "base36 n = (if n < 36 then [''0123456789abcdefghijklmnopqrstuvwxyz'' ! n]
     else base36 (n div 36) @ [''0123456789abcdefghijklmnopqrstuvwxyz'' ! (n mod 36)])"

declare base36.simps [simp del]

definition config_digest :: "string \<Rightarrow> string" where
  "config_digest data = base36 (unat (fnv64a data))"

end
