(* ===== verification/FLP_Objects.thy ===== *)
theory FLP_Objects
  imports Pipeline TLS_Helper Workloads
begin

text \<open>
  \<open>flp_common_objects.go\<close>, \<open>flp_monolith_objects.go\<close> and \<open>flp_transfo_objects.go\<close> of \<open>internal/controller/flp\<close>: the pods,
  configurations, services and monitors of flowlogs-pipeline, as a monolith and as a Kafka consumer. The
  configuration is built before the pod, so the volumes that it adds to the builder are the ones that the pod
  mounts; the volumes are part of the state \<open>pstate\<close>. The YAML encoder, the memory limit of a resource
  requirement and the other libraries are the fields of \<open>flp_lib\<close>.
\<close>

section \<open>Parameters and configuration\<close>

record MetricsSettings =
  mset_Port :: int
  mset_Prefix :: string
  mset_NoPanic :: bool
  mset_TLS :: "(string \<times> string) option"

record 'f static_config =
  stc_LogLevel :: string
  stc_Pipeline :: "Stage list"
  stc_Parameters :: "'f StageParam list"
  stc_MetricsSettings :: MetricsSettings
  stc_DynamicParameters :: "string \<times> string \<times> string"
  stc_HealthAddr :: "string option"
  stc_PprofAddr :: "string option"

record 'f flp_lib =
  lib_defaults :: crd_defaults
  lib_tenth :: "int \<Rightarrow> int"
  lib_memLimit :: "opaque \<Rightarrow> int option"
  lib_yaml_static :: "'f static_config \<Rightarrow> string + string"
  lib_yaml_dynamic :: "'f StageParam list \<Rightarrow> string + string"
  lib_texts :: slice_texts
  lib_flp_error :: "flp_error \<Rightarrow> string"
  lib_otel :: otel_table
  lib_cards :: card_table
  lib_ParseFloat :: "string \<Rightarrow> 'f option"

datatype flp_build_error = PromTLSMissing | PipelineError pipe_error | YamlError string

definition configVolume :: string where "configVolume = ''config-volume''"
definition configPath :: string where "configPath = ''/etc/flowlogs-pipeline''"
definition configFile :: string where "configFile = ''config.yaml''"
definition healthPortName :: string where "healthPortName = ''health''"
definition prometheusPortName :: string where "prometheusPortName = ''prometheus''"
definition profilePortName :: string where "profilePortName = ''pprof''"
definition FLPPortName :: string where "FLPPortName = ''flp''"
definition monoName :: string where "monoName = FLPName"
definition monoConfigMap :: string where "monoConfigMap = monoName @ ''-config''"
definition monoDynConfigMap :: string where "monoDynConfigMap = monoName @ ''-config-dynamic''"
definition monoServiceMonitor :: string where "monoServiceMonitor = monoName @ ''-monitor''"
definition monoPromRule :: string where "monoPromRule = monoName @ ''-alert''"
definition monoCertSecretName :: string where "monoCertSecretName = monoName @ ''-cert''"
definition k8sCacheCertSecretName :: string where "k8sCacheCertSecretName = ''flowlogs-pipeline-k8scache-cert''"
definition FLPMetricsSvcName :: string where "FLPMetricsSvcName = FLPName @ ''-prom''"
definition transfoName :: string where "transfoName = FLPName @ ''-transformer''"
definition transfoConfigMap :: string where "transfoConfigMap = transfoName @ ''-config''"
definition transfoDynConfigMap :: string where "transfoDynConfigMap = transfoName @ ''-config-dynamic''"
definition transfoServiceMonitor :: string where "transfoServiceMonitor = transfoName @ ''-monitor''"
definition transfoPromRule :: string where "transfoPromRule = transfoName @ ''-alert''"
definition FLPTransfoMetricsSvcName :: string where "FLPTransfoMetricsSvcName = transfoName @ ''-prom''"

section \<open>Ingest stages\<close>

definition newGRPCPipeline :: "crd_defaults \<Rightarrow> FlowCollectorSpec \<Rightarrow> bool \<Rightarrow> 'f pstate \<Rightarrow> string \<times> 'f pstate" where
  "newGRPCPipeline D desired isOpenShift s =
     (let adv = GetAdvancedProcessorConfig D desired;
          cfg = \<lparr>ig_Port = the (apc_Port adv), ig_CertPath = [], ig_KeyPath = [], ig_ClientCAPath = []\<rparr>;
          (cfg, v) =
            (if spec_DeploymentModel desired = DeploymentModelService then
               (case GetServiceServerTLSConfig (flp_Service (spec_Processor desired)) monoCertSecretName isOpenShift of
                  (None, _) \<Rightarrow> (cfg, ps_volumes s)
                | (Some serverCert, clientCA) \<Rightarrow>
                    (case AddCertificate (Some serverCert) ''svc-certs'' (ps_volumes s) of ((certPath, keyPath), v1) \<Rightarrow>
                     let cfg = cfg\<lparr>ig_CertPath := certPath, ig_KeyPath := keyPath\<rparr> in
                     case clientCA of
                       None \<Rightarrow> (cfg, v1)
                     | Some ca \<Rightarrow> (case AddVolume ca ''netobserv-ca'' v1 of (caPath, v2) \<Rightarrow> (cfg\<lparr>ig_ClientCAPath := caPath\<rparr>, v2))))
             else (cfg, ps_volumes s))
      in (''grpc'', s\<lparr>ps_pipeline := new_pipeline ''grpc'' (PGRPC cfg), ps_volumes := v\<rparr>))"

definition newKafkaPipeline :: "FlowCollectorSpec \<Rightarrow> 'f pstate \<Rightarrow> string \<times> 'f pstate" where
  "newKafkaPipeline desired s =
     (case getClientTLS (kafka_TLS (spec_Kafka desired)) ''kafka-cert'' (ps_volumes s) of (t, v1) \<Rightarrow>
      case getSASL (kafka_SASL (spec_Kafka desired)) ''kafka-ingest'' v1 of (sasl, v2) \<Rightarrow>
        (''kafka-read'', s\<lparr>ps_pipeline := new_pipeline ''kafka-read'' (PKafkaIngest
           \<lparr>ik_Brokers = [kafka_Address (spec_Kafka desired)], ik_Topic = kafka_Topic (spec_Kafka desired), ik_GroupID = FLPName, ik_Decoder = ''protobuf'',
            ik_TLS = t, ik_SASL = sasl, ik_PullQueueCapacity = flp_KafkaConsumerQueueCapacity (spec_Processor desired),
            ik_PullMaxBytes = flp_KafkaConsumerBatchSize (spec_Processor desired)\<rparr>), ps_volumes := v2\<rparr>))"

section \<open>Metrics server\<close>

definition getPromTLS :: "FlowCollectorSpec \<Rightarrow> string \<Rightarrow> flp_build_error + CertificateReference option" where
  "getPromTLS desired serviceName =
     (let t = msc_TLS (fm_Server (flp_Metrics (spec_Processor desired))) in
      case stls_Type t of
        TLSProvided \<Rightarrow> (case stls_Provided t of None \<Rightarrow> Inl PromTLSMissing | Some c \<Rightarrow> Inr (Some c))
      | TLSAuto \<Rightarrow> Inr (Some \<lparr>cref_Type = RefTypeSecret, cref_Name = serviceName, cref_Namespace = [], cref_CertFile = ''tls.crt'', cref_CertKey = ''tls.key''\<rparr>)
      | _ \<Rightarrow> Inr None)"

definition metricsSettings :: "FlowCollectorSpec \<Rightarrow> CertificateReference option \<Rightarrow> Builder \<Rightarrow> MetricsSettings \<times> Builder" where
  "metricsSettings desired promTLS vol =
     (let ms = \<lparr>mset_Port = GetMetricsPort_flp (spec_Processor desired), mset_Prefix = ''netobserv_'', mset_NoPanic = True, mset_TLS = None\<rparr> in
      if stls_Type (msc_TLS (fm_Server (flp_Metrics (spec_Processor desired)))) \<noteq> TLSDisabled then
        (case AddCertificate promTLS ''prom-certs'' vol of ((cert, key), v) \<Rightarrow>
           (if cert \<noteq> [] \<and> key \<noteq> [] then ms\<lparr>mset_TLS := Some (cert, key)\<rparr> else ms, v))
      else (ms, vol))"

section \<open>Pod\<close>

datatype flowNetworkType = hostNetwork | hostPort | svc | pull

definition addK8sCacheArgs :: "FlowCollectorSpec \<Rightarrow> bool \<Rightarrow> string list \<Rightarrow> Builder \<Rightarrow> string list \<times> Builder" where
  "addK8sCacheArgs desired isOpenShift args vols =
     (let args = args @ [''--k8scache.port='' @ itoa (GetK8sCachePort (spec_Processor desired)), ''--k8scache.address=0.0.0.0''] in
      case GetServiceServerTLSConfig (Some (InformerTLSAsServiceConfig (flp_InformerCacheProxy (spec_Processor desired)))) k8sCacheCertSecretName isOpenShift of
        (None, _) \<Rightarrow> (args, vols)
      | (Some serverCert, caFile) \<Rightarrow>
          (case AddCertificate (Some serverCert) ''k8scache-certs'' vols of ((certPath, keyPath), v1) \<Rightarrow>
           let args = args @ [''--k8scache.tls-enabled=true'', ''--k8scache.tls-cert-path='' @ certPath, ''--k8scache.tls-key-path='' @ keyPath] in
           case caFile of
             None \<Rightarrow> (args, v1)
           | Some ca \<Rightarrow> (case AddVolume ca ''k8scache-client-ca'' v1 of (caPath, v2) \<Rightarrow> (args @ [''--k8scache.tls-ca-path='' @ caPath], v2))))"

definition flp_ports :: "AdvancedProcessorConfig \<Rightarrow> FlowCollectorFLP \<Rightarrow> flowNetworkType \<Rightarrow> ContainerPort list" where
  "flp_ports adv flp netType =
     (let port = the (apc_Port adv);
          other = (\<lambda>n p proto. \<lparr>port_Name = n, port_HostPort = 0, port_ContainerPort = p, port_Protocol = proto\<rparr>)
      in (case netType of
            hostNetwork \<Rightarrow> [\<lparr>port_Name = FLPPortName, port_HostPort = port, port_ContainerPort = port, port_Protocol = ''TCP''\<rparr>]
          | hostPort \<Rightarrow> [\<lparr>port_Name = FLPPortName, port_HostPort = port, port_ContainerPort = port, port_Protocol = ''TCP''\<rparr>]
          | svc \<Rightarrow> [other FLPPortName port ''TCP'']
          | pull \<Rightarrow> [])
         @ (case apc_HealthPort adv of Some p \<Rightarrow> if p > 0 then [other healthPortName p []] else [] | None \<Rightarrow> [])
         @ [other prometheusPortName (GetMetricsPort_flp flp) []]
         @ (if IsInformerCacheProxyEnabled flp then [other ''k8scache'' (GetK8sCachePort flp) ''TCP''] else [])
         @ (case apc_ProfilePort adv of Some p \<Rightarrow> if p > 0 then [other profilePortName p ''TCP''] else [] | None \<Rightarrow> []))"

definition flp_probe :: "string \<Rightarrow> int \<Rightarrow> int \<Rightarrow> Probe" where
  "flp_probe path period threshold =
     \<lparr>probe_Path = path, probe_PortName = healthPortName, probe_TimeoutSeconds = 5, probe_PeriodSeconds = period, probe_FailureThreshold = threshold\<rparr>"

definition podTemplate ::
  "'f flp_lib \<Rightarrow> string \<Rightarrow> string \<Rightarrow> string \<Rightarrow> string \<Rightarrow> FlowCollectorSpec \<Rightarrow> flowNetworkType \<Rightarrow> go_map \<Rightarrow> bool \<Rightarrow> tls_Config option
     \<Rightarrow> Builder \<Rightarrow> pod_template \<times> Builder" where
  "podTemplate lib appName version imageName cmName desired netType annotations isOpenShift tlsCfg vols =
     (let flp = spec_Processor desired;
          adv = GetAdvancedProcessorConfig (lib_defaults lib) desired;
          envs = KeySorted (apc_Env adv) @ [EnvNoHTTP2];
          envs = AppendTLSEnvVars envs tlsCfg;
          envs = EnvFromReqsLimits (lib_tenth lib) envs (lib_memLimit lib (flp_Resources flp));
          args = [''--config='' @ configPath @ ''/'' @ configFile];
          (args, vols) = (if IsInformerCacheProxyEnabled flp then addK8sCacheArgs desired isOpenShift args vols else (args, vols));
          probes = the (apc_EnableKubeProbes adv);
          sched = the (apc_Scheduling adv);
          annotations = go_map_set ''prometheus.io/scrape_port'' (itoa (GetMetricsPort_flp flp)) (go_map_set ''prometheus.io/scrape'' ''true'' annotations)
      in (\<lparr>pod_Labels = version_labels appName version, pod_Annotations = annotations,
           pod_Volumes = AppendVolumes [(configVolume, ConfigMapVolume cmName)] vols,
           pod_Containers = [\<lparr>pc_Name = FLPName, pc_Image = imageName, pc_ImagePullPolicy = flp_ImagePullPolicy flp, pc_Args = args,
              pc_Resources = flp_Resources flp, pc_VolumeMounts = AppendMounts [(configVolume, configPath, False)] vols,
              pc_Ports = flp_ports adv flp netType, pc_Env = plain_env envs, pc_SecurityContext = ContainerDefaultSecurityContext,
              pc_TerminationMessagePolicy = ''FallbackToLogsOnError'',
              pc_LivenessProbe = (if probes then Some (flp_probe ''/live'' 10 0) else None),
              pc_StartupProbe = (if probes then Some (flp_probe ''/ready'' 10 5) else None)\<rparr>],
           pod_ServiceAccountName = appName, pod_HostNetwork = (netType = hostNetwork),
           pod_DNSPolicy = (if netType = hostNetwork then ''ClusterFirstWithHostNet'' else ''ClusterFirst''),
           pod_NodeSelector = sched_NodeSelector sched, pod_Tolerations = sched_Tolerations sched, pod_Affinity = sched_Affinity sched,
           pod_PriorityClassName = sched_PriorityClassName sched\<rparr>, vols))"

section \<open>Config maps\<close>

definition configMap :: "string \<Rightarrow> string \<Rightarrow> string \<Rightarrow> string \<Rightarrow> go_map option k8s_object \<times> string" where
  "configMap name namespace data appName =
     (\<lparr>obj_Meta = new_meta name namespace (Some (app_labels appName)) None, obj_Body = Some [(configFile, data)]\<rparr>, config_digest data)"

definition getConfigs ::
  "'f flp_lib \<Rightarrow> FlowCollectorSpec \<Rightarrow> string \<Rightarrow> CertificateReference option \<Rightarrow> string \<Rightarrow> 'f pstate \<Rightarrow> (flp_build_error + string \<times> string) \<times> 'f pstate" where
  "getConfigs lib desired ns promTLS dynCMName s =
     (case metricsSettings desired promTLS (ps_volumes s) of (ms, v) \<Rightarrow>
      let s' = s\<lparr>ps_volumes := v\<rparr>;
          adv = GetAdvancedProcessorConfig (lib_defaults lib) desired;
          (static, dynamic) = GetSplitStageParams (ps_pipeline s);
          config = \<lparr>stc_LogLevel = flp_LogLevel (spec_Processor desired), stc_Pipeline = pl_stages (ps_pipeline s), stc_Parameters = static,
             stc_MetricsSettings = ms, stc_DynamicParameters = (ns, dynCMName, configFile),
             stc_HealthAddr = (case apc_HealthPort adv of Some p \<Rightarrow> if p \<noteq> 0 then Some ('':'' @ itoa p) else None | None \<Rightarrow> None),
             stc_PprofAddr = (case apc_ProfilePort adv of Some p \<Rightarrow> if p \<noteq> 0 then Some (''localhost:'' @ itoa p) else None | None \<Rightarrow> None)\<rparr>
      in case lib_yaml_static lib config of
           Inl e \<Rightarrow> (Inl (YamlError e), s')
         | Inr yamlStatic \<Rightarrow>
             (case lib_yaml_dynamic lib dynamic of
                Inl e \<Rightarrow> (Inl (YamlError e), s')
              | Inr yamlDynamic \<Rightarrow> (Inr (yamlStatic, yamlDynamic), s')))"

section \<open>Service and monitor of the metrics\<close>

definition promService :: "FlowCollectorSpec \<Rightarrow> string \<Rightarrow> string \<Rightarrow> string \<Rightarrow> Service" where
  "promService desired svcName namespace appLabel =
     (let port = GetMetricsPort_flp (spec_Processor desired) in
      \<lparr>serv_Meta = new_meta svcName namespace (Some (app_labels appLabel))
         (if stls_Type (msc_TLS (fm_Server (flp_Metrics (spec_Processor desired)))) = TLSAuto
          then Some [(OpenShiftCertificateAnnotation, svcName)] else None),
       serv_Selector = [(''app'', appLabel)],
       serv_Ports = [\<lparr>sport_Name = prometheusPortName, sport_Port = port, sport_Protocol = ''TCP'', sport_TargetPort = port\<rparr>],
       serv_ClusterIP = []\<rparr>)"

definition relabel_namespace :: "string \<Rightarrow> string \<Rightarrow> string \<Rightarrow> RelabelConfig" where
  "relabel_namespace label regex replacement =
     \<lparr>rlb_SourceLabels = [''__name__'', label], rlb_Separator = ''@'', rlb_Regex = regex, rlb_Replacement = replacement,
      rlb_TargetLabel = ''namespace'', rlb_Action = ''replace''\<rparr>"

definition serviceMonitor :: "FlowCollectorSpec \<Rightarrow> string \<Rightarrow> string \<Rightarrow> string \<Rightarrow> string \<Rightarrow> string \<Rightarrow> bool \<Rightarrow> ServiceMonitor" where
  "serviceMonitor desired smName svcName namespace appLabel version useEndpointSlices =
     (let server = fm_Server (flp_Metrics (spec_Processor desired));
          (scheme, smTLS) = GetServiceMonitorTLSConfig (msc_TLS server) (svcName @ ''.'' @ namespace @ ''.svc'')
      in \<lparr>smon_Meta = new_meta smName namespace (Some (version_labels appLabel version)) None,
          smon_ServiceDiscoveryRole = (if useEndpointSlices then Some ''EndpointSlice'' else None),
          smon_Port = prometheusPortName,
          smon_Interval = (case msc_ScrapeInterval server of None \<Rightarrow> ''15s'' | Some d \<Rightarrow> duration_string d),
          smon_Scheme = scheme, smon_TLSConfig = smTLS, smon_HonorLabels = True,
          smon_MetricRelabelConfigs =
            [relabel_namespace ''DstK8S_Namespace'' ''netobserv_(workload|namespace)_ingress_.*@(.*)'' ''${2}'',
             relabel_namespace ''SrcK8S_Namespace'' ''netobserv_(workload|namespace)_(egress|flows|drop|rtt|dns)_.*@(.*)'' ''${3}''],
          smon_NamespaceSelector = [namespace], smon_Selector = [(''app'', appLabel)]\<rparr>)"

definition prometheusRule :: "'r list \<Rightarrow> string \<Rightarrow> string \<Rightarrow> string \<Rightarrow> string \<Rightarrow> 'r PrometheusRule" where
  "prometheusRule rules ruleName namespace appLabel version =
     \<lparr>prule_Meta = new_meta ruleName namespace (Some (version_labels appLabel version)) None,
      prule_GroupName = ''NetObservFlowLogsPipeline'', prule_Rules = rules\<rparr>"

section \<open>The two builders\<close>

text \<open>
  \<open>monolithBuilder\<close> and \<open>transfoBuilder\<close> have the same fields. The metrics, the slices and the volumes are the
  state that the construction of the pipeline changes.
\<close>

record 'v flpBuilder =
  fb_info :: "'v Instance"
  fb_desired :: FlowCollectorSpec
  fb_detectedSubnets :: "SubnetLabel list"
  fb_version :: string
  fb_promTLS :: "CertificateReference option"

definition new_flp_builder :: "string \<Rightarrow> 'v Instance \<Rightarrow> FlowCollectorSpec \<Rightarrow> SubnetLabel list \<Rightarrow> flp_build_error + 'v flpBuilder" where
  "new_flp_builder metricsSvc info desired subnets =
     (case getPromTLS desired metricsSvc of
        Inl e \<Rightarrow> Inl e
      | Inr promTLS \<Rightarrow>
          Inr \<lparr>fb_info = info, fb_desired = desired, fb_detectedSubnets = subnets,
               fb_version = MaxLabelLength (ExtractVersion (inst_Images info MainImage)), fb_promTLS = promTLS\<rparr>)"

definition newMonolithBuilder :: "'v Instance \<Rightarrow> FlowCollectorSpec \<Rightarrow> SubnetLabel list \<Rightarrow> flp_build_error + 'v flpBuilder" where
  "newMonolithBuilder = new_flp_builder FLPMetricsSvcName"

definition newTransfoBuilder :: "'v Instance \<Rightarrow> FlowCollectorSpec \<Rightarrow> SubnetLabel list \<Rightarrow> flp_build_error + 'v flpBuilder" where
  "newTransfoBuilder = new_flp_builder FLPTransfoMetricsSvcName"

definition pipeline_builder :: "'f flp_lib \<Rightarrow> 'v flpBuilder \<Rightarrow> 'f PipelineBuilder" where
  "pipeline_builder lib b =
     \<lparr>pb_operandsNamespace = inst_Namespace (fb_info b), pb_desired = fb_desired b, pb_detectedSubnets = fb_detectedSubnets b,
      pb_loki = inst_Loki (fb_info b), pb_clusterID = GetID (inst_ClusterInfo (fb_info b)), pb_defaults = lib_defaults lib,
      pb_texts = lib_texts lib, pb_flp_error = lib_flp_error lib, pb_otel = lib_otel lib, pb_cards = lib_cards lib, pb_ParseFloat = lib_ParseFloat lib\<rparr>"

text \<open>The static config map, its digest and the dynamic config map, from a started pipeline.\<close>

definition config_maps ::
  "'f flp_lib \<Rightarrow> 'v flpBuilder \<Rightarrow> string \<Rightarrow> string \<Rightarrow> string \<Rightarrow> string \<times> 'f pstate
     \<Rightarrow> (flp_build_error + go_map option k8s_object \<times> string \<times> go_map option k8s_object) \<times> 'f pstate" where
  "config_maps lib b appName cmName dynName started =
     (case started of (ingest, s) \<Rightarrow>
      case createPipeline (pipeline_builder lib b) ingest s of
        (Some e, s1) \<Rightarrow> (Inl (PipelineError e), s1)
      | (None, s1) \<Rightarrow>
          (case getConfigs lib (fb_desired b) (inst_Namespace (fb_info b)) (fb_promTLS b) dynName s1 of
             (Inl e, s2) \<Rightarrow> (Inl e, s2)
           | (Inr (static, dynamic), s2) \<Rightarrow>
               (case configMap cmName (inst_Namespace (fb_info b)) static appName of (staticCM, digest) \<Rightarrow>
                  (Inr (staticCM, digest, fst (configMap dynName (inst_Namespace (fb_info b)) dynamic appName)), s2))))"

definition mono_configMaps ::
  "'f flp_lib \<Rightarrow> 'v flpBuilder \<Rightarrow> 'f pstate \<Rightarrow> (flp_build_error + go_map option k8s_object \<times> string \<times> go_map option k8s_object) \<times> 'f pstate" where
  "mono_configMaps lib b s =
     config_maps lib b monoName monoConfigMap monoDynConfigMap
       (newGRPCPipeline (lib_defaults lib) (fb_desired b) (IsOpenShift (inst_ClusterInfo (fb_info b))) s)"

definition transfo_configMaps ::
  "'f flp_lib \<Rightarrow> 'v flpBuilder \<Rightarrow> 'f pstate \<Rightarrow> (flp_build_error + go_map option k8s_object \<times> string \<times> go_map option k8s_object) \<times> 'f pstate" where
  "transfo_configMaps lib b s =
     config_maps lib b transfoName transfoConfigMap transfoDynConfigMap (newKafkaPipeline (fb_desired b) s)"

definition flp_workload :: "string \<Rightarrow> 'v flpBuilder \<Rightarrow> int option \<Rightarrow> pod_template \<Rightarrow> workload" where
  "flp_workload name b replicas pod =
     \<lparr>wl_Meta = new_meta name (inst_Namespace (fb_info b)) (Some (version_labels name (fb_version b))) None,
      wl_Replicas = replicas, wl_Selector = [(''app'', name)], wl_Template = pod\<rparr>"

definition flp_pod :: "'f flp_lib \<Rightarrow> string \<Rightarrow> string \<Rightarrow> 'v flpBuilder \<Rightarrow> flowNetworkType \<Rightarrow> go_map \<Rightarrow> Builder \<Rightarrow> pod_template \<times> Builder" where
  "flp_pod lib name cmName b netType annotations vols =
     podTemplate lib name (fb_version b) (inst_Images (fb_info b) MainImage) cmName (fb_desired b) netType annotations
       (IsOpenShift (inst_ClusterInfo (fb_info b))) (inst_TLSConfig (fb_info b)) vols"

definition mono_daemonSet :: "'f flp_lib \<Rightarrow> 'v flpBuilder \<Rightarrow> go_map \<Rightarrow> Builder \<Rightarrow> workload \<times> Builder" where
  "mono_daemonSet lib b annotations vols =
     (let (netType, annotations) =
        (if IsOpenShift (inst_ClusterInfo (fb_info b)) then (hostPort, go_map_set OpenShiftReqSCCAnnotation ''hostnetwork'' annotations)
         else (hostNetwork, annotations))
      in case flp_pod lib monoName monoConfigMap b netType annotations vols of (pod, v) \<Rightarrow> (flp_workload monoName b None pod, v))"

definition restricted :: "'v flpBuilder \<Rightarrow> go_map \<Rightarrow> go_map" where
  "restricted b annotations =
     (if IsOpenShift (inst_ClusterInfo (fb_info b)) then go_map_set OpenShiftReqSCCAnnotation OpenShiftReqSCCAnnotationDefaultValue annotations else annotations)"

definition mono_deployment :: "'f flp_lib \<Rightarrow> 'v flpBuilder \<Rightarrow> go_map \<Rightarrow> Builder \<Rightarrow> workload \<times> Builder" where
  "mono_deployment lib b annotations vols =
     (case flp_pod lib monoName monoConfigMap b svc (restricted b annotations) vols of (pod, v) \<Rightarrow>
        (flp_workload monoName b (Some (GetFLPReplicas (spec_Processor (fb_desired b)))) pod, v))"

definition transfo_deployment :: "'f flp_lib \<Rightarrow> 'v flpBuilder \<Rightarrow> go_map \<Rightarrow> Builder \<Rightarrow> workload \<times> Builder" where
  "transfo_deployment lib b annotations vols =
     (case flp_pod lib transfoName transfoConfigMap b pull (restricted b annotations) vols of (pod, v) \<Rightarrow>
        (flp_workload transfoName b (Some (GetFLPReplicas (spec_Processor (fb_desired b)))) pod, v))"

definition mono_service :: "crd_defaults \<Rightarrow> 'v flpBuilder \<Rightarrow> Service" where
  "mono_service D b =
     (let desired = fb_desired b;
          port = the (apc_Port (GetAdvancedProcessorConfig D desired));
          auto = (case flp_Service (spec_Processor desired) of None \<Rightarrow> True | Some c \<Rightarrow> svc_TLSType c = TLSAuto)
      in \<lparr>serv_Meta = new_meta monoName (inst_Namespace (fb_info b)) (Some (version_labels monoName (fb_version b)))
            (Some (if IsOpenShift (inst_ClusterInfo (fb_info b)) \<and> auto then [(OpenShiftCertificateAnnotation, monoCertSecretName)] else [])),
          serv_Selector = [(''app'', monoName)],
          serv_Ports = (if \<not> UseHostNetwork desired
             then [\<lparr>sport_Name = FLPPortName, sport_Port = port, sport_Protocol = ''TCP'', sport_TargetPort = port\<rparr>] else []),
          serv_ClusterIP = []\<rparr>)"

definition mono_promService :: "'v flpBuilder \<Rightarrow> Service" where
  "mono_promService b = promService (fb_desired b) FLPMetricsSvcName (inst_Namespace (fb_info b)) monoName"

definition transfo_promService :: "'v flpBuilder \<Rightarrow> Service" where
  "transfo_promService b = promService (fb_desired b) FLPTransfoMetricsSvcName (inst_Namespace (fb_info b)) transfoName"

definition mono_serviceMonitor :: "'v flpBuilder \<Rightarrow> ServiceMonitor" where
  "mono_serviceMonitor b = serviceMonitor (fb_desired b) monoServiceMonitor FLPMetricsSvcName (inst_Namespace (fb_info b)) monoName (fb_version b)
     (hasPromServiceDiscoveryRole (inst_ClusterInfo (fb_info b)))"

definition transfo_serviceMonitor :: "'v flpBuilder \<Rightarrow> ServiceMonitor" where
  "transfo_serviceMonitor b = serviceMonitor (fb_desired b) transfoServiceMonitor FLPTransfoMetricsSvcName (inst_Namespace (fb_info b)) transfoName (fb_version b)
     (hasPromServiceDiscoveryRole (inst_ClusterInfo (fb_info b)))"

definition mono_prometheusRule :: "'v flpBuilder \<Rightarrow> 'r list \<Rightarrow> 'r PrometheusRule" where
  "mono_prometheusRule b rules = prometheusRule rules monoPromRule (inst_Namespace (fb_info b)) monoName (fb_version b)"

definition transfo_prometheusRule :: "'v flpBuilder \<Rightarrow> 'r list \<Rightarrow> 'r PrometheusRule" where
  "transfo_prometheusRule b rules = prometheusRule rules transfoPromRule (inst_Namespace (fb_info b)) transfoName (fb_version b)"

definition mono_serviceAccount :: "'v flpBuilder \<Rightarrow> ObjectMeta" where
  "mono_serviceAccount b = new_meta monoName (inst_Namespace (fb_info b)) (Some (app_labels monoName)) None"

definition transfo_serviceAccount :: "'v flpBuilder \<Rightarrow> ObjectMeta" where
  "transfo_serviceAccount b = new_meta transfoName (inst_Namespace (fb_info b)) (Some (app_labels transfoName)) None"

record autoscaler =
  hpas_Meta :: ObjectMeta
  hpas_ScaleTarget :: "string \<times> string \<times> string"
  hpas_MinReplicas :: "int option"
  hpas_MaxReplicas :: int
  hpas_Metrics :: "opaque list"

definition transfo_autoScaler :: "'v flpBuilder \<Rightarrow> autoscaler" where
  "transfo_autoScaler b =
     (let h = flp_KafkaConsumerAutoscaler (spec_Processor (fb_desired b)) in
      \<lparr>hpas_Meta = new_meta transfoName (inst_Namespace (fb_info b)) (Some (app_labels transfoName)) None,
       hpas_ScaleTarget = (''apps/v1'', ''Deployment'', transfoName), hpas_MinReplicas = hpa_MinReplicas h, hpas_MaxReplicas = hpa_MaxReplicas h,
       hpas_Metrics = hpa_Metrics h\<rparr>)"

end
