(* ===== verification/FLP_Objects_Correct.thy ===== *)
theory FLP_Objects_Correct
  imports FLP_Objects Pipeline_Outcome
begin

text \<open>
  The pods of flowlogs-pipeline can read every file that their configuration names: each path is below a mount
  of a volume of the pod. The volumes are collected while the configuration is built, over many calls; the
  argument is an invariant of the builder of volumes and of the stages configured so far.
\<close>

section \<open>Paths and volumes\<close>

text \<open>A key of a secret or config map is a plain file name.\<close>

definition plain :: "string \<Rightarrow> bool" where
  "plain f \<longleftrightarrow> f \<noteq> [] \<and> CHR ''/'' \<notin> set f \<and> f \<noteq> ''.'' \<and> f \<noteq> ''..''"

lemma join_path:
  assumes "plain n" "plain f"
  shows "rooted_join [''/var'', n, f] = ''/var/'' @ n @ ''/'' @ f"
proof -
  have "split_on CHR ''/'' (''var'' @ CHR ''/'' # n @ CHR ''/'' # f) = [''var'', n, f]"
    using assms split_on_app[of "CHR ''/''" "''var''"] split_on_app[of "CHR ''/''" n f] split_on_no_sep[of "CHR ''/''" f] by (simp add: plain_def)
  then show ?thesis using assms by (simp add: rooted_join_def plain_def)
qed

text \<open>Where a volume is mounted follows from its name.\<close>

definition mount_known :: "Builder \<Rightarrow> bool" where
  "mount_known v \<longleftrightarrow> builder_wf v
     \<and> (\<forall>x \<in> set v. vi_MountPath x = (if vi_VolumeName x = FLPName then TokensPath else ''/var/'' @ vi_VolumeName x))"

definition under_mount :: "Builder \<Rightarrow> string \<Rightarrow> bool" where
  "under_mount v path \<longleftrightarrow> path = [] \<or> (\<exists>n \<in> names v. n \<noteq> FLPName \<and> (\<exists>f. path = ''/var/'' @ n @ ''/'' @ f))
     \<or> FLPName \<in> names v \<and> path = TokensPath @ FLPName"

definition extends :: "Builder \<Rightarrow> Builder \<Rightarrow> bool" where
  "extends v v' \<longleftrightarrow> (mount_known v \<longrightarrow> mount_known v') \<and> names v \<subseteq> names v'"

lemma extends_refl [simp]: "extends v v"
  by (simp add: extends_def)

lemma extends_trans: "extends u v \<Longrightarrow> extends v w \<Longrightarrow> extends u w"
  by (auto simp: extends_def)

lemma covered_extends: "under_mount v f \<Longrightarrow> extends v v' \<Longrightarrow> under_mount v' f"
  by (auto simp: under_mount_def extends_def)

lemma covered_Nil [simp]: "under_mount v []"
  by (simp add: under_mount_def)

lemma covered_var: "n \<in> names v \<Longrightarrow> n \<noteq> FLPName \<Longrightarrow> under_mount v (''/var/'' @ n @ ''/'' @ f)"
  by (auto simp: under_mount_def)

lemma insert_set: "set (insertOrReplace x v) \<subseteq> insert x (set v)"
  by (induction v) auto

lemma insert_known:
  assumes "mount_known v" "n \<noteq> FLPName"
  shows "mount_known (insertOrReplace (buildVolumeAndMount t r n) v)"
  using assms insert_wf[of v "buildVolumeAndMount t r n"] insert_set[of "buildVolumeAndMount t r n" v]
  by (auto simp: mount_known_def)

text \<open>With the mounts known, adding a volume does not lose another; the invariant is carried along.\<close>

definition adds :: "string \<Rightarrow> Builder \<Rightarrow> Builder \<Rightarrow> bool" where
  "adds n v v' \<longleftrightarrow> mount_known v' \<and> names v' = insert n (names v)"

lemma insert_adds: "mount_known v \<Longrightarrow> n \<noteq> FLPName \<Longrightarrow> adds n v (insertOrReplace (buildVolumeAndMount t r n) v)"
  using insert_known[of v n t r] insert_names[of v "buildVolumeAndMount t r n"] by (simp add: adds_def mount_known_def)

lemma AddCertificate_covered:
  assumes "mount_known v" "n \<noteq> FLPName" "AddCertificate c n v = ((p, q), v')"
  shows "mount_known v' \<and> names v \<subseteq> names v' \<and> under_mount v' p \<and> under_mount v' q"
proof (cases "\<exists>r. c = Some r \<and> cref_Name r \<noteq> []")
  case True
  then obtain r where r: "c = Some r" "cref_Name r \<noteq> []" by blast
  then have v': "v' = insertOrReplace (buildVolumeAndMount (cref_Type r) (cref_Name r) n) v"
    "p = ''/var/'' @ n @ ''/'' @ cref_CertFile r" "q = ''/var/'' @ n @ ''/'' @ cref_CertKey r"
    using assms(3) by (simp_all add: AddCertificate_def)
  have a: "adds n v v'" unfolding v'(1) using assms(1,2) by (rule insert_adds)
  then have "n \<in> names v'" by (simp add: adds_def)
  from covered_var[OF this assms(2)] have "under_mount v' p" "under_mount v' q" unfolding v'(2,3) by blast+
  with a show ?thesis by (auto simp: adds_def)
next
  case False
  then show ?thesis using assms(1,3) by (auto simp: AddCertificate_def split: option.splits if_splits)
qed

lemma AddVolume_covered:
  assumes "mount_known v" "n \<noteq> FLPName" "plain n" "plain (fref_File r)" "AddVolume r n v = (p, v')"
  shows "mount_known v' \<and> names v \<subseteq> names v' \<and> under_mount v' p"
proof -
  have v': "v' = insertOrReplace (buildVolumeAndMount (fref_Type r) (fref_Name r) n) v" "p = ''/var/'' @ n @ ''/'' @ fref_File r"
    using assms(3-5) by (simp_all add: AddVolume_def join_path)
  have a: "adds n v v'" unfolding v'(1) using assms(1,2) by (rule insert_adds)
  then have "n \<in> names v'" by (simp add: adds_def)
  from covered_var[OF this assms(2)] have "under_mount v' p" unfolding v'(2) by blast
  with a show ?thesis by (auto simp: adds_def)
qed

lemma AddToken_known:
  assumes "mount_known v"
  shows "mount_known (snd (AddToken FLPName v))" "names v \<subseteq> names (snd (AddToken FLPName v))" "FLPName \<in> names (snd (AddToken FLPName v))"
  using assms by (force simp: AddToken_def mount_known_def builder_wf_def names_def list_ex_iff)+

lemma AddCACertificate_covered:
  assumes "mount_known v" "n @ ''-ca'' \<noteq> FLPName" "AddCACertificate t n v = (p, v')"
  shows "mount_known v' \<and> names v \<subseteq> names v' \<and> under_mount v' p"
  using assms AddCertificate_covered[OF assms(1,2), of "Some (ctls_CACert t)"]
  by (auto simp: AddCACertificate_def split: if_splits prod.splits)

lemma AddMutualTLS_covered:
  assumes "mount_known v" "n @ ''-ca'' \<noteq> FLPName" "n @ ''-user'' \<noteq> FLPName" "AddMutualTLSCertificates t n v = ((a, p, q), v')"
  shows "mount_known v' \<and> names v \<subseteq> names v' \<and> under_mount v' a \<and> under_mount v' p \<and> under_mount v' q"
proof -
  obtain ca v1 where ca: "AddCACertificate t n v = (ca, v1)" by fastforce
  note one = AddCACertificate_covered[OF assms(1,2) ca]
  show ?thesis
  proof (cases "cref_Name (ctls_UserCert t) \<noteq> []")
    case True
    then have two: "AddCertificate (Some (ctls_UserCert t)) (n @ ''-user'') v1 = ((p, q), v')" "a = ca"
      using assms(4) by (auto simp: AddMutualTLSCertificates_def ca split: prod.splits)
    from one have "mount_known v1" by blast
    from AddCertificate_covered[OF this assms(3) two(1)] one show ?thesis
      using covered_extends[of v1 ca v'] by (auto simp: two(2) extends_def)
  qed (use assms(4) one in \<open>auto simp: AddMutualTLSCertificates_def ca\<close>)
qed

section \<open>Clients\<close>

fun client_files :: "api_ClientTLS option \<Rightarrow> string list" where
  "client_files None = []" | "client_files (Some t) = [act_CACertPath t, act_UserCertPath t, act_UserKeyPath t]"

fun sasl_files :: "api_SASLConfig option \<Rightarrow> string list" where
  "sasl_files None = []" | "sasl_files (Some c) = [asasl_ClientIDPath c, asasl_ClientSecretPath c]"

definition plain_sasl :: "SASLConfig \<Rightarrow> bool" where
  "plain_sasl c \<longleftrightarrow> (UseSASL c \<longrightarrow> plain (fref_File (sasl_ClientIDReference c)) \<and> plain (fref_File (sasl_ClientSecretReference c)))"

text \<open>The volumes of a stage are named after it, with a suffix; none of them is the token's.\<close>

definition stage_name :: "string \<Rightarrow> bool" where
  "stage_name n \<longleftrightarrow> CHR ''/'' \<notin> set n \<and> hd n \<noteq> CHR ''f'' \<and> hd n \<noteq> CHR ''.'' \<and> n \<noteq> []"

lemma stage_name_suffix: "stage_name n \<Longrightarrow> n @ s \<noteq> FLPName"
  by (cases n) (auto simp: stage_name_def FLPName_def)

lemma stage_name_plain: "stage_name n \<Longrightarrow> CHR ''/'' \<notin> set s \<Longrightarrow> plain (n @ s)"
  by (cases n) (auto simp: stage_name_def plain_def)

lemma getClientTLS_covered:
  assumes "mount_known v" "stage_name n" "getClientTLS t n v = (r, v')"
  shows "mount_known v' \<and> names v \<subseteq> names v' \<and> (\<forall>f \<in> set (client_files r). under_mount v' f)"
  using assms AddMutualTLS_covered[OF assms(1) stage_name_suffix stage_name_suffix, OF assms(2) assms(2)]
  by (fastforce simp: getClientTLS_def split: if_splits prod.splits)

lemma getSASL_covered:
  assumes "mount_known v" "stage_name n" "plain_sasl c" "getSASL c n v = (r, v')"
  shows "mount_known v' \<and> names v \<subseteq> names v' \<and> (\<forall>f \<in> set (sasl_files r). under_mount v' f)"
proof (cases "UseSASL c")
  case True
  obtain p1 v1 where p1: "AddVolume (sasl_ClientIDReference c) (n @ ''-sasl-id'') v = (p1, v1)" by fastforce
  obtain p2 v2 where p2: "AddVolume (sasl_ClientSecretReference c) (n @ ''-sasl-secret'') v1 = (p2, v2)" by fastforce
  have pl: "plain (fref_File (sasl_ClientIDReference c))" "plain (fref_File (sasl_ClientSecretReference c))"
    "plain (n @ ''-sasl-id'')" "plain (n @ ''-sasl-secret'')"
    using assms(2,3) True by (simp_all add: plain_sasl_def stage_name_plain)
  note one = AddVolume_covered[OF assms(1) stage_name_suffix[OF assms(2)] pl(3,1) p1]
  then have "mount_known v1" by blast
  note two = AddVolume_covered[OF this stage_name_suffix[OF assms(2)] pl(4,2) p2]
  have "v' = v2" "set (sasl_files r) = {p1, p2}" using assms(4) True p1 p2 by (auto simp: getSASL_def)
  then show ?thesis using one two covered_extends[of v1 p1 v2] by (auto simp: extends_def)
qed (use assms in \<open>auto simp: getSASL_def\<close>)

section \<open>The stages\<close>

fun files_of :: "'f stage_params \<Rightarrow> string list" where
  "files_of (PGRPC c) = [ig_CertPath c, ig_KeyPath c, ig_ClientCAPath c]"
| "files_of (PKafkaIngest c) = client_files (ik_TLS c) @ sasl_files (ik_SASL c)"
| "files_of (PKafka c) = client_files (ek_TLS c) @ sasl_files (ek_SASL c)"
| "files_of (POtelLogs c) = client_files (oc_TLS c)"
| "files_of (POtelMetrics c) = client_files (oc_TLS (eom_Connection c))"
| "files_of (PLoki w) = wl_CAFile w # (case wl_Authorization w of None \<Rightarrow> [] | Some (_, f) \<Rightarrow> [f])"
| "files_of _ = []"

definition files_ok :: "'f pstate \<Rightarrow> bool" where
  "files_ok s \<longleftrightarrow> mount_known (ps_volumes s)
     \<and> (\<forall>sp \<in> set (pl_config (ps_pipeline s)). \<forall>f \<in> set (files_of (sp_Params sp)). under_mount (ps_volumes s) f)"

lemma files_ok_next: "files_ok s \<Longrightarrow> \<forall>f \<in> set (files_of ps). under_mount (ps_volumes s) f \<Longrightarrow> files_ok (snd (pipe_next d n ps l s))"
  by (auto simp: files_ok_def pipe_next_def)

lemma files_ok_volumes: "files_ok s \<Longrightarrow> mount_known v \<Longrightarrow> names (ps_volumes s) \<subseteq> names v \<Longrightarrow> files_ok (s\<lparr>ps_volumes := v\<rparr>)"
  unfolding files_ok_def using covered_extends[of "ps_volumes s" _ v] by (auto simp: extends_def)

lemma files_ok_frame [simp]:
  "files_ok (s\<lparr>ps_slices := a\<rparr>) = files_ok s" "files_ok (s\<lparr>ps_slice_st := b\<rparr>) = files_ok s"
  "files_ok (s\<lparr>ps_metrics := c\<rparr>) = files_ok s" "files_ok (s\<lparr>ps_fm_st := d\<rparr>) = files_ok s"
  by (simp_all add: files_ok_def)

lemma files_ok_known: "files_ok s \<Longrightarrow> mount_known (ps_volumes s)"
  by (simp add: files_ok_def)

text \<open>A step of the construction that keeps every configured path readable.\<close>

locale mounting =
  fixes f :: "'f pstate \<Rightarrow> 'a \<times> 'f pstate"
  assumes mounts: "files_ok s \<Longrightarrow> files_ok (snd (f s))"

lemma next_mounts: "files_of ps = [] \<Longrightarrow> files_ok s \<Longrightarrow> files_ok (snd (pipe_next d n ps l s))"
  by (rule files_ok_next) auto

interpretation m_conntrack: mounting "addConnectionTracking b p" for b p
  by unfold_locales (simp add: addConnectionTracking_def Let_def next_mounts)

interpretation m_enrich: mounting "addEnrichStage b p" for b p
  by unfold_locales (simp add: addEnrichStage_def next_mounts)

interpretation m_subnets: mounting "addSubnetLabelsStage b p" for b p
  by unfold_locales
    (auto simp: addSubnetLabelsStage_def subnet_stage_def network_stage_def Let_def case_prod_beta next_mounts split: sum.split)

interpretation m_bgp: mounting "addBgpEnrichmentStage b p" for b p
  by unfold_locales (simp add: addBgpEnrichmentStage_def network_stage_def next_mounts)

interpretation m_filters: mounting "addTruncFiltersDedupStage b p" for b p
  by unfold_locales (simp add: addTruncFiltersDedupStage_def filter_stage_def Let_def case_prod_beta next_mounts)

interpretation m_target: mounting "target_filters b t n p" for b t n p
  by unfold_locales (simp add: target_filters_def filter_stage_def Let_def next_mounts)

interpretation m_common: mounting "common_stages b p" for b p
proof unfold_locales
  fix s :: "'a pstate" assume ok: "files_ok s"
  obtain st1 s1 where 1: "addConnectionTracking b p s = (st1, s1)" by fastforce
  obtain st2 s2 where 2: "addEnrichStage b st1 s1 = (st2, s2)" by fastforce
  obtain r s3 where 3: "addSubnetLabelsStage b st2 s2 = (r, s3)" by fastforce
  have "files_ok s1" using m_conntrack.mounts[OF ok, of b p] by (simp add: 1)
  then have "files_ok s2" using m_enrich.mounts[of s1 b st1] by (simp add: 2)
  then have "files_ok s3" using m_subnets.mounts[of s2 b st2] by (simp add: 3)
  then show "files_ok (snd (common_stages b p s))"
    by (cases r) (simp_all add: common_stages_def 1 2 3 case_prod_beta m_bgp.mounts m_filters.mounts)
qed

lemma loki_credentials_covered:
  assumes "mount_known v" "loki_credentials b v = (w, v')"
  shows "mount_known v' \<and> names v \<subseteq> names v' \<and> (\<forall>f \<in> set (files_of (PLoki w)). under_mount v' f)"
proof -
  let ?use = "UseHostToken (pb_loki b) \<or> UseForwardToken (pb_loki b)"
  define v1 where "v1 = (if ?use then snd (AddToken FLPName v) else v)"
  have one: "mount_known v1" "names v \<subseteq> names v1" "?use \<Longrightarrow> FLPName \<in> names v1"
    using AddToken_known[OF assms(1)] assms(1) by (auto simp: v1_def)
  have tok: "?use \<Longrightarrow> FLPName \<in> names u \<Longrightarrow> under_mount u (TokensPath @ FLPName)" for u by (auto simp: under_mount_def)
  have ne: "''loki-certs'' @ ''-ca'' \<noteq> FLPName" by (simp add: FLPName_def)
  show ?thesis
  proof (cases "ctls_Enable (lman_TLS (pb_loki b)) \<and> \<not> ctls_InsecureSkipVerify (lman_TLS (pb_loki b))")
    case True
    obtain p v2 where p: "AddCACertificate (lman_TLS (pb_loki b)) ''loki-certs'' v1 = (p, v2)" by fastforce
    note two = AddCACertificate_covered[OF one(1) ne p]
    have "v' = v2" "wl_CAFile w = p" "wl_Authorization w = (if ?use then Some (''Bearer'', TokensPath @ FLPName) else None)"
      using assms(2) True p by (auto simp: loki_credentials_def Let_def simp flip: v1_def)
    then show ?thesis using one two tok by auto
  next
    case False
    then have "v' = v1" "wl_CAFile w = []" "wl_Authorization w = (if ?use then Some (''Bearer'', TokensPath @ FLPName) else None)"
      using assms(2) by (auto simp: loki_credentials_def loki_write_def Let_def v1_def split: if_splits)
    then show ?thesis using one tok by auto
  qed
qed

lemma addLokiStage_files: "files_ok s \<Longrightarrow> files_ok (addLokiStage b p s)"
proof -
  assume "files_ok s"
  then have ok: "files_ok (snd (target_filters b FLPFilterTargetLoki ''filters-loki'' p s))" (is "files_ok ?s") by (rule m_target.mounts)
  obtain w v where w: "loki_credentials b (ps_volumes ?s) = (w, v)" by fastforce
  note c = loki_credentials_covered[OF files_ok_known[OF ok] w]
  from c have "files_ok (?s\<lparr>ps_volumes := v\<rparr>)" using ok by (intro files_ok_volumes) auto
  then show ?thesis using c by (simp add: addLokiStage_def case_prod_beta w files_ok_next)
qed

lemma log_outputs_files: "files_ok s \<Longrightarrow> files_ok (log_outputs b c s)"
  by (simp add: log_outputs_def Let_def addLokiStage_files next_mounts)

interpretation m_prom: mounting "addPrometheusStage b p" for b p
  by unfold_locales
    (auto simp: addPrometheusStage_def Let_def case_prod_beta intro!: next_mounts m_target.mounts split: sum.split)

section \<open>The exporters\<close>

lemma kafka_stage_files:
  assumes "files_ok s" "stage_name n" "plain_sasl (kafka_SASL k)"
  shows "files_ok (snd (createKafkaWriteStage n k p s))"
proof -
  obtain t v1 where t: "getClientTLS (kafka_TLS k) n (ps_volumes s) = (t, v1)" by fastforce
  obtain c v2 where c: "getSASL (kafka_SASL k) n v1 = (c, v2)" by fastforce
  note one = getClientTLS_covered[OF files_ok_known[OF assms(1)] assms(2) t]
  then have "mount_known v1" by blast
  note two = getSASL_covered[OF this assms(2,3) c]
  have "files_ok (s\<lparr>ps_volumes := v2\<rparr>)" using assms(1) one two by (intro files_ok_volumes) auto
  moreover have "\<forall>f \<in> set (client_files t). under_mount v2 f" using one two covered_extends[of v1 _ v2] by (auto simp: extends_def)
  ultimately show ?thesis using two by (auto simp: createKafkaWriteStage_def t c intro!: files_ok_next)
qed

lemma otel_stage_files:
  assumes "files_ok s" "stage_name n"
  shows "files_ok (snd (createOpenTelemetryStage b n o' p ms s))"
proof -
  obtain t v where t: "getClientTLS (ot_TLS o') n (ps_volumes s) = (t, v)" by fastforce
  note one = getClientTLS_covered[OF files_ok_known[OF assms(1)] assms(2) t]
  have "files_ok (s\<lparr>ps_volumes := v\<rparr>)" using assms(1) one by (intro files_ok_volumes) auto
  moreover have "ps_volumes (snd (pipe_next d m q l u)) = ps_volumes u" for d m q l and u :: "'c pstate" by (simp add: pipe_next_def)
  ultimately show ?thesis
    using one by (auto simp: createOpenTelemetryStage_def t Let_def case_prod_beta intro!: files_ok_next split: sum.split option.split)
qed

lemma show_nat_chars: "c \<in> set (show_nat i) \<Longrightarrow> c \<noteq> CHR ''/''"
  using show_nat_digits[of c i] by (auto simp: digit_val_def)

lemma export_names: "stage_name (''kafka-export-'' @ show_nat i)" "stage_name (''otel-export-'' @ show_nat i)"
  using show_nat_chars[of _ i] by (auto simp: stage_name_def)

definition plain_exporters :: "FlowCollectorExporter list \<Rightarrow> bool" where
  "plain_exporters es \<longleftrightarrow> list_all (\<lambda>e. plain_sasl (kafka_SASL (exp_Kafka e))) es"

lemma add_exporters_files:
  "files_ok s \<Longrightarrow> plain_exporters es \<Longrightarrow> files_ok (snd (add_exporters b c ms i es s))"
proof (induction es arbitrary: i s)
  case (Cons e es)
  have "files_ok (snd (add_exporter b c ms i e s))"
    using Cons.prems kafka_stage_files[OF Cons.prems(1) export_names(1)] otel_stage_files[OF Cons.prems(1) export_names(2)]
    by (auto simp: add_exporter_def createIPFIXWriteStage_def plain_exporters_def next_mounts split: ExporterType.split)
  then show ?case using Cons by (auto simp: plain_exporters_def split: prod.split option.split)
qed simp

lemma createPipeline_files:
  assumes "files_ok s" "plain_exporters (spec_Exporters (pb_desired b))"
  shows "files_ok (snd (createPipeline b p s))"
proof -
  obtain r s1 where s1: "common_stages b p s = (r, s1)" by fastforce
  have ok1: "files_ok s1" using m_common.mounts[OF assms(1), of b p] by (simp add: s1)
  show ?thesis
  proof (cases r)
    case (Inr c)
    obtain q s2 where s2: "addPrometheusStage b c (log_outputs b c s1) = (q, s2)" by fastforce
    have "files_ok s2" using m_prom.mounts[OF log_outputs_files[OF ok1, of b c], of b c] by (simp add: s2)
    then show ?thesis using assms(2) Inr
      by (auto simp: createPipeline_def s1 s2 addCustomExportStages_def case_prod_beta add_exporters_files m_target.mounts split: sum.split)
  qed (simp add: createPipeline_def s1 ok1)
qed

section \<open>Ingest, metrics server and cache\<close>

definition plain_ca :: "CertificateReference option \<times> FileReference option \<Rightarrow> bool" where
  "plain_ca t \<longleftrightarrow> (case snd t of None \<Rightarrow> True | Some ca \<Rightarrow> plain (fref_File ca))"

lemma grpc_files:
  assumes "mount_known (ps_volumes s)" "plain_ca (GetServiceServerTLSConfig (flp_Service (spec_Processor d)) monoCertSecretName os)"
  shows "files_ok (snd (newGRPCPipeline D d os s))"
proof -
  let ?t = "GetServiceServerTLSConfig (flp_Service (spec_Processor d)) monoCertSecretName os"
  have nm: "''svc-certs'' \<noteq> FLPName" "''netobserv-ca'' \<noteq> FLPName" "plain ''netobserv-ca''" by (simp_all add: FLPName_def plain_def)
  consider (no) "spec_DeploymentModel d \<noteq> DeploymentModelService \<or> fst ?t = None" | (cert) c where "spec_DeploymentModel d = DeploymentModelService" "?t = (Some c, None)"
    | (mtls) c ca where "spec_DeploymentModel d = DeploymentModelService" "?t = (Some c, Some ca)"
    by (cases ?t; cases "fst ?t"; cases "snd ?t") auto
  then show ?thesis
  proof cases
    case no
    then show ?thesis using assms(1) by (auto simp: newGRPCPipeline_def files_ok_def new_pipeline_def Let_def split: prod.split option.split)
  next
    case cert
    obtain pq v where pq: "AddCertificate (Some c) ''svc-certs'' (ps_volumes s) = (pq, v)" by fastforce
    with AddCertificate_covered[OF assms(1) nm(1), of "Some c" "fst pq" "snd pq" v] cert show ?thesis
      by (simp add: newGRPCPipeline_def files_ok_def new_pipeline_def Let_def case_prod_beta)
  next
    case mtls
    obtain pq v where pq: "AddCertificate (Some c) ''svc-certs'' (ps_volumes s) = (pq, v)" by fastforce
    obtain p' v2 where p': "AddVolume ca ''netobserv-ca'' v = (p', v2)" by fastforce
    have one: "mount_known v \<and> names (ps_volumes s) \<subseteq> names v \<and> under_mount v (fst pq) \<and> under_mount v (snd pq)"
      using AddCertificate_covered[OF assms(1) nm(1), of "Some c" "fst pq" "snd pq" v] pq by simp
    have "plain (fref_File ca)" using assms(2) mtls by (simp add: plain_ca_def)
    with AddVolume_covered[OF _ nm(2,3) _ p'] one have "mount_known v2 \<and> names v \<subseteq> names v2 \<and> under_mount v2 p'" by blast
    with one covered_extends[of v _ v2] mtls pq p' show ?thesis
      by (simp add: newGRPCPipeline_def files_ok_def new_pipeline_def Let_def case_prod_beta extends_def)
  qed
qed

lemma kafka_files:
  assumes "mount_known (ps_volumes s)" "plain_sasl (kafka_SASL (spec_Kafka d))"
  shows "files_ok (snd (newKafkaPipeline d s))"
proof -
  have nm: "stage_name ''kafka-cert''" "stage_name ''kafka-ingest''" by (simp_all add: stage_name_def)
  obtain t v1 where t: "getClientTLS (kafka_TLS (spec_Kafka d)) ''kafka-cert'' (ps_volumes s) = (t, v1)" by fastforce
  obtain c v2 where c: "getSASL (kafka_SASL (spec_Kafka d)) ''kafka-ingest'' v1 = (c, v2)" by fastforce
  note one = getClientTLS_covered[OF assms(1) nm(1) t]
  then have "mount_known v1" by blast
  note two = getSASL_covered[OF this nm(2) assms(2) c]
  show ?thesis using one two covered_extends[of v1 _ v2]
    by (auto simp: newKafkaPipeline_def t c files_ok_def new_pipeline_def extends_def)
qed

text \<open>The paths that settings and arguments name do not depend on the volumes collected before.\<close>

definition metrics_files :: "'v flpBuilder \<Rightarrow> string list" where
  "metrics_files b = (case mset_TLS (fst (metricsSettings (fb_desired b) (fb_promTLS b) [])) of None \<Rightarrow> [] | Some (c, k) \<Rightarrow> [c, k])"

lemma metricsSettings_files:
  assumes "mount_known v" "metricsSettings (fb_desired b) (fb_promTLS b) v = (ms, v')"
  shows "mount_known v' \<and> names v \<subseteq> names v' \<and> (\<forall>f \<in> set (metrics_files b). under_mount v' f)"
proof -
  have nm: "''prom-certs'' \<noteq> FLPName" by (simp add: FLPName_def)
  have same: "fst (AddCertificate r n u) = fst (AddCertificate r n [])" for r n u by (simp add: AddCertificate_def split: option.split)
  obtain p q u where pq: "AddCertificate (fb_promTLS b) ''prom-certs'' v = ((p, q), u)" by (metis prod.collapse)
  note c = AddCertificate_covered[OF assms(1) nm pq]
  have "fst (AddCertificate (fb_promTLS b) ''prom-certs'' []) = (p, q)" using same[of "fb_promTLS b" "''prom-certs''" v] pq by simp
  then show ?thesis using assms pq c
    by (auto simp: metricsSettings_def metrics_files_def Let_def case_prod_beta split: if_splits option.split)
qed

lemma getConfigs_files:
  assumes "files_ok s" "getConfigs lib (fb_desired b) ns (fb_promTLS b) dyn s = (r, s')"
  shows "files_ok s' \<and> ps_pipeline s' = ps_pipeline s \<and> (\<forall>f \<in> set (metrics_files b). under_mount (ps_volumes s') f)"
proof -
  obtain ms v where ms: "metricsSettings (fb_desired b) (fb_promTLS b) (ps_volumes s) = (ms, v)" by fastforce
  note c = metricsSettings_files[OF files_ok_known[OF assms(1)] ms]
  have s': "s' = s\<lparr>ps_volumes := v\<rparr>"
    using assms(2) by (auto simp: getConfigs_def ms Let_def GetSplitStageParams_def split: sum.splits)
  then show ?thesis using c files_ok_volumes[OF assms(1)] by simp
qed

lemma config_maps_files:
  assumes "files_ok s" "plain_exporters (spec_Exporters (fb_desired b))" "config_maps lib b app cm dyn (p, s) = (Inr r, s')"
  shows "files_ok s' \<and> (\<forall>f \<in> set (metrics_files b). under_mount (ps_volumes s') f)"
proof -
  obtain s1 where s1: "createPipeline (pipeline_builder lib b) p s = (None, s1)"
    "\<exists>x. getConfigs lib (fb_desired b) (inst_Namespace (fb_info b)) (fb_promTLS b) dyn s1 = (Inr x, s')"
    using assms(3) by (auto simp: config_maps_def split: prod.splits option.splits sum.splits)
  have "files_ok s1" using createPipeline_files[OF assms(1), of "pipeline_builder lib b" p] assms(2) s1(1) by (simp add: pipeline_builder_def)
  with s1(2) getConfigs_files show ?thesis by blast
qed

definition cache_options :: "string list" where
  "cache_options = [''--k8scache.tls-cert-path='', ''--k8scache.tls-key-path='', ''--k8scache.tls-ca-path='']"

definition names_files :: "Builder \<Rightarrow> string list \<Rightarrow> bool" where
  "names_files v args \<longleftrightarrow> (\<forall>a \<in> set args. \<forall>opt \<in> set cache_options. \<forall>f. a = opt @ f \<longrightarrow> under_mount v f)"

lemma cache_args_files:
  assumes "mount_known v" "plain_ca (GetServiceServerTLSConfig (Some (InformerTLSAsServiceConfig (flp_InformerCacheProxy (spec_Processor d)))) k8sCacheCertSecretName os)"
    "addK8sCacheArgs d os [''--config='' @ configPath @ ''/'' @ configFile] v = (args, v')"
  shows "mount_known v' \<and> names v \<subseteq> names v' \<and> names_files v' args"
proof -
  let ?t = "GetServiceServerTLSConfig (Some (InformerTLSAsServiceConfig (flp_InformerCacheProxy (spec_Processor d)))) k8sCacheCertSecretName os"
  have nm: "''k8scache-certs'' \<noteq> FLPName" "''k8scache-client-ca'' \<noteq> FLPName" "plain ''k8scache-client-ca''" by (simp_all add: FLPName_def plain_def)
  note defs = addK8sCacheArgs_def Let_def names_files_def cache_options_def
  consider (no) "fst ?t = None" | (cert) c where "?t = (Some c, None)" | (mtls) c ca where "?t = (Some c, Some ca)"
    by (cases ?t; cases "fst ?t"; cases "snd ?t") auto
  then show ?thesis
  proof cases
    case no
    then show ?thesis using assms(1,3) by (auto simp: defs split: prod.splits)
  next
    case cert
    obtain pq u where pq: "AddCertificate (Some c) ''k8scache-certs'' v = (pq, u)" by fastforce
    with AddCertificate_covered[OF assms(1) nm(1), of "Some c" "fst pq" "snd pq" u] cert assms(3) show ?thesis
      by (auto simp: defs case_prod_beta)
  next
    case mtls
    obtain pq u where pq: "AddCertificate (Some c) ''k8scache-certs'' v = (pq, u)" by fastforce
    obtain p' u2 where p': "AddVolume ca ''k8scache-client-ca'' u = (p', u2)" by fastforce
    have one: "mount_known u \<and> names v \<subseteq> names u \<and> under_mount u (fst pq) \<and> under_mount u (snd pq)"
      using AddCertificate_covered[OF assms(1) nm(1), of "Some c" "fst pq" "snd pq" u] pq by simp
    have "plain (fref_File ca)" using assms(2) mtls by (simp add: plain_ca_def)
    with AddVolume_covered[OF _ nm(2,3) _ p'] one have two: "mount_known u2 \<and> names u \<subseteq> names u2 \<and> under_mount u2 p'" by blast
    then have "under_mount u2 (fst pq)" "under_mount u2 (snd pq)" using one covered_extends[of u _ u2] by (auto simp: extends_def)
    with one two mtls pq p' assms(3) show ?thesis by (auto simp: defs case_prod_beta)
  qed
qed

section \<open>The pod\<close>

definition readable :: "pod_template \<Rightarrow> string \<Rightarrow> bool" where
  "readable pod f \<longleftrightarrow> f = [] \<or> (\<exists>c \<in> set (pod_Containers pod). \<exists>(n, p, ro) \<in> set (pc_VolumeMounts c).
     n \<in> fst ` set (pod_Volumes pod) \<and> (\<exists>g. f = (if last p = CHR ''/'' then p else p @ ''/'') @ g))"

lemma mount_of:
  assumes "mount_known v" "n \<in> names v"
  shows "\<exists>ro. (n, (if n = FLPName then TokensPath else ''/var/'' @ n), ro) \<in> set (GetMounts v)" "n \<in> fst ` set (GetVolumes v)"
proof -
  obtain x where x: "x \<in> set v" "vi_VolumeName x = n" using assms(2) by (auto simp: names_def)
  then have "vi_MountName x = n" "vi_MountPath x = (if n = FLPName then TokensPath else ''/var/'' @ n)"
    using assms(1) by (auto simp: mount_known_def builder_wf_def list_all_iff)
  then have "(n, (if n = FLPName then TokensPath else ''/var/'' @ n), vi_ReadOnly x) = (vi_MountName x, vi_MountPath x, vi_ReadOnly x)" by simp
  with x(1) show "\<exists>ro. (n, (if n = FLPName then TokensPath else ''/var/'' @ n), ro) \<in> set (GetMounts v)" unfolding GetMounts_def set_map by blast
  show "n \<in> fst ` set (GetVolumes v)" using x by (auto simp: GetVolumes_def image_image)
qed

lemma under_mount_readable:
  assumes "mount_known v" "under_mount v f" "pod_Volumes pod = AppendVolumes vs v" "c \<in> set (pod_Containers pod)" "pc_VolumeMounts c = AppendMounts ms v"
  shows "readable pod f"
proof (cases "f = []")
  case False
  then obtain n g where n: "n \<in> names v" and f: "f = (if n = FLPName then TokensPath @ g else ''/var/'' @ n @ ''/'' @ g)"
    using assms(2) unfolding under_mount_def by metis
  let ?p = "if n = FLPName then TokensPath else ''/var/'' @ n"
  obtain ro where m: "(n, ?p, ro) \<in> set (pc_VolumeMounts c)" using mount_of(1)[OF assms(1) n] assms(5) by (auto simp: AppendMounts_def)
  have v: "n \<in> fst ` set (pod_Volumes pod)" using mount_of(2)[OF assms(1) n] assms(3) by (auto simp: AppendVolumes_def)
  have "\<exists>g. f = (if last ?p = CHR ''/'' then ?p else ?p @ ''/'') @ g" unfolding f by (simp add: TokensPath_def)
  with m v assms(4) show ?thesis unfolding readable_def by blast
qed (simp add: readable_def)

definition plain_refs :: "'v flpBuilder \<Rightarrow> bool" where
  "plain_refs b \<longleftrightarrow>
     (let d = fb_desired b; os = IsOpenShift (inst_ClusterInfo (fb_info b)) in
      plain_sasl (kafka_SASL (spec_Kafka d)) \<and> plain_exporters (spec_Exporters d)
      \<and> plain_ca (GetServiceServerTLSConfig (flp_Service (spec_Processor d)) monoCertSecretName os)
      \<and> plain_ca (GetServiceServerTLSConfig (Some (InformerTLSAsServiceConfig (flp_InformerCacheProxy (spec_Processor d)))) k8sCacheCertSecretName os))"

lemma flp_pod_readable:
  assumes "files_ok s" "plain_refs b" "\<forall>f \<in> set (metrics_files b). under_mount (ps_volumes s) f" "flp_pod lib name cm b net ann (ps_volumes s) = (pod, v)"
  shows "(\<forall>sp \<in> set (pl_config (ps_pipeline s)). \<forall>f \<in> set (files_of (sp_Params sp)). readable pod f)
    \<and> (\<forall>f \<in> set (metrics_files b). readable pod f)
    \<and> (\<forall>c \<in> set (pod_Containers pod). \<forall>a \<in> set (pc_Args c). \<forall>opt \<in> set cache_options. \<forall>f. a = opt @ f \<longrightarrow> readable pod f)"
proof -
  let ?d = "fb_desired b" and ?os = "IsOpenShift (inst_ClusterInfo (fb_info b))" and ?args = "[''--config='' @ configPath @ ''/'' @ configFile]"
  obtain args u where u: "(if IsInformerCacheProxyEnabled (spec_Processor ?d) then addK8sCacheArgs ?d ?os ?args (ps_volumes s) else (?args, ps_volumes s)) = (args, u)"
    by fastforce
  have c: "mount_known u \<and> names (ps_volumes s) \<subseteq> names u \<and> names_files u args"
    using u cache_args_files[OF files_ok_known[OF assms(1)], of ?d ?os args u] assms(2) files_ok_known[OF assms(1)]
    by (auto simp: plain_refs_def Let_def names_files_def cache_options_def split: if_splits)
  obtain cc where pod: "pod_Volumes pod = AppendVolumes [(configVolume, ConfigMapVolume cm)] u" "pod_Containers pod = [cc]"
    "pc_VolumeMounts cc = AppendMounts [(configVolume, configPath, False)] u" "pc_Args cc = args"
    using assms(4) unfolding flp_pod_def podTemplate_def Let_def u by (auto simp: Let_def)
  then have r: "readable pod f" if "under_mount u f" for f using under_mount_readable[OF _ that pod(1) _ pod(3)] c by simp
  have e: "under_mount (ps_volumes s) f \<Longrightarrow> under_mount u f" for f using c covered_extends[of "ps_volumes s" f u] by (simp add: extends_def)
  show ?thesis
    using assms(1,3) c r e pod(2,4) by (auto simp: files_ok_def names_files_def)
qed

text \<open>
  C7: the pods of flowlogs-pipeline find every file they are told to read. After the configuration of the monolith
  (or of the Kafka consumer) is built from no volumes, the pod that is built next, as a deployment or a daemon set,
  mounts a volume above every path that the stages of the pipeline, the metrics server and the arguments of the
  cache name: certificates, keys, authorities, SASL files and the Loki token, for every combination of
  features and any number of exporters. The names of the files are taken to be keys of secrets or config maps.
\<close>

theorem flp_files_readable:
  assumes "ps_volumes s = []" and "plain_refs b"
    and "(mono_configMaps lib b s = (Inr cms, s') \<and> (w, v) \<in> {mono_deployment lib b ann (ps_volumes s'), mono_daemonSet lib b ann (ps_volumes s')})
      \<or> (transfo_configMaps lib b s = (Inr cms, s') \<and> (w, v) = transfo_deployment lib b ann (ps_volumes s'))"
  shows "(\<forall>sp \<in> set (pl_config (ps_pipeline s')). \<forall>f \<in> set (files_of (sp_Params sp)). readable (wl_Template w) f)
    \<and> (\<forall>f \<in> set (metrics_files b). readable (wl_Template w) f)
    \<and> (\<forall>c \<in> set (pod_Containers (wl_Template w)). \<forall>a \<in> set (pc_Args c). \<forall>opt \<in> set cache_options. \<forall>f. a = opt @ f \<longrightarrow> readable (wl_Template w) f)"
proof -
  have start: "mount_known (ps_volumes s)" using assms(1) by (simp add: mount_known_def)
  note pl = assms(2)[unfolded plain_refs_def Let_def]
  have "files_ok s' \<and> (\<forall>f \<in> set (metrics_files b). under_mount (ps_volumes s') f)"
    using assms(3)
  proof (elim disjE conjE)
    assume r: "mono_configMaps lib b s = (Inr cms, s')"
    obtain p s1 where s1: "newGRPCPipeline (lib_defaults lib) (fb_desired b) (IsOpenShift (inst_ClusterInfo (fb_info b))) s = (p, s1)" by fastforce
    have "files_ok s1" using grpc_files[OF start, of "fb_desired b"] pl s1 by (metis snd_conv)
    from config_maps_files[OF this, of b lib] pl r show ?thesis by (auto simp: mono_configMaps_def s1)
  next
    assume r: "transfo_configMaps lib b s = (Inr cms, s')"
    obtain p s1 where s1: "newKafkaPipeline (fb_desired b) s = (p, s1)" by fastforce
    have "files_ok s1" using kafka_files[OF start, of "fb_desired b"] pl s1 by (metis snd_conv)
    from config_maps_files[OF this, of b lib] pl r show ?thesis by (auto simp: transfo_configMaps_def s1)
  qed
  moreover obtain name cm net ann' where "flp_pod lib name cm b net ann' (ps_volumes s') = (wl_Template w, v)"
    using assms(3) by (auto simp: mono_deployment_def mono_daemonSet_def transfo_deployment_def flp_workload_def Let_def split: prod.splits if_splits)
  ultimately show ?thesis using flp_pod_readable[OF _ assms(2)] by blast
qed

section \<open>A concrete deployment\<close>

definition demo_info :: "unit Instance" where
  "demo_info = \<lparr>inst_Namespace = ''netobserv'', inst_Images = (\<lambda>_. ''flp:v1''), inst_ClusterInfo = zero_Info\<lparr>apisMap := Some (\<lambda>_. True)\<rparr>,
     inst_Loki = loki_Manual zero_loki, inst_TLSConfig = None, inst_Vendor = VendorOpenShift\<rparr>"

definition demo_lib :: "nat flp_lib" where
  "demo_lib = \<lparr>lib_defaults = pb_defaults demo_builder, lib_tenth = (\<lambda>n. n div 10), lib_memLimit = (\<lambda>_. None), lib_yaml_static = (\<lambda>_. Inr []),
     lib_yaml_dynamic = (\<lambda>_. Inr []), lib_texts = pb_texts demo_builder, lib_flp_error = (\<lambda>_. ''bad''), lib_otel = Inr [], lib_cards = Inr Map.empty,
     lib_ParseFloat = demo_float\<rparr>"

definition demo_flp :: "unit flpBuilder" where
  "demo_flp = \<lparr>fb_info = demo_info, fb_desired = demo_spec\<lparr>spec_DeploymentModel := DeploymentModelService\<rparr>, fb_detectedSubnets = [], fb_version = ''v1'',
     fb_promTLS = None\<rparr>"

lemma demo_flp_sel [simp]:
  "fb_desired demo_flp = demo_spec\<lparr>spec_DeploymentModel := DeploymentModelService\<rparr>" "fb_info demo_flp = demo_info" "fb_promTLS demo_flp = None"
  "inst_Namespace demo_info = ''netobserv''" "IsOpenShift (inst_ClusterInfo demo_info)"
  by (simp_all add: demo_flp_def demo_info_def IsOpenShift_def HasOCPSecurity_def has_api_def zero_Info_def)

lemma demo_flp_defs: "predefined_items pf (GetDefinitions (demo_spec\<lparr>spec_DeploymentModel := m\<rparr>) False) = Inr []"
  by (simp add: GetDefinitions_def include_list_filter include_base_def getUpdatedDefsFromNames_def)

lemma demo_cert:
  "GetServiceServerTLSConfig None monoCertSecretName True = (Some (DefaultCertificateReference monoCertSecretName []), None)"
  by (simp add: GetServiceServerTLSConfig_def not_auto_def auto_mtls_def)

lemma demo_refs: "plain_refs demo_flp"
  by (simp add: plain_refs_def plain_sasl_def plain_exporters_def plain_ca_def demo_exporter_def zero_kafka_def UseSASL_def demo_cert
      InformerTLSAsServiceConfig_def GetServiceServerTLSConfig_def not_auto_def auto_mtls_def demo_spec_def zero_spec_def)

lemma demo_configured: "\<exists>cms s'. mono_configMaps demo_lib demo_flp demo_state = (Inr cms, s')"
proof -
  let ?b = "pipeline_builder demo_lib demo_flp"
  obtain p s1 where s1: "newGRPCPipeline (lib_defaults demo_lib) (fb_desired demo_flp) True demo_state = (p, s1)" by fastforce
  have "fst (createPipeline ?b p s1) = None"
    using createPipeline_fst[of ?b "[]" "[]" p s1] demo_flp_defs[of demo_float]
    by (simp add: pipeline_builder_def demo_lib_def custom_labels_def zero_flp_def lacks_interval_def demo_exporter_def)
  then obtain s2 where s2: "createPipeline ?b p s1 = (None, s2)" by (metis prod.collapse)
  have "\<exists>a c s'. getConfigs demo_lib d ns t dyn s2 = (Inr (a, c), s')" for d ns t dyn
    by (simp add: getConfigs_def demo_lib_def Let_def case_prod_beta)
  then obtain a c s3 where "getConfigs demo_lib (fb_desired demo_flp) (inst_Namespace (fb_info demo_flp)) (fb_promTLS demo_flp) monoDynConfigMap s2 = (Inr (a, c), s3)"
    by blast
  then show ?thesis using s1 s2 by (simp add: mono_configMaps_def config_maps_def configMap_def)
qed

theorem flp_files_readable_witness:
  "\<exists>cms s'. mono_configMaps demo_lib demo_flp demo_state = (Inr cms, s')
     \<and> (\<forall>sp \<in> set (pl_config (ps_pipeline s')). \<forall>f \<in> set (files_of (sp_Params sp)).
          readable (wl_Template (fst (mono_deployment demo_lib demo_flp [] (ps_volumes s')))) f)"
proof -
  obtain cms s' where r: "mono_configMaps demo_lib demo_flp demo_state = (Inr cms, s')" using demo_configured by blast
  obtain w v where "mono_deployment demo_lib demo_flp [] (ps_volumes s') = (w, v)" by fastforce
  with flp_files_readable[of demo_state demo_flp demo_lib cms s' w v "[]"] demo_refs r show ?thesis by (cases cms) (simp add: demo_state_def)
qed

text \<open>
  With the Auto-mTLS setting on OpenShift the pods mount the serving certificate of the service, like with
  Auto; yet the service asks the platform to issue that certificate with Auto only.
\<close>

theorem auto_mtls_certificate_not_requested:
  assumes "IsOpenShift (inst_ClusterInfo (fb_info b))" "flp_Service (spec_Processor (fb_desired b)) = Some c" "svc_TLSType c = TLSAutoMTLS"
  shows "fst (GetServiceServerTLSConfig (Some c) monoCertSecretName True) = Some (DefaultCertificateReference monoCertSecretName [])
    \<and> om_Annotations (serv_Meta (mono_service D b)) = Some []"
  using assms by (simp add: GetServiceServerTLSConfig_def not_auto_def auto_mtls_def mono_service_def new_meta_def Let_def)

end
