(* ===== verification/Agent.thy ===== *)
theory Agent
  imports Workloads Watchers TLS_Helper Advanced_Config
begin

text \<open>
  The eBPF agent's objects: \<open>internal/controller/ebpf/agent_controller.go\<close> (the daemon set with its environment and
  flow filters), \<open>volumes.go\<close> and the objects of \<open>agent_metrics.go\<close>. The builder of volumes, the annotations of the
  pod and the world are threaded through, as the code mutates them. The clients and watches of the referenced
  secrets, the defaults of the resource definition, version comparison and the memory limit are parameters.
\<close>

section \<open>Names\<close>

definition EBPFAgentName :: string where "EBPFAgentName = ''netobserv-ebpf-agent''"
definition EBPFAgentMetricsSvcName :: string where "EBPFAgentMetricsSvcName = ''ebpf-agent-svc-prom''"
definition EBPFAgentMetricsSvcMonitoringName :: string where "EBPFAgentMetricsSvcMonitoringName = ''ebpf-agent-svc-monitor''"
definition EBPFAgentPromAlertRule :: string where "EBPFAgentPromAlertRule = ''ebpf-agent-prom-alert''"
definition EBPFServiceAccount :: string where "EBPFServiceAccount = EBPFAgentName"
definition EBPFSecurityContext :: string where "EBPFSecurityContext = EBPFAgentName"

section \<open>Flow filters\<close>

record FlowFilter =
  fif_Direction :: string
  fif_IPCIDR :: string
  fif_Protocol :: string
  fif_SourcePort :: int
  fif_DestinationPort :: int
  fif_Port :: int
  fif_SourcePortRange :: string
  fif_SourcePorts :: string
  fif_DestinationPortRange :: string
  fif_DestinationPorts :: string
  fif_PortRange :: string
  fif_Ports :: string
  fif_ICMPType :: int
  fif_ICMPCode :: int
  fif_PeerIP :: string
  fif_Action :: string
  fif_TCPFlags :: string
  fif_Drops :: bool
  fif_Sample :: int
  fif_PeerCIDR :: string

text \<open>The single port, the list and the range that \<open>processPorts\<close> sets.\<close>

definition processPorts :: "IntOrString \<Rightarrow> int \<times> string \<times> string" where
  "processPorts ports =
     (if ios_Type ports = StringKind then
        (0, if CHR '','' \<in> set (intstr_String ports) then intstr_String ports else [],
            if CHR ''-'' \<in> set (intstr_String ports) then intstr_String ports else [])
      else (ios_IntVal ports, [], []))"

text \<open>\<open>EBPFFlowFilterRule\<close> and the inlined fields of \<open>EBPFFlowFilter\<close> are translated by the same statements.\<close>

definition mapFlowFilterRuleToFilter :: "EBPFFlowFilterRule \<Rightarrow> FlowFilter" where
  "mapFlowFilterRuleToFilter rule =
     (let (sp, sps, spr) = processPorts (rule_SourcePorts rule);
          (dp, dps, dpr) = processPorts (rule_DestPorts rule);
          (p, ps, pr) = processPorts (rule_Ports rule)
      in \<lparr>fif_Direction = rule_Direction rule, fif_IPCIDR = rule_CIDR rule, fif_Protocol = rule_Protocol rule,
          fif_SourcePort = sp, fif_DestinationPort = dp, fif_Port = p,
          fif_SourcePortRange = spr, fif_SourcePorts = sps, fif_DestinationPortRange = dpr, fif_DestinationPorts = dps,
          fif_PortRange = pr, fif_Ports = ps,
          fif_ICMPType = ptr_or (rule_ICMPType rule) 0, fif_ICMPCode = ptr_or (rule_ICMPCode rule) 0,
          fif_PeerIP = rule_PeerIP rule, fif_Action = rule_Action rule, fif_TCPFlags = rule_TCPFlags rule,
          fif_Drops = ptr_or (rule_PktDrops rule) False, fif_Sample = ptr_or (rule_Sampling rule) 0,
          fif_PeerCIDR = rule_PeerCIDR rule\<rparr>)"

definition mapFlowFilterToFilter :: "EBPFFlowFilter \<Rightarrow> FlowFilter" where
  "mapFlowFilterToFilter ff = mapFlowFilterRuleToFilter (ff_Inline ff)"

text \<open>\<open>json.Marshal\<close> of filters: every field is left out when it has its zero value; it does not fail on these types.\<close>

definition json_field :: "string \<Rightarrow> string \<Rightarrow> string" where
  "json_field key value = json_string key @ '':'' @ value"

definition json_str_field :: "string \<Rightarrow> string \<Rightarrow> string list" where
  "json_str_field key v = (if v = [] then [] else [json_field key (json_string v)])"

definition json_int_field :: "string \<Rightarrow> int \<Rightarrow> string list" where
  "json_int_field key v = (if v = 0 then [] else [json_field key (itoa v)])"

definition json_filter :: "FlowFilter \<Rightarrow> string" where
  "json_filter f =
     ''{'' @ str_join '',''
       (json_str_field ''direction'' (fif_Direction f) @ json_str_field ''ip_cidr'' (fif_IPCIDR f) @ json_str_field ''protocol'' (fif_Protocol f)
        @ json_int_field ''source_port'' (fif_SourcePort f) @ json_int_field ''destination_port'' (fif_DestinationPort f) @ json_int_field ''port'' (fif_Port f)
        @ json_str_field ''source_port_range'' (fif_SourcePortRange f) @ json_str_field ''source_ports'' (fif_SourcePorts f)
        @ json_str_field ''destination_port_range'' (fif_DestinationPortRange f) @ json_str_field ''destination_ports'' (fif_DestinationPorts f)
        @ json_str_field ''port_range'' (fif_PortRange f) @ json_str_field ''ports'' (fif_Ports f)
        @ json_int_field ''icmp_type'' (fif_ICMPType f) @ json_int_field ''icmp_code'' (fif_ICMPCode f)
        @ json_str_field ''peer_ip'' (fif_PeerIP f) @ json_str_field ''action'' (fif_Action f) @ json_str_field ''tcp_flags'' (fif_TCPFlags f)
        @ (if fif_Drops f then [json_field ''drops'' ''true''] else [])
        @ json_int_field ''sample'' (fif_Sample f) @ json_str_field ''peer_cidr'' (fif_PeerCIDR f)) @ ''}''"

definition json_filters :: "FlowFilter list \<Rightarrow> string" where
  "json_filters fs = ''['' @ str_join '','' (map json_filter fs) @ '']''"

definition configureFlowFiltersRules :: "EBPFFlowFilterRule list \<Rightarrow> EnvVar list" where
  "configureFlowFiltersRules rules = [EnvValue ''FLOW_FILTER_RULES'' (json_filters (map mapFlowFilterRuleToFilter rules))]"

definition configureFlowFilter :: "EBPFFlowFilter \<Rightarrow> EnvVar list" where
  "configureFlowFilter ff = [EnvValue ''FLOW_FILTER_RULES'' (json_filters [mapFlowFilterToFilter ff])]"

section \<open>Environment\<close>

definition addEnv :: "EnvVar list \<Rightarrow> string \<Rightarrow> string \<Rightarrow> string_map \<Rightarrow> EnvVar list" where
  "addEnv envs key value overrides = (if overrides key = None then envs @ [EnvValue key value] else envs)"

text \<open>A run of calls of \<open>addEnv\<close>.\<close>

definition add_envs :: "string_map \<Rightarrow> (string \<times> string) list \<Rightarrow> EnvVar list \<Rightarrow> EnvVar list" where
  "add_envs overrides kvs envs = foldl (\<lambda>es (k, v). addEnv es k v overrides) envs kvs"

definition enable :: "bool \<Rightarrow> string \<Rightarrow> (string \<times> string) list" where
  "enable b key = (if b then [(key, ''true'')] else [])"

definition agent_settings :: "FlowCollectorEBPF \<Rightarrow> (string \<times> string) list" where
  "agent_settings e =
     (if ebpf_CacheActiveTimeout e \<noteq> [] then [(''CACHE_ACTIVE_TIMEOUT'', ebpf_CacheActiveTimeout e)] else [])
     @ (if ebpf_CacheMaxFlows e \<noteq> 0 then [(''CACHE_MAX_FLOWS'', itoa (ebpf_CacheMaxFlows e))] else [])
     @ (if ebpf_LogLevel e \<noteq> [] then [(''LOG_LEVEL'', ebpf_LogLevel e)] else [])
     @ (if ebpf_Interfaces e \<noteq> [] then [(''INTERFACES'', str_join '','' (ebpf_Interfaces e))] else [])
     @ (if ebpf_ExcludeInterfaces e \<noteq> [] then [(''EXCLUDE_INTERFACES'', str_join '','' (ebpf_ExcludeInterfaces e))] else [])
     @ (case ebpf_Sampling e of Some s \<Rightarrow> if s > 0 then [(''SAMPLING'', itoa s)] else [] | None \<Rightarrow> [])
     @ enable (IsFlowRTTEnabled e) ''ENABLE_RTT''
     @ enable (IsNetworkEventsEnabled e) ''ENABLE_NETWORK_EVENTS_MONITORING''
     @ enable (IsUDNMappingEnabled e) ''ENABLE_UDN_MAPPING''
     @ enable (IsPacketTranslationEnabled e) ''ENABLE_PKT_TRANSLATION''
     @ enable (IsEbpfManagerEnabled e) ''EBPF_PROGRAM_MANAGER_MODE''
     @ enable (IsPktDropEnabled e) ''ENABLE_PKT_DROPS''
     @ enable (IsDNSTrackingEnabled e) ''ENABLE_DNS_TRACKING''
     @ enable (IsIPSecEnabled e) ''ENABLE_IPSEC_TRACKING''
     @ enable (IsTLSTrackingEnabled e) ''ENABLE_TLS_TRACKING''
     @ enable (IsSecondaryNetworksEnabled e) ''ENABLE_SECONDARY_NETWORKS''
     @ (if IsEBPFMetricsEnabled e
        then [(''METRICS_ENABLE'', ''true''), (''METRICS_SERVER_PORT'', itoa (GetMetricsPort_ebpf e)), (''METRICS_PREFIX'', ''netobserv_agent_'')] else [])"

definition agent_filters :: "FlowCollectorEBPF \<Rightarrow> EnvVar list" where
  "agent_filters e =
     (if IsEBPFFlowFilterEnabled e then
        (case ebpf_FlowFilter e of
           None \<Rightarrow> []
         | Some ff \<Rightarrow> if ff_Rules ff \<noteq> [] then configureFlowFiltersRules (ff_Rules ff) else configureFlowFilter ff)
      else [])"

record ('v, 'w) agent_lib =
  al_defaults :: crd_defaults
  al_tenth :: "int \<Rightarrow> int"
  al_memLimit :: "opaque \<Rightarrow> int option"
  al_semver :: "'v semver"
  al_watch :: "'w watch_env"
  al_watcher :: Watcher

datatype agent_error =
  PlainError client_error | JoinedErrors "client_error list" | KafkaError client_error | AgentWrapped string agent_error

definition agent_defaults :: "('v, 'w) agent_lib \<Rightarrow> 'v Instance \<Rightarrow> FlowCollectorEBPF \<Rightarrow> (string \<times> string) list" where
  "agent_defaults lib c e =
     [(''DNS_TRACKING_PORT'', GetDNSTrackingPorts e (inst_Vendor c)), (''NETWORK_EVENTS_MONITORING_GROUP_ID'', ''10''),
      (''PREFERRED_INTERFACE_FOR_MAC_PREFIX'', ''0a:58=eth0''),
      (''TC_ATTACH_MODE'', if fst (IsOpenShiftVersionLessThan (al_semver lib) ''4.16.0'' (inst_ClusterInfo c)) then ''tc'' else ''tcx'')]"

text \<open>Go's division of integers, towards zero.\<close>

definition go_div :: "int \<Rightarrow> int \<Rightarrow> int" where
  "go_div a b = sgn a * sgn b * (\<bar>a\<bar> div \<bar>b\<bar>)"

definition kafka_settings :: "FlowCollectorSpec \<Rightarrow> (string \<times> string) list" where
  "kafka_settings spec =
     (let k = spec_Kafka spec; batch = ebpf_KafkaBatchSize (agent_EBPF (spec_Agent spec)) in
      [(''EXPORT'', ''kafka''), (''KAFKA_BROKERS'', kafka_Address k), (''KAFKA_TOPIC'', kafka_Topic k), (''KAFKA_BATCH_SIZE'', itoa batch),
       (''KAFKA_BATCH_MESSAGES'', itoa (go_div batch 100)), (''KAFKA_COMPRESSION'', kafka_Compression k)])"

definition bool_string :: "bool \<Rightarrow> string" where
  "bool_string b = (if b then ''true'' else ''false'')"

text \<open>
  The transport branches add variables, annotations, volumes and copies of the referenced objects: the part of the
  state is the triple of annotations, volumes and world.
\<close>

type_synonym 'w agent_state = "go_map \<times> Builder \<times> 'w"

definition kafka_tls_env ::
  "('v, 'w) agent_lib \<Rightarrow> 'v Instance \<Rightarrow> FlowCollectorKafka \<Rightarrow> 'w agent_state \<Rightarrow> (agent_error + (string \<times> string) list) \<times> 'w agent_state" where
  "kafka_tls_env lib c k st =
     (case st of (annots, vols, w) \<Rightarrow>
      if \<not> ctls_Enable (kafka_TLS k) then (Inr [], st)
      else case ProcessMTLSCerts (al_watch lib) (al_watcher lib) (kafka_TLS k) (PrivilegedNamespace c) w of
        (Inl e, w') \<Rightarrow> (Inl (KafkaError e), (annots, vols, w'))
      | (Inr (caDigest, userDigest), w') \<Rightarrow>
          (case AddMutualTLSCertificates (kafka_TLS k) ''kafka-certs'' vols of ((caPath, userCertPath, userKeyPath), vols') \<Rightarrow>
            (Inr [(''KAFKA_ENABLE_TLS'', ''true''), (''KAFKA_TLS_INSECURE_SKIP_VERIFY'', bool_string (ctls_InsecureSkipVerify (kafka_TLS k))),
                  (''KAFKA_TLS_CA_CERT_PATH'', caPath), (''KAFKA_TLS_USER_CERT_PATH'', userCertPath), (''KAFKA_TLS_USER_KEY_PATH'', userKeyPath)],
             (go_map_set (Annotation ''kafka-user'') userDigest (go_map_set (Annotation ''kafka-ca'') caDigest annots), vols', w'))))"

definition kafka_sasl_env ::
  "('v, 'w) agent_lib \<Rightarrow> 'v Instance \<Rightarrow> FlowCollectorKafka \<Rightarrow> 'w agent_state \<Rightarrow> (agent_error + (string \<times> string) list) \<times> 'w agent_state" where
  "kafka_sasl_env lib c k st =
     (case st of (annots, vols, w) \<Rightarrow>
      let sasl = kafka_SASL k in
      if \<not> UseSASL sasl then (Inr [], st)
      else case ProcessSASL (al_watch lib) (al_watcher lib) sasl (PrivilegedNamespace c) w of
        (Inl e, w') \<Rightarrow> (Inl (KafkaError e), (annots, vols, w'))
      | (Inr (d1, d2), w') \<Rightarrow>
          (case AddVolume (sasl_ClientIDReference sasl) ''kafka-sasl-id'' vols of (idPath, vols1) \<Rightarrow>
           case AddVolume (sasl_ClientSecretReference sasl) ''kafka-sasl-secret'' vols1 of (secretPath, vols2) \<Rightarrow>
            (Inr [(''KAFKA_ENABLE_SASL'', ''true''), (''KAFKA_SASL_TYPE'', if sasl_Type sasl = SASLScramSHA512 then ''scramSHA512'' else ''plain''),
                  (''KAFKA_SASL_CLIENT_ID_PATH'', idPath), (''KAFKA_SASL_CLIENT_SECRET_PATH'', secretPath)],
             (go_map_set (Annotation ''kafka-sd2'') d2 (go_map_set (Annotation ''kafka-sd1'') d1 annots), vols2, w'))))"

definition kafka_env ::
  "('v, 'w) agent_lib \<Rightarrow> 'v Instance \<Rightarrow> FlowCollectorSpec \<Rightarrow> 'w agent_state \<Rightarrow> (agent_error + (string \<times> string) list) \<times> 'w agent_state" where
  "kafka_env lib c spec st =
     (case kafka_tls_env lib c (spec_Kafka spec) st of
        (Inl e, st1) \<Rightarrow> (Inl e, st1)
      | (Inr t, st1) \<Rightarrow>
          (case kafka_sasl_env lib c (spec_Kafka spec) st1 of
             (Inl e, st2) \<Rightarrow> (Inl e, st2)
           | (Inr s, st2) \<Rightarrow> (Inr (kafka_settings spec @ t @ s), st2)))"

text \<open>TLS towards the service of flowlogs-pipeline; certificates are copied on OpenShift only.\<close>

definition service_tls_env ::
  "('v, 'w) agent_lib \<Rightarrow> 'v Instance \<Rightarrow> FlowCollectorSpec \<Rightarrow> 'w agent_state \<Rightarrow> (agent_error + (string \<times> string) list) \<times> 'w agent_state" where
  "service_tls_env lib c spec st =
     (case st of (annots, vols, w) \<Rightarrow>
      let openshift = IsOpenShift (inst_ClusterInfo c); ns = PrivilegedNamespace c in
      case GetServiceClientTLSConfig (flp_Service (spec_Processor spec)) ''ebpf-agent-cert'' openshift of
        (None, _) \<Rightarrow> (Inr [], st)
      | (Some ca, None) \<Rightarrow>
          (case AddVolume ca ''netobserv-ca'' vols of (caPath, vols1) \<Rightarrow>
           if fref_Namespace ca \<noteq> [] \<and> openshift then
             (case ProcessFileReference (al_watch lib) (al_watcher lib) ca ns w of
                (Inl e, w') \<Rightarrow> (Inl (PlainError e), (annots, vols1, w'))
              | (Inr caDigest, w') \<Rightarrow> (Inr [(''TARGET_TLS_CA_CERT_PATH'', caPath)], (go_map_set (Annotation ''tls-ca'') caDigest annots, vols1, w')))
           else (Inr [(''TARGET_TLS_CA_CERT_PATH'', caPath)], (annots, vols1, w)))
      | (Some ca, Some cert) \<Rightarrow>
          (case AddVolume ca ''netobserv-ca'' vols of (caPath, vols1) \<Rightarrow>
           case AddCertificate (Some cert) ''client-certs'' vols1 of ((certPath, keyPath), vols2) \<Rightarrow>
           let vars = [(''TARGET_TLS_CA_CERT_PATH'', caPath), (''TARGET_TLS_USER_CERT_PATH'', certPath), (''TARGET_TLS_USER_KEY_PATH'', keyPath)] in
           if openshift then
             (case ProcessMTLSCertsFromRefs (al_watch lib) (al_watcher lib) ca cert ns w of
                (Inl e, w') \<Rightarrow> (Inl (PlainError e), (annots, vols2, w'))
              | (Inr (caDigest, userDigest), w') \<Rightarrow>
                  (Inr vars, (go_map_set (Annotation ''mtls-user'') userDigest (go_map_set (Annotation ''mtls-ca'') caDigest annots), vols2, w')))
           else (Inr vars, (annots, vols2, w))))"

definition target_port :: "('v, 'w) agent_lib \<Rightarrow> FlowCollectorSpec \<Rightarrow> string" where
  "target_port lib spec = itoa (the (apc_Port (GetAdvancedProcessorConfig (al_defaults lib) spec)))"

definition service_target :: "('v, 'w) agent_lib \<Rightarrow> 'v Instance \<Rightarrow> FlowCollectorSpec \<Rightarrow> (string \<times> string) list" where
  "service_target lib c spec =
     [(''TARGET_HOST'', ''flowlogs-pipeline.'' @ inst_Namespace c @ ''.svc.cluster.local.''), (''TARGET_PORT'', target_port lib spec),
      (''GRPC_RECONNECT_TIMER'', ''5m''), (''GRPC_RECONNECT_TIMER_RANDOMIZATION'', ''30s'')]"

text \<open>The variables of the transport, appended to those set before.\<close>

definition transport_env ::
  "('v, 'w) agent_lib \<Rightarrow> 'v Instance \<Rightarrow> FlowCollectorSpec \<Rightarrow> string_map \<Rightarrow> EnvVar list \<Rightarrow> 'w agent_state
     \<Rightarrow> (agent_error + EnvVar list) \<times> 'w agent_state" where
  "transport_env lib c spec ov config st =
     (if UseKafka spec then
        (case kafka_env lib c spec st of (Inl e, st') \<Rightarrow> (Inl e, st') | (Inr kvs, st') \<Rightarrow> (Inr (add_envs ov kvs config), st'))
      else if UseHostNetwork spec then
        (let config = addEnv config ''EXPORT'' ''grpc'' ov;
             config = (if ov ''TARGET_HOST'' = None then config @ [EnvFieldRef ''TARGET_HOST'' ''status.hostIP''] else config)
         in (Inr (addEnv config ''TARGET_PORT'' (target_port lib spec) ov), st))
      else
        (case service_tls_env lib c spec st of
           (Inl e, st') \<Rightarrow> (Inl e, st')
         | (Inr kvs, st') \<Rightarrow> (Inr (add_envs ov ((''EXPORT'', ''grpc'') # kvs @ service_target lib c spec) config), st')))"

definition envConfig ::
  "('v, 'w) agent_lib \<Rightarrow> 'v Instance \<Rightarrow> FlowCollectorSpec \<Rightarrow> 'w agent_state \<Rightarrow> (agent_error + EnvVar list) \<times> 'w agent_state" where
  "envConfig lib c spec st =
     (let e = agent_EBPF (spec_Agent spec);
          ov = aac_Env (GetAdvancedAgentConfig (ebpf_Advanced e));
          config = add_envs ov (agent_settings e) (plain_env (KeySorted ov));
          config = (if ov ''GOMEMLIMIT'' = None then config @ plain_env (EnvFromReqsLimits (al_tenth lib) [] (al_memLimit lib (ebpf_Resources e))) else config);
          config = config @ agent_filters e @ [EnvFieldRef ''AGENT_IP'' ''status.hostIP''];
          config = add_envs ov (agent_defaults lib c e) config
      in case transport_env lib c spec ov config st of
           (Inl ex, st') \<Rightarrow> (Inl ex, st')
         | (Inr config, st') \<Rightarrow> (Inr (config @ plain_env (AppendTLSEnvVars [] (inst_TLSConfig c))), st'))"

section \<open>Volumes and capabilities\<close>

record volumeInfo =
  vi_name :: string
  vi_envOverride :: string
  vi_hostPath :: string
  vi_mountPath :: string

definition getHostVolumesInfo :: "FlowCollectorEBPF \<Rightarrow> Vendor \<Rightarrow> volumeInfo list" where
  "getHostVolumesInfo e vendor =
     (if IsSecondaryNetworksEnabled e
      then [\<lparr>vi_name = ''var-run-netns'', vi_envOverride = [], vi_hostPath = ''/var/run/netns'', vi_mountPath = ''/var/run/netns''\<rparr>] else [])
     @ (if IsAgentFeatureEnabled e PacketDrop \<and> \<not> IsEbpfManagerEnabled e
        then [\<lparr>vi_name = ''bpf-kernel-debug'', vi_envOverride = [], vi_hostPath = ''/sys/kernel/debug'', vi_mountPath = ''/sys/kernel/debug''\<rparr>] else [])
     @ (if IsNetworkEventsEnabled e \<or> IsUDNMappingEnabled e
        then [\<lparr>vi_name = ''var-run-ovn'', vi_envOverride = ''OVN_OBSERV_HOST_MOUNT_PATH'',
               vi_hostPath = (if vendor = VendorOpenShift \<or> vendor = VendorOpenShiftDownstream then ''/var/run/ovn-ic'' else ''/var/run/openvswitch''),
               vi_mountPath = ''/var/run/ovn''\<rparr>,
              \<lparr>vi_name = ''var-run-ovs'', vi_envOverride = [], vi_hostPath = ''/var/run/openvswitch'', vi_mountPath = ''/var/run/openvswitch''\<rparr>] else [])"

datatype agent_volume = BuilderVolume VolumeSource | HostPathDirectory string | CSIVolume string go_map

record agent_mount =
  amnt_Name :: string
  amnt_MountPath :: string
  amnt_ReadOnly :: bool
  amnt_Propagation :: "string option"

text \<open>The maps of the agent that the BPF manager shares with it, \<open>ebpfmaps.Maps\<close>.\<close>

definition ebpf_maps :: "string list" where
  "ebpf_maps = [''direct_flows'', ''aggregated_flows'', ''aggregated_flows_dns'', ''aggregated_flows_pkt_drop'', ''aggregated_flows_network_events'',
     ''aggregated_flows_xlat'', ''additional_flow_metrics'', ''packet_record'', ''dns_flows'', ''global_counters'', ''filter_map'', ''peer_filter_map'',
     ''ipsec_ingress_map'', ''ipsec_egress_map'', ''ssl_data_event_map'', ''dns_name_map'', ''quic_flows'']"

definition host_volume :: "string_map \<Rightarrow> volumeInfo \<Rightarrow> string \<times> agent_volume" where
  "host_volume ov info =
     (vi_name info, HostPathDirectory (case ov (vi_envOverride info) of Some p \<Rightarrow> if p \<noteq> [] then p else vi_hostPath info | None \<Rightarrow> vi_hostPath info))"

definition host_mount :: "string \<Rightarrow> string \<Rightarrow> agent_mount" where
  "host_mount name path = \<lparr>amnt_Name = name, amnt_MountPath = path, amnt_ReadOnly = False, amnt_Propagation = Some ''HostToContainer''\<rparr>"

definition buildVolumes :: "FlowCollectorEBPF \<Rightarrow> Vendor \<Rightarrow> Builder \<Rightarrow> string_map \<Rightarrow> agent_mount list \<times> (string \<times> agent_volume) list" where
  "buildVolumes e vendor vols ov =
     (let infos = getHostVolumesInfo e vendor in
      (map (\<lambda>(n, p, r). \<lparr>amnt_Name = n, amnt_MountPath = p, amnt_ReadOnly = r, amnt_Propagation = None\<rparr>) (GetMounts vols)
         @ map (\<lambda>i. host_mount (vi_name i) (vi_mountPath i)) infos
         @ (if IsEbpfManagerEnabled e then [host_mount ''bpfman-maps'' ''/run/netobserv/maps''] else []),
       map (\<lambda>(n, v). (n, BuilderVolume v)) (GetVolumes vols)
         @ map (host_volume ov) infos
         @ (if IsEbpfManagerEnabled e
            then [(''bpfman-maps'', CSIVolume ''csi.bpfman.io'' [(''csi.bpfman.io/program'', ''netobserv''), (''csi.bpfman.io/maps'', str_join '','' ebpf_maps)])]
            else [])))"

definition default_capabilities :: "FlowCollectorEBPF \<Rightarrow> string list" where
  "default_capabilities e =
     [''BPF'', ''PERFMON'', ''NET_ADMIN''] @ (if IsSecondaryNetworksEnabled e then [''SYS_ADMIN''] else [])
     @ (if IsNetworkEventsEnabled e \<or> IsUDNMappingEnabled e then [''DAC_OVERRIDE''] else [])"

definition getAllowedCapabilities :: "FlowCollectorEBPF \<Rightarrow> string list option" where
  "getAllowedCapabilities e =
     (if ebpf_Privileged e then None
      else case ebpf_Advanced e of
        Some a \<Rightarrow> Some (if aac_CapOverride a \<noteq> [] then aac_CapOverride a else default_capabilities e)
      | None \<Rightarrow> Some (default_capabilities e))"

definition securityContext :: "FlowCollectorEBPF \<Rightarrow> SecurityContext" where
  "securityContext e =
     (if ebpf_Privileged e then
        \<lparr>secctx_AllowPrivilegeEscalation = None, secctx_ReadOnlyRootFilesystem = None, secctx_Capabilities = None,
         secctx_Privileged = Some True, secctx_RunAsUser = Some 0\<rparr>
      else
        (let sc = ContainerDefaultSecurityContext in
         sc\<lparr>secctx_RunAsUser := Some 0,
            secctx_Capabilities := map_option (\<lambda>cs. cs\<lparr>cap_Add := (case getAllowedCapabilities e of None \<Rightarrow> [] | Some l \<Rightarrow> l)\<rparr>) (secctx_Capabilities sc)\<rparr>))"

section \<open>The daemon set\<close>

record agent_daemonset =
  ads_Meta :: ObjectMeta
  ads_Selector :: go_map
  ads_PodLabels :: go_map
  ads_PodAnnotations :: go_map
  ads_ServiceAccountName :: string
  ads_HostNetwork :: bool
  ads_DNSPolicy :: string
  ads_Volumes :: "(string \<times> agent_volume) list"
  ads_ContainerName :: string
  ads_Image :: string
  ads_ImagePullPolicy :: string
  ads_Resources :: opaque
  ads_SecurityContext :: SecurityContext
  ads_Env :: "EnvVar list"
  ads_VolumeMounts :: "agent_mount list"
  ads_TerminationMessagePolicy :: string
  ads_Scheduling :: SchedulingConfig

text \<open>The certificate of the metrics server; a provided one that is missing is logged and left out.\<close>

definition agent_prom_tls :: "FlowCollectorEBPF \<Rightarrow> CertificateReference option" where
  "agent_prom_tls e =
     (let t = msc_TLS (em_Server (ebpf_Metrics e)) in
      case stls_Type t of
        TLSProvided \<Rightarrow> stls_Provided t
      | TLSAuto \<Rightarrow> Some (DefaultCertificateReference EBPFAgentMetricsSvcName [])
      | _ \<Rightarrow> None)"

definition agent_metrics_env :: "FlowCollectorEBPF \<Rightarrow> Builder \<Rightarrow> EnvVar list \<times> Builder" where
  "agent_metrics_env e vols =
     (if stls_Type (msc_TLS (em_Server (ebpf_Metrics e))) \<noteq> TLSDisabled then
        (case AddCertificate (agent_prom_tls e) ''prom-certs'' vols of ((cert, key), vols') \<Rightarrow>
           (if cert \<noteq> [] \<and> key \<noteq> [] then [EnvValue ''METRICS_TLS_KEY_PATH'' key, EnvValue ''METRICS_TLS_CERT_PATH'' cert] else [], vols'))
      else ([], vols))"

definition agent_annotations :: "'v Instance \<Rightarrow> go_map" where
  "agent_annotations c = (if IsOpenShift (inst_ClusterInfo c) then [(OpenShiftReqSCCAnnotation, EBPFSecurityContext)] else [])"

definition desired_agent ::
  "('v, 'w) agent_lib \<Rightarrow> 'v Instance \<Rightarrow> FlowCollectorSpec \<Rightarrow> Builder \<Rightarrow> 'w \<Rightarrow> (agent_error + agent_daemonset) \<times> Builder \<times> 'w" where
  "desired_agent lib c spec vols w =
     (let e = agent_EBPF (spec_Agent spec);
          version = ExtractVersion (inst_Images c MainImage)
      in case envConfig lib c spec (agent_annotations c, vols, w) of
           (Inl ex, (_, vols1, w1)) \<Rightarrow> (Inl ex, vols1, w1)
         | (Inr env, (annotations, vols1, w1)) \<Rightarrow>
             (let adv = GetAdvancedAgentConfig (ebpf_Advanced e);
                  (menv, vols2) = agent_metrics_env e vols1;
                  (mounts, volumes) = buildVolumes e (inst_Vendor c) vols2 (aac_Env adv)
              in (Inr \<lparr>ads_Meta = new_meta EBPFAgentName (PrivilegedNamespace c) (Some (version_labels EBPFAgentName (MaxLabelLength version))) None,
                       ads_Selector = [(''app'', EBPFAgentName)], ads_PodLabels = app_labels EBPFAgentName, ads_PodAnnotations = annotations,
                       ads_ServiceAccountName = EBPFServiceAccount, ads_HostNetwork = True, ads_DNSPolicy = ''ClusterFirstWithHostNet'',
                       ads_Volumes = volumes, ads_ContainerName = EBPFAgentName, ads_Image = inst_Images c MainImage,
                       ads_ImagePullPolicy = ebpf_ImagePullPolicy e, ads_Resources = ebpf_Resources e, ads_SecurityContext = securityContext e,
                       ads_Env = env @ menv, ads_VolumeMounts = mounts, ads_TerminationMessagePolicy = ''FallbackToLogsOnError'',
                       ads_Scheduling = the (aac_Scheduling adv)\<rparr>, vols2, w1)))"

section \<open>Metrics service, monitor and alerts\<close>

definition agent_promService :: "'v Instance \<Rightarrow> FlowCollectorEBPF \<Rightarrow> Service" where
  "agent_promService c e =
     (let port = GetMetricsPort_ebpf e in
      \<lparr>serv_Meta = new_meta EBPFAgentMetricsSvcName (PrivilegedNamespace c) (Some (app_labels EBPFAgentName))
         (if stls_Type (msc_TLS (em_Server (ebpf_Metrics e))) = TLSAuto then Some [(OpenShiftCertificateAnnotation, EBPFAgentMetricsSvcName)] else None),
       serv_Selector = [(''app'', EBPFAgentName)],
       serv_Ports = [\<lparr>sport_Name = ''metrics'', sport_Port = port, sport_Protocol = ''TCP'', sport_TargetPort = port\<rparr>],
       serv_ClusterIP = []\<rparr>)"

definition promServiceMonitoring :: "'v Instance \<Rightarrow> FlowCollectorEBPF \<Rightarrow> bool \<Rightarrow> ServiceMonitor" where
  "promServiceMonitoring c e useEndpointSlices =
     (let server = em_Server (ebpf_Metrics e);
          (scheme, smTLS) = GetServiceMonitorTLSConfig (msc_TLS server) (EBPFAgentMetricsSvcName @ ''.'' @ PrivilegedNamespace c @ ''.svc'')
      in \<lparr>smon_Meta = new_meta EBPFAgentMetricsSvcMonitoringName (PrivilegedNamespace c) (Some (app_labels EBPFAgentName)) None,
          smon_ServiceDiscoveryRole = (if useEndpointSlices then Some ''EndpointSlice'' else None),
          smon_Port = ''metrics'', smon_Interval = (case msc_ScrapeInterval server of None \<Rightarrow> ''30s'' | Some d \<Rightarrow> duration_string d),
          smon_Scheme = scheme, smon_TLSConfig = smTLS, smon_HonorLabels = False, smon_MetricRelabelConfigs = [],
          smon_NamespaceSelector = [PrivilegedNamespace c], smon_Selector = [(''app'', EBPFAgentName)]\<rparr>)"

record alert_rule =
  ar_Alert :: string
  ar_Annotations :: go_map
  ar_Expr :: string
  ar_For :: string
  ar_Labels :: go_map

fun shouldAddAlert :: "EBPFAgentAlert \<Rightarrow> EBPFAgentAlert list \<Rightarrow> bool" where
  "shouldAddAlert name [] = True"
| "shouldAddAlert name (d # ds) = (if name = d then False else shouldAddAlert name ds)"

definition agentPrometheusRule :: "'v Instance \<Rightarrow> FlowCollectorEBPF \<Rightarrow> alert_rule PrometheusRule" where
  "agentPrometheusRule c e =
     \<lparr>prule_Meta = new_meta EBPFAgentPromAlertRule (PrivilegedNamespace c) (Some (app_labels EBPFAgentName)) None,
      prule_GroupName = ''NetobservEBPFAgentAlerts'',
      prule_Rules =
        (if shouldAddAlert AlertDroppedFlows (em_DisableAlerts (ebpf_Metrics e)) then
           [\<lparr>ar_Alert = ''NetObservDroppedFlows'',
             ar_Annotations =
               [(''description'', ''NetObserv eBPF agent is missing packets or flows. The metric netobserv_agent_dropped_flows_total provides more information on the cause. Possible reasons are the BPF hashmap being busy or full, or the capacity limiter being triggered. This may be worked around by increasing cacheMaxFlows value in Flowcollector resource.''),
                (''summary'', ''NetObserv eBPF agent is missing packets or flows'')],
             ar_Expr = ''sum(rate(netobserv_agent_dropped_flows_total[1m])) > 100'', ar_For = ''10m'',
             ar_Labels = [(''severity'', ''warning''), (''app'', ''netobserv'')]\<rparr>] else [])\<rparr>"

end
