(* ===== verification/Agent_Correct.thy ===== *)
theory Agent_Correct
  imports Agent FLP_Objects_Correct Watchers_Correct
begin

text \<open>
  What the configuration of the agents promises: the variables of the container are those of the resource, with the
  user's own in force; agents and flowlogs-pipeline agree on address, port, topic and TLS; the security constraints
  admit the pods; the filters select the ports that were asked for.
\<close>

section \<open>Variables of the container\<close>

text \<open>The entries of one name, in order; Kubernetes uses the last one.\<close>

definition entries :: "string \<Rightarrow> EnvVar list \<Rightarrow> EnvVar list" where
  "entries k env = filter (\<lambda>x. env_name x = k) env"

lemma entries_simps [simp]:
  "entries k [] = []"
  "entries k (EnvValue n v # env) = (if n = k then EnvValue n v # entries k env else entries k env)"
  "entries k (EnvFieldRef n v # env) = (if n = k then EnvFieldRef n v # entries k env else entries k env)"
  "entries k (env @ env') = entries k env @ entries k env'"
  by (simp_all add: entries_def)

definition guarded :: "string_map \<Rightarrow> (string \<times> string) list \<Rightarrow> EnvVar list" where
  "guarded ov kvs = plain_env (filter (\<lambda>(k, v). ov k = None) kvs)"

lemma guarded_simps [simp]:
  "guarded ov [] = []"
  "guarded ov ((k, v) # kvs) = (if ov k = None then EnvValue k v # guarded ov kvs else guarded ov kvs)"
  "guarded ov (kvs @ kvs') = guarded ov kvs @ guarded ov kvs'"
  by (simp_all add: guarded_def plain_env_def)

lemma addEnv_guarded: "addEnv env k v ov = env @ guarded ov [(k, v)]"
  by (simp add: addEnv_def)

lemma add_envs_guarded: "add_envs ov kvs env = env @ guarded ov kvs"
  by (induction kvs arbitrary: env) (auto simp: add_envs_def addEnv_guarded)

lemma entries_guarded_overridden: "ov k \<noteq> None \<Longrightarrow> entries k (guarded ov kvs) = []"
  by (induction kvs) auto

lemma entries_guarded: "ov k = None \<Longrightarrow> entries k (guarded ov kvs) = map (\<lambda>(n, v). EnvValue n v) (filter (\<lambda>(n, v). n = k) kvs)"
  by (induction kvs) auto

lemma entries_plain: "entries k (plain_env kvs) = map (\<lambda>(n, v). EnvValue n v) (filter (\<lambda>(n, v). n = k) kvs)"
  by (induction kvs) (auto simp: plain_env_def)

lemma entries_absent: "k \<notin> fst ` set kvs \<Longrightarrow> entries k (guarded ov kvs) = [] \<and> entries k (plain_env kvs) = []"
  by (induction kvs) (auto simp: plain_env_def)

lemma filter_eq_distinct: "distinct xs \<Longrightarrow> filter (\<lambda>x. x = k) xs = (if k \<in> set xs then [k] else [])"
  by (induction xs) (auto simp: filter_empty_conv)

lemma entries_user:
  assumes "finite (dom ov)"
  shows "entries k (plain_env (KeySorted ov)) = (case ov k of None \<Rightarrow> [] | Some v \<Rightarrow> [EnvValue k v])"
proof -
  have "filter (\<lambda>(n, v). n = k) (KeySorted ov) = map (\<lambda>n. (n, the (ov n))) (filter (\<lambda>x. x = k) (sorted_list_of_set (dom ov)))"
    by (simp add: KeySorted_def filter_map o_def)
  then show ?thesis using filter_eq_distinct[of "sorted_list_of_set (dom ov)" k] assms by (auto simp: entries_plain split: option.splits)
qed

text \<open>The variables that are appended without a look at the user's.\<close>

definition unguarded_vars :: "string list" where
  "unguarded_vars = [''FLOW_FILTER_RULES'', ''AGENT_IP'', ''METRICS_TLS_KEY_PATH'', ''METRICS_TLS_CERT_PATH'',
     ''TLS_MIN_VERSION'', ''TLS_CIPHER_SUITES'', ''TLS_CURVE_PREFERENCES'']"

definition transport_vars :: "string list" where
  "transport_vars = [''EXPORT'', ''KAFKA_BROKERS'', ''KAFKA_TOPIC'', ''KAFKA_BATCH_SIZE'', ''KAFKA_BATCH_MESSAGES'', ''KAFKA_COMPRESSION'',
     ''KAFKA_ENABLE_TLS'', ''KAFKA_TLS_INSECURE_SKIP_VERIFY'', ''KAFKA_TLS_CA_CERT_PATH'', ''KAFKA_TLS_USER_CERT_PATH'', ''KAFKA_TLS_USER_KEY_PATH'',
     ''KAFKA_ENABLE_SASL'', ''KAFKA_SASL_TYPE'', ''KAFKA_SASL_CLIENT_ID_PATH'', ''KAFKA_SASL_CLIENT_SECRET_PATH'',
     ''TARGET_HOST'', ''TARGET_PORT'', ''TARGET_TLS_CA_CERT_PATH'', ''TARGET_TLS_USER_CERT_PATH'', ''TARGET_TLS_USER_KEY_PATH'',
     ''GRPC_RECONNECT_TIMER'', ''GRPC_RECONNECT_TIMER_RANDOMIZATION'']"

lemma kafka_env_names:
  assumes "kafka_env lib c spec st = (Inr kvs, st')"
  shows "fst ` set kvs \<subseteq> set transport_vars"
  using assms
  by (auto simp: kafka_env_def kafka_settings_def kafka_tls_env_def kafka_sasl_env_def transport_vars_def Let_def
      split: sum.splits prod.splits if_splits)

lemma service_tls_names:
  assumes "service_tls_env lib c spec st = (Inr kvs, st')"
  shows "fst ` set kvs \<subseteq> {''TARGET_TLS_CA_CERT_PATH'', ''TARGET_TLS_USER_CERT_PATH'', ''TARGET_TLS_USER_KEY_PATH''}"
  using assms by (auto simp: service_tls_env_def Let_def split: sum.splits prod.splits if_splits option.splits)

lemma entries_names: "entries k env = [] \<longleftrightarrow> k \<notin> env_name ` set env"
  by (auto simp: entries_def filter_empty_conv)

lemma entries_other: "(\<And>x. x \<in> set env \<Longrightarrow> env_name x \<noteq> k) \<Longrightarrow> entries k env = []"
  by (auto simp: entries_def filter_empty_conv)

lemma transport_env_appends:
  "transport_env lib c spec ov config st =
     (case transport_env lib c spec ov [] st of (Inl ex, st') \<Rightarrow> (Inl ex, st') | (Inr ext, st') \<Rightarrow> (Inr (config @ ext), st'))"
  by (simp add: transport_env_def add_envs_guarded addEnv_guarded Let_def del: guarded_simps split: prod.splits sum.splits)

text \<open>The three forms of the transport variables.\<close>

definition host_vars :: "('v, 'w) agent_lib \<Rightarrow> FlowCollectorSpec \<Rightarrow> string_map \<Rightarrow> EnvVar list" where
  "host_vars lib spec ov =
     guarded ov [(''EXPORT'', ''grpc'')] @ (if ov ''TARGET_HOST'' = None then [EnvFieldRef ''TARGET_HOST'' ''status.hostIP''] else [])
     @ guarded ov [(''TARGET_PORT'', target_port lib spec)]"

lemma transport_cases:
  assumes "transport_env lib c spec ov [] st = (Inr ext, st')"
  obtains (kafka) kvs where "UseKafka spec" "kafka_env lib c spec st = (Inr kvs, st')" "ext = guarded ov kvs"
  | (host) "\<not> UseKafka spec" "UseHostNetwork spec" "st' = st" "ext = host_vars lib spec ov"
  | (service) kvs where "\<not> UseKafka spec" "\<not> UseHostNetwork spec" "service_tls_env lib c spec st = (Inr kvs, st')"
      "ext = guarded ov ((''EXPORT'', ''grpc'') # kvs @ service_target lib c spec)"
proof (cases "UseKafka spec")
  case True
  obtain r st1 where "kafka_env lib c spec st = (r, st1)" by (metis prod.exhaust)
  with assms True kafka show ?thesis by (cases r) (simp_all add: transport_env_def add_envs_guarded)
next
  case k: False
  show ?thesis
  proof (cases "UseHostNetwork spec")
    case True
    with assms k host show ?thesis by (simp add: transport_env_def addEnv_guarded host_vars_def Let_def del: guarded_simps split: if_splits)
  next
    case False
    obtain r st1 where "service_tls_env lib c spec st = (r, st1)" by (metis prod.exhaust)
    with assms k False service show ?thesis by (cases r) (simp_all add: transport_env_def add_envs_guarded del: guarded_simps)
  qed
qed

lemma guarded_names:
  assumes "fst ` set kvs \<subseteq> A" and "x \<in> set (guarded ov kvs)"
  shows "env_name x \<in> A \<and> ov (env_name x) = None"
  using assms by (auto simp: guarded_def plain_env_def)

lemma transport_env_names:
  assumes "transport_env lib c spec ov [] st = (Inr ext, st')"
  shows "\<forall>x \<in> set ext. env_name x \<in> set transport_vars \<and> ov (env_name x) = None"
  using assms
proof (cases rule: transport_cases)
  case (kafka kvs)
  then show ?thesis using guarded_names[OF kafka_env_names[OF kafka(2)]] by simp
next
  case host
  then show ?thesis by (auto simp: host_vars_def transport_vars_def split: if_splits)
next
  case (service kvs)
  have "fst ` set ((''EXPORT'', ''grpc'') # kvs @ service_target lib c spec) \<subseteq> set transport_vars"
    using service_tls_names[OF service(3)] by (auto simp: service_target_def transport_vars_def)
  then show ?thesis using guarded_names service(4) by metis
qed

text \<open>The whole list of variables: the user's, those that give way to them, and the appended ones.\<close>

lemma envConfig_parts:
  fixes spec :: FlowCollectorSpec
  defines "e \<equiv> agent_EBPF (spec_Agent spec)"
  defines "ov \<equiv> aac_Env (GetAdvancedAgentConfig (ebpf_Advanced e))"
  assumes "envConfig lib c spec st = (Inr env, st')"
  obtains ext mem where
    "env = plain_env (KeySorted ov) @ guarded ov (agent_settings e) @ mem @ agent_filters e @ [EnvFieldRef ''AGENT_IP'' ''status.hostIP'']
       @ guarded ov (agent_defaults lib c e) @ ext @ plain_env (ConfigToEnvVars (inst_TLSConfig c))"
    "\<forall>x \<in> set mem. env_name x = ''GOMEMLIMIT'' \<and> ov ''GOMEMLIMIT'' = None"
    "transport_env lib c spec ov [] st = (Inr ext, st')"
proof -
  define mem where "mem = (if ov ''GOMEMLIMIT'' = None then plain_env (EnvFromReqsLimits (al_tenth lib) [] (al_memLimit lib (ebpf_Resources e))) else [])"
  define base where "base = plain_env (KeySorted ov) @ guarded ov (agent_settings e) @ mem @ agent_filters e @ [EnvFieldRef ''AGENT_IP'' ''status.hostIP'']
    @ guarded ov (agent_defaults lib c e)"
  have tls: "AppendTLSEnvVars [] t = ConfigToEnvVars t" for t by (simp add: AppendTLSEnvVars_def ConfigToEnvVars_def split: option.splits)
  have eq: "envConfig lib c spec st =
      (case transport_env lib c spec ov base st of (Inl ex, st') \<Rightarrow> (Inl ex, st')
       | (Inr config, st') \<Rightarrow> (Inr (config @ plain_env (AppendTLSEnvVars [] (inst_TLSConfig c))), st'))"
    by (simp add: envConfig_def Let_def base_def mem_def add_envs_guarded flip: e_def ov_def del: guarded_simps)
  obtain r st1 where r: "transport_env lib c spec ov [] st = (r, st1)" by (metis prod.exhaust)
  with assms(3) obtain ext where "r = Inr ext" "st1 = st'" "env = base @ ext @ plain_env (ConfigToEnvVars (inst_TLSConfig c))"
    by (cases r) (simp_all add: eq tls transport_env_appends[of lib c spec ov base st])
  moreover have "\<forall>x \<in> set mem. env_name x = ''GOMEMLIMIT'' \<and> ov ''GOMEMLIMIT'' = None"
    by (auto simp: mem_def EnvFromReqsLimits_def plain_env_def split: option.splits if_splits)
  ultimately show ?thesis using that[of mem ext] r by (simp add: base_def)
qed

abbreviation user_env :: "FlowCollectorEBPF \<Rightarrow> string_map" where
  "user_env e \<equiv> aac_Env (GetAdvancedAgentConfig (ebpf_Advanced e))"

lemma desired_agent_parts:
  fixes spec :: FlowCollectorSpec
  defines "e \<equiv> agent_EBPF (spec_Agent spec)"
  assumes "desired_agent lib c spec vols w = (Inr ds, vols', w')"
  obtains env ann vols1 where "envConfig lib c spec (agent_annotations c, vols, w) = (Inr env, (ann, vols1, w'))"
    and "ads_Env ds = env @ fst (agent_metrics_env e vols1)" "vols' = snd (agent_metrics_env e vols1)"
    and "ads_PodAnnotations ds = ann" "ads_SecurityContext ds = securityContext e"
    and "ads_ServiceAccountName ds = EBPFServiceAccount" "ads_HostNetwork ds" "om_Namespace (ads_Meta ds) = PrivilegedNamespace c"
    and "(ads_VolumeMounts ds, ads_Volumes ds) = buildVolumes e (inst_Vendor c) vols' (user_env e)"
proof -
  obtain r ann vols1 w1 where r: "envConfig lib c spec (agent_annotations c, vols, w) = (r, (ann, vols1, w1))" by (metis prod.exhaust)
  obtain menv vols2 where m: "agent_metrics_env e vols1 = (menv, vols2)" by (metis prod.exhaust)
  obtain mounts volumes where v: "buildVolumes e (inst_Vendor c) vols2 (user_env e) = (mounts, volumes)" by (metis prod.exhaust)
  show ?thesis
  proof (cases r)
    case (Inl ex)
    then show ?thesis using assms(2) by (simp add: desired_agent_def Let_def r)
  next
    case (Inr env)
    show ?thesis
      by (rule that[of env ann vols1]; insert assms(2) v, simp add: desired_agent_def Let_def r Inr m v new_meta_def flip: e_def, (elim conjE)?, hypsubst?, simp?)
  qed
qed

lemma entries_filters: "k \<noteq> ''FLOW_FILTER_RULES'' \<Longrightarrow> entries k (agent_filters e) = []"
  by (simp add: agent_filters_def configureFlowFiltersRules_def configureFlowFilter_def split: option.split)

lemma entries_metrics: "k \<noteq> ''METRICS_TLS_KEY_PATH'' \<Longrightarrow> k \<noteq> ''METRICS_TLS_CERT_PATH'' \<Longrightarrow> entries k (fst (agent_metrics_env e v)) = []"
  by (simp add: agent_metrics_env_def case_prod_beta)

lemma entries_tls:
  "k \<noteq> ''TLS_MIN_VERSION'' \<Longrightarrow> k \<noteq> ''TLS_CIPHER_SUITES'' \<Longrightarrow> k \<noteq> ''TLS_CURVE_PREFERENCES'' \<Longrightarrow> entries k (plain_env (ConfigToEnvVars t)) = []"
  by (simp add: ConfigToEnvVars_def entries_plain split: option.split)

text \<open>A variable that is not one of the appended ones comes from the user or from the settings.\<close>

lemma agent_entries:
  fixes spec :: FlowCollectorSpec
  defines "e \<equiv> agent_EBPF (spec_Agent spec)"
  defines "ov \<equiv> aac_Env (GetAdvancedAgentConfig (ebpf_Advanced e))"
  assumes "desired_agent lib c spec vols w = (Inr ds, vols', w')" and "finite (dom ov)" and "k \<notin> set unguarded_vars"
  obtains ext st where "transport_env lib c spec ov [] (agent_annotations c, vols, w) = (Inr ext, st)"
    "k \<noteq> ''GOMEMLIMIT'' \<or> ov k \<noteq> None \<Longrightarrow>
     entries k (ads_Env ds) = (case ov k of Some v \<Rightarrow> [EnvValue k v]
       | None \<Rightarrow> entries k (guarded ov (agent_settings e)) @ entries k (guarded ov (agent_defaults lib c e)) @ entries k ext)"
proof -
  obtain env ann vols1 where env: "envConfig lib c spec (agent_annotations c, vols, w) = (Inr env, (ann, vols1, w'))"
    and ds: "ads_Env ds = env @ fst (agent_metrics_env e vols1)"
    using desired_agent_parts[OF assms(3)] unfolding e_def by metis
  obtain ext mem where parts: "env = plain_env (KeySorted ov) @ guarded ov (agent_settings e) @ mem @ agent_filters e @ [EnvFieldRef ''AGENT_IP'' ''status.hostIP'']
       @ guarded ov (agent_defaults lib c e) @ ext @ plain_env (ConfigToEnvVars (inst_TLSConfig c))"
    and mem: "\<forall>x \<in> set mem. env_name x = ''GOMEMLIMIT'' \<and> ov ''GOMEMLIMIT'' = None"
    and ext: "transport_env lib c spec ov [] (agent_annotations c, vols, w) = (Inr ext, (ann, vols1, w'))"
    using envConfig_parts[OF env] unfolding ov_def e_def by metis
  have none: "entries k (agent_filters e) = []" "entries k [EnvFieldRef ''AGENT_IP'' ''status.hostIP''] = []"
    "entries k (fst (agent_metrics_env e vols1)) = []" "entries k (plain_env (ConfigToEnvVars (inst_TLSConfig c))) = []"
    using assms(5) not_sym[of k "''AGENT_IP''"] by (simp_all add: unguarded_vars_def entries_filters entries_metrics entries_tls)
  have "entries k (ads_Env ds) = (case ov k of Some v \<Rightarrow> [EnvValue k v]
       | None \<Rightarrow> entries k (guarded ov (agent_settings e)) @ entries k (guarded ov (agent_defaults lib c e)) @ entries k ext)"
    if "k \<noteq> ''GOMEMLIMIT'' \<or> ov k \<noteq> None"
  proof -
    have "x \<in> set mem \<Longrightarrow> env_name x \<noteq> k" for x using that mem by (cases "k = ''GOMEMLIMIT''") auto
    then have "entries k mem = []" unfolding entries_names by blast
    moreover have "entries k ext = []" if "ov k \<noteq> None" using transport_env_names[OF ext] that by (auto simp: entries_names)
    ultimately show ?thesis using none entries_user[OF assms(4), of k]
      by (cases "ov k") (simp_all add: ds parts entries_guarded_overridden split: if_splits)
  qed
  then show ?thesis using that ext by blast
qed

section \<open>The settings are in force\<close>

text \<open>The variable that turns each capture feature on.\<close>

definition feature_vars :: "((FlowCollectorEBPF \<Rightarrow> bool) \<times> string) list" where
  "feature_vars = [(IsFlowRTTEnabled, ''ENABLE_RTT''), (IsNetworkEventsEnabled, ''ENABLE_NETWORK_EVENTS_MONITORING''),
     (IsUDNMappingEnabled, ''ENABLE_UDN_MAPPING''), (IsPacketTranslationEnabled, ''ENABLE_PKT_TRANSLATION''),
     (IsEbpfManagerEnabled, ''EBPF_PROGRAM_MANAGER_MODE''), (IsPktDropEnabled, ''ENABLE_PKT_DROPS''),
     (IsDNSTrackingEnabled, ''ENABLE_DNS_TRACKING''), (IsIPSecEnabled, ''ENABLE_IPSEC_TRACKING''),
     (IsTLSTrackingEnabled, ''ENABLE_TLS_TRACKING''), (IsSecondaryNetworksEnabled, ''ENABLE_SECONDARY_NETWORKS'')]"

lemma filter_enable: "filter (\<lambda>(n, v). n = k) (enable b n) = (if b \<and> n = k then [(k, ''true'')] else [])"
  by (simp add: enable_def)

lemma feature_setting:
  assumes "(f, k) \<in> set feature_vars" and "ov k = None"
  shows "entries k (guarded ov (agent_settings e)) = (if f e then [EnvValue k ''true''] else [])"
proof -
  have "filter (\<lambda>(n, v). n = k) (agent_settings e) = (if f e then [(k, ''true'')] else [])"
    using assms(1) unfolding feature_vars_def list.set insert_iff prod.inject empty_iff
    by (elim disjE conjE FalseE; hypsubst; simp add: agent_settings_def filter_enable split: option.split)
  then show ?thesis using entries_guarded[of ov k, OF assms(2)] by simp
qed

text \<open>
  C8: the environment of the agents says what the resource says. A variable that the user sets among the advanced
  settings is there once, with the user's value, whatever else the operator configures, apart from seven variables
  that are always appended. A variable that turns a capture feature on, and that the user leaves alone, is there
  once with value true when the feature is enabled and is absent otherwise.
\<close>

theorem agent_env_effective:
  fixes spec :: FlowCollectorSpec
  defines "e \<equiv> agent_EBPF (spec_Agent spec)"
  assumes "desired_agent lib c spec vols w = (Inr ds, vols', w')" and "finite (dom (user_env e))"
  shows "(\<forall>k v. k \<notin> set unguarded_vars \<and> user_env e k = Some v \<longrightarrow> entries k (ads_Env ds) = [EnvValue k v])
    \<and> (\<forall>(f, k) \<in> set feature_vars. user_env e k = None \<longrightarrow> entries k (ads_Env ds) = (if f e then [EnvValue k ''true''] else []))"
proof (intro conjI allI impI)
  fix k v assume "k \<notin> set unguarded_vars \<and> user_env e k = Some v"
  then show "entries k (ads_Env ds) = [EnvValue k v]"
    using agent_entries[OF assms(2), of k] assms(3) unfolding e_def by (metis option.distinct(1) option.simps(5))
next
  show "\<forall>(f, k) \<in> set feature_vars. user_env e k = None \<longrightarrow> entries k (ads_Env ds) = (if f e then [EnvValue k ''true''] else [])"
  proof (intro ballI, clarify)
    fix f k assume f: "(f, k) \<in> set feature_vars" and n: "user_env e k = None"
    have k: "k \<notin> set unguarded_vars" "k \<noteq> ''GOMEMLIMIT''" "k \<notin> set transport_vars" "k \<notin> fst ` set (agent_defaults lib c e)"
      using f unfolding feature_vars_def list.set insert_iff prod.inject empty_iff
      by (elim disjE conjE FalseE; hypsubst; simp add: unguarded_vars_def transport_vars_def agent_defaults_def)+
    obtain ext st where "transport_env lib c spec (user_env e) [] (agent_annotations c, vols, w) = (Inr ext, st)"
      "entries k (ads_Env ds) = entries k (guarded (user_env e) (agent_settings e)) @ entries k (guarded (user_env e) (agent_defaults lib c e)) @ entries k ext"
      using agent_entries[OF assms(2), of k] assms(3) k n unfolding e_def by (metis option.simps(4))
    moreover have "entries k ext = []" using transport_env_names k(3) calculation(1) by (fastforce simp: entries_names)
    moreover have "entries k (guarded (user_env e) (agent_defaults lib c e)) = []" using entries_absent[OF k(4)] by blast
    ultimately show "entries k (ads_Env ds) = (if f e then [EnvValue k ''true''] else [])" using feature_setting[of f k, OF f, of "user_env e", OF n] by simp
  qed
qed

text \<open>A resource with a trace level of the user's and round-trip times, in the Direct model.\<close>

definition demo_agent_lib :: "(unit, Watchable \<Rightarrow> watch_body store) agent_lib" where
  "demo_agent_lib = \<lparr>al_defaults = sample_defaults, al_tenth = (\<lambda>n. n div 10), al_memLimit = (\<lambda>_. None),
     al_semver = \<lparr>sv_NewVersion = (\<lambda>_. Inl []), sv_dropPreRelease = (\<lambda>v. v), sv_LessThan = (\<lambda>_ _. False), sv_String = (\<lambda>_. [])\<rparr>,
     al_watch = store_env id, al_watcher = NewWatcher ''netobserv''\<rparr>"

definition demo_agent_spec :: FlowCollectorSpec where
  "demo_agent_spec = zero_spec\<lparr>spec_DeploymentModel := DeploymentModelDirect,
     spec_Agent := zero_agent\<lparr>agent_EBPF := zero_ebpf\<lparr>ebpf_Features := [FlowRTT], ebpf_LogLevel := ''info'',
       ebpf_Advanced := Some \<lparr>aac_Env = [''LOG_LEVEL'' \<mapsto> ''trace''], aac_Scheduling = None, aac_CapOverride = []\<rparr>\<rparr>\<rparr>\<rparr>"

lemma demo_agent_runs: "\<exists>ds vols'. desired_agent demo_agent_lib demo_info demo_agent_spec [] (\<lambda>_. Map.empty) = (Inr ds, vols', \<lambda>_. Map.empty)"
  by (simp add: desired_agent_def envConfig_def transport_env_def demo_agent_spec_def UseKafka_def UseHostNetwork_def Let_def case_prod_beta)

lemma demo_agent_sel [simp]:
  "ebpf_Features (agent_EBPF (spec_Agent demo_agent_spec)) = [FlowRTT]" "\<not> ebpf_Privileged (agent_EBPF (spec_Agent demo_agent_spec))"
  by (simp_all add: demo_agent_spec_def zero_ebpf_def)

lemma demo_user_env: "user_env (agent_EBPF (spec_Agent demo_agent_spec)) = [''LOG_LEVEL'' \<mapsto> ''trace'']"
  by (simp add: demo_agent_spec_def GetAdvancedAgentConfig_def override_env_def)

theorem agent_env_effective_witness:
  "\<exists>ds vols'. desired_agent demo_agent_lib demo_info demo_agent_spec [] (\<lambda>_. Map.empty) = (Inr ds, vols', \<lambda>_. Map.empty)
     \<and> entries ''LOG_LEVEL'' (ads_Env ds) = [EnvValue ''LOG_LEVEL'' ''trace''] \<and> entries ''ENABLE_RTT'' (ads_Env ds) = [EnvValue ''ENABLE_RTT'' ''true'']
     \<and> entries ''ENABLE_PKT_DROPS'' (ads_Env ds) = []"
proof -
  obtain ds vols' where ds: "desired_agent demo_agent_lib demo_info demo_agent_spec [] (\<lambda>_. Map.empty) = (Inr ds, vols', \<lambda>_. Map.empty)"
    using demo_agent_runs by blast
  from agent_env_effective[OF ds] show ?thesis using ds
    by (simp add: demo_user_env feature_vars_def unguarded_vars_def feature_defs IsAgentFeatureEnabled_iff)
qed

section \<open>Ports of the flow filters\<close>

lemma valid_port_shape:
  assumes "valid_port a m"
  shows "CHR ''-'' \<notin> set a" "CHR '','' \<notin> set a"
  using valid_port_seps[OF assms] by auto

text \<open>
  The ports of a filter that the webhook accepts reach the agent in the one field for their form: a number, the
  text of a range, or the text of a couple.
\<close>

lemma accepted_ports_translated:
  assumes "validateFilterPortConfig p = None" and "\<not> (ios_Type p = StringKind \<and> (\<exists>n. valid_port (ios_StrVal p) n))"
  shows "(ios_Type p = IntKind \<and> processPorts p = (ios_IntVal p, [], []))
    \<or> (\<exists>a b m n. ios_StrVal p = a @ ''-'' @ b \<and> valid_port a m \<and> valid_port b n \<and> m < n \<and> processPorts p = (0, [], ios_StrVal p))
    \<or> (\<exists>a b m n. ios_StrVal p = a @ '','' @ b \<and> valid_port a m \<and> valid_port b n \<and> processPorts p = (0, ios_StrVal p, []))"
proof (cases "ios_Type p")
  case IntKind
  then show ?thesis by (simp add: processPorts_def)
next
  case StringKind
  then have str: "intstr_String p = ios_StrVal p" by (simp add: intstr_String_def)
  from StringKind assms consider (range) a b m n where "ios_StrVal p = a @ ''-'' @ b" "valid_port a m" "valid_port b n" "m < n"
    | (couple) a b m n where "ios_StrVal p = a @ '','' @ b" "valid_port a m" "valid_port b n"
    unfolding port_config_iff valid_port_config_def by auto
  then show ?thesis
  proof cases
    case range
    moreover have "processPorts p = (0, [], ios_StrVal p)"
      using StringKind range(1) valid_port_shape[OF range(2)] valid_port_shape[OF range(3)] by (simp add: processPorts_def str)
    ultimately show ?thesis by blast
  next
    case couple
    moreover have "processPorts p = (0, ios_StrVal p, [])"
      using StringKind couple(1) valid_port_shape[OF couple(2)] valid_port_shape[OF couple(3)] by (simp add: processPorts_def str)
    ultimately show ?thesis by blast
  qed
qed

text \<open>
  A single port that is written as a string is accepted by the webhook, and sets none of the three fields: the
  filter of the agent then has no condition on that port.
\<close>

theorem single_string_port_dropped:
  assumes "ios_Type p = StringKind" and "valid_port (ios_StrVal p) n"
  shows "validateFilterPortConfig p = None \<and> processPorts p = (0, [], [])"
  using assms valid_port_shape[OF assms(2)] by (auto simp: port_config_iff valid_port_config_def processPorts_def intstr_String_def)

text \<open>
  An address of the agent among the user's variables is followed by the address of the host under the same name,
  which is the one that Kubernetes uses.
\<close>

theorem agent_ip_override_lost:
  fixes spec :: FlowCollectorSpec
  assumes "envConfig lib c spec st = (Inr env, st')" and "finite (dom (user_env (agent_EBPF (spec_Agent spec))))"
    and "user_env (agent_EBPF (spec_Agent spec)) ''AGENT_IP'' = Some v"
  shows "entries ''AGENT_IP'' env = [EnvValue ''AGENT_IP'' v, EnvFieldRef ''AGENT_IP'' ''status.hostIP'']"
proof -
  let ?e = "agent_EBPF (spec_Agent spec)" and ?ov = "user_env (agent_EBPF (spec_Agent spec))"
  obtain ext mem where parts: "env = plain_env (KeySorted ?ov) @ guarded ?ov (agent_settings ?e) @ mem @ agent_filters ?e @ [EnvFieldRef ''AGENT_IP'' ''status.hostIP'']
       @ guarded ?ov (agent_defaults lib c ?e) @ ext @ plain_env (ConfigToEnvVars (inst_TLSConfig c))"
    and mem: "\<forall>x \<in> set mem. env_name x = ''GOMEMLIMIT'' \<and> ?ov ''GOMEMLIMIT'' = None"
    and ext: "transport_env lib c spec ?ov [] st = (Inr ext, st')"
    using envConfig_parts[OF assms(1)] by metis
  have "env_name x \<noteq> ''AGENT_IP''" if "x \<in> set ext" for x using bspec[OF transport_env_names[OF ext] that] assms(3) by (cases "env_name x = ''AGENT_IP''") simp_all
  then have "entries ''AGENT_IP'' ext = []" by (rule entries_other)
  moreover have "env_name x \<noteq> ''AGENT_IP''" if "x \<in> set mem" for x using bspec[OF mem that] by simp
  then have "entries ''AGENT_IP'' mem = []" by (rule entries_other)
  ultimately show ?thesis using entries_user[OF assms(2), of "''AGENT_IP''"] assms(3)
    by (simp add: parts entries_guarded_overridden entries_filters entries_tls)
qed

end
