(* ===== verification/Agent_Transport.thy ===== *)
theory Agent_Transport
  imports Agent_Correct
begin

text \<open>
  The two ends of the transport of flows: what the agents are told (\<open>Agent\<close>) and where flowlogs-pipeline listens
  (\<open>FLP_Objects\<close>) fit together.
\<close>

definition setting_vars :: "string list" where
  "setting_vars = [''CACHE_ACTIVE_TIMEOUT'', ''CACHE_MAX_FLOWS'', ''LOG_LEVEL'', ''INTERFACES'', ''EXCLUDE_INTERFACES'', ''SAMPLING'',
     ''METRICS_ENABLE'', ''METRICS_SERVER_PORT'', ''METRICS_PREFIX''] @ map snd feature_vars"

lemma settings_names: "fst ` set (agent_settings e) \<subseteq> set setting_vars"
  unfolding agent_settings_def set_append image_Un Un_subset_iff enable_def
  by (intro conjI; force simp: setting_vars_def feature_vars_def split: if_splits option.splits)

lemma transport_vars_apart:
  "k \<in> set transport_vars \<Longrightarrow> k \<notin> set unguarded_vars \<and> k \<noteq> ''GOMEMLIMIT'' \<and> k \<notin> fst ` set (agent_defaults lib c e) \<and> k \<notin> set setting_vars"
  unfolding transport_vars_def list.set insert_iff empty_iff
  by (elim disjE FalseE; hypsubst; simp add: unguarded_vars_def agent_defaults_def setting_vars_def feature_vars_def)

lemma transport_entries:
  fixes spec :: FlowCollectorSpec
  defines "e \<equiv> agent_EBPF (spec_Agent spec)"
  assumes "desired_agent lib c spec vols w = (Inr ds, vols', w')" and "finite (dom (user_env e))"
    and "\<forall>k \<in> set transport_vars. user_env e k = None"
  obtains ext st where "transport_env lib c spec (user_env e) [] (agent_annotations c, vols, w) = (Inr ext, st)"
    "\<And>k. k \<in> set transport_vars \<Longrightarrow> entries k (ads_Env ds) = entries k ext"
proof -
  obtain ext st where ext: "transport_env lib c spec (user_env e) [] (agent_annotations c, vols, w) = (Inr ext, st)"
    using agent_entries[OF assms(2), of "''EXPORT''"] assms(3) unfolding e_def by (simp add: unguarded_vars_def) metis
  have "entries k (ads_Env ds) = entries k ext" if k: "k \<in> set transport_vars" for k
  proof -
    have n: "k \<notin> set unguarded_vars" "k \<noteq> ''GOMEMLIMIT''" "k \<notin> fst ` set (agent_defaults lib c e)" "k \<notin> fst ` set (agent_settings e)"
      using transport_vars_apart[OF k] settings_names[of e] by blast+
    obtain ext' st' where "transport_env lib c spec (user_env e) [] (agent_annotations c, vols, w) = (Inr ext', st')"
      "entries k (ads_Env ds) = entries k (guarded (user_env e) (agent_settings e)) @ entries k (guarded (user_env e) (agent_defaults lib c e)) @ entries k ext'"
      using agent_entries[OF assms(2), of k] assms(3,4) k n unfolding e_def by (metis option.simps(4))
    then show ?thesis using entries_absent[OF n(3)] entries_absent[OF n(4)] ext by simp
  qed
  then show ?thesis using that ext by blast
qed

section \<open>The variables of each transport\<close>

text \<open>Without overrides the guarded list is the list itself.\<close>

lemma guarded_free: "fst ` set kvs \<subseteq> A \<Longrightarrow> \<forall>k \<in> A. ov k = None \<Longrightarrow> guarded ov kvs = plain_env kvs"
  by (induction kvs) (auto simp: plain_env_def)

lemma plain_env_simps [simp]:
  "plain_env [] = []" "plain_env ((k, v) # kvs) = EnvValue k v # plain_env kvs" "plain_env (kvs @ kvs') = plain_env kvs @ plain_env kvs'"
  by (simp_all add: plain_env_def)

lemma no_entries: "entries k (plain_env kvs) = [] \<longleftrightarrow> k \<notin> set (map fst kvs)"
  by (induction kvs) (auto split: if_splits)

definition has_entry :: "string \<Rightarrow> EnvVar list \<Rightarrow> bool" where
  "has_entry k env = (entries k env \<noteq> [])"

lemma kafka_variables:
  assumes "kafka_env lib c spec st = (Inr kvs, st')"
  shows "entries ''EXPORT'' (plain_env kvs) = [EnvValue ''EXPORT'' ''kafka'']"
    and "entries ''KAFKA_BROKERS'' (plain_env kvs) = [EnvValue ''KAFKA_BROKERS'' (kafka_Address (spec_Kafka spec))]"
    and "entries ''KAFKA_TOPIC'' (plain_env kvs) = [EnvValue ''KAFKA_TOPIC'' (kafka_Topic (spec_Kafka spec))]"
    and "has_entry ''KAFKA_ENABLE_TLS'' (plain_env kvs) \<longleftrightarrow> ctls_Enable (kafka_TLS (spec_Kafka spec))"
    and "has_entry ''KAFKA_ENABLE_SASL'' (plain_env kvs) \<longleftrightarrow> UseSASL (kafka_SASL (spec_Kafka spec))"
proof -
  obtain r1 st1 where t: "kafka_tls_env lib c (spec_Kafka spec) st = (r1, st1)" by (metis prod.exhaust)
  obtain r2 st2 where u: "kafka_sasl_env lib c (spec_Kafka spec) st1 = (r2, st2)" by (metis prod.exhaust)
  from assms t u obtain t' u' where r: "r1 = Inr t'" "r2 = Inr u'" and kvs: "kvs = kafka_settings spec @ t' @ u'"
    by (cases r1; cases r2) (simp_all add: kafka_env_def)
  have t': "map fst t' = (if ctls_Enable (kafka_TLS (spec_Kafka spec)) then [''KAFKA_ENABLE_TLS'', ''KAFKA_TLS_INSECURE_SKIP_VERIFY'',
      ''KAFKA_TLS_CA_CERT_PATH'', ''KAFKA_TLS_USER_CERT_PATH'', ''KAFKA_TLS_USER_KEY_PATH''] else [])"
    using t r(1) by (auto simp: kafka_tls_env_def split: prod.splits sum.splits if_splits)
  have u': "map fst u' = (if UseSASL (kafka_SASL (spec_Kafka spec)) then [''KAFKA_ENABLE_SASL'', ''KAFKA_SASL_TYPE'',
      ''KAFKA_SASL_CLIENT_ID_PATH'', ''KAFKA_SASL_CLIENT_SECRET_PATH''] else [])"
    using u r(2) by (auto simp: kafka_sasl_env_def Let_def split: prod.splits sum.splits if_splits)
  have p1: "entries k (plain_env t') = []" if "k \<notin> set (map fst t')" for k using that no_entries by blast
  have p2: "entries k (plain_env u') = []" if "k \<notin> set (map fst u')" for k using that no_entries by blast
  show "entries ''EXPORT'' (plain_env kvs) = [EnvValue ''EXPORT'' ''kafka'']"
    "entries ''KAFKA_BROKERS'' (plain_env kvs) = [EnvValue ''KAFKA_BROKERS'' (kafka_Address (spec_Kafka spec))]"
    "entries ''KAFKA_TOPIC'' (plain_env kvs) = [EnvValue ''KAFKA_TOPIC'' (kafka_Topic (spec_Kafka spec))]"
    using p1 p2 unfolding t' u' by (simp_all add: kvs kafka_settings_def Let_def)
  show "has_entry ''KAFKA_ENABLE_TLS'' (plain_env kvs) \<longleftrightarrow> ctls_Enable (kafka_TLS (spec_Kafka spec))"
    "has_entry ''KAFKA_ENABLE_SASL'' (plain_env kvs) \<longleftrightarrow> UseSASL (kafka_SASL (spec_Kafka spec))"
    unfolding has_entry_def no_entries kvs map_append t' u' by (simp_all add: kafka_settings_def Let_def)
qed

lemma service_variables:
  assumes "service_tls_env lib c spec st = (Inr kvs, st')"
  defines "client \<equiv> GetServiceClientTLSConfig (flp_Service (spec_Processor spec)) ''ebpf-agent-cert'' (IsOpenShift (inst_ClusterInfo c))"
  shows "map fst kvs = (if fst client = None then [] else ''TARGET_TLS_CA_CERT_PATH'' #
    (if snd client = None then [] else [''TARGET_TLS_USER_CERT_PATH'', ''TARGET_TLS_USER_KEY_PATH'']))"
  using assms(1) unfolding client_def by (auto simp: service_tls_env_def Let_def split: prod.splits sum.splits if_splits option.splits)

section \<open>Both ends\<close>

text \<open>A provided server certificate has a name.\<close>

definition named_server_cert :: "FlowCollectorSpec \<Rightarrow> bool" where
  "named_server_cert spec =
     (case flp_Service (spec_Processor spec) of None \<Rightarrow> True
      | Some d \<Rightarrow> (case svc_ProvidedCertificates d of None \<Rightarrow> True
         | Some p \<Rightarrow> (case cstls_ServerCert p of None \<Rightarrow> True | Some s \<Rightarrow> cref_Name s \<noteq> [])))"

lemma server_cert_named:
  assumes "named_server_cert spec" and "GetServiceServerTLSConfig (flp_Service (spec_Processor spec)) monoCertSecretName os = (Some cert, ca)"
  shows "cref_Name cert \<noteq> []"
  using assms by (auto simp: named_server_cert_def GetServiceServerTLSConfig_def DefaultCertificateReference_def monoCertSecretName_def not_auto_def Let_def
      split: option.splits if_splits)

lemma AddVolume_path: "fst (AddVolume f n v) \<noteq> []"
  by (simp add: AddVolume_def rooted_join_def)

text \<open>The ingest stage that the monolith starts with.\<close>

definition ingest_grpc :: "crd_defaults \<Rightarrow> FlowCollectorSpec \<Rightarrow> bool \<Rightarrow> 'f pstate \<Rightarrow> 'f stage_params" where
  "ingest_grpc D spec os s = sp_Params (hd (pl_config (ps_pipeline (snd (newGRPCPipeline D spec os s)))))"

definition ingest_kafka :: "FlowCollectorSpec \<Rightarrow> 'f pstate \<Rightarrow> 'f stage_params" where
  "ingest_kafka spec s = sp_Params (hd (pl_config (ps_pipeline (snd (newKafkaPipeline spec s)))))"

lemma ingest_grpc_ends:
  assumes "named_server_cert spec"
  obtains g where "ingest_grpc D spec os s = PGRPC g" "ig_Port g = the (apc_Port (GetAdvancedProcessorConfig D spec))"
    "ig_CertPath g \<noteq> [] \<longleftrightarrow> spec_DeploymentModel spec = DeploymentModelService
       \<and> fst (GetServiceServerTLSConfig (flp_Service (spec_Processor spec)) monoCertSecretName os) \<noteq> None"
    "ig_ClientCAPath g \<noteq> [] \<longleftrightarrow> spec_DeploymentModel spec = DeploymentModelService
       \<and> fst (GetServiceServerTLSConfig (flp_Service (spec_Processor spec)) monoCertSecretName os) \<noteq> None
       \<and> snd (GetServiceServerTLSConfig (flp_Service (spec_Processor spec)) monoCertSecretName os) \<noteq> None"
proof -
  obtain cert ca where c: "GetServiceServerTLSConfig (flp_Service (spec_Processor spec)) monoCertSecretName os = (cert, ca)" by fastforce
  show ?thesis
  proof (cases "spec_DeploymentModel spec = DeploymentModelService \<and> cert \<noteq> None")
    case False
    then show ?thesis using that c by (auto simp: ingest_grpc_def newGRPCPipeline_def new_pipeline_def Let_def split: option.splits)
  next
    case True
    then obtain sc where sc: "cert = Some sc" "cref_Name sc \<noteq> []" using server_cert_named[OF assms] c by blast
    show ?thesis using that c sc True
      by (cases ca) (simp_all add: ingest_grpc_def newGRPCPipeline_def new_pipeline_def Let_def AddCertificate_def AddVolume_def rooted_join_def)
  qed
qed

lemma accepted_ends:
  assumes "v_errors (Validate env spec) = []" and "spec_DeploymentModel spec = DeploymentModelService"
    and "map_option svc_TLSType (flp_Service (spec_Processor spec)) \<noteq> Some TLSTypeUnset"
  shows "tls_ends_agree (GetServiceClientTLSConfig (flp_Service (spec_Processor spec)) n os) (GetServiceServerTLSConfig (flp_Service (spec_Processor spec)) n' os)"
proof -
  have "complete_certs d"
    if "flp_Service (spec_Processor spec) = Some d" "svc_TLSType d = TLSProvided \<or> svc_TLSType d = TLSTypeUnset" for d
    using that assms webhook_complete_certs[OF assms(1,2) that(1)] by auto
  then show ?thesis using ends_agree by blast
qed

lemma client_cert_needs_ca:
  assumes "tls_ends_agree client server" "snd client \<noteq> None"
  shows "fst client \<noteq> None"
  using assms by (auto simp: tls_ends_agree_def)

text \<open>What the agents are told, for each model; \<open>a\<close> and \<open>p\<close> are the variables and the ingest stage.\<close>

definition kafka_ends :: "EnvVar list \<Rightarrow> 'f stage_params \<Rightarrow> bool" where
  "kafka_ends a p = (\<exists>k. p = PKafkaIngest k \<and> entries ''EXPORT'' a = [EnvValue ''EXPORT'' ''kafka'']
     \<and> (\<exists>broker. ik_Brokers k = [broker] \<and> entries ''KAFKA_BROKERS'' a = [EnvValue ''KAFKA_BROKERS'' broker])
     \<and> entries ''KAFKA_TOPIC'' a = [EnvValue ''KAFKA_TOPIC'' (ik_Topic k)]
     \<and> (has_entry ''KAFKA_ENABLE_TLS'' a \<longleftrightarrow> ik_TLS k \<noteq> None) \<and> (has_entry ''KAFKA_ENABLE_SASL'' a \<longleftrightarrow> ik_SASL k \<noteq> None))"

definition direct_ends :: "EnvVar list \<Rightarrow> 'f stage_params \<Rightarrow> ContainerPort list \<Rightarrow> bool" where
  "direct_ends a p ports = (\<exists>g. p = PGRPC g \<and> entries ''EXPORT'' a = [EnvValue ''EXPORT'' ''grpc'']
     \<and> entries ''TARGET_HOST'' a = [EnvFieldRef ''TARGET_HOST'' ''status.hostIP'']
     \<and> entries ''TARGET_PORT'' a = [EnvValue ''TARGET_PORT'' (itoa (ig_Port g))]
     \<and> (\<exists>q \<in> set ports. port_HostPort q = ig_Port g \<and> port_ContainerPort q = ig_Port g)
     \<and> \<not> has_entry ''TARGET_TLS_CA_CERT_PATH'' a \<and> ig_CertPath g = [])"

definition service_ends :: "EnvVar list \<Rightarrow> 'f stage_params \<Rightarrow> Service \<Rightarrow> ContainerPort list \<Rightarrow> bool" where
  "service_ends a p s ports = (\<exists>g. p = PGRPC g \<and> entries ''EXPORT'' a = [EnvValue ''EXPORT'' ''grpc'']
     \<and> entries ''TARGET_HOST'' a = [EnvValue ''TARGET_HOST'' (om_Name (serv_Meta s) @ ''.'' @ om_Namespace (serv_Meta s) @ ''.svc.cluster.local.'')]
     \<and> entries ''TARGET_PORT'' a = [EnvValue ''TARGET_PORT'' (itoa (ig_Port g))]
     \<and> (\<exists>q \<in> set (serv_Ports s). sport_Port q = ig_Port g \<and> sport_TargetPort q = ig_Port g)
     \<and> (\<exists>q \<in> set ports. port_ContainerPort q = ig_Port g)
     \<and> (has_entry ''TARGET_TLS_CA_CERT_PATH'' a \<longleftrightarrow> ig_CertPath g \<noteq> [])
     \<and> (has_entry ''TARGET_TLS_USER_CERT_PATH'' a \<longleftrightarrow> ig_ClientCAPath g \<noteq> []))"

lemma transport_vars_members:
  "''EXPORT'' \<in> set transport_vars" "''KAFKA_BROKERS'' \<in> set transport_vars" "''KAFKA_TOPIC'' \<in> set transport_vars"
  "''KAFKA_ENABLE_TLS'' \<in> set transport_vars" "''KAFKA_ENABLE_SASL'' \<in> set transport_vars" "''TARGET_HOST'' \<in> set transport_vars"
  "''TARGET_PORT'' \<in> set transport_vars" "''TARGET_TLS_CA_CERT_PATH'' \<in> set transport_vars" "''TARGET_TLS_USER_CERT_PATH'' \<in> set transport_vars"
  by (simp_all add: transport_vars_def)

lemma kafka_ends_cong:
  assumes "\<And>k. k \<in> set transport_vars \<Longrightarrow> entries k a = entries k a'"
  shows "kafka_ends a p = kafka_ends a' p" "direct_ends a p ports = direct_ends a' p ports" "service_ends a p s ports = service_ends a' p s ports"
  by (simp_all add: kafka_ends_def direct_ends_def service_ends_def has_entry_def assms transport_vars_members)

lemma kafka_reach:
  assumes "kafka_env lib c spec st = (Inr kvs, st')"
  shows "kafka_ends (plain_env kvs) (ingest_kafka spec s)"
proof -
  obtain t v1 where t: "getClientTLS (kafka_TLS (spec_Kafka spec)) ''kafka-cert'' (ps_volumes s) = (t, v1)" by fastforce
  obtain sasl v2 where sasl: "getSASL (kafka_SASL (spec_Kafka spec)) ''kafka-ingest'' v1 = (sasl, v2)" by fastforce
  have "t \<noteq> None \<longleftrightarrow> ctls_Enable (kafka_TLS (spec_Kafka spec))" "sasl \<noteq> None \<longleftrightarrow> UseSASL (kafka_SASL (spec_Kafka spec))"
    using t sasl by (auto simp: getClientTLS_def getSASL_def split: prod.splits if_splits)
  then show ?thesis
    using kafka_variables[OF assms] by (simp add: kafka_ends_def ingest_kafka_def newKafkaPipeline_def new_pipeline_def t sasl)
qed

lemma direct_reach:
  assumes "named_server_cert spec" and "spec_DeploymentModel spec = DeploymentModelDirect" and "\<forall>k \<in> set transport_vars. ov k = None"
    and "net \<in> {hostNetwork, hostPort}"
  shows "direct_ends (host_vars lib spec ov) (ingest_grpc (al_defaults lib) spec os s) (flp_ports (GetAdvancedProcessorConfig (al_defaults lib) spec) (spec_Processor spec) net)"
proof -
  obtain g where "ingest_grpc (al_defaults lib) spec os s = PGRPC g" "ig_Port g = the (apc_Port (GetAdvancedProcessorConfig (al_defaults lib) spec))" "ig_CertPath g = []"
    using ingest_grpc_ends[OF assms(1), of "al_defaults lib" os s] assms(2) by (metis FlowCollectorDeploymentModel.distinct)
  then show ?thesis using assms(3,4)
    by (auto simp: direct_ends_def host_vars_def target_port_def flp_ports_def transport_vars_def has_entry_def Let_def)
qed

lemma service_reach:
  assumes "service_tls_env lib (fb_info b) spec st = (Inr kvs, st')" and "spec_DeploymentModel spec = DeploymentModelService"
    and "named_server_cert spec" and "fb_desired b = spec"
    and "tls_ends_agree (GetServiceClientTLSConfig (flp_Service (spec_Processor spec)) ''ebpf-agent-cert'' (IsOpenShift (inst_ClusterInfo (fb_info b))))
       (GetServiceServerTLSConfig (flp_Service (spec_Processor spec)) monoCertSecretName (IsOpenShift (inst_ClusterInfo (fb_info b))))"
  shows "service_ends (plain_env ((''EXPORT'', ''grpc'') # kvs @ service_target lib (fb_info b) spec))
     (ingest_grpc (al_defaults lib) spec (IsOpenShift (inst_ClusterInfo (fb_info b))) s) (mono_service (al_defaults lib) b)
     (flp_ports (GetAdvancedProcessorConfig (al_defaults lib) spec) (spec_Processor spec) svc)"
proof -
  let ?os = "IsOpenShift (inst_ClusterInfo (fb_info b))"
  obtain g where g: "ingest_grpc (al_defaults lib) spec ?os s = PGRPC g" "ig_Port g = the (apc_Port (GetAdvancedProcessorConfig (al_defaults lib) spec))"
    and cert: "ig_CertPath g \<noteq> [] \<longleftrightarrow> fst (GetServiceServerTLSConfig (flp_Service (spec_Processor spec)) monoCertSecretName ?os) \<noteq> None"
    and ca: "ig_ClientCAPath g \<noteq> [] \<longleftrightarrow> fst (GetServiceServerTLSConfig (flp_Service (spec_Processor spec)) monoCertSecretName ?os) \<noteq> None
       \<and> snd (GetServiceServerTLSConfig (flp_Service (spec_Processor spec)) monoCertSecretName ?os) \<noteq> None"
    using ingest_grpc_ends[OF assms(3), of "al_defaults lib" ?os s] assms(2) by metis
  define client where "client = GetServiceClientTLSConfig (flp_Service (spec_Processor spec)) ''ebpf-agent-cert'' ?os"
  have names: "map fst kvs = (if fst client = None then [] else ''TARGET_TLS_CA_CERT_PATH'' #
    (if snd client = None then [] else [''TARGET_TLS_USER_CERT_PATH'', ''TARGET_TLS_USER_KEY_PATH'']))"
    using service_variables[OF assms(1)] by (simp add: client_def)
  have n: "entries k (plain_env kvs) = []" if "k \<notin> set (map fst kvs)" for k using that no_entries by blast
  have host: "entries ''EXPORT'' (plain_env kvs) = []" "entries ''TARGET_HOST'' (plain_env kvs) = []" "entries ''TARGET_PORT'' (plain_env kvs) = []"
    using n unfolding names by simp_all
  have tls: "has_entry ''TARGET_TLS_CA_CERT_PATH'' (plain_env kvs) \<longleftrightarrow> fst client \<noteq> None"
    "has_entry ''TARGET_TLS_USER_CERT_PATH'' (plain_env kvs) \<longleftrightarrow> fst client \<noteq> None \<and> snd client \<noteq> None"
    unfolding has_entry_def no_entries names by simp_all
  have agree: "fst client \<noteq> None \<longleftrightarrow> ig_CertPath g \<noteq> []" "fst client \<noteq> None \<and> snd client \<noteq> None \<longleftrightarrow> ig_ClientCAPath g \<noteq> []"
    using assms(5) cert ca unfolding tls_ends_agree_def client_def by auto
  have "\<not> UseHostNetwork spec" using assms(2) by (simp add: UseHostNetwork_def)
  then show ?thesis using g(1) host tls agree assms(4)
    by (simp add: service_ends_def service_target_def target_port_def mono_service_def flp_ports_def new_meta_def monoName_def FLPName_def has_entry_def g(2) Let_def)
qed

text \<open>
  C5: the agents send their flows to where flowlogs-pipeline takes them from. With Kafka both use the same broker and
  topic, and both or neither use TLS and SASL; in the Direct model an agent sends to the address of its host, on the
  port that the pod of flowlogs-pipeline occupies there, in clear on both ends; in the Service model it sends to
  the name, namespace and port of the service of the monolith, whose target is the port that the ingest stage and the
  container listen on, with TLS exactly when the stage has a certificate and with a client certificate exactly when
  the stage verifies clients. The resource is one that the webhook accepts and leaves the variables of the transport alone.
\<close>

theorem agents_reach_processor:
  fixes spec :: FlowCollectorSpec and lib :: "('v, 'w) agent_lib"
  defines "adv \<equiv> GetAdvancedProcessorConfig (al_defaults lib) spec"
  assumes "desired_agent lib (fb_info b) spec vols w = (Inr ds, vols', w')" and "fb_desired b = spec"
    and "finite (dom (user_env (agent_EBPF (spec_Agent spec))))" and "\<forall>k \<in> set transport_vars. user_env (agent_EBPF (spec_Agent spec)) k = None"
    and "v_errors (Validate env spec) = []" and "named_server_cert spec"
    and "map_option svc_TLSType (flp_Service (spec_Processor spec)) \<noteq> Some TLSTypeUnset"
  shows "(spec_DeploymentModel spec = DeploymentModelKafka \<longrightarrow> kafka_ends (ads_Env ds) (ingest_kafka spec s))
    \<and> (spec_DeploymentModel spec = DeploymentModelDirect \<longrightarrow>
         (\<forall>net \<in> {hostNetwork, hostPort}. direct_ends (ads_Env ds) (ingest_grpc (al_defaults lib) spec (IsOpenShift (inst_ClusterInfo (fb_info b))) s)
            (flp_ports adv (spec_Processor spec) net)))
    \<and> (spec_DeploymentModel spec = DeploymentModelService \<longrightarrow>
         service_ends (ads_Env ds) (ingest_grpc (al_defaults lib) spec (IsOpenShift (inst_ClusterInfo (fb_info b))) s) (mono_service (al_defaults lib) b)
            (flp_ports adv (spec_Processor spec) svc))"
proof -
  let ?ov = "user_env (agent_EBPF (spec_Agent spec))" and ?c = "fb_info b"
  obtain ext st where ext: "transport_env lib ?c spec ?ov [] (agent_annotations ?c, vols, w) = (Inr ext, st)"
    and same: "\<And>k. k \<in> set transport_vars \<Longrightarrow> entries k (ads_Env ds) = entries k ext"
    using transport_entries[OF assms(2,4,5)] by metis
  note cong = kafka_ends_cong[OF same]
  show ?thesis
    using ext
  proof (cases rule: transport_cases)
    case (kafka kvs)
    have "guarded ?ov kvs = plain_env kvs" by (rule guarded_free[OF kafka_env_names[OF kafka(2)] assms(5)])
    then show ?thesis using kafka kafka_reach[OF kafka(2), of s] by (simp add: cong UseKafka_def)
  next
    case host
    then have "spec_DeploymentModel spec = DeploymentModelDirect" by (simp add: UseHostNetwork_def)
    then show ?thesis using direct_reach[OF assms(7) _ assms(5), of _ lib "IsOpenShift (inst_ClusterInfo ?c)" s] host(4) by (simp add: cong adv_def)
  next
    case (service kvs)
    have "fst ` set ((''EXPORT'', ''grpc'') # kvs @ service_target lib ?c spec) \<subseteq> set transport_vars"
      using service_tls_names[OF service(3)] by (auto simp: service_target_def transport_vars_def)
    then have "ext = plain_env ((''EXPORT'', ''grpc'') # kvs @ service_target lib ?c spec)"
      unfolding service(4) by (rule guarded_free[OF _ assms(5)])
    then show ?thesis using service service_reach[OF service(3) _ assms(7,3) accepted_ends[OF assms(6) _ assms(8)], of s]
      by (simp add: cong adv_def UseHostNetwork_def UseKafka_def del: plain_env_simps)
  qed
qed

text \<open>The Service model on OpenShift, with the certificates of the platform.\<close>

definition demo_service_spec :: FlowCollectorSpec where
  "demo_service_spec = zero_spec\<lparr>spec_DeploymentModel := DeploymentModelService\<rparr>"

definition demo_monolith :: "unit flpBuilder" where
  "demo_monolith = \<lparr>fb_info = demo_info, fb_desired = demo_service_spec, fb_detectedSubnets = [], fb_version = ''v1'', fb_promTLS = None\<rparr>"

lemma demo_service_sel [simp]:
  "spec_DeploymentModel demo_service_spec = DeploymentModelService" "spec_Agent demo_service_spec = zero_agent"
  "spec_Processor demo_service_spec = zero_flp" "fb_info demo_monolith = demo_info" "fb_desired demo_monolith = demo_service_spec"
  by (simp_all add: demo_service_spec_def demo_monolith_def)

lemma demo_service_accepted: "v_errors (Validate sample_env demo_service_spec) = []"
  by (simp add: accepts_iff_valid valid_spec_def valid_tls_def valid_conntrack_def valid_cache_port_def
      demo_service_spec_def IsInformerCacheProxyEnabled_def HasConntrack_def)

lemma demo_service_env: "aac_Env (GetAdvancedAgentConfig None) = Map.empty"
  by (simp add: GetAdvancedAgentConfig_def)

lemma demo_service_runs: "\<exists>ds vols' w'. desired_agent demo_agent_lib demo_info demo_service_spec [] (\<lambda>_. Map.empty) = (Inr ds, vols', w')"
  by (simp add: desired_agent_def envConfig_def transport_env_def service_tls_env_def GetServiceClientTLSConfig_def not_auto_def auto_mtls_def
      DefaultCAReference_def UseKafka_def UseHostNetwork_def Let_def case_prod_beta)

theorem agents_reach_processor_witness:
  "\<exists>ds vols' w'. desired_agent demo_agent_lib demo_info demo_service_spec [] (\<lambda>_. Map.empty) = (Inr ds, vols', w')
     \<and> service_ends (ads_Env ds) (ingest_grpc sample_defaults demo_service_spec True demo_state) (mono_service sample_defaults demo_monolith)
         (flp_ports (GetAdvancedProcessorConfig sample_defaults demo_service_spec) zero_flp svc)"
proof -
  obtain ds vols' w' where ds: "desired_agent demo_agent_lib demo_info demo_service_spec [] (\<lambda>_. Map.empty) = (Inr ds, vols', w')"
    using demo_service_runs by blast
  have "al_defaults demo_agent_lib = sample_defaults" by (simp add: demo_agent_lib_def)
  then show ?thesis
    using agents_reach_processor[of demo_agent_lib demo_monolith demo_service_spec "[]" "\<lambda>_. Map.empty" ds vols' w' sample_env demo_state]
      ds demo_service_accepted by (simp add: demo_service_env named_server_cert_def)
qed

end
