(* ===== verification/Agent_Controller.thy ===== *)
theory Agent_Controller
  imports Agent
begin

text \<open>
  The controller of the agents: \<open>internal/controller/ebpf/permissions.go\<close> (namespace, service account and security context
  constraints), \<open>bpfmanager-controller.go\<close> (programs handed to the BPF manager), \<open>reconcileMetricsService\<close> of
  \<open>agent_metrics.go\<close> and \<open>NewAgentController\<close>, \<open>Reconcile\<close>, \<open>reconcile\<close> and \<open>current\<close> of
  \<open>agent_controller.go\<close>. There is one client per kind of object on a common world. The text of an
  error and the Go values that comparisons reflect on are parameters; logging is left out, and so is the name of the
  resource that ends an error of the attachment.
\<close>

section \<open>Objects\<close>

record SecurityContextConstraints =
  scc_AllowHostNetwork :: bool
  scc_RunAsUser :: string
  scc_SELinuxContext :: string
  scc_Users :: "string list"
  scc_AllowPrivilegedContainer :: bool
  scc_AllowHostDirVolumePlugin :: bool
  scc_RequiredDropCapabilities :: "string list"
  scc_AllowedCapabilities :: "string list option"

datatype bpf_program =
  TCX string string | FEntry string string | KProbe string string | KRetProbe string string | TracePoint string string

text \<open>Global data are bytes; nil and empty slices are the same here.\<close>

record bpf_application =
  bpfa_NodeSelector :: "string_map option"
  bpfa_GlobalData :: "(string \<times> nat list) list"
  bpfa_Image :: "string \<times> string"
  bpfa_Programs :: "bpf_program list"

record agent_ds_body =
  adb_Object :: DaemonSetObject
  adb_Status :: DaemonSet

record 'w agent_clients =
  ac_ds :: "(agent_ds_body, 'w) k8s_client"
  ac_ns :: "(unit, 'w) k8s_client"
  ac_rb :: "(role_binding, 'w) k8s_client"
  ac_sa :: "(unit, 'w) k8s_client"
  ac_scc :: "(SecurityContextConstraints, 'w) k8s_client"
  ac_svc :: "(service_body, 'w) k8s_client"
  ac_sm :: "(monitoring_object, 'w) k8s_client"
  ac_rule :: "(monitoring_object, 'w) k8s_client"
  ac_bpf :: "(bpf_application, 'w) k8s_client"
  ac_enqueue_svc :: "(service_body, 'w) enqueuer option"

section \<open>Permissions\<close>

definition namespaceLabels :: "bool \<Rightarrow> Vendor \<Rightarrow> go_map" where
  "namespaceLabels includeAudit vendor =
     [(''app'', OperatorName), (''pod-security.kubernetes.io/enforce'', ''privileged'')]
     @ (if includeAudit then [(''pod-security.kubernetes.io/audit'', ''privileged'')] else [])
     @ (if vendor = VendorOpenShiftDownstream then [(''openshift.io/cluster-monitoring'', ''true'')] else [])"

definition set_labels :: "go_map \<Rightarrow> 'b k8s_object \<Rightarrow> 'b k8s_object" where
  "set_labels kvs x = x\<lparr>obj_Meta := (obj_Meta x)\<lparr>om_Labels := Some (foldl (\<lambda>m (k, v). go_map_set k v m) (labels_of x) kvs)\<rparr>\<rparr>"

definition reconcileNamespace :: "'w agent_clients \<Rightarrow> 'v Instance \<Rightarrow> 'w \<Rightarrow> client_error option \<times> 'w" where
  "reconcileNamespace cl c w =
     (let ns = PrivilegedNamespace c;
          desired = \<lparr>obj_Meta = new_meta ns [] (Some (namespaceLabels True (inst_Vendor c))) None, obj_Body = ()\<rparr>
      in case cl_Get (ac_ns cl) ([], ns) w of
           Inl NotFound \<Rightarrow> CreateOwned (ac_ns cl) desired w
         | Inl e \<Rightarrow> (Some (Wrapped (cant @ ''retrieve current namespace: '') (ApiErr e)), w)
         | Inr actual \<Rightarrow>
             (case ReconcileRoleBinding (ac_rb cl) (GetExposeMetricsRoleBinding ns) w of
                (Some e, w1) \<Rightarrow> (Some e, w1)
              | (None, w1) \<Rightarrow>
                  if \<not> IsSubSet (labels_of actual) (namespaceLabels False (inst_Vendor c))
                  then UpdateIfOwned (ac_ns cl) (Some actual) (set_labels (labels_of desired) actual) w1
                  else (None, w1)))"

definition reconcileServiceAccount :: "'w agent_clients \<Rightarrow> 'v Instance \<Rightarrow> FlowCollectorSpec \<Rightarrow> 'w \<Rightarrow> client_error option \<times> 'w" where
  "reconcileServiceAccount cl c spec w =
     (let sAcc = \<lparr>obj_Meta = new_meta EBPFServiceAccount (PrivilegedNamespace c) None None, obj_Body = ()\<rparr> in
      case cl_Get (ac_sa cl) (key_of sAcc) w of
        Inl NotFound \<Rightarrow> CreateOwned (ac_sa cl) sAcc w
      | Inl e \<Rightarrow> (Some (Wrapped (cant @ ''retrieve current namespace: '') (ApiErr e)), w)
      | Inr actual \<Rightarrow> if OnHold_spec spec then DeleteIfOwned (ac_sa cl) (Some actual) w else (None, w))"

definition desired_scc :: "'v Instance \<Rightarrow> FlowCollectorEBPF \<Rightarrow> SecurityContextConstraints" where
  "desired_scc c e =
     \<lparr>scc_AllowHostNetwork = True, scc_RunAsUser = ''RunAsAny'', scc_SELinuxContext = ''RunAsAny'',
      scc_Users = [''system:serviceaccount:'' @ PrivilegedNamespace c @ '':'' @ EBPFServiceAccount],
      scc_AllowPrivilegedContainer = ebpf_Privileged e,
      scc_AllowHostDirVolumePlugin = (ebpf_Privileged e \<or> getHostVolumesInfo e (inst_Vendor c) \<noteq> []),
      scc_RequiredDropCapabilities = (if IsEbpfManagerEnabled e then [''ALL''] else []),
      scc_AllowedCapabilities = (if ebpf_Privileged e then None else getAllowedCapabilities e)\<rparr>"

text \<open>The Go values of the compared fields.\<close>

definition str_slice :: "string list \<Rightarrow> go_value" where
  "str_slice xs = GSlice (map GStr xs)"

definition opt_slice :: "string list option \<Rightarrow> go_value" where
  "opt_slice xs = (case xs of None \<Rightarrow> GSlice [] | Some l \<Rightarrow> str_slice l)"

definition scc_outdated :: "SecurityContextConstraints \<Rightarrow> SecurityContextConstraints \<Rightarrow> bool" where
  "scc_outdated scc actual \<longleftrightarrow>
     scc_AllowHostNetwork scc \<noteq> scc_AllowHostNetwork actual
     \<or> \<not> deepDerivative (GStr (scc_RunAsUser scc)) (GStr (scc_RunAsUser actual))
     \<or> \<not> deepDerivative (GStr (scc_SELinuxContext scc)) (GStr (scc_SELinuxContext actual))
     \<or> \<not> deepDerivative (str_slice (scc_Users scc)) (str_slice (scc_Users actual))
     \<or> scc_AllowPrivilegedContainer scc \<noteq> scc_AllowPrivilegedContainer actual
     \<or> scc_AllowHostDirVolumePlugin scc \<noteq> scc_AllowHostDirVolumePlugin actual
     \<or> \<not> deepDerivative (str_slice (scc_RequiredDropCapabilities scc)) (str_slice (scc_RequiredDropCapabilities actual))
     \<or> \<not> deepEqual (opt_slice (scc_AllowedCapabilities scc)) (opt_slice (scc_AllowedCapabilities actual))"

definition reconcileOpenshiftPermissions :: "'w agent_clients \<Rightarrow> 'v Instance \<Rightarrow> FlowCollectorEBPF \<Rightarrow> 'w \<Rightarrow> client_error option \<times> 'w" where
  "reconcileOpenshiftPermissions cl c e w =
     (let scc = \<lparr>obj_Meta = new_meta EBPFSecurityContext [] None None, obj_Body = desired_scc c e\<rparr> in
      case cl_Get (ac_scc cl) (key_of scc) w of
        Inl NotFound \<Rightarrow> CreateOwned (ac_scc cl) scc w
      | Inl ex \<Rightarrow> (Some (Wrapped (cant @ ''retrieve current namespace: '') (ApiErr ex)), w)
      | Inr actual \<Rightarrow>
          if scc_outdated (obj_Body scc) (obj_Body actual) then UpdateIfOwned (ac_scc cl) (Some actual) scc w else (None, w))"

definition reconcileVendorPermissions :: "'w agent_clients \<Rightarrow> 'v Instance \<Rightarrow> FlowCollectorEBPF \<Rightarrow> 'w \<Rightarrow> client_error option \<times> 'w" where
  "reconcileVendorPermissions cl c e w =
     (if IsOpenShift (inst_ClusterInfo c) then reconcileOpenshiftPermissions cl c e w else (None, w))"

definition wrapping :: "string \<Rightarrow> client_error option \<times> 'w \<Rightarrow> client_error option \<times> 'w" where
  "wrapping msg r = (map_option (Wrapped msg) (fst r), snd r)"

definition permissions_reconcile :: "'w agent_clients \<Rightarrow> 'v Instance \<Rightarrow> FlowCollectorSpec \<Rightarrow> 'w \<Rightarrow> client_error option \<times> 'w" where
  "permissions_reconcile cl c spec w =
     (case wrapping ''reconciling namespace: '' (reconcileNamespace cl c w) of
        (Some e, w1) \<Rightarrow> (Some e, w1)
      | (None, w1) \<Rightarrow>
          (case wrapping ''reconciling service account: '' (reconcileServiceAccount cl c spec w1) of
             (Some e, w2) \<Rightarrow> (Some e, w2)
           | (None, w2) \<Rightarrow> wrapping ''reconciling vendor permissions: '' (reconcileVendorPermissions cl c (agent_EBPF (spec_Agent spec)) w2)))"

section \<open>Programs of the BPF manager\<close>

text \<open>\<open>PutUint32\<close> on four bytes, in the byte order of the machine.\<close>

definition put_uint32 :: "bool \<Rightarrow> int \<Rightarrow> nat list" where
  "put_uint32 little i =
     (let n = nat (i mod 2 ^ 32); bytes = map (\<lambda>k. n div 256 ^ k mod 256) [0, 1, 2, 3] in if little then bytes else rev bytes)"

definition flag_byte :: "bool \<Rightarrow> nat list" where
  "flag_byte b = (if b then [1] else [])"

definition bpf_programs :: "FlowCollectorEBPF \<Rightarrow> bpf_program list" where
  "bpf_programs e =
     [TCX ''tcx_ingress_flow_parse'' ''Ingress'', TCX ''tcx_egress_flow_parse'' ''Egress'']
     @ (if IsFlowRTTEnabled e then [FEntry ''tcp_rcv_fentry'' ''tcp_rcv_established''] else [])
     @ (if IsNetworkEventsEnabled e then [KProbe ''network_events_monitoring'' ''psample_sample_packet''] else [])
     @ (if IsPktDropEnabled e then [TracePoint ''kfree_skb'' ''skb/kfree_skb''] else [])
     @ (if IsPacketTranslationEnabled e then [KProbe ''track_nat_manip_pkt'' ''nf_nat_manip_pkt''] else [])
     @ (if IsIPSecEnabled e then [KProbe ''xfrm_input_kprobe'' ''xfrm_input'', KRetProbe ''xfrm_input_kretprobe'' ''xfrm_input'',
          KProbe ''xfrm_output_kprobe'' ''xfrm_output'', KRetProbe ''xfrm_output_kretprobe'' ''xfrm_output''] else [])"

text \<open>A missing sampling or scheduling section is dereferenced, which is the error value.\<close>

definition prepareBpfApplication ::
  "bool \<Rightarrow> FlowCollectorEBPF \<Rightarrow> string \<Rightarrow> bpf_application k8s_object \<Rightarrow> client_error + bpf_application k8s_object" where
  "prepareBpfApplication little e netobservBCImage bpfApp =
     (case ebpf_Sampling e of
        None \<Rightarrow> Inl NilDereference
      | Some sampling \<Rightarrow>
          (let ov = (case ebpf_Advanced e of None \<Rightarrow> Map.empty | Some _ \<Rightarrow> aac_Env (GetAdvancedAgentConfig (ebpf_Advanced e)));
               bytes = (\<lambda>k d. case ov k of None \<Rightarrow> d | Some v \<Rightarrow> map of_char v);
               selector = (case ebpf_Advanced e of
                   None \<Rightarrow> Inr (bpfa_NodeSelector (obj_Body bpfApp))
                 | Some a \<Rightarrow> (case aac_Scheduling a of None \<Rightarrow> Inl NilDereference | Some s \<Rightarrow> Inr (sched_NodeSelector s)))
           in case selector of
                Inl ex \<Rightarrow> Inl ex
              | Inr sel \<Rightarrow>
                  Inr (bpfApp\<lparr>obj_Meta := (obj_Meta bpfApp)\<lparr>om_Labels := Some [(''app'', ''netobserv'')]\<rparr>,
                    obj_Body := \<lparr>bpfa_NodeSelector = sel,
                      bpfa_GlobalData =
                        [(''sampling'', put_uint32 little sampling),
                         (''trace_messages'', flag_byte (ebpf_LogLevel e = ''trace'' \<or> ebpf_LogLevel e = ''debug'')),
                         (''enable_rtt'', flag_byte (IsFlowRTTEnabled e)),
                         (''enable_dns_tracking'', flag_byte (IsDNSTrackingEnabled e)),
                         (''dns_port'', bytes ''DNS_TRACKING_PORT'' [0, 0]),
                         (''enable_flows_filtering'', flag_byte (IsEBPFFlowFilterEnabled e)),
                         (''enable_network_events_monitoring'', flag_byte (IsNetworkEventsEnabled e)),
                         (''network_events_monitoring_groupid'', bytes ''NETWORK_EVENTS_MONITORING_GROUP_ID'' []),
                         (''enable_pkt_translation_tracking'', flag_byte (IsPacketTranslationEnabled e)),
                         (''enable_ipsec'', flag_byte (IsIPSecEnabled e)),
                         (''enable_tls_usage_tracking'', flag_byte (IsTLSTrackingEnabled e))],
                      bpfa_Image = (netobservBCImage, ''IfNotPresent''),
                      bpfa_Programs = bpf_programs e\<rparr>\<rparr>)))"

definition bpfmanAttachNetobserv :: "bool \<Rightarrow> 'w agent_clients \<Rightarrow> 'v Instance \<Rightarrow> FlowCollectorEBPF \<Rightarrow> 'w \<Rightarrow> client_error option \<times> 'w" where
  "bpfmanAttachNetobserv little cl c e w =
     (let fresh = \<lparr>obj_Meta = new_meta ''netobserv'' [] None None,
            obj_Body = \<lparr>bpfa_NodeSelector = None, bpfa_GlobalData = [], bpfa_Image = ([], []), bpfa_Programs = []\<rparr>\<rparr>
      in case cl_Get (ac_bpf cl) ([], ''netobserv'') w of
           Inl NotFound \<Rightarrow>
             (case prepareBpfApplication little e (inst_Images c BpfByteCodeImage) fresh of
                Inl ex \<Rightarrow> (Some ex, w)
              | Inr app \<Rightarrow> wrapping ''failed to create BpfApplication: '' (CreateOwned (ac_bpf cl) app w))
         | Inl ex \<Rightarrow> (Some (Wrapped ''failed to get BpfApplication: '' (ApiErr ex)), w)
         | Inr app \<Rightarrow>
             (case prepareBpfApplication little e (inst_Images c BpfByteCodeImage) app of
                Inl ex \<Rightarrow> (Some ex, w)
              | Inr app' \<Rightarrow> wrapping ''failed to update BpfApplication: '' (UpdateOwned (ac_bpf cl) (Some app') app' w)))"

section \<open>The controller\<close>

text \<open>The managed objects of the controller, one list per kind in the order of their registration.\<close>

record agent_managed =
  am_svc :: "service_body managedObject list"
  am_sm :: "monitoring_object managedObject list"
  am_rule :: "monitoring_object managedObject list"

definition held :: "'b managedObject list \<Rightarrow> 'b k8s_object" where
  "held m = mo_object (hd m)"

definition no_object :: "'b \<Rightarrow> 'b k8s_object" where
  "no_object b = \<lparr>obj_Meta = new_meta [] [] None None, obj_Body = b\<rparr>"

definition NewAgentController :: "service_body \<Rightarrow> monitoring_object \<Rightarrow> 'v Instance \<Rightarrow> agent_managed" where
  "NewAgentController empty_svc empty_mon c =
     \<lparr>am_svc = addManagedObject EBPFAgentMetricsSvcName ''*v1.Service'' 0 (no_object empty_svc) True [],
      am_sm = (if HasSvcMonitor (inst_ClusterInfo c)
        then addManagedObject EBPFAgentMetricsSvcMonitoringName ''*v1.ServiceMonitor'' 1 (no_object empty_mon) False [] else []),
      am_rule = (if HasPromRule (inst_ClusterInfo c)
        then addManagedObject EBPFAgentPromAlertRule ''*v1.PrometheusRule'' 2 (no_object empty_mon) False [] else [])\<rparr>"

text \<open>\<open>FetchAll\<close> on the managed objects, which stops at the first error.\<close>

definition agent_FetchAll :: "'w agent_clients \<Rightarrow> string \<Rightarrow> agent_managed \<Rightarrow> 'w \<Rightarrow> client_error option \<times> agent_managed \<times> 'w" where
  "agent_FetchAll cl ns m w =
     (case FetchAll (ac_svc cl) (ac_enqueue_svc cl) ns (am_svc m) w of
        (Some e, svcs, w1) \<Rightarrow> (Some e, m\<lparr>am_svc := svcs\<rparr>, w1)
      | (None, svcs, w1) \<Rightarrow>
          (case FetchAll (ac_sm cl) None ns (am_sm m) w1 of
             (Some e, sms, w2) \<Rightarrow> (Some e, m\<lparr>am_svc := svcs, am_sm := sms\<rparr>, w2)
           | (None, sms, w2) \<Rightarrow>
               (case FetchAll (ac_rule cl) None ns (am_rule m) w2 of
                  (e, rules, w3) \<Rightarrow> (e, m\<lparr>am_svc := svcs, am_sm := sms, am_rule := rules\<rparr>, w3))))"

text \<open>What the controller takes from its surroundings: clients, Go values of its objects, texts of errors, pods.\<close>

record 'w agent_ctl =
  ctl_clients :: "'w agent_clients"
  ctl_little :: bool
  ctl_empty :: "service_body \<times> monitoring_object"
  ctl_service :: "Service \<Rightarrow> service_body k8s_object"
  ctl_monitor :: "ServiceMonitor \<Rightarrow> monitoring_object k8s_object"
  ctl_rule :: "alert_rule PrometheusRule \<Rightarrow> monitoring_object k8s_object"
  ctl_daemonset :: "agent_daemonset \<Rightarrow> agent_ds_body k8s_object"
  ctl_derive :: "PodTemplateSpec \<Rightarrow> PodTemplateSpec \<Rightarrow> bool"
  ctl_text :: "agent_error \<Rightarrow> string"
  ctl_pods :: pod_lister

text \<open>The result is the list of joined errors, empty for none.\<close>

definition delete_metrics :: "'w agent_clients \<Rightarrow> 'v Instance \<Rightarrow> agent_managed \<Rightarrow> 'w \<Rightarrow> client_error list \<times> 'w" where
  "delete_metrics cl c m w =
     (case TryDelete (am_svc m) (ac_svc cl) (Some 0) (held (am_svc m)) w of (e1, w1) \<Rightarrow>
      case (if HasSvcMonitor (inst_ClusterInfo c) then TryDelete (am_sm m) (ac_sm cl) (Some 1) (held (am_sm m)) w1 else (None, w1)) of (e2, w2) \<Rightarrow>
      case (if HasPromRule (inst_ClusterInfo c) then TryDelete (am_rule m) (ac_rule cl) (Some 2) (held (am_rule m)) w2 else (None, w2)) of (e3, w3) \<Rightarrow>
        (List.map_filter id [e1, e2, e3], w3))"

definition reconcileMetricsService :: "'w agent_ctl \<Rightarrow> 'v Instance \<Rightarrow> FlowCollectorEBPF \<Rightarrow> agent_managed \<Rightarrow> 'w \<Rightarrow> client_error list \<times> 'w" where
  "reconcileMetricsService ctl c e m w =
     (let cl = ctl_clients ctl; report = NewChangeReport ''EBPF Agent prometheus service'' in
      if \<not> IsEBPFMetricsEnabled e then delete_metrics cl c m w
      else case ReconcileService (am_svc m) (ac_svc cl) (Some 0) (held (am_svc m)) (ctl_service ctl (agent_promService c e)) report w of
        (Some ex, _, w1) \<Rightarrow> ([ex], w1)
      | (None, report, w1) \<Rightarrow>
          (case (if HasSvcMonitor (inst_ClusterInfo c)
                 then GenericReconcile (am_sm m) (ac_sm cl) (Some 1) (held (am_sm m))
                   (ctl_monitor ctl (promServiceMonitoring c e (hasPromServiceDiscoveryRole (inst_ClusterInfo c))))
                   (\<lambda>old n. ServiceMonitorChanged (obj_Body old) (obj_Body n)) report w1
                 else (None, report, w1)) of
             (Some ex, _, w2) \<Rightarrow> ([ex], w2)
           | (None, report, w2) \<Rightarrow>
               (case (if HasPromRule (inst_ClusterInfo c)
                      then GenericReconcile (am_rule m) (ac_rule cl) (Some 2) (held (am_rule m)) (ctl_rule ctl (agentPrometheusRule c e))
                        (\<lambda>old n. PrometheusRuleChanged (obj_Body old) (obj_Body n)) report w2
                      else (None, report, w2)) of
                  (Some ex, _, w3) \<Rightarrow> ([ex], w3)
                | (None, _, w3) \<Rightarrow> ([], w3))))"

definition current_agent :: "'w agent_clients \<Rightarrow> 'v Instance \<Rightarrow> 'w \<Rightarrow> client_error + agent_ds_body k8s_object option" where
  "current_agent cl c w =
     (case cl_Get (ac_ds cl) (PrivilegedNamespace c, EBPFAgentName) w of
        Inl NotFound \<Rightarrow> Inr None
      | Inl e \<Rightarrow> Inl (Wrapped (cant @ ''read DaemonSet '' @ PrivilegedNamespace c @ ''/'' @ EBPFAgentName @ '': '') (ApiErr e))
      | Inr x \<Rightarrow> Inr (Some x))"

definition hold_agent :: "'w agent_clients \<Rightarrow> agent_ds_body k8s_object option \<Rightarrow> agent_managed \<Rightarrow> Manager \<Rightarrow> 'w \<Rightarrow> agent_error option \<times> Manager \<times> 'w" where
  "hold_agent cl cur m s w =
     (let s = setUnused EBPFAgents ''FlowCollector is on hold'' s in
      case (case cur of None \<Rightarrow> (None, w) | Some x \<Rightarrow> DeleteIfOwned (ac_ds cl) (Some x) w) of
        (Some e, w1) \<Rightarrow> (Some (PlainError e), s, w1)
      | (None, w1) \<Rightarrow> (case DeleteIfOwned (ac_svc cl) (Some (held (am_svc m))) w1 of (e, w2) \<Rightarrow> (map_option PlainError e, s, w2)))"

definition apply_agent ::
  "'w agent_ctl \<Rightarrow> agent_ds_body k8s_object option \<Rightarrow> agent_ds_body k8s_object \<Rightarrow> Manager \<Rightarrow> 'w \<Rightarrow> client_error option \<times> Manager \<times> 'w" where
  "apply_agent ctl cur desired s w =
     (let cl = ctl_clients ctl in
      case DaemonSetChanged (ctl_derive ctl) (map_option (\<lambda>x. adb_Object (obj_Body x)) cur) (Some (adb_Object (obj_Body desired))) of
        ActionCreate \<Rightarrow>
          (case CreateOwned (ac_ds cl) desired w of (e, w1) \<Rightarrow> (e, SetCreatingDaemonSet EBPFAgents (adb_Status (obj_Body desired)) s, w1))
      | ActionUpdate \<Rightarrow> (case UpdateIfOwned (ac_ds cl) cur desired w of (e, w1) \<Rightarrow> (e, s, w1))
      | ActionNone \<Rightarrow> (None, CheckDaemonSetHealth (ctl_pods ctl) EBPFAgents (map_option (\<lambda>x. adb_Status (obj_Body x)) cur) s, w))"

definition deploy_agent ::
  "'w agent_ctl \<Rightarrow> ('v, 'w) agent_lib \<Rightarrow> 'v Instance \<Rightarrow> FlowCollectorSpec \<Rightarrow> agent_ds_body k8s_object option \<Rightarrow> agent_managed \<Rightarrow> Manager \<Rightarrow> 'w
     \<Rightarrow> agent_error option \<times> Manager \<times> 'w" where
  "deploy_agent ctl lib c spec cur m s w =
     (let e = agent_EBPF (spec_Agent spec) in
      case reconcileMetricsService ctl c e m w of
        (ex # exs, w1) \<Rightarrow> (Some (AgentWrapped ''reconciling prometheus service: '' (JoinedErrors (ex # exs))), s, w1)
      | ([], w1) \<Rightarrow>
          (case desired_agent lib c spec [] w1 of
             (Inl ex, _, w2) \<Rightarrow> (Some ex, s, w2)
           | (Inr ds, _, w2) \<Rightarrow>
               (case apply_agent ctl cur (ctl_daemonset ctl ds) s w2 of
                  (Some ex, s1, w3) \<Rightarrow> (Some (PlainError ex), s1, w3)
                | (None, s1, w3) \<Rightarrow>
                    if IsAgentFeatureEnabled e EbpfManager then
                      (case bpfmanAttachNetobserv (ctl_little ctl) (ctl_clients ctl) c e w3 of
                         (Some ex, w4) \<Rightarrow> (Some (AgentWrapped ''failed to attach netobserv: '' (PlainError ex)), s1, w4)
                       | (None, w4) \<Rightarrow> (None, s1, w4))
                    else (None, s1, w3))))"

definition agent_reconcile ::
  "'w agent_ctl \<Rightarrow> ('v, 'w) agent_lib \<Rightarrow> 'v Instance \<Rightarrow> FlowCollectorSpec \<Rightarrow> Manager \<Rightarrow> 'w \<Rightarrow> agent_error option \<times> Manager \<times> 'w" where
  "agent_reconcile ctl lib c spec s w =
     (let cl = ctl_clients ctl in
      case current_agent cl c w of
        Inl ex \<Rightarrow> (Some (AgentWrapped ''fetching current eBPF agent: '' (PlainError ex)), s, w)
      | Inr cur \<Rightarrow>
          (case agent_FetchAll cl (PrivilegedNamespace c) (NewAgentController (fst (ctl_empty ctl)) (snd (ctl_empty ctl)) c) w of
             (Some ex, _, w1) \<Rightarrow> (Some (PlainError ex), s, w1)
           | (None, m, w1) \<Rightarrow>
               (case permissions_reconcile cl c spec w1 of
                  (Some ex, w2) \<Rightarrow> (Some (AgentWrapped ''reconciling permissions: '' (PlainError ex)), s, w2)
                | (None, w2) \<Rightarrow>
                    if OnHold_spec spec then hold_agent cl cur m s w2 else deploy_agent ctl lib c spec cur m s w2)))"

fun is_kafka_error :: "agent_error \<Rightarrow> bool" where
  "is_kafka_error (PlainError _) = False"
| "is_kafka_error (JoinedErrors _) = False"
| "is_kafka_error (KafkaError _) = True"
| "is_kafka_error (AgentWrapped _ e) = is_kafka_error e"

text \<open>\<open>Reconcile\<close>; on return the status is published by \<open>Sync\<close> of the status manager.\<close>

definition agent_Reconcile ::
  "'w agent_ctl \<Rightarrow> ('v, 'w) agent_lib \<Rightarrow> 'v Instance \<Rightarrow> FlowCollectorSpec \<Rightarrow> Manager \<Rightarrow> 'w \<Rightarrow> agent_error option \<times> Manager \<times> 'w" where
  "agent_Reconcile ctl lib c spec s w =
     (case agent_reconcile ctl lib c spec (reset EBPFAgents s) w of
        (None, s1, w1) \<Rightarrow> (None, s1, w1)
      | (Some ex, s1, w1) \<Rightarrow>
          (Some ex,
           if \<not> hasFailure s1 EBPFAgents
           then setFailure EBPFAgents (if is_kafka_error ex then ''AgentKafkaError'' else ''AgentControllerError'') (ctl_text ctl ex) s1 else s1,
           w1))"

end
