(* ===== verification/Agent_Controller_Correct.thy ===== *)
theory Agent_Controller_Correct
  imports Agent_Controller Agent_Correct Status_Correct
begin

text \<open>
  The security constraints that the controller installs admit the pods it deploys; a failed run is recorded in the
  status of the agents, and only there; three mistakes of the controller are shown at the end.
\<close>

section \<open>Security constraints\<close>

lemma derive_slice: "deepDerivative (str_slice xs) (str_slice ys) \<Longrightarrow> [] \<notin> set xs \<Longrightarrow> set xs \<subseteq> set ys"
proof (induction xs arbitrary: ys)
  case (Cons x xs)
  then obtain y ys' where "ys = y # ys'" by (cases ys) (auto simp: str_slice_def)
  with Cons show ?case by (force simp: str_slice_def)
qed simp

lemma equal_slice: "deepEqual (str_slice xs) (str_slice ys) \<Longrightarrow> xs = ys"
proof (induction xs arbitrary: ys)
  case (Cons x xs)
  then obtain y ys' where "ys = y # ys'" by (cases ys) (auto simp: str_slice_def)
  with Cons show ?case by (auto simp: str_slice_def)
qed (simp add: str_slice_def)

definition allowed :: "SecurityContextConstraints \<Rightarrow> string set" where
  "allowed scc = (case scc_AllowedCapabilities scc of None \<Rightarrow> {} | Some l \<Rightarrow> set l)"

text \<open>
  What the admission of OpenShift asks of the constraints for the pods of a daemon set in a namespace: the
  account is one of the users; the host network, the root user, privileges, capabilities and host directories that
  the pod has are allowed. Capabilities that are to be dropped are not part of it.
\<close>

definition admits :: "string \<Rightarrow> SecurityContextConstraints \<Rightarrow> agent_daemonset \<Rightarrow> bool" where
  "admits ns scc ds \<longleftrightarrow>
     (''system:serviceaccount:'' @ ns @ '':'' @ ads_ServiceAccountName ds) \<in> set (scc_Users scc)
     \<and> (ads_HostNetwork ds \<longrightarrow> scc_AllowHostNetwork scc)
     \<and> (secctx_RunAsUser (ads_SecurityContext ds) \<noteq> None \<longrightarrow> scc_RunAsUser scc = ''RunAsAny'')
     \<and> (secctx_Privileged (ads_SecurityContext ds) = Some True \<longrightarrow> scc_AllowPrivilegedContainer scc)
     \<and> (\<forall>caps. secctx_Capabilities (ads_SecurityContext ds) = Some caps \<longrightarrow> set (cap_Add caps) \<subseteq> allowed scc)
     \<and> ((\<exists>n p. (n, HostPathDirectory p) \<in> set (ads_Volumes ds)) \<longrightarrow> scc_AllowHostDirVolumePlugin scc)"

lemma host_directories:
  "(n, HostPathDirectory p) \<in> set (snd (buildVolumes e vendor vols ov)) \<Longrightarrow> getHostVolumesInfo e vendor \<noteq> []"
  by (auto simp: buildVolumes_def Let_def)

lemma desired_scc_admits:
  assumes "desired_agent lib c spec vols w = (Inr ds, vols', w')"
  shows "admits (PrivilegedNamespace c) (desired_scc c (agent_EBPF (spec_Agent spec))) ds"
proof -
  let ?e = "agent_EBPF (spec_Agent spec)"
  have sc: "ads_SecurityContext ds = securityContext ?e" and sa: "ads_ServiceAccountName ds = EBPFServiceAccount"
    and v: "ads_Volumes ds = snd (buildVolumes ?e (inst_Vendor c) vols' (user_env ?e))"
    using desired_agent_parts[OF assms] by (metis snd_conv)+
  have caps: "set (cap_Add cs) \<subseteq> allowed (desired_scc c ?e)" if "secctx_Capabilities (securityContext ?e) = Some cs" for cs
    using that by (auto simp: securityContext_def ContainerDefaultSecurityContext_def allowed_def desired_scc_def getAllowedCapabilities_def
        split: if_splits option.splits)
  show ?thesis unfolding admits_def sc sa v
    using caps host_directories[of _ _ ?e "inst_Vendor c" vols' "user_env ?e"]
    by (auto simp: desired_scc_def securityContext_def ContainerDefaultSecurityContext_def split: if_splits)
qed

text \<open>Constraints that are not out of date admit what the desired ones admit.\<close>

lemma uptodate_admits:
  assumes "\<not> scc_outdated (desired_scc c e) actual" and "admits ns (desired_scc c e) ds"
  shows "admits ns actual ds"
proof -
  let ?d = "desired_scc c e"
  note eq = assms(1)[unfolded scc_outdated_def de_Morgan_disj not_not]
  have same: "scc_AllowHostNetwork actual = scc_AllowHostNetwork ?d" "scc_AllowPrivilegedContainer actual = scc_AllowPrivilegedContainer ?d"
    "scc_AllowHostDirVolumePlugin actual = scc_AllowHostDirVolumePlugin ?d"
    using eq by simp_all
  have user: "scc_RunAsUser actual = scc_RunAsUser ?d" using eq by (simp add: desired_scc_def)
  have "[] \<notin> set (scc_Users ?d)" by (simp add: desired_scc_def)
  then have users: "set (scc_Users ?d) \<subseteq> set (scc_Users actual)" using eq by (intro derive_slice) simp_all
  have "deepEqual (opt_slice (scc_AllowedCapabilities ?d)) (opt_slice (scc_AllowedCapabilities actual))" using eq by simp
  then have caps: "allowed actual = allowed ?d"
    using equal_slice[of "case_option [] id (scc_AllowedCapabilities ?d)" "case_option [] id (scc_AllowedCapabilities actual)"]
    by (auto simp: opt_slice_def str_slice_def allowed_def split: option.splits)
  note d = assms(2)[unfolded admits_def]
  show ?thesis unfolding admits_def same user caps by (rule conjI[OF subsetD[OF users conjunct1[OF d]] conjunct2[OF d]])
qed

section \<open>Admission\<close>

lemma transport_annotations:
  assumes "transport_env lib c spec ov [] (ann, vols, w) = (Inr ext, (ann', vols', w'))"
  shows "map_of ann' OpenShiftReqSCCAnnotation = map_of ann OpenShiftReqSCCAnnotation"
proof -
  have k: "OpenShiftReqSCCAnnotation \<noteq> Annotation n" for n by (simp add: OpenShiftReqSCCAnnotation_def Annotation_def)
  note keep = k not_sym[OF k]
  have kafka: "map_of (fst st') OpenShiftReqSCCAnnotation = map_of (fst st) OpenShiftReqSCCAnnotation"
    if "kafka_env lib c spec st = (Inr kvs, st')" for st st' kvs
  proof -
    obtain r1 st1 where t: "kafka_tls_env lib c (spec_Kafka spec) st = (r1, st1)" by (metis prod.exhaust)
    obtain r2 st2 where u: "kafka_sasl_env lib c (spec_Kafka spec) st1 = (r2, st2)" by (metis prod.exhaust)
    from that t u obtain a b where r: "r1 = Inr a" "r2 = Inr b" "st2 = st'" by (cases r1; cases r2) (simp_all add: kafka_env_def)
    have "map_of (fst st1) OpenShiftReqSCCAnnotation = map_of (fst st) OpenShiftReqSCCAnnotation"
      using t r(1) by (auto simp: kafka_tls_env_def keep split: prod.splits sum.splits if_splits)
    moreover have "map_of (fst st2) OpenShiftReqSCCAnnotation = map_of (fst st1) OpenShiftReqSCCAnnotation"
      using u r(2) by (auto simp: kafka_sasl_env_def keep Let_def split: prod.splits sum.splits if_splits)
    ultimately show ?thesis using r(3) by simp
  qed
  have service: "map_of (fst st') OpenShiftReqSCCAnnotation = map_of (fst st) OpenShiftReqSCCAnnotation"
    if "service_tls_env lib c spec st = (Inr kvs, st')" for st st' kvs
    using that by (auto simp: service_tls_env_def keep Let_def split: prod.splits sum.splits if_splits option.splits)
  from assms show ?thesis
    by (cases rule: transport_cases) (use kafka service in fastforce)+
qed

lemma required_scc:
  assumes "desired_agent lib c spec vols w = (Inr ds, vols', w')" and "IsOpenShift (inst_ClusterInfo c)"
  shows "map_of (ads_PodAnnotations ds) OpenShiftReqSCCAnnotation = Some EBPFSecurityContext"
proof -
  obtain env ann vols1 where env: "envConfig lib c spec (agent_annotations c, vols, w) = (Inr env, (ann, vols1, w'))" and "ads_PodAnnotations ds = ann"
    using desired_agent_parts[OF assms(1)] by metis
  obtain ext where t: "transport_env lib c spec (user_env (agent_EBPF (spec_Agent spec))) [] (agent_annotations c, vols, w) = (Inr ext, (ann, vols1, w'))"
    using envConfig_parts[OF env] by metis
  show ?thesis using transport_annotations[OF t] assms(2) \<open>ads_PodAnnotations ds = ann\<close> by (simp add: agent_annotations_def)
qed

lemma permissions_store:
  assumes cl: "ac_scc cl = store_client own" and own: "sets_owner_only own" and wk: "well_keyed w" and o: "ours w ([], EBPFSecurityContext)"
  shows "\<exists>x w'. reconcileOpenshiftPermissions cl c e w = (None, w') \<and> w' ([], EBPFSecurityContext) = Some x \<and> key_of x = ([], EBPFSecurityContext)
    \<and> (obj_Body x = desired_scc c e \<or> \<not> scc_outdated (desired_scc c e) (obj_Body x))"
proof -
  let ?k = "([], EBPFSecurityContext)"
  let ?d = "\<lparr>obj_Meta = new_meta EBPFSecurityContext [] None None, obj_Body = desired_scc c e\<rparr>"
  have kd: "key_of ?d = ?k" by (simp add: key_of_def new_meta_def)
  note defs = reconcileOpenshiftPermissions_def cl store_client_def Let_def kd
  show ?thesis
  proof (cases "w ?k")
    case None
    then show ?thesis using own kd
      by (intro exI[of _ "AddManagedLabel (own ?d)"] exI[of _ "w(?k \<mapsto> AddManagedLabel (own ?d))"])
        (simp add: defs CreateOwned_def lift_error_def managed_facts own_facts)
  next
    case (Some x)
    then have x: "key_of x = ?k" "IsOwned x" using well_keyedD[OF wk Some] oursD[OF o Some] by simp_all
    let ?y = "AddManagedLabel (own (?d\<lparr>obj_Meta := (obj_Meta ?d)\<lparr>om_ResourceVersion := om_ResourceVersion (obj_Meta x)\<rparr>\<rparr>))"
    have y: "key_of ?y = ?k" "obj_Body ?y = desired_scc c e"
      unfolding managed_facts own_facts[OF own] by (simp_all add: key_of_def new_meta_def)
    show ?thesis
    proof (cases "scc_outdated (desired_scc c e) (obj_Body x)")
      case True
      then show ?thesis using Some x y
        by (intro exI[of _ ?y] exI[of _ "w(?k \<mapsto> ?y)"]) (simp add: defs UpdateIfOwned_def UpdateOwned_def)
    next
      case False
      then show ?thesis using Some x by (intro exI[of _ x] exI[of _ w]) (simp add: defs)
    qed
  qed
qed

text \<open>
  C9: on OpenShift, with a store that holds no foreign constraints under the name, the permissions reconcile without
  an error, the pods of the daemon set require the constraints by the name under which they are stored, and
  what is stored, whether created, updated or left as it was, admits the pods.
\<close>

theorem agent_pods_admitted:
  assumes "ac_scc cl = store_client own" and "sets_owner_only own" and "well_keyed w" and "ours w ([], EBPFSecurityContext)"
    and "IsOpenShift (inst_ClusterInfo c)" and "desired_agent lib c spec vols v = (Inr ds, vols', v')"
  shows "\<exists>x w'. reconcileVendorPermissions cl c (agent_EBPF (spec_Agent spec)) w = (None, w') \<and> w' ([], EBPFSecurityContext) = Some x
    \<and> map_of (ads_PodAnnotations ds) OpenShiftReqSCCAnnotation = Some (om_Name (obj_Meta x)) \<and> admits (PrivilegedNamespace c) (obj_Body x) ds"
proof -
  obtain x w' where x: "reconcileOpenshiftPermissions cl c (agent_EBPF (spec_Agent spec)) w = (None, w')" "w' ([], EBPFSecurityContext) = Some x"
    "key_of x = ([], EBPFSecurityContext)"
    and b: "obj_Body x = desired_scc c (agent_EBPF (spec_Agent spec)) \<or> \<not> scc_outdated (desired_scc c (agent_EBPF (spec_Agent spec))) (obj_Body x)"
    using permissions_store[OF assms(1-4), of c "agent_EBPF (spec_Agent spec)"] by (elim exE conjE)
  have "admits (PrivilegedNamespace c) (obj_Body x) ds"
    using b desired_scc_admits[OF assms(6)] uptodate_admits by (elim disjE) simp_all
  then show ?thesis using x required_scc[OF assms(6) assms(5)] assms(5)
    by (intro exI[of _ x] exI[of _ w']) (simp add: reconcileVendorPermissions_def key_of_def)
qed

text \<open>The only kind of object in this world is the constraints.\<close>

definition nothing_client :: "('b, 'w) k8s_client" where
  "nothing_client =
     \<lparr>cl_Get = (\<lambda>_ _. Inl NotFound), cl_Create = (\<lambda>_ w. (Some Conflict, w)), cl_Update = (\<lambda>_ w. (Some NotFound, w)),
      cl_Delete = (\<lambda>_ w. (Some NotFound, w)), cl_SetOwnerReference = Inr\<rparr>"

definition scc_clients :: "SecurityContextConstraints store agent_clients" where
  "scc_clients =
     \<lparr>ac_ds = nothing_client, ac_ns = nothing_client, ac_rb = nothing_client, ac_sa = nothing_client, ac_scc = store_client id,
      ac_svc = nothing_client, ac_sm = nothing_client, ac_rule = nothing_client, ac_bpf = nothing_client, ac_enqueue_svc = None\<rparr>"

theorem agent_pods_admitted_witness:
  "\<exists>ds vols' x w'. desired_agent demo_agent_lib demo_info demo_agent_spec [] (\<lambda>_. Map.empty) = (Inr ds, vols', \<lambda>_. Map.empty)
     \<and> reconcileVendorPermissions scc_clients demo_info (agent_EBPF (spec_Agent demo_agent_spec)) Map.empty = (None, w')
     \<and> w' ([], EBPFSecurityContext) = Some x \<and> map_of (ads_PodAnnotations ds) OpenShiftReqSCCAnnotation = Some (om_Name (obj_Meta x))
     \<and> admits (PrivilegedNamespace demo_info) (obj_Body x) ds"
proof -
  obtain ds vols' where ds: "desired_agent demo_agent_lib demo_info demo_agent_spec [] (\<lambda>_. Map.empty) = (Inr ds, vols', \<lambda>_. Map.empty)"
    using demo_agent_runs by (elim exE)
  have "\<exists>x w'. reconcileVendorPermissions scc_clients demo_info (agent_EBPF (spec_Agent demo_agent_spec)) Map.empty = (None, w')
    \<and> w' ([], EBPFSecurityContext) = Some x \<and> map_of (ads_PodAnnotations ds) OpenShiftReqSCCAnnotation = Some (om_Name (obj_Meta x))
    \<and> admits (PrivilegedNamespace demo_info) (obj_Body x) ds"
    by (rule agent_pods_admitted[OF _ id_sets_owner_only _ _ _ ds])
      (simp_all add: scc_clients_def well_keyed_def ours_def demo_info_def IsOpenShift_def HasOCPSecurity_def has_api_def)
  with ds show ?thesis by (elim exE conjE) (intro exI conjI)
qed

section \<open>Status\<close>

text \<open>Changes of the status that are confined to the agents and record no failure.\<close>

definition others_kept :: "Manager \<Rightarrow> Manager \<Rightarrow> bool" where
  "others_kept s s' \<longleftrightarrow> (\<forall>c. c \<noteq> EBPFAgents \<longrightarrow> statuses s' c = statuses s c)"

definition unfailed :: "Manager \<Rightarrow> bool" where
  "unfailed s \<longleftrightarrow> (case statuses s EBPFAgents of None \<Rightarrow> False | Some v \<Rightarrow> cs_Status v \<noteq> StatusFailure)"

definition agents_step :: "Manager \<Rightarrow> Manager \<Rightarrow> bool" where
  "agents_step s s' \<longleftrightarrow> others_kept s s' \<and> (unfailed s \<longrightarrow> unfailed s')"

lemma agents_step_refl [simp]: "agents_step s s"
  by (simp add: agents_step_def others_kept_def)

lemma agents_step_trans [trans]: "agents_step s s' \<Longrightarrow> agents_step s' s'' \<Longrightarrow> agents_step s s''"
  by (simp add: agents_step_def others_kept_def)

lemma worse_unfailed: "a \<noteq> StatusFailure \<Longrightarrow> b \<noteq> StatusFailure \<Longrightarrow> worse a b \<noteq> StatusFailure"
  by (simp add: worse_def)

lemma update_step:
  assumes "cs_Name other = EBPFAgents" "cs_Status other \<noteq> StatusFailure"
  shows "agents_step s (updateComponentStatus other s)"
proof -
  have "unfailed (updateComponentStatus other s)" if "unfailed s"
  proof -
    from that obtain v where v: "statuses s EBPFAgents = Some v" "cs_Status v \<noteq> StatusFailure" by (auto simp: unfailed_def split: option.splits)
    have "cs_Status (merge v other) \<noteq> StatusFailure" using worse_unfailed[OF v(2) assms(2)] assms(2) by (simp add: merge_Status)
    then show ?thesis using update_same[of s other v] assms(1) v(1) by (simp add: unfailed_def)
  qed
  then show ?thesis using assms(1) by (simp add: agents_step_def others_kept_def update_other)
qed

lemma set_steps:
  "agents_step s (setInProgress EBPFAgents r m s)" "agents_step s (setDegraded EBPFAgents r m s)" "agents_step s (setReady EBPFAgents s)"
  "agents_step s (setUnused EBPFAgents m s)" "agents_step s (setPodHealth EBPFAgents h s)"
  unfolding setInProgress_def setDegraded_def setReady_def setUnused_def setPodHealth_def
  by (rule update_step; simp add: mk_status_def)+

lemma replicas_step: "agents_step s (setDaemonSetReplicas EBPFAgents ds s)"
  by (simp add: setDaemonSetReplicas_def set_replicas_def agents_step_def others_kept_def unfailed_def getStatus_def split: option.split)

lemma progress_step: "agents_step s (CheckDaemonSetProgress EBPFAgents d s)"
  by (simp add: CheckDaemonSetProgress_def set_steps agents_step_trans[OF _ replicas_step] split: option.split)

lemma health_step: "agents_step s (CheckDaemonSetHealth pods EBPFAgents d s)"
  by (simp add: CheckDaemonSetHealth_def Let_def progress_step agents_step_trans[OF progress_step set_steps(5)] split: option.split)

lemma apply_step: "agents_step s (fst (snd (apply_agent ctl cur desired s w)))"
  by (simp add: apply_agent_def Let_def health_step set_steps SetCreatingDaemonSet_def split: ReconcileAction.split prod.split)

lemma hold_step: "agents_step s (fst (snd (hold_agent cl cur m s w)))"
  by (simp add: hold_agent_def Let_def set_steps split: option.split prod.split)

lemma apply_stepD: "apply_agent ctl cur desired s w = (e, s', w') \<Longrightarrow> agents_step s s'"
  using apply_step[of s ctl cur desired w] by simp

lemma deploy_step: "agents_step s (fst (snd (deploy_agent ctl lib c spec cur m s w)))"
  by (auto simp: deploy_agent_def Let_def dest: apply_stepD split: option.split prod.split list.split sum.split)

lemma reconcile_step: "agents_step s (fst (snd (agent_reconcile ctl lib c spec s w)))"
  using hold_step deploy_step by (auto simp: agent_reconcile_def Let_def split: option.split prod.split sum.split)

lemma reset_agents: "others_kept s (reset EBPFAgents s)" "unfailed (reset EBPFAgents s)"
  by (simp_all add: others_kept_def unfailed_def reset_def mk_status_def)

lemma failure_others: "others_kept s s' \<Longrightarrow> others_kept s (setFailure EBPFAgents r m s')"
  by (simp add: others_kept_def setFailure_def mk_status_def update_other)

lemma failure_entry:
  assumes "statuses s EBPFAgents = Some v"
  shows "\<exists>v'. statuses (setFailure EBPFAgents r m s) EBPFAgents = Some v' \<and> cs_Status v' = StatusFailure \<and> cs_Reason v' = r \<and> last (cs_Messages v') = m"
proof -
  let ?o = "mk_status EBPFAgents StatusFailure r [m]"
  have "statuses (setFailure EBPFAgents r m s) EBPFAgents = Some (merge v ?o)"
    using update_same[of s ?o v] assms by (simp add: setFailure_def mk_status_def)
  moreover have "cs_Status (merge v ?o) = StatusFailure" "cs_Reason (merge v ?o) = r" "last (cs_Messages (merge v ?o)) = m"
    by (cases "cs_Status v"; simp add: merge_def mk_status_def Let_def zero_health_def)+
  ultimately show ?thesis by simp
qed

text \<open>
  C10: a reconciliation of the agents changes the status of no other component; the status of the agents is a failure
  exactly when the run returns an error, then with the text of the error and a reason that tells a problem with Kafka from
  the others, whatever health checks were recorded on the way.
\<close>

theorem agent_failure_reported:
  "case agent_Reconcile ctl lib c spec s w of (r, s', w') \<Rightarrow>
     others_kept s s' \<and>
     (\<exists>v. statuses s' EBPFAgents = Some v
        \<and> (case r of None \<Rightarrow> cs_Status v \<noteq> StatusFailure
           | Some ex \<Rightarrow> cs_Status v = StatusFailure
               \<and> cs_Reason v = (if is_kafka_error ex then ''AgentKafkaError'' else ''AgentControllerError'')
               \<and> last (cs_Messages v) = ctl_text ctl ex))"
proof -
  obtain r s1 w1 where run: "agent_reconcile ctl lib c spec (reset EBPFAgents s) w = (r, s1, w1)" by (metis prod.exhaust)
  have step: "others_kept s s1" "unfailed s1"
    using reconcile_step[of "reset EBPFAgents s" ctl lib c spec w] run reset_agents[of s] by (simp_all add: agents_step_def others_kept_def)
  then obtain v where v: "statuses s1 EBPFAgents = Some v" "cs_Status v \<noteq> StatusFailure" by (auto simp: unfailed_def split: option.splits)
  then have "\<not> hasFailure s1 EBPFAgents" by (simp add: hasFailure_def)
  show ?thesis
  proof (cases r)
    case None
    then show ?thesis using run step v by (simp add: agent_Reconcile_def)
  next
    case (Some ex)
    let ?m = "if is_kafka_error ex then ''AgentKafkaError'' else ''AgentControllerError''"
    have "others_kept s (setFailure EBPFAgents ?m (ctl_text ctl ex) s1)" by (rule failure_others[OF step(1)])
    with failure_entry[OF v(1), of ?m "ctl_text ctl ex"] show ?thesis
      using run Some \<open>\<not> hasFailure s1 EBPFAgents\<close> by (simp only: agent_Reconcile_def prod.case option.case not_False_eq_True if_True simp_thms)
  qed
qed

section \<open>Three mistakes\<close>

text \<open>On hold the service account is removed when it is there, but put back by the next run.\<close>

lemma held_account_absent:
  "OnHold_spec spec \<Longrightarrow> cl_Get (ac_sa cl) (PrivilegedNamespace c, EBPFServiceAccount) w = Inl NotFound \<Longrightarrow>
   reconcileServiceAccount cl c spec w = CreateOwned (ac_sa cl) \<lparr>obj_Meta = new_meta EBPFServiceAccount (PrivilegedNamespace c) None None, obj_Body = ()\<rparr> w"
  by (simp add: reconcileServiceAccount_def key_of_def new_meta_def)

theorem held_account_recreated:
  assumes cl: "ac_sa cl = store_client own" and own: "sets_owner_only own" and hold: "OnHold_spec spec"
    and absent: "w (PrivilegedNamespace c, EBPFServiceAccount) = None"
  shows "\<exists>w'. reconcileServiceAccount cl c spec w = (None, w') \<and> w' (PrivilegedNamespace c, EBPFServiceAccount) \<noteq> None"
proof -
  let ?d = "\<lparr>obj_Meta = new_meta EBPFServiceAccount (PrivilegedNamespace c) None None, obj_Body = ()\<rparr>"
  have kd: "key_of ?d = (PrivilegedNamespace c, EBPFServiceAccount)" by (simp add: key_of_def new_meta_def)
  show ?thesis using absent own kd
    by (subst held_account_absent[OF hold]) (simp_all add: cl store_client_def CreateOwned_def lift_error_def managed_facts own_facts)
qed

text \<open>Advanced settings without a scheduling section are dereferenced when the programs are prepared.\<close>

theorem bpf_prepare_panics:
  "prepareBpfApplication little (zero_ebpf\<lparr>ebpf_Sampling := Some 50,
     ebpf_Advanced := Some \<lparr>aac_Env = Map.empty, aac_Scheduling = None, aac_CapOverride = []\<rparr>\<rparr>) img app = Inl NilDereference"
  by (simp add: prepareBpfApplication_def)

text \<open>
  The order to drop all capabilities, set for the BPF manager, stays when that feature is switched off: a nil slice is
  derived from anything.
\<close>

theorem stale_required_drop:
  assumes "\<not> IsEbpfManagerEnabled e"
  shows "scc_RequiredDropCapabilities (desired_scc c e) = []
    \<and> \<not> scc_outdated (desired_scc c e) ((desired_scc c e)\<lparr>scc_RequiredDropCapabilities := [''ALL'']\<rparr>)"
proof -
  have "deepEqual (opt_slice xs) (opt_slice xs)" for xs
    by (rule deepEqual_refl) (simp add: opt_slice_def str_slice_def list_all_iff split: option.split)
  then show ?thesis using assms by (simp add: scc_outdated_def desired_scc_def str_slice_def)
qed

end
