(* ===== verification/Alert_Rules.thy ===== *)
theory Alert_Rules
  imports FC_Validation Watchers
begin

text \<open>
  \<open>internal/pkg/metrics/alerts\<close>: the alerts and recording rules that are installed for the health rules of a FlowCollector,
  with their queries as text, and the part of the console's configuration that describes the recordings
  (\<open>fillHealthData\<close> of \<open>consoleplugin_objects.go\<close>). Floating-point parsing, product and truncation are parameters; errors are their
  text; logging is left out.
\<close>

section \<open>Contexts\<close>

datatype srcOrDst = NoSide | asSource | asDest

fun side_string :: "srcOrDst \<Rightarrow> string" where
  "side_string NoSide = []"
| "side_string asSource = ''Src''"
| "side_string asDest = ''Dst''"

fun template_string :: "HealthRuleTemplate \<Rightarrow> string" where
  "template_string AlertNoFlows = ''NetObservNoFlows''"
| "template_string AlertLokiError = ''NetObservLokiError''"
| "template_string HealthRulePacketDropsByKernel = ''PacketDropsByKernel''"
| "template_string HealthRulePacketDropsByDevice = ''PacketDropsByDevice''"
| "template_string HealthRuleIPsecErrors = ''IPsecErrors''"
| "template_string HealthRuleNetpolDenied = ''NetpolDenied''"
| "template_string HealthRuleLatencyHighTrend = ''LatencyHighTrend''"
| "template_string HealthRuleDNSErrors = ''DNSErrors''"
| "template_string HealthRuleDNSNxDomain = ''DNSNxDomain''"
| "template_string HealthRuleExternalEgressHighTrend = ''ExternalEgressHighTrend''"
| "template_string HealthRuleExternalIngressHighTrend = ''ExternalIngressHighTrend''"
| "template_string HealthRuleIngress5xxErrors = ''Ingress5xxErrors''"
| "template_string HealthRuleIngressHTTPLatencyTrend = ''IngressHTTPLatencyTrend''"
| "template_string HealthRuleTLSInsecureVersion = ''TLSInsecureVersion''"

fun group_string :: "HealthRuleGroupBy \<Rightarrow> string" where
  "group_string GroupByNone = []"
| "group_string GroupByNode = ''Node''"
| "group_string GroupByNamespace = ''Namespace''"
| "group_string GroupByWorkload = ''Workload''"

record recordingThresholds =
  rt_Info :: string
  rt_Warning :: string
  rt_Critical :: string

record ruleContext =
  rc_template :: HealthRuleTemplate
  rc_healthRule :: HealthRuleVariant
  rc_mode :: HealthRuleMode
  rc_enabledMetrics :: "string list"
  rc_side :: srcOrDst
  rc_severity :: string
  rc_alertThreshold :: string
  rc_recordingThresholds :: "recordingThresholds option"
  rc_upperThreshold :: string
  rc_duration :: string

record trafficLink =
  tl_ExtraFilter :: string
  tl_BackAndForth :: bool
  tl_FilterDestination :: bool

record healthAnnotation =
  ha_AlertThreshold :: string
  ha_RecordingThresholds :: "recordingThresholds option"
  ha_UpperBound :: string
  ha_Unit :: string
  ha_NodeLabels :: "string list"
  ha_NamespaceLabels :: "string list"
  ha_WorkloadLabels :: "string list"
  ha_KindLabels :: "string list"
  ha_TrafficLink :: "trafficLink option"

abbreviation rc_group :: "ruleContext \<Rightarrow> HealthRuleGroupBy" where
  "rc_group ctx \<equiv> var_GroupBy (rc_healthRule ctx)"

definition getLowestThreshold :: "ruleContext \<Rightarrow> string" where
  "getLowestThreshold ctx =
     (if rc_alertThreshold ctx \<noteq> [] then rc_alertThreshold ctx
      else case rc_recordingThresholds ctx of
        None \<Rightarrow> []
      | Some rt \<Rightarrow> if rt_Info rt \<noteq> [] then rt_Info rt else if rt_Warning rt \<noteq> [] then rt_Warning rt else rt_Critical rt)"

definition getHighestThreshold :: "ruleContext \<Rightarrow> string" where
  "getHighestThreshold ctx =
     (if rc_alertThreshold ctx \<noteq> [] then rc_alertThreshold ctx
      else case rc_recordingThresholds ctx of
        None \<Rightarrow> []
      | Some rt \<Rightarrow> if rt_Critical rt \<noteq> [] then rt_Critical rt else if rt_Warning rt \<noteq> [] then rt_Warning rt else rt_Info rt)"

definition newHealthAnnotation :: "ruleContext \<Rightarrow> healthAnnotation" where
  "newHealthAnnotation ctx =
     (let a = \<lparr>ha_AlertThreshold = rc_alertThreshold ctx, ha_RecordingThresholds = rc_recordingThresholds ctx, ha_UpperBound = [],
            ha_Unit = ''%'', ha_NodeLabels = [], ha_NamespaceLabels = [], ha_WorkloadLabels = [], ha_KindLabels = [], ha_TrafficLink = None\<rparr>
      in case rc_group ctx of
           GroupByNode \<Rightarrow> a\<lparr>ha_NodeLabels := [''node'']\<rparr>
         | GroupByNamespace \<Rightarrow> a\<lparr>ha_NamespaceLabels := [''namespace'']\<rparr>
         | GroupByWorkload \<Rightarrow> a\<lparr>ha_NamespaceLabels := [''namespace''], ha_WorkloadLabels := [''workload''], ha_KindLabels := [''kind'']\<rparr>
         | GroupByNone \<Rightarrow> a)"

text \<open>The floating-point operations that are called: \<open>ParseFloat\<close> (with its failure), product, conversion to an integer.\<close>

record float_ops =
  fo_Parse :: "string \<Rightarrow> float64 \<times> bool"
  fo_mul :: "float64 \<Rightarrow> float64 \<Rightarrow> float64"
  fo_int :: "float64 \<Rightarrow> int"

fun math_Max :: "float64 \<Rightarrow> float64 \<Rightarrow> float64" where
  "math_Max PosInf y = PosInf"
| "math_Max x PosInf = PosInf"
| "math_Max NaN y = NaN"
| "math_Max x NaN = NaN"
| "math_Max x y = (if f64_lt y x then x else y)"

definition CloseOpenScale :: "float_ops \<Rightarrow> ruleContext \<Rightarrow> float64 \<Rightarrow> healthAnnotation \<Rightarrow> healthAnnotation" where
  "CloseOpenScale fo ctx factor h =
     (let (v, failed) = fo_Parse fo (getHighestThreshold ctx); val = (if failed then Fin 100 else v)
      in h\<lparr>ha_UpperBound := itoa (fo_int fo (math_Max (fo_mul fo val factor) (Fin 100)))\<rparr>)"

definition buildRecordingRuleName :: "ruleContext \<Rightarrow> string \<Rightarrow> string \<Rightarrow> string" where
  "buildRecordingRuleName ctx prefix rateInterval =
     (if rc_mode ctx \<noteq> ModeRecording then []
      else str_join '':'' ([''netobserv'', ''health'', prefix]
        @ (if rc_group ctx \<noteq> GroupByNone then [to_lower (group_string (rc_group ctx))] else [])
        @ (if rc_group ctx \<noteq> GroupByNone \<and> rc_side ctx \<noteq> NoSide then [to_lower (side_string (rc_side ctx))] else [])
        @ [''rate'' @ rateInterval]))"

definition getAlertLegend :: "ruleContext \<Rightarrow> string" where
  "getAlertLegend ctx =
     (let sideText = (case rc_side ctx of asSource \<Rightarrow> ''source '' | asDest \<Rightarrow> ''dest. '' | NoSide \<Rightarrow> [])
      in case rc_group ctx of
           GroupByNode \<Rightarrow> '' ['' @ sideText @ ''node={{ $labels.node }}]''
         | GroupByNamespace \<Rightarrow> '' ['' @ sideText @ ''namespace={{ $labels.namespace }}]''
         | GroupByWorkload \<Rightarrow> '' ['' @ sideText @ ''workload={{ $labels.workload }} ({{ $labels.kind }})]''
         | GroupByNone \<Rightarrow> [])"

definition quoted :: "string \<Rightarrow> string" where
  "quoted s = [CHR 0x22] @ s @ [CHR 0x22]"

definition getPromQLFilters :: "ruleContext \<Rightarrow> string \<Rightarrow> string" where
  "getPromQLFilters ctx additionalFilter =
     (let side = side_string (rc_side ctx);
          filters = (case rc_group ctx of
              GroupByNode \<Rightarrow> [side @ ''K8S_HostName!='' @ quoted []]
            | GroupByNamespace \<Rightarrow> [side @ ''K8S_Namespace!='' @ quoted []]
            | GroupByWorkload \<Rightarrow> [side @ ''K8S_Namespace!='' @ quoted [], side @ ''K8S_OwnerName!='' @ quoted [], side @ ''K8S_OwnerType!='' @ quoted []]
            | GroupByNone \<Rightarrow> []) @ (if additionalFilter \<noteq> [] then [additionalFilter] else [])
      in if filters = [] then [] else ''{'' @ str_join '','' filters @ ''}'')"

definition getMetricsForRule :: "ruleContext \<Rightarrow> string \<times> string" where
  "getMetricsForRule ctx =
     (let (req1, req2) = GetElligibleMetricsForAlert (rc_template ctx) (rc_healthRule ctx)
      in (if req1 \<noteq> [] then GetFirstRequiredMetrics req1 (rc_enabledMetrics ctx) else [],
          if req2 \<noteq> [] then GetFirstRequiredMetrics req2 (rc_enabledMetrics ctx) else []))"

section \<open>Queries\<close>

definition promQLRateFromMetric :: "string \<Rightarrow> string \<Rightarrow> string \<Rightarrow> string \<Rightarrow> string \<Rightarrow> string" where
  "promQLRateFromMetric metric suffix filters interval offset =
     ''rate(netobserv_'' @ metric @ suffix @ filters @ ''['' @ interval @ '']'' @ offset @ '')''"

text \<open>The labels of flows by which a group sums, each with its name in the result.\<close>

definition group_labels :: "HealthRuleGroupBy \<Rightarrow> srcOrDst \<Rightarrow> (string \<times> string) list" where
  "group_labels g s =
     (case g of
        GroupByNode \<Rightarrow> [(side_string s @ ''K8S_HostName'', ''node'')]
      | GroupByNamespace \<Rightarrow> [(side_string s @ ''K8S_Namespace'', ''namespace'')]
      | GroupByWorkload \<Rightarrow> [(side_string s @ ''K8S_Namespace'', ''namespace''), (side_string s @ ''K8S_OwnerName'', ''workload''),
          (side_string s @ ''K8S_OwnerType'', ''kind'')]
      | GroupByNone \<Rightarrow> [])"

definition label_replace :: "string \<Rightarrow> string \<times> string \<Rightarrow> string" where
  "label_replace q io =
     ''label_replace('' @ q @ '', '' @ quoted (snd io) @ '', '' @ quoted ''$1'' @ '', '' @ quoted (fst io) @ '', '' @ quoted ''(.*)'' @ '')''"

definition sumBy :: "string \<Rightarrow> HealthRuleGroupBy \<Rightarrow> srcOrDst \<Rightarrow> string \<Rightarrow> string" where
  "sumBy promQL g s extraLabel =
     (let ls = group_labels g s in
      if ls \<noteq> [] then
        (let joined = str_join '','' (map snd ls) @ (if extraLabel \<noteq> [] then '','' @ extraLabel else [])
         in ''sum('' @ foldl label_replace promQL ls @ '') by ('' @ joined @ '')'')
      else if extraLabel \<noteq> [] then ''sum('' @ promQL @ '') by ('' @ extraLabel @ '')''
      else ''sum('' @ promQL @ '')'')"

definition histogramQuantile :: "string \<Rightarrow> HealthRuleGroupBy \<Rightarrow> srcOrDst \<Rightarrow> string \<Rightarrow> string" where
  "histogramQuantile promQL g s quantile = ''histogram_quantile('' @ quantile @ '', '' @ sumBy promQL g s ''le'' @ '')''"

definition percentagePromQL :: "string \<Rightarrow> string \<Rightarrow> string \<Rightarrow> string \<Rightarrow> string \<Rightarrow> string" where
  "percentagePromQL metricSum totalSum threshold upper lowVolume =
     (let calc = ''100 * ('' @ metricSum @ '') / ('' @ totalSum @ '')'' in
      if threshold = [] then calc
      else str_join '' and '' ([calc @ '' > '' @ threshold]
        @ (if upper \<noteq> [] then [calc @ '' < '' @ upper] else [])
        @ (if lowVolume \<noteq> [] then [''('' @ totalSum @ '') * avg(netobserv_agent_sampling_rate > 0)'' @ '' > '' @ lowVolume] else [])))"

definition baselineIncreasePromQL :: "string \<Rightarrow> string \<Rightarrow> string \<Rightarrow> string \<Rightarrow> string" where
  "baselineIncreasePromQL metric baseline threshold upper =
     (let calc = ''100 * (('' @ metric @ '') - ('' @ baseline @ '')) / ('' @ baseline @ '')'' in
      if threshold = [] then calc
      else calc @ '' > '' @ threshold @ (if upper \<noteq> [] then '' < '' @ upper else []))"

section \<open>Annotations and labels\<close>

definition json_member :: "string \<Rightarrow> string \<Rightarrow> string" where
  "json_member key v = json_string key @ '':'' @ v"

definition json_object :: "string list \<Rightarrow> string" where
  "json_object members = ''{'' @ str_join '','' members @ ''}''"

definition json_text :: "string \<Rightarrow> string \<Rightarrow> string list" where
  "json_text key v = (if v = [] then [] else [json_member key (json_string v)])"

definition json_texts :: "string \<Rightarrow> string list \<Rightarrow> string list" where
  "json_texts key vs = (if vs = [] then [] else [json_member key (''['' @ str_join '','' (map json_string vs) @ '']'')])"

definition json_flag :: "string \<Rightarrow> bool \<Rightarrow> string" where
  "json_flag key b = json_member key (if b then ''true'' else ''false'')"

definition encodeHealthAnnotation :: "healthAnnotation \<Rightarrow> string" where
  "encodeHealthAnnotation h = json_object
     (json_text ''alertThreshold'' (ha_AlertThreshold h)
      @ (case ha_RecordingThresholds h of None \<Rightarrow> []
         | Some rt \<Rightarrow> [json_member ''recordingThresholds'' (json_object
             (json_text ''info'' (rt_Info rt) @ json_text ''warning'' (rt_Warning rt) @ json_text ''critical'' (rt_Critical rt)))])
      @ json_text ''upperBound'' (ha_UpperBound h) @ json_text ''unit'' (ha_Unit h)
      @ json_texts ''nodeLabels'' (ha_NodeLabels h) @ json_texts ''namespaceLabels'' (ha_NamespaceLabels h)
      @ json_texts ''workloadLabels'' (ha_WorkloadLabels h) @ json_texts ''kindLabels'' (ha_KindLabels h)
      @ (case ha_TrafficLink h of None \<Rightarrow> []
         | Some l \<Rightarrow> [json_member ''trafficLink'' (json_object
             [json_member ''extraFilter'' (json_string (tl_ExtraFilter l)), json_flag ''backAndForth'' (tl_BackAndForth l),
              json_flag ''filterDestination'' (tl_FilterDestination l)])]))"

definition healthAnnotationKey :: string where "healthAnnotationKey = ''netobserv_io_network_health''"

definition runbookURLBase :: string where
  "runbookURLBase = ''https://github.com/openshift/runbooks/blob/master/alerts/network-observability-operator''"

definition BuildRunbookURL :: "HealthRuleTemplate \<Rightarrow> string" where
  "BuildRunbookURL t = runbookURLBase @ ''/'' @ template_string t @ ''.md''"

definition buildLabels :: "HealthRuleTemplate \<Rightarrow> string \<Rightarrow> bool \<Rightarrow> go_map" where
  "buildLabels t severity forHealth =
     [(''template'', template_string t), (''app'', ''netobserv'')]
     @ (if severity \<noteq> [] then [(''severity'', severity)] else [])
     @ (if forHealth then [(''netobserv'', ''true'')] else [])"

text \<open>The four annotations of every rule.\<close>

definition health_annotations :: "ruleContext \<Rightarrow> string \<Rightarrow> string \<Rightarrow> healthAnnotation \<Rightarrow> go_map" where
  "health_annotations ctx summary description h =
     [(''summary'', summary), (''description'', description), (''runbook_url'', BuildRunbookURL (rc_template ctx)),
      (healthAnnotationKey, encodeHealthAnnotation h)]"

section \<open>Annotations per rule\<close>

type_synonym annotated = "string + go_map"

definition deviceDrops_GetAnnotations :: "ruleContext \<Rightarrow> annotated" where
  "deviceDrops_GetAnnotations ctx =
     (let finish = (\<lambda>h legend. Inr (health_annotations ctx ''Too many drops from device''
            (''node-exporter is reporting more than '' @ getLowestThreshold ctx @ ''% of dropped packets'' @ legend @ ''.'') h))
      in case rc_group ctx of
           GroupByNode \<Rightarrow> finish ((newHealthAnnotation ctx)\<lparr>ha_NodeLabels := [''instance'']\<rparr>) '' [node={{ $labels.instance }}]''
         | GroupByNamespace \<Rightarrow> Inl ''PacketDropsByDevice health rule does not support grouping per namespace''
         | GroupByWorkload \<Rightarrow> Inl ''PacketDropsByDevice health rule does not support grouping per workload''
         | GroupByNone \<Rightarrow> finish (newHealthAnnotation ctx) [])"

definition dnsErrors_GetAnnotations :: "ruleContext \<Rightarrow> annotated" where
  "dnsErrors_GetAnnotations ctx = Inr (health_annotations ctx ''Too many DNS errors''
     (''NetObserv is detecting more than '' @ getLowestThreshold ctx @ ''% of DNS errors'' @ getAlertLegend ctx @ '' (other than NX_DOMAIN).'')
     ((newHealthAnnotation ctx)\<lparr>ha_TrafficLink :=
        Some \<lparr>tl_ExtraFilter = ''dns_flag_response_code!='' @ quoted ''NoError,NXDomain'', tl_BackAndForth = False, tl_FilterDestination = True\<rparr>\<rparr>))"

definition dnsNxDomain_GetAnnotations :: "ruleContext \<Rightarrow> annotated" where
  "dnsNxDomain_GetAnnotations ctx = Inr (health_annotations ctx ''Too many DNS NX_DOMAIN errors''
     (''NetObserv is detecting more than '' @ getLowestThreshold ctx @ ''% of DNS NX_DOMAIN errors'' @ getAlertLegend ctx @ ''.'')
     ((newHealthAnnotation ctx)\<lparr>ha_TrafficLink :=
        Some \<lparr>tl_ExtraFilter = ''dns_flag_response_code='' @ quoted ''NXDomain'', tl_BackAndForth = False, tl_FilterDestination = True\<rparr>\<rparr>))"

definition externalTrend_GetAnnotations :: "float_ops \<Rightarrow> ruleContext \<Rightarrow> bool \<Rightarrow> annotated" where
  "externalTrend_GetAnnotations fo ctx ingress =
     (let direction = (if ingress then ''ingress'' else ''egress'');
          link = (if ingress then ''src_subnet_label='' else ''dst_subnet_label='') @ quoted [] @ '',EXT:'';
          h = CloseOpenScale fo ctx (Fin 5) (newHealthAnnotation ctx)
      in Inr (health_annotations ctx (''External '' @ direction @ '' traffic increase'')
           (''NetObserv is detecting external '' @ direction @ '' traffic increased by more than '' @ getLowestThreshold ctx @ ''%'' @ getAlertLegend ctx
            @ '', compared to baseline (offset: '' @ fst (GetTrendParams (rc_healthRule ctx)) @ '').'')
           (h\<lparr>ha_TrafficLink := Some \<lparr>tl_ExtraFilter = link, tl_BackAndForth = True, tl_FilterDestination = (rc_side ctx = asDest)\<rparr>\<rparr>)))"

definition ingressErrors_GetAnnotations :: "ruleContext \<Rightarrow> annotated" where
  "ingressErrors_GetAnnotations ctx =
     (let finish = (\<lambda>legend. Inr (health_annotations ctx ''Too many ingress 5xx errors''
            (''HAProxy is reporting more than '' @ getLowestThreshold ctx @ ''% of 5xx HTTP response codes from ingress traffic'' @ legend @ ''.'')
            (newHealthAnnotation ctx)))
      in case rc_group ctx of
           GroupByNode \<Rightarrow> Inl ''Ingress5xxErrors health rule does not support grouping per node''
         | GroupByNamespace \<Rightarrow> finish '' [namespace={{ $labels.namespace }}]''
         | GroupByWorkload \<Rightarrow> Inl ''Ingress5xxErrors health rule does not support grouping per workload''
         | GroupByNone \<Rightarrow> finish [])"

definition ingressHTTPLatencyTrend_GetAnnotations :: "float_ops \<Rightarrow> ruleContext \<Rightarrow> annotated" where
  "ingressHTTPLatencyTrend_GetAnnotations fo ctx =
     (let finish = (\<lambda>legend. Inr (health_annotations ctx ''Ingress HTTP latency increased''
            (''HAProxy ingress average HTTP response latency increased by more than '' @ getLowestThreshold ctx @ ''%'' @ legend
             @ '', compared to baseline (offset: '' @ fst (GetTrendParams (rc_healthRule ctx)) @ '').'')
            (CloseOpenScale fo ctx (Fin 5) (newHealthAnnotation ctx))))
      in case rc_group ctx of
           GroupByNode \<Rightarrow> Inl ''IngressHTTPLatencyTrend health rule does not support grouping per node''
         | GroupByNamespace \<Rightarrow> finish '' [namespace={{ $labels.namespace }}]''
         | GroupByWorkload \<Rightarrow> Inl ''IngressHTTPLatencyTrend health rule does not support grouping per workload''
         | GroupByNone \<Rightarrow> finish [])"

definition ipsecErrors_GetAnnotations :: "ruleContext \<Rightarrow> annotated" where
  "ipsecErrors_GetAnnotations ctx = Inr (health_annotations ctx ''Too many IPsec errors''
     (''NetObserv is detecting more than '' @ getLowestThreshold ctx @ ''% of IPsec errors'' @ getAlertLegend ctx @ ''.'') (newHealthAnnotation ctx))"

definition kernelDrops_GetAnnotations :: "ruleContext \<Rightarrow> annotated" where
  "kernelDrops_GetAnnotations ctx = Inr (health_annotations ctx ''Too many packets dropped by the kernel''
     (''NetObserv is detecting more than '' @ getLowestThreshold ctx @ ''% of packets dropped by the kernel'' @ getAlertLegend ctx @ ''.'')
     (newHealthAnnotation ctx))"

definition latencyTrend_GetAnnotations :: "float_ops \<Rightarrow> ruleContext \<Rightarrow> annotated" where
  "latencyTrend_GetAnnotations fo ctx = Inr (health_annotations ctx ''TCP latency increase''
     (''NetObserv is detecting TCP latency increased by more than '' @ getLowestThreshold ctx @ ''%'' @ getAlertLegend ctx
      @ '', compared to baseline (offset: '' @ fst (GetTrendParams (rc_healthRule ctx)) @ '').'')
     (CloseOpenScale fo ctx (Fin 5) (newHealthAnnotation ctx)))"

definition netpolDenied_GetAnnotations :: "ruleContext \<Rightarrow> annotated" where
  "netpolDenied_GetAnnotations ctx = Inr (health_annotations ctx ''Traffic denied by Network Policies''
     (''NetObserv is detecting more than '' @ getLowestThreshold ctx @ ''% of denied traffic due to Network Policies'' @ getAlertLegend ctx @ ''.'')
     (newHealthAnnotation ctx))"

definition tlsInsecureVersion_GetAnnotations :: "ruleContext \<Rightarrow> annotated" where
  "tlsInsecureVersion_GetAnnotations ctx = Inr (health_annotations ctx ''Insecure TLS version detected''
     (''NetObserv is detecting more than '' @ getLowestThreshold ctx
      @ ''% of traffic using insecure TLS versions (TLS 1.0, TLS 1.1, or SSL)'' @ getAlertLegend ctx @ ''.'')
     ((newHealthAnnotation ctx)\<lparr>ha_TrafficLink :=
        Some \<lparr>tl_ExtraFilter = ''tls_version='' @ quoted ''TLS 1.0,TLS 1.1,SSL 2.0,SSL 3.0'', tl_BackAndForth = True, tl_FilterDestination = False\<rparr>\<rparr>))"

section \<open>Rules\<close>

datatype health_rule =
  deviceDrops ruleContext | kernelDrops ruleContext | ipsecErrors ruleContext | dnsErrors ruleContext | dnsNxDomain ruleContext
| netpolDenied ruleContext | latencyTrend ruleContext | externalTrend ruleContext bool | ingressErrors ruleContext
| ingressHTTPLatencyTrend ruleContext | tlsInsecureVersion ruleContext

fun RecordingName :: "health_rule \<Rightarrow> string" where
  "RecordingName (deviceDrops ctx) = buildRecordingRuleName ctx ''packet_drops_device'' ''2m''"
| "RecordingName (kernelDrops ctx) = buildRecordingRuleName ctx ''packet_drops_kernel'' ''2m''"
| "RecordingName (ipsecErrors ctx) = buildRecordingRuleName ctx ''ipsec_errors'' ''2m''"
| "RecordingName (dnsErrors ctx) = buildRecordingRuleName ctx ''dns_errors'' ''2m''"
| "RecordingName (dnsNxDomain ctx) = buildRecordingRuleName ctx ''dns_nxdomain'' ''2m''"
| "RecordingName (netpolDenied ctx) = buildRecordingRuleName ctx ''netpol_denied'' ''2m''"
| "RecordingName (latencyTrend ctx) = buildRecordingRuleName ctx ''tcp_latency_increase_p90'' ''2m''"
| "RecordingName (externalTrend ctx ingress) =
     buildRecordingRuleName ctx (if ingress then ''external_ingress'' else ''external_egress'') ''2m''"
| "RecordingName (ingressErrors ctx) = buildRecordingRuleName ctx ''ingress_5xx_errors'' ''2m''"
| "RecordingName (ingressHTTPLatencyTrend ctx) = buildRecordingRuleName ctx ''ingress_http_latency_increase_avg'' ''2m''"
| "RecordingName (tlsInsecureVersion ctx) = buildRecordingRuleName ctx ''tls_insecure_version'' ''2m''"

fun GetAnnotations :: "float_ops \<Rightarrow> health_rule \<Rightarrow> annotated" where
  "GetAnnotations fo (deviceDrops ctx) = deviceDrops_GetAnnotations ctx"
| "GetAnnotations fo (kernelDrops ctx) = kernelDrops_GetAnnotations ctx"
| "GetAnnotations fo (ipsecErrors ctx) = ipsecErrors_GetAnnotations ctx"
| "GetAnnotations fo (dnsErrors ctx) = dnsErrors_GetAnnotations ctx"
| "GetAnnotations fo (dnsNxDomain ctx) = dnsNxDomain_GetAnnotations ctx"
| "GetAnnotations fo (netpolDenied ctx) = netpolDenied_GetAnnotations ctx"
| "GetAnnotations fo (latencyTrend ctx) = latencyTrend_GetAnnotations fo ctx"
| "GetAnnotations fo (externalTrend ctx ingress) = externalTrend_GetAnnotations fo ctx ingress"
| "GetAnnotations fo (ingressErrors ctx) = ingressErrors_GetAnnotations ctx"
| "GetAnnotations fo (ingressHTTPLatencyTrend ctx) = ingressHTTPLatencyTrend_GetAnnotations fo ctx"
| "GetAnnotations fo (tlsInsecureVersion ctx) = tlsInsecureVersion_GetAnnotations ctx"

record monitoring_rule =
  mr_Record :: string
  mr_Alert :: string
  mr_Expr :: string
  mr_For :: "string option"
  mr_Annotations :: go_map
  mr_Labels :: go_map

text \<open>The severity of an alert is one of three words, so never empty; its first letter is put in upper case.\<close>

definition capital :: "string \<Rightarrow> string" where
  "capital s = (case s of [] \<Rightarrow> [] | c # cs \<Rightarrow> (let n = of_char c :: nat in if 97 \<le> n \<and> n \<le> 122 then char_of (n - 32) else c) # cs)"

definition createRule :: "float_ops \<Rightarrow> ruleContext \<Rightarrow> health_rule \<Rightarrow> string \<Rightarrow> string + monitoring_rule option" where
  "createRule fo ctx r promQL =
     (if rc_mode ctx = ModeRecording then
        Inr (Some \<lparr>mr_Record = RecordingName r, mr_Alert = [], mr_Expr = promQL, mr_For = None, mr_Annotations = [],
          mr_Labels = buildLabels (rc_template ctx) [] True\<rparr>)
      else case GetAnnotations fo r of
        Inl e \<Rightarrow> Inl e
      | Inr ann \<Rightarrow>
          (let gr = (if rc_group ctx \<noteq> GroupByNone then ''Per'' @ side_string (rc_side ctx) @ group_string (rc_group ctx) else [])
           in Inr (Some \<lparr>mr_Record = [], mr_Alert = template_string (rc_template ctx) @ ''_'' @ gr @ capital (rc_severity ctx),
                mr_Expr = promQL, mr_For = Some (rc_duration ctx), mr_Annotations = ann,
                mr_Labels = buildLabels (rc_template ctx) (rc_severity ctx) True\<rparr>)))"

text \<open>The query that six of the rules share: the rate of one metric in percent of the rate of another.\<close>

definition ratio_query :: "ruleContext \<Rightarrow> string \<Rightarrow> string \<Rightarrow> string" where
  "ratio_query ctx filter1 filter2 =
     (let (metric, totalMetric) = getMetricsForRule ctx;
          summed = (\<lambda>rate. sumBy rate (rc_group ctx) (rc_side ctx) [])
      in percentagePromQL (summed (promQLRateFromMetric metric [] filter1 ''2m'' [])) (summed (promQLRateFromMetric totalMetric [] filter2 ''2m'' []))
           (rc_alertThreshold ctx) (rc_upperThreshold ctx) (var_LowVolumeThreshold (rc_healthRule ctx)))"

definition deviceDrops_Build :: "float_ops \<Rightarrow> ruleContext \<Rightarrow> string + monitoring_rule option" where
  "deviceDrops_Build fo ctx =
     (if rc_side ctx = asDest then Inr None
      else let ctx = ctx\<lparr>rc_side := NoSide\<rparr>;
               finish = (\<lambda>byLabels. createRule fo ctx (deviceDrops ctx) (percentagePromQL
                 (''sum(rate(node_network_receive_drop_total[2m]))'' @ byLabels @ '' + sum(rate(node_network_transmit_drop_total[2m]))'' @ byLabels)
                 (''sum(rate(node_network_receive_packets_total[2m]))'' @ byLabels @ '' + sum(rate(node_network_transmit_packets_total[2m]))'' @ byLabels)
                 (rc_alertThreshold ctx) (rc_upperThreshold ctx) (var_LowVolumeThreshold (rc_healthRule ctx))))
           in case rc_group ctx of
                GroupByNode \<Rightarrow> finish '' by (instance)''
              | GroupByNamespace \<Rightarrow> Inl ''PacketDropsByDevice health rule does not support grouping per namespace''
              | GroupByWorkload \<Rightarrow> Inl ''PacketDropsByDevice health rule does not support grouping per workload''
              | GroupByNone \<Rightarrow> finish [])"

definition dnsErrors_Build :: "float_ops \<Rightarrow> ruleContext \<Rightarrow> string + monitoring_rule option" where
  "dnsErrors_Build fo ctx =
     (if rc_side ctx = asSource then Inr None
      else createRule fo ctx (dnsErrors ctx)
        (ratio_query ctx (getPromQLFilters ctx (''DnsFlagsResponseCode!~'' @ quoted ''NoError|NXDomain'')) (getPromQLFilters ctx [])))"

definition dnsNxDomain_Build :: "float_ops \<Rightarrow> ruleContext \<Rightarrow> string + monitoring_rule option" where
  "dnsNxDomain_Build fo ctx =
     (if rc_side ctx = asSource then Inr None
      else createRule fo ctx (dnsNxDomain ctx)
        (ratio_query ctx (getPromQLFilters ctx (''DnsFlagsResponseCode='' @ quoted ''NXDomain'')) (getPromQLFilters ctx [])))"

definition external_filter :: "string \<Rightarrow> string" where
  "external_filter e =
     e @ ''SubnetLabel=~'' @ quoted ''|EXT:.*'' @ '','' @ e @ ''K8S_Namespace='' @ quoted [] @ '','' @ e @ ''K8S_OwnerName='' @ quoted []"

definition externalTrend_Build :: "float_ops \<Rightarrow> ruleContext \<Rightarrow> bool \<Rightarrow> string + monitoring_rule option" where
  "externalTrend_Build fo ctx ingress =
     (if rc_side ctx = asSource \<and> ingress then Inr None
      else if rc_side ctx = asDest \<and> \<not> ingress then Inr None
      else let (offset, duration) = GetTrendParams (rc_healthRule ctx);
               (metric, baseline) = getMetricsForRule ctx;
               flt = getPromQLFilters ctx (external_filter (if ingress then ''Src'' else ''Dst''));
               summed = (\<lambda>rate. sumBy rate (rc_group ctx) (rc_side ctx) [])
           in createRule fo ctx (externalTrend ctx ingress) (baselineIncreasePromQL
                (summed (promQLRateFromMetric metric [] flt ''2m'' [])) (summed (promQLRateFromMetric baseline [] flt duration ('' offset '' @ offset)))
                (rc_alertThreshold ctx) (rc_upperThreshold ctx)))"

definition by_exported_namespace :: "string \<Rightarrow> string \<Rightarrow> string" where
  "by_exported_namespace agg q = agg @ ''('' @ label_replace q (''exported_namespace'', ''namespace'') @ '') by (namespace)''"

definition ingressErrors_Build :: "float_ops \<Rightarrow> ruleContext \<Rightarrow> string + monitoring_rule option" where
  "ingressErrors_Build fo ctx =
     (if rc_side ctx = asDest then Inr None
      else let errs = ''rate(haproxy_server_http_responses_total{code='' @ quoted ''5xx'' @ ''}[2m])'';
               total = ''rate(haproxy_server_http_responses_total[2m])'';
               summed = (\<lambda>q. if rc_group ctx = GroupByNamespace then by_exported_namespace ''sum'' q else ''sum('' @ q @ '')'')
           in createRule fo ctx (ingressErrors ctx)
                (percentagePromQL (summed errs) (summed total) (rc_alertThreshold ctx) (rc_upperThreshold ctx) (var_LowVolumeThreshold (rc_healthRule ctx))))"

definition ingressHTTPLatencyTrend_Build :: "float_ops \<Rightarrow> ruleContext \<Rightarrow> string + monitoring_rule option" where
  "ingressHTTPLatencyTrend_Build fo ctx =
     (if rc_side ctx = asDest then Inr None
      else let metric = ''haproxy_server_http_average_response_latency_milliseconds'';
               baseline = metric @ '' offset '' @ fst (GetTrendParams (rc_healthRule ctx));
               summed = (\<lambda>q. if rc_group ctx = GroupByNamespace then by_exported_namespace ''avg'' q else ''avg('' @ q @ '')'')
           in createRule fo ctx (ingressHTTPLatencyTrend ctx)
                (baselineIncreasePromQL (summed metric) (summed baseline) (rc_alertThreshold ctx) (rc_upperThreshold ctx)))"

definition ipsecErrors_Build :: "float_ops \<Rightarrow> ruleContext \<Rightarrow> string + monitoring_rule option" where
  "ipsecErrors_Build fo ctx = createRule fo ctx (ipsecErrors ctx) (ratio_query ctx (getPromQLFilters ctx []) (getPromQLFilters ctx []))"

definition kernelDrops_Build :: "float_ops \<Rightarrow> ruleContext \<Rightarrow> string + monitoring_rule option" where
  "kernelDrops_Build fo ctx = createRule fo ctx (kernelDrops ctx) (ratio_query ctx (getPromQLFilters ctx []) (getPromQLFilters ctx []))"

definition latencyTrend_Build :: "float_ops \<Rightarrow> ruleContext \<Rightarrow> string + monitoring_rule option" where
  "latencyTrend_Build fo ctx =
     (let (offset, duration) = GetTrendParams (rc_healthRule ctx);
          (metric, baseline) = getMetricsForRule ctx;
          flt = getPromQLFilters ctx [];
          p90 = (\<lambda>rate. histogramQuantile rate (rc_group ctx) (rc_side ctx) ''0.9'')
      in createRule fo ctx (latencyTrend ctx) (baselineIncreasePromQL
           (p90 (promQLRateFromMetric metric ''_bucket'' flt ''2m'' []))
           (p90 (promQLRateFromMetric baseline ''_bucket'' flt duration ('' offset '' @ offset)))
           (rc_alertThreshold ctx) (rc_upperThreshold ctx)))"

definition netpolDenied_Build :: "float_ops \<Rightarrow> ruleContext \<Rightarrow> string + monitoring_rule option" where
  "netpolDenied_Build fo ctx = createRule fo ctx (netpolDenied ctx)
     (ratio_query ctx (getPromQLFilters ctx (''action='' @ quoted ''drop'')) (getPromQLFilters ctx []))"

text \<open>The raw string of the source has two backslashes before each dot.\<close>

definition insecure_versions :: string where
  "insecure_versions = ''TLS 1'' @ [CHR 0x5C, CHR 0x5C] @ ''.0|TLS 1'' @ [CHR 0x5C, CHR 0x5C] @ ''.1|SSL.*''"

definition tlsInsecureVersion_Build :: "float_ops \<Rightarrow> ruleContext \<Rightarrow> string + monitoring_rule option" where
  "tlsInsecureVersion_Build fo ctx = createRule fo ctx (tlsInsecureVersion ctx)
     (ratio_query ctx (getPromQLFilters ctx (''TLSVersion=~'' @ quoted insecure_versions)) (getPromQLFilters ctx (''TLSVersion!='' @ quoted [])))"

fun Build :: "float_ops \<Rightarrow> health_rule \<Rightarrow> string + monitoring_rule option" where
  "Build fo (deviceDrops ctx) = deviceDrops_Build fo ctx"
| "Build fo (kernelDrops ctx) = kernelDrops_Build fo ctx"
| "Build fo (ipsecErrors ctx) = ipsecErrors_Build fo ctx"
| "Build fo (dnsErrors ctx) = dnsErrors_Build fo ctx"
| "Build fo (dnsNxDomain ctx) = dnsNxDomain_Build fo ctx"
| "Build fo (netpolDenied ctx) = netpolDenied_Build fo ctx"
| "Build fo (latencyTrend ctx) = latencyTrend_Build fo ctx"
| "Build fo (externalTrend ctx ingress) = externalTrend_Build fo ctx ingress"
| "Build fo (ingressErrors ctx) = ingressErrors_Build fo ctx"
| "Build fo (ingressHTTPLatencyTrend ctx) = ingressHTTPLatencyTrend_Build fo ctx"
| "Build fo (tlsInsecureVersion ctx) = tlsInsecureVersion_Build fo ctx"

fun rule_of :: "HealthRuleTemplate \<Rightarrow> (ruleContext \<Rightarrow> health_rule) option" where
  "rule_of HealthRulePacketDropsByDevice = Some deviceDrops"
| "rule_of HealthRulePacketDropsByKernel = Some kernelDrops"
| "rule_of HealthRuleIPsecErrors = Some ipsecErrors"
| "rule_of HealthRuleDNSErrors = Some dnsErrors"
| "rule_of HealthRuleDNSNxDomain = Some dnsNxDomain"
| "rule_of HealthRuleNetpolDenied = Some netpolDenied"
| "rule_of HealthRuleLatencyHighTrend = Some latencyTrend"
| "rule_of HealthRuleExternalEgressHighTrend = Some (\<lambda>ctx. externalTrend ctx False)"
| "rule_of HealthRuleExternalIngressHighTrend = Some (\<lambda>ctx. externalTrend ctx True)"
| "rule_of HealthRuleIngress5xxErrors = Some ingressErrors"
| "rule_of HealthRuleIngressHTTPLatencyTrend = Some ingressHTTPLatencyTrend"
| "rule_of HealthRuleTLSInsecureVersion = Some tlsInsecureVersion"
| "rule_of AlertLokiError = None"
| "rule_of AlertNoFlows = None"

definition toRule :: "ruleContext \<Rightarrow> health_rule option" where
  "toRule ctx = map_option (\<lambda>mk. mk ctx) (rule_of (rc_template ctx))"

section \<open>The rules of a FlowCollector\<close>

definition rule_sides :: "HealthRuleVariant \<Rightarrow> srcOrDst list" where
  "rule_sides v = (if var_GroupBy v = GroupByNone then [NoSide] else [asSource, asDest])"

text \<open>The loop over the severities, with the upper threshold left by the last one that is set.\<close>

fun alert_contexts :: "ruleContext \<Rightarrow> srcOrDst list \<Rightarrow> string \<Rightarrow> (string \<times> string) list \<Rightarrow> ruleContext list" where
  "alert_contexts base sides upper [] = []"
| "alert_contexts base sides upper ((sev, t) # sts) =
     (if t \<noteq> [] then
        map (\<lambda>side. base\<lparr>rc_side := side, rc_severity := sev, rc_alertThreshold := t, rc_upperThreshold := upper, rc_duration := ''5m''\<rparr>) sides
        @ alert_contexts base sides t sts
      else alert_contexts base sides upper sts)"

definition rule_contexts :: "HealthRuleTemplate \<Rightarrow> HealthRuleMode \<Rightarrow> HealthRuleVariant \<Rightarrow> string list \<Rightarrow> ruleContext list" where
  "rule_contexts t mode v enabledMetrics =
     (let th = var_Thresholds v;
          base = \<lparr>rc_template = t, rc_healthRule = v, rc_mode = mode, rc_enabledMetrics = enabledMetrics, rc_side = NoSide, rc_severity = [],
            rc_alertThreshold = [], rc_recordingThresholds = None, rc_upperThreshold = [], rc_duration = []\<rparr>
      in if mode = ModeRecording
         then map (\<lambda>side. base\<lparr>rc_side := side, rc_recordingThresholds :=
                Some \<lparr>rt_Info = thr_Info th, rt_Warning = thr_Warning th, rt_Critical = thr_Critical th\<rparr>\<rparr>) (rule_sides v)
         else alert_contexts base (rule_sides v) [] (severities th))"

fun to_rules :: "ruleContext list \<Rightarrow> string + health_rule list" where
  "to_rules [] = Inr []"
| "to_rules (ctx # ctxs) =
     (case toRule ctx of
        None \<Rightarrow> Inl (''no rule for template: '' @ template_string (rc_template ctx))
      | Some r \<Rightarrow> (case to_rules ctxs of Inl e \<Rightarrow> Inl e | Inr rs \<Rightarrow> Inr (r # rs)))"

definition buildHealthRulesForVariant :: "HealthRuleTemplate \<Rightarrow> HealthRuleMode \<Rightarrow> HealthRuleVariant \<Rightarrow> string list \<Rightarrow> string + health_rule list" where
  "buildHealthRulesForVariant t mode v enabledMetrics = to_rules (rule_contexts t mode v enabledMetrics)"

text \<open>The rules, whether the template is active, and the errors, over the variants of one group.\<close>

fun build_variants :: "FLPHealthRule \<Rightarrow> string list \<Rightarrow> HealthRuleVariant list \<Rightarrow> health_rule list \<times> bool \<times> string list" where
  "build_variants g metrics [] = ([], False, [])"
| "build_variants g metrics (v # vs) =
     (case build_variants g metrics vs of (rs, active, errs) \<Rightarrow>
        (case buildHealthRulesForVariant (hr_Template g) (GetMode v (hr_Mode g)) v metrics of
           Inl e \<Rightarrow> (rs, active, e # errs)
         | Inr r \<Rightarrow> (r @ rs, active \<or> r \<noteq> [], errs)))"

fun build_groups :: "FlowCollectorSpec \<Rightarrow> string list \<Rightarrow> FLPHealthRule list \<Rightarrow> health_rule list \<times> HealthRuleTemplate list \<times> string list" where
  "build_groups fc metrics [] = ([], [], [])"
| "build_groups fc metrics (g # gs) =
     (case build_groups fc metrics gs of (rs, active, errs) \<Rightarrow>
        if \<not> fst (IsAllowed g fc) then (rs, active, errs)
        else case build_variants g metrics (hr_Variants g) of (r, a, e) \<Rightarrow>
          (r @ rs, (if a then hr_Template g # active else active), e @ errs))"

definition BuildHealthRules :: "FlowCollectorSpec \<Rightarrow> health_rule list \<times> HealthRuleTemplate list \<times> string list" where
  "BuildHealthRules fc = build_groups fc (GetIncludeList fc) (GetFLPHealthRules fc)"

definition operational_alert :: "HealthRuleTemplate \<Rightarrow> string \<Rightarrow> string \<Rightarrow> string \<Rightarrow> monitoring_rule" where
  "operational_alert t description summary expr =
     \<lparr>mr_Record = [], mr_Alert = template_string t, mr_Expr = expr, mr_For = Some ''10m'',
      mr_Annotations = [(''description'', description), (''summary'', summary), (''runbook_url'', BuildRunbookURL t)],
      mr_Labels = buildLabels t ''warning'' False\<rparr>"

definition alertNoFlows :: monitoring_rule where
  "alertNoFlows = operational_alert AlertNoFlows
     ''NetObserv flowlogs-pipeline is not receiving any flow, this is either a connection issue with the agent, or an agent issue''
     ''NetObserv flowlogs-pipeline is not receiving any flow'' ''sum(rate(netobserv_ingest_flows_processed[1m])) == 0''"

definition alertLokiError :: monitoring_rule where
  "alertLokiError = operational_alert AlertLokiError
     ''NetObserv flowlogs-pipeline is dropping flows because of Loki errors, Loki may be down or having issues ingesting every flows. Please check Loki and flowlogs-pipeline logs.''
     ''NetObserv flowlogs-pipeline is dropping flows because of Loki errors'' ''sum(rate(netobserv_loki_dropped_entries_total[1m])) > 0''"

definition built :: "string + monitoring_rule option \<Rightarrow> monitoring_rule list" where
  "built r = (case r of Inr (Some m) \<Rightarrow> [m] | _ \<Rightarrow> [])"

definition BuildMonitoringRules :: "float_ops \<Rightarrow> FlowCollectorSpec \<Rightarrow> monitoring_rule list" where
  "BuildMonitoringRules fo fc =
     (let disabled = fm_DisableAlerts (flp_Metrics (spec_Processor fc))
      in concat (map (\<lambda>hr. built (Build fo hr)) (fst (BuildHealthRules fc)))
         @ (if AlertNoFlows \<notin> set disabled then [alertNoFlows] else [])
         @ (if AlertLokiError \<notin> set disabled then [alertLokiError] else []))"

section \<open>What the console is told\<close>

definition AllHealthRuleTemplates :: "HealthRuleTemplate list" where
  "AllHealthRuleTemplates = [HealthRulePacketDropsByKernel, HealthRulePacketDropsByDevice, HealthRuleIPsecErrors, HealthRuleNetpolDenied,
     HealthRuleLatencyHighTrend, HealthRuleDNSErrors, HealthRuleDNSNxDomain, HealthRuleExternalEgressHighTrend, HealthRuleExternalIngressHighTrend,
     HealthRuleIngress5xxErrors, HealthRuleIngressHTTPLatencyTrend, HealthRuleTLSInsecureVersion]"

definition annotate_recording :: "float_ops \<Rightarrow> (string \<rightharpoonup> go_map) \<Rightarrow> health_rule \<Rightarrow> (string \<rightharpoonup> go_map)" where
  "annotate_recording fo m r =
     (if RecordingName r = [] then m
      else case GetAnnotations fo r of Inl _ \<Rightarrow> m | Inr a \<Rightarrow> if a = [] then m else m(RecordingName r \<mapsto> a))"

text \<open>The annotations by recording name; templates with their runbook and whether they are configured.\<close>

definition fillHealthData :: "float_ops \<Rightarrow> FlowCollectorSpec \<Rightarrow> (string \<rightharpoonup> go_map) \<times> (HealthRuleTemplate \<times> string \<times> bool) list" where
  "fillHealthData fo fc =
     (case BuildHealthRules fc of (rules, templates, _) \<Rightarrow>
        (foldl (annotate_recording fo) Map.empty rules,
         map (\<lambda>t. (t, BuildRunbookURL t, t \<in> set templates)) AllHealthRuleTemplates))"

end
