(* ===== verification/Alert_Rules_Correct.thy ===== *)
theory Alert_Rules_Correct
  imports Alert_Rules Webhook_Correct Flow_Metrics_Correct
begin

text \<open>
  The rules that are built for accepted health rules: the alerts of the three severities do not overlap, the queries of the
  default rules use metrics that are produced, and the console knows every recording; with the cases in which the
  code fails to do so.
\<close>

section \<open>Severities\<close>

definition in_band :: "venv \<Rightarrow> rat \<Rightarrow> ruleContext \<Rightarrow> bool" where
  "in_band env q ctx \<longleftrightarrow>
     f64_lt (fst (ParseFloat env (rc_alertThreshold ctx))) (Fin q)
     \<and> (rc_upperThreshold ctx \<noteq> [] \<longrightarrow> f64_lt (Fin q) (fst (ParseFloat env (rc_upperThreshold ctx))))"

lemma one_side:
  "side \<in> set sides \<Longrightarrow> distinct sides \<Longrightarrow>
   filter (\<lambda>ctx. rc_side ctx = side \<and> in_band env q ctx) (alert_contexts base sides upper sts) = filter (in_band env q) (alert_contexts base [side] upper sts)"
proof (induction sts arbitrary: upper)
  case (Cons st sts)
  let ?mk = "\<lambda>side. base\<lparr>rc_side := side, rc_severity := fst st, rc_alertThreshold := snd st, rc_upperThreshold := upper, rc_duration := ''5m''\<rparr>"
  have "filter (\<lambda>ctx. rc_side ctx = side \<and> in_band env q ctx) (map ?mk sides) = filter (in_band env q) (map ?mk [side])"
    using Cons.prems by (induction sides) (auto simp: filter_empty_conv)
  with Cons show ?case by (cases st) simp
qed simp

lemma sides_distinct: "distinct (rule_sides v)"
  by (simp add: rule_sides_def)

lemma band_values:
  assumes acc: "v_errors (validate_variant env t i j v val) = []"
    and val: "\<And>s. s \<in> set (set_thresholds (severities (var_Thresholds v))) \<Longrightarrow> \<exists>r. 0 < r \<and> r \<noteq> q \<and> fst (ParseFloat env s) = Fin r"
  shows "map rc_severity (filter (in_band env q) (alert_contexts base [side] [] (severities (var_Thresholds v)))) =
     (case find (\<lambda>(sev, s). s \<noteq> [] \<and> f64_lt (fst (ParseFloat env s)) (Fin q)) (severities (var_Thresholds v)) of
        None \<Rightarrow> [] | Some (sev, s) \<Rightarrow> [sev])"
proof -
  let ?th = "var_Thresholds v"
  have v: "thr_Critical ?th \<noteq> [] \<Longrightarrow> \<exists>r. 0 < r \<and> r \<noteq> q \<and> fst (ParseFloat env (thr_Critical ?th)) = Fin r"
    "thr_Warning ?th \<noteq> [] \<Longrightarrow> \<exists>r. 0 < r \<and> r \<noteq> q \<and> fst (ParseFloat env (thr_Warning ?th)) = Fin r"
    "thr_Info ?th \<noteq> [] \<Longrightarrow> \<exists>r. 0 < r \<and> r \<noteq> q \<and> fst (ParseFloat env (thr_Info ?th)) = Fin r"
    using val by (simp_all add: set_thresholds_def severities_def)
  note ord = accepted_variant_steps[OF acc]
  show ?thesis
    by (cases "thr_Critical ?th = []"; cases "thr_Warning ?th = []"; cases "thr_Info ?th = []")
      (use v ord in \<open>auto simp: severities_def set_thresholds_def in_band_def ordered_step_def\<close>)
qed



text \<open>A value that is exactly the critical threshold is in no band: the comparisons with the upper threshold are strict as well.\<close>

theorem threshold_gap:
  "filter (in_band sample_env 9) (rule_contexts HealthRuleDNSErrors ModeAlert (sample_variant ''9'' ''5'' ''2'') []) = []"
proof -
  have parse: "fst (ParseFloat sample_env ''9'') = Fin 9" "fst (ParseFloat sample_env ''5'') = Fin 5" "fst (ParseFloat sample_env ''2'') = Fin 2"
    by (simp_all add: sample_env_def parse_uint_def digit_vals)
  show ?thesis by (simp add: rule_contexts_def Let_def severities_def sample_variant_def rule_sides_def variant_def in_band_def parse)
qed

section \<open>Where a rule comes from\<close>

fun rule_context :: "health_rule \<Rightarrow> ruleContext" where
  "rule_context (deviceDrops ctx) = ctx"
| "rule_context (kernelDrops ctx) = ctx"
| "rule_context (ipsecErrors ctx) = ctx"
| "rule_context (dnsErrors ctx) = ctx"
| "rule_context (dnsNxDomain ctx) = ctx"
| "rule_context (netpolDenied ctx) = ctx"
| "rule_context (latencyTrend ctx) = ctx"
| "rule_context (externalTrend ctx _) = ctx"
| "rule_context (ingressErrors ctx) = ctx"
| "rule_context (ingressHTTPLatencyTrend ctx) = ctx"
| "rule_context (tlsInsecureVersion ctx) = ctx"

lemma toRule_context: "toRule ctx = Some r \<Longrightarrow> rule_context r = ctx"
  by (cases "rc_template ctx") (auto simp: toRule_def)

lemma to_rules_in: "to_rules ctxs = Inr rs \<Longrightarrow> r \<in> set rs \<Longrightarrow> rule_context r \<in> set ctxs \<and> toRule (rule_context r) = Some r"
proof (induction ctxs arbitrary: rs)
  case (Cons ctx ctxs)
  then obtain r1 rs1 where "toRule ctx = Some r1" "to_rules ctxs = Inr rs1" "rs = r1 # rs1"
    by (auto split: option.splits sum.splits)
  with Cons show ?case by (auto dest: toRule_context)
qed simp

lemma build_variants_in:
  "r \<in> set (fst (build_variants g ms vs)) \<Longrightarrow>
   \<exists>v \<in> set vs. rule_context r \<in> set (rule_contexts (hr_Template g) (GetMode v (hr_Mode g)) v ms) \<and> toRule (rule_context r) = Some r"
  by (induction vs) (auto simp: buildHealthRulesForVariant_def split: sum.splits prod.splits dest: to_rules_in)

lemma build_groups_in:
  "r \<in> set (fst (build_groups fc ms gs)) \<Longrightarrow>
   \<exists>g \<in> set gs. \<exists>v \<in> set (hr_Variants g).
     rule_context r \<in> set (rule_contexts (hr_Template g) (GetMode v (hr_Mode g)) v ms) \<and> toRule (rule_context r) = Some r"
proof (induction gs)
  case (Cons g gs)
  show ?case
  proof (cases "r \<in> set (fst (build_variants g ms (hr_Variants g)))")
    case True
    then show ?thesis using build_variants_in[OF True] by auto
  next
    case False
    with Cons.prems have "r \<in> set (fst (build_groups fc ms gs))" by (auto split: prod.splits if_splits)
    then show ?thesis using Cons.IH by auto
  qed
qed simp

lemma alert_context_fields:
  "ctx \<in> set (alert_contexts base sides upper sts) \<Longrightarrow>
   rc_template ctx = rc_template base \<and> rc_healthRule ctx = rc_healthRule base \<and> rc_mode ctx = rc_mode base \<and> rc_enabledMetrics ctx = rc_enabledMetrics base
   \<and> rc_side ctx \<in> set sides"
  by (induction sts arbitrary: upper) (auto split: if_splits)

lemma rule_context_fields:
  "ctx \<in> set (rule_contexts t mode v ms) \<Longrightarrow>
   rc_template ctx = t \<and> rc_healthRule ctx = v \<and> rc_mode ctx = mode \<and> rc_enabledMetrics ctx = ms \<and> rc_side ctx \<in> set (rule_sides v)"
  by (auto simp: rule_contexts_def Let_def split: if_splits dest!: alert_context_fields)

lemma built_rule_origin:
  assumes "r \<in> set (fst (BuildHealthRules fc))"
  obtains g where "g \<in> set (GetFLPHealthRules fc)" "rc_healthRule (rule_context r) \<in> set (hr_Variants g)" "rc_template (rule_context r) = hr_Template g"
    "rc_enabledMetrics (rule_context r) = GetIncludeList fc" "toRule (rule_context r) = Some r"
    "rc_side (rule_context r) \<in> set (rule_sides (rc_healthRule (rule_context r)))"
proof -
  obtain g v where g: "g \<in> set (GetFLPHealthRules fc)" "v \<in> set (hr_Variants g)" "toRule (rule_context r) = Some r"
    "rule_context r \<in> set (rule_contexts (hr_Template g) (GetMode v (hr_Mode g)) v (GetIncludeList fc))"
    using build_groups_in[OF assms[unfolded BuildHealthRules_def]] by blast
  then show thesis using that[of g] rule_context_fields[OF g(4)] by simp
qed

section \<open>Metrics in queries\<close>

lemma first_required_in: "GetFirstRequiredMetrics req actual \<noteq> [] \<Longrightarrow> GetFirstRequiredMetrics req actual \<in> set actual"
  by (induction req) (auto split: if_splits)

lemma metrics_eligible:
  assumes "getMetricsForRule ctx = (m1, m2)" and "n = m1 \<or> n = m2" and "n \<noteq> []"
  shows "n \<in> set (rc_enabledMetrics ctx)"
    and "n \<in> set (fst (GetElligibleMetricsForAlert (rc_template ctx) (rc_healthRule ctx))) \<union> set (snd (GetElligibleMetricsForAlert (rc_template ctx) (rc_healthRule ctx)))"
proof -
  have mem: "GetFirstRequiredMetrics req ms \<noteq> [] \<Longrightarrow> GetFirstRequiredMetrics req ms \<in> set req" for req ms
    by (induction req) (auto split: if_splits)
  obtain r1 r2 where r: "GetElligibleMetricsForAlert (rc_template ctx) (rc_healthRule ctx) = (r1, r2)" by (metis prod.exhaust)
  from assms r have n: "n = GetFirstRequiredMetrics r1 (rc_enabledMetrics ctx) \<or> n = GetFirstRequiredMetrics r2 (rc_enabledMetrics ctx)"
    by (auto simp: getMetricsForRule_def split: if_splits)
  then show "n \<in> set (rc_enabledMetrics ctx)" using assms(3) first_required_in by auto
  from n show "n \<in> set (fst (GetElligibleMetricsForAlert (rc_template ctx) (rc_healthRule ctx))) \<union> set (snd (GetElligibleMetricsForAlert (rc_template ctx) (rc_healthRule ctx)))"
    using assms(3) mem r by auto
qed

text \<open>The labels of nodes, namespaces or workloads that a metric has, by the first word of its name.\<close>

definition name_labels :: "string \<Rightarrow> string list" where
  "name_labels n =
     (if has_prefix n ''node'' then [''SrcK8S_HostName'', ''DstK8S_HostName'']
      else if has_prefix n ''namespace'' then [''SrcK8S_Namespace'', ''DstK8S_Namespace'']
      else [''SrcK8S_Namespace'', ''DstK8S_Namespace'', ''SrcK8S_OwnerName'', ''DstK8S_OwnerName'', ''SrcK8S_OwnerType'', ''DstK8S_OwnerType''])"

lemma predefined_labelled: "list_all (\<lambda>d. set (name_labels (fms_MetricName d)) \<subseteq> set (fms_Labels d)) predefinedMetrics"
  by (simp add: predefinedMetrics_def groups_eq metric_defs name_parts name_labels_def has_prefix_def mapLabels_def tagNodes_def tagNamespaces_def tagWorkloads_def)

lemma eligible_labelled:
  assumes "isFLPHealthRuleGroupBySupported t v"
    and "n \<in> set (fst (GetElligibleMetricsForAlert t v)) \<union> set (snd (GetElligibleMetricsForAlert t v))" and "side \<in> set (rule_sides v)"
  shows "set (map fst (group_labels (var_GroupBy v) side)) \<subseteq> set (name_labels n)"
  using assms
  by (cases t; cases "var_GroupBy v")
    (auto simp: isFLPHealthRuleGroupBySupported_def GetElligibleMetricsForAlert_def metric_requirement_def group_prefixes_def has_prefix_def
      rule_sides_def group_labels_def name_labels_def)

lemma group_labels_kept: "side \<noteq> NoSide \<Longrightarrow> set (map fst (group_labels g side)) \<inter> set (labels_to_remove fc) = {}"
  by (cases g; cases side) (auto simp: group_labels_def labels_to_remove_def)

lemma no_side_no_labels: "NoSide \<in> set (rule_sides v) \<Longrightarrow> group_labels (var_GroupBy v) NoSide = []"
  by (cases "var_GroupBy v") (simp_all add: rule_sides_def group_labels_def)

lemma metric_answers:
  assumes "isFLPHealthRuleGroupBySupported t v" and "side \<in> set (rule_sides v)"
    and "n \<in> set (fst (GetElligibleMetricsForAlert t v)) \<union> set (snd (GetElligibleMetricsForAlert t v))" and "n \<in> set (GetIncludeList fc)"
  shows "\<exists>d \<in> set (GetDefinitions fc False). fms_MetricName d = n \<and> set (map fst (group_labels (var_GroupBy v) side)) \<subseteq> set (fms_Labels d)"
proof -
  have "n \<in> set GetAllNames" using health_rule_metrics_exist[of t v] assms(3) by auto
  then obtain d where d: "d \<in> set predefinedMetrics" "fms_MetricName d = n" by (auto simp: GetAllNames_def)
  let ?d = "update_def (GetIncludeList fc) (labels_to_remove fc) (record_type_filter fc) d"
  have "?d \<in> set (GetDefinitions fc False)" using d assms(4) by (auto simp: GetDefinitions_def getUpdatedDefsFromNames_def)
  moreover have "set (map fst (group_labels (var_GroupBy v) side)) \<subseteq> set (fms_Labels ?d)"
  proof (cases "side = NoSide")
    case True
    then show ?thesis using assms(2) no_side_no_labels by simp
  next
    case False
    have "set (name_labels n) \<subseteq> set (fms_Labels d)" using predefined_labelled d by (auto simp: list_all_iff)
    then have "set (map fst (group_labels (var_GroupBy v) side)) \<subseteq> set (fms_Labels d)" by (rule subset_trans[OF eligible_labelled[OF assms(1,3,2)]])
    then show ?thesis using group_labels_kept[OF False, of "var_GroupBy v" fc] unfolding update_def_simps removeLabels_def set_filter by blast
  qed
  ultimately show ?thesis using d(2) by (intro bexI[of _ ?d]) simp_all
qed

lemma defaults_supported:
  assumes "g \<in> set DefaultHealthRules" and "v \<in> set (hr_Variants g)"
  shows "isFLPHealthRuleGroupBySupported (hr_Template g) v"
  using default_rule_group_cases[OF assms, unfolded default_rule_groups]
  by (simp only: list.set insert_iff empty_iff prod.inject simp_thms, elim disjE conjE) (simp_all add: isFLPHealthRuleGroupBySupported_def)

lemma eligible_nonempty:
  assumes "metric_requirement t \<noteq> NoMetrics"
  shows "fst (GetElligibleMetricsForAlert t v) \<noteq> []" "snd (GetElligibleMetricsForAlert t v) \<noteq> []"
  using assms by (cases t; cases "var_GroupBy v"; simp add: GetElligibleMetricsForAlert_def metric_requirement_def group_prefixes_def)+


text \<open>A rule of every allowed group is built.\<close>

lemma build_variants_has:
  "v \<in> set vs \<Longrightarrow> buildHealthRulesForVariant (hr_Template g) (GetMode v (hr_Mode g)) v ms = Inr rs \<Longrightarrow> r \<in> set rs \<Longrightarrow>
   r \<in> set (fst (build_variants g ms vs))"
  by (induction vs) (auto split: sum.splits prod.splits)

lemma build_groups_has:
  "g \<in> set gs \<Longrightarrow> fst (IsAllowed g fc) \<Longrightarrow> r \<in> set (fst (build_variants g ms (hr_Variants g))) \<Longrightarrow> r \<in> set (fst (build_groups fc ms gs))"
  by (induction gs) (auto split: prod.splits)

section \<open>Recordings\<close>

lemma createRule_result:
  assumes "createRule fo ctx r q = Inr (Some m)"
  shows "mr_Record m = (if rc_mode ctx = ModeRecording then RecordingName r else [])"
    and "(''template'', template_string (rc_template ctx)) \<in> set (mr_Labels m)"
  using assms by (auto simp: createRule_def buildLabels_def split: if_splits sum.splits)

lemmas build_defs = deviceDrops_Build_def kernelDrops_Build_def ipsecErrors_Build_def dnsErrors_Build_def dnsNxDomain_Build_def netpolDenied_Build_def
  latencyTrend_Build_def externalTrend_Build_def ingressErrors_Build_def ingressHTTPLatencyTrend_Build_def tlsInsecureVersion_Build_def

lemma built_by_createRule:
  assumes "Build fo r = Inr (Some m)"
  obtains ctx q where "createRule fo ctx (case r of deviceDrops _ \<Rightarrow> deviceDrops ctx | _ \<Rightarrow> r) q = Inr (Some m)"
    "ctx = (case r of deviceDrops c \<Rightarrow> c\<lparr>rc_side := NoSide\<rparr> | _ \<Rightarrow> rule_context r)"
  using assms
  by (cases r)
    (simp_all add: build_defs Let_def case_prod_beta split: if_splits HealthRuleGroupBy.splits)

lemma device_context: "toRule ctx = Some (deviceDrops c) \<Longrightarrow> rc_template ctx = HealthRulePacketDropsByDevice \<and> c = ctx"
  by (cases "rc_template ctx") (auto simp: toRule_def)

text \<open>A recording of a rule that is not about devices has the name that the rule gives before it is built.\<close>

lemma recording_name:
  assumes "Build fo r = Inr (Some m)" and "mr_Record m \<noteq> []" and "toRule (rule_context r) = Some r"
    and "(''template'', template_string HealthRulePacketDropsByDevice) \<notin> set (mr_Labels m)"
  shows "mr_Record m = RecordingName r" and "\<nexists>c. r = deviceDrops c"
proof -
  obtain ctx q where c: "createRule fo ctx (case r of deviceDrops _ \<Rightarrow> deviceDrops ctx | _ \<Rightarrow> r) q = Inr (Some m)"
    "ctx = (case r of deviceDrops c \<Rightarrow> c\<lparr>rc_side := NoSide\<rparr> | _ \<Rightarrow> rule_context r)"
    using built_by_createRule[OF assms(1)] by metis
  show n: "\<nexists>c. r = deviceDrops c"
  proof
    assume "\<exists>c. r = deviceDrops c"
    then obtain c0 where "r = deviceDrops c0" by (elim exE)
    then have "rc_template ctx = HealthRulePacketDropsByDevice" using c(2) device_context[of "rule_context r" c0] assms(3) by simp
    then show False using createRule_result(2)[OF c(1)] assms(4) by simp
  qed
  then have "(case r of deviceDrops _ \<Rightarrow> deviceDrops ctx | _ \<Rightarrow> r) = r" by (cases r) simp_all
  then show "mr_Record m = RecordingName r" using createRule_result(1)[OF c(1)] assms(2) by (simp split: if_splits)
qed

lemmas annotation_defs = deviceDrops_GetAnnotations_def kernelDrops_GetAnnotations_def ipsecErrors_GetAnnotations_def dnsErrors_GetAnnotations_def
  dnsNxDomain_GetAnnotations_def netpolDenied_GetAnnotations_def latencyTrend_GetAnnotations_def externalTrend_GetAnnotations_def
  ingressErrors_GetAnnotations_def ingressHTTPLatencyTrend_GetAnnotations_def tlsInsecureVersion_GetAnnotations_def health_annotations_def

lemma supported_annotated:
  assumes "toRule ctx = Some r" and "isFLPHealthRuleGroupBySupported (rc_template ctx) (rc_healthRule ctx)" and "\<nexists>c. r = deviceDrops c"
  shows "\<exists>a. GetAnnotations fo r = Inr a \<and> a \<noteq> []"
  using assms
  by (cases "rc_template ctx"; cases "rc_group ctx")
    (auto simp: toRule_def annotation_defs isFLPHealthRuleGroupBySupported_def Let_def)

lemma annotate_keeps: "m k \<noteq> None \<Longrightarrow> foldl (annotate_recording fo) m rs k \<noteq> None"
  by (induction rs arbitrary: m) (auto simp: annotate_recording_def split: sum.splits)

lemma annotate_has:
  "r \<in> set rs \<Longrightarrow> RecordingName r \<noteq> [] \<Longrightarrow> GetAnnotations fo r = Inr a \<Longrightarrow> a \<noteq> [] \<Longrightarrow> foldl (annotate_recording fo) m rs (RecordingName r) \<noteq> None"
proof (induction rs arbitrary: m)
  case (Cons x rs)
  show ?case
  proof (cases "x = r")
    case True
    then have "annotate_recording fo m x (RecordingName r) \<noteq> None" using Cons.prems by (simp add: annotate_recording_def)
    then show ?thesis using annotate_keeps[of "annotate_recording fo m x" "RecordingName r" fo rs] by simp
  next
    case False
    then show ?thesis using Cons by simp
  qed
qed simp

lemma annotate_from:
  "foldl (annotate_recording fo) m rs k = Some a \<Longrightarrow> m k = Some a \<or> (\<exists>r \<in> set rs. RecordingName r = k \<and> GetAnnotations fo r = Inr a)"
proof (induction rs arbitrary: m)
  case (Cons x rs)
  then have "annotate_recording fo m x k = Some a \<or> (\<exists>r \<in> set rs. RecordingName r = k \<and> GetAnnotations fo r = Inr a)" by simp
  then show ?case by (auto simp: annotate_recording_def split: if_splits sum.splits)
qed simp

lemma operational_no_record: "m \<in> set (BuildMonitoringRules fo fc) \<Longrightarrow> mr_Record m \<noteq> [] \<Longrightarrow> \<exists>r \<in> set (fst (BuildHealthRules fc)). Build fo r = Inr (Some m)"
  by (auto simp: BuildMonitoringRules_def built_def alertNoFlows_def alertLokiError_def operational_alert_def Let_def
      split: sum.splits option.splits if_splits)

text \<open>
  C18: every recording that Prometheus is told to compute, apart from those about devices, is described to the console under
  the name of the recorded series, with the annotations of a rule that gives that name, provided that the
  health rules group as the webhook allows.
\<close>

theorem recordings_described:
  assumes "\<And>g v. g \<in> set (GetFLPHealthRules fc) \<Longrightarrow> v \<in> set (hr_Variants g) \<Longrightarrow> isFLPHealthRuleGroupBySupported (hr_Template g) v"
    and "m \<in> set (BuildMonitoringRules fo fc)" and "mr_Record m \<noteq> []"
    and "(''template'', template_string HealthRulePacketDropsByDevice) \<notin> set (mr_Labels m)"
  shows "\<exists>a. fst (fillHealthData fo fc) (mr_Record m) = Some a
    \<and> (\<exists>r \<in> set (fst (BuildHealthRules fc)). RecordingName r = mr_Record m \<and> GetAnnotations fo r = Inr a)"
proof -
  obtain r where r: "r \<in> set (fst (BuildHealthRules fc))" "Build fo r = Inr (Some m)" using operational_no_record[OF assms(2,3)] by (elim bexE)
  obtain g where g: "g \<in> set (GetFLPHealthRules fc)" "rc_healthRule (rule_context r) \<in> set (hr_Variants g)"
    "rc_template (rule_context r) = hr_Template g" "toRule (rule_context r) = Some r"
    using built_rule_origin[OF r(1)] by metis
  note name = recording_name[OF r(2) assms(3) g(4) assms(4)]
  have "isFLPHealthRuleGroupBySupported (rc_template (rule_context r)) (rc_healthRule (rule_context r))" using assms(1)[OF g(1,2)] g(3) by simp
  then obtain a where "GetAnnotations fo r = Inr a" "a \<noteq> []" using supported_annotated[OF g(4) _ name(2)] by metis
  then have "foldl (annotate_recording fo) Map.empty (fst (BuildHealthRules fc)) (mr_Record m) \<noteq> None"
    using annotate_has[OF r(1), of fo a] name(1) assms(3) by simp
  then obtain b where b: "foldl (annotate_recording fo) Map.empty (fst (BuildHealthRules fc)) (mr_Record m) = Some b" unfolding not_None_eq by (elim exE)
  moreover have "fst (fillHealthData fo fc) = foldl (annotate_recording fo) Map.empty (fst (BuildHealthRules fc))"
    by (simp add: fillHealthData_def case_prod_beta)
  ultimately show ?thesis using annotate_from[OF b] by auto
qed

section \<open>A default resource\<close>

definition egress_variant :: HealthRuleVariant where
  "egress_variant = trend_variant (thresholds [] ''200'') GroupByNode"

definition egress_group :: FLPHealthRule where
  "egress_group = \<lparr>hr_Template = HealthRuleExternalEgressHighTrend, hr_Mode = ModeRecording, hr_Variants =
     [egress_variant, trend_variant (thresholds ''100'' ''500'') GroupByNamespace]\<rparr>"

definition egress_context :: ruleContext where
  "egress_context = hd (rule_contexts HealthRuleExternalEgressHighTrend ModeRecording egress_variant (GetIncludeList zero_spec))"

lemma lower_words: "to_lower ''Node'' = ''node''" "to_lower ''Src'' = ''src''" "to_lower ''Dst'' = ''dst''"
  by code_simp+

lemma egress_sel:
  "var_GroupBy egress_variant = GroupByNode" "rc_template egress_context = HealthRuleExternalEgressHighTrend" "rc_mode egress_context = ModeRecording"
  "rc_side egress_context = asSource" "rc_healthRule egress_context = egress_variant" "GetMode egress_variant m = m" "egress_variant \<in> set (hr_Variants egress_group)"
  "hr_Template egress_group = HealthRuleExternalEgressHighTrend" "hr_Mode egress_group = ModeRecording"
  by (simp_all add: egress_variant_def egress_group_def egress_context_def rule_contexts_def rule_sides_def trend_variant_def variant_def GetMode_def Let_def)

lemma egress_in: "egress_group \<in> set (GetFLPHealthRules zero_spec)"
  by (simp add: health_rules_set rule_for_def last_rule_def DefaultHealthRules_def IsAllowed_def egress_group_def egress_variant_def)

lemma egress_built: "externalTrend egress_context False \<in> set (fst (BuildHealthRules zero_spec))"
proof -
  have "\<exists>rs. buildHealthRulesForVariant HealthRuleExternalEgressHighTrend ModeRecording egress_variant (GetIncludeList zero_spec)
      = Inr (externalTrend egress_context False # rs)"
    by (simp add: buildHealthRulesForVariant_def rule_contexts_def rule_sides_def egress_sel(1) toRule_def egress_context_def Let_def)
  then obtain rs where "buildHealthRulesForVariant (hr_Template egress_group) (GetMode egress_variant (hr_Mode egress_group)) egress_variant (GetIncludeList zero_spec)
      = Inr (externalTrend egress_context False # rs)" unfolding egress_sel(6,8,9) by (elim exE)
  from build_variants_has[OF egress_sel(7) this, of "externalTrend egress_context False"]
  show ?thesis unfolding BuildHealthRules_def by (intro build_groups_has[OF egress_in]) (simp_all add: IsAllowed_def egress_sel(8))
qed


definition demo_floats :: float_ops where
  "demo_floats = \<lparr>fo_Parse = (\<lambda>_. (Fin 200, False)), fo_mul = (\<lambda>_ _. Fin 1000), fo_int = (\<lambda>_. 1000)\<rparr>"

lemma zero_rules_supported:
  assumes "g \<in> set (GetFLPHealthRules zero_spec)" and "v \<in> set (hr_Variants g)"
  shows "isFLPHealthRuleGroupBySupported (hr_Template g) v"
  by (rule defaults_supported[OF _ assms(2)]) (use default_rules_only[OF _ assms(1)] in simp)

theorem recordings_described_witness:
  "\<exists>m \<in> set (BuildMonitoringRules demo_floats zero_spec). mr_Record m = ''netobserv:health:external_egress:node:src:rate2m''
     \<and> fst (fillHealthData demo_floats zero_spec) (mr_Record m) \<noteq> None"
proof -
  let ?r = "externalTrend egress_context False"
  have name: "RecordingName ?r = ''netobserv:health:external_egress:node:src:rate2m''"
    by (simp add: buildRecordingRuleName_def egress_sel lower_words)
  obtain m where m: "Build demo_floats ?r = Inr (Some m)" "mr_Record m = RecordingName ?r"
    "mr_Labels m = buildLabels HealthRuleExternalEgressHighTrend [] True"
    by (simp add: externalTrend_Build_def createRule_def egress_sel Let_def case_prod_beta)
  have "m \<in> set (BuildMonitoringRules demo_floats zero_spec)"
    using egress_built m(1) by (force simp: BuildMonitoringRules_def built_def Let_def)
  moreover have "\<exists>a. fst (fillHealthData demo_floats zero_spec) (mr_Record m) = Some a
    \<and> (\<exists>r \<in> set (fst (BuildHealthRules zero_spec)). RecordingName r = mr_Record m \<and> GetAnnotations demo_floats r = Inr a)"
    by (rule recordings_described[OF zero_rules_supported calculation]) (simp_all add: m(2)[unfolded name] m(3) buildLabels_def)
  ultimately show ?thesis using m(2)[unfolded name] by (intro bexI[of _ m]) auto
qed

section \<open>Rules that do not do what they say\<close>

text \<open>The webhook accepts drops by device grouped by namespace, but no such rule can be built.\<close>

theorem device_by_namespace_not_built:
  assumes "var_GroupBy v = GroupByNamespace" and "rc_healthRule ctx = v" and "rc_side ctx = asSource"
  shows "isFLPHealthRuleGroupBySupported HealthRulePacketDropsByDevice v
    \<and> Build fo (deviceDrops ctx) = Inl ''PacketDropsByDevice health rule does not support grouping per namespace''"
  using assms by (simp add: isFLPHealthRuleGroupBySupported_def deviceDrops_Build_def Let_def)

text \<open>A recording about devices is announced to the console under two names, neither of which is the one it is recorded under.\<close>

theorem device_recording_renamed:
  assumes "var_GroupBy v = GroupByNode"
  shows "\<exists>r1 r2 m. buildHealthRulesForVariant HealthRulePacketDropsByDevice ModeRecording v metrics = Inr [r1, r2]
    \<and> RecordingName r1 = ''netobserv:health:packet_drops_device:node:src:rate2m''
    \<and> RecordingName r2 = ''netobserv:health:packet_drops_device:node:dst:rate2m''
    \<and> Build fo r1 = Inr (Some m) \<and> Build fo r2 = Inr None
    \<and> mr_Record m = ''netobserv:health:packet_drops_device:node:rate2m''"
  using assms
  by (simp add: buildHealthRulesForVariant_def rule_contexts_def rule_sides_def toRule_def buildRecordingRuleName_def lower_words
      deviceDrops_Build_def createRule_def Let_def)

text \<open>
  The rule about errors of IPsec divides all encrypted flows, which the metric counts whatever their status, by the flows
  between nodes.
\<close>

theorem ipsec_rule_counts_all_flows:
  assumes "rc_template ctx = HealthRuleIPsecErrors" and "rc_group ctx = GroupByNone" and "rc_alertThreshold ctx = []"
    and "set [''node_ipsec_flows_total'', ''node_to_node_ingress_flows_total''] \<subseteq> set (rc_enabledMetrics ctx)"
  shows "ratio_query ctx (getPromQLFilters ctx []) (getPromQLFilters ctx []) =
      ''100 * (sum(rate(netobserv_node_ipsec_flows_total[2m]))) / (sum(rate(netobserv_node_to_node_ingress_flows_total[2m])))''
    \<and> fms_Filters (hd (ipsec_metrics tagNodes)) = [presence ''IPSecStatus'']"
  using assms
  by (simp add: ratio_query_def getMetricsForRule_def GetElligibleMetricsForAlert_def metric_requirement_def getPromQLFilters_def sumBy_def group_labels_def
      promQLRateFromMetric_def percentagePromQL_def ipsec_metrics_def Let_def)

text \<open>
  The built-in rule about external traffic has a variant per node. The metric it queries has none of the labels by which external
  traffic is selected, and each of the three matchers accepts a missing label, so that all traffic counts.
\<close>

theorem external_by_node_unfiltered:
  "egress_group \<in> set DefaultHealthRules \<and> var_GroupBy egress_variant = GroupByNode
   \<and> set (fst (GetElligibleMetricsForAlert HealthRuleExternalEgressHighTrend egress_variant)) = {''node_egress_bytes_total''}
   \<and> list_all (\<lambda>d. fms_MetricName d = ''node_egress_bytes_total'' \<longrightarrow>
        ''DstSubnetLabel'' \<notin> set (fms_Labels d) \<and> ''DstK8S_Namespace'' \<notin> set (fms_Labels d) \<and> ''DstK8S_OwnerName'' \<notin> set (fms_Labels d)) predefinedMetrics"
  by (intro conjI)
    (simp_all add: DefaultHealthRules_def egress_group_def egress_variant_def trend_variant_def variant_def GetElligibleMetricsForAlert_def
      metric_requirement_def group_prefixes_def has_prefix_def
      predefinedMetrics_def groups_eq metric_defs name_parts mapLabels_def tagNodes_def tagNamespaces_def tagWorkloads_def)

end
