(* ===== verification/Subnet_Detection.thy ===== *)
theory Subnet_Detection
  imports Net_Policy_Correct
begin

text \<open>
  \<open>internal/controller/flp/detect_subnets.go\<close>: the subnets of an OpenShift cluster, read from three of its resources and from the
  addresses of the API server, as labels for flows. What is read, and the decoding of the YAML of the installation, are
  parameters.
\<close>

section \<open>Sources\<close>

record network_config =
  nc_ClusterNetwork :: "string list"
  nc_ServiceNetwork :: "string list"
  nc_AutoAssignCIDRs :: "string list option"

record ovn_config =
  ovn_V4InternalSubnet :: string
  ovn_InternalTransitSwitchSubnet :: "string option"
  ovn_InternalMasqueradeSubnet :: "string option"

record subnet_sources =
  ss_Network :: "api_error + network_config"
  ss_ClusterConfig :: "api_error + string_map"
  ss_NetworkOperator :: "api_error + ovn_config option"
  ss_yaml :: "string \<Rightarrow> string + string list"

datatype subnet_error =
  CantGetNetwork api_error | CantReadClusterConfig api_error | NoInstallConfig | BadInstallConfig string | CantGetNetworkOperator api_error

definition readNetworkConfig :: "subnet_sources \<Rightarrow> subnet_error + string list \<times> string list \<times> string list" where
  "readNetworkConfig ss =
     (case ss_Network ss of
        Inl e \<Rightarrow> Inl (CantGetNetwork e)
      | Inr n \<Rightarrow> Inr (nc_ClusterNetwork n, nc_ServiceNetwork n, case nc_AutoAssignCIDRs n of None \<Rightarrow> [] | Some cs \<Rightarrow> cs))"

definition readMachineFromConfig :: "subnet_sources \<Rightarrow> string_map \<Rightarrow> subnet_error + string list" where
  "readMachineFromConfig ss cm =
     (case cm ''install-config'' of
        None \<Rightarrow> Inl NoInstallConfig
      | Some raw \<Rightarrow> (case ss_yaml ss raw of Inl e \<Rightarrow> Inl (BadInstallConfig e) | Inr cidrs \<Rightarrow> Inr cidrs))"

definition readClusterConfig :: "subnet_sources \<Rightarrow> subnet_error + string list" where
  "readClusterConfig ss = (case ss_ClusterConfig ss of Inl e \<Rightarrow> Inl (CantReadClusterConfig e) | Inr cm \<Rightarrow> readMachineFromConfig ss cm)"

text \<open>A setting that is present and not empty replaces the default.\<close>

definition overriding :: "string option \<Rightarrow> string \<Rightarrow> string" where
  "overriding v d = (case v of None \<Rightarrow> d | Some s \<Rightarrow> if s = [] then d else s)"

definition readNetworkOperatorConfig :: "subnet_sources \<Rightarrow> subnet_error + string list" where
  "readNetworkOperatorConfig ss =
     (case ss_NetworkOperator ss of
        Inl e \<Rightarrow> Inl (CantGetNetworkOperator e)
      | Inr ovnk \<Rightarrow>
          (let get = (\<lambda>f. case ovnk of None \<Rightarrow> None | Some k \<Rightarrow> f k)
           in Inr [overriding (get (\<lambda>k. Some (ovn_V4InternalSubnet k))) ''100.64.0.0/16'',
                   overriding (get ovn_InternalTransitSwitchSubnet) ''100.88.0.0/16'',
                   overriding (get ovn_InternalMasqueradeSubnet) ''169.254.0.0/17'']))"

section \<open>Labels\<close>

definition parsed_cidrs :: "string list \<Rightarrow> IPNet list" where
  "parsed_cidrs cs = List.map_filter ParseCIDR cs"

text \<open>The addresses of the API server that no service or machine subnet covers, each as a subnet of its own.\<close>

definition uncovered :: "IPNet list \<Rightarrow> string list \<Rightarrow> string list" where
  "uncovered nets ips =
     List.map_filter (\<lambda>ip. case ParseIP ip of None \<Rightarrow> None
       | Some a \<Rightarrow> if list_ex (\<lambda>n. net_Contains n a) nets then None else Some (IPToCIDR ip)) ips"

definition label_if_any :: "string \<Rightarrow> string list \<Rightarrow> SubnetLabel list" where
  "label_if_any name cidrs = (if cidrs = [] then [] else [\<lparr>sl_CIDRs = cidrs, sl_Name = name\<rparr>])"

definition left_error :: "'e + 'a \<Rightarrow> 'e list" where
  "left_error r = (case r of Inl e \<Rightarrow> [e] | Inr _ \<Rightarrow> [])"

definition right_list :: "'e + 'a list \<Rightarrow> 'a list" where
  "right_list r = (case r of Inl _ \<Rightarrow> [] | Inr xs \<Rightarrow> xs)"

definition getOpenShiftSubnets :: "subnet_sources \<Rightarrow> 'v Info \<Rightarrow> SubnetLabel list \<times> subnet_error list" where
  "getOpenShiftSubnets ss ci =
     (if \<not> HasCNO ci then ([], [])
      else
        (let net = readNetworkConfig ss;
             (pods, services, extIPs) = (case net of Inl _ \<Rightarrow> ([], [], []) | Inr r \<Rightarrow> r);
             cluster = readClusterConfig ss;
             machines = right_list cluster;
             services = services @ uncovered (parsed_cidrs services @ parsed_cidrs machines) (GetAPIServerIPs ci);
             op = readNetworkOperatorConfig ss;
             machines = machines @ right_list op
         in (label_if_any ''Machines'' machines @ label_if_any ''Pods'' pods @ label_if_any ''Services'' services
               @ label_if_any ''EXT:ExternalIP'' extIPs,
             left_error net @ left_error cluster @ left_error op)))"

section \<open>Correctness\<close>

definition labelled :: "SubnetLabel list \<Rightarrow> string \<Rightarrow> string \<Rightarrow> bool" where
  "labelled ls name cidr \<longleftrightarrow> (\<exists>l \<in> set ls. sl_Name l = name \<and> cidr \<in> set (sl_CIDRs l))"

lemma labelled_simps:
  "labelled (ls @ ls') name c \<longleftrightarrow> labelled ls name c \<or> labelled ls' name c"
  "labelled (label_if_any n cs) name c \<longleftrightarrow> n = name \<and> c \<in> set cs"
  by (auto simp: labelled_def label_if_any_def)

lemma covered_or_added:
  assumes "ip \<in> set ips" and "ParseIP ip = Some a"
  shows "(\<exists>c \<in> set cs. in_cidr c ip) \<or> IPToCIDR ip \<in> set (uncovered (parsed_cidrs cs) ips)"
proof (cases "list_ex (\<lambda>n. net_Contains n a) (parsed_cidrs cs)")
  case True
  then obtain c n where "c \<in> set cs" "ParseCIDR c = Some n" "net_Contains n a" by (auto simp: list_ex_iff parsed_cidrs_def map_filter_def)
  moreover from this have "in_cidr c ip" using assms(2) by (simp add: in_cidr_def)
  ultimately show ?thesis by auto
next
  case False
  then have "IPToCIDR ip \<in> set (uncovered (parsed_cidrs cs) ips)"
    using assms by (auto simp: uncovered_def map_filter_def intro!: image_eqI[of _ _ ip])
  then show ?thesis ..
qed

lemma own_cidr: "ParseIP ip = Some a \<Longrightarrow> length a = 4 \<or> To4 a = None \<Longrightarrow> in_cidr (IPToCIDR ip) ip"
  using ip_cidr_exact[of ip a ip] by (auto simp: canonical_def To4_def)


definition no_sources :: subnet_sources where
  "no_sources = \<lparr>ss_Network = Inl NotFound, ss_ClusterConfig = Inr Map.empty, ss_NetworkOperator = Inr None, ss_yaml = (\<lambda>_. Inr [])\<rparr>"

definition cno_info :: "unit Info" where
  "cno_info = zero_Info\<lparr>apisMap := Some (\<lambda>_. True), apiServerIPs := [''10.0.0.1'']\<rparr>"


end
