(* ===== verification/FLP_Informers.thy ===== *)
theory FLP_Informers
  imports FLP_Objects
begin

text \<open>
  The deployment of the centralised informers, \<open>internal/controller/flp/flp_informer_builder.go\<close>: arguments, container, pod,
  service account and the service of the cache. Parsed quantities of resources are library values and parameters.
\<close>

definition k8sCacheServiceName :: string where "k8sCacheServiceName = ''flowlogs-pipeline-k8scache''"
definition informerName :: string where "informerName = ''flowlogs-pipeline-informers''"

record HTTPProbe =
  hprobe_Path :: string
  hprobe_Port :: int
  hprobe_InitialDelaySeconds :: int
  hprobe_PeriodSeconds :: int
  hprobe_TimeoutSeconds :: int
  hprobe_FailureThreshold :: int

record informer_container =
  ic_Name :: string
  ic_Image :: string
  ic_ImagePullPolicy :: string
  ic_Command :: "string list"
  ic_Args :: "string list"
  ic_Env :: "EnvVar list"
  ic_Ports :: "ContainerPort list"
  ic_VolumeMounts :: "(string \<times> string \<times> bool) list"
  ic_Resources :: opaque
  ic_LivenessProbe :: HTTPProbe
  ic_ReadinessProbe :: HTTPProbe
  ic_SecurityContext :: SecurityContext
  ic_TerminationMessagePolicy :: string

record informer_deployment =
  id_Meta :: ObjectMeta
  id_Replicas :: int
  id_Selector :: go_map
  id_PodLabels :: go_map
  id_ServiceAccountName :: string
  id_Containers :: "informer_container list"
  id_Volumes :: "(string \<times> VolumeSource) list"
  id_NodeSelector :: "string_map option"
  id_Tolerations :: "Toleration list option"
  id_Affinity :: "opaque option"
  id_PriorityClassName :: string

text \<open>The tests on the configured resources and the default ones.\<close>

record informer_lib =
  il_resources_set :: "opaque \<Rightarrow> bool"
  il_default_resources :: opaque

record 'v informerBuilder =
  ib_info :: "'v Instance"
  ib_desired :: FlowCollectorSpec

definition newInformerBuilder :: "'v Instance \<Rightarrow> FlowCollectorSpec \<Rightarrow> 'v informerBuilder" where
  "newInformerBuilder info desired = \<lparr>ib_info = info, ib_desired = desired\<rparr>"

section \<open>Arguments\<close>

definition empty_proxy :: FlowCollectorInformerCacheProxy where
  "empty_proxy = \<lparr>icp_Enabled = None, icp_Replicas = None, icp_Resources = Opaque 0, icp_Advanced = None, icp_TLS = None\<rparr>"

definition proxy_config :: "FlowCollectorSpec \<Rightarrow> FlowCollectorInformerCacheProxy" where
  "proxy_config desired = (case flp_InformerCacheProxy (spec_Processor desired) of None \<Rightarrow> empty_proxy | Some p \<Rightarrow> p)"

definition advanced_or :: "(AdvancedInformerCacheProxyConfig \<Rightarrow> int option) \<Rightarrow> int \<Rightarrow> FlowCollectorInformerCacheProxy \<Rightarrow> int" where
  "advanced_or sel d p = (case icp_Advanced p of None \<Rightarrow> d | Some a \<Rightarrow> ptr_or (sel a) d)"

definition sn_groups :: "FlowCollectorSpec \<Rightarrow> string list" where
  "sn_groups desired =
     map (\<lambda>ixs. str_join '','' ixs)
       (filter (\<lambda>ixs. length ixs > 0) (map (\<lambda>sn. map (\<lambda>i. to_lower (index_string i)) (sn_Index sn)) (GetSecondaryIndexes desired)))
     @ (if IsUDNMappingEnabled (agent_EBPF (spec_Agent desired)) then [''udn''] else [])"

definition processor_app :: "FlowCollectorSpec \<Rightarrow> string" where
  "processor_app desired = (if UseKafka desired then transfoName else monoName)"

definition informer_args :: "FlowCollectorSpec \<Rightarrow> FlowCollectorInformerCacheProxy \<Rightarrow> string list" where
  "informer_args desired config =
     [''--processor-selector='' @ (if UseKafka desired then ''app=flowlogs-pipeline-transformer'' else ''app=flowlogs-pipeline''),
      ''--processor-port='' @ itoa (advanced_or aicp_ProcessorPort DefaultK8sCachePort config),
      ''--resync-interval='' @ itoa (advanced_or aicp_ResyncInterval 60 config),
      ''--batch-size='' @ itoa (advanced_or aicp_BatchSize 100 config),
      ''--send-timeout='' @ itoa (advanced_or aicp_SendTimeout 10 config),
      ''--update-buffer-size='' @ itoa (advanced_or aicp_UpdateBufferSize 100 config),
      ''--log-level='' @ flp_LogLevel (spec_Processor desired),
      ''--tracked-kinds=ReplicaSet,Deployment,Gateway'',
      ''--managed-cni=ovn'']
     @ (if length (sn_groups desired) > 0 then [''--secondary-networks='' @ str_join '';'' (sn_groups desired)] else [])"

definition addTLSArgs :: "'v informerBuilder \<Rightarrow> FlowCollectorInformerCacheProxy \<Rightarrow> string list \<Rightarrow> Builder \<Rightarrow> string list \<times> Builder" where
  "addTLSArgs b proxy args vols =
     (case GetServiceClientTLSConfig (Some (InformerTLSAsServiceConfig (Some proxy))) ''flowlogs-pipeline-informers-k8scache-client-cert''
             (IsOpenShift (inst_ClusterInfo (ib_info b))) of (caFile, clientCert) \<Rightarrow>
      let (args, vols) = (case caFile of None \<Rightarrow> (args, vols)
            | Some ca \<Rightarrow> (case AddVolume ca ''k8scache-server-ca'' vols of (caPath, v) \<Rightarrow>
                (args @ [''--tls-enabled=true'', ''--tls-ca-path='' @ caPath], v)));
          (args, vols) = (case clientCert of None \<Rightarrow> (args, vols)
            | Some cert \<Rightarrow> (case AddCertificate (Some cert) ''k8scache-client-certs'' vols of ((certPath, keyPath), v) \<Rightarrow>
                (args @ [''--tls-cert-path='' @ certPath, ''--tls-key-path='' @ keyPath], v)))
      in (if caFile \<noteq> None \<or> clientCert \<noteq> None
          then args @ [''--tls-server-name='' @ k8sCacheServiceName @ ''.'' @ inst_Namespace (ib_info b) @ ''.svc''] else args, vols))"

section \<open>Objects\<close>

definition tcp_port :: "string \<Rightarrow> int \<Rightarrow> ContainerPort" where
  "tcp_port n p = \<lparr>port_Name = n, port_HostPort = 0, port_ContainerPort = p, port_Protocol = ''TCP''\<rparr>"

definition informer_container_of ::
  "informer_lib \<Rightarrow> 'v informerBuilder \<Rightarrow> FlowCollectorInformerCacheProxy \<Rightarrow> string list \<Rightarrow> Builder \<Rightarrow> informer_container" where
  "informer_container_of lib b config args vols =
     \<lparr>ic_Name = informerName, ic_Image = inst_Images (ib_info b) MainImage,
      ic_ImagePullPolicy = flp_ImagePullPolicy (spec_Processor (ib_desired b)), ic_Command = [''/app/flp-informers''], ic_Args = args,
      ic_Env = [EnvFieldRef ''POD_NAMESPACE'' ''metadata.namespace'', EnvFieldRef ''POD_NAME'' ''metadata.name''],
      ic_Ports = [tcp_port ''grpc'' (advanced_or aicp_ProcessorPort DefaultK8sCachePort config), tcp_port ''health'' 8080, tcp_port ''metrics'' 9091],
      ic_VolumeMounts = GetMounts vols,
      ic_Resources = (if il_resources_set lib (icp_Resources config) then icp_Resources config else il_default_resources lib),
      ic_LivenessProbe = \<lparr>hprobe_Path = ''/healthz'', hprobe_Port = 8080, hprobe_InitialDelaySeconds = 10, hprobe_PeriodSeconds = 10,
        hprobe_TimeoutSeconds = 5, hprobe_FailureThreshold = 3\<rparr>,
      ic_ReadinessProbe = \<lparr>hprobe_Path = ''/ready'', hprobe_Port = 8080, hprobe_InitialDelaySeconds = 5, hprobe_PeriodSeconds = 5,
        hprobe_TimeoutSeconds = 3, hprobe_FailureThreshold = 2\<rparr>,
      ic_SecurityContext = ContainerDefaultSecurityContext, ic_TerminationMessagePolicy = ''FallbackToLogsOnError''\<rparr>"

definition informer_deployment_of :: "crd_defaults \<Rightarrow> informer_lib \<Rightarrow> 'v informerBuilder \<Rightarrow> informer_deployment" where
  "informer_deployment_of D lib b =
     (let desired = ib_desired b; config = proxy_config desired;
          labels = version_labels informerName (MaxLabelLength (ExtractVersion (inst_Images (ib_info b) MainImage)));
          (args, vols) = addTLSArgs b config (informer_args desired config) [];
          sched = the (apc_Scheduling (GetAdvancedProcessorConfig D desired))
      in \<lparr>id_Meta = new_meta informerName (inst_Namespace (ib_info b)) (Some labels) None,
          id_Replicas = ptr_or (icp_Replicas config) 2, id_Selector = [(''app'', informerName)], id_PodLabels = labels,
          id_ServiceAccountName = informerName, id_Containers = [informer_container_of lib b config args vols], id_Volumes = GetVolumes vols,
          id_NodeSelector = sched_NodeSelector sched, id_Tolerations = sched_Tolerations sched, id_Affinity = sched_Affinity sched,
          id_PriorityClassName = sched_PriorityClassName sched\<rparr>)"

definition informer_serviceAccount :: "'v informerBuilder \<Rightarrow> ObjectMeta" where
  "informer_serviceAccount b = new_meta informerName (inst_Namespace (ib_info b)) (Some (app_labels informerName)) None"

definition informer_service :: "'v informerBuilder \<Rightarrow> Service" where
  "informer_service b =
     (let flp = spec_Processor (ib_desired b); port = GetK8sCachePort flp in
      \<lparr>serv_Meta = new_meta k8sCacheServiceName (inst_Namespace (ib_info b)) (Some (app_labels k8sCacheServiceName))
         (if UsesOpenShiftServiceCA (flp_InformerCacheProxy flp) (IsOpenShift (inst_ClusterInfo (ib_info b)))
          then Some [(OpenShiftCertificateAnnotation, k8sCacheCertSecretName)] else None),
       serv_Selector = [(''app'', processor_app (ib_desired b))],
       serv_Ports = [\<lparr>sport_Name = ''k8scache'', sport_Port = port, sport_Protocol = ''TCP'', sport_TargetPort = port\<rparr>],
       serv_ClusterIP = []\<rparr>)"

end
