(* ===== verification/FLP_Controller.thy ===== *)
theory FLP_Controller
  imports FLP_Informers Watchers Alert_Rules Agent Subnet_Detection Operator_Config
begin

text \<open>
  The controllers of the processor: \<open>flp_controller.go\<close>, \<open>flp_informer_reconciler.go\<close>, \<open>flp_monolith_reconciler.go\<close> and
  \<open>flp_transfo_reconciler.go\<close> of \<open>internal/controller/flp\<close>. There is one client per kind of object on a common world. The Go values that
  comparisons reflect on, zero values of library types and texts of errors are parameters; logging is left out.
\<close>

section \<open>State and steps\<close>

datatype flp_failure =
  FlpClient client_error | FlpKafka client_error | FlpBuild flp_build_error | FlpJoined "client_error list" | FlpWrapped string flp_failure

record 'w flp_clients =
  pc_ds :: "(daemonset_body, 'w) k8s_client"
  pc_dep :: "(deployment_body, 'w) k8s_client"
  pc_svc :: "(service_body, 'w) k8s_client"
  pc_sa :: "(unit, 'w) k8s_client"
  pc_cm :: "(go_map option, 'w) k8s_client"
  pc_rb :: "(role_binding, 'w) k8s_client"
  pc_crb :: "(Subject list, 'w) k8s_client"
  pc_sm :: "(monitoring_object, 'w) k8s_client"
  pc_rule :: "(monitoring_object, 'w) k8s_client"
  pc_hpa :: "(HorizontalPodAutoscaler, 'w) k8s_client"

text \<open>The dynamic enqueuer registers watches of managed objects, by kind; the static one those of cluster role bindings.\<close>

record 'w flp_queues =
  pq_ds :: "(daemonset_body, 'w) enqueuer option"
  pq_dep :: "(deployment_body, 'w) enqueuer option"
  pq_svc :: "(service_body, 'w) enqueuer option"
  pq_sa :: "(unit, 'w) enqueuer option"
  pq_cm :: "(go_map option, 'w) enqueuer option"
  pq_rb :: "(role_binding, 'w) enqueuer option"
  pq_hpa :: "(HorizontalPodAutoscaler, 'w) enqueuer option"
  pq_crb :: "(Subject list, 'w) enqueuer option"

record flp_zero =
  pz_ds :: daemonset_body
  pz_dep :: deployment_body
  pz_svc :: service_body
  pz_rb :: role_binding
  pz_mon :: monitoring_object
  pz_hpa :: HorizontalPodAutoscaler

record ('w, 'f) flp_ctl =
  fx_clients :: "'w flp_clients"
  fx_queues :: "'w flp_queues"
  fx_zero :: flp_zero
  fx_lib :: "'f flp_lib"
  fx_informer_lib :: informer_lib
  fx_floats :: float_ops
  fx_watch :: "'w watch_env"
  fx_pods :: pod_lister
  fx_daemonset :: "workload \<Rightarrow> daemonset_body k8s_object"
  fx_deployment :: "workload \<Rightarrow> deployment_body k8s_object"
  fx_informer :: "informer_deployment \<Rightarrow> deployment_body k8s_object"
  fx_service :: "Service \<Rightarrow> service_body k8s_object"
  fx_monitor :: "ServiceMonitor \<Rightarrow> monitoring_object k8s_object"
  fx_rule :: "monitoring_rule PrometheusRule \<Rightarrow> monitoring_object k8s_object"
  fx_hpa :: "autoscaler \<Rightarrow> HorizontalPodAutoscaler k8s_object"
  fx_hpa_metrics :: "opaque list \<Rightarrow> go_value"
  fx_text :: "flp_failure \<Rightarrow> string"

record ('w, 'f) flp_state =
  fs_status :: Manager
  fs_pstate :: "'f pstate"
  fs_annotations :: go_map
  fs_watcher :: Watcher
  fs_namespace :: string
  fs_world :: 'w

type_synonym ('w, 'f) flp_step = "('w, 'f) flp_state \<Rightarrow> flp_failure option \<times> ('w, 'f) flp_state"

text \<open>Steps in order, up to the first that returns an error.\<close>

fun run_steps :: "('w, 'f) flp_step list \<Rightarrow> ('w, 'f) flp_step" where
  "run_steps [] s = (None, s)"
| "run_steps (f # fs) s = (case f s of (Some e, s') \<Rightarrow> (Some e, s') | (None, s') \<Rightarrow> run_steps fs s')"

definition on_world :: "('w \<Rightarrow> client_error option \<times> 'w) \<Rightarrow> ('w, 'f) flp_step" where
  "on_world f s = (case f (fs_world s) of (e, w) \<Rightarrow> (map_option FlpClient e, s\<lparr>fs_world := w\<rparr>))"

definition reported :: "('w \<Rightarrow> client_error option \<times> ChangeReport \<times> 'w) \<Rightarrow> 'w \<Rightarrow> client_error option \<times> 'w" where
  "reported f w = (case f w of (e, _, w') \<Rightarrow> (e, w'))"

definition set_status :: "(Manager \<Rightarrow> Manager) \<Rightarrow> ('w, 'f) flp_step" where
  "set_status f s = (None, s\<lparr>fs_status := f (fs_status s)\<rparr>)"

section \<open>Managed objects\<close>

record flp_managed =
  mg_ds :: "daemonset_body managedObject list"
  mg_dep :: "deployment_body managedObject list"
  mg_svc :: "service_body managedObject list"
  mg_hpa :: "HorizontalPodAutoscaler managedObject list"
  mg_sa :: "unit managedObject list"
  mg_cm :: "go_map option managedObject list"
  mg_rb :: "role_binding managedObject list"
  mg_sm :: "monitoring_object managedObject list"
  mg_rule :: "monitoring_object managedObject list"

definition blank :: "'b \<Rightarrow> 'b k8s_object" where
  "blank b = \<lparr>obj_Meta = new_meta [] [] None None, obj_Body = b\<rparr>"

definition FLPShortName :: string where "FLPShortName = ''flp''"
definition monoShortName :: string where "monoShortName = FLPShortName"
definition transfoShortName :: string where "transfoShortName = FLPShortName @ ''transfo''"

definition monitoring_managed :: "string \<Rightarrow> string \<Rightarrow> flp_zero \<Rightarrow> 'v Info \<Rightarrow> flp_managed \<Rightarrow> flp_managed" where
  "monitoring_managed smName ruleName z ci m =
     m\<lparr>mg_sm := (if HasSvcMonitor ci then addManagedObject smName ''*v1.ServiceMonitor'' 0 (blank (pz_mon z)) False [] else []),
       mg_rule := (if HasPromRule ci then addManagedObject ruleName ''*v1.PrometheusRule'' 0 (blank (pz_mon z)) False [] else [])\<rparr>"

text \<open>A placeholder is the position in the list of its kind.\<close>

definition newMonolithReconciler :: "flp_zero \<Rightarrow> 'v Info \<Rightarrow> flp_managed" where
  "newMonolithReconciler z ci =
     monitoring_managed monoServiceMonitor monoPromRule z ci
       \<lparr>mg_ds = addManagedObject monoName ''*v1.DaemonSet'' 0 (blank (pz_ds z)) True [],
        mg_dep = addManagedObject monoName ''*v1.Deployment'' 0 (blank (pz_dep z)) True [],
        mg_svc = addManagedObject FLPMetricsSvcName ''*v1.Service'' 1 (blank (pz_svc z)) True
          (addManagedObject monoName ''*v1.Service'' 0 (blank (pz_svc z)) True []),
        mg_hpa = [],
        mg_sa = addManagedObject monoName ''*v1.ServiceAccount'' 0 (blank ()) True [],
        mg_cm = addManagedObject monoDynConfigMap ''*v1.ConfigMap'' 1 (blank None) True
          (addManagedObject monoConfigMap ''*v1.ConfigMap'' 0 (blank None) True []),
        mg_rb = addManagedObject (GetRoleBindingName monoShortName ConfigWatcherRole) ''*v1.RoleBinding'' 0 (blank (pz_rb z)) True [],
        mg_sm = [], mg_rule = []\<rparr>"

definition newInformerReconciler :: "flp_zero \<Rightarrow> flp_managed" where
  "newInformerReconciler z =
     \<lparr>mg_ds = [],
      mg_dep = addManagedObject informerName ''*v1.Deployment'' 0 (blank (pz_dep z)) True [],
      mg_svc = addManagedObject k8sCacheServiceName ''*v1.Service'' 0 (blank (pz_svc z)) True [],
      mg_hpa = [],
      mg_sa = addManagedObject informerName ''*v1.ServiceAccount'' 0 (blank ()) True [],
      mg_cm = [], mg_rb = [], mg_sm = [], mg_rule = []\<rparr>"

definition newTransformerReconciler :: "flp_zero \<Rightarrow> 'v Info \<Rightarrow> flp_managed" where
  "newTransformerReconciler z ci =
     monitoring_managed transfoServiceMonitor transfoPromRule z ci
       \<lparr>mg_ds = [],
        mg_dep = addManagedObject transfoName ''*v1.Deployment'' 0 (blank (pz_dep z)) True [],
        mg_svc = addManagedObject FLPTransfoMetricsSvcName ''*v1.Service'' 0 (blank (pz_svc z)) True [],
        mg_hpa = addManagedObject transfoName ''*v2.HorizontalPodAutoscaler'' 0 (blank (pz_hpa z)) True [],
        mg_sa = addManagedObject transfoName ''*v1.ServiceAccount'' 0 (blank ()) True [],
        mg_cm = addManagedObject transfoDynConfigMap ''*v1.ConfigMap'' 1 (blank None) True
          (addManagedObject transfoConfigMap ''*v1.ConfigMap'' 0 (blank None) True []),
        mg_rb = addManagedObject (GetRoleBindingName transfoShortName ConfigWatcherRole) ''*v1.RoleBinding'' 0 (blank (pz_rb z)) True [],
        mg_sm = [], mg_rule = []\<rparr>"

text \<open>
  \<open>FetchAll\<close> over all the kinds, in the order in which both controllers register them: objects of one kind are registered one
  after the other. The first error stops it.
\<close>

definition fetching ::
  "(client_error option \<times> 'b managedObject list \<times> 'w) \<Rightarrow> ('b managedObject list \<Rightarrow> flp_managed \<Rightarrow> flp_managed) \<Rightarrow> flp_managed
     \<Rightarrow> (flp_managed \<Rightarrow> 'w \<Rightarrow> client_error option \<times> flp_managed \<times> 'w) \<Rightarrow> client_error option \<times> flp_managed \<times> 'w" where
  "fetching r put m k = (case r of (Some e, l, w) \<Rightarrow> (Some e, put l m, w) | (None, l, w) \<Rightarrow> k (put l m) w)"

definition flp_FetchAll :: "('w, 'f) flp_ctl \<Rightarrow> string \<Rightarrow> flp_managed \<Rightarrow> 'w \<Rightarrow> client_error option \<times> flp_managed \<times> 'w" where
  "flp_FetchAll ctl ns m w =
     (let cl = fx_clients ctl; q = fx_queues ctl in
      fetching (FetchAll (pc_ds cl) (pq_ds q) ns (mg_ds m) w) (\<lambda>l. mg_ds_update (\<lambda>_. l)) m (\<lambda>m w.
      fetching (FetchAll (pc_dep cl) (pq_dep q) ns (mg_dep m) w) (\<lambda>l. mg_dep_update (\<lambda>_. l)) m (\<lambda>m w.
      fetching (FetchAll (pc_svc cl) (pq_svc q) ns (mg_svc m) w) (\<lambda>l. mg_svc_update (\<lambda>_. l)) m (\<lambda>m w.
      fetching (FetchAll (pc_hpa cl) (pq_hpa q) ns (mg_hpa m) w) (\<lambda>l. mg_hpa_update (\<lambda>_. l)) m (\<lambda>m w.
      fetching (FetchAll (pc_sa cl) (pq_sa q) ns (mg_sa m) w) (\<lambda>l. mg_sa_update (\<lambda>_. l)) m (\<lambda>m w.
      fetching (FetchAll (pc_cm cl) (pq_cm q) ns (mg_cm m) w) (\<lambda>l. mg_cm_update (\<lambda>_. l)) m (\<lambda>m w.
      fetching (FetchAll (pc_rb cl) (pq_rb q) ns (mg_rb m) w) (\<lambda>l. mg_rb_update (\<lambda>_. l)) m (\<lambda>m w.
      fetching (FetchAll (pc_sm cl) None ns (mg_sm m) w) (\<lambda>l. mg_sm_update (\<lambda>_. l)) m (\<lambda>m w.
      fetching (FetchAll (pc_rule cl) None ns (mg_rule m) w) (\<lambda>l. mg_rule_update (\<lambda>_. l)) m (\<lambda>m w. (None, m, w)))))))))))"

definition deleting :: "(client_error list \<times> 'w) \<Rightarrow> ('w \<Rightarrow> client_error list \<times> 'w) \<Rightarrow> client_error list \<times> 'w" where
  "deleting r k = (case r of (es, w) \<Rightarrow> (case k w of (es', w') \<Rightarrow> (es @ es', w')))"

definition flp_TryDeleteAll :: "('w, 'f) flp_ctl \<Rightarrow> flp_managed \<Rightarrow> ('w, 'f) flp_step" where
  "flp_TryDeleteAll ctl m s =
     (let cl = fx_clients ctl in
      case deleting (TryDeleteAll (mg_ds m) (pc_ds cl) (mg_ds m) (fs_world s)) (\<lambda>w.
           deleting (TryDeleteAll (mg_dep m) (pc_dep cl) (mg_dep m) w) (\<lambda>w.
           deleting (TryDeleteAll (mg_svc m) (pc_svc cl) (mg_svc m) w) (\<lambda>w.
           deleting (TryDeleteAll (mg_hpa m) (pc_hpa cl) (mg_hpa m) w) (\<lambda>w.
           deleting (TryDeleteAll (mg_sa m) (pc_sa cl) (mg_sa m) w) (\<lambda>w.
           deleting (TryDeleteAll (mg_cm m) (pc_cm cl) (mg_cm m) w) (\<lambda>w.
           deleting (TryDeleteAll (mg_rb m) (pc_rb cl) (mg_rb m) w) (\<lambda>w.
           deleting (TryDeleteAll (mg_sm m) (pc_sm cl) (mg_sm m) w) (\<lambda>w.
           TryDeleteAll (mg_rule m) (pc_rule cl) (mg_rule m) w)))))))) of
        (es, w) \<Rightarrow> (if es = [] then None else Some (FlpJoined es), s\<lparr>fs_world := w\<rparr>))"

definition placeholder :: "'b managedObject list \<Rightarrow> nat \<Rightarrow> 'b k8s_object" where
  "placeholder l i = mo_object (l ! i)"

section \<open>Steps that the monolith and the transformer share\<close>

definition PodConfigurationDigest :: string where "PodConfigurationDigest = AnnotationDomain @ ''/config-digest''"

definition cm_data :: "go_map option k8s_object \<Rightarrow> go_value" where
  "cm_data x = str_map (case obj_Body x of None \<Rightarrow> [] | Some m \<Rightarrow> m)"

text \<open>The static config map is treated inline, the dynamic one by \<open>reconcileDynamicConfigMap\<close>, in the same way.\<close>

definition reconcileConfigMap :: "('w, 'f) flp_ctl \<Rightarrow> flp_managed \<Rightarrow> nat \<Rightarrow> go_map option k8s_object \<Rightarrow> 'w \<Rightarrow> client_error option \<times> 'w" where
  "reconcileConfigMap ctl m i new w =
     (let cl = pc_cm (fx_clients ctl); old = placeholder (mg_cm m) i in
      if \<not> Exists (mg_cm m) (Some i) then CreateOwned cl new w
      else if \<not> deepDerivative (cm_data new) (cm_data old) then UpdateIfOwned cl (Some old) new w
      else (None, w))"

definition flp_permissions ::
  "('w, 'f) flp_ctl \<Rightarrow> string \<Rightarrow> flp_managed \<Rightarrow> string \<Rightarrow> string \<Rightarrow> ObjectMeta \<Rightarrow> 'w \<Rightarrow> client_error option \<times> 'w" where
  "flp_permissions ctl ns m shortName name sa w =
     (if \<not> Exists (mg_sa m) (Some 0) then CreateOwned (pc_sa (fx_clients ctl)) \<lparr>obj_Meta = sa, obj_Body = ()\<rparr> w
      else ReconcileRoleBinding (pc_rb (fx_clients ctl)) (GetRoleBinding ns shortName name name ConfigWatcherRole True) w)"

definition flp_prometheusService ::
  "('w, 'f) flp_ctl \<Rightarrow> 'v flpBuilder \<Rightarrow> flp_managed \<Rightarrow> nat \<Rightarrow> Service \<Rightarrow> ServiceMonitor \<Rightarrow> (monitoring_rule list \<Rightarrow> monitoring_rule PrometheusRule)
     \<Rightarrow> 'w \<Rightarrow> client_error option \<times> 'w" where
  "flp_prometheusService ctl b m i service monitor rule w =
     (let cl = fx_clients ctl; ci = inst_ClusterInfo (fb_info b) in
      case ReconcileService (mg_svc m) (pc_svc cl) (Some i) (placeholder (mg_svc m) i) (fx_service ctl service)
             (NewChangeReport ''FLP prometheus service'') w of
        (Some e, _, w1) \<Rightarrow> (Some e, w1)
      | (None, report, w1) \<Rightarrow>
          (case (if HasSvcMonitor ci
                 then GenericReconcile (mg_sm m) (pc_sm cl) (Some 0) (placeholder (mg_sm m) 0) (fx_monitor ctl monitor)
                   (\<lambda>old n. ServiceMonitorChanged (obj_Body old) (obj_Body n)) report w1
                 else (None, report, w1)) of
             (Some e, _, w2) \<Rightarrow> (Some e, w2)
           | (None, report, w2) \<Rightarrow>
               if HasPromRule ci
               then reported (GenericReconcile (mg_rule m) (pc_rule cl) (Some 0) (placeholder (mg_rule m) 0)
                 (fx_rule ctl (rule (BuildMonitoringRules (fx_floats ctl) (fb_desired b))))
                 (\<lambda>old n. PrometheusRuleChanged (obj_Body old) (obj_Body n)) report) w2
               else (None, w2)))"

definition forget :: "('w \<Rightarrow> (client_error + string) \<times> 'w) \<Rightarrow> 'w \<Rightarrow> client_error option \<times> 'w" where
  "forget f w = (case f w of (Inl e, w') \<Rightarrow> (Some e, w') | (Inr _, w') \<Rightarrow> (None, w'))"

definition lokiCACert :: "('w, 'f) flp_ctl \<Rightarrow> 'v Instance \<Rightarrow> FlowCollectorSpec \<Rightarrow> ('w, 'f) flp_step" where
  "lokiCACert ctl c spec s =
     (if UseLoki spec then on_world (forget (ProcessCACert (fx_watch ctl) (fs_watcher s) (lman_TLS (inst_Loki c)) (inst_Namespace c))) s
      else (None, s))"

definition annotate_digest :: "string \<Rightarrow> string \<Rightarrow> go_map \<Rightarrow> go_map" where
  "annotate_digest key digest ann = (if digest \<noteq> [] then go_map_set (Annotation key) digest ann else ann)"

definition annotateKafkaCerts :: "('w, 'f) flp_ctl \<Rightarrow> 'v Instance \<Rightarrow> FlowCollectorKafka \<Rightarrow> string \<Rightarrow> ('w, 'f) flp_step" where
  "annotateKafkaCerts ctl c spec prefix s =
     (case ProcessMTLSCerts (fx_watch ctl) (fs_watcher s) (kafka_TLS spec) (inst_Namespace c) (fs_world s) of
        (Inl e, w1) \<Rightarrow> (Some (FlpKafka e), s\<lparr>fs_world := w1\<rparr>)
      | (Inr (caDigest, userDigest), w1) \<Rightarrow>
          (let s1 = s\<lparr>fs_world := w1,
                 fs_annotations := annotate_digest (prefix @ ''-user'') userDigest (annotate_digest (prefix @ ''-ca'') caDigest (fs_annotations s))\<rparr>
           in if UseSASL (kafka_SASL spec) then
                (case ProcessSASL (fx_watch ctl) (fs_watcher s) (kafka_SASL spec) (inst_Namespace c) w1 of
                   (Inl e, w2) \<Rightarrow> (Some (FlpKafka e), s1\<lparr>fs_world := w2\<rparr>)
                 | (Inr (d1, d2), w2) \<Rightarrow>
                     (None, s1\<lparr>fs_world := w2,
                        fs_annotations := annotate_digest (prefix @ ''-sd2'') d2 (annotate_digest (prefix @ ''-sd1'') d1 (fs_annotations s1))\<rparr>))
              else (None, s1)))"

definition annotateKafkaExporterCerts :: "('w, 'f) flp_ctl \<Rightarrow> 'v Instance \<Rightarrow> FlowCollectorExporter list \<Rightarrow> ('w, 'f) flp_step" where
  "annotateKafkaExporterCerts ctl c exps =
     run_steps (map (\<lambda>(i, e). if exp_Type e = KafkaExporter then annotateKafkaCerts ctl c (exp_Kafka e) (''kafka-export-'' @ itoa (int i))
                       else (\<lambda>s. (None, s))) (enumerate 0 exps))"

definition reconcileMonitoringCerts :: "('w, 'f) flp_ctl \<Rightarrow> 'v Instance \<Rightarrow> ServerTLS \<Rightarrow> ('w, 'f) flp_step" where
  "reconcileMonitoringCerts ctl c t =
     run_steps
       [\<lambda>s. if stls_Type t = TLSProvided \<and> stls_Provided t \<noteq> None
            then on_world (forget (ProcessCertRef (fx_watch ctl) (fs_watcher s) (stls_Provided t) (inst_Namespace c))) s else (None, s),
        \<lambda>s. case stls_ProvidedCAFile t of
            Some f \<Rightarrow> if \<not> stls_InsecureSkipVerify t \<and> fref_File f \<noteq> []
              then on_world (forget (ProcessFileReference (fx_watch ctl) (fs_watcher s) f (inst_Namespace c))) s else (None, s)
          | None \<Rightarrow> (None, s)]"

definition metrics_tls :: "FlowCollectorSpec \<Rightarrow> ServerTLS" where
  "metrics_tls spec = msc_TLS (fm_Server (flp_Metrics (spec_Processor spec)))"

text \<open>A pod is built from the volumes of the builder, which it may extend.\<close>

definition building :: "(Builder \<Rightarrow> workload \<times> Builder) \<Rightarrow> (workload \<Rightarrow> ('w, 'f) flp_step) \<Rightarrow> ('w, 'f) flp_step" where
  "building f k s =
     (case f (ps_volumes (fs_pstate s)) of (wl, v) \<Rightarrow> k wl (s\<lparr>fs_pstate := (fs_pstate s)\<lparr>ps_volumes := v\<rparr>\<rparr>))"

definition with_status ::
  "(Manager \<Rightarrow> 'w \<Rightarrow> client_error option \<times> ChangeReport \<times> Manager \<times> 'w) \<Rightarrow> ('w, 'f) flp_step" where
  "with_status f s =
     (case f (fs_status s) (fs_world s) of (e, _, st, w) \<Rightarrow> (map_option FlpClient e, s\<lparr>fs_status := st, fs_world := w\<rparr>))"

definition flp_reconcileDeployment ::
  "('w, 'f) flp_ctl \<Rightarrow> ComponentName \<Rightarrow> flp_managed \<Rightarrow> deployment_body k8s_object \<Rightarrow> string \<Rightarrow> bool \<Rightarrow> string \<Rightarrow> ('w, 'f) flp_step" where
  "flp_reconcileDeployment ctl cpnt m desired container ignoreReplicas what =
     with_status (ReconcileDeployment (fx_pods ctl) cpnt (mg_dep m) (pc_dep (fx_clients ctl)) (Some 0) (placeholder (mg_dep m) 0) desired
       container ignoreReplicas (NewChangeReport what))"

text \<open>One call of \<open>ReconcileClusterRoleBinding\<close> per role, the flag telling whether the account needs it.\<close>

definition bind_roles :: "('w, 'f) flp_ctl \<Rightarrow> 'v Instance \<Rightarrow> string \<Rightarrow> (string \<times> bool) list \<Rightarrow> ('w, 'f) flp_step" where
  "bind_roles ctl c sa needs =
     run_steps (map (\<lambda>(role, needed).
       on_world (ReconcileClusterRoleBinding (pq_crb (fx_queues ctl)) (pc_crb (fx_clients ctl)) (inst_Namespace c) sa role (\<not> needed))) needs)"

definition pipeline_roles :: "FlowCollectorSpec \<Rightarrow> bool \<Rightarrow> (string \<times> bool) list" where
  "pipeline_roles spec isDelete =
     [(LokiWriterRole, UseLoki spec \<and> loki_Mode (spec_Loki spec) = LokiModeLokiStack \<and> \<not> isDelete),
      (FLPInformersRole, \<not> IsInformerCacheProxyEnabled (spec_Processor spec) \<and> \<not> isDelete),
      (FLPExtraReaderRole, IsBgpEnrichmentEnabled (spec_Processor spec) \<and> \<not> isDelete)]"

text \<open>The branch of \<open>reconcile\<close> for a component that is not used.\<close>

definition remove_unused :: "('w, 'f) flp_ctl \<Rightarrow> ComponentName \<Rightarrow> FlowCollectorSpec \<Rightarrow> bool \<Rightarrow> string \<Rightarrow> flp_managed \<Rightarrow> ('w, 'f) flp_step" where
  "remove_unused ctl cpnt spec unused message m =
     run_steps
       [if OnHold_spec spec then set_status (setUnused cpnt ''FlowCollector is on hold'') else (\<lambda>s. (None, s)),
        if unused then set_status (setUnused cpnt message) else (\<lambda>s. (None, s)),
        flp_TryDeleteAll ctl m]"

text \<open>The builder starts with no volumes; metrics, slices and their statuses are those of the parent.\<close>

definition with_configs ::
  "(flp_build_error + 'v flpBuilder)
     \<Rightarrow> ('v flpBuilder \<Rightarrow> 'f pstate \<Rightarrow> (flp_build_error + go_map option k8s_object \<times> string \<times> go_map option k8s_object) \<times> 'f pstate)
     \<Rightarrow> ('v flpBuilder \<Rightarrow> go_map option k8s_object \<Rightarrow> go_map option k8s_object \<Rightarrow> ('w, 'f) flp_step) \<Rightarrow> ('w, 'f) flp_step" where
  "with_configs builder configs k s =
     (case builder of
        Inl e \<Rightarrow> (Some (FlpBuild e), s)
      | Inr b \<Rightarrow>
          (case configs b ((fs_pstate s)\<lparr>ps_volumes := []\<rparr>) of
             (Inl e, p) \<Rightarrow> (Some (FlpBuild e), s\<lparr>fs_pstate := p\<rparr>)
           | (Inr (static, digest, dynamic), p) \<Rightarrow>
               k b static dynamic (s\<lparr>fs_pstate := p, fs_annotations := [(PodConfigurationDigest, digest)]\<rparr>)))"

text \<open>\<open>FetchAll\<close>, and what follows with the objects that were found.\<close>

definition with_managed :: "('w, 'f) flp_ctl \<Rightarrow> 'v Instance \<Rightarrow> flp_managed \<Rightarrow> (flp_managed \<Rightarrow> ('w, 'f) flp_step) \<Rightarrow> ('w, 'f) flp_step" where
  "with_managed ctl c m0 k s =
     (case flp_FetchAll ctl (inst_Namespace c) m0 (fs_world s) of
        (Some e, _, w) \<Rightarrow> (Some (FlpClient e), s\<lparr>fs_world := w\<rparr>)
      | (None, m, w) \<Rightarrow> k m (s\<lparr>fs_world := w\<rparr>))"

section \<open>The monolith\<close>

definition mono_reconcileCRB :: "('w, 'f) flp_ctl \<Rightarrow> 'v Instance \<Rightarrow> FlowCollectorSpec \<Rightarrow> bool \<Rightarrow> ('w, 'f) flp_step" where
  "mono_reconcileCRB ctl c spec isDelete =
     bind_roles ctl c monoName
       ((HostNetworkRole, IsOpenShift (inst_ClusterInfo c) \<and> UseHostNetwork spec \<and> \<not> isDelete) # pipeline_roles spec isDelete)"

definition mono_reconcilePermissions :: "('w, 'f) flp_ctl \<Rightarrow> 'v flpBuilder \<Rightarrow> flp_managed \<Rightarrow> 'w \<Rightarrow> client_error option \<times> 'w" where
  "mono_reconcilePermissions ctl b m =
     flp_permissions ctl (inst_Namespace (fb_info b)) m monoShortName monoName (mono_serviceAccount b)"

definition mono_reconcileService :: "('w, 'f) flp_ctl \<Rightarrow> 'v flpBuilder \<Rightarrow> flp_managed \<Rightarrow> 'w \<Rightarrow> client_error option \<times> 'w" where
  "mono_reconcileService ctl b m =
     reported (ReconcileService (mg_svc m) (pc_svc (fx_clients ctl)) (Some 0) (placeholder (mg_svc m) 0)
       (fx_service ctl (mono_service (lib_defaults (fx_lib ctl)) b)) (NewChangeReport ''FLP service''))"

definition reconcileOrDeleteService :: "('w, 'f) flp_ctl \<Rightarrow> 'v flpBuilder \<Rightarrow> flp_managed \<Rightarrow> 'w \<Rightarrow> client_error option \<times> 'w" where
  "reconcileOrDeleteService ctl b m =
     (if UseHostNetwork (fb_desired b) then TryDelete (mg_svc m) (pc_svc (fx_clients ctl)) (Some 0) (placeholder (mg_svc m) 0)
      else mono_reconcileService ctl b m)"

definition mono_reconcilePrometheusService :: "('w, 'f) flp_ctl \<Rightarrow> 'v flpBuilder \<Rightarrow> flp_managed \<Rightarrow> 'w \<Rightarrow> client_error option \<times> 'w" where
  "mono_reconcilePrometheusService ctl b m =
     flp_prometheusService ctl b m 1 (mono_promService b) (mono_serviceMonitor b) (mono_prometheusRule b)"

definition mono_reconcileDaemonSet :: "('w, 'f) flp_ctl \<Rightarrow> flp_managed \<Rightarrow> daemonset_body k8s_object \<Rightarrow> ('w, 'f) flp_step" where
  "mono_reconcileDaemonSet ctl m desired =
     with_status (ReconcileDaemonSet (fx_pods ctl) FLPMonolith (mg_ds m) (pc_ds (fx_clients ctl)) (Some 0) (placeholder (mg_ds m) 0) desired
       FLPName (NewChangeReport ''FLP DaemonSet''))"

definition mono_reconcileDeployment :: "('w, 'f) flp_ctl \<Rightarrow> 'v flpBuilder \<Rightarrow> flp_managed \<Rightarrow> workload \<Rightarrow> ('w, 'f) flp_step" where
  "mono_reconcileDeployment ctl b m wl =
     flp_reconcileDeployment ctl FLPMonolith m (fx_deployment ctl wl) FLPName (IsUnmanagedFLPReplicas (spec_Processor (fb_desired b))) ''FLP Deployment''"

definition reconcileWorkload :: "('w, 'f) flp_ctl \<Rightarrow> 'v flpBuilder \<Rightarrow> flp_managed \<Rightarrow> ('w, 'f) flp_step" where
  "reconcileWorkload ctl b m s =
     (if UseHostNetwork (fb_desired b) then
        run_steps
          [on_world (TryDelete (mg_dep m) (pc_dep (fx_clients ctl)) (Some 0) (placeholder (mg_dep m) 0)),
           building (mono_daemonSet (fx_lib ctl) b (fs_annotations s)) (\<lambda>wl. mono_reconcileDaemonSet ctl m (fx_daemonset ctl wl))] s
      else
        run_steps
          [on_world (TryDelete (mg_ds m) (pc_ds (fx_clients ctl)) (Some 0) (placeholder (mg_ds m) 0)),
           building (mono_deployment (fx_lib ctl) b (fs_annotations s)) (mono_reconcileDeployment ctl b m)] s)"

definition mono_deploy ::
  "('w, 'f) flp_ctl \<Rightarrow> 'v Instance \<Rightarrow> FlowCollectorSpec \<Rightarrow> SubnetLabel list \<Rightarrow> flp_managed \<Rightarrow> ('w, 'f) flp_step" where
  "mono_deploy ctl c spec subnets m =
     with_configs (newMonolithBuilder c spec subnets) (mono_configMaps (fx_lib ctl)) (\<lambda>b static dynamic.
       run_steps
         [on_world (reconcileConfigMap ctl m 0 static),
          on_world (reconcileConfigMap ctl m 1 dynamic),
          on_world (mono_reconcilePermissions ctl b m),
          on_world (reconcileOrDeleteService ctl b m),
          on_world (mono_reconcilePrometheusService ctl b m),
          lokiCACert ctl c spec,
          annotateKafkaExporterCerts ctl c (spec_Exporters spec),
          reconcileMonitoringCerts ctl c (metrics_tls spec),
          reconcileWorkload ctl b m])"

definition mono_reconcile :: "('w, 'f) flp_ctl \<Rightarrow> 'v Instance \<Rightarrow> FlowCollectorSpec \<Rightarrow> SubnetLabel list \<Rightarrow> ('w, 'f) flp_step" where
  "mono_reconcile ctl c spec subnets =
     with_managed ctl c (newMonolithReconciler (fx_zero ctl) (inst_ClusterInfo c)) (\<lambda>m.
       let isDelete = OnHold_spec spec \<or> UseKafka spec in
       run_steps
         [mono_reconcileCRB ctl c spec isDelete,
          if isDelete then remove_unused ctl FLPMonolith spec (UseKafka spec) ''Monolith only used without Kafka'' m
          else mono_deploy ctl c spec subnets m])"

section \<open>The transformer\<close>

definition transfo_reconcileCRB :: "('w, 'f) flp_ctl \<Rightarrow> 'v Instance \<Rightarrow> FlowCollectorSpec \<Rightarrow> bool \<Rightarrow> ('w, 'f) flp_step" where
  "transfo_reconcileCRB ctl c spec isDelete = bind_roles ctl c transfoName (pipeline_roles spec isDelete)"

definition transfo_reconcilePermissions :: "('w, 'f) flp_ctl \<Rightarrow> 'v flpBuilder \<Rightarrow> flp_managed \<Rightarrow> 'w \<Rightarrow> client_error option \<times> 'w" where
  "transfo_reconcilePermissions ctl b m =
     flp_permissions ctl (inst_Namespace (fb_info b)) m transfoShortName transfoName (transfo_serviceAccount b)"

definition transfo_reconcilePrometheusService :: "('w, 'f) flp_ctl \<Rightarrow> 'v flpBuilder \<Rightarrow> flp_managed \<Rightarrow> 'w \<Rightarrow> client_error option \<times> 'w" where
  "transfo_reconcilePrometheusService ctl b m =
     flp_prometheusService ctl b m 0 (transfo_promService b) (transfo_serviceMonitor b) (transfo_prometheusRule b)"

definition transfo_reconcileDeployment :: "('w, 'f) flp_ctl \<Rightarrow> 'v flpBuilder \<Rightarrow> flp_managed \<Rightarrow> ('w, 'f) flp_step" where
  "transfo_reconcileDeployment ctl b m s =
     building (transfo_deployment (fx_lib ctl) b (fs_annotations s)) (\<lambda>wl.
       flp_reconcileDeployment ctl FLPTransformer m (fx_deployment ctl wl) FLPName (IsUnmanagedFLPReplicas (spec_Processor (fb_desired b)))
         ''FLP Deployment'') s"

definition transfo_reconcileHPA :: "('w, 'f) flp_ctl \<Rightarrow> 'v flpBuilder \<Rightarrow> flp_managed \<Rightarrow> 'w \<Rightarrow> client_error option \<times> 'w" where
  "transfo_reconcileHPA ctl b m =
     reported (ReconcileHPA (fx_hpa_metrics ctl) (mg_hpa m) (pc_hpa (fx_clients ctl)) (Some 0) (placeholder (mg_hpa m) 0)
       (fx_hpa ctl (transfo_autoScaler b)) (flp_KafkaConsumerAutoscaler (spec_Processor (fb_desired b))) (NewChangeReport ''FLP autoscaler''))"

definition transfo_deploy ::
  "('w, 'f) flp_ctl \<Rightarrow> 'v Instance \<Rightarrow> FlowCollectorSpec \<Rightarrow> SubnetLabel list \<Rightarrow> flp_managed \<Rightarrow> ('w, 'f) flp_step" where
  "transfo_deploy ctl c spec subnets m =
     with_configs (newTransfoBuilder c spec subnets) (transfo_configMaps (fx_lib ctl)) (\<lambda>b static dynamic.
       run_steps
         [on_world (reconcileConfigMap ctl m 0 static),
          on_world (reconcileConfigMap ctl m 1 dynamic),
          on_world (transfo_reconcilePermissions ctl b m),
          on_world (transfo_reconcilePrometheusService ctl b m),
          lokiCACert ctl c spec,
          annotateKafkaCerts ctl c (spec_Kafka spec) ''kafka'',
          annotateKafkaExporterCerts ctl c (spec_Exporters spec),
          reconcileMonitoringCerts ctl c (metrics_tls spec),
          transfo_reconcileDeployment ctl b m,
          on_world (transfo_reconcileHPA ctl b m)])"

definition transfo_reconcile :: "('w, 'f) flp_ctl \<Rightarrow> 'v Instance \<Rightarrow> FlowCollectorSpec \<Rightarrow> SubnetLabel list \<Rightarrow> ('w, 'f) flp_step" where
  "transfo_reconcile ctl c spec subnets =
     with_managed ctl c (newTransformerReconciler (fx_zero ctl) (inst_ClusterInfo c)) (\<lambda>m.
       let isDelete = OnHold_spec spec \<or> \<not> UseKafka spec in
       run_steps
         [transfo_reconcileCRB ctl c spec isDelete,
          if isDelete then remove_unused ctl FLPTransformer spec (\<not> UseKafka spec) ''Transformer only used with Kafka'' m
          else transfo_deploy ctl c spec subnets m])"

section \<open>The informers\<close>

definition wrap_step :: "string \<Rightarrow> ('w, 'f) flp_step \<Rightarrow> ('w, 'f) flp_step" where
  "wrap_step msg f s = (case f s of (e, s') \<Rightarrow> (map_option (FlpWrapped msg) e, s'))"

definition informer_reconcilePermissions :: "('w, 'f) flp_ctl \<Rightarrow> 'v Instance \<Rightarrow> bool \<Rightarrow> ('w, 'f) flp_step" where
  "informer_reconcilePermissions ctl c isDelete = bind_roles ctl c informerName [(FLPInformersRole, \<not> isDelete)]"

definition informer_reconcileServiceAccount :: "('w, 'f) flp_ctl \<Rightarrow> 'v informerBuilder \<Rightarrow> flp_managed \<Rightarrow> ('w, 'f) flp_step" where
  "informer_reconcileServiceAccount ctl b m =
     (if \<not> Exists (mg_sa m) (Some 0)
      then wrap_step ''failed to create service account: ''
        (on_world (CreateOwned (pc_sa (fx_clients ctl)) \<lparr>obj_Meta = informer_serviceAccount b, obj_Body = ()\<rparr>))
      else (\<lambda>s. (None, s)))"

definition informer_reconcileService :: "('w, 'f) flp_ctl \<Rightarrow> 'v informerBuilder \<Rightarrow> flp_managed \<Rightarrow> 'w \<Rightarrow> client_error option \<times> 'w" where
  "informer_reconcileService ctl b m =
     reported (ReconcileService (mg_svc m) (pc_svc (fx_clients ctl)) (Some 0) (placeholder (mg_svc m) 0)
       (fx_service ctl (informer_service b)) (NewChangeReport ''k8scache Service''))"

definition informer_reconcileDeployment :: "('w, 'f) flp_ctl \<Rightarrow> 'v informerBuilder \<Rightarrow> flp_managed \<Rightarrow> ('w, 'f) flp_step" where
  "informer_reconcileDeployment ctl b m =
     wrap_step ''failed to reconcile deployment: ''
       (flp_reconcileDeployment ctl FLPInformers m
         (fx_informer ctl (informer_deployment_of (lib_defaults (fx_lib ctl)) (fx_informer_lib ctl) b)) informerName False ''FLP informers Deployment'')"

definition informer_reconcile :: "('w, 'f) flp_ctl \<Rightarrow> 'v Instance \<Rightarrow> FlowCollectorSpec \<Rightarrow> ('w, 'f) flp_step" where
  "informer_reconcile ctl c spec s =
     (case flp_FetchAll ctl (inst_Namespace c) (newInformerReconciler (fx_zero ctl)) (fs_world s) of
        (Some e, _, w) \<Rightarrow> (Some (FlpWrapped ''failed to fetch all managed resources: '' (FlpClient e)), s\<lparr>fs_world := w\<rparr>)
      | (None, m, w) \<Rightarrow>
          (let unused = \<not> IsInformerCacheProxyEnabled (spec_Processor spec); isDelete = OnHold_spec spec \<or> unused; b = newInformerBuilder c spec in
           run_steps
             (wrap_step ''failed to reconcile permissions: '' (informer_reconcilePermissions ctl c isDelete)
              # (if isDelete
                 then [remove_unused ctl FLPInformers spec unused ''Centralized informers disabled - using local informers mode'' m]
                 else [wrap_step ''failed to reconcile service account: '' (informer_reconcileServiceAccount ctl b m),
                       wrap_step ''failed to reconcile k8scache service: '' (on_world (informer_reconcileService ctl b m)),
                       wrap_step ''failed to reconcile deployment: '' (informer_reconcileDeployment ctl b m),
                       set_status (setReady FLPInformers)])) (s\<lparr>fs_world := w\<rparr>)))"

end
