(* ===== verification/FLP_Cluster.thy ===== *)
theory FLP_Cluster
  imports FLP_Controller Api_Store
begin

text \<open>
  A concrete cluster for the controllers of the processor: one store of objects per kind in one record, with a client for each kind. What a
  client does is proved once for a store inside a larger state, and holds for every kind.
\<close>

section \<open>A store inside a state\<close>

definition lens_client :: "('w \<Rightarrow> 'b store) \<Rightarrow> (('b store \<Rightarrow> 'b store) \<Rightarrow> 'w \<Rightarrow> 'w) \<Rightarrow> ('b, 'w) k8s_client" where
  "lens_client get put =
     \<lparr>cl_Get = (\<lambda>k w. case get w k of None \<Rightarrow> Inl NotFound | Some x \<Rightarrow> Inr x),
      cl_Create = (\<lambda>x w. if get w (key_of x) = None then (None, put (\<lambda>st. st(key_of x \<mapsto> x)) w) else (Some Conflict, w)),
      cl_Update = (\<lambda>x w. if get w (key_of x) = None then (Some NotFound, w) else (None, put (\<lambda>st. st(key_of x \<mapsto> x)) w)),
      cl_Delete = (\<lambda>x w. if get w (key_of x) = None then (Some NotFound, w) else (None, put (\<lambda>st. st(key_of x := None)) w)),
      cl_SetOwnerReference = Inr\<rparr>"

definition quiet :: "('b, 'w) enqueuer option \<Rightarrow> bool" where
  "quiet q \<longleftrightarrow> (\<forall>x w. enqueue q x w = (None, w))"

definition drop_keys :: "obj_key set \<Rightarrow> 'b store \<Rightarrow> 'b store" where
  "drop_keys K st = (\<lambda>k. if k \<in> K then None else st k)"

definition managed_keys :: "string \<Rightarrow> 'b managedObject list \<Rightarrow> obj_key set" where
  "managed_keys ns m = (\<lambda>r. (ns, mo_name r)) ` set m"

definition found_in :: "string \<Rightarrow> 'b store \<Rightarrow> 'b managedObject \<Rightarrow> 'b managedObject" where
  "found_in ns st r =
     (case st (ns, mo_name r) of
        None \<Rightarrow> r\<lparr>mo_found := False, mo_object := placed ns r\<rparr>
      | Some x \<Rightarrow> r\<lparr>mo_found := True, mo_object := x\<rparr>)"

lemma found_in_sel [simp]: "mo_name (found_in ns st r) = mo_name r" "mo_placeholder (found_in ns st r) = mo_placeholder r"
  "mo_found (found_in ns st r) \<longleftrightarrow> st (ns, mo_name r) \<noteq> None"
  by (simp_all add: found_in_def split: option.split)

lemma drop_keys_simps:
  "drop_keys {} st = st" "drop_keys K (drop_keys L st) = drop_keys (K \<union> L) st" "st(k := None) = drop_keys {k} st"
  by (auto simp: drop_keys_def)

lemma managed_keys_map [simp]: "managed_keys ns (map (found_in ns st) m) = managed_keys ns m"
  by (simp add: managed_keys_def image_image)

lemma Exists_member:
  "r \<in> set m \<Longrightarrow> distinct (map mo_placeholder m) \<Longrightarrow> Exists m (Some (mo_placeholder r)) = mo_found r"
proof (induction m)
  case (Cons x m)
  show ?case
  proof (cases "r = x")
    case False
    then have r: "r \<in> set m" using Cons.prems(1) by simp
    then have "mo_placeholder r \<in> mo_placeholder ` set m" by (rule imageI)
    then have ne: "mo_placeholder r \<noteq> mo_placeholder x" using Cons.prems(2) by (auto simp only: list.map distinct.simps list.set_map)
    have "distinct (map mo_placeholder m)" using Cons.prems(2) by simp
    from Cons.IH[OF r this] show ?thesis by (simp only: Exists.simps ne if_False)
  qed simp
qed simp

locale store_lens =
  fixes get :: "'w \<Rightarrow> 'b store" and put :: "('b store \<Rightarrow> 'b store) \<Rightarrow> 'w \<Rightarrow> 'w"
  assumes get_put: "get (put f w) = f (get w)"
    and put_put: "put f (put g w) = put (\<lambda>st. f (g st)) w"
    and put_local: "f (get w) = g (get w) \<Longrightarrow> put f w = put g w"
    and put_same: "put (\<lambda>st. st) w = w"
begin

lemma put_id: "f (get w) = get w \<Longrightarrow> put f w = w"
  using put_local[of f w "\<lambda>st. st"] put_same by simp

lemma fetch:
  "quiet q \<Longrightarrow> FetchAll (lens_client get put) q ns m w = (None, map (found_in ns (get w)) m, w)"
proof (induction m)
  case (Cons r m)
  then show ?case by (cases "get w (ns, mo_name r)") (simp_all add: quiet_def lens_client_def found_in_def Let_def)
qed simp

text \<open>Deleting an object that was found, or had been absent, in a store from which other keys may have been dropped.\<close>

lemma try_delete:
  assumes w: "get w = drop_keys K (get w0)" and wk: "well_keyed (get w0)" and m: "m = map (found_in ns (get w0)) m0"
    and "distinct (map mo_placeholder m0)" and r: "r \<in> set m"
  shows "TryDelete m (lens_client get put) (Some (mo_placeholder r)) (mo_object r) w = (None, put (drop_keys {(ns, mo_name r)}) w)"
proof -
  obtain r0 where r0: "r = found_in ns (get w0) r0" using r m by auto
  have "distinct (map mo_placeholder m)" using assms(4) m by (simp add: comp_def)
  then have ex: "Exists m (Some (mo_placeholder r)) = mo_found r" by (rule Exists_member[OF r])
  show ?thesis
  proof (cases "get w0 (ns, mo_name r0)")
    case None
    then have "drop_keys {(ns, mo_name r)} (get w) = get w" unfolding w r0 by (auto simp: drop_keys_def)
    then show ?thesis using None ex r0 by (simp add: TryDelete_def put_id)
  next
    case (Some x)
    then have obj: "mo_object r = x" "key_of x = (ns, mo_name r)" using r0 well_keyedD[OF wk Some] by (simp_all add: found_in_def)
    have drop: "put (\<lambda>st. st(key_of x := None)) w = put (drop_keys {(ns, mo_name r)}) w"
      unfolding obj(2) by (rule put_local) (simp add: drop_keys_simps)
    have gone: "put (drop_keys {(ns, mo_name r)}) w = w" if "get w (ns, mo_name r) = None"
      by (rule put_id) (use that in \<open>auto simp: drop_keys_def\<close>)
    show ?thesis using Some ex r0 obj drop gone by (cases "get w (ns, mo_name r)") (simp_all add: TryDelete_def lens_client_def)
  qed
qed

lemma delete_all:
  assumes "well_keyed (get w0)" and "m = map (found_in ns (get w0)) m0" and "distinct (map mo_placeholder m0)"
  shows "set l \<subseteq> set m \<Longrightarrow> get w = drop_keys K (get w0) \<Longrightarrow> TryDeleteAll m (lens_client get put) l w = ([], put (drop_keys (managed_keys ns l)) w)"
proof (induction l arbitrary: w K)
  case Nil
  show ?case by (simp add: managed_keys_def drop_keys_simps put_id)
next
  case (Cons r l)
  then have r: "r \<in> set m" and l: "set l \<subseteq> set m" by simp_all
  let ?w = "put (drop_keys {(ns, mo_name r)}) w"
  have "get ?w = drop_keys (insert (ns, mo_name r) K) (get w0)" by (simp add: get_put Cons.prems(2) drop_keys_simps)
  note rest = Cons.IH[OF l this]
  have "put (drop_keys (managed_keys ns l)) ?w = put (drop_keys (managed_keys ns (r # l))) w"
    by (simp add: put_put drop_keys_simps managed_keys_def)
  then show ?case using try_delete[OF Cons.prems(2) assms(1,2,3) r] rest by simp
qed

text \<open>All the objects that are fetched and then deleted.\<close>

lemma fetched_deleted:
  assumes "get w = st" and "well_keyed st" and "distinct (map mo_placeholder m)"
  shows "TryDeleteAll (map (found_in ns st) m) (lens_client get put) (map (found_in ns st) m) w = ([], put (drop_keys (managed_keys ns m)) w)"
  using delete_all[of w _ ns m, OF _ refl assms(3) subset_refl, of w "{}"] assms(1,2) by (simp add: drop_keys_simps)

end

section \<open>The cluster\<close>

record cluster =
  k_ds :: "daemonset_body store"
  k_dep :: "deployment_body store"
  k_svc :: "service_body store"
  k_sa :: "unit store"
  k_cm :: "go_map option store"
  k_rb :: "role_binding store"
  k_crb :: "Subject list store"
  k_sm :: "monitoring_object store"
  k_rule :: "monitoring_object store"
  k_hpa :: "HorizontalPodAutoscaler store"

definition cluster_clients :: "cluster flp_clients" where
  "cluster_clients =
     \<lparr>pc_ds = lens_client k_ds k_ds_update, pc_dep = lens_client k_dep k_dep_update, pc_svc = lens_client k_svc k_svc_update,
      pc_sa = lens_client k_sa k_sa_update, pc_cm = lens_client k_cm k_cm_update, pc_rb = lens_client k_rb k_rb_update,
      pc_crb = lens_client k_crb k_crb_update, pc_sm = lens_client k_sm k_sm_update, pc_rule = lens_client k_rule k_rule_update,
      pc_hpa = lens_client k_hpa k_hpa_update\<rparr>"

lemma cluster_clients_sel [simp]:
  "pc_ds cluster_clients = lens_client k_ds k_ds_update" "pc_dep cluster_clients = lens_client k_dep k_dep_update"
  "pc_svc cluster_clients = lens_client k_svc k_svc_update" "pc_sa cluster_clients = lens_client k_sa k_sa_update"
  "pc_cm cluster_clients = lens_client k_cm k_cm_update" "pc_rb cluster_clients = lens_client k_rb k_rb_update"
  "pc_crb cluster_clients = lens_client k_crb k_crb_update" "pc_sm cluster_clients = lens_client k_sm k_sm_update"
  "pc_rule cluster_clients = lens_client k_rule k_rule_update" "pc_hpa cluster_clients = lens_client k_hpa k_hpa_update"
  by (simp_all add: cluster_clients_def)

interpretation ds: store_lens k_ds k_ds_update by unfold_locales (simp_all add: comp_def cong: cluster.fold_congs)
interpretation dep: store_lens k_dep k_dep_update by unfold_locales (simp_all add: comp_def cong: cluster.fold_congs)
interpretation svc: store_lens k_svc k_svc_update by unfold_locales (simp_all add: comp_def cong: cluster.fold_congs)
interpretation sa: store_lens k_sa k_sa_update by unfold_locales (simp_all add: comp_def cong: cluster.fold_congs)
interpretation cm: store_lens k_cm k_cm_update by unfold_locales (simp_all add: comp_def cong: cluster.fold_congs)
interpretation rb: store_lens k_rb k_rb_update by unfold_locales (simp_all add: comp_def cong: cluster.fold_congs)
interpretation sm: store_lens k_sm k_sm_update by unfold_locales (simp_all add: comp_def cong: cluster.fold_congs)
interpretation prule: store_lens k_rule k_rule_update by unfold_locales (simp_all add: comp_def cong: cluster.fold_congs)
interpretation hpa: store_lens k_hpa k_hpa_update by unfold_locales (simp_all add: comp_def cong: cluster.fold_congs)
interpretation crb: store_lens k_crb k_crb_update by unfold_locales (simp_all add: comp_def cong: cluster.fold_congs)

end
