(* ===== verification/FLP_Controller_Correct.thy ===== *)
theory FLP_Controller_Correct
  imports FLP_Cluster FLP_Objects_Correct
begin

text \<open>
  The controllers of the processor on a concrete cluster: what is not used is removed and nothing else, and the service accounts are bound to the
  cluster roles that they need and to no others.
\<close>

section \<open>Fetching and deleting\<close>

definition quiet_queues :: "'w flp_queues \<Rightarrow> bool" where
  "quiet_queues q \<longleftrightarrow> quiet (pq_ds q) \<and> quiet (pq_dep q) \<and> quiet (pq_svc q) \<and> quiet (pq_sa q) \<and> quiet (pq_cm q) \<and> quiet (pq_rb q) \<and> quiet (pq_hpa q)
     \<and> quiet (pq_crb q)"

definition on_cluster :: "(cluster, 'f) flp_ctl \<Rightarrow> bool" where
  "on_cluster ctl \<longleftrightarrow> fx_clients ctl = cluster_clients \<and> quiet_queues (fx_queues ctl)"

definition cluster_keyed :: "cluster \<Rightarrow> bool" where
  "cluster_keyed w \<longleftrightarrow> well_keyed (k_ds w) \<and> well_keyed (k_dep w) \<and> well_keyed (k_svc w) \<and> well_keyed (k_sa w) \<and> well_keyed (k_cm w)
     \<and> well_keyed (k_rb w) \<and> well_keyed (k_crb w) \<and> well_keyed (k_sm w) \<and> well_keyed (k_rule w) \<and> well_keyed (k_hpa w)"

definition fetched :: "string \<Rightarrow> cluster \<Rightarrow> flp_managed \<Rightarrow> flp_managed" where
  "fetched ns w m =
     \<lparr>mg_ds = map (found_in ns (k_ds w)) (mg_ds m), mg_dep = map (found_in ns (k_dep w)) (mg_dep m), mg_svc = map (found_in ns (k_svc w)) (mg_svc m),
      mg_hpa = map (found_in ns (k_hpa w)) (mg_hpa m), mg_sa = map (found_in ns (k_sa w)) (mg_sa m), mg_cm = map (found_in ns (k_cm w)) (mg_cm m),
      mg_rb = map (found_in ns (k_rb w)) (mg_rb m), mg_sm = map (found_in ns (k_sm w)) (mg_sm m), mg_rule = map (found_in ns (k_rule w)) (mg_rule m)\<rparr>"

text \<open>The cluster without the managed objects.\<close>

definition purged :: "string \<Rightarrow> flp_managed \<Rightarrow> cluster \<Rightarrow> cluster" where
  "purged ns m w =
     w\<lparr>k_ds := drop_keys (managed_keys ns (mg_ds m)) (k_ds w), k_dep := drop_keys (managed_keys ns (mg_dep m)) (k_dep w),
       k_svc := drop_keys (managed_keys ns (mg_svc m)) (k_svc w), k_hpa := drop_keys (managed_keys ns (mg_hpa m)) (k_hpa w),
       k_sa := drop_keys (managed_keys ns (mg_sa m)) (k_sa w), k_cm := drop_keys (managed_keys ns (mg_cm m)) (k_cm w),
       k_rb := drop_keys (managed_keys ns (mg_rb m)) (k_rb w), k_sm := drop_keys (managed_keys ns (mg_sm m)) (k_sm w),
       k_rule := drop_keys (managed_keys ns (mg_rule m)) (k_rule w)\<rparr>"

definition distinct_placeholders :: "flp_managed \<Rightarrow> bool" where
  "distinct_placeholders m \<longleftrightarrow> distinct (map mo_placeholder (mg_ds m)) \<and> distinct (map mo_placeholder (mg_dep m)) \<and> distinct (map mo_placeholder (mg_svc m))
     \<and> distinct (map mo_placeholder (mg_hpa m)) \<and> distinct (map mo_placeholder (mg_sa m)) \<and> distinct (map mo_placeholder (mg_cm m))
     \<and> distinct (map mo_placeholder (mg_rb m)) \<and> distinct (map mo_placeholder (mg_sm m)) \<and> distinct (map mo_placeholder (mg_rule m))"

lemma managed_distinct:
  "distinct_placeholders (newMonolithReconciler z ci)" "distinct_placeholders (newTransformerReconciler z ci)" "distinct_placeholders (newInformerReconciler z)"
  by (simp_all add: distinct_placeholders_def newMonolithReconciler_def newTransformerReconciler_def newInformerReconciler_def monitoring_managed_def
      addManagedObject_def)

lemma fetch_cluster:
  assumes "on_cluster ctl"
  shows "flp_FetchAll ctl ns m w = (None, fetched ns w m, w)"
proof -
  have q: "quiet (pq_ds (fx_queues ctl))" "quiet (pq_dep (fx_queues ctl))" "quiet (pq_svc (fx_queues ctl))" "quiet (pq_hpa (fx_queues ctl))"
    "quiet (pq_sa (fx_queues ctl))" "quiet (pq_cm (fx_queues ctl))" "quiet (pq_rb (fx_queues ctl))" "quiet None"
    using assms by (simp_all add: on_cluster_def quiet_queues_def quiet_def[of None] enqueue_def)
  have "fx_clients ctl = cluster_clients" using assms by (simp add: on_cluster_def)
  then show ?thesis
    by (simp add: flp_FetchAll_def Let_def fetching_def ds.fetch dep.fetch svc.fetch hpa.fetch sa.fetch cm.fetch rb.fetch sm.fetch prule.fetch q fetched_def)
qed

lemma delete_cluster:
  assumes "on_cluster ctl" and "cluster_keyed (fs_world s)" and "distinct_placeholders m"
  shows "flp_TryDeleteAll ctl (fetched ns (fs_world s) m) s = (None, s\<lparr>fs_world := purged ns m (fs_world s)\<rparr>)"
proof -
  have cl: "fx_clients ctl = cluster_clients" using assms(1) by (simp add: on_cluster_def)
  note deleted = ds.fetched_deleted dep.fetched_deleted svc.fetched_deleted hpa.fetched_deleted sa.fetched_deleted cm.fetched_deleted
    rb.fetched_deleted sm.fetched_deleted prule.fetched_deleted
  show ?thesis using assms(2,3)
    by (simp add: flp_TryDeleteAll_def Let_def cl fetched_def deleting_def deleted cluster_keyed_def distinct_placeholders_def purged_def cong: cluster.fold_congs)
qed

section \<open>Roles\<close>

definition adjusted :: "bool \<Rightarrow> Subject \<Rightarrow> Subject list \<Rightarrow> Subject list" where
  "adjusted needed x ss =
     (case findSubject ss x of
        Some i \<Rightarrow> if needed then ss else take i ss @ drop (i + 1) ss
      | None \<Rightarrow> if needed then ss @ [x] else ss)"

definition rebind :: "string \<Rightarrow> string \<Rightarrow> string \<times> bool \<Rightarrow> Subject list store \<Rightarrow> Subject list store" where
  "rebind ns sa rn st =
     st(([], fst rn) := map_option (\<lambda>b. b\<lparr>obj_Body := adjusted (snd rn) (service_account ns sa) (obj_Body b)\<rparr>) (st ([], fst rn)))"

definition bound :: "string \<Rightarrow> string \<Rightarrow> (string \<times> bool) list \<Rightarrow> Subject list store \<Rightarrow> Subject list store" where
  "bound ns sa needs = fold (rebind ns sa) needs"

lemma bound_simps [simp]: "bound ns sa [] st = st" "bound ns sa (rn # needs) st = bound ns sa needs (rebind ns sa rn st)"
  by (simp_all add: bound_def)

definition installed :: "cluster \<Rightarrow> bool" where
  "installed w \<longleftrightarrow> (\<forall>r \<in> set OperandClusterRoleBindings. k_crb w ([], r) \<noteq> None)"

lemma bind_one:
  assumes "quiet q" and "well_keyed (k_crb w)" and "k_crb w ([], role) \<noteq> None"
  shows "ReconcileClusterRoleBinding q (lens_client k_crb k_crb_update) ns sa role (\<not> needed) w =
    (None, w\<lparr>k_crb := bound ns sa [(role, needed)] (k_crb w)\<rparr>)"
proof -
  obtain b where b: "k_crb w ([], role) = Some b" using assms(3) by auto
  have k: "key_of b = ([], role)" by (rule well_keyedD[OF assms(2) b])
  have kb: "key_of (b\<lparr>obj_Body := ss\<rparr>) = ([], role)" for ss using k by (simp add: key_of_def)
  have same: "(k_crb w)(([], role) \<mapsto> b) = k_crb w" using b by auto
  have acc: "\<lparr>subj_Kind = ''ServiceAccount'', subj_APIGroup = [], subj_Name = sa, subj_Namespace = ns\<rparr> = service_account ns sa" by (simp add: service_account_def)
  show ?thesis using assms(1) b kb same
    by (cases needed; cases "findSubject (obj_Body b) (service_account ns sa)")
      (simp_all add: ReconcileClusterRoleBinding_def lens_client_def quiet_def Let_def acc adjusted_def rebind_def with_subjects_def lift_error_def cong: cluster.fold_congs)
qed

lemma rebind_keyed: "well_keyed st \<Longrightarrow> well_keyed (rebind ns sa rn st)"
  unfolding well_keyed_def
proof (intro allI impI)
  fix k x assume wk: "\<forall>k x. st k = Some x \<longrightarrow> key_of x = k" and x: "rebind ns sa rn st k = Some x"
  show "key_of x = k"
  proof (cases "k = ([], fst rn)")
    case True
    then obtain b where "st ([], fst rn) = Some b" "x = b\<lparr>obj_Body := adjusted (snd rn) (service_account ns sa) (obj_Body b)\<rparr>"
      using x by (auto simp: rebind_def)
    then show ?thesis using wk True by (simp add: key_of_def)
  next
    case False
    then have "st k = Some x" using x by (simp add: rebind_def)
    then show ?thesis using wk by blast
  qed
qed

lemma bound_keyed: "well_keyed st \<Longrightarrow> well_keyed (bound ns sa needs st)"
  by (induction needs arbitrary: st) (simp_all add: rebind_keyed)

lemma bound_None: "bound ns sa needs st k = None \<longleftrightarrow> st k = None"
  by (induction needs arbitrary: st) (simp_all add: rebind_def)

lemma bind_cluster:
  assumes "on_cluster ctl" and "well_keyed (k_crb (fs_world s))" and "\<forall>r \<in> fst ` set needs. k_crb (fs_world s) ([], r) \<noteq> None"
  shows "bind_roles ctl c sa needs s =
    (None, s\<lparr>fs_world := (fs_world s)\<lparr>k_crb := bound (inst_Namespace c) sa needs (k_crb (fs_world s))\<rparr>\<rparr>)"
  using assms(2,3)
proof (induction needs arbitrary: s)
  case (Cons rn needs)
  obtain role needed where rn: "rn = (role, needed)" by fastforce
  let ?b = "bound (inst_Namespace c) sa [rn] (k_crb (fs_world s))"
  let ?s = "s\<lparr>fs_world := (fs_world s)\<lparr>k_crb := ?b\<rparr>\<rparr>"
  have q: "quiet (pq_crb (fx_queues ctl))" "pc_crb (fx_clients ctl) = lens_client k_crb k_crb_update"
    using assms(1) by (simp_all add: on_cluster_def quiet_queues_def)
  have one: "on_world (ReconcileClusterRoleBinding (pq_crb (fx_queues ctl)) (pc_crb (fx_clients ctl)) (inst_Namespace c) sa role (\<not> needed)) s = (None, ?s)"
    using bind_one[OF q(1) Cons.prems(1), of role] Cons.prems(2) by (simp add: on_world_def q(2) rn)
  have "well_keyed (k_crb (fs_world ?s))" using bound_keyed[OF Cons.prems(1), of "inst_Namespace c" sa "[rn]"] by simp
  moreover have "\<forall>r \<in> fst ` set needs. k_crb (fs_world ?s) ([], r) \<noteq> None"
    using Cons.prems(2) bound_None[of "inst_Namespace c" sa "[rn]" "k_crb (fs_world s)"] by simp
  ultimately have "bind_roles ctl c sa needs ?s = (None, ?s\<lparr>fs_world := (fs_world ?s)\<lparr>k_crb := bound (inst_Namespace c) sa needs ?b\<rparr>\<rparr>)"
    using Cons.IH[of ?s] by simp
  then show ?case using one by (simp add: bind_roles_def rn)
qed (simp add: bind_roles_def)

lemma role_installed:
  "installed w \<Longrightarrow> r \<in> {HostNetworkRole, LokiWriterRole, FLPInformersRole, FLPExtraReaderRole} \<Longrightarrow> \<exists>b. k_crb w ([], r) = Some b"
  by (auto simp: installed_def OperandClusterRoleBindings_def)

section \<open>Removal\<close>

text \<open>The roles of a part that is not used.\<close>

definition unbound :: "string list \<Rightarrow> (string \<times> bool) list" where
  "unbound roles = map (\<lambda>r. (r, False)) roles"

lemma remove_unused_step:
  "\<exists>st. remove_unused ctl x spec u msg m s = flp_TryDeleteAll ctl m (s\<lparr>fs_status := st\<rparr>)"
proof -
  let ?st1 = "if OnHold_spec spec then setUnused x ''FlowCollector is on hold'' (fs_status s) else fs_status s"
  let ?st = "if u then setUnused x msg ?st1 else ?st1"
  have "run_steps [f] s = f s" for f :: "('a, 'b) flp_step" and s by (simp split: prod.split option.split)
  then have "remove_unused ctl x spec u msg m s = flp_TryDeleteAll ctl m (s\<lparr>fs_status := ?st\<rparr>)"
    by (simp add: remove_unused_def set_status_def)
  then show ?thesis by (rule exI)
qed

lemma unused_cluster:
  assumes "on_cluster ctl" and "cluster_keyed (fs_world s)" and "distinct_placeholders m" and "\<forall>r \<in> set roles. k_crb (fs_world s) ([], r) \<noteq> None"
  shows "\<exists>st. run_steps [bind_roles ctl c sa (unbound roles), remove_unused ctl x spec u msg (fetched ns (fs_world s) m)] s =
    (None, s\<lparr>fs_world := (purged ns m (fs_world s))\<lparr>k_crb := bound (inst_Namespace c) sa (unbound roles) (k_crb (fs_world s))\<rparr>, fs_status := st\<rparr>)"
proof -
  let ?b = "bound (inst_Namespace c) sa (unbound roles) (k_crb (fs_world s))"
  have wk: "well_keyed (k_crb (fs_world s))" using assms(2) by (simp add: cluster_keyed_def)
  have bind: "bind_roles ctl c sa (unbound roles) s = (None, s\<lparr>fs_world := (fs_world s)\<lparr>k_crb := ?b\<rparr>\<rparr>)"
    by (rule bind_cluster[OF assms(1) wk]) (use assms(4) in \<open>simp add: unbound_def\<close>)
  have keyed: "cluster_keyed ((fs_world s)\<lparr>k_crb := ?b\<rparr>)" using assms(2) bound_keyed[OF wk] by (simp add: cluster_keyed_def)
  have same: "fetched ns ((fs_world s)\<lparr>k_crb := ?b\<rparr>) m = fetched ns (fs_world s) m" by (simp add: fetched_def)
  have del: "flp_TryDeleteAll ctl (fetched ns (fs_world s) m) (s\<lparr>fs_world := (fs_world s)\<lparr>k_crb := ?b\<rparr>, fs_status := st\<rparr>) =
      (None, s\<lparr>fs_world := purged ns m ((fs_world s)\<lparr>k_crb := ?b\<rparr>), fs_status := st\<rparr>)" for st
    using delete_cluster[OF assms(1) _ assms(3), of "s\<lparr>fs_world := (fs_world s)\<lparr>k_crb := ?b\<rparr>, fs_status := st\<rparr>" ns] keyed same by simp
  have "purged ns m ((fs_world s)\<lparr>k_crb := ?b\<rparr>) = (purged ns m (fs_world s))\<lparr>k_crb := ?b\<rparr>" by (simp add: purged_def)
  moreover obtain st where "remove_unused ctl x spec u msg (fetched ns (fs_world s) m) (s\<lparr>fs_world := (fs_world s)\<lparr>k_crb := ?b\<rparr>\<rparr>) =
      flp_TryDeleteAll ctl (fetched ns (fs_world s) m) (s\<lparr>fs_world := (fs_world s)\<lparr>k_crb := ?b\<rparr>, fs_status := st\<rparr>)"
    using remove_unused_step by blast
  ultimately show ?thesis using bind del[of st] by (intro exI[of _ st]) simp
qed

definition mono_roles :: "string list" where "mono_roles = [HostNetworkRole, LokiWriterRole, FLPInformersRole, FLPExtraReaderRole]"
definition transfo_roles :: "string list" where "transfo_roles = [LokiWriterRole, FLPInformersRole, FLPExtraReaderRole]"

lemma unused_roles:
  "pipeline_roles spec True = unbound transfo_roles"
  "(HostNetworkRole, False) # unbound transfo_roles = unbound mono_roles"
  by (simp_all add: pipeline_roles_def unbound_def transfo_roles_def mono_roles_def)

lemma roles_there:
  "installed w \<Longrightarrow> \<forall>r \<in> set mono_roles. k_crb w ([], r) \<noteq> None" "installed w \<Longrightarrow> \<forall>r \<in> set transfo_roles. k_crb w ([], r) \<noteq> None"
  by (simp_all add: installed_def OperandClusterRoleBindings_def mono_roles_def transfo_roles_def)

lemma managed_unused:
  assumes "on_cluster ctl" and "cluster_keyed (fs_world s)" and "distinct_placeholders m" and "\<forall>r \<in> set roles. k_crb (fs_world s) ([], r) \<noteq> None"
    and "\<And>m. k m = run_steps [bind_roles ctl c sa (unbound roles), remove_unused ctl x spec u msg m]"
  shows "\<exists>st. with_managed ctl c m k s =
    (None, s\<lparr>fs_world := (purged (inst_Namespace c) m (fs_world s))\<lparr>k_crb := bound (inst_Namespace c) sa (unbound roles) (k_crb (fs_world s))\<rparr>, fs_status := st\<rparr>)"
  using unused_cluster[OF assms(1-4)] by (simp only: with_managed_def fetch_cluster[OF assms(1)] prod.case option.case assms(5)) simp

text \<open>
  C12: on a cluster where objects are stored under their names and the cluster role bindings are installed, a reconciliation of a part of the processor
  that is not used (the monolith on hold or with Kafka, the transformer on hold or without Kafka, the informers on hold or disabled) ends without an error
  in the cluster without the objects of that part, with its account unbound from its roles, and with nothing else changed.
\<close>

theorem unused_parts_removed:
  assumes "on_cluster ctl" and "cluster_keyed (fs_world s)" and "installed (fs_world s)"
    and "ns = inst_Namespace c" and "w = fs_world s"
  shows "(OnHold_spec spec \<or> UseKafka spec \<longrightarrow> (\<exists>st. mono_reconcile ctl c spec subnets s =
        (None, s\<lparr>fs_world := (purged ns (newMonolithReconciler (fx_zero ctl) (inst_ClusterInfo c)) w)
           \<lparr>k_crb := bound ns monoName (unbound mono_roles) (k_crb w)\<rparr>, fs_status := st\<rparr>)))
    \<and> (OnHold_spec spec \<or> \<not> UseKafka spec \<longrightarrow> (\<exists>st. transfo_reconcile ctl c spec subnets s =
        (None, s\<lparr>fs_world := (purged ns (newTransformerReconciler (fx_zero ctl) (inst_ClusterInfo c)) w)
           \<lparr>k_crb := bound ns transfoName (unbound transfo_roles) (k_crb w)\<rparr>, fs_status := st\<rparr>)))
    \<and> (OnHold_spec spec \<or> \<not> IsInformerCacheProxyEnabled (spec_Processor spec) \<longrightarrow> (\<exists>st. informer_reconcile ctl c spec s =
        (None, s\<lparr>fs_world := (purged ns (newInformerReconciler (fx_zero ctl)) w)
           \<lparr>k_crb := bound ns informerName (unbound [FLPInformersRole]) (k_crb w)\<rparr>, fs_status := st\<rparr>)))"
proof (intro conjI impI)
  assume unused: "OnHold_spec spec \<or> UseKafka spec"
  show "\<exists>st. mono_reconcile ctl c spec subnets s =
      (None, s\<lparr>fs_world := (purged ns (newMonolithReconciler (fx_zero ctl) (inst_ClusterInfo c)) w)
         \<lparr>k_crb := bound ns monoName (unbound mono_roles) (k_crb w)\<rparr>, fs_status := st\<rparr>)"
    unfolding mono_reconcile_def assms(4,5)
    by (rule managed_unused[OF assms(1,2) managed_distinct(1) roles_there(1)[OF assms(3)]]) (simp add: unused mono_reconcileCRB_def unused_roles)
next
  assume unused: "OnHold_spec spec \<or> \<not> UseKafka spec"
  show "\<exists>st. transfo_reconcile ctl c spec subnets s =
      (None, s\<lparr>fs_world := (purged ns (newTransformerReconciler (fx_zero ctl) (inst_ClusterInfo c)) w)
         \<lparr>k_crb := bound ns transfoName (unbound transfo_roles) (k_crb w)\<rparr>, fs_status := st\<rparr>)"
    unfolding transfo_reconcile_def assms(4,5)
    by (rule managed_unused[OF assms(1,2) managed_distinct(2) roles_there(2)[OF assms(3)]]) (simp add: unused transfo_reconcileCRB_def unused_roles)
next
  assume unused: "OnHold_spec spec \<or> \<not> IsInformerCacheProxyEnabled (spec_Processor spec)"
  have r: "\<forall>r \<in> set [FLPInformersRole]. k_crb (fs_world s) ([], r) \<noteq> None" using roles_there(1)[OF assms(3)] by (simp add: mono_roles_def)
  have same: "s\<lparr>fs_world := fs_world s\<rparr> = s" by simp
  have wrap: "run_steps (wrap_step msg f # fs) s = (None, s')" if "run_steps (f # fs) s = (None, s')" for msg f fs and s' :: "(cluster, 'a) flp_state"
    using that by (simp add: wrap_step_def split: prod.splits option.splits)
  obtain st where "run_steps [bind_roles ctl c informerName (unbound [FLPInformersRole]),
      remove_unused ctl FLPInformers spec (\<not> IsInformerCacheProxyEnabled (spec_Processor spec)) ''Centralized informers disabled - using local informers mode''
        (fetched ns (fs_world s) (newInformerReconciler (fx_zero ctl)))] s =
      (None, s\<lparr>fs_world := (purged ns (newInformerReconciler (fx_zero ctl)) (fs_world s))
        \<lparr>k_crb := bound ns informerName (unbound [FLPInformersRole]) (k_crb (fs_world s))\<rparr>, fs_status := st\<rparr>)"
    using unused_cluster[OF assms(1,2) managed_distinct(3) r] unfolding assms(4) by blast
  from wrap[OF this] show "\<exists>st. informer_reconcile ctl c spec s =
      (None, s\<lparr>fs_world := (purged ns (newInformerReconciler (fx_zero ctl)) w)
         \<lparr>k_crb := bound ns informerName (unbound [FLPInformersRole]) (k_crb w)\<rparr>, fs_status := st\<rparr>)"
    using unused unfolding informer_reconcile_def fetch_cluster[OF assms(1)] prod.case option.case Let_def assms(4,5)
    by (intro exI[of _ st]) (simp only: unused if_True informer_reconcilePermissions_def unbound_def list.map simp_thms same)
qed

section \<open>The roles that are needed\<close>

definition held_times :: "Subject list store \<Rightarrow> string \<Rightarrow> Subject \<Rightarrow> nat" where
  "held_times st r x = (case st ([], r) of None \<Rightarrow> 0 | Some b \<Rightarrow> subject_count x (obj_Body b))"

lemma same_subject_sym: "same_subject a b = same_subject b a"
  by (auto simp: same_subject_def)

lemma same_subject_count: "same_subject x y \<Longrightarrow> subject_count x ss = subject_count y ss"
  unfolding subject_count_def by (rule arg_cong[where f = length], rule filter_cong) (auto simp: same_subject_def)

lemma adjusted_count:
  "subject_count x (adjusted needed y ss) =
     (if same_subject x y then (if needed then max 1 (subject_count x ss) else subject_count x ss - 1) else subject_count x ss)"
proof (cases "findSubject ss y")
  case None
  then have none: "subject_count y ss = 0" by (auto simp: subject_count_def findSubject_None filter_empty_conv)
  have "subject_count x (ss @ [y]) = (if same_subject x y then 1 + subject_count x ss else subject_count x ss)"
    by (simp add: subject_count_def same_subject_sym)
  then show ?thesis using None none same_subject_count[of x y ss] by (simp add: adjusted_def)
next
  case (Some i)
  have dec: "subject_count y ss = Suc (subject_count y (take i ss @ drop (i + 1) ss))" by (rule remove_subject(2)[OF Some])
  have other: "subject_count x (take i ss @ drop (i + 1) ss) = subject_count x ss" if "\<not> same_subject x y"
  proof -
    have "filter (\<lambda>z. same_subject z x) l = filter (\<lambda>z. same_subject z x) (filter (\<lambda>z. \<not> same_subject z y) l)" for l
      using that by (auto simp: same_subject_def intro!: filter_cong)
    then show ?thesis using remove_subject(1)[OF Some] unfolding subject_count_def by metis
  qed
  show ?thesis using Some dec other same_subject_count[of x y] by (simp add: adjusted_def)
qed

lemma held_bound:
  assumes "distinct (map fst needs)" and "\<forall>r \<in> fst ` set needs. st ([], r) \<noteq> None"
  shows "held_times (bound ns sa needs st) r x =
    (case map_of needs r of
       Some needed \<Rightarrow> if same_subject x (service_account ns sa) then (if needed then max 1 (held_times st r x) else held_times st r x - 1) else held_times st r x
     | None \<Rightarrow> held_times st r x)"
  using assms
proof (induction needs arbitrary: st)
  case (Cons rn needs)
  have one: "held_times (rebind ns sa rn st) r x = (if r = fst rn then
      (if same_subject x (service_account ns sa) then (if snd rn then max 1 (held_times st r x) else held_times st r x - 1) else held_times st r x)
      else held_times st r x)"
    using Cons.prems(2) by (auto simp: held_times_def rebind_def adjusted_count split: option.split)
  have "\<forall>r \<in> fst ` set needs. rebind ns sa rn st ([], r) \<noteq> None" using Cons.prems(2) by (simp add: rebind_def)
  note rest = Cons.IH[OF _ this]
  have "map_of needs (fst rn) = None" using Cons.prems(1) by (simp add: map_of_eq_None_iff)
  then show ?case using rest one Cons.prems(1) by (cases rn) (auto split: option.split)
qed simp

text \<open>Which account of the processor needs which role.\<close>

definition role_needed :: "'v Instance \<Rightarrow> FlowCollectorSpec \<Rightarrow> string \<Rightarrow> string \<Rightarrow> bool" where
  "role_needed c spec a r \<longleftrightarrow> \<not> OnHold_spec spec \<and>
     (if a = informerName then r = FLPInformersRole \<and> IsInformerCacheProxyEnabled (spec_Processor spec)
      else a = (if UseKafka spec then transfoName else monoName) \<and>
        (r = HostNetworkRole \<and> a = monoName \<and> IsOpenShift (inst_ClusterInfo c) \<and> UseHostNetwork spec
         \<or> r = LokiWriterRole \<and> UseLoki spec \<and> loki_Mode (spec_Loki spec) = LokiModeLokiStack
         \<or> r = FLPInformersRole \<and> \<not> IsInformerCacheProxyEnabled (spec_Processor spec)
         \<or> r = FLPExtraReaderRole \<and> IsBgpEnrichmentEnabled (spec_Processor spec)))"

definition account_roles :: "(string \<times> string) set" where
  "account_roles = {(informerName, FLPInformersRole)} \<union> {monoName} \<times> set mono_roles \<union> {transfoName} \<times> set transfo_roles"

lemma role_names:
  "HostNetworkRole \<noteq> LokiWriterRole" "HostNetworkRole \<noteq> FLPInformersRole" "HostNetworkRole \<noteq> FLPExtraReaderRole" "LokiWriterRole \<noteq> FLPInformersRole"
  "LokiWriterRole \<noteq> FLPExtraReaderRole" "FLPInformersRole \<noteq> FLPExtraReaderRole"
  by (simp_all add: HostNetworkRole_def LokiWriterRole_def FLPInformersRole_def FLPExtraReaderRole_def)

lemma account_names: "monoName \<noteq> transfoName" "monoName \<noteq> informerName" "transfoName \<noteq> informerName"
  by (simp_all add: monoName_def transfoName_def informerName_def FLPName_def)

lemma same_account: "same_subject (service_account ns a) (service_account ns b) \<longleftrightarrow> a = b"
  by (simp add: same_subject_def service_account_def)

definition reconcile_roles :: "(cluster, 'f) flp_ctl \<Rightarrow> 'v Instance \<Rightarrow> FlowCollectorSpec \<Rightarrow> (cluster, 'f) flp_step" where
  "reconcile_roles ctl c spec =
     run_steps [informer_reconcilePermissions ctl c (OnHold_spec spec \<or> \<not> IsInformerCacheProxyEnabled (spec_Processor spec)),
       mono_reconcileCRB ctl c spec (OnHold_spec spec \<or> UseKafka spec), transfo_reconcileCRB ctl c spec (OnHold_spec spec \<or> \<not> UseKafka spec)]"

definition roles_of :: "'v Instance \<Rightarrow> FlowCollectorSpec \<Rightarrow> string \<Rightarrow> (string \<times> bool) list" where
  "roles_of c spec a =
     (if a = informerName then [(FLPInformersRole, \<not> (OnHold_spec spec \<or> \<not> IsInformerCacheProxyEnabled (spec_Processor spec)))]
      else if a = monoName then (HostNetworkRole, IsOpenShift (inst_ClusterInfo c) \<and> UseHostNetwork spec \<and> \<not> (OnHold_spec spec \<or> UseKafka spec))
        # pipeline_roles spec (OnHold_spec spec \<or> UseKafka spec)
      else pipeline_roles spec (OnHold_spec spec \<or> \<not> UseKafka spec))"

lemma roles_of_map:
  "(a, r) \<in> account_roles \<Longrightarrow> map_of (roles_of c spec a) r = Some (role_needed c spec a r)"
  using role_names not_sym[OF role_names(1)] not_sym[OF role_names(2)] not_sym[OF role_names(3)] not_sym[OF role_names(4)] not_sym[OF role_names(5)]
    not_sym[OF role_names(6)] account_names
  by (auto simp: roles_of_def role_needed_def account_roles_def pipeline_roles_def mono_roles_def transfo_roles_def)

lemma roles_of_distinct: "distinct (map fst (roles_of c spec a))" "fst ` set (roles_of c spec a) \<subseteq> set mono_roles"
  using role_names by (auto simp: roles_of_def pipeline_roles_def mono_roles_def)

lemma roles_cluster:
  assumes "on_cluster ctl" and "cluster_keyed (fs_world s)" and "installed (fs_world s)" and "ns = inst_Namespace c"
  shows "reconcile_roles ctl c spec s = (None, s\<lparr>fs_world := (fs_world s)\<lparr>k_crb :=
    bound ns transfoName (roles_of c spec transfoName) (bound ns monoName (roles_of c spec monoName)
      (bound ns informerName (roles_of c spec informerName) (k_crb (fs_world s))))\<rparr>\<rparr>)"
proof -
  have step: "bind_roles ctl c a (roles_of c spec a) s = (None, s\<lparr>fs_world := (fs_world s)\<lparr>k_crb := bound ns a (roles_of c spec a) (k_crb (fs_world s))\<rparr>\<rparr>)"
    if "well_keyed (k_crb (fs_world s))" "\<And>r. r \<in> set mono_roles \<Longrightarrow> k_crb (fs_world s) ([], r) \<noteq> None" for a and s :: "(cluster, 'a) flp_state"
    unfolding assms(4) by (rule bind_cluster[OF assms(1) that(1)]) (use that(2) roles_of_distinct(2) in fast)
  have eqs: "informer_reconcilePermissions ctl c (OnHold_spec spec \<or> \<not> IsInformerCacheProxyEnabled (spec_Processor spec)) = bind_roles ctl c informerName (roles_of c spec informerName)"
    "mono_reconcileCRB ctl c spec (OnHold_spec spec \<or> UseKafka spec) = bind_roles ctl c monoName (roles_of c spec monoName)"
    "transfo_reconcileCRB ctl c spec (OnHold_spec spec \<or> \<not> UseKafka spec) = bind_roles ctl c transfoName (roles_of c spec transfoName)"
    using account_names not_sym[OF account_names(1)]
    by (simp_all add: informer_reconcilePermissions_def mono_reconcileCRB_def transfo_reconcileCRB_def roles_of_def)
  have wk: "well_keyed (k_crb (fs_world s))" using assms(2) by (simp add: cluster_keyed_def)
  show ?thesis unfolding reconcile_roles_def eqs
    using roles_there(1)[OF assms(3)] wk by (simp add: step bound_keyed bound_None)
qed

lemma roles_of_none: "a \<in> {informerName, monoName, transfoName} \<Longrightarrow> (a, r) \<notin> account_roles \<Longrightarrow> map_of (roles_of c spec a) r = None"
  using account_names not_sym[OF account_names(1)] not_sym[OF account_names(2)] not_sym[OF account_names(3)]
  by (auto simp: roles_of_def account_roles_def pipeline_roles_def mono_roles_def transfo_roles_def)

lemma account_bound:
  assumes "\<forall>r \<in> set mono_roles. st ([], r) \<noteq> None" and "a \<in> {informerName, monoName, transfoName}"
  shows "(a, r) \<in> account_roles \<Longrightarrow> held_times (bound ns a (roles_of c spec a) st) r (service_account ns a) =
      (if role_needed c spec a r then max 1 (held_times st r (service_account ns a)) else held_times st r (service_account ns a) - 1)"
    and "((a, r) \<in> account_roles \<Longrightarrow> \<not> same_subject x (service_account ns a)) \<Longrightarrow>
      held_times (bound ns a (roles_of c spec a) st) r x = held_times st r x"
proof -
  have "\<forall>r \<in> fst ` set (roles_of c spec a). st ([], r) \<noteq> None"
    by (rule ballI) (rule bspec[OF assms(1) subsetD[OF roles_of_distinct(2)]])
  note held = held_bound[OF roles_of_distinct(1) this]
  show "held_times (bound ns a (roles_of c spec a) st) r (service_account ns a) =
      (if role_needed c spec a r then max 1 (held_times st r (service_account ns a)) else held_times st r (service_account ns a) - 1)"
    if "(a, r) \<in> account_roles"
    by (simp add: held roles_of_map[OF that] same_account)
  show "held_times (bound ns a (roles_of c spec a) st) r x = held_times st r x"
    if "(a, r) \<in> account_roles \<Longrightarrow> \<not> same_subject x (service_account ns a)"
  proof (cases "(a, r) \<in> account_roles")
    case True
    then show ?thesis using that by (simp add: held roles_of_map[OF True])
  qed (simp add: held roles_of_none[OF assms(2)])
qed

text \<open>
  C11: with the cluster role bindings installed and no account of the processor listed twice in one, the steps that bind roles, in the order of the parent
  controller, end without an error, and then each of the three accounts is a subject of a role it can have exactly when the configuration needs that: the
  account of the part that is not deployed has none. All other subjects of all bindings are as before.
\<close>

theorem roles_exactly_needed:
  assumes "on_cluster ctl" and "cluster_keyed (fs_world s)" and "installed (fs_world s)" and "ns = inst_Namespace c"
    and "\<And>a r. (a, r) \<in> account_roles \<Longrightarrow> held_times (k_crb (fs_world s)) r (service_account ns a) \<le> 1"
  shows "\<exists>s'. reconcile_roles ctl c spec s = (None, s')
    \<and> (\<forall>(a, r) \<in> account_roles. held_times (k_crb (fs_world s')) r (service_account ns a) = (if role_needed c spec a r then 1 else 0))
    \<and> (\<forall>x r. (\<forall>(a, r') \<in> account_roles. r = r' \<longrightarrow> \<not> same_subject x (service_account ns a))
         \<longrightarrow> held_times (k_crb (fs_world s')) r x = held_times (k_crb (fs_world s)) r x)"
proof -
  let ?B = "\<lambda>a st. bound ns a (roles_of c spec a) st"
  let ?st = "k_crb (fs_world s)"
  let ?st1 = "?B informerName ?st"
  let ?st2 = "?B monoName ?st1"
  let ?st3 = "?B transfoName ?st2"
  have there: "\<forall>r \<in> set mono_roles. ?st ([], r) \<noteq> None" "\<forall>r \<in> set mono_roles. ?st1 ([], r) \<noteq> None" "\<forall>r \<in> set mono_roles. ?st2 ([], r) \<noteq> None"
    using roles_there(1)[OF assms(3)] by (simp_all add: bound_None)
  note one = account_bound(1)[OF there(1)] account_bound(1)[OF there(2)] account_bound(1)[OF there(3)]
  note keep = account_bound(2)[OF there(1)] account_bound(2)[OF there(2)] account_bound(2)[OF there(3)]
  have needed: "held_times ?st3 r (service_account ns a) = (if role_needed c spec a r then 1 else 0)" if ar: "(a, r) \<in> account_roles" for a r
  proof -
    have le: "held_times ?st r (service_account ns a) \<le> 1" by (rule assms(5)[OF ar])
    consider "a = informerName" | "a = monoName" | "a = transfoName" using ar by (auto simp: account_roles_def)
    then show ?thesis using le ar account_names by cases (simp_all add: one keep same_account)
  qed
  have other: "held_times ?st3 r x = held_times ?st r x" if "\<forall>(a, r') \<in> account_roles. r = r' \<longrightarrow> \<not> same_subject x (service_account ns a)" for r x
  proof -
    have n: "(a, r) \<in> account_roles \<Longrightarrow> \<not> same_subject x (service_account ns a)" for a using that by auto
    show ?thesis by (simp add: keep n)
  qed
  show ?thesis using roles_cluster[OF assms(1-4)] needed other
    by (intro exI[of _ "s\<lparr>fs_world := (fs_world s)\<lparr>k_crb := ?st3\<rparr>\<rparr>"]) (simp add: case_prod_beta)
qed

section \<open>A concrete cluster\<close>

text \<open>The deployment of the monolith is there and its account is bound to the role of the informers.\<close>

definition demo_binding :: "string \<Rightarrow> Subject list \<Rightarrow> Subject list k8s_object" where
  "demo_binding r ss = \<lparr>obj_Meta = new_meta r [] None None, obj_Body = ss\<rparr>"

definition demo_deployed :: "deployment_body k8s_object" where
  "demo_deployed = \<lparr>obj_Meta = new_meta monoName ''netobserv'' None None,
     obj_Body = \<lparr>dpb_Spec = \<lparr>dsp_Template = sample_template, dsp_Replicas = Some 1\<rparr>, dpb_Status = sample_deployment\<rparr>\<rparr>"

definition demo_cluster :: cluster where
  "demo_cluster =
     \<lparr>k_ds = Map.empty, k_dep = [(''netobserv'', monoName) \<mapsto> demo_deployed], k_svc = Map.empty, k_sa = Map.empty, k_cm = Map.empty, k_rb = Map.empty,
      k_crb = (\<lambda>(ns, r). if ns = [] \<and> r \<in> set OperandClusterRoleBindings
        then Some (demo_binding r (if r = FLPInformersRole then [service_account ''netobserv'' monoName] else [])) else None),
      k_sm = Map.empty, k_rule = Map.empty, k_hpa = Map.empty\<rparr>"

definition no_queues :: "cluster flp_queues" where
  "no_queues = \<lparr>pq_ds = None, pq_dep = None, pq_svc = None, pq_sa = None, pq_cm = None, pq_rb = None, pq_hpa = None, pq_crb = None\<rparr>"

definition kafka_spec :: FlowCollectorSpec where
  "kafka_spec = zero_spec\<lparr>spec_DeploymentModel := DeploymentModelKafka\<rparr>"

lemma demo_cluster_ok: "cluster_keyed demo_cluster" "installed demo_cluster"
  by (auto simp: cluster_keyed_def well_keyed_def demo_cluster_def key_of_def demo_binding_def demo_deployed_def new_meta_def installed_def split: if_splits)

lemma on_demo_cluster: "on_cluster (ctl\<lparr>fx_clients := cluster_clients, fx_queues := no_queues\<rparr>)"
  by (simp add: on_cluster_def no_queues_def quiet_queues_def quiet_def enqueue_def)

theorem unused_parts_removed_witness:
  "\<forall>ctl s. \<exists>s'. mono_reconcile (ctl\<lparr>fx_clients := cluster_clients, fx_queues := no_queues\<rparr>) demo_info kafka_spec [] (s\<lparr>fs_world := demo_cluster\<rparr>) = (None, s')
     \<and> k_dep demo_cluster (''netobserv'', monoName) \<noteq> None \<and> k_dep (fs_world s') (''netobserv'', monoName) = None"
proof (intro allI)
  fix ctl :: "(cluster, 'a) flp_ctl" and s :: "(cluster, 'a) flp_state"
  let ?ctl = "ctl\<lparr>fx_clients := cluster_clients, fx_queues := no_queues\<rparr>"
  let ?s = "s\<lparr>fs_world := demo_cluster\<rparr>"
  have w: "cluster_keyed (fs_world ?s)" "installed (fs_world ?s)" "''netobserv'' = inst_Namespace demo_info" "demo_cluster = fs_world ?s"
    using demo_cluster_ok by simp_all
  have "UseKafka kafka_spec" by (simp add: UseKafka_def kafka_spec_def)
  with unused_parts_removed[where spec = kafka_spec and subnets = "[]", OF on_demo_cluster[of ctl] w] obtain st where r: "mono_reconcile ?ctl demo_info kafka_spec [] ?s =
      (None, ?s\<lparr>fs_world := (purged ''netobserv'' (newMonolithReconciler (fx_zero ?ctl) (inst_ClusterInfo demo_info)) demo_cluster)
         \<lparr>k_crb := bound ''netobserv'' monoName (unbound mono_roles) (k_crb demo_cluster)\<rparr>, fs_status := st\<rparr>)" by blast
  show "\<exists>s'. mono_reconcile ?ctl demo_info kafka_spec [] ?s = (None, s') \<and> k_dep demo_cluster (''netobserv'', monoName) \<noteq> None
      \<and> k_dep (fs_world s') (''netobserv'', monoName) = None"
    unfolding r by (simp add: purged_def newMonolithReconciler_def monitoring_managed_def addManagedObject_def managed_keys_def drop_keys_def)
      (simp add: demo_cluster_def)
qed

theorem roles_exactly_needed_witness:
  "\<forall>ctl s. \<exists>s'. reconcile_roles (ctl\<lparr>fx_clients := cluster_clients, fx_queues := no_queues\<rparr>) demo_info kafka_spec (s\<lparr>fs_world := demo_cluster\<rparr>) = (None, s')
     \<and> held_times (k_crb demo_cluster) FLPInformersRole (service_account ''netobserv'' monoName) = 1
     \<and> held_times (k_crb (fs_world s')) FLPInformersRole (service_account ''netobserv'' monoName) = 0
     \<and> held_times (k_crb (fs_world s')) FLPInformersRole (service_account ''netobserv'' transfoName) = 1"
proof (intro allI)
  fix ctl :: "(cluster, 'a) flp_ctl" and s :: "(cluster, 'a) flp_state"
  let ?ctl = "ctl\<lparr>fx_clients := cluster_clients, fx_queues := no_queues\<rparr>"
  let ?s = "s\<lparr>fs_world := demo_cluster\<rparr>"
  have w: "cluster_keyed (fs_world ?s)" "installed (fs_world ?s)" "''netobserv'' = inst_Namespace demo_info" using demo_cluster_ok by simp_all
  have once: "held_times (k_crb (fs_world ?s)) r (service_account ''netobserv'' a) \<le> 1" for a r
    by (simp add: held_times_def demo_cluster_def demo_binding_def subject_count_def split: option.split)
  have held: "held_times (k_crb demo_cluster) FLPInformersRole (service_account ''netobserv'' monoName) = 1"
    by (simp add: held_times_def demo_cluster_def demo_binding_def subject_count_def OperandClusterRoleBindings_def same_account)
  have need: "\<not> role_needed demo_info kafka_spec monoName FLPInformersRole" "role_needed demo_info kafka_spec transfoName FLPInformersRole"
    using account_names by (simp_all add: role_needed_def kafka_spec_def UseKafka_def OnHold_spec_def IsInformerCacheProxyEnabled_def zero_flp_def zero_spec_def)
  obtain s' where "reconcile_roles ?ctl demo_info kafka_spec ?s = (None, s')" and
    n: "\<forall>(a, r) \<in> account_roles. held_times (k_crb (fs_world s')) r (service_account ''netobserv'' a) = (if role_needed demo_info kafka_spec a r then 1 else 0)"
    using roles_exactly_needed[where spec = kafka_spec, OF on_demo_cluster[of ctl] w once] by blast
  moreover have "(monoName, FLPInformersRole) \<in> account_roles" "(transfoName, FLPInformersRole) \<in> account_roles"
    by (simp_all add: account_roles_def mono_roles_def transfo_roles_def)
  ultimately show "\<exists>s'. reconcile_roles ?ctl demo_info kafka_spec ?s = (None, s')
     \<and> held_times (k_crb demo_cluster) FLPInformersRole (service_account ''netobserv'' monoName) = 1
     \<and> held_times (k_crb (fs_world s')) FLPInformersRole (service_account ''netobserv'' monoName) = 0
     \<and> held_times (k_crb (fs_world s')) FLPInformersRole (service_account ''netobserv'' transfoName) = 1"
    using held need by (intro exI[of _ s']) fastforce
qed

end
