(* ===== verification/FLP_Informers_Correct.thy ===== *)
theory FLP_Informers_Correct
  imports FLP_Controller_Correct
begin

text \<open>
  The informers reach the caches of the processors: the pods that they select listen on the port and with the TLS settings that they use. At the
  end, what goes wrong with the service of the cache.
\<close>

section \<open>Arguments\<close>

definition informer_arguments :: "informer_deployment \<Rightarrow> string set" where
  "informer_arguments d = set (ic_Args (hd (id_Containers d)))"

definition pod_arguments :: "pod_template \<Rightarrow> string set" where
  "pod_arguments p = set (pc_Args (hd (pod_Containers p)))"

lemma same_port: "advanced_or aicp_ProcessorPort DefaultK8sCachePort (proxy_config desired) = GetK8sCachePort (spec_Processor desired)"
  by (simp add: advanced_or_def proxy_config_def GetK8sCachePort_def empty_proxy_def split: option.split)

lemma same_tls: "InformerTLSAsServiceConfig (Some (proxy_config desired)) = InformerTLSAsServiceConfig (flp_InformerCacheProxy (spec_Processor desired))"
  by (simp add: InformerTLSAsServiceConfig_def proxy_config_def empty_proxy_def split: option.split)

lemma tls_args:
  assumes "GetServiceClientTLSConfig (Some (InformerTLSAsServiceConfig (Some proxy))) ''flowlogs-pipeline-informers-k8scache-client-cert''
      (IsOpenShift (inst_ClusterInfo (ib_info b))) = (ca, cert)"
    and "addTLSArgs b proxy args vols = (args', vols')"
  shows "set args \<subseteq> set args'" "''--tls-enabled=true'' \<in> set args' \<longleftrightarrow> ''--tls-enabled=true'' \<in> set args \<or> ca \<noteq> None"
    "(\<exists>p. ''--tls-cert-path='' @ p \<in> set args') \<longleftrightarrow> (\<exists>p. ''--tls-cert-path='' @ p \<in> set args) \<or> cert \<noteq> None"
    "ca \<noteq> None \<Longrightarrow> ''--tls-server-name='' @ k8sCacheServiceName @ ''.'' @ inst_Namespace (ib_info b) @ ''.svc'' \<in> set args'"
  using assms(2) by (auto simp: addTLSArgs_def assms(1) Let_def k8sCacheServiceName_def split: option.splits prod.splits)

lemma plain_args:
  "''--tls-enabled=true'' \<notin> set (informer_args desired config)" "''--tls-cert-path='' @ p \<notin> set (informer_args desired config)"
  by (simp_all add: informer_args_def)

lemma informer_arguments_parts:
  assumes "b = newInformerBuilder c spec"
    and "GetServiceClientTLSConfig (Some (InformerTLSAsServiceConfig (flp_InformerCacheProxy (spec_Processor spec))))
      ''flowlogs-pipeline-informers-k8scache-client-cert'' (IsOpenShift (inst_ClusterInfo c)) = (ca, cert)"
    and "A = informer_arguments (informer_deployment_of D lib b)"
  shows "set (informer_args spec (proxy_config spec)) \<subseteq> A" "''--tls-enabled=true'' \<in> A \<longleftrightarrow> ca \<noteq> None" "(\<exists>p. ''--tls-cert-path='' @ p \<in> A) \<longleftrightarrow> cert \<noteq> None"
    "ca \<noteq> None \<Longrightarrow> ''--tls-server-name='' @ k8sCacheServiceName @ ''.'' @ inst_Namespace c @ ''.svc'' \<in> A"
proof -
  obtain args vols where r: "addTLSArgs b (proxy_config spec) (informer_args spec (proxy_config spec)) [] = (args, vols)" by fastforce
  have t: "GetServiceClientTLSConfig (Some (InformerTLSAsServiceConfig (Some (proxy_config spec)))) ''flowlogs-pipeline-informers-k8scache-client-cert''
      (IsOpenShift (inst_ClusterInfo (ib_info b))) = (ca, cert)" using assms(1,2) by (simp add: same_tls newInformerBuilder_def)
  have A: "A = set args" using r assms(1)
    by (simp add: assms(3) informer_arguments_def informer_deployment_of_def Let_def newInformerBuilder_def informer_container_of_def)
  have c: "ib_info b = c" by (simp add: assms(1) newInformerBuilder_def)
  show "set (informer_args spec (proxy_config spec)) \<subseteq> A" "''--tls-enabled=true'' \<in> A \<longleftrightarrow> ca \<noteq> None" "(\<exists>p. ''--tls-cert-path='' @ p \<in> A) \<longleftrightarrow> cert \<noteq> None"
    "ca \<noteq> None \<Longrightarrow> ''--tls-server-name='' @ k8sCacheServiceName @ ''.'' @ inst_Namespace c @ ''.svc'' \<in> A"
    unfolding A using tls_args[OF t r] unfolding c by (simp_all add: plain_args plain_args[simplified])
qed

lemma pod_arguments_parts:
  assumes "flp_pod flib name cm fb netType ann vols = (pod, v)" and "IsInformerCacheProxyEnabled (spec_Processor (fb_desired fb))"
    and "GetServiceServerTLSConfig (Some (InformerTLSAsServiceConfig (flp_InformerCacheProxy (spec_Processor (fb_desired fb))))) k8sCacheCertSecretName
      (IsOpenShift (inst_ClusterInfo (fb_info fb))) = (cert, ca)"
  shows "''--k8scache.port='' @ itoa (GetK8sCachePort (spec_Processor (fb_desired fb))) \<in> pod_arguments pod"
    "''--k8scache.tls-enabled=true'' \<in> pod_arguments pod \<longleftrightarrow> cert \<noteq> None"
    "(\<exists>p. ''--k8scache.tls-ca-path='' @ p \<in> pod_arguments pod) \<longleftrightarrow> cert \<noteq> None \<and> ca \<noteq> None"
    "map_of (pod_Labels pod) ''app'' = Some name"
    "\<exists>port \<in> set (pc_Ports (hd (pod_Containers pod))). port_Name port = ''k8scache'' \<and> port_ContainerPort port = GetK8sCachePort (spec_Processor (fb_desired fb))"
proof -
  let ?d = "fb_desired fb"
  let ?os = "IsOpenShift (inst_ClusterInfo (fb_info fb))"
  obtain args u where a: "addK8sCacheArgs ?d ?os [''--config='' @ configPath @ ''/'' @ configFile] vols = (args, u)" by fastforce
  have pod: "pc_Args (hd (pod_Containers pod)) = args" "pod_Labels pod = version_labels name (fb_version fb)"
    "pc_Ports (hd (pod_Containers pod)) = flp_ports (GetAdvancedProcessorConfig (lib_defaults flib) ?d) (spec_Processor ?d) netType"
    using assms(1,2) a by (auto simp: flp_pod_def podTemplate_def Let_def)
  have args: "''--k8scache.port='' @ itoa (GetK8sCachePort (spec_Processor ?d)) \<in> set args"
    "''--k8scache.tls-enabled=true'' \<in> set args \<longleftrightarrow> cert \<noteq> None" "(\<exists>p. ''--k8scache.tls-ca-path='' @ p \<in> set args) \<longleftrightarrow> cert \<noteq> None \<and> ca \<noteq> None"
    using a by (auto simp: addK8sCacheArgs_def assms(3) Let_def split: option.splits prod.splits)
  then show "''--k8scache.port='' @ itoa (GetK8sCachePort (spec_Processor ?d)) \<in> pod_arguments pod"
    "''--k8scache.tls-enabled=true'' \<in> pod_arguments pod \<longleftrightarrow> cert \<noteq> None" "(\<exists>p. ''--k8scache.tls-ca-path='' @ p \<in> pod_arguments pod) \<longleftrightarrow> cert \<noteq> None \<and> ca \<noteq> None"
    by (simp_all add: pod_arguments_def pod(1))
  show "map_of (pod_Labels pod) ''app'' = Some name" by (simp add: pod(2) version_labels_def app_labels_def)
  show "\<exists>port \<in> set (pc_Ports (hd (pod_Containers pod))). port_Name port = ''k8scache'' \<and> port_ContainerPort port = GetK8sCachePort (spec_Processor ?d)"
    using assms(2) by (simp add: pod(3) flp_ports_def Let_def)
qed

text \<open>The workload that is deployed for a specification.\<close>

definition deployed_workload :: "'f flp_lib \<Rightarrow> 'v flpBuilder \<Rightarrow> go_map \<Rightarrow> Builder \<Rightarrow> workload" where
  "deployed_workload flib fb ann vols =
     fst ((if UseKafka (fb_desired fb) then transfo_deployment else if UseHostNetwork (fb_desired fb) then mono_daemonSet else mono_deployment) flib fb ann vols)"

lemma deployed_pod:
  "\<exists>cm netType ann' v. flp_pod flib (processor_app (fb_desired fb)) cm fb netType ann' vols = (wl_Template (deployed_workload flib fb ann vols), v)"
  by (cases "IsOpenShift (inst_ClusterInfo (fb_info fb))")
    (auto simp: deployed_workload_def processor_app_def transfo_deployment_def mono_daemonSet_def mono_deployment_def flp_workload_def Let_def split: prod.split)


definition proxied_spec :: FlowCollectorSpec where
  "proxied_spec = zero_spec\<lparr>spec_Processor := zero_flp\<lparr>flp_InformerCacheProxy := Some (empty_proxy\<lparr>icp_Enabled := Some True\<rparr>)\<rparr>\<rparr>"

definition proxied_flp :: "unit flpBuilder" where
  "proxied_flp = demo_flp\<lparr>fb_desired := proxied_spec\<rparr>"

definition demo_informer_lib :: informer_lib where
  "demo_informer_lib = \<lparr>il_resources_set = (\<lambda>_. False), il_default_resources = Opaque 1\<rparr>"


section \<open>The service of the cache\<close>

text \<open>With Auto-mTLS on OpenShift the pods mount a certificate for the cache that the service does not ask for.\<close>

theorem cache_certificate_not_requested:
  assumes "flp_InformerCacheProxy (spec_Processor spec) = Some p" and "icp_TLS p = Some t" and "icptls_Type t = TLSAutoMTLS"
  shows "fst (GetServiceServerTLSConfig (Some (InformerTLSAsServiceConfig (flp_InformerCacheProxy (spec_Processor spec)))) k8sCacheCertSecretName True)
      = Some (DefaultCertificateReference k8sCacheCertSecretName [])
    \<and> om_Annotations (serv_Meta (informer_service (newInformerBuilder c spec))) = None"
  using assms by (simp add: InformerTLSAsServiceConfig_def GetServiceServerTLSConfig_def not_auto_def auto_mtls_def Let_def informer_service_def
      newInformerBuilder_def UsesOpenShiftServiceCA_def GetTLSType_def new_meta_def)

text \<open>
  The service selects the pods of the monolith or of the transformer; but when it is there already, its selector stays as it is when the
  deployment model changes: the update takes over annotations and ports only.
\<close>

theorem cache_selector_kept:
  assumes "on_cluster ctl" and "well_keyed (k_svc w)" and "k_svc w (ns, k8sCacheServiceName) = Some x" and "IsOwned x"
    and "UseKafka spec \<noteq> UseKafka spec'"
  shows "serv_Selector (informer_service (newInformerBuilder c spec)) \<noteq> serv_Selector (informer_service (newInformerBuilder c spec'))
    \<and> (\<exists>y w'. informer_reconcileService ctl b (fetched ns w (newInformerReconciler (fx_zero ctl))) w = (None, w')
         \<and> k_svc w' (ns, k8sCacheServiceName) = Some y \<and> svb_Rest (obj_Body y) = svb_Rest (obj_Body x))"
proof (rule conjI)
  show "serv_Selector (informer_service (newInformerBuilder c spec)) \<noteq> serv_Selector (informer_service (newInformerBuilder c spec'))"
    using assms(5) by (auto simp: informer_service_def newInformerBuilder_def processor_app_def Let_def account_names not_sym[OF account_names(1)])
  let ?m = "mg_svc (fetched ns w (newInformerReconciler (fx_zero ctl)))"
  have m: "Exists ?m (Some 0)" "placeholder ?m 0 = x"
    using assms(3) by (simp_all add: fetched_def newInformerReconciler_def addManagedObject_def found_in_def placeholder_def)
  have k: "key_of x = (ns, k8sCacheServiceName)" by (rule well_keyedD[OF assms(2,3)])
  have cl: "pc_svc (fx_clients ctl) = lens_client k_svc k_svc_update" using assms(1) by (simp add: on_cluster_def)
  let ?n = "fx_service ctl (informer_service b)"
  let ?new = "x\<lparr>obj_Meta := (obj_Meta x)\<lparr>om_Annotations := om_Annotations (obj_Meta ?n)\<rparr>, obj_Body := (obj_Body x)\<lparr>svb_Ports := svb_Ports (obj_Body ?n)\<rparr>\<rparr>"
  let ?y = "AddManagedLabel (?new\<lparr>obj_Meta := (obj_Meta ?new)\<lparr>om_ResourceVersion := om_ResourceVersion (obj_Meta x)\<rparr>\<rparr>)"
  have y: "key_of ?y = (ns, k8sCacheServiceName)" "svb_Rest (obj_Body ?y) = svb_Rest (obj_Body x)"
    unfolding managed_facts using k by (simp_all add: key_of_def)
  obtain ch r where ch: "ServiceChanged (service_view x) (service_view ?n) (NewChangeReport ''k8scache Service'') = (ch, r)" by fastforce
  show "\<exists>y w'. informer_reconcileService ctl b (fetched ns w (newInformerReconciler (fx_zero ctl))) w = (None, w')
      \<and> k_svc w' (ns, k8sCacheServiceName) = Some y \<and> svb_Rest (obj_Body y) = svb_Rest (obj_Body x)"
  proof (cases ch)
    case True
    have "UpdateIfOwned (lens_client k_svc k_svc_update) (Some x) ?new w = (None, w\<lparr>k_svc := (k_svc w)((ns, k8sCacheServiceName) \<mapsto> ?y)\<rparr>)"
      using assms(3,4) y(1) by (simp add: UpdateIfOwned_def UpdateOwned_def Let_def lens_client_def cong: cluster.fold_congs)
    then show ?thesis using m ch True y(2)
      by (intro exI[of _ ?y] exI[of _ "w\<lparr>k_svc := (k_svc w)((ns, k8sCacheServiceName) \<mapsto> ?y)\<rparr>"])
        (simp add: informer_reconcileService_def reported_def ReconcileService_def cl Let_def)
  next
    case False
    then show ?thesis using m ch assms(3)
      by (intro exI[of _ x] exI[of _ w]) (simp add: informer_reconcileService_def reported_def ReconcileService_def cl)
  qed
qed

end
