(* ===== verification/FLP_Parent.thy ===== *)
theory FLP_Parent
  imports FLP_Controller
begin

text \<open>
  The parent controller of the processor, \<open>internal/controller/flp/flp_controller.go\<close>: it reads the custom metrics and the slices, runs the
  reconcilers of informers, monolith and transformer in order and keeps the status. Deferred calls are made on the result, the last
  deferred first. Iteration orders of maps, clocks, texts and the API server are parameters.
\<close>

record ('w, 'v) flp_parent =
  fp_fc :: "(FlowCollector, 'w) k8s_client"
  fp_ResetActiveWatches :: "'w \<Rightarrow> 'w"
  fp_Config :: Config
  fp_ClusterInfo :: "'v Info"
  fp_subnets :: "'w \<Rightarrow> subnet_sources"
  fp_subnet_text :: "subnet_error list \<Rightarrow> string"
  fp_ListMetrics :: "string \<Rightarrow> 'w \<Rightarrow> client_error + FlowMetric list"
  fp_ListSlices :: "'w \<Rightarrow> client_error + FlowCollectorSlice list"
  fp_metric_api :: "'w metric_api"
  fp_slice_api :: "'w slice_api"
  fp_now :: int
  fp_api :: "'w api"
  fp_env :: status_env
  fp_orders :: "nat \<Rightarrow> range_orders"
  fp_status_order :: "ComponentName list"
  fp_exporter_order :: "string list"

definition newCommonInfo :: "('w, 'v) flp_parent \<Rightarrow> string \<Rightarrow> LokiManualParams \<Rightarrow> 'v Instance" where
  "newCommonInfo pe ns loki =
     \<lparr>inst_Namespace = ns, inst_Images = (\<lambda>i. if i = MainImage then cfg_FlowlogsPipelineImage (fp_Config pe) else []),
      inst_ClusterInfo = fp_ClusterInfo pe, inst_Loki = loki, inst_TLSConfig = GetComponentTLSConfig (fp_ClusterInfo pe),
      inst_Vendor = cfg_Vendor (fp_Config pe)\<rparr>"

definition status_error :: "('w, 'f) flp_ctl \<Rightarrow> ComponentName \<Rightarrow> string \<Rightarrow> flp_failure \<Rightarrow> ('w, 'f) flp_step" where
  "status_error ctl cpnt reason e s = (Some e, s\<lparr>fs_status := fst (Instance_Error cpnt reason (fx_text ctl e) (fs_status s))\<rparr>)"

text \<open>Subnets that were found are kept when some source could not be read.\<close>

definition detect_subnets :: "('w, 'v) flp_parent \<Rightarrow> FlowCollectorSpec \<Rightarrow> ('w, 'f) flp_state \<Rightarrow> SubnetLabel list \<times> ('w, 'f) flp_state" where
  "detect_subnets pe spec s =
     (if IsOpenShift (fp_ClusterInfo pe) \<and> HasAutoDetectNetworks (spec_Processor spec) then
        (case getOpenShiftSubnets (fp_subnets pe (fs_world s)) (fp_ClusterInfo pe) of
           (labels, []) \<Rightarrow> (labels, s)
         | (labels, e # es) \<Rightarrow>
             (labels, s\<lparr>fs_status := setDegraded FLPParent ''SubnetDetectionError''
                (''subnet auto-detect failed: '' @ fp_subnet_text pe (e # es)) (fs_status s)\<rparr>))
      else ([], s))"

text \<open>The deferred calls that write the statuses of metrics and slices.\<close>

definition sync_metrics :: "('w, 'v) flp_parent \<Rightarrow> ('w, 'f) flp_step \<Rightarrow> ('w, 'f) flp_step" where
  "sync_metrics pe f s =
     (case f s of (e, s') \<Rightarrow>
        (e, s'\<lparr>fs_world := fm_Sync (fp_now pe) (fp_metric_api pe) (ps_fm_st (fs_pstate s')) (ps_metrics (fs_pstate s')) (fs_world s')\<rparr>))"

definition sync_slices :: "('w, 'v) flp_parent \<Rightarrow> ('w, 'f) flp_step \<Rightarrow> ('w, 'f) flp_step" where
  "sync_slices pe f s =
     (case f s of (e, s') \<Rightarrow>
        (e, s'\<lparr>fs_world := slices_Sync (fp_now pe) (fp_slice_api pe) (ps_slice_st (fs_pstate s')) (ps_slices (fs_pstate s')) (fs_world s')\<rparr>))"

text \<open>
  \<open>SortFunc\<close> by name; it does not fix the order of slices of the same name, here it is the order of the list.
\<close>

definition list_slices :: "('w, 'f) flp_ctl \<Rightarrow> ('w, 'v) flp_parent \<Rightarrow> FlowCollectorSpec \<Rightarrow> ('w, 'f) flp_step \<Rightarrow> ('w, 'f) flp_step" where
  "list_slices ctl pe spec k s =
     (if IsSliceEnabled spec then
        (case fp_ListSlices pe (fs_world s) of
           Inl e \<Rightarrow> status_error ctl FLPParent ''CantListFlowCollectorSlices'' (FlpClient e) s
         | Inr items \<Rightarrow>
             (case slices_Reset (sort_key slc_Name items) of (st, items) \<Rightarrow>
                sync_slices pe k (s\<lparr>fs_pstate := (fs_pstate s)\<lparr>ps_slices := items, ps_slice_st := st\<rparr>\<rparr>)))
      else k (s\<lparr>fs_pstate := (fs_pstate s)\<lparr>ps_slices := []\<rparr>\<rparr>))"

definition update_namespace :: "('w, 'f) flp_ctl \<Rightarrow> ('w, 'v) flp_parent \<Rightarrow> string \<Rightarrow> FlowCollector \<Rightarrow> ('w, 'f) flp_step" where
  "update_namespace ctl pe ns fc s =
     (if ns \<noteq> GetDeployedNamespace FLPParent fc then
        (case SetDeployedNamespace (fp_api pe) FLPParent ns (fs_world s) of
           (Some e, w) \<Rightarrow> status_error ctl FLPParent ''ChangeNamespaceError'' (FlpClient (ApiErr e)) (s\<lparr>fs_world := w\<rparr>)
         | (None, w) \<Rightarrow> (None, s\<lparr>fs_world := w\<rparr>))
      else (None, s))"

fun run_subs :: "('w, 'f) flp_ctl \<Rightarrow> (ComponentName \<times> ('w, 'f) flp_step) list \<Rightarrow> ('w, 'f) flp_step" where
  "run_subs ctl [] s = (None, s)"
| "run_subs ctl ((cpnt, f) # subs) s =
     (case f s of
        (Some e, s') \<Rightarrow> status_error ctl cpnt ''FLPReconcileError'' e s'
      | (None, s') \<Rightarrow> run_subs ctl subs s')"

fun exporter_string :: "ExporterType \<Rightarrow> string" where
  "exporter_string ExporterTypeUnset = []"
| "exporter_string KafkaExporter = ''Kafka''"
| "exporter_string IpfixExporter = ''IPFIX''"
| "exporter_string OpenTelemetryExporter = ''OpenTelemetry''"

text \<open>Lists of exporters hold no nil here.\<close>

definition updateExporterStatuses :: "('w, 'v) flp_parent \<Rightarrow> FlowCollectorSpec \<Rightarrow> Manager \<Rightarrow> Manager" where
  "updateExporterStatuses pe spec st =
     foldl (\<lambda>st (i, e). SetExporterStatus (to_lower (exporter_string (exp_Type e)) @ ''-export-'' @ itoa (int i)) (exporter_string (exp_Type e))
              (status_string StatusReady) ''Configured'' [] st)
       (ClearExporters (fp_exporter_order pe) st) (enumerate 0 (spec_Exporters spec))"

text \<open>The sub-reconcilers are created, which resets their statuses, and run.\<close>

definition run_reconcilers ::
  "('w, 'f) flp_ctl \<Rightarrow> ('w, 'v) flp_parent \<Rightarrow> 'v Instance \<Rightarrow> FlowCollector \<Rightarrow> SubnetLabel list \<Rightarrow> ('w, 'f) flp_step" where
  "run_reconcilers ctl pe c fc subnets =
     (let spec = fc_Spec fc in
      run_steps
        [set_status (\<lambda>st. ForComponent FLPTransformer (ForComponent FLPMonolith (ForComponent FLPInformers st))),
         update_namespace ctl pe (inst_Namespace c) fc,
         run_subs ctl [(FLPInformers, informer_reconcile ctl c spec), (FLPMonolith, mono_reconcile ctl c spec subnets),
           (FLPTransformer, transfo_reconcile ctl c spec subnets)],
         set_status (updateExporterStatuses pe spec)])"

definition flp_reconcile :: "('w, 'f) flp_ctl \<Rightarrow> ('w, 'v) flp_parent \<Rightarrow> FlowCollector \<Rightarrow> ('w, 'f) flp_step" where
  "flp_reconcile ctl pe fc s =
     (let spec = fc_Spec fc;
          ns = GetOperandsNamespace spec (cfg_DefaultOperandsNamespace (fp_Config pe));
          c = newCommonInfo pe ns (NewLokiConfig (spec_Loki spec) ns)
      in case watcher_Reset (fx_watch ctl) ns (fs_watcher s) (fs_world s) of (wt, w) \<Rightarrow>
         case detect_subnets pe spec (s\<lparr>fs_namespace := ns, fs_watcher := wt, fs_world := w\<rparr>) of (subnets, s1) \<Rightarrow>
           (case fp_ListMetrics pe ns (fs_world s1) of
              Inl e \<Rightarrow> status_error ctl FLPParent ''CantListFlowMetrics'' (FlpClient e) s1
            | Inr fms \<Rightarrow>
                sync_metrics pe (list_slices ctl pe spec (run_reconcilers ctl pe c fc subnets))
                  (s1\<lparr>fs_pstate := (fs_pstate s1)\<lparr>ps_metrics := fms, ps_fm_st := fm_Reset\<rparr>\<rparr>)))"

fun is_flp_kafka_error :: "flp_failure \<Rightarrow> bool" where
  "is_flp_kafka_error (FlpKafka _) = True"
| "is_flp_kafka_error (FlpWrapped _ e) = is_flp_kafka_error e"
| "is_flp_kafka_error (FlpClient _) = False"
| "is_flp_kafka_error (FlpBuild _) = False"
| "is_flp_kafka_error (FlpJoined _) = False"

definition commit_status :: "('w, 'v) flp_parent \<Rightarrow> ('w, 'f) flp_state \<Rightarrow> ('w, 'f) flp_state" where
  "commit_status pe s = (case Sync (fp_env pe) (fp_api pe) (fp_orders pe) (fs_status s) (fs_world s) of (st, _, w) \<Rightarrow> s\<lparr>fs_status := st, fs_world := w\<rparr>)"

text \<open>The result is the error, whether the request is queued again, and the state.\<close>

definition flp_finish :: "('w, 'f) flp_ctl \<Rightarrow> ('w, 'v) flp_parent \<Rightarrow> FlowCollectorSpec \<Rightarrow> flp_failure option \<times> ('w, 'f) flp_state
     \<Rightarrow> flp_failure option \<times> bool \<times> ('w, 'f) flp_state" where
  "flp_finish ctl pe spec r =
     (case r of
        (Some e, s) \<Rightarrow>
          (Some e, False,
           if \<not> hasFailure (fs_status s) FLPParent
           then s\<lparr>fs_status := setFailure FLPParent (if is_flp_kafka_error e then ''FLPKafkaError'' else ''FLPError'') (fx_text ctl e) (fs_status s)\<rparr>
           else s)
      | (None, s) \<Rightarrow>
          (let st = (if OnHold_spec spec then setUnused FLPParent ''FlowCollector is on hold'' (fs_status s) else setReady FLPParent (fs_status s))
           in (None, NeedsRequeue (fp_status_order pe) st, s\<lparr>fs_status := st\<rparr>)))"

definition flp_Reconcile :: "('w, 'f) flp_ctl \<Rightarrow> ('w, 'v) flp_parent \<Rightarrow> ('w, 'f) flp_state \<Rightarrow> flp_failure option \<times> bool \<times> ('w, 'f) flp_state" where
  "flp_Reconcile ctl pe s =
     (case getFlowCollector (fp_fc pe) (fs_world s) of
        Inl e \<Rightarrow> (Some (FlpWrapped ''failed to get FlowCollector: '' (FlpClient e)), False, s)
      | Inr found \<Rightarrow>
          (let s = s\<lparr>fs_world := fp_ResetActiveWatches pe (fs_world s)\<rparr> in
           case found of
             None \<Rightarrow> (None, False, s)
           | Some fc \<Rightarrow>
               if IsMarkedForDeletion fc then (None, False, s)
               else (case flp_finish ctl pe (fc_Spec (obj_Body fc)) (flp_reconcile ctl pe (obj_Body fc) (s\<lparr>fs_status := reset FLPParent (fs_status s)\<rparr>)) of
                       (e, again, s') \<Rightarrow> (e, again, commit_status pe s'))))"

end
