(* ===== verification/FLP_Parent_Correct.thy ===== *)
theory FLP_Parent_Correct
  imports FLP_Parent Status_Correct Reconcilers_Correct
begin

text \<open>
  How the parent controller reports: every sub-reconciler writes its own status only, and the status of the parent is a failure exactly when
  the run returns an error.
\<close>

section \<open>Steps that keep to a component\<close>

locale own_status =
  fixes C :: "ComponentName set" and f :: "('w, 'f) flp_step"
  assumes others: "c \<notin> C \<Longrightarrow> statuses (fs_status (snd (f s))) c = statuses (fs_status s) c"
begin

lemma run_others: "f s = (e, s') \<Longrightarrow> c \<notin> C \<Longrightarrow> statuses (fs_status s') c = statuses (fs_status s) c"
  using others[of c s] by simp

end

definition kept_but :: "ComponentName set \<Rightarrow> (Manager \<Rightarrow> Manager) \<Rightarrow> bool" where
  "kept_but C g \<longleftrightarrow> (\<forall>st c. c \<notin> C \<longrightarrow> statuses (g st) c = statuses st c)"

lemma kept_butD: "kept_but C g \<Longrightarrow> c \<notin> C \<Longrightarrow> statuses (g st) c = statuses st c"
  by (simp add: kept_but_def)

lemma update_kept: "cs_Name other \<in> C \<Longrightarrow> kept_but C (updateComponentStatus other)"
  unfolding kept_but_def by (metis update_other)

lemma setters_kept:
  "x \<in> C \<Longrightarrow> kept_but C (setInProgress x r m)" "x \<in> C \<Longrightarrow> kept_but C (setDegraded x r m)" "x \<in> C \<Longrightarrow> kept_but C (setReady x)"
  "x \<in> C \<Longrightarrow> kept_but C (setUnused x m)" "x \<in> C \<Longrightarrow> kept_but C (setPodHealth x h)" "x \<in> C \<Longrightarrow> kept_but C (setFailure x r m)"
  unfolding setInProgress_def setDegraded_def setReady_def setUnused_def setPodHealth_def setFailure_def
  by (rule update_kept; simp add: mk_status_def)+

lemma replicas_kept: "x \<in> C \<Longrightarrow> kept_but C (set_replicas x a b)"
  by (auto simp: kept_but_def set_replicas_def split: option.split)

lemma progress_kept: "x \<in> C \<Longrightarrow> kept_but C (CheckDeploymentProgress x d)" "x \<in> C \<Longrightarrow> kept_but C (CheckDaemonSetProgress x ds)"
  using setters_kept[of x C] replicas_kept[of x C]
  by (auto simp: kept_but_def CheckDeploymentProgress_def CheckDaemonSetProgress_def setDeploymentReplicas_def setDaemonSetReplicas_def split: option.split)

lemma health_kept: "x \<in> C \<Longrightarrow> kept_but C (CheckDeploymentHealth pods x d)" "x \<in> C \<Longrightarrow> kept_but C (CheckDaemonSetHealth pods x ds)"
  using setters_kept(5)[of x C] progress_kept[of x C]
  by (auto simp: kept_but_def CheckDeploymentHealth_def CheckDaemonSetHealth_def Let_def split: option.split)

lemma workload_kept:
  assumes "x \<in> C" "c \<notin> C"
  shows "statuses (fst (snd (snd (ReconcileDeployment pods x m cl p old n cn ig r st w)))) c = statuses st c"
    and "statuses (fst (snd (snd (ReconcileDaemonSet pods x m' cl' p old' n' cn r st w)))) c = statuses st c"
  using kept_butD[OF setters_kept(1)[OF assms(1)] assms(2)] kept_butD[OF health_kept(1)[OF assms(1)] assms(2)] kept_butD[OF health_kept(2)[OF assms(1)] assms(2)]
  by (simp_all add: ReconcileDeployment_def ReconcileDaemonSet_def SetCreatingDeployment_def SetCreatingDaemonSet_def Let_def
      split: prod.split bool.split option.split)

lemma own_world: "own_status C (on_world g)"
  by unfold_locales (simp add: on_world_def split: prod.split)

lemma own_skip: "own_status C (\<lambda>s. (None, s))"
  by unfold_locales simp

lemma own_set: "kept_but C g \<Longrightarrow> own_status C (set_status g)"
  by unfold_locales (simp add: set_status_def kept_but_def)

lemma own_steps:
  "own_status C (run_steps [])" "own_status C f \<Longrightarrow> own_status C (run_steps fs) \<Longrightarrow> own_status C (run_steps (f # fs))"
proof -
  show "own_status C (run_steps [])" by (simp add: own_status_def)
  show "own_status C (run_steps (f # fs))" if "own_status C f" "own_status C (run_steps fs)"
  proof
    fix c s assume "c \<notin> C"
    then show "statuses (fs_status (snd (run_steps (f # fs) s))) c = statuses (fs_status s) c"
      using own_status.others[OF that(2)] own_status.run_others[OF that(1)] by (simp split: prod.split option.split)
  qed
qed

lemma own_run: "list_all (own_status C) fs \<Longrightarrow> own_status C (run_steps fs)"
  by (induction fs) (simp_all add: own_steps)

lemma own_wrap: "own_status C f \<Longrightarrow> own_status C (wrap_step msg f)"
  by (simp add: own_status_def wrap_step_def case_prod_beta)

lemma own_building: "(\<And>wl. own_status C (k wl)) \<Longrightarrow> own_status C (building f k)"
  by (simp add: own_status_def building_def split: prod.split)

lemma own_managed: "(\<And>m. own_status C (k m)) \<Longrightarrow> own_status C (with_managed ctl c m0 k)"
  by (simp add: own_status_def with_managed_def split: prod.split option.split)

lemma own_configs: "(\<And>b x y. own_status C (k b x y)) \<Longrightarrow> own_status C (with_configs builder configs k)"
  by (simp add: own_status_def with_configs_def split: prod.split sum.split)

lemma own_with_status:
  assumes "\<And>st w c. c \<notin> C \<Longrightarrow> statuses (fst (snd (snd (g st w)))) c = statuses st c"
  shows "own_status C (with_status g)"
proof
  fix c s assume "c \<notin> C"
  then show "statuses (fs_status (snd (with_status g s))) c = statuses (fs_status s) c"
    using assms[of c "fs_status s" "fs_world s"] by (cases "g (fs_status s) (fs_world s)") (simp add: with_status_def)
qed

lemmas own_intros = own_world own_skip own_steps own_wrap own_building own_managed own_configs

section \<open>The sub-reconcilers\<close>

lemma own_roles: "own_status C (bind_roles ctl c sa needs)"
  unfolding bind_roles_def by (rule own_run) (simp add: list_all_iff own_world case_prod_beta)

lemma own_loki: "own_status C (lokiCACert ctl c spec)"
  by unfold_locales (simp add: lokiCACert_def own_status.others[OF own_world])

lemma own_kafka: "own_status C (annotateKafkaCerts ctl c k prefix)"
  by unfold_locales (simp add: annotateKafkaCerts_def Let_def split: prod.split sum.split)

lemma own_exporters: "own_status C (annotateKafkaExporterCerts ctl c exps)"
  unfolding annotateKafkaExporterCerts_def by (rule own_run) (auto simp: list_all_iff own_kafka own_skip)

lemma own_if: "own_status C f \<Longrightarrow> own_status C g \<Longrightarrow> own_status C (if b then f else g)"
  by simp

lemma own_monitoring: "own_status C (reconcileMonitoringCerts ctl c t)"
  unfolding reconcileMonitoringCerts_def
  by (intro own_steps) (simp_all add: own_status_def own_status.others[OF own_world] split: option.split)

lemma own_deployment: "x \<in> C \<Longrightarrow> own_status C (flp_reconcileDeployment ctl x m d cn ig what)"
  unfolding flp_reconcileDeployment_def by (rule own_with_status) (rule workload_kept)

lemma own_daemonset: "own_status {FLPMonolith} (mono_reconcileDaemonSet ctl m d)"
  unfolding mono_reconcileDaemonSet_def by (rule own_with_status) (rule workload_kept(2)[of FLPMonolith "{FLPMonolith}"]; simp)

lemma own_delete: "own_status C (flp_TryDeleteAll ctl m)"
  by unfold_locales (simp add: flp_TryDeleteAll_def Let_def split: prod.split)

lemma own_unused: "x \<in> C \<Longrightarrow> own_status C (remove_unused ctl x spec unused msg m)"
  unfolding remove_unused_def by (intro own_steps own_if own_skip own_delete own_set setters_kept)

lemma own_at: "(\<And>s. own_status C (g s)) \<Longrightarrow> own_status C (\<lambda>s. g s s)"
  by (simp add: own_status_def)

lemma own_workload: "own_status {FLPMonolith} (reconcileWorkload ctl b m)"
proof -
  let ?g = "\<lambda>s. if UseHostNetwork (fb_desired b)
    then run_steps [on_world (TryDelete (mg_dep m) (pc_dep (fx_clients ctl)) (Some 0) (placeholder (mg_dep m) 0)),
      building (mono_daemonSet (fx_lib ctl) b (fs_annotations s)) (\<lambda>wl. mono_reconcileDaemonSet ctl m (fx_daemonset ctl wl))]
    else run_steps [on_world (TryDelete (mg_ds m) (pc_ds (fx_clients ctl)) (Some 0) (placeholder (mg_ds m) 0)),
      building (mono_deployment (fx_lib ctl) b (fs_annotations s)) (mono_reconcileDeployment ctl b m)]"
  have "own_status {FLPMonolith} (?g s)" for s
    unfolding mono_reconcileDeployment_def by (intro own_if own_intros own_daemonset own_deployment) simp
  then have "own_status {FLPMonolith} (\<lambda>s. ?g s s)" by (rule own_at)
  moreover have "(\<lambda>s. ?g s s) = reconcileWorkload ctl b m" by (rule ext) (cases "UseHostNetwork (fb_desired b)"; simp only: reconcileWorkload_def if_True if_False)
  ultimately show ?thesis by (simp only:)
qed

lemma own_transfo_deployment: "own_status {FLPTransformer} (transfo_reconcileDeployment ctl b m)"
  unfolding transfo_reconcileDeployment_def by (rule own_at) (intro own_building own_deployment, simp)

interpretation monolith: own_status "{FLPMonolith}" "mono_reconcile ctl c spec subnets" for ctl c spec subnets
  unfolding mono_reconcile_def mono_deploy_def Let_def mono_reconcileCRB_def
  by (intro own_intros own_roles own_if own_unused own_loki own_exporters own_monitoring own_workload) simp

interpretation transformer: own_status "{FLPTransformer}" "transfo_reconcile ctl c spec subnets" for ctl c spec subnets
  unfolding transfo_reconcile_def transfo_deploy_def Let_def transfo_reconcileCRB_def
  by (intro own_intros own_roles own_if own_unused own_loki own_kafka own_exporters own_monitoring own_transfo_deployment) simp

interpretation informers: own_status "{FLPInformers}" "informer_reconcile ctl c spec" for ctl c spec
proof
  fix x and s :: "('a, 'b) flp_state"
  assume "x \<notin> {FLPInformers}"
  note defs = informer_reconcilePermissions_def informer_reconcileServiceAccount_def informer_reconcileDeployment_def
  have own: "own_status {FLPInformers} (run_steps (wrap_step m1 (informer_reconcilePermissions ctl c d)
      # (if d then [remove_unused ctl FLPInformers spec u msg m]
         else [wrap_step m2 (informer_reconcileServiceAccount ctl b m), wrap_step m3 (on_world (informer_reconcileService ctl b m)),
               wrap_step m4 (informer_reconcileDeployment ctl b m), set_status (setReady FLPInformers)])))" for m1 m2 m3 m4 d u msg m and b :: "'c informerBuilder"
    unfolding defs if_distrib[of "\<lambda>l. run_steps (x # l)" for x]
    by (intro own_if own_intros own_roles own_unused own_deployment own_set setters_kept) simp_all
  obtain e m w where r: "flp_FetchAll ctl (inst_Namespace c) (newInformerReconciler (fx_zero ctl)) (fs_world s) = (e, m, w)" by (metis prod.exhaust)
  show "statuses (fs_status (snd (informer_reconcile ctl c spec s))) x = statuses (fs_status s) x"
  proof (cases e)
    case None
    show ?thesis
      by (simp only: informer_reconcile_def r None prod.case option.case Let_def own_status.others[OF own \<open>x \<notin> {FLPInformers}\<close>]) simp
  qed (simp add: informer_reconcile_def r)
qed

section \<open>The parent\<close>

definition sub_components :: "ComponentName set" where
  "sub_components = {FLPInformers, FLPMonolith, FLPTransformer}"

definition parent_ok :: "Manager \<Rightarrow> bool" where
  "parent_ok st \<longleftrightarrow> (\<exists>v. statuses st FLPParent = Some v \<and> cs_Status v \<noteq> StatusFailure)"

definition reported_failure :: "Manager \<Rightarrow> string set \<Rightarrow> string \<Rightarrow> bool" where
  "reported_failure st reasons text \<longleftrightarrow>
     (\<exists>v. statuses st FLPParent = Some v \<and> cs_Status v = StatusFailure \<and> cs_Reason v \<in> reasons \<and> last (cs_Messages v) = text)"

definition early_reasons :: "string set" where
  "early_reasons = {''CantListFlowMetrics'', ''CantListFlowCollectorSlices'', ''ChangeNamespaceError''}"

text \<open>What the internal function leaves in the status, by its result.\<close>

definition parent_outcome :: "('w, 'f) flp_ctl \<Rightarrow> flp_failure option \<times> ('w, 'f) flp_state \<Rightarrow> bool" where
  "parent_outcome ctl r \<longleftrightarrow>
     (case r of
        (None, s) \<Rightarrow> parent_ok (fs_status s)
      | (Some e, s) \<Rightarrow>
          reported_failure (fs_status s) early_reasons (fx_text ctl e) \<and> \<not> is_flp_kafka_error e
          \<or> parent_ok (fs_status s) \<and> (\<exists>c \<in> sub_components. hasFailure (fs_status s) c))"

lemma failure_set: "hasFailure (setFailure c r m st) c"
  by (cases "statuses st c") (simp_all add: hasFailure_def setFailure_def updateComponentStatus_def getStatus_def mk_status_def merge_Status Let_def)

lemma failure_parent:
  assumes "parent_ok st" "r \<in> R"
  shows "reported_failure (setFailure FLPParent r m st) R m"
proof -
  obtain v where v: "statuses st FLPParent = Some v" "cs_Status v \<noteq> StatusFailure" using assms(1) by (auto simp: parent_ok_def)
  let ?o = "mk_status FLPParent StatusFailure r [m]"
  have "statuses (setFailure FLPParent r m st) FLPParent = Some (merge v ?o)"
    using update_same[of st ?o v] v(1) by (simp add: setFailure_def mk_status_def)
  moreover have "cs_Status (merge v ?o) = StatusFailure" "cs_Reason (merge v ?o) = r" "last (cs_Messages (merge v ?o)) = m"
    by (cases "cs_Status v"; simp add: merge_def mk_status_def Let_def zero_health_def)+
  ultimately show ?thesis using assms(2) by (simp add: reported_failure_def)
qed

lemma early_error: "parent_ok (fs_status s) \<Longrightarrow> r \<in> early_reasons \<Longrightarrow> parent_outcome ctl (status_error ctl FLPParent r (FlpClient e) s)"
  by (simp add: parent_outcome_def status_error_def Instance_Error_def failure_parent)

lemma parent_ok_kept: "statuses st' FLPParent = statuses st FLPParent \<Longrightarrow> parent_ok st \<Longrightarrow> parent_ok st'"
  by (simp add: parent_ok_def)

lemma subs_outcome:
  assumes "\<And>c f. (c, f) \<in> set subs \<Longrightarrow> own_status {c} f \<and> c \<in> sub_components" "parent_ok (fs_status s)"
  shows "parent_outcome ctl (run_subs ctl subs s)"
  using assms
proof (induction subs arbitrary: s)
  case (Cons cf subs)
  obtain c f where cf: "cf = (c, f)" by fastforce
  then have own: "own_status {c} f" and c: "c \<in> sub_components" using Cons.prems(1) by auto
  obtain e s' where r: "f s = (e, s')" by fastforce
  have ok: "parent_ok (fs_status s')"
    using own_status.run_others[OF own r, of FLPParent] c Cons.prems(2) by (auto simp: sub_components_def intro: parent_ok_kept)
  show ?case
  proof (cases e)
    case None
    have "parent_outcome ctl (run_subs ctl subs s')" by (rule Cons.IH[OF _ ok]) (rule Cons.prems(1), simp)
    then show ?thesis using None cf r by simp
  next
    case (Some ex)
    have "parent_ok (setFailure c x m (fs_status s'))" for x m
      using ok c kept_butD[OF setters_kept(6)[of c "{c}"], of FLPParent] by (auto simp: sub_components_def intro: parent_ok_kept)
    moreover have "\<exists>x \<in> sub_components. hasFailure (setFailure c r' m (fs_status s')) x" for r' m by (rule bexI[OF failure_set c])
    ultimately show ?thesis using Some cf r by (simp add: status_error_def Instance_Error_def parent_outcome_def)
  qed
qed (simp add: parent_outcome_def)

lemma foldl_statuses: "(\<And>st x. statuses (F st x) = statuses st) \<Longrightarrow> statuses (foldl F st l) = statuses st"
  by (induction l arbitrary: st) simp_all

lemma exporters_statuses: "statuses (updateExporterStatuses pe spec st) = statuses st"
  unfolding updateExporterStatuses_def by (subst foldl_statuses) (simp_all add: SetExporterStatus_def split: prod.split)

lemma fresh_statuses: "c \<notin> sub_components \<Longrightarrow>
    statuses (ForComponent FLPTransformer (ForComponent FLPMonolith (ForComponent FLPInformers st))) c = statuses st c"
  by (simp add: ForComponent_def reset_def sub_components_def)

lemma namespace_outcome: "parent_ok (fs_status s) \<Longrightarrow> parent_outcome ctl (update_namespace ctl pe ns fc s)"
  by (simp add: update_namespace_def parent_outcome_def[of _ "(None, _)"] split: prod.split option.split)
    (simp add: early_error early_reasons_def)

lemma reconcilers_outcome:
  assumes "parent_ok (fs_status s)"
  shows "parent_outcome ctl (run_reconcilers ctl pe c fc subnets s)"
proof -
  let ?subs = "[(FLPInformers, informer_reconcile ctl c (fc_Spec fc)), (FLPMonolith, mono_reconcile ctl c (fc_Spec fc) subnets),
    (FLPTransformer, transfo_reconcile ctl c (fc_Spec fc) subnets)]"
  let ?s0 = "s\<lparr>fs_status := ForComponent FLPTransformer (ForComponent FLPMonolith (ForComponent FLPInformers (fs_status s)))\<rparr>"
  have subs: "own_status {x} f \<and> x \<in> sub_components" if "(x, f) \<in> set ?subs" for x f
    using that informers.own_status_axioms monolith.own_status_axioms transformer.own_status_axioms by (auto simp: sub_components_def)
  have "parent_ok (fs_status ?s0)" using assms fresh_statuses[of FLPParent] by (simp add: sub_components_def parent_ok_def)
  then have o1: "parent_outcome ctl (update_namespace ctl pe (inst_Namespace c) fc ?s0)" by (rule namespace_outcome)
  obtain e1 s1 where n: "update_namespace ctl pe (inst_Namespace c) fc ?s0 = (e1, s1)" by fastforce
  obtain e2 s2 where r: "run_subs ctl ?subs s1 = (e2, s2)" by fastforce
  have run: "run_reconcilers ctl pe c fc subnets s =
      (case e1 of Some e \<Rightarrow> (Some e, s1) | None \<Rightarrow> (case e2 of Some e \<Rightarrow> (Some e, s2)
        | None \<Rightarrow> (None, s2\<lparr>fs_status := updateExporterStatuses pe (fc_Spec fc) (fs_status s2)\<rparr>)))"
    using n r by (simp add: run_reconcilers_def Let_def set_status_def split: option.split)
  show ?thesis
  proof (cases e1)
    case None
    with o1 n have "parent_ok (fs_status s1)" by (simp add: parent_outcome_def)
    then have "parent_outcome ctl (run_subs ctl ?subs s1)" by (rule subs_outcome[rotated]) (rule subs)
    then have "parent_outcome ctl (e2, s2)" by (simp only: r)
    then show ?thesis unfolding run using None by (cases e2) (simp_all add: parent_outcome_def parent_ok_def exporters_statuses)
  qed (use o1 n run in simp)
qed

lemma sync_outcome:
  "parent_outcome ctl (f s) \<Longrightarrow> parent_outcome ctl (sync_metrics pe f s)" "parent_outcome ctl (f s) \<Longrightarrow> parent_outcome ctl (sync_slices pe f s)"
  by (auto simp: parent_outcome_def sync_metrics_def sync_slices_def split: prod.splits option.splits)

lemma detect_ok: "parent_ok (fs_status s) \<Longrightarrow> detect_subnets pe spec s = (l, s1) \<Longrightarrow> parent_ok (fs_status s1)"
proof -
  have "parent_ok (setDegraded FLPParent r m st)" if "parent_ok st" for r m st
    using that update_same[of st "mk_status FLPParent StatusDegraded r [m]"]
    by (auto simp: parent_ok_def setDegraded_def mk_status_def merge_Status worse_def)
  then show "parent_ok (fs_status s) \<Longrightarrow> detect_subnets pe spec s = (l, s1) \<Longrightarrow> parent_ok (fs_status s1)"
    by (auto simp: detect_subnets_def split: if_splits prod.splits list.splits)
qed

lemma reconcile_outcome:
  assumes "parent_ok (fs_status s)"
  shows "parent_outcome ctl (flp_reconcile ctl pe fc s)"
proof -
  let ?ns = "GetOperandsNamespace (fc_Spec fc) (cfg_DefaultOperandsNamespace (fp_Config pe))"
  obtain wt w where wt: "watcher_Reset (fx_watch ctl) ?ns (fs_watcher s) (fs_world s) = (wt, w)" by fastforce
  obtain l s1 where d: "detect_subnets pe (fc_Spec fc) (s\<lparr>fs_namespace := ?ns, fs_watcher := wt, fs_world := w\<rparr>) = (l, s1)" by fastforce
  have ok: "parent_ok (fs_status s1)" using detect_ok[OF _ d] assms by simp
  have "parent_outcome ctl (list_slices ctl pe (fc_Spec fc) (run_reconcilers ctl pe c fc l) s2)" if "parent_ok (fs_status s2)" for c s2
    using that by (auto simp: list_slices_def early_error early_reasons_def intro!: sync_outcome reconcilers_outcome split: sum.split prod.split)
  then show ?thesis using ok
    by (auto simp: flp_reconcile_def Let_def wt d early_error early_reasons_def intro!: sync_outcome split: sum.split)
qed

definition processor_components :: "ComponentName set" where
  "processor_components = insert FLPParent sub_components"

lemma own_mono: "own_status C f \<Longrightarrow> C \<subseteq> D \<Longrightarrow> own_status D f"
  by (auto simp: own_status_def)

lemma own_error: "x \<in> C \<Longrightarrow> own_status C (status_error ctl x r e)"
  using setters_kept(6)[of x C] by (simp add: own_status_def status_error_def Instance_Error_def kept_but_def)

lemma own_subs: "list_all (\<lambda>(x, f). x \<in> C \<and> own_status C f) subs \<Longrightarrow> own_status C (run_subs ctl subs)"
proof (induction subs)
  case (Cons xf subs)
  then obtain x f where xf: "xf = (x, f)" and f: "own_status C f" and x: "x \<in> C" and subs: "own_status C (run_subs ctl subs)" by fastforce
  show ?case
  proof
    fix c s assume "c \<notin> C"
    then show "statuses (fs_status (snd (run_subs ctl (xf # subs) s))) c = statuses (fs_status s) c"
      using own_status.others[OF subs] own_status.run_others[OF f]
      by (simp add: xf own_status.others[OF own_error[OF x]] split: prod.split option.split)
  qed
qed (simp add: own_status_def)

lemma own_namespace: "FLPParent \<in> C \<Longrightarrow> own_status C (update_namespace ctl pe ns fc)"
  by (simp add: own_status_def update_namespace_def own_status.others[OF own_error] split: prod.split option.split)

lemma own_reconcilers: "own_status processor_components (run_reconcilers ctl pe c fc subnets)"
proof -
  have fresh: "kept_but processor_components (\<lambda>st. ForComponent FLPTransformer (ForComponent FLPMonolith (ForComponent FLPInformers st)))"
    using fresh_statuses by (simp add: kept_but_def processor_components_def)
  have exps: "kept_but processor_components (updateExporterStatuses pe spec)" for spec by (simp add: kept_but_def exporters_statuses)
  note subs = own_mono[OF informers.own_status_axioms] own_mono[OF monolith.own_status_axioms] own_mono[OF transformer.own_status_axioms]
  show ?thesis unfolding run_reconcilers_def Let_def
    by (intro own_steps own_set fresh exps own_namespace own_subs) (auto simp: processor_components_def sub_components_def intro!: subs)
qed

lemma own_sync: "own_status C f \<Longrightarrow> own_status C (sync_metrics pe f)" "own_status C f \<Longrightarrow> own_status C (sync_slices pe f)"
  by (simp_all add: own_status_def sync_metrics_def sync_slices_def case_prod_beta)

lemma own_slices: "FLPParent \<in> C \<Longrightarrow> own_status C k \<Longrightarrow> own_status C (list_slices ctl pe spec k)"
  using own_sync(2)[of C k pe] by (simp add: own_status_def list_slices_def own_status.others[OF own_error] split: sum.split prod.split)

lemma own_detect:
  "detect_subnets pe spec s = (l, s1) \<Longrightarrow> c \<noteq> FLPParent \<Longrightarrow> statuses (fs_status s1) c = statuses (fs_status s) c"
  using kept_butD[OF setters_kept(2)[of FLPParent "{FLPParent}"]] by (auto simp: detect_subnets_def split: if_splits prod.splits list.splits)

lemma own_reconcile: "own_status processor_components (flp_reconcile ctl pe fc)"
proof
  fix x and s :: "('a, 'b) flp_state"
  assume x: "x \<notin> processor_components"
  then have ne: "x \<noteq> FLPParent" by (auto simp: processor_components_def)
  let ?ns = "GetOperandsNamespace (fc_Spec fc) (cfg_DefaultOperandsNamespace (fp_Config pe))"
  obtain wt w where wt: "watcher_Reset (fx_watch ctl) ?ns (fs_watcher s) (fs_world s) = (wt, w)" by fastforce
  obtain l s1 where d: "detect_subnets pe (fc_Spec fc) (s\<lparr>fs_namespace := ?ns, fs_watcher := wt, fs_world := w\<rparr>) = (l, s1)" by fastforce
  have "own_status processor_components (sync_metrics pe (list_slices ctl pe (fc_Spec fc) (run_reconcilers ctl pe c fc l)))" for c
    by (intro own_sync own_slices own_reconcilers) (simp add: processor_components_def)
  note run = own_status.others[OF this x]
  have err: "statuses (fs_status (snd (status_error ctl FLPParent r e s1))) x = statuses (fs_status s1) x" for r e
    by (rule own_status.others[OF own_error[of _ processor_components] x]) (simp add: processor_components_def)
  show "statuses (fs_status (snd (flp_reconcile ctl pe fc s))) x = statuses (fs_status s) x"
    using own_detect[OF d ne] run err by (simp add: flp_reconcile_def Let_def wt d split: sum.split)
qed

lemma emit_statuses: "statuses (fst (emitStateTransitionEvents ord st)) = statuses st"
  by (simp add: emitStateTransitionEvents_def)

lemma commit_statuses: "statuses (fs_status (commit_status pe s)) = statuses (fs_status s)"
proof -
  obtain e x w where r: "RetryOnConflict DefaultBackoff_Steps 0 (update_attempt (fp_env pe) (fp_api pe) (fp_orders pe) (fs_status s)) (fs_world s) = (e, x, w)"
    by (metis prod.exhaust)
  show ?thesis using emit_statuses[of "ro_events (fp_orders pe DefaultBackoff_Steps)" "fs_status s"]
    by (cases e; cases x) (simp_all add: commit_status_def Sync_def updateStatus_def r case_prod_beta)
qed

lemma commit_view:
  "parent_ok (fs_status (commit_status pe s)) = parent_ok (fs_status s)" "hasFailure (fs_status (commit_status pe s)) = hasFailure (fs_status s)"
  "reported_failure (fs_status (commit_status pe s)) = reported_failure (fs_status s)"
  by (simp_all add: parent_ok_def reported_failure_def hasFailure_def commit_statuses fun_eq_iff)

lemma finish_reported:
  assumes "parent_outcome ctl (r, s)" "flp_finish ctl pe spec (r, s) = (e, again, s')"
  shows "e = r \<and> (case r of None \<Rightarrow> parent_ok (fs_status s')
    | Some ex \<Rightarrow> \<not> again \<and> reported_failure (fs_status s') (if is_flp_kafka_error ex then {''FLPKafkaError''} else insert ''FLPError'' early_reasons) (fx_text ctl ex)
        \<and> (reported_failure (fs_status s') early_reasons (fx_text ctl ex) \<or> (\<exists>c \<in> sub_components. hasFailure (fs_status s') c)))"
proof (cases r)
  case None
  have "parent_ok (setReady FLPParent st)" "parent_ok (setUnused FLPParent m st)" if "parent_ok st" for st m
    using that update_same[of st "mk_status FLPParent StatusReady [] []"] update_same[of st "mk_status FLPParent StatusUnused ''ComponentUnused'' [m]"]
    by (auto simp: parent_ok_def setReady_def setUnused_def mk_status_def merge_Status worse_def)
  then show ?thesis using assms None by (auto simp: flp_finish_def parent_outcome_def Let_def)
next
  case (Some ex)
  consider (early) "reported_failure (fs_status s) early_reasons (fx_text ctl ex)" "\<not> is_flp_kafka_error ex"
    | (late) "parent_ok (fs_status s)" "\<exists>c \<in> sub_components. hasFailure (fs_status s) c"
    using assms(1) Some by (auto simp: parent_outcome_def)
  then show ?thesis
  proof cases
    case early
    then have "hasFailure (fs_status s) FLPParent" by (auto simp: reported_failure_def hasFailure_def)
    then show ?thesis using assms(2) Some early by (auto simp: flp_finish_def reported_failure_def)
  next
    case late
    then have nf: "\<not> hasFailure (fs_status s) FLPParent" by (auto simp: parent_ok_def hasFailure_def)
    let ?r = "if is_flp_kafka_error ex then ''FLPKafkaError'' else ''FLPError''"
    have s': "e = Some ex" "\<not> again" "s' = s\<lparr>fs_status := setFailure FLPParent ?r (fx_text ctl ex) (fs_status s)\<rparr>"
      using assms(2) Some nf by (simp_all add: flp_finish_def)
    have "hasFailure (fs_status s') c" if "c \<in> sub_components" "hasFailure (fs_status s) c" for c
      using that kept_butD[OF setters_kept(6)[of FLPParent "{FLPParent}"], of c] by (auto simp: s' sub_components_def hasFailure_def)
    then have sub: "\<exists>c \<in> sub_components. hasFailure (fs_status s') c" using late(2) by blast
    have "reported_failure (fs_status s') (if is_flp_kafka_error ex then {''FLPKafkaError''} else insert ''FLPError'' early_reasons) (fx_text ctl ex)"
      unfolding s'(3) using failure_parent[OF late(1)] by simp
    then show ?thesis using Some s'(1,2) sub by simp
  qed
qed

text \<open>
  C13: a run of the parent controller on a resource that is not being deleted leaves the statuses of all components outside the processor. When it
  succeeds the parent is not failed; when it returns an error the parent is failed with the text of the error, the request is not queued for later, the
  reason is the one for Kafka exactly for errors of Kafka certificates and credentials, and unless reading or the namespace failed, one
  of the sub-reconcilers is failed too.
\<close>

theorem flp_failure_reported:
  assumes "getFlowCollector (fp_fc pe) (fs_world s) = Inr (Some fc)" and "\<not> IsMarkedForDeletion fc"
  shows "case flp_Reconcile ctl pe s of (r, again, s') \<Rightarrow>
     (\<forall>c. c \<notin> processor_components \<longrightarrow> statuses (fs_status s') c = statuses (fs_status s) c)
     \<and> (case r of
          None \<Rightarrow> parent_ok (fs_status s')
        | Some ex \<Rightarrow> \<not> again
            \<and> reported_failure (fs_status s') (if is_flp_kafka_error ex then {''FLPKafkaError''} else insert ''FLPError'' early_reasons) (fx_text ctl ex)
            \<and> (reported_failure (fs_status s') early_reasons (fx_text ctl ex) \<or> (\<exists>c \<in> sub_components. hasFailure (fs_status s') c)))"
proof -
  let ?s = "s\<lparr>fs_world := fp_ResetActiveWatches pe (fs_world s), fs_status := reset FLPParent (fs_status s)\<rparr>"
  obtain r s1 where run: "flp_reconcile ctl pe (obj_Body fc) ?s = (r, s1)" by fastforce
  obtain e again s2 where fin: "flp_finish ctl pe (fc_Spec (obj_Body fc)) (r, s1) = (e, again, s2)" by (metis prod.exhaust)
  have "parent_ok (fs_status ?s)" by (simp add: parent_ok_def reset_def mk_status_def)
  from reconcile_outcome[OF this, of ctl pe "obj_Body fc"] run have "parent_outcome ctl (r, s1)" by simp
  note fr = finish_reported[OF this fin]
  have keep: "statuses (fs_status s2) c = statuses (fs_status s) c" if c: "c \<notin> processor_components" for c
  proof -
    have ne: "c \<noteq> FLPParent" using c by (auto simp: processor_components_def)
    have "statuses (fs_status s2) c = statuses (fs_status s1) c"
      using fin kept_butD[OF setters_kept(6)[of FLPParent "{FLPParent}"], of c] kept_butD[OF setters_kept(3)[of FLPParent "{FLPParent}"], of c]
        kept_butD[OF setters_kept(4)[of FLPParent "{FLPParent}"], of c] ne by (auto simp: flp_finish_def Let_def split: option.splits if_splits)
    also have "\<dots> = statuses (fs_status ?s) c" using own_status.run_others[OF own_reconcile run c] .
    finally show ?thesis using ne by (simp add: reset_def)
  qed
  have out: "flp_Reconcile ctl pe s = (e, again, commit_status pe s2)" using assms run fin by (simp add: flp_Reconcile_def Let_def)
  show ?thesis using keep conjunct2[OF fr] unfolding out prod.case commit_view commit_statuses conjunct1[OF fr] by blast
qed

definition holding :: "'b k8s_object \<Rightarrow> ('b, 'w) k8s_client" where
  "holding x = \<lparr>cl_Get = (\<lambda>_ _. Inr x), cl_Create = (\<lambda>_ w. (Some Conflict, w)), cl_Update = (\<lambda>_ w. (None, w)), cl_Delete = (\<lambda>_ w. (None, w)),
     cl_SetOwnerReference = Inr\<rparr>"

theorem flp_failure_reported_witness:
  "\<forall>ctl pe s fc. case flp_Reconcile ctl (pe\<lparr>fp_fc := holding (of_others fc)\<rparr>) s of (r, again, s') \<Rightarrow>
     statuses (fs_status s') EBPFAgents = statuses (fs_status s) EBPFAgents \<and> (hasFailure (fs_status s') FLPParent \<longleftrightarrow> r \<noteq> None)"
proof (intro allI)
  fix ctl :: "('a, 'b) flp_ctl" and pe :: "('a, 'c) flp_parent" and s :: "('a, 'b) flp_state" and fc
  let ?pe = "pe\<lparr>fp_fc := holding (of_others fc)\<rparr>"
  have "getFlowCollector (fp_fc ?pe) (fs_world s) = Inr (Some (of_others fc))" by (simp add: getFlowCollector_def holding_def)
  moreover have "\<not> IsMarkedForDeletion (of_others fc)" by (simp add: IsMarkedForDeletion_def of_others_def sample_meta_def)
  ultimately have f: "case flp_Reconcile ctl ?pe s of (r, again, s') \<Rightarrow>
     (\<forall>c. c \<notin> processor_components \<longrightarrow> statuses (fs_status s') c = statuses (fs_status s) c)
     \<and> (case r of
          None \<Rightarrow> parent_ok (fs_status s')
        | Some ex \<Rightarrow> \<not> again
            \<and> reported_failure (fs_status s') (if is_flp_kafka_error ex then {''FLPKafkaError''} else insert ''FLPError'' early_reasons) (fx_text ctl ex)
            \<and> (reported_failure (fs_status s') early_reasons (fx_text ctl ex) \<or> (\<exists>c \<in> sub_components. hasFailure (fs_status s') c)))"
    by (rule flp_failure_reported)
  have "EBPFAgents \<notin> processor_components" by (simp add: processor_components_def sub_components_def)
  with f show "case flp_Reconcile ctl ?pe s of (r, again, s') \<Rightarrow>
     statuses (fs_status s') EBPFAgents = statuses (fs_status s) EBPFAgents \<and> (hasFailure (fs_status s') FLPParent \<longleftrightarrow> r \<noteq> None)"
    by (auto simp: parent_ok_def reported_failure_def hasFailure_def split: prod.splits option.splits)
qed

end
