(* ===== verification/Spec2Isabelle.thy ===== *)
theory Spec2Isabelle
  imports Prelude FC_Types FC_Helper Health_Rules Rules_Correct Go_Net FC_Validation Validation_Spec Samples
    Webhook_Correct TLS_Helper Component_Status Pod_Health Status_Manager Status_Correct
    Slices Slices_Correct Restart_Debouncer Advanced_Config Change_Detection Change_Correct Reconcilers Reconcilers_Correct
    Narrow_Cache Narrow_Cache_Correct TLS_Config Cluster_Info Cluster_Correct Operator_Config Net_Policy Net_Policy_Correct
    Volumes Loki_Config Flow_Metrics Flow_Metrics_Correct Metric_Status Metric_Status_Correct Otel_Config
    Helpers Pipeline Pipeline_Correct Pipeline_Outcome
    Api_Store Watchers Watchers_Correct Workloads FLP_Objects FLP_Objects_Correct
    Agent Agent_Correct Agent_Transport Agent_Controller Agent_Controller_Correct
    Alert_Rules Alert_Rules_Correct Subnet_Detection
    FLP_Informers FLP_Controller FLP_Cluster FLP_Controller_Correct FLP_Informers_Correct FLP_Parent FLP_Parent_Correct
begin

text \<open>
  \<^bold>\<open>The program.\<close> The NetObserv operator (\<open>src/\<close>) runs a network observability pipeline in a Kubernetes cluster. A user
  writes one FlowCollector resource, admitted by a validating webhook. Controllers then install and keep up to date the
  eBPF agents on every node, the processor (flowlogs-pipeline, as a daemon set that agents reach directly, or a deployment behind a service
  or a Kafka topic), its configuration, network policies, metrics and certificates. What each of them finds is recorded in a status
  manager, which publishes conditions and component statuses on the resource. FlowMetric and FlowCollectorSlice resources add metrics,
  filters and subnet labels. Around this the operator keeps information on the cluster (its APIs, versions and TLS profile), a cache of the few
  objects it reads by name, and a watcher that digests and copies the certificates that users refer to.

  \<^bold>\<open>How code is modelled.\<close> Structs are records and enums datatypes, with the names of the source; strings are lists of bytes; an int32 or
  uint16 is an \<open>int\<close> and its conversions wrap where the code converts; errors are values of a sum or of an option. Code that reads or writes
  the API server takes a world and gives back a world: a client is a record of operations on it, so that every order of
  calls and every early return is in the model. Pointers that can be nil are options, and a nil dereference that the code can reach is an
  error value. Iteration over a Go map takes the order as an argument, and no property assumes one.

  \<^bold>\<open>Theories and sources.\<close> \<open>Prelude\<close> has the Go operations on strings, slices and integers, and the collections of facts.
  Below, \<open>api\<close> is \<open>src/api\<close>, \<open>pkg\<close> is \<open>src/internal/pkg\<close> and \<open>ctl\<close> is \<open>src/internal/controller\<close>.

  \<^item> Resource and admission: \<open>FC_Types\<close> (\<open>api/flowcollector/v1beta2/flowcollector_types.go\<close>), \<open>FC_Helper\<close> (\<open>helper.go\<close>), \<open>Health_Rules\<close>
    (\<open>flowcollector_alert_types.go\<close>, \<open>flowcollector_defaults.go\<close>), \<open>Go_Net\<close> (the functions of Go's net packages that are called),
    \<open>FC_Validation\<close> (the webhook). \<open>Validation_Spec\<close> states what a valid resource is, as a contract of a validation pass, and \<open>Webhook_Correct\<close> shows
    that the webhook accepts exactly the valid ones, in any map order; \<open>Rules_Correct\<close> characterises the effective metrics and rules.
    \<open>TLS_Helper\<close> (\<open>pkg/helper/tls.go\<close>): the two ends of a connection agree.
  \<^item> Status: \<open>Component_Status\<close>, \<open>Pod_Health\<close>, \<open>Status_Manager\<close> (\<open>pkg/manager/status\<close>). \<open>Status_Correct\<close> treats the calls as a step relation and
    shows, for every run, that a failure stays until a reset and that a status is the worst one since; then what is published, and that retries
    publish it.
  \<^item> Slices and metrics: \<open>Slices\<close> (\<open>api/flowcollectorslice\<close>, \<open>pkg/slicesstatus\<close>, \<open>ctl/flp/slices\<close>), \<open>Flow_Metrics\<close>
    (\<open>pkg/metrics\<close>), \<open>Metric_Status\<close> (the FlowMetric webhook, cardinality, status), \<open>Otel_Config\<close>, each with its \<open>_Correct\<close> theory where there is one.
  \<^item> Cluster: \<open>Cluster_Info\<close> (\<open>pkg/cluster\<close>), \<open>TLS_Config\<close> and \<open>Restart_Debouncer\<close> (\<open>pkg/tlsconfig\<close>), \<open>Operator_Config\<close> (\<open>pkg/manager/config.go\<close>).
    The debouncer is a machine with time and any number of observers; start-up and refreshes are runs over a discovery that can fail.
  \<^item> Objects: \<open>Change_Detection\<close> (\<open>pkg/helper/comparators.go\<close>), \<open>Reconcilers\<close> (\<open>pkg/helper/client_helper.go\<close>, \<open>ctl/reconcilers\<close>),
    \<open>Narrow_Cache\<close> (\<open>pkg/narrowcache\<close>), \<open>Net_Policy\<close> (\<open>pkg/netpol\<close>, \<open>ctl/networkpolicy\<close>), \<open>Watchers\<close> (\<open>pkg/watchers\<close>),
    \<open>Volumes\<close>, \<open>Loki_Config\<close>, \<open>Helpers\<close>, \<open>Advanced_Config\<close> (\<open>pkg/volumes\<close>, \<open>pkg/helper\<close>). Shown: foreign objects are never written; comparisons explain
    themselves and settle; the cache is coherent in every interleaving of goroutines; policies let through what is meant and converge; copies of
    certificates follow their source.
  \<^item> Processor: \<open>Pipeline\<close> (\<open>ctl/flp/flp_pipeline_builder.go\<close>), \<open>Workloads\<close> and \<open>FLP_Objects\<close> (\<open>flp_common_objects.go\<close>, \<open>flp_monolith_objects.go\<close>,
    \<open>flp_transfo_objects.go\<close>). The stages form a tree with the expected paths; which configurations fail; a faulty custom metric is
    isolated; every file that the configuration names is mounted.
  \<^item> Processor controllers: \<open>Subnet_Detection\<close> (\<open>ctl/flp/detect_subnets.go\<close>), \<open>FLP_Informers\<close> (\<open>flp_informer_builder.go\<close>), \<open>FLP_Controller\<close>
    (\<open>flp_monolith_reconciler.go\<close>, \<open>flp_transfo_reconciler.go\<close>, \<open>flp_informer_reconciler.go\<close>), \<open>FLP_Parent\<close> (\<open>flp_controller.go\<close>). \<open>FLP_Cluster\<close> is a
    cluster with a store for every kind of object. \<open>FLP_Controller_Correct\<close>: parts that are not used are removed and nothing else changes, and service accounts have exactly
    the cluster roles they need; \<open>FLP_Parent_Correct\<close>: a failure is reported under the right component, and only the processor's statuses change;
    \<open>FLP_Informers_Correct\<close>: informers and processors agree on pods, port and TLS; \<open>Subnet_Detection\<close>: addresses of API servers are always labelled.
  \<^item> Agents: \<open>Agent\<close> (\<open>desired\<close> and \<open>envConfig\<close> of \<open>ctl/ebpf/agent_controller.go\<close>, volumes, metrics) and \<open>Agent_Controller\<close> (\<open>permissions.go\<close>, \<open>bpfmanager-controller.go\<close>,
    the reconciliation). \<open>Agent_Correct\<close>: variables of the user take effect; \<open>Agent_Transport\<close>: agents send where the processor listens;
    \<open>Agent_Controller_Correct\<close>: the security constraints admit the pods, and failures are reported.
  \<^item> Alerts: \<open>Alert_Rules\<close> (\<open>pkg/metrics/alerts\<close>, \<open>fillHealthData\<close> of \<open>ctl/consoleplugin\<close>). For accepted rules the severities do not overlap, the
    built-in queries use metrics and labels that the pipeline produces, and the console knows the recordings.

  Interfaces are locales, interpreted on the model: the contract of validation passes, of status changes, of comparisons that report, of
  the functions that add stages to a pipeline and of those that mount the files they name, of a store inside a larger state, of a step that writes
  the status of its own component only. \<open>Api_Store\<close> gives a concrete API server on which the convergence
  results and the witnesses run; \<open>Samples\<close> has the zero values of the structs.

  \<^bold>\<open>Parameters.\<close> What is not under \<open>src/\<close> or cannot be computed is an argument: the API server, the discovery and the live client; the
  semantic-version library; the tables of crypto/tls and of the OpenShift API; clock and context; the parser of the filter language; ParseFloat; the YAML
  encoder; the arithmetic of resource quantities; the defaults of the resource definitions; embedded tables other than the Loki labels; texts of
  errors and warnings; the Go values that comparisons reflect on; the byte order of the machine. Named hypotheses state what is relied on, and each
  property with hypotheses has a witness at concrete arguments.

  \<^bold>\<open>Bounds.\<close> The status update makes at most four attempts and start-up at most six, as the back-offs of the code say; both are counted, no fuel is
  added. The parsers of addresses recurse on the rest of the string or on a decreasing measure. Ports wrap at sixteen bits and replica
  counts at thirty-two where the code converts; the digests of the watchers and of configurations are computed at 32 and 64 bits.

  \<^bold>\<open>Not modelled.\<close> The objects and the reconciliation of the console plugin other than \<open>fillHealthData\<close>, and the generated dashboards, which are mostly presentation; the
  controllers for the Loki demo, the LokiStack status, monitoring and static objects; watch registration, start-up, role manifests
  and the migration of stored versions, which configure libraries that are not part of the repository; generated code, tests and tools. Logging
  is left out everywhere. Goroutines interleave in the models of the cache and of the debouncer; elsewhere a method is one step.
\<close>

end
